(* ===== verification/Orvex_Prelude.thy ===== *)
theory Orvex_Prelude
  imports Main
begin

text \<open>
  Shared vocabulary of the development.

  \<^item> Effects. A service method that reads and writes the database and may throw is an
    \<open>op\<close>: a function from the state to an outcome (\<open>Inl\<close> the error, \<open>Inr\<close> the
    returned value) and the state it leaves. \<open>transaction\<close> is Prisma's interactive
    transaction: an error rolls the state back to what it was at entry.
  \<^item> Tables. A table is the list of its rows in creation order; \<open>find\<close> of the library
    is \<open>findFirst\<close>, \<open>filter\<close> is \<open>findMany\<close> and \<open>update_where\<close> is \<open>update\<close> /
    \<open>updateMany\<close>.
  \<^item> JavaScript's truthiness of optional strings (\<open>truthy\<close>), \<open>??\<close> (\<open>nullish\<close>)
    and \<open>Array.includes\<close> (\<open>arr_includes\<close>).
\<close>

named_theorems op_defs \<open>unfolding rules of the operation combinators\<close>
named_theorems table_simps \<open>facts on rows, lookups and updates of tables\<close>

section \<open>Operations that may throw\<close>

type_synonym ('s, 'e, 'a) op = "'s \<Rightarrow> ('e + 'a) \<times> 's"

definition transaction :: "('s, 'e, 'a) op \<Rightarrow> ('s, 'e, 'a) op" where
  "transaction m s = (case m s of (Inl e, s') \<Rightarrow> (Inl e, s) | (Inr a, s') \<Rightarrow> (Inr a, s'))"

lemma transaction_Inr [op_defs]: "transaction m s = (Inr a, s') \<longleftrightarrow> m s = (Inr a, s')"
  by (auto simp: transaction_def split: prod.splits sum.splits)

lemma transaction_Inl [op_defs]:
  "transaction m s = (Inl e, s') \<longleftrightarrow> (\<exists>t. m s = (Inl e, t)) \<and> s' = s"
  by (auto simp: transaction_def split: prod.splits sum.splits)

lemma transaction_rollback: "fst (transaction m s) = Inl e \<Longrightarrow> snd (transaction m s) = s"
  by (auto simp: transaction_def split: prod.splits sum.splits)

lemma transaction_cases:
  assumes "transaction m s = (r, s')"
  obtains (rolled_back) e where "r = Inl e" "s' = s"
    | (committed) a where "r = Inr a" "m s = (Inr a, s')"
  using assms by (auto simp: transaction_def split: prod.splits sum.splits)

text \<open>A property that the body keeps whenever it returns is kept by the transaction.\<close>

lemma transaction_preserves:
  assumes "P s" and "\<And>a s'. m s = (Inr a, s') \<Longrightarrow> P s'"
  shows "P (snd (transaction m s))"
  using assms by (auto simp: transaction_def split: prod.splits sum.splits)

section \<open>Tables as lists of rows\<close>

definition update_where :: "('r \<Rightarrow> bool) \<Rightarrow> ('r \<Rightarrow> 'r) \<Rightarrow> 'r list \<Rightarrow> 'r list" where
  "update_where P f rows = map (\<lambda>r. if P r then f r else r) rows"

lemma update_where_Nil [simp]: "update_where P f [] = []"
  by (simp add: update_where_def)

lemma update_where_Cons [simp]:
  "update_where P f (r # rows) = (if P r then f r else r) # update_where P f rows"
  by (simp add: update_where_def)

lemma length_update_where [simp]: "length (update_where P f rows) = length rows"
  by (simp add: update_where_def)

lemma map_update_where_same [table_simps]:
  "(\<And>r. g (f r) = g r) \<Longrightarrow> map g (update_where P f rows) = map g rows"
  by (simp add: update_where_def)

lemma set_update_where [table_simps]:
  "set (update_where P f rows) = f ` {r \<in> set rows. P r} \<union> {r \<in> set rows. \<not> P r}"
  by (auto simp: update_where_def)

lemma in_update_where:
  "r' \<in> set (update_where P f rows) \<longleftrightarrow>
     (\<exists>r \<in> set rows. r' = (if P r then f r else r))"
  by (auto simp: update_where_def)

lemma find_SomeD: "find P xs = Some x \<Longrightarrow> x \<in> set xs \<and> P x"
  by (auto simp: find_Some_iff)

lemma find_NoneD: "find P xs = None \<Longrightarrow> x \<in> set xs \<Longrightarrow> \<not> P x"
  by (auto simp: find_None_iff)

lemma find_key_unique:
  assumes "distinct (map key rows)" and "r \<in> set rows" and "key r = k"
  shows "find (\<lambda>x. key x = k) rows = Some r"
  using assms
proof (induction rows)
  case Nil
  then show ?case by simp
next
  case (Cons y rows)
  then show ?case by (cases "key y = k") (auto simp: image_iff)
qed

lemma key_unique:
  "distinct (map key rows) \<Longrightarrow> x \<in> set rows \<Longrightarrow> y \<in> set rows \<Longrightarrow> key x = key y \<Longrightarrow> x = y"
  by (auto simp: distinct_map dest: inj_onD)

lemma find_update_where_key:
  assumes "distinct (map key rows)" and "r \<in> set rows" and "key r = k"
    and "\<And>x. key (f x) = key x"
  shows "find (\<lambda>x. key x = k) (update_where (\<lambda>x. key x = k) f rows) = Some (f r)"
proof (rule find_key_unique)
  show "distinct (map key (update_where (\<lambda>x. key x = k) f rows))"
    using assms(1,4) by (simp add: map_update_where_same)
  show "f r \<in> set (update_where (\<lambda>x. key x = k) f rows)"
    using assms(2,3) by (auto simp: set_update_where)
  show "key (f r) = k" using assms(3,4) by simp
qed

text \<open>
  The sum of a measure over a table whose key is unique changes by exactly the change of the
  row updated: the lemma behind every balance of the ledger.
\<close>

lemma sum_list_update_where_absent:
  "(\<And>r. r \<in> set rows \<Longrightarrow> \<not> P r) \<Longrightarrow>
     sum_list (map g (update_where P f rows)) = sum_list (map g rows)"
  by (induction rows) auto

lemma sum_list_update_key:
  fixes g :: "'r \<Rightarrow> 'n :: ab_group_add"
  assumes "distinct (map key rows)" and "r \<in> set rows" and "key r = k"
  shows "sum_list (map g (update_where (\<lambda>x. key x = k) f rows))
           = sum_list (map g rows) - g r + g (f r)"
  using assms
proof (induction rows)
  case Nil
  then show ?case by simp
next
  case (Cons y rows)
  show ?case
  proof (cases "key y = k")
    case True
    with Cons.prems have "y = r" by (auto simp: image_iff)
    moreover have "\<And>x. x \<in> set rows \<Longrightarrow> key x \<noteq> k"
      using Cons.prems(1) True by (auto simp: image_iff)
    ultimately show ?thesis
      using True by (simp add: sum_list_update_where_absent)
  next
    case False
    with Cons show ?thesis by (auto simp: algebra_simps)
  qed
qed

section \<open>JavaScript idioms\<close>

definition arr_includes :: "'a list \<Rightarrow> 'a \<Rightarrow> bool" where
  "arr_includes xs x \<longleftrightarrow> x \<in> set xs"

definition nullish :: "'a option \<Rightarrow> 'a \<Rightarrow> 'a" where
  "nullish v d = (case v of None \<Rightarrow> d | Some x \<Rightarrow> x)"

definition truthy :: "string option \<Rightarrow> bool" where
  "truthy v = (case v of None \<Rightarrow> False | Some s \<Rightarrow> s \<noteq> [])"

definition or_else :: "'a option \<Rightarrow> 'a option \<Rightarrow> 'a option" where
  "or_else v w = (case v of None \<Rightarrow> w | Some x \<Rightarrow> Some x)"

lemma arr_includes_iff [simp]: "arr_includes xs x \<longleftrightarrow> x \<in> set xs"
  by (simp add: arr_includes_def)

lemma nullish_simps [simp]: "nullish None d = d" "nullish (Some x) d = x"
  by (simp_all add: nullish_def)

lemma truthy_simps [simp]: "\<not> truthy None" "truthy (Some s) \<longleftrightarrow> s \<noteq> []"
  by (simp_all add: truthy_def)

lemma truthy_obtain: "truthy v \<Longrightarrow> (\<And>s. v = Some s \<Longrightarrow> s \<noteq> [] \<Longrightarrow> thesis) \<Longrightarrow> thesis"
  by (auto simp: truthy_def split: option.splits)

lemma or_else_simps [simp]: "or_else None w = w" "or_else (Some x) w = Some x"
  by (simp_all add: or_else_def)

text \<open>\<open>String.trim\<close> on the white space the sources can meet.\<close>

definition is_space :: "char \<Rightarrow> bool" where
  "is_space c \<longleftrightarrow> c \<in> {CHR '' '', CHR 0x09, CHR 0x0A, CHR 0x0B, CHR 0x0C, CHR 0x0D, CHR 0xA0}"

definition trim :: "string \<Rightarrow> string" where
  "trim s = rev (dropWhile is_space (rev (dropWhile is_space s)))"

definition is_digit :: "char \<Rightarrow> bool" where
  "is_digit c \<longleftrightarrow> 48 \<le> (of_char c :: nat) \<and> (of_char c :: nat) \<le> 57"

definition to_lower_char :: "char \<Rightarrow> char" where
  "to_lower_char c = (if 65 \<le> (of_char c :: nat) \<and> (of_char c :: nat) \<le> 90
     then char_of ((of_char c :: nat) + 32) else c)"

definition to_lower :: "string \<Rightarrow> string" where
  "to_lower = map to_lower_char"

section \<open>Decimal numerals\<close>

definition digit_char :: "nat \<Rightarrow> char" where
  "digit_char n = char_of (48 + n)"

fun show_nat :: "nat \<Rightarrow> string" where
  "show_nat n = (if n < 10 then [digit_char n] else show_nat (n div 10) @ [digit_char (n mod 10)])"

declare show_nat.simps [simp del]

definition show_int :: "int \<Rightarrow> string" where
  "show_int i = (if i < 0 then CHR ''-'' # show_nat (nat (- i)) else show_nat (nat i))"

definition all_digits :: "string \<Rightarrow> bool" where
  "all_digits s \<longleftrightarrow> s \<noteq> [] \<and> list_all is_digit s"

definition digit_value :: "char \<Rightarrow> nat" where
  "digit_value c = of_char c - 48"

definition digits_value :: "string \<Rightarrow> nat" where
  "digits_value s = foldl (\<lambda>n c. n * 10 + digit_value c) 0 s"

lemma of_digit_char: "n < 10 \<Longrightarrow> of_char (digit_char n) = (48 + n :: nat)"
  by (simp add: digit_char_def)

lemma digit_char_inj: "m < 10 \<Longrightarrow> n < 10 \<Longrightarrow> digit_char m = digit_char n \<longleftrightarrow> m = n"
  by (metis add_left_cancel of_digit_char)

lemma digit_char_in: "n < 10 \<Longrightarrow> is_digit (digit_char n)"
  by (simp add: is_digit_def of_digit_char)

lemma show_nat_digits: "c \<in> set (show_nat n) \<Longrightarrow> is_digit c"
proof (induction n rule: show_nat.induct)
  case (1 n)
  then show ?case
    by (cases "n < 10") (auto simp: show_nat.simps [of n] digit_char_in)
qed

lemma show_nat_nonempty [simp]: "show_nat n \<noteq> []"
  by (simp add: show_nat.simps [of n])

lemma show_nat_inj: "show_nat m = show_nat n \<Longrightarrow> m = n"
proof (induction m arbitrary: n rule: show_nat.induct)
  case (1 m)
  show ?case
  proof (cases "m < 10")
    case True
    then show ?thesis
      using "1.prems"
      by (cases "n < 10") (auto simp: show_nat.simps [of m] show_nat.simps [of n] digit_char_inj
        dest: sym [of "[]"])
  next
    case m: False
    show ?thesis
    proof (cases "n < 10")
      case True
      then show ?thesis
        using "1.prems" m by (simp add: show_nat.simps [of m] show_nat.simps [of n])
    next
      case False
      then have "show_nat (m div 10) = show_nat (n div 10)" "m mod 10 = n mod 10"
        using "1.prems" m
        by (simp_all add: show_nat.simps [of m] show_nat.simps [of n] digit_char_inj)
      moreover from this have "m div 10 = n div 10" using "1.IH" m by blast
      ultimately show ?thesis by (metis div_mult_mod_eq)
    qed
  qed
qed

lemma show_int_inj: "show_int i = show_int j \<Longrightarrow> i = j"
proof -
  have neg: "show_nat k \<noteq> CHR ''-'' # t" for k t
    using show_nat_digits [of "CHR ''-''" k] by (auto simp: is_digit_def)
  assume "show_int i = show_int j"
  then show ?thesis
    using neg neg [symmetric] by (auto simp: show_int_def split: if_splits dest!: show_nat_inj)
qed

lemma show_int_chars: "c \<in> set (show_int i) \<Longrightarrow> is_digit c \<or> c = CHR ''-''"
  using show_nat_digits by (auto simp: show_int_def split: if_splits)

lemma digits_value_snoc: "digits_value (s @ [c]) = digits_value s * 10 + digit_value c"
  by (simp add: digits_value_def)

lemma digits_value_show_nat [simp]: "digits_value (show_nat n) = n"
proof (induction n rule: show_nat.induct)
  case (1 n)
  show ?case
  proof (cases "n < 10")
    case True
    then show ?thesis
      by (simp add: show_nat.simps [of n] digits_value_def digit_value_def of_digit_char)
  next
    case False
    with 1 have "digits_value (show_nat (n div 10)) = n div 10" by blast
    with False show ?thesis
      by (simp add: show_nat.simps [of n] digits_value_snoc digit_value_def of_digit_char)
  qed
qed

lemma all_digits_show_nat [simp]: "all_digits (show_nat n)"
  using show_nat_digits by (auto simp: all_digits_def list_all_iff)

section \<open>Sums and traversals\<close>

fun traverse :: "('a \<Rightarrow> 'e + 'b) \<Rightarrow> 'a list \<Rightarrow> 'e + 'b list" where
  "traverse f [] = Inr []"
| "traverse f (x # xs) = (case f x of Inl e \<Rightarrow> Inl e
     | Inr y \<Rightarrow> (case traverse f xs of Inl e \<Rightarrow> Inl e | Inr ys \<Rightarrow> Inr (y # ys)))"

lemma traverse_Inr_iff: "traverse f xs = Inr ys \<longleftrightarrow> list_all2 (\<lambda>x y. f x = Inr y) xs ys"
proof (induction xs arbitrary: ys)
  case Nil
  then show ?case by auto
next
  case (Cons x xs)
  show ?case
    by (cases "f x"; cases "traverse f xs"; cases ys) (auto simp: Cons.IH [symmetric])
qed

lemma traverse_Inr_all:
  assumes "traverse f xs = Inr ys"
  shows "(\<forall>y \<in> set ys. Q y) \<longleftrightarrow> (\<forall>x \<in> set xs. \<forall>y. f x = Inr y \<longrightarrow> Q y)"
  using assms by (induction xs arbitrary: ys) (auto split: sum.splits)

lemma traverse_Inr_ex:
  assumes "traverse f xs = Inr ys"
  shows "(\<exists>y \<in> set ys. Q y) \<longleftrightarrow> (\<exists>x \<in> set xs. \<exists>y. f x = Inr y \<and> Q y)"
  using assms by (induction xs arbitrary: ys) (auto split: sum.splits)

lemma traverse_total: "(\<exists>ys. traverse f xs = Inr ys) \<longleftrightarrow> (\<forall>x \<in> set xs. \<exists>y. f x = Inr y)"
  by (induction xs) (auto split: sum.splits)

definition from_option :: "'e \<Rightarrow> 'a option \<Rightarrow> 'e + 'a" where
  "from_option e v = (case v of None \<Rightarrow> Inl e | Some x \<Rightarrow> Inr x)"

lemma from_option_Inr [simp]: "from_option e v = Inr x \<longleftrightarrow> v = Some x"
  by (simp add: from_option_def split: option.splits)

lemma from_option_Inl [simp]: "from_option e v = Inl e' \<longleftrightarrow> v = None \<and> e' = e"
  by (auto simp: from_option_def split: option.splits)

definition and_then :: "'e + 'a \<Rightarrow> ('a \<Rightarrow> 'e + 'b) \<Rightarrow> 'e + 'b" where
  "and_then r k = (case r of Inl e \<Rightarrow> Inl e | Inr x \<Rightarrow> k x)"

lemma and_then_simps [simp]: "and_then (Inl e) k = Inl e" "and_then (Inr x) k = k x"
  by (simp_all add: and_then_def)

lemma and_then_Inr_iff: "and_then r k = Inr y \<longleftrightarrow> (\<exists>x. r = Inr x \<and> k x = Inr y)"
  by (cases r) simp_all

section \<open>Reachable states and invariants\<close>

inductive reachable :: "('s \<Rightarrow> bool) \<Rightarrow> ('s \<Rightarrow> 's \<Rightarrow> bool) \<Rightarrow> 's \<Rightarrow> bool"
  for init step where
  reachable_init: "init s \<Longrightarrow> reachable init step s"
| reachable_step: "reachable init step s \<Longrightarrow> step s t \<Longrightarrow> reachable init step t"

lemma reachable_rtranclp: "step\<^sup>*\<^sup>* s t \<Longrightarrow> reachable init step s \<Longrightarrow> reachable init step t"
  by (induction rule: rtranclp_induct) (auto intro: reachable_step)

text \<open>
  The contract between a component and whoever relies on its invariant: every initial state has
  it and every step keeps it.
\<close>

locale invariant_system =
  fixes init :: "'s \<Rightarrow> bool" and step :: "'s \<Rightarrow> 's \<Rightarrow> bool" and inv :: "'s \<Rightarrow> bool"
  assumes init_inv: "init s \<Longrightarrow> inv s"
    and step_inv: "inv s \<Longrightarrow> step s t \<Longrightarrow> inv t"
begin

lemma reachable_inv: "reachable init step s \<Longrightarrow> inv s"
  by (induction rule: reachable.induct) (auto intro: init_inv step_inv)

lemma steps_inv: "step\<^sup>*\<^sup>* s t \<Longrightarrow> inv s \<Longrightarrow> inv t"
  by (induction rule: rtranclp_induct) (auto intro: step_inv)

end

end
