(* ===== verification/Core_Errors.thy ===== *)
theory Core_Errors
  imports Orvex_Prelude
begin

text \<open>
  The error taxonomy of Core (Backend/src/shared/errors): the error codes, the HTTP status and
  the retry hint of each, the severity levels with their order, and the construction of a
  \<open>CoreError\<close> from a code and its options. The services of the later theories throw an
  \<open>error_code\<close>; messages and details are for humans and are left out.
\<close>

datatype error_code =
    INVALID_INPUT | SCHEMA_ERROR | AUTHENTICATION_ERROR | AUTHORIZATION_ERROR
  | TENANT_ERROR | AGENT_NOT_FOUND | AGENT_INACTIVE | INTENT_INVALID
  | INTENT_EXPIRED | PROPOSAL_INVALID | CAPABILITY_INVALID | CAPABILITY_EXPIRED
  | POLICY_INVALID | POLICY_CONFLICT | POLICY_VIOLATION | SECURITY_ASSESSMENT_INVALID
  | SECURITY_ASSESSMENT_STALE | INSUFFICIENT_EVIDENCE | TRANSACTION_INVALID | TRANSACTION_MISMATCH
  | SIMULATION_FAILED | SIMULATION_STALE | APPROVAL_REQUIRED | APPROVAL_NOT_FOUND
  | APPROVAL_EXPIRED | APPROVAL_MISMATCH | APPROVAL_DENIED | DECISION_STALE
  | EXECUTION_BLOCKED | EXECUTION_FAILED | EXECUTION_UNKNOWN | RECEIPT_MISMATCH
  | CONCURRENCY_CONFLICT | IDEMPOTENCY_CONFLICT | PROVIDER_ERROR | TIMEOUT
  | NOT_FOUND | CONFLICT | RATE_LIMITED | CONFIGURATION_ERROR
  | INTERNAL_ERROR

datatype error_severity = SEV_LOW | SEV_MEDIUM | SEV_HIGH | SEV_CRITICAL

fun error_http_status :: "error_code \<Rightarrow> nat" where
  "error_http_status INVALID_INPUT = 400"
| "error_http_status SCHEMA_ERROR = 422"
| "error_http_status AUTHENTICATION_ERROR = 401"
| "error_http_status AUTHORIZATION_ERROR = 403"
| "error_http_status TENANT_ERROR = 403"
| "error_http_status AGENT_NOT_FOUND = 404"
| "error_http_status AGENT_INACTIVE = 409"
| "error_http_status INTENT_INVALID = 422"
| "error_http_status INTENT_EXPIRED = 409"
| "error_http_status PROPOSAL_INVALID = 422"
| "error_http_status CAPABILITY_INVALID = 422"
| "error_http_status CAPABILITY_EXPIRED = 409"
| "error_http_status POLICY_INVALID = 422"
| "error_http_status POLICY_CONFLICT = 409"
| "error_http_status POLICY_VIOLATION = 403"
| "error_http_status SECURITY_ASSESSMENT_INVALID = 422"
| "error_http_status SECURITY_ASSESSMENT_STALE = 409"
| "error_http_status INSUFFICIENT_EVIDENCE = 422"
| "error_http_status TRANSACTION_INVALID = 422"
| "error_http_status TRANSACTION_MISMATCH = 409"
| "error_http_status SIMULATION_FAILED = 422"
| "error_http_status SIMULATION_STALE = 409"
| "error_http_status APPROVAL_REQUIRED = 403"
| "error_http_status APPROVAL_NOT_FOUND = 404"
| "error_http_status APPROVAL_EXPIRED = 409"
| "error_http_status APPROVAL_MISMATCH = 409"
| "error_http_status APPROVAL_DENIED = 403"
| "error_http_status DECISION_STALE = 409"
| "error_http_status EXECUTION_BLOCKED = 403"
| "error_http_status EXECUTION_FAILED = 502"
| "error_http_status EXECUTION_UNKNOWN = 502"
| "error_http_status RECEIPT_MISMATCH = 409"
| "error_http_status CONCURRENCY_CONFLICT = 409"
| "error_http_status IDEMPOTENCY_CONFLICT = 409"
| "error_http_status PROVIDER_ERROR = 502"
| "error_http_status TIMEOUT = 504"
| "error_http_status NOT_FOUND = 404"
| "error_http_status CONFLICT = 409"
| "error_http_status RATE_LIMITED = 429"
| "error_http_status CONFIGURATION_ERROR = 500"
| "error_http_status INTERNAL_ERROR = 500"

definition error_retryable :: "error_code \<Rightarrow> bool option" where
  "error_retryable c =
     (case c of
        TIMEOUT \<Rightarrow> Some True
      | RATE_LIMITED \<Rightarrow> Some True
      | PROVIDER_ERROR \<Rightarrow> Some True
      | EXECUTION_UNKNOWN \<Rightarrow> Some False
      | CONCURRENCY_CONFLICT \<Rightarrow> Some True
      | _ \<Rightarrow> None)"

record core_error_options =
  opt_severity :: "error_severity option"
  opt_retryable :: "bool option"
  opt_http_status :: "nat option"

record core_error =
  err_code :: error_code
  err_severity :: error_severity
  err_retryable :: bool
  err_http_status :: nat

definition default_options :: core_error_options where
  "default_options = \<lparr>opt_severity = None, opt_retryable = None, opt_http_status = None\<rparr>"

definition core_error_of :: "error_code \<Rightarrow> core_error_options \<Rightarrow> core_error" where
  "core_error_of c opts =
     \<lparr>err_code = c,
      err_severity = nullish (opt_severity opts) SEV_MEDIUM,
      err_retryable = nullish (or_else (opt_retryable opts) (error_retryable c)) False,
      err_http_status = nullish (opt_http_status opts) (error_http_status c)\<rparr>"

lemma error_http_status_range: "400 \<le> error_http_status c \<and> error_http_status c < 600"
  by (cases c) simp_all

lemma execution_unknown_not_retryable:
  "\<not> err_retryable (core_error_of EXECUTION_UNKNOWN default_options)"
  by (simp add: core_error_of_def default_options_def error_retryable_def)

end
