(* ===== verification/Core_Config.thy ===== *)
theory Core_Config
  imports Core_Errors Complex_Main "HOL-Library.Sublist"
begin

text \<open>
  Configuration of Core (Backend/src/config): the coercions of the schema, the checks required
  for the mode, the loader that refuses to start, and the redacted view. The environment is the
  partial map of the process environment; which texts are URLs is a parameter.
\<close>

section \<open>Numbers in JavaScript\<close>

text \<open>
  \<open>Number\<close> of a text: exact rationals for finite numerals (the rounding to a double is left
  out), signed infinities, and NaN for every other text.
\<close>

datatype js_number = Js_NaN | Js_infinite bool | Js_finite rat

definition signed_digits :: "string \<Rightarrow> int option" where
  "signed_digits s =
     (let u = (if take 1 s = ''-'' \<or> take 1 s = ''+'' then drop 1 s else s)
      in if all_digits u then Some (if take 1 s = ''-'' then - int (digits_value u) else int (digits_value u)) else None)"

definition unsigned_number :: "string \<Rightarrow> rat option" where
  "unsigned_number s =
     (let m = takeWhile (\<lambda>c. c \<noteq> CHR ''e'' \<and> c \<noteq> CHR ''E'') s;
          x = drop (length m) s;
          i = takeWhile (\<lambda>c. c \<noteq> CHR ''.'') m;
          f = drop (Suc (length i)) m;
          e = (if x = [] then Some 0 else signed_digits (drop 1 x))
      in if list_all is_digit i \<and> list_all is_digit f \<and> i @ f \<noteq> [] \<and> e \<noteq> None
         then Some (of_nat (digits_value (i @ f)) * 10 powi (the e - int (length f))) else None)"

definition radix_digit :: "nat \<Rightarrow> char \<Rightarrow> nat option" where
  "radix_digit base c =
     (let d = (if is_digit c then digit_value c else of_char (to_lower_char c) - 87)
      in if (is_digit c \<or> (97 \<le> (of_char (to_lower_char c) :: nat) \<and> (of_char (to_lower_char c) :: nat) \<le> 102)) \<and> d < base
         then Some d else None)"

definition radix_number :: "nat \<Rightarrow> string \<Rightarrow> rat option" where
  "radix_number base s =
     (if s \<noteq> [] \<and> list_all (\<lambda>c. radix_digit base c \<noteq> None) s
      then Some (of_nat (foldl (\<lambda>n c. n * base + the (radix_digit base c)) 0 s)) else None)"

definition to_number :: "string \<Rightarrow> js_number" where
  "to_number s =
     (let t = trim s;
          neg = (take 1 t = ''-'');
          u = (if neg \<or> take 1 t = ''+'' then drop 1 t else t);
          finite_or_nan = (\<lambda>v. case v of None \<Rightarrow> Js_NaN | Some q \<Rightarrow> Js_finite q)
      in if t = [] then Js_finite 0
         else if u = ''Infinity'' then Js_infinite neg
         else if to_lower (take 2 t) = ''0x'' then finite_or_nan (radix_number 16 (drop 2 t))
         else if to_lower (take 2 t) = ''0o'' then finite_or_nan (radix_number 8 (drop 2 t))
         else if to_lower (take 2 t) = ''0b'' then finite_or_nan (radix_number 2 (drop 2 t))
         else finite_or_nan (map_option (\<lambda>q. if neg then - q else q) (unsigned_number u)))"

section \<open>Schema\<close>

datatype core_environment = ENV_local | ENV_ci | ENV_test | ENV_testnet | ENV_production

definition CORE_ENVIRONMENTS :: "(string \<times> core_environment) list" where
  "CORE_ENVIRONMENTS = [(''local'', ENV_local), (''ci'', ENV_ci), (''test'', ENV_test), (''testnet'', ENV_testnet),
     (''production'', ENV_production)]"

definition EXECUTION_MODES :: "string list" where
  "EXECUTION_MODES = [''SIMULATE'', ''REVIEW_ONLY'', ''TESTNET'', ''AUTONOMOUS'']"

definition LOG_LEVELS :: "string list" where
  "LOG_LEVELS = [''debug'', ''info'', ''warn'', ''error'']"

definition SECRET_CONFIG_KEYS :: "string list" where
  "SECRET_CONFIG_KEYS = [''databaseUrl'', ''redisUrl'', ''internalServiceToken'', ''otelExporterHeaders'']"

record core_config =
  cg_environment :: core_environment
  cg_port :: int
  cg_log_level :: string
  cg_service_name :: string
  cg_version :: string
  cg_database_url :: "string option"
  cg_redis_url :: "string option"
  cg_ai_service_url :: "string option"
  cg_execution_service_url :: "string option"
  cg_internal_service_token :: "string option"
  cg_network :: string
  cg_execution_mode :: string
  cg_allow_mainnet :: bool
  cg_otel_enabled :: bool
  cg_otel_exporter_endpoint :: "string option"
  cg_otel_exporter_headers :: "string option"

type_synonym env = "string \<rightharpoonup> string"

text \<open>One field of the schema: \<open>None\<close> is a validation issue; defaults replace undefined only.\<close>

definition enum_field :: "string list \<Rightarrow> string \<Rightarrow> string option \<Rightarrow> string option" where
  "enum_field values d v = (case v of None \<Rightarrow> Some d | Some s \<Rightarrow> if s \<in> set values then Some s else None)"

definition environment_field :: "string option \<Rightarrow> core_environment option" where
  "environment_field v = (case v of None \<Rightarrow> Some ENV_local | Some s \<Rightarrow> map_of CORE_ENVIRONMENTS s)"

definition port_field :: "string option \<Rightarrow> int option" where
  "port_field v =
     (case v of
        None \<Rightarrow> Some 8090
      | Some s \<Rightarrow>
         (case to_number s of
            Js_finite q \<Rightarrow> if q \<in> \<int> \<and> 1 \<le> q \<and> q \<le> 65535 then Some \<lfloor>q\<rfloor> else None
          | _ \<Rightarrow> None))"

definition non_empty_field :: "string option \<Rightarrow> string option option" where
  "non_empty_field v = (case v of None \<Rightarrow> Some None | Some s \<Rightarrow> if s = [] then None else Some (Some s))"

definition url_field :: "(string \<Rightarrow> bool) \<Rightarrow> string option \<Rightarrow> string option option" where
  "url_field is_url v =
     (case v of None \<Rightarrow> Some None | Some s \<Rightarrow> if is_url s then Some (Some s) else if s = [] then Some None else None)"

text \<open>\<open>z.coerce.boolean()\<close> is \<open>Boolean(value)\<close>: every non-empty text is true.\<close>

definition coerce_boolean :: "string option \<Rightarrow> bool" where
  "coerce_boolean v = truthy v"

definition parse_config :: "(string \<Rightarrow> bool) \<Rightarrow> env \<Rightarrow> core_config option" where
  "parse_config is_url env =
     Option.bind (environment_field (env ''CORE_ENV'')) (\<lambda>environment.
     Option.bind (port_field (env ''PORT'')) (\<lambda>port.
     Option.bind (enum_field LOG_LEVELS ''info'' (env ''LOG_LEVEL'')) (\<lambda>log_level.
     Option.bind (non_empty_field (env ''DATABASE_URL'')) (\<lambda>database_url.
     Option.bind (non_empty_field (env ''REDIS_URL'')) (\<lambda>redis_url.
     Option.bind (url_field is_url (env ''AI_SERVICE_URL'')) (\<lambda>ai_service_url.
     Option.bind (url_field is_url (env ''EXECUTION_SERVICE_URL'')) (\<lambda>execution_service_url.
     Option.bind (non_empty_field (env ''INTERNAL_SERVICE_TOKEN'')) (\<lambda>token.
     Option.bind (enum_field EXECUTION_MODES ''SIMULATE'' (env ''EXECUTION_MODE'')) (\<lambda>execution_mode.
     Option.bind (url_field is_url (env ''OTEL_EXPORTER_OTLP_ENDPOINT'')) (\<lambda>otel_endpoint.
       Some \<lparr> cg_environment = environment, cg_port = port, cg_log_level = log_level,
              cg_service_name = nullish (env ''SERVICE_NAME'') ''sentinel-core'',
              cg_version = nullish (env ''SERVICE_VERSION'') ''0.1.0'',
              cg_database_url = database_url, cg_redis_url = redis_url,
              cg_ai_service_url = ai_service_url, cg_execution_service_url = execution_service_url,
              cg_internal_service_token = token,
              cg_network = nullish (env ''CORE_NETWORK'') ''base-sepolia'', cg_execution_mode = execution_mode,
              cg_allow_mainnet = coerce_boolean (env ''ALLOW_MAINNET''),
              cg_otel_enabled = coerce_boolean (env ''OTEL_ENABLED''),
              cg_otel_exporter_endpoint = otel_endpoint,
              cg_otel_exporter_headers = env ''OTEL_EXPORTER_OTLP_HEADERS'' \<rparr>))))))))))"

section \<open>Loader\<close>

datatype configuration_error = Invalid_configuration | Missing_configuration "string list"

definition is_strict :: "core_environment \<Rightarrow> bool" where
  "is_strict e \<longleftrightarrow> e = ENV_production \<or> e = ENV_testnet"

definition validate_required_for_mode :: "core_config \<Rightarrow> string list" where
  "validate_required_for_mode c =
     (if is_strict (cg_environment c)
      then (if \<not> truthy (cg_database_url c) then [''DATABASE_URL''] else [])
         @ (if \<not> truthy (cg_redis_url c) then [''REDIS_URL''] else [])
      else [])
   @ (if cg_environment c = ENV_production
      then (if \<not> truthy (cg_internal_service_token c) then [''INTERNAL_SERVICE_TOKEN''] else [])
         @ (if cg_otel_enabled c \<and> \<not> truthy (cg_otel_exporter_endpoint c) then [''OTEL_EXPORTER_OTLP_ENDPOINT''] else [])
         @ (if cg_allow_mainnet c \<and> sublist ''sepolia'' (cg_network c) then [''CORE_NETWORK''] else [])
      else [])"

definition load_config :: "(string \<Rightarrow> bool) \<Rightarrow> env \<Rightarrow> configuration_error + core_config" where
  "load_config is_url env =
     (case parse_config is_url env of
        None \<Rightarrow> Inl Invalid_configuration
      | Some c \<Rightarrow>
          if length (validate_required_for_mode c) > 0 then Inl (Missing_configuration (validate_required_for_mode c))
          else Inr c)"

definition load_baseline_environment :: "env \<Rightarrow> core_environment" where
  "load_baseline_environment env =
     nullish (map_of CORE_ENVIRONMENTS (to_lower (nullish (env ''CORE_ENV'') ''local''))) ENV_local"

text \<open>\<open>redactedConfig\<close> over the entries of a configuration.\<close>

definition redacted_config :: "(string \<times> string option) list \<Rightarrow> (string \<times> string option) list" where
  "redacted_config entries =
     map (\<lambda>(k, v). (k, if k \<in> set SECRET_CONFIG_KEYS then (case v of None \<Rightarrow> None | Some _ \<Rightarrow> Some ''***REDACTED***'') else v))
       entries"

section \<open>Lemmas\<close>

lemma load_config_strict:
  assumes "load_config is_url env = Inr c" and "is_strict (cg_environment c)"
  shows "truthy (cg_database_url c)" and "truthy (cg_redis_url c)"
    and "cg_environment c = ENV_production \<Longrightarrow> truthy (cg_internal_service_token c)"
  using assms by (auto simp: load_config_def validate_required_for_mode_def split: option.splits if_splits)

lemma redacted_config_secret:
  assumes "(k, Some v) \<in> set (redacted_config entries)" and "k \<in> set SECRET_CONFIG_KEYS"
  shows "v = ''***REDACTED***''"
  using assms by (auto simp: redacted_config_def split: option.splits)

section \<open>A switch that cannot be switched off\<close>

text \<open>
  \<open>ALLOW_MAINNET=false\<close> reads as true: the coercion looks at the length of the text only.
\<close>

theorem allow_mainnet_false_is_true:
  assumes "parse_config is_url env = Some c" and "env ''ALLOW_MAINNET'' = Some ''false''"
  shows "cg_allow_mainnet c"
  using assms by (auto simp: parse_config_def bind_eq_Some_conv coerce_boolean_def)

end
