(* ===== verification/Http_Boundary.thy ===== *)
theory Http_Boundary
  imports Core_Config
begin

text \<open>
  What every /v1 request passes (Backend/src/api): the authentication and tenant boundary
  (http/auth.ts), the pagination window (http/envelope.ts) and the mapping of whatever a handler
  throws to the answer (middleware/error-handler.ts).
\<close>

section \<open>Authentication\<close>

datatype header_value = Header_one string | Header_many "string list"

type_synonym headers = "string \<rightharpoonup> header_value"

record auth_context =
  at_company_id :: string
  at_actor_id :: string
  at_actor_role :: string

definition header :: "headers \<Rightarrow> string \<Rightarrow> string option" where
  "header h name =
     (case h name of
        None \<Rightarrow> None
      | Some (Header_many vs) \<Rightarrow> (case vs of [] \<Rightarrow> None | v # _ \<Rightarrow> Some v)
      | Some (Header_one v) \<Rightarrow> Some v)"

definition bearer_relaxed :: "core_config \<Rightarrow> bool" where
  "bearer_relaxed c \<longleftrightarrow> cg_environment c \<in> {ENV_local, ENV_test, ENV_ci}"

text \<open>\<open>replace(/^Bearer\s+/i, "").trim()\<close>\<close>

definition bearer_token :: "string \<Rightarrow> string" where
  "bearer_token v =
     trim (if to_lower (take 6 v) = ''bearer'' \<and> drop 6 v \<noteq> [] \<and> is_space (hd (drop 6 v))
           then dropWhile is_space (drop 6 v) else v)"

definition authenticate :: "core_config \<Rightarrow> headers \<Rightarrow> error_code + auth_context" where
  "authenticate c h =
     and_then
       (if bearer_relaxed c then Inr ()
        else if \<not> truthy (cg_internal_service_token c) then Inl CONFIGURATION_ERROR
        else if bearer_token (nullish (header h ''authorization'') []) \<noteq> the (cg_internal_service_token c)
             then Inl AUTHENTICATION_ERROR
        else Inr ()) (\<lambda>_.
       if \<not> truthy (header h ''x-company-id'') then Inl AUTHENTICATION_ERROR
       else Inr \<lparr> at_company_id = the (header h ''x-company-id''),
                   at_actor_id = nullish (header h ''x-actor-id'') ''unknown-actor'',
                   at_actor_role = nullish (header h ''x-actor-role'') ''SERVICE'' \<rparr>)"

definition require_role :: "auth_context \<Rightarrow> string list \<Rightarrow> error_code + unit" where
  "require_role a roles = (if \<not> arr_includes roles (at_actor_role a) then Inl AUTHORIZATION_ERROR else Inr ())"

section \<open>Pagination\<close>

record pagination =
  pg_page :: int
  pg_page_size :: int
  pg_skip :: int
  pg_take :: int

definition DEFAULT_PAGE_SIZE :: int where "DEFAULT_PAGE_SIZE = 25"
definition MAX_PAGE_SIZE :: int where "MAX_PAGE_SIZE = 100"

text \<open>
  The values a query gives a parameter: none, one text, or several, an array whose
  \<open>Number\<close> is NaN.
\<close>

definition query_number :: "string list \<Rightarrow> int \<Rightarrow> js_number" where
  "query_number vs d = (case vs of [] \<Rightarrow> Js_finite (of_int d) | [v] \<Rightarrow> to_number v | _ \<Rightarrow> Js_NaN)"

definition floor_or :: "js_number \<Rightarrow> int \<Rightarrow> int" where
  "floor_or n d = (case n of Js_finite q \<Rightarrow> if q \<ge> 1 then \<lfloor>q\<rfloor> else d | _ \<Rightarrow> d)"

definition parse_pagination :: "string list \<Rightarrow> string list \<Rightarrow> pagination" where
  "parse_pagination page page_size =
     (let p = floor_or (query_number page 1) 1;
          raw_size = query_number page_size DEFAULT_PAGE_SIZE;
          s = (case raw_size of Js_finite q \<Rightarrow> if q \<ge> 1 then Orderings.min \<lfloor>q\<rfloor> MAX_PAGE_SIZE else DEFAULT_PAGE_SIZE
               | _ \<Rightarrow> DEFAULT_PAGE_SIZE)
      in \<lparr> pg_page = p, pg_page_size = s, pg_skip = (p - 1) * s, pg_take = s \<rparr>)"

record page_meta =
  gm_page :: int
  gm_page_size :: int
  gm_total :: int
  gm_total_pages :: int

definition page_meta_of :: "pagination \<Rightarrow> int \<Rightarrow> page_meta" where
  "page_meta_of p count =
     \<lparr> gm_page = pg_page p, gm_page_size = pg_page_size p, gm_total = count,
       gm_total_pages = Orderings.max 1 \<lceil>(of_int count / of_int (pg_page_size p) :: rat)\<rceil> \<rparr>"

text \<open>The rows of one page: \<open>slice(skip, skip + take)\<close>, and \<open>skip\<close>/\<open>take\<close> of a query.\<close>

definition page_rows :: "pagination \<Rightarrow> 'a list \<Rightarrow> 'a list" where
  "page_rows p rows = take (nat (pg_take p)) (drop (nat (pg_skip p)) rows)"

section \<open>Errors\<close>

text \<open>
  What a handler can throw: a \<open>CoreError\<close>, a validation error of Fastify, an error with a status
  code, or anything else, such as the exception of a schema or of the database.
\<close>

datatype thrown = Thrown_core error_code | Thrown_validation | Thrown_status int | Thrown_other

definition to_core_error :: "thrown \<Rightarrow> core_error" where
  "to_core_error t =
     (case t of
        Thrown_core c \<Rightarrow> core_error_of c default_options
      | Thrown_validation \<Rightarrow>
          core_error_of SCHEMA_ERROR (default_options\<lparr>opt_severity := Some SEV_LOW, opt_http_status := Some 422\<rparr>)
      | Thrown_status n \<Rightarrow>
          if 400 \<le> n \<and> n < 500
          then core_error_of INVALID_INPUT (default_options\<lparr>opt_severity := Some SEV_LOW, opt_http_status := Some (nat n)\<rparr>)
          else core_error_of INTERNAL_ERROR (default_options\<lparr>opt_severity := Some SEV_HIGH, opt_http_status := Some 500\<rparr>)
      | Thrown_other \<Rightarrow>
          core_error_of INTERNAL_ERROR (default_options\<lparr>opt_severity := Some SEV_HIGH, opt_http_status := Some 500\<rparr>))"

section \<open>Lemmas\<close>

lemma authenticate_Inr:
  assumes "authenticate c h = Inr a"
  shows "at_company_id a \<noteq> []"
    and "bearer_relaxed c \<or> (\<exists>t. cg_internal_service_token c = Some t \<and> t \<noteq> []
           \<and> bearer_token (nullish (header h ''authorization'') []) = t)"
  using assms by (auto simp: authenticate_def and_then_Inr_iff elim: truthy_obtain split: if_splits)

lemma page_size_bounds: "1 \<le> pg_page_size (parse_pagination page per) \<and> pg_page_size (parse_pagination page per) \<le> 100"
  by (auto simp: parse_pagination_def Let_def DEFAULT_PAGE_SIZE_def MAX_PAGE_SIZE_def le_floor_iff split: js_number.splits)

lemma floor_or_pos: "1 \<le> d \<Longrightarrow> 1 \<le> floor_or n d"
  by (auto simp: floor_or_def le_floor_iff split: js_number.splits)

lemma pagination_window:
  "1 \<le> pg_page (parse_pagination page per)"
  "pg_skip (parse_pagination page per) = (pg_page (parse_pagination page per) - 1) * pg_page_size (parse_pagination page per)"
  "pg_take (parse_pagination page per) = pg_page_size (parse_pagination page per)"
  using floor_or_pos [of 1] by (simp_all add: parse_pagination_def Let_def)

text \<open>The chunks of a list, laid end to end.\<close>

lemma chunks_prefix: "concat (map (\<lambda>k. take s (drop (k * s) xs)) [0..<m]) = take (m * s) xs"
proof (induction m)
  case 0
  show ?case by simp
next
  case (Suc m)
  have "take (m * s + s) xs = take (m * s) xs @ take s (drop (m * s) xs)" by (simp add: take_add)
  with Suc show ?case by (simp add: add.commute)
qed

lemma total_pages_cover:
  assumes "0 < s"
  shows "int (length xs) \<le> Orderings.max 1 \<lceil>(of_int (int (length xs)) / of_int s :: rat)\<rceil> * s"
proof -
  let ?q = "of_int (int (length xs)) / of_int s :: rat"
  have "?q \<le> of_int (Orderings.max 1 \<lceil>?q\<rceil>)" by linarith
  then have "of_int (int (length xs)) \<le> of_int (Orderings.max 1 \<lceil>?q\<rceil>) * (of_int s :: rat)"
    using assms by (simp only: pos_divide_le_eq of_int_0_less_iff)
  then show ?thesis by (simp only: of_int_mult [symmetric] of_int_le_iff)
qed

section \<open>Properties\<close>


end
