(* ===== verification/Canonical_Json.thy ===== *)
theory Canonical_Json
  imports Orvex_Prelude "HOL-Library.List_Lexorder" "HOL-Library.Char_ord"
    "HOL-Library.Multiset"
begin

text \<open>
  JSON values, their canonical form (object keys sorted recursively), \<open>JSON.stringify\<close> and
  the content hash \<open>sha256Json\<close> (Backend/src/shared/hash.ts; Blockchain/src/shared/hashing.ts
  has the same canonical form). An object is the list of its properties in insertion order;
  \<open>wf_json\<close> says that no object has a key twice. Numbers are the integers the sources hash.
  The digest of node:crypto is the parameter \<open>sha\<close>.

  Lemmas: canonicalising is idempotent and forgets the order of keys, printing is injective
  (no two values print alike), hence the content hash separates the values that differ
  by more than key order whenever \<open>sha\<close> has no collision.
\<close>

datatype json =
    JNull
  | JBool bool
  | JNum int
  | JStr string
  | JArr "json list"
  | JObj "(string \<times> json) list"

section \<open>Canonical form\<close>

primrec canonicalize :: "json \<Rightarrow> json" where
  "canonicalize JNull = JNull"
| "canonicalize (JBool b) = JBool b"
| "canonicalize (JNum i) = JNum i"
| "canonicalize (JStr s) = JStr s"
| "canonicalize (JArr xs) = JArr (map canonicalize xs)"
| "canonicalize (JObj kvs) = JObj (sort_key fst (map (map_prod id canonicalize) kvs))"

fun wf_json :: "json \<Rightarrow> bool" where
  "wf_json (JArr xs) = (\<forall>x \<in> set xs. wf_json x)"
| "wf_json (JObj kvs) = (distinct (map fst kvs) \<and> (\<forall>kv \<in> set kvs. wf_json (snd kv)))"
| "wf_json _ = True"

text \<open>Two values are the same content when they differ in the order of keys only.\<close>

inductive same_content :: "json \<Rightarrow> json \<Rightarrow> bool" where
  same_refl: "same_content v v"
| same_arr: "list_all2 same_content xs ys \<Longrightarrow> same_content (JArr xs) (JArr ys)"
| same_obj: "mset kvs = mset kvs' \<Longrightarrow>
     list_all2 (\<lambda>kv kv'. fst kv = fst kv' \<and> same_content (snd kv) (snd kv')) kvs' kvs'' \<Longrightarrow>
     same_content (JObj kvs) (JObj kvs'')"

lemma map_fst_map_prod_id [simp]: "map fst (map (map_prod id f) kvs) = map fst kvs"
  by (induction kvs) auto

lemma sort_key_distinct_perm:
  assumes "mset xs = mset ys" and "distinct (map fst xs)"
  shows "sort_key fst xs = sort_key fst ys"
proof -
  have inj: "inj_on fst (set xs)" using assms(2) by (simp add: distinct_map)
  have d: "distinct (map fst ys)"
    using assms by (metis mset_eq_imp_distinct_iff mset_map)
  have s: "set xs = set ys" using assms(1) by (metis set_mset_mset)
  show ?thesis
  proof (rule map_sorted_distinct_set_unique [where f = fst])
    show "inj_on fst (set (sort_key fst xs) \<union> set (sort_key fst ys))"
      using inj s by simp
    show "sorted (map fst (sort_key fst xs))" "sorted (map fst (sort_key fst ys))" by simp_all
    show "set (sort_key fst xs) = set (sort_key fst ys)" using s by simp
    show "distinct (map fst (sort_key fst xs))"
      using assms(2) by (metis mset_eq_imp_distinct_iff mset_map mset_sort)
    show "distinct (map fst (sort_key fst ys))"
      using d by (metis mset_eq_imp_distinct_iff mset_map mset_sort)
  qed
qed

lemma canonicalize_same_content:
  "same_content v w \<Longrightarrow> wf_json v \<Longrightarrow> canonicalize v = canonicalize w"
proof (induction rule: same_content.induct)
  case (same_refl v)
  show ?case by simp
next
  case (same_arr xs ys)
  then have "map canonicalize xs = map canonicalize ys"
    by (auto simp: list_all2_conv_all_nth intro!: nth_equalityI)
  then show ?case by simp
next
  case (same_obj kvs kvs' kvs'')
  have set_eq: "set kvs = set kvs'" using same_obj.hyps(1) by (metis set_mset_mset)
  have "map (map_prod id canonicalize) kvs' = map (map_prod id canonicalize) kvs''"
  proof (rule nth_equalityI)
    show "length (map (map_prod id canonicalize) kvs') = length (map (map_prod id canonicalize) kvs'')"
      using same_obj.IH by (simp add: list_all2_lengthD)
  next
    fix i
    assume i: "i < length (map (map_prod id canonicalize) kvs')"
    then have "kvs' ! i \<in> set kvs" using set_eq by auto
    then have "wf_json (snd (kvs' ! i))" using same_obj.prems by auto
    then have "fst (kvs' ! i) = fst (kvs'' ! i)"
      "canonicalize (snd (kvs' ! i)) = canonicalize (snd (kvs'' ! i))"
      using same_obj.IH i by (auto simp: list_all2_conv_all_nth)
    moreover have "i < length kvs''" using i same_obj.IH by (simp add: list_all2_lengthD)
    ultimately show "map (map_prod id canonicalize) kvs' ! i = map (map_prod id canonicalize) kvs'' ! i"
      using i by (simp add: map_prod_def prod_eq_iff case_prod_beta)
  qed
  moreover have "sort_key fst (map (map_prod id canonicalize) kvs)
      = sort_key fst (map (map_prod id canonicalize) kvs')"
  proof (rule sort_key_distinct_perm)
    show "mset (map (map_prod id canonicalize) kvs) = mset (map (map_prod id canonicalize) kvs')"
      using same_obj.hyps(1) by simp
    show "distinct (map fst (map (map_prod id canonicalize) kvs))"
      using same_obj.prems by simp
  qed
  ultimately show ?case by simp
qed

lemma canonicalize_idem: "canonicalize (canonicalize v) = canonicalize v"
proof (induction v)
  case (JArr xs)
  then show ?case by simp
next
  case (JObj kvs)
  let ?ys = "sort_key fst (map (map_prod id canonicalize) kvs)"
  have "map_prod id canonicalize y = y" if "y \<in> set ?ys" for y
    using that JObj by (force simp: map_prod_def snds.simps)
  then have "map (map_prod id canonicalize) ?ys = ?ys" by (rule map_idI)
  moreover have "sort_key fst ?ys = ?ys" by (rule sort_key_id_if_sorted) simp
  ultimately show ?case by simp
qed simp_all

section \<open>Printing\<close>

definition hex_char :: "nat \<Rightarrow> char" where
  "hex_char n = (if n < 10 then char_of (48 + n) else char_of (87 + n))"

definition escape_char :: "char \<Rightarrow> string" where
  "escape_char c =
    (if c = CHR 0x22 then [CHR 0x5C, CHR 0x22]
     else if c = CHR 0x5C then [CHR 0x5C, CHR 0x5C]
     else if c = CHR 0x08 then [CHR 0x5C, CHR ''b'']
     else if c = CHR 0x0C then [CHR 0x5C, CHR ''f'']
     else if c = CHR 0x0A then [CHR 0x5C, CHR ''n'']
     else if c = CHR 0x0D then [CHR 0x5C, CHR ''r'']
     else if c = CHR 0x09 then [CHR 0x5C, CHR ''t'']
     else if (of_char c :: nat) < 32
       then [CHR 0x5C, CHR ''u'', CHR ''0'', CHR ''0'',
             hex_char (of_char c div 16), hex_char (of_char c mod 16)]
     else [c])"

definition quote :: "string \<Rightarrow> string" where
  "quote s = CHR 0x22 # concat (map escape_char s) @ [CHR 0x22]"

fun join_comma :: "string list \<Rightarrow> string" where
  "join_comma [] = []"
| "join_comma (x # xs) = x @ concat (map (\<lambda>y. CHR '','' # y) xs)"

primrec stringify :: "json \<Rightarrow> string" where
  "stringify JNull = ''null''"
| "stringify (JBool b) = (if b then ''true'' else ''false'')"
| "stringify (JNum i) = show_int i"
| "stringify (JStr s) = quote s"
| "stringify (JArr xs) = CHR ''['' # join_comma (map stringify xs) @ '']''"
| "stringify (JObj kvs) = CHR ''{'' #
     join_comma (map (\<lambda>(k, t). quote k @ CHR '':'' # t) (map (map_prod id stringify) kvs)) @ ''}''"

definition sha256_json :: "(string \<Rightarrow> string) \<Rightarrow> json \<Rightarrow> string" where
  "sha256_json sha v = ''sha256:'' @ sha (stringify (canonicalize v))"

section \<open>Printing is injective\<close>

text \<open>What may follow a value inside a text: nothing, a comma or a closing bracket.\<close>

definition delimited :: "string \<Rightarrow> bool" where
  "delimited r \<longleftrightarrow> (case r of [] \<Rightarrow> True | c # _ \<Rightarrow> c \<in> {CHR '','', CHR '']'', CHR ''}''})"

lemma delimited_simps [simp]:
  "delimited []" "delimited (c # r) \<longleftrightarrow> c \<in> {CHR '','', CHR '']'', CHR ''}''}"
  by (simp_all add: delimited_def)

text \<open>A number is read back from a text up to the delimiter that follows it.\<close>

lemma delimited_split:
  assumes "a @ r = b @ s" "delimited r" "delimited s"
    and "\<And>c. c \<in> set a \<union> set b \<Longrightarrow> c \<notin> {CHR '','', CHR '']'', CHR ''}''}"
  shows "a = b \<and> r = s"
  using assms
proof (induction a arbitrary: b)
  case Nil
  then show ?case by (cases b) auto
next
  case (Cons x a)
  then show ?case by (cases b) auto
qed

lemma hex_char_inj: "m < 16 \<Longrightarrow> n < 16 \<Longrightarrow> hex_char m = hex_char n \<Longrightarrow> m = n"
proof -
  have code: "of_char (hex_char k) = (if k < 10 then 48 + k else 87 + k :: nat)" if "k < 16" for k
    using that by (simp add: hex_char_def)
  assume mn: "m < 16" "n < 16" and "hex_char m = hex_char n"
  then have "(if m < 10 then 48 + m else 87 + m) = (if n < 10 then 48 + n else 87 + n)"
    using code by metis
  then show "m = n" using mn by (auto split: if_splits)
qed

lemma escape_char_prefix_free:
  assumes "escape_char c @ x = escape_char d @ y"
  shows "c = d \<and> x = y"
proof -
  have "of_char c = (of_char d :: nat)"
    if "(of_char c :: nat) < 32" "(of_char d :: nat) < 32"
      and "hex_char (of_char c div 16) = hex_char (of_char d div 16)"
      and "hex_char (of_char c mod 16) = hex_char (of_char d mod 16)"
  proof -
    have "of_char c div 16 = (of_char d div 16 :: nat)" "of_char c mod 16 = (of_char d mod 16 :: nat)"
      using that by (auto intro!: hex_char_inj)
    then show ?thesis by (metis div_mult_mod_eq)
  qed
  then show ?thesis
    using assms by (auto simp: escape_char_def split: if_splits)
qed

lemma escape_char_head: "\<exists>z zs. escape_char c = z # zs \<and> z \<noteq> CHR 0x22"
  by (auto simp: escape_char_def)

lemma quote_prefix_free:
  assumes "quote s @ r = quote t @ r'"
  shows "s = t \<and> r = r'"
proof -
  have "concat (map escape_char s) @ CHR 0x22 # r = concat (map escape_char t) @ CHR 0x22 # r' \<Longrightarrow>
     s = t \<and> r = r'"
  proof (induction s arbitrary: t)
    case Nil
    show ?case
    proof (cases t)
      case Nil
      with \<open>concat (map escape_char []) @ _ = _\<close> show ?thesis by simp
    next
      case (Cons d t')
      then show ?thesis using Nil escape_char_head [of d] by auto
    qed
  next
    case (Cons c s)
    then obtain d t' where t: "t = d # t'"
      using escape_char_head [of c] by (cases t) auto
    with Cons.prems have "c = d"
      "concat (map escape_char s) @ CHR 0x22 # r = concat (map escape_char t') @ CHR 0x22 # r'"
      using escape_char_prefix_free [of c _ d] by auto
    with Cons.IH t show ?case by blast
  qed
  with assms show ?thesis by (simp add: quote_def)
qed

text \<open>The first character of a printed value tells its constructor.\<close>

lemma show_int_head: "\<exists>z zs. show_int i = z # zs \<and> (is_digit z \<or> z = CHR ''-'')"
  using show_int_chars [of "hd (show_int i)" i]
  by (cases "show_int i") (auto simp: show_int_def split: if_splits)

definition separates :: "('a \<Rightarrow> string) \<Rightarrow> 'a \<Rightarrow> bool" where
  "separates f v \<longleftrightarrow> (\<forall>w r s. delimited r \<longrightarrow> delimited s \<longrightarrow> f v @ r = f w @ s \<longrightarrow> v = w \<and> r = s)"

lemma separatesD:
  "separates f v \<Longrightarrow> f v @ r = f w @ s \<Longrightarrow> delimited r \<Longrightarrow> delimited s \<Longrightarrow> v = w \<and> r = s"
  unfolding separates_def by blast

definition tail_text :: "('a \<Rightarrow> string) \<Rightarrow> 'a list \<Rightarrow> string" where
  "tail_text f xs = concat (map (\<lambda>x. CHR '','' # f x) xs)"

lemma join_comma_map: "join_comma (map f (x # xs)) = f x @ tail_text f xs"
  by (simp add: tail_text_def comp_def)

lemma tail_text_simps [simp]:
  "tail_text f [] = []" "tail_text f (x # xs) = CHR '','' # f x @ tail_text f xs"
  by (simp_all add: tail_text_def)

lemma delimited_tail: "c \<in> {CHR '']'', CHR ''}''} \<Longrightarrow> delimited (tail_text f xs @ c # r)"
  by (cases xs) auto

lemma tail_text_separates:
  assumes "\<And>x. x \<in> set xs \<Longrightarrow> separates f x" and c: "c \<in> {CHR '']'', CHR ''}''}"
    and "tail_text f xs @ c # r = tail_text f ys @ c # s"
  shows "xs = ys \<and> r = s"
  using assms
proof (induction xs arbitrary: ys)
  case Nil
  then show ?case by (cases ys) auto
next
  case (Cons x xs)
  then obtain y ys' where ys: "ys = y # ys'" by (cases ys) auto
  with Cons.prems have "f x @ tail_text f xs @ c # r = f y @ tail_text f ys' @ c # s" by simp
  with Cons.prems(1) [of x] have "x = y" "tail_text f xs @ c # r = tail_text f ys' @ c # s"
    using delimited_tail [OF c] by (auto dest: separatesD)
  with Cons ys show ?case by simp
qed

lemma join_comma_separates:
  assumes "\<And>x. x \<in> set xs \<Longrightarrow> separates f x" and "c \<in> {CHR '']'', CHR ''}''}"
    and "join_comma (map f xs) @ c # r = join_comma (map f ys) @ c # s"
    and "\<And>x. \<exists>z zs. f x = z # zs \<and> z \<notin> {CHR '']'', CHR ''}''}"
  shows "xs = ys \<and> r = s"
proof (cases xs)
  case Nil
  show ?thesis
  proof (cases ys)
    case ys: Nil
    with Nil assms(3) show ?thesis by simp
  next
    case (Cons y ys')
    with Nil assms(2,3) assms(4) [of y] show ?thesis
      by (auto simp: join_comma_map simp del: list.map(2))
  qed
next
  case (Cons x xs')
  show ?thesis
  proof (cases ys)
    case Nil
    with Cons assms(2,3) assms(4) [of x] show ?thesis
      by (auto simp: join_comma_map simp del: list.map(2))
  next
    case ys: (Cons y ys')
    with Cons assms(3) have "f x @ tail_text f xs' @ c # r = f y @ tail_text f ys' @ c # s"
      by (simp add: join_comma_map del: list.map(2))
    then have "x = y" "tail_text f xs' @ c # r = tail_text f ys' @ c # s"
      using assms(1) [of x] delimited_tail [OF assms(2)] Cons by (auto dest: separatesD)
    with tail_text_separates [of xs' f c r ys' s] assms(1,2) Cons ys show ?thesis by auto
  qed
qed

definition member_text :: "string \<times> json \<Rightarrow> string" where
  "member_text kv = quote (fst kv) @ CHR '':'' # stringify (snd kv)"

lemma stringify_JObj:
  "stringify (JObj kvs) = CHR ''{'' # join_comma (map member_text kvs) @ ''}''"
proof -
  have "map (\<lambda>(k, t). quote k @ CHR '':'' # t) (map (map_prod id stringify) kvs) = map member_text kvs"
    by (induction kvs) (auto simp: member_text_def)
  then show ?thesis by (simp only: stringify.simps)
qed

declare stringify.simps(6) [simp del]

definition head_class :: "json \<Rightarrow> char set" where
  "head_class v = (case v of JNull \<Rightarrow> {CHR ''n''} | JBool True \<Rightarrow> {CHR ''t''} | JBool False \<Rightarrow> {CHR ''f''}
     | JNum _ \<Rightarrow> {c. is_digit c \<or> c = CHR ''-''} | JStr _ \<Rightarrow> {CHR 0x22}
     | JArr _ \<Rightarrow> {CHR ''[''} | JObj _ \<Rightarrow> {CHR ''{''})"

lemma stringify_head: "\<exists>z zs. stringify v = z # zs \<and> z \<in> head_class v"
proof (cases v)
  case (JNum i)
  then show ?thesis using show_int_head [of i] by (auto simp: head_class_def)
qed (auto simp: head_class_def quote_def stringify_JObj split: bool.splits)

lemma stringify_head_eq:
  assumes "stringify v @ r = stringify w @ s"
  shows "head_class v \<inter> head_class w \<noteq> {}"
  using stringify_head [of v] stringify_head [of w] assms by auto

lemma not_bracket: "z \<in> head_class v \<Longrightarrow> z \<notin> {CHR '']'', CHR ''}''}"
  by (cases v) (auto simp: head_class_def is_digit_def split: bool.splits)

lemma stringify_separates: "separates stringify v"
proof (induction v)
  case JNull
  show ?case unfolding separates_def
  proof (intro allI impI)
    fix w r s
    assume e: "stringify JNull @ r = stringify w @ s"
    with stringify_head_eq [OF e] show "JNull = w \<and> r = s"
      by (cases w) (auto simp: head_class_def is_digit_def split: bool.splits)
  qed
next
  case (JBool b)
  show ?case unfolding separates_def
  proof (intro allI impI)
    fix w r s
    assume e: "stringify (JBool b) @ r = stringify w @ s"
    with stringify_head_eq [OF e] show "JBool b = w \<and> r = s"
      by (cases w) (auto simp: head_class_def is_digit_def split: bool.splits if_splits)
  qed
next
  case (JNum i)
  show ?case unfolding separates_def
  proof (intro allI impI)
    fix w r s
    assume d: "delimited r" "delimited s" and e: "stringify (JNum i) @ r = stringify w @ s"
    then obtain j where w: "w = JNum j"
      using stringify_head_eq [OF e]
      by (cases w) (auto simp: head_class_def is_digit_def split: bool.splits)
    have "show_int i = show_int j \<and> r = s"
    proof (rule delimited_split)
      show "show_int i @ r = show_int j @ s" using e w by simp
      show "c \<notin> {CHR '','', CHR '']'', CHR ''}''}" if "c \<in> set (show_int i) \<union> set (show_int j)" for c
        using that show_int_chars [of c i] show_int_chars [of c j] by (auto simp: is_digit_def)
    qed (use d in auto)
    with w show "JNum i = w \<and> r = s" by (auto dest: show_int_inj)
  qed
next
  case (JStr t)
  show ?case unfolding separates_def
  proof (intro allI impI)
    fix w r s
    assume e: "stringify (JStr t) @ r = stringify w @ s"
    with stringify_head_eq [OF e] show "JStr t = w \<and> r = s"
      by (cases w) (auto simp: head_class_def is_digit_def split: bool.splits dest!: quote_prefix_free)
  qed
next
  case (JArr xs)
  show ?case unfolding separates_def
  proof (intro allI impI)
    fix w r s
    assume e: "stringify (JArr xs) @ r = stringify w @ s"
    then obtain ys where w: "w = JArr ys"
      using stringify_head_eq [OF e]
      by (cases w) (auto simp: head_class_def is_digit_def split: bool.splits)
    have "xs = ys \<and> r = s"
    proof (rule join_comma_separates [where c = "CHR '']''"])
      show "join_comma (map stringify xs) @ CHR '']'' # r = join_comma (map stringify ys) @ CHR '']'' # s"
        using e w by simp
      show "\<exists>z zs. stringify x = z # zs \<and> z \<notin> {CHR '']'', CHR ''}''}" for x
        using stringify_head [of x] not_bracket by blast
    qed (use JArr in auto)
    with w show "JArr xs = w \<and> r = s" by simp
  qed
next
  case (JObj kvs)
  have mem: "separates member_text kv" if "kv \<in> set kvs" for kv
    unfolding separates_def
  proof (intro allI impI)
    fix lw r s
    assume d: "delimited r" "delimited s" and e: "member_text kv @ r = member_text lw @ s"
    then have "fst kv = fst lw" "stringify (snd kv) @ r = stringify (snd lw) @ s"
      using quote_prefix_free [of "fst kv" _ "fst lw"] by (auto simp: member_text_def)
    moreover have "separates stringify (snd kv)" using JObj that by (simp add: snds.simps)
    ultimately show "kv = lw \<and> r = s" using d by (auto dest: separatesD simp: prod_eq_iff)
  qed
  show ?case unfolding separates_def
  proof (intro allI impI)
    fix w r s
    assume e: "stringify (JObj kvs) @ r = stringify w @ s"
    then obtain kvs' where w: "w = JObj kvs'"
      using stringify_head_eq [OF e]
      by (cases w) (auto simp: head_class_def is_digit_def split: bool.splits)
    have "kvs = kvs' \<and> r = s"
    proof (rule join_comma_separates [where c = "CHR ''}''"])
      show "join_comma (map member_text kvs) @ CHR ''}'' # r = join_comma (map member_text kvs') @ CHR ''}'' # s"
        using e w by (simp add: stringify_JObj)
      show "\<exists>z zs. member_text x = z # zs \<and> z \<notin> {CHR '']'', CHR ''}''}" for x
        by (simp add: member_text_def quote_def)
    qed (use mem in auto)
    with w show "JObj kvs = w \<and> r = s" by simp
  qed
qed

lemma stringify_inj: "stringify v = stringify w \<longleftrightarrow> v = w"
  using separatesD [OF stringify_separates, of v "[]" w "[]"] by auto

text \<open>The text that is hashed, and what an equality of hashes says.\<close>

definition canonical_text :: "json \<Rightarrow> string" where
  "canonical_text v = stringify (canonicalize v)"

lemma sha256_json_text: "sha256_json sha v = ''sha256:'' @ sha (canonical_text v)"
  by (simp add: sha256_json_def canonical_text_def)

lemma canonical_text_eq_iff: "canonical_text v = canonical_text w \<longleftrightarrow> canonicalize v = canonicalize w"
  by (simp add: canonical_text_def stringify_inj)

lemma sha256_json_eqD:
  assumes "sha256_json sha v = sha256_json sha w"
    and "inj_on sha {canonical_text v, canonical_text w}"
  shows "canonicalize v = canonicalize w"
proof -
  have "sha (canonical_text v) = sha (canonical_text w)"
    using assms(1) by (simp add: sha256_json_text)
  with assms(2) have "canonical_text v = canonical_text w" by (rule inj_onD) simp_all
  then show ?thesis by (simp only: canonical_text_eq_iff)
qed

text \<open>
  Equal canonical forms of two objects agree member by member: what turns an equality of
  content hashes into the equality of every hashed field.
\<close>

lemma canonicalize_member:
  assumes "canonicalize (JObj a) = canonicalize (JObj b)"
    and "distinct (map fst a)" and "distinct (map fst b)"
  shows "map_option canonicalize (map_of a k) = map_option canonicalize (map_of b k)"
proof -
  have norm: "map (map_prod id canonicalize) xs = map (\<lambda>(k, v). (k, canonicalize v)) xs"
    for xs :: "(string \<times> json) list"
    by (simp add: map_prod_def)
  have "set (map (map_prod id canonicalize) a) = set (map (map_prod id canonicalize) b)"
    using arg_cong [of _ _ set, OF assms(1) [simplified canonicalize.simps json.inject]]
    by (simp only: set_sort)
  moreover have "distinct (map fst (map (map_prod id canonicalize) a))"
    "distinct (map fst (map (map_prod id canonicalize) b))"
    using assms(2,3) by (simp_all del: map_map)
  ultimately have "map_of (map (map_prod id canonicalize) a) = map_of (map (map_prod id canonicalize) b)"
    by (metis map_of_inject_set)
  then have "map_option canonicalize \<circ> map_of a = map_option canonicalize \<circ> map_of b"
    by (simp only: norm map_of_map)
  from fun_cong [OF this, of k] show ?thesis by (simp only: comp_apply)
qed

lemma sha256_json_member:
  assumes "sha256_json sha (JObj a) = sha256_json sha (JObj b)"
    and "inj_on sha {canonical_text (JObj a), canonical_text (JObj b)}"
    and "distinct (map fst a)" and "distinct (map fst b)"
  shows "map_option canonicalize (map_of a k) = map_option canonicalize (map_of b k)"
  by (rule canonicalize_member [OF sha256_json_eqD [OF assms(1,2)] assms(3,4)])

text \<open>A nullable string.\<close>

definition json_opt :: "string option \<Rightarrow> json" where
  "json_opt v = (case v of None \<Rightarrow> JNull | Some s \<Rightarrow> JStr s)"

lemma json_opt_inj [simp]: "json_opt a = json_opt b \<longleftrightarrow> a = b"
  by (cases a; cases b) (simp_all add: json_opt_def)

lemma canonicalize_json_opt [simp]: "canonicalize (json_opt v) = json_opt v"
  by (cases v) (simp_all add: json_opt_def)

end
