(* ===== verification/Contracts.thy ===== *)
theory Contracts
  imports Orvex_Prelude Canonical_Json
begin

text \<open>
  The contract objects the components exchange (Backend/src/shared/contracts): the enumerations
  as datatypes and the objects as records, fields in the order of the schemas. An optional or
  nullish field is an \<open>option\<close>; open records (\<open>z.record\<close>) are lists of JSON members. The
  \<open>schema_version\<close> literals carry no information and are left out.
\<close>

section \<open>Enumerations\<close>

datatype decision_result = ALLOW | REVIEW | DENY

datatype policy_evaluation_status = EVAL_PASS | EVAL_FAIL | EVAL_REVIEW

datatype recommended_handling = PROCEED_CANDIDATE | MONITOR | HANDLE_REVIEW | DENY_RECOMMENDED

datatype analysis_status = AN_VALID | AN_SUSPICIOUS | AN_INVALID

datatype simulation_status =
    SIM_PASS | SIM_REVERT | SIM_UNEXPECTED_STATE_CHANGE | SIM_INSUFFICIENT_FUNDS
  | SIM_UNSUPPORTED | SIM_ERROR

datatype execution_status = EX_CONFIRMED | EX_PENDING | EX_FAILED | EX_UNKNOWN

datatype action_type = PAY | TRANSFER | PURCHASE | CALL_API | SWAP | OTHER

fun action_name :: "action_type \<Rightarrow> string" where
  "action_name PAY = ''PAY''"
| "action_name TRANSFER = ''TRANSFER''"
| "action_name PURCHASE = ''PURCHASE''"
| "action_name CALL_API = ''CALL_API''"
| "action_name SWAP = ''SWAP''"
| "action_name OTHER = ''OTHER''"

datatype recipient_ref_type = SERVICE | WALLET | CONTRACT | MERCHANT | UNKNOWN_RECIPIENT

fun recipient_type_name :: "recipient_ref_type \<Rightarrow> string" where
  "recipient_type_name SERVICE = ''SERVICE''"
| "recipient_type_name WALLET = ''WALLET''"
| "recipient_type_name CONTRACT = ''CONTRACT''"
| "recipient_type_name MERCHANT = ''MERCHANT''"
| "recipient_type_name UNKNOWN_RECIPIENT = ''UNKNOWN''"

text \<open>The wire form of a status, where the code compares or prints it.\<close>

fun analysis_status_name :: "analysis_status \<Rightarrow> string" where
  "analysis_status_name AN_VALID = ''VALID''"
| "analysis_status_name AN_SUSPICIOUS = ''SUSPICIOUS''"
| "analysis_status_name AN_INVALID = ''INVALID''"

section \<open>Proposals\<close>

record money =
  mo_value :: string
  mo_currency :: string

record recipient_ref =
  rr_type :: recipient_ref_type
  rr_identifier :: "string option"
  rr_address :: "string option"
  rr_network :: "string option"

record action_proposal =
  ap_proposal_id :: string
  ap_intent_id :: string
  ap_agent_id :: string
  ap_action_type :: action_type
  ap_purpose :: string
  ap_recipient :: "recipient_ref option"
  ap_amount :: "money option"
  ap_payment_method :: "string option"
  ap_network :: "string option"
  ap_reason :: string
  ap_evidence_ids :: "string list"
  ap_trajectory_event_ids :: "string list"
  ap_created_at :: string

section \<open>Transactions\<close>

record asset_ref =
  as_symbol :: string
  as_address :: "string option"
  as_type :: "string option"

record tx_recipient =
  tr_address :: string
  tr_type :: "string option"

record transaction_intent =
  ti_transaction_id :: string
  ti_proposal_id :: string
  ti_action_type :: string
  ti_network :: string
  ti_asset :: asset_ref
  ti_amount :: string
  ti_recipient :: tx_recipient
  ti_payment_method :: "string option"
  ti_constraints :: "(string \<times> json) list"

record chain_ref =
  ch_id :: int
  ch_name :: string

record transaction_request =
  tq_transaction_id :: string
  tq_chain :: chain_ref
  tq_from :: string
  tq_to :: string
  tq_value :: string
  tq_data :: string
  tq_asset :: asset_ref
  tq_amount :: string
  tq_proposal_id :: string
  tq_intent_id :: string
  tq_created_at :: string

record contract_ref =
  cr_address :: string
  cr_verified :: bool

record function_ref =
  fr_name :: string
  fr_selector :: string

record transaction_analysis =
  ta_transaction_id :: string
  ta_contract :: contract_ref
  ta_function :: function_ref
  ta_decoded_arguments :: "(string \<times> json) list"
  ta_state_changes_expected :: "json list"
  ta_recipient :: string
  ta_amount :: string
  ta_asset :: string
  ta_risk_flags :: "string list"
  ta_status :: analysis_status

record state_change =
  sc_type :: string
  sc_asset :: "string option"
  sc_from :: "string option"
  sc_to :: "string option"
  sc_amount :: "string option"

record simulation_result =
  sr_transaction_id :: string
  sr_status :: simulation_status
  sr_would_revert :: bool
  sr_gas_estimate :: "string option"
  sr_expected_state_changes :: "state_change list"
  sr_unexpected_state_changes :: "state_change list"
  sr_revert_reason :: "string option"
  sr_simulator_provider :: string
  sr_simulator_version :: string
  sr_simulated_at :: string

section \<open>Execution\<close>

record execution_request =
  er_execution_id :: string
  er_decision_id :: string
  er_transaction_id :: string
  er_executor_type :: string
  er_executor_account :: string
  er_payment_method :: string
  er_network :: string
  er_idempotency_key :: string
  er_authorization_context_hash :: string
  er_created_at :: string

record execution_result =
  ex_execution_id :: string
  ex_status :: execution_status
  ex_transaction_hash :: "string option"
  ex_chain :: string
  ex_submitted_at :: "string option"
  ex_confirmed_at :: "string option"
  ex_receipt_reference :: "string option"
  ex_idempotency_key :: string

record receipt_snapshot =
  rs_recipient :: string
  rs_asset :: string
  rs_amount :: string
  rs_network :: string

record receipt_verification =
  rv_execution_id :: string
  rv_verified :: bool
  rv_transaction_hash :: string
  rv_expected :: receipt_snapshot
  rv_actual :: receipt_snapshot
  rv_discrepancies :: "string list"
  rv_verified_at :: string

section \<open>The permissiveness order of decisions\<close>

text \<open>
  DENY is the strictest outcome and ALLOW the most permissive one: the order in which the
  precedence ladder of the decision engine is monotone.
\<close>

fun permissiveness :: "decision_result \<Rightarrow> nat" where
  "permissiveness DENY = 0"
| "permissiveness REVIEW = 1"
| "permissiveness ALLOW = 2"

lemma permissiveness_inj: "permissiveness a = permissiveness b \<Longrightarrow> a = b"
  by (cases a; cases b) simp_all

instantiation decision_result :: linorder
begin

definition less_eq_decision_result :: "decision_result \<Rightarrow> decision_result \<Rightarrow> bool" where
  "a \<le> b \<longleftrightarrow> permissiveness a \<le> permissiveness b"

definition less_decision_result :: "decision_result \<Rightarrow> decision_result \<Rightarrow> bool" where
  "a < b \<longleftrightarrow> permissiveness a < permissiveness b"

instance
  by standard (auto simp: less_eq_decision_result_def less_decision_result_def dest: permissiveness_inj)

end

lemma DENY_least [simp]: "DENY \<le> a"
  by (simp add: less_eq_decision_result_def)

lemma ALLOW_greatest [simp]: "a \<le> ALLOW"
  by (cases a) (simp_all add: less_eq_decision_result_def)

lemma le_REVIEW_iff [simp]: "a \<le> REVIEW \<longleftrightarrow> a \<noteq> ALLOW"
  by (cases a) (simp_all add: less_eq_decision_result_def)

lemma le_DENY_iff [simp]: "a \<le> DENY \<longleftrightarrow> a = DENY"
  by (cases a) (simp_all add: less_eq_decision_result_def)

end
