(* ===== verification/AI_Intake.thy ===== *)
theory AI_Intake
  imports Contracts Core_Errors
begin

text \<open>
  The intake checks on what the AI layer sends (Backend/src/application/clients/ai/intake.ts) and
  the two contracts they read (shared/contracts/intent.ts, security-assessment.ts): binding to the
  authoritative agent, intent and proposal, freshness, and staleness against the material
  inputs. The sub-assessments of a SecurityAssessment are carried as JSON; numbers that are
  confidences are carried as their decimal text.
\<close>

section \<open>Contracts\<close>

datatype autonomy_level = AUTO_MANUAL | AUTO_CONDITIONAL | AUTO_AUTOMATIC

datatype intent_status = INTENT_VALID | INTENT_NEEDS_CLARIFICATION | INTENT_STATUS_EXPIRED | INTENT_STATUS_INVALID

datatype budget_period = PER_DAILY | PER_WEEKLY | PER_MONTHLY | PER_ONCE

record money_limit =
  ml_maximum :: string
  ml_currency :: string
  ml_period :: "budget_period option"

record ambiguity =
  am_field :: string
  am_reason :: string

record intent =
  nt_intent_id :: string
  nt_user_id :: "string option"
  nt_agent_id :: string
  nt_user_goal :: string
  nt_purpose :: string
  nt_desired_outcome :: string
  nt_constraints :: "string list"
  nt_budget :: "money_limit option"
  nt_authorized_actions :: "string list"
  nt_forbidden_actions :: "string list"
  nt_autonomy_level :: autonomy_level
  nt_approval_conditions :: "string list"
  nt_valid_from :: string
  nt_valid_until :: string
  nt_status :: intent_status
  nt_confidence :: "string option"
  nt_ambiguities :: "ambiguity list"
  nt_created_at :: string

datatype overall_status = LOW_RISK | MEDIUM_RISK | HIGH_RISK | INSUFFICIENT

record overall_assessment =
  oa_status :: overall_status
  oa_confidence :: string
  oa_summary :: string
  oa_recommended_handling :: recommended_handling

record security_assessment =
  sa_assessment_id :: string
  sa_proposal_id :: string
  sa_intent_verification :: json
  sa_threat_assessment :: json
  sa_reputation_assessment :: json
  sa_anomaly_assessment :: json
  sa_risk_assessment :: json
  sa_overall_assessment :: overall_assessment
  sa_explanation :: string
  sa_model_metadata :: "json option"
  sa_created_at :: string

section \<open>Checks\<close>

record intent_binding =
  ib_company_id :: string
  ib_agent_id :: string

definition validate_intent_intake ::
    "(string \<Rightarrow> int option) \<Rightarrow> intent \<Rightarrow> intent_binding \<Rightarrow> int \<Rightarrow> error_code + unit" where
  "validate_intent_intake date_ms i b now =
     (if nt_agent_id i \<noteq> ib_agent_id b then Inl INTENT_INVALID
      else if nt_status i = INTENT_STATUS_EXPIRED \<or> nt_status i = INTENT_STATUS_INVALID then Inl INTENT_INVALID
      else if (case date_ms (nt_valid_until i) of None \<Rightarrow> False | Some v \<Rightarrow> v \<le> now) then Inl INTENT_EXPIRED
      else Inr ())"

record proposal_binding =
  pb_intent_id :: string
  pb_agent_id :: string

definition validate_proposal_intake :: "action_proposal \<Rightarrow> proposal_binding \<Rightarrow> error_code + unit" where
  "validate_proposal_intake p b =
     (if ap_intent_id p \<noteq> pb_intent_id b then Inl PROPOSAL_INVALID
      else if ap_agent_id p \<noteq> pb_agent_id b then Inl PROPOSAL_INVALID
      else Inr ())"

record assessment_binding =
  sb_proposal_id :: string
  sb_max_age_ms :: "int option"

definition validate_assessment_binding ::
    "(string \<Rightarrow> int option) \<Rightarrow> security_assessment \<Rightarrow> assessment_binding \<Rightarrow> int \<Rightarrow> error_code + unit" where
  "validate_assessment_binding date_ms a b now =
     (if sa_proposal_id a \<noteq> sb_proposal_id b then Inl SECURITY_ASSESSMENT_INVALID
      else
       (case sb_max_age_ms b of
          None \<Rightarrow> Inr ()
        | Some max_age \<Rightarrow>
           (case date_ms (sa_created_at a) of
              None \<Rightarrow> Inl SECURITY_ASSESSMENT_INVALID
            | Some created \<Rightarrow> if now - created > max_age then Inl SECURITY_ASSESSMENT_STALE else Inr ())))"

record material_inputs =
  mi_amount :: "string option"
  mi_recipient :: "string option"
  mi_asset :: "string option"
  mi_network :: "string option"

definition material_inputs_of :: "action_proposal \<Rightarrow> material_inputs" where
  "material_inputs_of p =
     \<lparr> mi_amount = map_option mo_value (ap_amount p),
       mi_recipient = (case ap_recipient p of None \<Rightarrow> None | Some r \<Rightarrow> or_else (rr_address r) (rr_identifier r)),
       mi_asset = map_option mo_currency (ap_amount p),
       mi_network = or_else (ap_network p) (case ap_recipient p of None \<Rightarrow> None | Some r \<Rightarrow> rr_network r) \<rparr>"

definition is_assessment_stale :: "material_inputs \<Rightarrow> material_inputs \<Rightarrow> bool" where
  "is_assessment_stale previous current \<longleftrightarrow>
     mi_amount previous \<noteq> mi_amount current \<or> mi_recipient previous \<noteq> mi_recipient current
   \<or> mi_asset previous \<noteq> mi_asset current \<or> mi_network previous \<noteq> mi_network current"

definition assert_assessment_current :: "material_inputs \<Rightarrow> material_inputs \<Rightarrow> error_code + unit" where
  "assert_assessment_current previous current =
     (if is_assessment_stale previous current then Inl SECURITY_ASSESSMENT_STALE else Inr ())"

section \<open>Lemmas\<close>

lemma validate_proposal_intake_Inr [simp]:
  "validate_proposal_intake p b = Inr u \<longleftrightarrow> ap_intent_id p = pb_intent_id b \<and> ap_agent_id p = pb_agent_id b"
  by (simp add: validate_proposal_intake_def)

lemma validate_assessment_binding_Inr:
  "validate_assessment_binding date_ms a b now = Inr u \<longleftrightarrow>
     sa_proposal_id a = sb_proposal_id b
   \<and> (\<forall>m. sb_max_age_ms b = Some m \<longrightarrow> (\<exists>t. date_ms (sa_created_at a) = Some t \<and> now \<le> t + m))"
  by (auto simp: validate_assessment_binding_def split: option.splits)

lemma is_assessment_stale_iff: "is_assessment_stale m n \<longleftrightarrow> m \<noteq> n"
  by (auto simp: is_assessment_stale_def)

end
