(* ===== verification/Money.thy ===== *)
theory Money
  imports Orvex_Prelude Complex_Main
begin

text \<open>
  Money (Backend/src/shared/money.ts and the \<open>moneyAmount\<close> format of
  shared/contracts/primitives.ts). Amounts travel as decimal strings; Core parses them with
  decimal.js, which is a parameter here: \<open>dl_parse\<close> gives the exact rational a string
  denotes (\<open>None\<close> when the constructor throws) and \<open>dl_show\<close> prints it. Arithmetic
  is exact, as decimal.js is for results of at most twenty significant digits.
  \<open>plain_decimal\<close> is the part of that library the contracts' format needs; it is the
  instance the witnesses use.
\<close>

record decimal_lib =
  dl_parse :: "string \<Rightarrow> rat option"
  dl_show :: "rat \<Rightarrow> string"

section \<open>The contracts' decimal strings\<close>

text \<open>\<open>/^-?\d+(\.\d+)?$/\<close>: an integer part, and after the point a fraction.\<close>

definition split_point :: "string \<Rightarrow> string \<times> string option" where
  "split_point s = (takeWhile (\<lambda>c. c \<noteq> CHR ''.'') s,
     (case dropWhile (\<lambda>c. c \<noteq> CHR ''.'') s of [] \<Rightarrow> None | _ # t \<Rightarrow> Some t))"

definition unsigned_part :: "string \<Rightarrow> string" where
  "unsigned_part s = (case s of [] \<Rightarrow> [] | c # t \<Rightarrow> if c = CHR ''-'' then t else s)"

definition money_amount :: "string \<Rightarrow> bool" where
  "money_amount s = (case split_point (unsigned_part s) of
       (i, None) \<Rightarrow> all_digits i
     | (i, Some f) \<Rightarrow> all_digits i \<and> all_digits f)"

text \<open>\<open>/^\d+(\.\d+)?$/\<close>: a non-negative decimal.\<close>

definition limit_format :: "string \<Rightarrow> bool" where
  "limit_format s = (case split_point s of
       (i, None) \<Rightarrow> all_digits i
     | (i, Some f) \<Rightarrow> all_digits i \<and> all_digits f)"

definition money_value :: "string \<Rightarrow> rat" where
  "money_value s =
     (let (i, f) = split_point (unsigned_part s);
          q = (case f of None \<Rightarrow> of_nat (digits_value i)
                | Some f \<Rightarrow> of_nat (digits_value i) + of_nat (digits_value f) / 10 ^ length f)
      in if s \<noteq> [] \<and> hd s = CHR ''-'' then - q else q)"

section \<open>The library instance of the contracts' format\<close>

definition plain_decimal :: decimal_lib where
  "plain_decimal = \<lparr> dl_parse = (\<lambda>s. if money_amount s then Some (money_value s) else None),
                     dl_show = (\<lambda>q. show_int (floor q)) \<rparr>"

definition amount_of :: "decimal_lib \<Rightarrow> string \<Rightarrow> 'e \<Rightarrow> 'e + rat" where
  "amount_of D s e = (case dl_parse D s of None \<Rightarrow> Inl e | Some q \<Rightarrow> Inr q)"

text \<open>\<open>sum\<close> of a list of decimals; the empty sum is zero.\<close>

definition sum_amounts :: "rat list \<Rightarrow> rat" where
  "sum_amounts qs = foldl (+) 0 qs"

lemma sum_amounts_sum_list: "sum_amounts qs = sum_list qs"
proof -
  have "foldl (+) a qs = a + sum_list qs" for a :: rat
    by (induction qs arbitrary: a) (simp_all add: algebra_simps)
  then show ?thesis by (simp add: sum_amounts_def)
qed

lemma sum_amounts_nonneg: "(\<And>q. q \<in> set qs \<Longrightarrow> 0 \<le> q) \<Longrightarrow> 0 \<le> sum_amounts qs"
  by (simp add: sum_amounts_sum_list sum_list_nonneg)

lemma amount_of_Inr [simp]: "amount_of D s e = Inr q \<longleftrightarrow> dl_parse D s = Some q"
  by (simp add: amount_of_def split: option.splits)

lemma plain_decimal_parse [simp]:
  "dl_parse plain_decimal s = (if money_amount s then Some (money_value s) else None)"
  by (simp add: plain_decimal_def)

end
