(* ===== verification/Authority.thy ===== *)
theory Authority
  imports Core_Errors Canonical_Json Money
begin

text \<open>
  Tenants, agents and their constitutions (Backend/src/domain/companies/company.service.ts,
  agents/agent.service.ts, constitutions/constitution.service.ts) over the tables
  \<open>companies\<close>, \<open>agents\<close>, \<open>constitutions\<close> and \<open>capabilities\<close>, whose service is the theory
  Capability. A constitution's configuration has the fields the services read; the remaining
  members of the JSON object are carried in \<open>cc_other\<close>.
\<close>

section \<open>State\<close>

datatype company_status = COMPANY_ACTIVE | COMPANY_SUSPENDED | COMPANY_DISABLED

datatype agent_status = AG_CREATED | AG_CONFIGURED | AG_ACTIVE | AG_PAUSED | AG_SUSPENDED | AG_DISABLED

datatype execution_mode = MODE_SIMULATE | MODE_REVIEW_ONLY | MODE_TESTNET | MODE_AUTONOMOUS

datatype constitution_status =
  CN_DRAFT | CN_VALIDATING | CN_APPROVED | CN_ACTIVE | CN_SUPERSEDED | CN_DISABLED

datatype capability_status = CAP_ACTIVE | CAP_EXPIRED | CAP_REVOKED

record company =
  co_id :: string
  co_name :: string
  co_status :: company_status

record agent =
  ag_id :: string
  ag_company_id :: string
  ag_name :: string
  ag_purpose :: string
  ag_status :: agent_status
  ag_execution_mode :: execution_mode
  ag_active_constitution_id :: "string option"
  ag_active_policy_id :: "string option"

record constitution_config =
  cc_purpose :: "string option"
  cc_allowed_actions :: "string list"
  cc_blocked_actions :: "string list option"
  cc_allowed_assets :: "string list option"
  cc_allowed_networks :: "string list option"
  cc_allowed_categories :: "string list option"
  cc_spending_limits :: "(string \<times> string) list option"
  cc_other :: "(string \<times> json) list"

record constitution =
  cn_id :: string
  cn_company_id :: string
  cn_agent_id :: string
  cn_version :: int
  cn_status :: constitution_status
  cn_purpose :: string
  cn_config :: constitution_config
  cn_hash :: string
  cn_created_by :: "string option"
  cn_activated_at :: "int option"
  cn_deactivated_at :: "int option"

record capability =
  cap_id :: string
  cap_company_id :: string
  cap_agent_id :: string
  cap_parent_id :: "string option"
  cap_action :: string
  cap_asset :: "string option"
  cap_network :: "string option"
  cap_category_scope :: "string list option"
  cap_recipient_scope :: "string list option"
  cap_single_transaction_limit :: "rat option"
  cap_daily_limit :: "rat option"
  cap_weekly_limit :: "rat option"
  cap_monthly_limit :: "rat option"
  cap_valid_from :: int
  cap_expires_at :: "int option"
  cap_status :: capability_status
  cap_created_by :: "string option"
  cap_revoked_at :: "int option"

record authority_db =
  ah_companies :: "company list"
  ah_agents :: "agent list"
  ah_constitutions :: "constitution list"
  ah_capabilities :: "capability list"

type_synonym 'a authority_op = "(authority_db, error_code, 'a) op"

section \<open>Companies\<close>

definition create_company :: "string \<Rightarrow> string option \<Rightarrow> company authority_op" where
  "create_company nid name db =
     (case map_option trim name of
        None \<Rightarrow> (Inl INVALID_INPUT, db)
      | Some n \<Rightarrow>
          if n = [] then (Inl INVALID_INPUT, db)
          else (let c = \<lparr> co_id = nid, co_name = n, co_status = COMPANY_ACTIVE \<rparr>
                in (Inr c, db\<lparr>ah_companies := ah_companies db @ [c]\<rparr>)))"

definition get_company :: "string \<Rightarrow> authority_db \<Rightarrow> company option" where
  "get_company company_id db = find (\<lambda>c. co_id c = company_id) (ah_companies db)"

definition require_company :: "string \<Rightarrow> authority_db \<Rightarrow> error_code + company" where
  "require_company company_id db = from_option NOT_FOUND (get_company company_id db)"

definition update_company_status :: "string \<Rightarrow> company_status \<Rightarrow> company authority_op" where
  "update_company_status company_id st db =
     (case require_company company_id db of
        Inl e \<Rightarrow> (Inl e, db)
      | Inr c \<Rightarrow> (Inr (c\<lparr>co_status := st\<rparr>),
          db\<lparr>ah_companies := update_where (\<lambda>c. co_id c = company_id) (\<lambda>c. c\<lparr>co_status := st\<rparr>) (ah_companies db)\<rparr>))"

section \<open>Agents\<close>

record create_agent_input =
  ci_company_id :: string
  ci_name :: "string option"
  ci_purpose :: "string option"
  ci_execution_mode :: "execution_mode option"

definition create_agent :: "string \<Rightarrow> create_agent_input \<Rightarrow> agent authority_op" where
  "create_agent nid i db =
     (case map_option trim (ci_name i) of
        None \<Rightarrow> (Inl INVALID_INPUT, db)
      | Some name \<Rightarrow>
          if name = [] then (Inl INVALID_INPUT, db)
          else if get_company (ci_company_id i) db = None then (Inl TENANT_ERROR, db)
          else if find (\<lambda>a. ag_company_id a = ci_company_id i \<and> ag_name a = name) (ah_agents db) \<noteq> None
            then (Inl CONFLICT, db)
          else (let a = \<lparr> ag_id = nid, ag_company_id = ci_company_id i, ag_name = name,
                          ag_purpose = nullish (ci_purpose i) [], ag_status = AG_CREATED,
                          ag_execution_mode = nullish (ci_execution_mode i) MODE_SIMULATE,
                          ag_active_constitution_id = None,
                          ag_active_policy_id = None \<rparr>
                in (Inr a, db\<lparr>ah_agents := ah_agents db @ [a]\<rparr>)))"

definition get_agent :: "string \<Rightarrow> string \<Rightarrow> authority_db \<Rightarrow> agent option" where
  "get_agent company_id agent_id db =
     find (\<lambda>a. ag_id a = agent_id \<and> ag_company_id a = company_id) (ah_agents db)"

definition require_agent :: "string \<Rightarrow> string \<Rightarrow> authority_db \<Rightarrow> error_code + agent" where
  "require_agent company_id agent_id db = from_option AGENT_NOT_FOUND (get_agent company_id agent_id db)"

definition list_agents :: "string \<Rightarrow> authority_db \<Rightarrow> agent list" where
  "list_agents company_id db = filter (\<lambda>a. ag_company_id a = company_id) (ah_agents db)"

definition transition_agent :: "string \<Rightarrow> string \<Rightarrow> agent_status \<Rightarrow> agent authority_op" where
  "transition_agent company_id agent_id st db =
     (case require_agent company_id agent_id db of
        Inl e \<Rightarrow> (Inl e, db)
      | Inr a \<Rightarrow> (Inr (a\<lparr>ag_status := st\<rparr>),
          db\<lparr>ah_agents := update_where (\<lambda>a. ag_id a = agent_id) (\<lambda>a. a\<lparr>ag_status := st\<rparr>) (ah_agents db)\<rparr>))"

definition activate_agent :: "string \<Rightarrow> string \<Rightarrow> agent authority_op" where
  "activate_agent c a = transition_agent c a AG_ACTIVE"

definition pause_agent :: "string \<Rightarrow> string \<Rightarrow> agent authority_op" where
  "pause_agent c a = transition_agent c a AG_PAUSED"

definition resume_agent :: "string \<Rightarrow> string \<Rightarrow> agent authority_op" where
  "resume_agent c a = transition_agent c a AG_ACTIVE"

definition suspend_agent :: "string \<Rightarrow> string \<Rightarrow> agent authority_op" where
  "suspend_agent c a = transition_agent c a AG_SUSPENDED"

definition disable_agent :: "string \<Rightarrow> string \<Rightarrow> agent authority_op" where
  "disable_agent c a = transition_agent c a AG_DISABLED"

section \<open>Constitutions\<close>

definition validate_constitution :: "constitution_config \<Rightarrow> error_code + constitution_config" where
  "validate_constitution config =
     (if cc_allowed_actions config = [] then Inl INVALID_INPUT
      else if \<not> list_all (\<lambda>(k, v). limit_format v) (nullish (cc_spending_limits config) [])
        then Inl INVALID_INPUT
      else Inr config)"

definition opt_strings :: "string \<Rightarrow> string list option \<Rightarrow> (string \<times> json) list" where
  "opt_strings k v = (case v of None \<Rightarrow> [] | Some xs \<Rightarrow> [(k, JArr (map JStr xs))])"

definition config_json :: "constitution_config \<Rightarrow> json" where
  "config_json c = JObj
     ((case cc_purpose c of None \<Rightarrow> [] | Some p \<Rightarrow> [(''purpose'', JStr p)])
      @ [(''allowed_actions'', JArr (map JStr (cc_allowed_actions c)))]
      @ opt_strings ''blocked_actions'' (cc_blocked_actions c)
      @ opt_strings ''allowed_assets'' (cc_allowed_assets c)
      @ opt_strings ''allowed_networks'' (cc_allowed_networks c)
      @ opt_strings ''allowed_categories'' (cc_allowed_categories c)
      @ (case cc_spending_limits c of None \<Rightarrow> [] | Some m \<Rightarrow> [(''spending_limits'', JObj (map (map_prod id JStr) m))])
      @ cc_other c)"

definition constitution_hash :: "(string \<Rightarrow> string) \<Rightarrow> string \<Rightarrow> int \<Rightarrow> constitution_config \<Rightarrow> string" where
  "constitution_hash sha agent_id version config = sha256_json sha (JObj
     [(''agentId'', JStr agent_id), (''version'', JNum version), (''config'', config_json config)])"

text \<open>The version of the row with the highest one, or zero.\<close>

definition latest_version :: "int list \<Rightarrow> int" where
  "latest_version vs = (if vs = [] then 0 else Max (set vs))"

definition create_constitution ::
    "(string \<Rightarrow> string) \<Rightarrow> string \<Rightarrow> string \<Rightarrow> string \<Rightarrow> constitution_config \<Rightarrow> string option \<Rightarrow> constitution authority_op" where
  "create_constitution sha nid company_id agent_id config created_by db =
     (case validate_constitution config of
        Inl e \<Rightarrow> (Inl e, db)
      | Inr config \<Rightarrow>
          if get_agent company_id agent_id db = None then (Inl TENANT_ERROR, db)
          else
           (let version = latest_version (map cn_version (filter (\<lambda>c. cn_agent_id c = agent_id) (ah_constitutions db))) + 1;
                c = \<lparr> cn_id = nid, cn_company_id = company_id, cn_agent_id = agent_id, cn_version = version,
                      cn_status = CN_DRAFT, cn_purpose = nullish (cc_purpose config) [], cn_config = config,
                      cn_hash = constitution_hash sha agent_id version config, cn_created_by = created_by,
                      cn_activated_at = None, cn_deactivated_at = None \<rparr>
            in (Inr c, db\<lparr>ah_constitutions := ah_constitutions db @ [c]\<rparr>)))"

definition get_constitution :: "string \<Rightarrow> string \<Rightarrow> authority_db \<Rightarrow> constitution option" where
  "get_constitution company_id i db =
     find (\<lambda>c. cn_id c = i \<and> cn_company_id c = company_id) (ah_constitutions db)"

definition get_constitution_version :: "string \<Rightarrow> string \<Rightarrow> int \<Rightarrow> authority_db \<Rightarrow> constitution option" where
  "get_constitution_version company_id agent_id version db =
     find (\<lambda>c. cn_company_id c = company_id \<and> cn_agent_id c = agent_id \<and> cn_version c = version) (ah_constitutions db)"

definition get_active_constitution :: "string \<Rightarrow> string \<Rightarrow> authority_db \<Rightarrow> constitution option" where
  "get_active_constitution company_id agent_id db =
     find (\<lambda>c. cn_company_id c = company_id \<and> cn_agent_id c = agent_id \<and> cn_status c = CN_ACTIVE) (ah_constitutions db)"

definition activate_constitution :: "int \<Rightarrow> string \<Rightarrow> string \<Rightarrow> constitution authority_op" where
  "activate_constitution now company_id constitution_id = transaction (\<lambda>db.
     (case get_constitution company_id constitution_id db of
        None \<Rightarrow> (Inl NOT_FOUND, db)
      | Some target \<Rightarrow>
          if cn_status target = CN_SUPERSEDED \<or> cn_status target = CN_DISABLED then (Inl CONFLICT, db)
          else
           (let superseded = update_where
                  (\<lambda>c. cn_company_id c = company_id \<and> cn_agent_id c = cn_agent_id target \<and> cn_status c = CN_ACTIVE)
                  (\<lambda>c. c\<lparr>cn_status := CN_SUPERSEDED, cn_deactivated_at := Some now\<rparr>) (ah_constitutions db);
                activated = update_where (\<lambda>c. cn_id c = cn_id target)
                  (\<lambda>c. c\<lparr>cn_status := CN_ACTIVE, cn_activated_at := Some now\<rparr>) superseded;
                agents = update_where (\<lambda>a. ag_id a = cn_agent_id target)
                  (\<lambda>a. a\<lparr>ag_active_constitution_id := Some (cn_id target)\<rparr>) (ah_agents db)
            in case find (\<lambda>c. cn_id c = cn_id target) activated of
                 None \<Rightarrow> (Inl INTERNAL_ERROR, db)
               | Some c \<Rightarrow> (Inr c, db\<lparr>ah_constitutions := activated, ah_agents := agents\<rparr>))))"

section \<open>The tables as a transition system\<close>

inductive authority_step :: "(string \<Rightarrow> string) \<Rightarrow> authority_db \<Rightarrow> authority_db \<Rightarrow> bool" for sha where
  step_company: "authority_step sha db (snd (create_company nid name db))"
| step_company_status: "authority_step sha db (snd (update_company_status c cst db))"
| step_agent: "nid \<notin> ag_id ` set (ah_agents db) \<Longrightarrow> authority_step sha db (snd (create_agent nid i db))"
| step_agent_status: "authority_step sha db (snd (transition_agent c a ast db))"
| step_constitution: "nid \<notin> cn_id ` set (ah_constitutions db) \<Longrightarrow>
     authority_step sha db (snd (create_constitution sha nid c a config cb db))"
| step_activate: "authority_step sha db (snd (activate_constitution now c cid db))"

inductive_cases authority_stepE: "authority_step sha db db'"

definition empty_authority :: authority_db where
  "empty_authority = \<lparr> ah_companies = [], ah_agents = [], ah_constitutions = [], ah_capabilities = [] \<rparr>"

text \<open>
  Identifiers are unique, every constitution belongs to an agent of its company, the active ones
  of an agent are exactly the one it points to, versions of an agent are distinct, and every
  stored hash is that of the stored version and configuration.
\<close>

definition active_of :: "string \<Rightarrow> authority_db \<Rightarrow> constitution list" where
  "active_of a db = filter (\<lambda>c. cn_agent_id c = a \<and> cn_status c = CN_ACTIVE) (ah_constitutions db)"

definition authority_ok :: "(string \<Rightarrow> string) \<Rightarrow> authority_db \<Rightarrow> bool" where
  "authority_ok sha db \<longleftrightarrow>
     distinct (map ag_id (ah_agents db)) \<and> distinct (map cn_id (ah_constitutions db))
   \<and> distinct (map (\<lambda>c. (cn_agent_id c, cn_version c)) (ah_constitutions db))
   \<and> (\<forall>c \<in> set (ah_constitutions db).
        (\<exists>a \<in> set (ah_agents db). ag_id a = cn_agent_id c \<and> ag_company_id a = cn_company_id c)
        \<and> cn_hash c = constitution_hash sha (cn_agent_id c) (cn_version c) (cn_config c))
   \<and> (\<forall>a \<in> set (ah_agents db).
        map cn_id (active_of (ag_id a) db) = (case ag_active_constitution_id a of None \<Rightarrow> [] | Some i \<Rightarrow> [i]))"

section \<open>Lemmas\<close>

lemma authority_okD:
  assumes "authority_ok sha db"
  shows "distinct (map ag_id (ah_agents db))" "distinct (map cn_id (ah_constitutions db))"
    and "c \<in> set (ah_constitutions db) \<Longrightarrow>
      \<exists>a \<in> set (ah_agents db). ag_id a = cn_agent_id c \<and> ag_company_id a = cn_company_id c"
    and "c \<in> set (ah_constitutions db) \<Longrightarrow>
      cn_hash c = constitution_hash sha (cn_agent_id c) (cn_version c) (cn_config c)"
    and "a \<in> set (ah_agents db) \<Longrightarrow>
      map cn_id (active_of (ag_id a) db) = (case ag_active_constitution_id a of None \<Rightarrow> [] | Some i \<Rightarrow> [i])"
  using assms by (auto simp: authority_ok_def)

lemma filter_key_single:
  "distinct (map key rows) \<Longrightarrow> r \<in> set rows \<Longrightarrow> filter (\<lambda>x. key x = key r) rows = [r]"
proof (induction rows)
  case (Cons y rows)
  show ?case
  proof (cases "y = r")
    case True
    then have "filter (\<lambda>x. key x = key r) rows = []"
      using Cons.prems(1) by (auto simp: filter_empty_conv image_iff)
    with True show ?thesis by simp
  next
    case False
    with Cons.prems have "key y \<noteq> key r" by (auto simp: image_iff)
    with False Cons show ?thesis by simp
  qed
qed simp

lemma latest_version_fresh: "v \<in> set vs \<Longrightarrow> v \<noteq> latest_version vs + 1"
proof -
  assume v: "v \<in> set vs"
  then have "v < Max (set vs) + 1" "vs \<noteq> []" by (auto simp: less_add_one)
  then show ?thesis by (auto simp: latest_version_def)
qed

lemma get_agent_D: "get_agent c i db = Some a \<Longrightarrow> a \<in> set (ah_agents db) \<and> ag_id a = i \<and> ag_company_id a = c"
  by (auto simp: get_agent_def dest: find_SomeD)

lemma active_of_constitutions_update:
  "active_of a (db\<lparr>ah_agents := x\<rparr>) = active_of a db" "active_of a (db\<lparr>ah_companies := y\<rparr>) = active_of a db"
  by (simp_all add: active_of_def)

lemma bex_update_where:
  "(\<And>r. Q (f r) = Q r) \<Longrightarrow> (\<exists>b \<in> set (update_where P f rows). Q b) \<longleftrightarrow> (\<exists>b \<in> set rows. Q b)"
  by (induction rows) auto

text \<open>An agent row may change in anything but its id, its company and its pointer.\<close>

lemma authority_ok_agents:
  assumes "authority_ok sha db"
    and "\<And>a. ag_id (f a) = ag_id a \<and> ag_company_id (f a) = ag_company_id a
           \<and> ag_active_constitution_id (f a) = ag_active_constitution_id a"
  shows "authority_ok sha (db\<lparr>ah_agents := update_where P f (ah_agents db)\<rparr>)"
proof -
  have "map ag_id (update_where P f (ah_agents db)) = map ag_id (ah_agents db)"
    using assms(2) by (simp add: map_update_where_same)
  moreover have "(\<exists>b \<in> set (update_where P f (ah_agents db)). ag_id b = i \<and> ag_company_id b = c)"
    if "\<exists>b \<in> set (ah_agents db). ag_id b = i \<and> ag_company_id b = c" for i c
    using that by (subst bex_update_where) (simp_all add: assms(2))
  ultimately show ?thesis
    using assms unfolding authority_ok_def active_of_constitutions_update
    by (auto simp: in_update_where)
qed

lemma authority_ok_create_agent:
  assumes "authority_ok sha db" and "nid \<notin> ag_id ` set (ah_agents db)"
  shows "authority_ok sha (snd (create_agent nid i db))"
proof -
  have "active_of nid db = []"
    using authority_okD(3) [OF assms(1)] assms(2) by (force simp: active_of_def filter_empty_conv)
  then show ?thesis
    using assms by (auto simp: create_agent_def Let_def authority_ok_def active_of_constitutions_update
        split: option.splits)
qed

lemma authority_ok_create_constitution:
  assumes "authority_ok sha db" and "nid \<notin> cn_id ` set (ah_constitutions db)"
  shows "authority_ok sha (snd (create_constitution sha nid c a config cb db))"
proof -
  let ?v = "latest_version (map cn_version (filter (\<lambda>c. cn_agent_id c = a) (ah_constitutions db))) + 1"
  have "(a, ?v) \<notin> (\<lambda>c. (cn_agent_id c, cn_version c)) ` set (ah_constitutions db)"
    using latest_version_fresh [of _ "map cn_version (filter (\<lambda>c. cn_agent_id c = a) (ah_constitutions db))"]
    by force
  then show ?thesis
    using assms
    by (auto simp: create_constitution_def validate_constitution_def Let_def authority_ok_def active_of_def
        dest: get_agent_D split: sum.splits)
qed

lemma active_of_activate:
  fixes now :: int
  assumes ok: "authority_ok sha db" and t: "t \<in> set (ah_constitutions db)" and c: "cn_company_id t = c"
  defines "rows \<equiv> update_where (\<lambda>x. cn_id x = cn_id t) (\<lambda>x. x\<lparr>cn_status := CN_ACTIVE, cn_activated_at := Some now\<rparr>)
      (update_where (\<lambda>x. cn_company_id x = c \<and> cn_agent_id x = cn_agent_id t \<and> cn_status x = CN_ACTIVE)
         (\<lambda>x. x\<lparr>cn_status := CN_SUPERSEDED, cn_deactivated_at := Some now\<rparr>) (ah_constitutions db))"
  shows "map cn_id (active_of b (db\<lparr>ah_constitutions := rows, ah_agents := ags\<rparr>))
     = (if b = cn_agent_id t then [cn_id t] else map cn_id (active_of b db))"
proof -
  let ?g = "\<lambda>x. (let y = if cn_company_id x = c \<and> cn_agent_id x = cn_agent_id t \<and> cn_status x = CN_ACTIVE
       then x\<lparr>cn_status := CN_SUPERSEDED, cn_deactivated_at := Some now\<rparr> else x
     in if cn_id y = cn_id t then y\<lparr>cn_status := CN_ACTIVE, cn_activated_at := Some now\<rparr> else y)"
  have rows: "rows = map ?g (ah_constitutions db)"
    by (simp add: rows_def update_where_def comp_def Let_def)
  have comp: "cn_company_id x = c" if x: "x \<in> set (ah_constitutions db)" "cn_agent_id x = cn_agent_id t" for x
  proof -
    obtain a a' where "a \<in> set (ah_agents db)" "ag_id a = cn_agent_id x" "ag_company_id a = cn_company_id x"
      "a' \<in> set (ah_agents db)" "ag_id a' = cn_agent_id t" "ag_company_id a' = cn_company_id t"
      using authority_okD(3) [OF ok x(1)] authority_okD(3) [OF ok t] by blast
    then show ?thesis
      using key_unique [OF authority_okD(1) [OF ok], of a a'] x(2) c by simp
  qed
  have pick: "(cn_agent_id (?g x) = b \<and> cn_status (?g x) = CN_ACTIVE) \<longleftrightarrow>
      (if b = cn_agent_id t then cn_id x = cn_id t else cn_agent_id x = b \<and> cn_status x = CN_ACTIVE)"
    if x: "x \<in> set (ah_constitutions db)" for x
  proof (cases "cn_id x = cn_id t")
    case True
    then have "x = t" using key_unique [OF authority_okD(2) [OF ok] x t] by simp
    then show ?thesis by (simp add: Let_def)
  next
    case False
    with comp [OF x] show ?thesis by (simp add: Let_def)
  qed
  have "map cn_id (filter (\<lambda>x. cn_agent_id x = b \<and> cn_status x = CN_ACTIVE) (map ?g (ah_constitutions db)))
     = map cn_id (filter (\<lambda>x. cn_agent_id (?g x) = b \<and> cn_status (?g x) = CN_ACTIVE) (ah_constitutions db))"
    by (simp add: filter_map comp_def Let_def)
  also have "\<dots> = map cn_id (filter (\<lambda>x. if b = cn_agent_id t then cn_id x = cn_id t
      else cn_agent_id x = b \<and> cn_status x = CN_ACTIVE) (ah_constitutions db))"
    using pick by (simp cong: filter_cong)
  finally show ?thesis
    using filter_key_single [OF authority_okD(2) [OF ok] t] by (simp add: active_of_def rows)
qed

lemma authority_ok_activate:
  assumes ok: "authority_ok sha db"
  shows "authority_ok sha (snd (activate_constitution now c cid db))"
  unfolding activate_constitution_def
proof (rule transaction_preserves [where P = "authority_ok sha", OF ok])
  fix r db'
  assume run: "(case get_constitution c cid db of None \<Rightarrow> (Inl NOT_FOUND, db)
      | Some target \<Rightarrow>
          if cn_status target = CN_SUPERSEDED \<or> cn_status target = CN_DISABLED then (Inl CONFLICT, db)
          else
           (let superseded = update_where
                  (\<lambda>x. cn_company_id x = c \<and> cn_agent_id x = cn_agent_id target \<and> cn_status x = CN_ACTIVE)
                  (\<lambda>x. x\<lparr>cn_status := CN_SUPERSEDED, cn_deactivated_at := Some now\<rparr>) (ah_constitutions db);
                activated = update_where (\<lambda>x. cn_id x = cn_id target)
                  (\<lambda>x. x\<lparr>cn_status := CN_ACTIVE, cn_activated_at := Some now\<rparr>) superseded;
                agents = update_where (\<lambda>a. ag_id a = cn_agent_id target)
                  (\<lambda>a. a\<lparr>ag_active_constitution_id := Some (cn_id target)\<rparr>) (ah_agents db)
            in case find (\<lambda>x. cn_id x = cn_id target) activated of
                 None \<Rightarrow> (Inl INTERNAL_ERROR, db)
               | Some x \<Rightarrow> (Inr x, db\<lparr>ah_constitutions := activated, ah_agents := agents\<rparr>))) = (Inr r, db')"
  then obtain t where t: "t \<in> set (ah_constitutions db)" "cn_company_id t = c"
    and db': "db' = db\<lparr>ah_constitutions := update_where (\<lambda>x. cn_id x = cn_id t)
         (\<lambda>x. x\<lparr>cn_status := CN_ACTIVE, cn_activated_at := Some now\<rparr>)
         (update_where (\<lambda>x. cn_company_id x = c \<and> cn_agent_id x = cn_agent_id t \<and> cn_status x = CN_ACTIVE)
            (\<lambda>x. x\<lparr>cn_status := CN_SUPERSEDED, cn_deactivated_at := Some now\<rparr>) (ah_constitutions db)),
       ah_agents := update_where (\<lambda>a. ag_id a = cn_agent_id t)
         (\<lambda>a. a\<lparr>ag_active_constitution_id := Some (cn_id t)\<rparr>) (ah_agents db)\<rparr>"
    by (auto simp: get_constitution_def Let_def split: option.splits if_splits dest: find_SomeD)
  have ids: "map ag_id (ah_agents db') = map ag_id (ah_agents db)"
    "map cn_id (ah_constitutions db') = map cn_id (ah_constitutions db)"
    "map (\<lambda>x. (cn_agent_id x, cn_version x)) (ah_constitutions db') = map (\<lambda>x. (cn_agent_id x, cn_version x)) (ah_constitutions db)"
    by (simp_all add: db' map_update_where_same)
  have agents: "\<exists>a \<in> set (ah_agents db'). ag_id a = i \<and> ag_company_id a = k"
    if "\<exists>a \<in> set (ah_agents db). ag_id a = i \<and> ag_company_id a = k" for i k
    using that by (simp add: db' bex_update_where)
  have cons: "\<exists>y \<in> set (ah_constitutions db). cn_agent_id x = cn_agent_id y \<and> cn_company_id x = cn_company_id y
      \<and> cn_hash x = cn_hash y \<and> cn_version x = cn_version y \<and> cn_config x = cn_config y"
    if x: "x \<in> set (ah_constitutions db')" for x
  proof -
    obtain y where "y \<in> set (ah_constitutions db)"
      and "x = (let z = if cn_company_id y = c \<and> cn_agent_id y = cn_agent_id t \<and> cn_status y = CN_ACTIVE
           then y\<lparr>cn_status := CN_SUPERSEDED, cn_deactivated_at := Some now\<rparr> else y
         in if cn_id z = cn_id t then z\<lparr>cn_status := CN_ACTIVE, cn_activated_at := Some now\<rparr> else z)"
      using x by (auto simp: db' in_update_where Let_def)
    then show ?thesis by (intro bexI [of _ y]) (simp_all add: Let_def)
  qed
  have act: "map cn_id (active_of (ag_id a) db') = (case ag_active_constitution_id a of None \<Rightarrow> [] | Some i \<Rightarrow> [i])"
    if "a \<in> set (ah_agents db')" for a
    using that authority_okD(5) [OF ok] active_of_activate [OF ok t]
    by (auto simp: db' in_update_where)
  have row: "(\<exists>a \<in> set (ah_agents db'). ag_id a = cn_agent_id x \<and> ag_company_id a = cn_company_id x)
      \<and> cn_hash x = constitution_hash sha (cn_agent_id x) (cn_version x) (cn_config x)"
    if x: "x \<in> set (ah_constitutions db')" for x
  proof -
    obtain y where y: "y \<in> set (ah_constitutions db)" "cn_agent_id x = cn_agent_id y"
      "cn_company_id x = cn_company_id y" "cn_hash x = cn_hash y" "cn_version x = cn_version y"
      "cn_config x = cn_config y"
      using cons [OF x] by blast
    show ?thesis
      using agents [OF authority_okD(3) [OF ok y(1)]] authority_okD(4) [OF ok y(1)] by (simp add: y)
  qed
  show "authority_ok sha db'"
    unfolding authority_ok_def ids
    by (intro conjI ballI row [THEN conjunct1] row [THEN conjunct2] act)
      (use ok in \<open>simp_all add: authority_ok_def\<close>)
qed

lemma authority_ok_step:
  assumes "authority_ok sha db" and "authority_step sha db db'"
  shows "authority_ok sha db'"
  using assms(2)
proof (cases rule: authority_step.cases)
  case (step_company nid name)
  then show ?thesis
    using assms(1) by (auto simp: create_company_def Let_def authority_ok_def active_of_constitutions_update split: option.splits)
next
  case (step_company_status c cst)
  then show ?thesis
    using assms(1) by (auto simp: update_company_status_def authority_ok_def active_of_constitutions_update split: sum.splits)
next
  case (step_agent_status c a ast)
  then show ?thesis
    using assms(1) authority_ok_agents [OF assms(1), of "\<lambda>a. a\<lparr>ag_status := ast\<rparr>"]
    by (auto simp: transition_agent_def split: sum.splits)
qed (use assms(1) authority_ok_create_agent authority_ok_create_constitution authority_ok_activate in simp_all)

interpretation authority: invariant_system "\<lambda>db. db = empty_authority" "authority_step sha" "authority_ok sha"
  for sha
  by (unfold_locales, simp add: authority_ok_def empty_authority_def) (rule authority_ok_step)

section \<open>Properties\<close>

text \<open>
  An agent has at most one active constitution and points to exactly that one, in every
  reachable state; its version history has no number twice, and each row's hash is the hash
  of its stored version and configuration.
\<close>

theorem active_constitution_unique:
  assumes "reachable (\<lambda>db. db = empty_authority) (authority_step sha) db" and "a \<in> set (ah_agents db)"
  shows "map cn_id (filter (\<lambda>c. cn_agent_id c = ag_id a \<and> cn_status c = CN_ACTIVE) (ah_constitutions db))
       = (case ag_active_constitution_id a of None \<Rightarrow> [] | Some i \<Rightarrow> [i])
    \<and> distinct (map cn_version (filter (\<lambda>c. cn_agent_id c = ag_id a) (ah_constitutions db)))"
proof -
  have ok: "authority_ok sha db" using authority.reachable_inv [OF assms(1)] .
  have "distinct (map (\<lambda>c. (cn_agent_id c, cn_version c)) (ah_constitutions db))"
    using ok by (simp add: authority_ok_def)
  then have "distinct (map cn_version (filter (\<lambda>c. cn_agent_id c = ag_id a) (ah_constitutions db)))"
    by (auto simp: distinct_map inj_on_def)
  then show ?thesis using authority_okD(5) [OF ok assms(2)] by (simp add: active_of_def)
qed

definition sample_config :: "string list option \<Rightarrow> constitution_config" where
  "sample_config assets = \<lparr> cc_purpose = None, cc_allowed_actions = [''PAY''], cc_blocked_actions = None,
     cc_allowed_assets = assets, cc_allowed_networks = None, cc_allowed_categories = None,
     cc_spending_limits = Some [(''single_transaction'', ''100'')], cc_other = [] \<rparr>"

definition sample_agent_input :: create_agent_input where
  "sample_agent_input = \<lparr> ci_company_id = ''co'', ci_name = Some '' payer '', ci_purpose = None,
     ci_execution_mode = None \<rparr>"

definition authority1 :: authority_db where
  "authority1 = snd (create_agent ''ag'' sample_agent_input (snd (create_company ''co'' (Some ''Acme'') empty_authority)))"

definition authority2 :: authority_db where
  "authority2 = snd (create_constitution (\<lambda>s. s) ''c2'' ''co'' ''ag'' (sample_config (Some [''USDC''])) None
     (snd (create_constitution (\<lambda>s. s) ''c1'' ''co'' ''ag'' (sample_config None) None authority1)))"

definition authority3 :: authority_db where
  "authority3 = snd (activate_constitution 8 ''co'' ''c2'' (snd (activate_constitution 7 ''co'' ''c1'' authority2)))"

lemmas authority_eval = create_agent_def sample_agent_input_def create_company_def empty_authority_def
  create_constitution_def validate_constitution_def sample_config_def activate_constitution_def
  transaction_def get_constitution_def get_agent_def get_company_def trim_def is_space_def Let_def
  limit_format_def split_point_def all_digits_def is_digit_def latest_version_def

lemma authority1_value: "ah_agents authority1 = [\<lparr> ag_id = ''ag'', ag_company_id = ''co'', ag_name = ''payer'',
     ag_purpose = [], ag_status = AG_CREATED, ag_execution_mode = MODE_SIMULATE, ag_active_constitution_id = None,
     ag_active_policy_id = None \<rparr>]"
  "ah_constitutions authority1 = []" "ah_capabilities authority1 = []"
  by (simp_all add: authority1_def authority_eval)

lemma authority2_value:
  "ah_agents authority2 = ah_agents authority1"
  "map cn_id (ah_constitutions authority2) = [''c1'', ''c2'']"
  "map cn_agent_id (ah_constitutions authority2) = [''ag'', ''ag'']"
  "map cn_company_id (ah_constitutions authority2) = [''co'', ''co'']"
  "map cn_status (ah_constitutions authority2) = [CN_DRAFT, CN_DRAFT]"
  "map cn_version (ah_constitutions authority2) = [1, 2]"
  by (simp_all add: authority2_def authority1_value authority_eval)

lemma authority_reached:
  "reachable (\<lambda>db. db = empty_authority) (authority_step (\<lambda>s. s)) authority1"
  "reachable (\<lambda>db. db = empty_authority) (authority_step (\<lambda>s. s)) authority2"
  "reachable (\<lambda>db. db = empty_authority) (authority_step (\<lambda>s. s)) authority3"
proof -
  let ?R = "reachable (\<lambda>db. db = empty_authority) (authority_step (\<lambda>s. s))"
  have "?R empty_authority" by (rule reachable_init) simp
  then have "?R (snd (create_company ''co'' (Some ''Acme'') empty_authority))"
    by (rule reachable_step) (rule step_company)
  then show r1: "?R authority1" unfolding authority1_def
    by (rule reachable_step) (rule step_agent, simp add: authority_eval)
  then have "?R (snd (create_constitution (\<lambda>s. s) ''c1'' ''co'' ''ag'' (sample_config None) None authority1))"
    by (rule reachable_step) (rule step_constitution, simp add: authority1_value)
  then show r2: "?R authority2" unfolding authority2_def
    by (rule reachable_step) (rule step_constitution, simp add: authority1_value authority_eval)
  then have "?R (snd (activate_constitution 7 ''co'' ''c1'' authority2))"
    by (rule reachable_step) (rule step_activate)
  then show "?R authority3" unfolding authority3_def
    by (rule reachable_step) (rule step_activate)
qed

text \<open>After both versions were activated in turn, the second alone is active.\<close>

theorem active_constitution_unique_witness:
  "map cn_id (filter (\<lambda>c. cn_agent_id c = ''ag'' \<and> cn_status c = CN_ACTIVE) (ah_constitutions authority3)) = [''c2'']"
proof -
  obtain x y where rows: "ah_constitutions authority2 = [x, y]" and x: "cn_id x = ''c1''" "cn_id y = ''c2''"
    "cn_agent_id x = ''ag''" "cn_agent_id y = ''ag''" "cn_company_id x = ''co''" "cn_company_id y = ''co''"
    "cn_status x = CN_DRAFT" "cn_status y = CN_DRAFT"
    using authority2_value by (auto simp: map_eq_Cons_conv)
  have "hd (ah_agents authority3) \<in> set (ah_agents authority3)" "ag_id (hd (ah_agents authority3)) = ''ag''"
    "ag_active_constitution_id (hd (ah_agents authority3)) = Some ''c2''"
    by (simp_all add: authority3_def activate_constitution_def transaction_def get_constitution_def rows x
        authority2_value(1) authority1_value Let_def)
  with active_constitution_unique [OF authority_reached(3)] show ?thesis by fastforce
qed

end
