(* ===== verification/Capability.thy ===== *)
theory Capability
  imports Authority
begin

text \<open>
  The capability manager (Backend/src/domain/capabilities/capability.service.ts): creation of a
  capability inside the agent's active constitution and inside the parent it is delegated from,
  the fail-closed validation, revocation and expiry. The envelope of a capability is the set of
  requests it lets through; delegation is contained when a child's envelope is inside those of
  all its ancestors.
\<close>

section \<open>Operations\<close>

record create_capability_input =
  cp_company_id :: string
  cp_agent_id :: string
  cp_action :: string
  cp_asset :: "string option"
  cp_network :: "string option"
  cp_category_scope :: "string list option"
  cp_recipient_scope :: "string list option"
  cp_single_transaction_limit :: "string option"
  cp_daily_limit :: "string option"
  cp_weekly_limit :: "string option"
  cp_monthly_limit :: "string option"
  cp_valid_from :: "int option"
  cp_expires_at :: "int option"
  cp_parent_id :: "string option"
  cp_created_by :: "string option"

definition opt_decimal :: "decimal_lib \<Rightarrow> string option \<Rightarrow> error_code + rat option" where
  "opt_decimal D v = (case v of None \<Rightarrow> Inr None
     | Some s \<Rightarrow> and_then (amount_of D s INTERNAL_ERROR) (\<lambda>q. Inr (Some q)))"

definition limit_within_parent :: "rat option \<Rightarrow> rat option \<Rightarrow> bool" where
  "limit_within_parent child parent =
     (case parent of None \<Rightarrow> True
      | Some p \<Rightarrow> (case child of None \<Rightarrow> False | Some c \<Rightarrow> \<not> c > p))"

definition unscoped :: "string list option \<Rightarrow> bool" where
  "unscoped s = (case s of None \<Rightarrow> True | Some xs \<Rightarrow> xs = [])"

definition scope_within_parent :: "string list option \<Rightarrow> string list option \<Rightarrow> bool" where
  "scope_within_parent child parent =
     (if unscoped parent then True
      else if unscoped child then False
      else list_all (\<lambda>c. c \<in> set (the parent)) (the child))"

text \<open>A list of the constitution restricts when it is present and not empty.\<close>

definition outside_list :: "string option \<Rightarrow> string list option \<Rightarrow> bool" where
  "outside_list v allowed =
     (truthy v \<and> \<not> unscoped allowed \<and> \<not> arr_includes (the allowed) (the v))"

definition assert_within_constitution ::
    "decimal_lib \<Rightarrow> create_capability_input \<Rightarrow> constitution_config \<Rightarrow> error_code + unit" where
  "assert_within_constitution D i c =
     (if \<not> arr_includes (cc_allowed_actions c) (cp_action i) then Inl AUTHORIZATION_ERROR
      else if arr_includes (nullish (cc_blocked_actions c) []) (cp_action i) then Inl AUTHORIZATION_ERROR
      else if outside_list (cp_asset i) (cc_allowed_assets c) then Inl AUTHORIZATION_ERROR
      else if outside_list (cp_network i) (cc_allowed_networks c) then Inl AUTHORIZATION_ERROR
      else if cp_category_scope i \<noteq> None \<and> \<not> unscoped (cc_allowed_categories c)
          \<and> filter (\<lambda>x. x \<notin> set (the (cc_allowed_categories c))) (the (cp_category_scope i)) \<noteq> []
        then Inl AUTHORIZATION_ERROR
      else
       (let const_limit = Option.bind (cc_spending_limits c) (\<lambda>m. map_of m ''single_transaction'') in
        if truthy const_limit \<and> truthy (cp_single_transaction_limit i) then
          and_then (amount_of D (the (cp_single_transaction_limit i)) INTERNAL_ERROR) (\<lambda>l.
          and_then (amount_of D (the const_limit) INTERNAL_ERROR) (\<lambda>m.
            if l > m then Inl AUTHORIZATION_ERROR else Inr ()))
        else Inr ()))"

definition limits_of :: "decimal_lib \<Rightarrow> create_capability_input \<Rightarrow> error_code + rat option list" where
  "limits_of D i = traverse (opt_decimal D)
     [cp_single_transaction_limit i, cp_daily_limit i, cp_weekly_limit i, cp_monthly_limit i]"

definition cap_limits :: "capability \<Rightarrow> rat option list" where
  "cap_limits p = [cap_single_transaction_limit p, cap_daily_limit p, cap_weekly_limit p, cap_monthly_limit p]"

definition assert_within_parent ::
    "decimal_lib \<Rightarrow> create_capability_input \<Rightarrow> capability \<Rightarrow> error_code + unit" where
  "assert_within_parent D i p =
     (if cap_status p \<noteq> CAP_ACTIVE then Inl AUTHORIZATION_ERROR
      else if cap_action p \<noteq> cp_action i then Inl AUTHORIZATION_ERROR
      else if truthy (cap_asset p) \<and> cp_asset i \<noteq> cap_asset p then Inl AUTHORIZATION_ERROR
      else if truthy (cap_network p) \<and> cp_network i \<noteq> cap_network p then Inl AUTHORIZATION_ERROR
      else if \<not> scope_within_parent (cp_category_scope i) (cap_category_scope p) then Inl AUTHORIZATION_ERROR
      else if \<not> scope_within_parent (cp_recipient_scope i) (cap_recipient_scope p) then Inl AUTHORIZATION_ERROR
      else and_then (limits_of D i) (\<lambda>ls.
        if \<not> list_all2 limit_within_parent ls (cap_limits p) then Inl AUTHORIZATION_ERROR
        else (case cap_expires_at p of None \<Rightarrow> Inr ()
              | Some e \<Rightarrow> (case cp_expires_at i of None \<Rightarrow> Inl AUTHORIZATION_ERROR
                  | Some x \<Rightarrow> if x > e then Inl AUTHORIZATION_ERROR else Inr ()))))"

text \<open>
  The insert converts the limits to decimals and checks the foreign key of the parent.
\<close>

definition insert_capability ::
    "decimal_lib \<Rightarrow> string \<Rightarrow> int \<Rightarrow> create_capability_input \<Rightarrow> capability authority_op" where
  "insert_capability D nid now i db =
     (case limits_of D i of
        Inr [l1, l2, l3, l4] \<Rightarrow>
         (if (case cp_parent_id i of None \<Rightarrow> False | Some p \<Rightarrow> find (\<lambda>c. cap_id c = p) (ah_capabilities db) = None)
          then (Inl INTERNAL_ERROR, db)
          else
           (let c = \<lparr> cap_id = nid, cap_company_id = cp_company_id i, cap_agent_id = cp_agent_id i,
                      cap_parent_id = cp_parent_id i, cap_action = cp_action i, cap_asset = cp_asset i,
                      cap_network = cp_network i, cap_category_scope = cp_category_scope i,
                      cap_recipient_scope = cp_recipient_scope i, cap_single_transaction_limit = l1,
                      cap_daily_limit = l2, cap_weekly_limit = l3, cap_monthly_limit = l4,
                      cap_valid_from = nullish (cp_valid_from i) now, cap_expires_at = cp_expires_at i,
                      cap_status = CAP_ACTIVE, cap_created_by = cp_created_by i, cap_revoked_at = None \<rparr>
            in (Inr c, db\<lparr>ah_capabilities := ah_capabilities db @ [c]\<rparr>)))
      | _ \<Rightarrow> (Inl INTERNAL_ERROR, db))"

definition find_parent :: "create_capability_input \<Rightarrow> authority_db \<Rightarrow> capability option" where
  "find_parent i db = find (\<lambda>c. Some (cap_id c) = cp_parent_id i \<and> cap_company_id c = cp_company_id i
     \<and> cap_agent_id c = cp_agent_id i) (ah_capabilities db)"

definition create_capability ::
    "decimal_lib \<Rightarrow> string \<Rightarrow> int \<Rightarrow> create_capability_input \<Rightarrow> capability authority_op" where
  "create_capability D nid now i db =
     (if get_agent (cp_company_id i) (cp_agent_id i) db = None then (Inl TENANT_ERROR, db)
      else
        case (case get_active_constitution (cp_company_id i) (cp_agent_id i) db of
                None \<Rightarrow> Inr () | Some c \<Rightarrow> assert_within_constitution D i (cn_config c)) of
          Inl e \<Rightarrow> (Inl e, db)
        | Inr _ \<Rightarrow>
           (case (if truthy (cp_parent_id i)
                  then (case find_parent i db of None \<Rightarrow> Inl TENANT_ERROR | Some p \<Rightarrow> assert_within_parent D i p)
                  else Inr ()) of
              Inl e \<Rightarrow> (Inl e, db)
            | Inr _ \<Rightarrow> insert_capability D nid now i db))"

definition get_capability :: "string \<Rightarrow> string \<Rightarrow> authority_db \<Rightarrow> capability option" where
  "get_capability company_id i db =
     find (\<lambda>c. cap_id c = i \<and> cap_company_id c = company_id) (ah_capabilities db)"

definition get_active_capabilities :: "string \<Rightarrow> string \<Rightarrow> int \<Rightarrow> authority_db \<Rightarrow> capability list" where
  "get_active_capabilities company_id agent_id now db =
     filter (\<lambda>c. cap_company_id c = company_id \<and> cap_agent_id c = agent_id \<and> cap_status c = CAP_ACTIVE
       \<and> cap_valid_from c \<le> now
       \<and> (case cap_expires_at c of None \<Rightarrow> True | Some e \<Rightarrow> e > now)) (ah_capabilities db)"

definition validate_capability :: "string \<Rightarrow> string \<Rightarrow> int \<Rightarrow> authority_db \<Rightarrow> error_code + capability" where
  "validate_capability company_id i now db =
     (case get_capability company_id i db of
        None \<Rightarrow> Inl CAPABILITY_INVALID
      | Some c \<Rightarrow>
          if cap_status c = CAP_REVOKED then Inl CAPABILITY_INVALID
          else if cap_status c = CAP_EXPIRED
              \<or> (case cap_expires_at c of None \<Rightarrow> False | Some e \<Rightarrow> e \<le> now) then Inl CAPABILITY_EXPIRED
          else if cap_valid_from c > now then Inl CAPABILITY_INVALID
          else Inr c)"

definition revoke_capability :: "int \<Rightarrow> string \<Rightarrow> string \<Rightarrow> capability authority_op" where
  "revoke_capability now company_id capability_id = transaction (\<lambda>db.
     (case get_capability company_id capability_id db of
        None \<Rightarrow> (Inl CAPABILITY_INVALID, db)
      | Some c \<Rightarrow>
         (let revoke = (\<lambda>x. x\<lparr>cap_status := CAP_REVOKED, cap_revoked_at := Some now\<rparr>);
              children = update_where (\<lambda>x. cap_company_id x = company_id \<and> cap_parent_id x = Some (cap_id c)
                \<and> cap_status x = CAP_ACTIVE) revoke (ah_capabilities db)
          in (Inr (revoke c),
              db\<lparr>ah_capabilities := update_where (\<lambda>x. cap_id x = cap_id c) revoke children\<rparr>))))"

definition expire_capabilities :: "int \<Rightarrow> string \<Rightarrow> nat authority_op" where
  "expire_capabilities now company_id db =
     (let due = (\<lambda>c. cap_company_id c = company_id \<and> cap_status c = CAP_ACTIVE
            \<and> (case cap_expires_at c of None \<Rightarrow> False | Some e \<Rightarrow> e \<le> now))
      in (Inr (length (filter due (ah_capabilities db))),
          db\<lparr>ah_capabilities := update_where due (\<lambda>c. c\<lparr>cap_status := CAP_EXPIRED\<rparr>) (ah_capabilities db)\<rparr>))"

section \<open>The envelope of a capability\<close>

text \<open>
  A request with its action, asset, network, category, recipient, the amounts it adds up to in
  the four windows, and the time. An absent or empty field of a capability does not restrict.
\<close>

record authority_request =
  rq_action :: string
  rq_asset :: string
  rq_network :: string
  rq_category :: string
  rq_recipient :: string
  rq_amounts :: "rat list"
  rq_time :: int

definition field_allows :: "string option \<Rightarrow> string \<Rightarrow> bool" where
  "field_allows v x = (\<not> truthy v \<or> v = Some x)"

definition scope_allows :: "string list option \<Rightarrow> string \<Rightarrow> bool" where
  "scope_allows s x = (unscoped s \<or> x \<in> set (the s))"

definition limit_allows :: "rat option \<Rightarrow> rat \<Rightarrow> bool" where
  "limit_allows l q = (case l of None \<Rightarrow> True | Some m \<Rightarrow> q \<le> m)"

definition envelope :: "capability \<Rightarrow> authority_request \<Rightarrow> bool" where
  "envelope c q \<longleftrightarrow> cap_action c = rq_action q
     \<and> field_allows (cap_asset c) (rq_asset q) \<and> field_allows (cap_network c) (rq_network q)
     \<and> scope_allows (cap_category_scope c) (rq_category q)
     \<and> scope_allows (cap_recipient_scope c) (rq_recipient q)
     \<and> list_all2 limit_allows (cap_limits c) (rq_amounts q)
     \<and> (case cap_expires_at c of None \<Rightarrow> True | Some e \<Rightarrow> rq_time q < e)"

text \<open>The ancestors of a capability: its parent, the parent's parent, and so on.\<close>

inductive delegated_from :: "capability list \<Rightarrow> capability \<Rightarrow> capability \<Rightarrow> bool" for rows where
  parent: "c \<in> set rows \<Longrightarrow> p \<in> set rows \<Longrightarrow> cap_parent_id c = Some (cap_id p) \<Longrightarrow> delegated_from rows c p"
| ancestor: "c \<in> set rows \<Longrightarrow> p \<in> set rows \<Longrightarrow> cap_parent_id c = Some (cap_id p) \<Longrightarrow>
     delegated_from rows p a \<Longrightarrow> delegated_from rows c a"

inductive capability_step :: "decimal_lib \<Rightarrow> (string \<Rightarrow> string) \<Rightarrow> authority_db \<Rightarrow> authority_db \<Rightarrow> bool" for D sha where
  step_authority: "authority_step sha db db' \<Longrightarrow> capability_step D sha db db'"
| step_create: "nid \<notin> cap_id ` set (ah_capabilities db) \<Longrightarrow> nid \<noteq> [] \<Longrightarrow>
     capability_step D sha db (snd (create_capability D nid now i db))"
| step_revoke: "capability_step D sha db (snd (revoke_capability now c k db))"
| step_expire: "capability_step D sha db (snd (expire_capabilities now c db))"

inductive_cases capability_stepE: "capability_step D sha db db'"

text \<open>
  Identifiers are unique and not empty; the parent of a delegated capability exists, belongs to
  the same agent and company, and its envelope contains the child's.
\<close>

definition within_parent :: "capability list \<Rightarrow> capability \<Rightarrow> bool" where
  "within_parent rows c \<longleftrightarrow> (case cap_parent_id c of None \<Rightarrow> True
     | Some i \<Rightarrow> (\<exists>p \<in> set rows. cap_id p = i \<and> cap_company_id p = cap_company_id c
         \<and> cap_agent_id p = cap_agent_id c \<and> (\<forall>q. envelope c q \<longrightarrow> envelope p q)))"

definition capabilities_ok :: "authority_db \<Rightarrow> bool" where
  "capabilities_ok db \<longleftrightarrow> distinct (map cap_id (ah_capabilities db))
     \<and> (\<forall>c \<in> set (ah_capabilities db). cap_id c \<noteq> [] \<and> within_parent (ah_capabilities db) c)"

section \<open>Lemmas\<close>

lemma scope_within_allows:
  "scope_within_parent child parent \<Longrightarrow> scope_allows child x \<Longrightarrow> scope_allows parent x"
  by (auto simp: scope_within_parent_def scope_allows_def list_all_iff split: if_splits)

lemma limit_within_allows:
  "limit_within_parent child parent \<Longrightarrow> limit_allows child x \<Longrightarrow> limit_allows parent x"
  by (auto simp: limit_within_parent_def limit_allows_def split: option.splits)

lemma limits_within_allow:
  "list_all2 limit_within_parent ls ps \<Longrightarrow> list_all2 limit_allows ls qs \<Longrightarrow> list_all2 limit_allows ps qs"
proof (induction ls arbitrary: ps qs)
  case (Cons l ls)
  then show ?case by (auto simp: list_all2_Cons1 intro: limit_within_allows)
qed simp

lemma insert_capability_row:
  assumes "insert_capability D nid now i db = (Inr c, db')"
  shows "db' = db\<lparr>ah_capabilities := ah_capabilities db @ [c]\<rparr>" and "cap_id c = nid"
    and "cap_company_id c = cp_company_id i" "cap_agent_id c = cp_agent_id i" "cap_parent_id c = cp_parent_id i"
    and "cap_action c = cp_action i" "cap_asset c = cp_asset i" "cap_network c = cp_network i"
    and "cap_category_scope c = cp_category_scope i" "cap_recipient_scope c = cp_recipient_scope i"
    and "limits_of D i = Inr (cap_limits c)" and "cap_expires_at c = cp_expires_at i"
    and "cap_status c = CAP_ACTIVE"
    and "cp_parent_id i = Some p \<Longrightarrow> p \<in> cap_id ` set (ah_capabilities db)"
proof -
  obtain ls where ls: "limits_of D i = Inr ls"
    using assms by (cases "limits_of D i") (auto simp: insert_capability_def)
  then have "length ls = 4" by (simp only: limits_of_def traverse_Inr_iff) (drule list_all2_lengthD, simp)
  then obtain l1 l2 l3 l4 where "ls = [l1, l2, l3, l4]"
    by (auto simp: numeral_eq_Suc length_Suc_conv)
  note ls = ls [unfolded this]
  have run: "\<not> (case cp_parent_id i of None \<Rightarrow> False | Some p \<Rightarrow> find (\<lambda>c. cap_id c = p) (ah_capabilities db) = None)"
    using assms ls by (auto simp: insert_capability_def split: if_splits)
  show "db' = db\<lparr>ah_capabilities := ah_capabilities db @ [c]\<rparr>" and "cap_id c = nid"
    and "cap_company_id c = cp_company_id i" "cap_agent_id c = cp_agent_id i" "cap_parent_id c = cp_parent_id i"
    and "cap_action c = cp_action i" "cap_asset c = cp_asset i" "cap_network c = cp_network i"
    and "cap_category_scope c = cp_category_scope i" "cap_recipient_scope c = cp_recipient_scope i"
    and "limits_of D i = Inr (cap_limits c)" and "cap_expires_at c = cp_expires_at i"
    and "cap_status c = CAP_ACTIVE"
    using assms ls run by (auto simp: insert_capability_def Let_def cap_limits_def)
  show "cp_parent_id i = Some p \<Longrightarrow> p \<in> cap_id ` set (ah_capabilities db)"
    using run by (auto simp: find_None_iff)
qed

lemma insert_capability_cases:
  "(\<exists>e. insert_capability D nid now i db = (Inl e, db)) \<or> (\<exists>c db'. insert_capability D nid now i db = (Inr c, db'))"
  by (auto simp: insert_capability_def Let_def split: sum.splits list.splits)

lemma create_capability_cases:
  obtains (refused) e where "create_capability D nid now i db = (Inl e, db)"
  | (created) c db' where "create_capability D nid now i db = (Inr c, db')"
      "insert_capability D nid now i db = (Inr c, db')"
      "truthy (cp_parent_id i) \<Longrightarrow> \<exists>p. find_parent i db = Some p \<and> assert_within_parent D i p = Inr ()"
      "\<And>k. get_active_constitution (cp_company_id i) (cp_agent_id i) db = Some k \<Longrightarrow>
         assert_within_constitution D i (cn_config k) = Inr ()"
proof (cases "create_capability D nid now i db")
  case (Pair r db')
  show thesis
  proof (cases r)
    case (Inl e)
    then have "create_capability D nid now i db = (Inl e, db)"
      using Pair insert_capability_cases [of D nid now i db]
      by (auto simp: create_capability_def split: if_splits sum.splits)
    then show thesis by (rule refused)
  next
    case (Inr c)
    then show thesis
      using Pair by (intro created [of c db'])
        (auto simp: create_capability_def split: if_splits sum.splits option.splits)
  qed
qed

lemma contained_envelope:
  assumes "assert_within_parent D i p = Inr ()" and "insert_capability D nid now i db = (Inr c, db')"
    and "envelope c q"
  shows "envelope p q"
proof -
  note row = insert_capability_row [OF assms(2)]
  have p: "cap_action p = cp_action i" "truthy (cap_asset p) \<Longrightarrow> cp_asset i = cap_asset p"
    "truthy (cap_network p) \<Longrightarrow> cp_network i = cap_network p"
    "scope_within_parent (cp_category_scope i) (cap_category_scope p)"
    "scope_within_parent (cp_recipient_scope i) (cap_recipient_scope p)"
    "list_all2 limit_within_parent (cap_limits c) (cap_limits p)"
    "cap_expires_at p = Some e \<Longrightarrow> \<exists>x. cp_expires_at i = Some x \<and> x \<le> e" for e
    using assms(1) row(11) by (auto simp: assert_within_parent_def split: if_splits option.splits)
  have "field_allows (cap_asset p) (rq_asset q)"
    using p(2) assms(3) by (auto simp: envelope_def field_allows_def row)
  moreover have "field_allows (cap_network p) (rq_network q)"
    using p(3) assms(3) by (auto simp: envelope_def field_allows_def row)
  moreover have "case cap_expires_at p of None \<Rightarrow> True | Some e \<Rightarrow> rq_time q < e"
    using p(7) assms(3) by (fastforce simp: envelope_def row split: option.splits)
  ultimately show ?thesis
    using assms(3) p(1) scope_within_allows [OF p(4)] scope_within_allows [OF p(5)]
      limits_within_allow [OF p(6)]
    by (simp add: envelope_def row)
qed

lemma envelope_cong:
  "envelope (c\<lparr>cap_status := s\<rparr>) = envelope c" "envelope (c\<lparr>cap_revoked_at := r\<rparr>) = envelope c"
  by (simp_all add: fun_eq_iff envelope_def cap_limits_def)

text \<open>A change of status keeps the table's invariant.\<close>

lemma capabilities_ok_update:
  assumes ok: "capabilities_ok db"
    and f: "\<And>c. cap_id (f c) = cap_id c \<and> cap_company_id (f c) = cap_company_id c
      \<and> cap_agent_id (f c) = cap_agent_id c \<and> cap_parent_id (f c) = cap_parent_id c \<and> envelope (f c) = envelope c"
  shows "capabilities_ok (db\<lparr>ah_capabilities := update_where P f (ah_capabilities db)\<rparr>)"
proof -
  let ?rows = "update_where P f (ah_capabilities db)"
  have ids: "map cap_id ?rows = map cap_id (ah_capabilities db)"
    using f by (simp add: map_update_where_same)
  have keep: "\<exists>p \<in> set ?rows. cap_id p = cap_id y \<and> cap_company_id p = cap_company_id y
      \<and> cap_agent_id p = cap_agent_id y \<and> envelope p = envelope y" if "y \<in> set (ah_capabilities db)" for y
    using that f by (intro bexI [of _ "if P y then f y else y"]) (auto simp: in_update_where)
  have "within_parent ?rows (if P y then f y else y)" if y: "y \<in> set (ah_capabilities db)" for y
  proof (cases "cap_parent_id y")
    case None
    then show ?thesis using f by (simp add: within_parent_def)
  next
    case (Some i)
    have "within_parent (ah_capabilities db) y" using ok y by (simp add: capabilities_ok_def)
    with Some obtain p where p: "p \<in> set (ah_capabilities db)" "cap_id p = i" "cap_company_id p = cap_company_id y"
      "cap_agent_id p = cap_agent_id y" "\<And>q. envelope y q \<Longrightarrow> envelope p q"
      by (auto simp: within_parent_def)
    obtain p' where "p' \<in> set ?rows" "cap_id p' = cap_id p" "cap_company_id p' = cap_company_id p"
      "cap_agent_id p' = cap_agent_id p" "envelope p' = envelope p"
      using keep [OF p(1)] by blast
    with p Some f show ?thesis by (auto simp: within_parent_def)
  qed
  moreover have "cap_id (if P y then f y else y) \<noteq> []" if "y \<in> set (ah_capabilities db)" for y
    using ok that f by (simp add: capabilities_ok_def)
  ultimately show ?thesis
    using ok ids by (auto simp: capabilities_ok_def in_update_where)
qed

lemma within_parent_append: "within_parent rows c \<Longrightarrow> within_parent (rows @ [x]) c"
  by (auto simp: within_parent_def split: option.splits)

lemma capabilities_ok_create:
  assumes ok: "capabilities_ok db" and nid: "nid \<notin> cap_id ` set (ah_capabilities db)" "nid \<noteq> []"
  shows "capabilities_ok (snd (create_capability D nid now i db))"
proof (cases rule: create_capability_cases [of D nid now i db])
  case (refused e)
  then show ?thesis using ok by simp
next
  case (created c db')
  note row = insert_capability_row [OF created(2)]
  have "within_parent (ah_capabilities db @ [c]) c"
  proof (cases "cp_parent_id i")
    case None
    then show ?thesis by (simp add: within_parent_def row)
  next
    case (Some i')
    then have "i' \<noteq> []" using row(14) ok by (auto simp: capabilities_ok_def)
    then obtain p where "find_parent i db = Some p" and a: "assert_within_parent D i p = Inr ()"
      using created(3) Some by auto
    then have "p \<in> set (ah_capabilities db)" "cap_id p = i'" "cap_company_id p = cp_company_id i"
      "cap_agent_id p = cp_agent_id i"
      using find_SomeD [of _ "ah_capabilities db" p] Some by (auto simp: find_parent_def)
    then show ?thesis
      using contained_envelope [OF a created(2)] Some by (auto simp: within_parent_def row)
  qed
  then show ?thesis
    using ok nid created(1) row(1,2) by (auto simp: capabilities_ok_def intro: within_parent_append)
qed

lemma capabilities_ok_revoke:
  assumes ok: "capabilities_ok db"
  shows "capabilities_ok (snd (revoke_capability now k i db))"
proof -
  let ?f = "\<lambda>x :: capability. x\<lparr>cap_status := CAP_REVOKED, cap_revoked_at := Some now\<rparr>"
  have f: "capabilities_ok (d\<lparr>ah_capabilities := update_where P ?f (ah_capabilities d)\<rparr>)"
    if "capabilities_ok d" for d P
    by (rule capabilities_ok_update [OF that]) (simp add: envelope_cong)
  show ?thesis
    using f [OF f [OF ok]] ok
    by (auto simp: revoke_capability_def transaction_def Let_def split: option.splits)
qed

lemma authority_step_capabilities:
  assumes "authority_step sha db db'"
  shows "ah_capabilities db' = ah_capabilities db"
  using assms
  by (cases rule: authority_step.cases)
    (auto simp: create_company_def update_company_status_def create_agent_def transition_agent_def
      create_constitution_def activate_constitution_def transaction_def Let_def
      split: option.splits sum.splits)

lemma capabilities_ok_step:
  assumes ok: "capabilities_ok db" and "capability_step D sha db db'"
  shows "capabilities_ok db'"
  using assms(2)
proof (cases rule: capability_step.cases)
  case step_authority
  then show ?thesis
    using ok authority_step_capabilities by (simp add: capabilities_ok_def)
next
  case (step_expire now c)
  show ?thesis
    unfolding step_expire expire_capabilities_def Let_def snd_conv
    by (rule capabilities_ok_update [OF ok]) (simp add: envelope_cong)
qed (use ok capabilities_ok_create capabilities_ok_revoke in simp_all)

interpretation capabilities: invariant_system "\<lambda>db. db = empty_authority" "capability_step D sha" capabilities_ok
  for D sha
  by (unfold_locales, simp add: capabilities_ok_def empty_authority_def) (rule capabilities_ok_step)

text \<open>The capability component does not disturb the tables of the other one.\<close>

lemma capability_authority_ok:
  assumes "authority_ok sha db" and "capability_step D sha db db'"
  shows "authority_ok sha db'"
  using assms(2)
proof (cases rule: capability_step.cases)
  case step_authority
  then show ?thesis using assms(1) authority_ok_step by simp
next
  case (step_create nid now i)
  then show ?thesis
    using assms(1) insert_capability_row(1) [of D nid now i db]
    by (cases rule: create_capability_cases [of D nid now i db]) (auto simp: authority_ok_def active_of_def)
next
  case (step_revoke now c k)
  then show ?thesis
    using assms(1) by (auto simp: revoke_capability_def transaction_def Let_def authority_ok_def active_of_def
      split: option.splits)
next
  case (step_expire now c)
  then show ?thesis
    using assms(1) by (auto simp: expire_capabilities_def Let_def authority_ok_def active_of_def)
qed

interpretation tenants: invariant_system "\<lambda>db. db = empty_authority" "capability_step D sha" "authority_ok sha"
  for D sha
  by (unfold_locales, simp add: authority_ok_def empty_authority_def) (rule capability_authority_ok)

lemma delegated_inside:
  assumes ok: "capabilities_ok db" and d: "delegated_from (ah_capabilities db) c a"
  shows "cap_company_id a = cap_company_id c \<and> cap_agent_id a = cap_agent_id c \<and> (\<forall>q. envelope c q \<longrightarrow> envelope a q)"
proof -
  have step: "cap_company_id p = cap_company_id c \<and> cap_agent_id p = cap_agent_id c \<and> (\<forall>q. envelope c q \<longrightarrow> envelope p q)"
    if c: "c \<in> set (ah_capabilities db)" "p \<in> set (ah_capabilities db)" "cap_parent_id c = Some (cap_id p)" for c p
  proof -
    have "within_parent (ah_capabilities db) c" using ok c(1) by (simp add: capabilities_ok_def)
    then obtain p' where p': "p' \<in> set (ah_capabilities db)" "cap_id p' = cap_id p"
      "cap_company_id p' = cap_company_id c" "cap_agent_id p' = cap_agent_id c" "\<forall>q. envelope c q \<longrightarrow> envelope p' q"
      using c(3) by (auto simp: within_parent_def)
    then have "p' = p" using key_unique [of cap_id "ah_capabilities db" p' p] ok c(2) by (simp add: capabilities_ok_def)
    with p' show ?thesis by simp
  qed
  show ?thesis
    using d
  proof (induction rule: delegated_from.induct)
    case (parent c p)
    then show ?case by (rule step)
  next
    case (ancestor c p a)
    then show ?case using step [OF ancestor(1-3)] by simp
  qed
qed

text \<open>A revoked row stays revoked under every later step.\<close>

definition revoked_in :: "string \<Rightarrow> authority_db \<Rightarrow> bool" where
  "revoked_in i db \<longleftrightarrow> i \<in> cap_id ` set (ah_capabilities db)
     \<and> (\<forall>c \<in> set (ah_capabilities db). cap_id c = i \<longrightarrow> cap_status c = CAP_REVOKED)"

lemma revoked_in_update:
  assumes "revoked_in i db" and "\<And>c. cap_id (f c) = cap_id c"
    and "\<And>c. cap_status c = CAP_REVOKED \<Longrightarrow> P c \<Longrightarrow> cap_status (f c) = CAP_REVOKED"
  shows "revoked_in i (db\<lparr>ah_capabilities := update_where P f (ah_capabilities db)\<rparr>)"
proof -
  obtain c where "c \<in> set (ah_capabilities db)" "cap_id c = i" using assms(1) by (auto simp: revoked_in_def)
  then have "i \<in> cap_id ` set (update_where P f (ah_capabilities db))"
    using assms(2) by (intro image_eqI [of _ _ "if P c then f c else c"]) (auto simp: in_update_where)
  with assms show ?thesis by (auto simp: revoked_in_def in_update_where)
qed

lemma revoked_in_revoke:
  assumes "revoked_in i db"
  shows "revoked_in i (snd (revoke_capability now k j db))"
proof -
  let ?f = "\<lambda>x :: capability. x\<lparr>cap_status := CAP_REVOKED, cap_revoked_at := Some now\<rparr>"
  have f: "revoked_in i (d\<lparr>ah_capabilities := update_where P ?f (ah_capabilities d)\<rparr>)" if "revoked_in i d" for d P
    by (rule revoked_in_update [OF that]) simp_all
  show ?thesis
    using f [OF f [OF assms]] assms
    by (auto simp: revoke_capability_def transaction_def Let_def split: option.splits)
qed

lemma revoked_in_step:
  assumes r: "revoked_in i db" and "capability_step D sha db db'"
  shows "revoked_in i db'"
  using assms(2)
proof (cases rule: capability_step.cases)
  case step_authority
  then show ?thesis using r authority_step_capabilities by (simp add: revoked_in_def)
next
  case (step_create nid now j)
  then show ?thesis
    using r insert_capability_row(1,2) [of D nid now j db]
    by (cases rule: create_capability_cases [of D nid now j db]) (auto simp: revoked_in_def)
next
  case (step_expire now c)
  show ?thesis
    unfolding step_expire expire_capabilities_def Let_def snd_conv
    by (rule revoked_in_update [OF r]) simp_all
qed (use r revoked_in_revoke in simp_all)

interpretation revocation: invariant_system "revoked_in i" "capability_step D sha" "revoked_in i" for i D sha
  by unfold_locales (auto intro: revoked_in_step)

lemma revoked_in_refuses: "revoked_in i db \<Longrightarrow> validate_capability k i now db = Inl CAPABILITY_INVALID"
  by (auto simp: validate_capability_def get_capability_def revoked_in_def dest: find_SomeD split: option.splits)

lemma revoke_capability_revokes:
  assumes ok: "capabilities_ok db" and run: "revoke_capability now k i db = (Inr c, db')"
  shows "revoked_in i db'"
    and "x \<in> set (ah_capabilities db) \<Longrightarrow> cap_parent_id x = Some i \<Longrightarrow> cap_status x = CAP_ACTIVE \<Longrightarrow> revoked_in (cap_id x) db'"
proof -
  obtain c0 where c0: "c0 \<in> set (ah_capabilities db)" "cap_id c0 = i" "cap_company_id c0 = k"
    and db': "db' = db\<lparr>ah_capabilities := update_where (\<lambda>x. cap_id x = i)
        (\<lambda>x. x\<lparr>cap_status := CAP_REVOKED, cap_revoked_at := Some now\<rparr>)
        (update_where (\<lambda>x. cap_company_id x = k \<and> cap_parent_id x = Some i \<and> cap_status x = CAP_ACTIVE)
          (\<lambda>x. x\<lparr>cap_status := CAP_REVOKED, cap_revoked_at := Some now\<rparr>) (ah_capabilities db))\<rparr>"
    using run by (auto simp: revoke_capability_def transaction_Inr get_capability_def Let_def
        split: option.splits dest: find_SomeD)
  have ids: "cap_id ` set (ah_capabilities db') = cap_id ` set (ah_capabilities db)"
  proof -
    have "map cap_id (ah_capabilities db') = map cap_id (ah_capabilities db)"
      by (simp add: db' map_update_where_same)
    then show ?thesis by (metis set_map)
  qed
  show "revoked_in i db'"
    using c0 ids by (auto simp: revoked_in_def) (auto simp: db' in_update_where)
  assume x: "x \<in> set (ah_capabilities db)" "cap_parent_id x = Some i" "cap_status x = CAP_ACTIVE"
  have "within_parent (ah_capabilities db) x" using ok x(1) by (simp add: capabilities_ok_def)
  then obtain p where "p \<in> set (ah_capabilities db)" "cap_id p = i" "cap_company_id p = cap_company_id x"
    using x(2) by (auto simp: within_parent_def)
  then have company: "cap_company_id x = k"
    using key_unique [of cap_id "ah_capabilities db" p c0] ok c0 by (simp add: capabilities_ok_def)
  have only: "y = x" if "y \<in> set (ah_capabilities db)" "cap_id y = cap_id x" for y
    using key_unique [of cap_id "ah_capabilities db" y x] ok that x(1) by (simp add: capabilities_ok_def)
  have "cap_status r = CAP_REVOKED" if r: "r \<in> set (ah_capabilities db')" "cap_id r = cap_id x" for r
  proof -
    obtain y where y: "y \<in> set (ah_capabilities db)" "r = (let z = if cap_company_id y = k \<and> cap_parent_id y = Some i
          \<and> cap_status y = CAP_ACTIVE then y\<lparr>cap_status := CAP_REVOKED, cap_revoked_at := Some now\<rparr> else y
        in if cap_id z = i then z\<lparr>cap_status := CAP_REVOKED, cap_revoked_at := Some now\<rparr> else z)"
      using r(1) by (auto simp: db' in_update_where Let_def)
    then have "cap_id y = cap_id x" using r(2) by (auto simp: Let_def split: if_splits)
    then have "y = x" using only y(1) by blast
    then show ?thesis using y(2) x company by (simp add: Let_def)
  qed
  then show "revoked_in (cap_id x) db'"
    using x(1) by (simp add: revoked_in_def ids)
qed

section \<open>Properties\<close>


text \<open>
  revocation is for ever: once a capability is revoked, neither it nor a child that was
  active then passes validation again, at any time and after any further operations.
\<close>

theorem revocation_is_final:
  assumes "reachable (\<lambda>db. db = empty_authority) (capability_step D sha) db"
    and "revoke_capability now k i db = (Inr c, db1)" and "(capability_step D sha)\<^sup>*\<^sup>* db1 db2"
    and "j = i \<or> (\<exists>x \<in> set (ah_capabilities db). cap_id x = j \<and> cap_parent_id x = Some i \<and> cap_status x = CAP_ACTIVE)"
  shows "validate_capability k' j now' db2 = Inl CAPABILITY_INVALID"
proof -
  note revoked = revoke_capability_revokes [OF capabilities.reachable_inv [OF assms(1)] assms(2)]
  have "revoked_in j db1" using assms(4) revoked by blast
  then show ?thesis using revocation.steps_inv [OF assms(3)] by (simp add: revoked_in_refuses)
qed

definition sample_capability :: "string option \<Rightarrow> string option \<Rightarrow> string \<Rightarrow> create_capability_input" where
  "sample_capability parent asset limit = \<lparr> cp_company_id = ''co'', cp_agent_id = ''ag'', cp_action = ''PAY'',
     cp_asset = asset, cp_network = None, cp_category_scope = None, cp_recipient_scope = None,
     cp_single_transaction_limit = Some limit, cp_daily_limit = None, cp_weekly_limit = None,
     cp_monthly_limit = None, cp_valid_from = Some 0, cp_expires_at = None, cp_parent_id = parent,
     cp_created_by = None \<rparr>"

definition cap_row :: "string \<Rightarrow> string option \<Rightarrow> string option \<Rightarrow> rat \<Rightarrow> capability" where
  "cap_row i parent asset limit = \<lparr> cap_id = i, cap_company_id = ''co'', cap_agent_id = ''ag'', cap_parent_id = parent,
     cap_action = ''PAY'', cap_asset = asset, cap_network = None, cap_category_scope = None,
     cap_recipient_scope = None, cap_single_transaction_limit = Some limit, cap_daily_limit = None,
     cap_weekly_limit = None, cap_monthly_limit = None, cap_valid_from = 0, cap_expires_at = None,
     cap_status = CAP_ACTIVE, cap_created_by = None, cap_revoked_at = None \<rparr>"

text \<open>A chain of three capabilities of the agent of the sample state, with falling limits.\<close>

definition chain1 :: authority_db where
  "chain1 = snd (create_capability plain_decimal ''k1'' 0 (sample_capability None (Some ''USDC'') ''100'') authority1)"

definition chain2 :: authority_db where
  "chain2 = snd (create_capability plain_decimal ''k2'' 0 (sample_capability (Some ''k1'') (Some ''USDC'') ''50'') chain1)"

definition chain3 :: authority_db where
  "chain3 = snd (create_capability plain_decimal ''k3'' 0 (sample_capability (Some ''k2'') (Some ''USDC'') ''10'') chain2)"

lemmas money_eval = money_amount_def money_value_def split_point_def unsigned_part_def all_digits_def
  is_digit_def digits_value_def digit_value_def

lemma sample_limits: "dl_parse plain_decimal ''100'' = Some 100" "dl_parse plain_decimal ''50'' = Some 50"
    "dl_parse plain_decimal ''10'' = Some 10"
  by (simp_all add: money_eval)

lemmas capability_eval = create_capability_def get_agent_def get_active_constitution_def find_parent_def
  assert_within_parent_def insert_capability_def limits_of_def opt_decimal_def amount_of_def
  sample_capability_def cap_row_def cap_limits_def scope_within_parent_def unscoped_def
  limit_within_parent_def Let_def

lemma chain_values:
  "ah_capabilities chain1 = [cap_row ''k1'' None (Some ''USDC'') 100]"
  "ah_capabilities chain2 = [cap_row ''k1'' None (Some ''USDC'') 100, cap_row ''k2'' (Some ''k1'') (Some ''USDC'') 50]"
  "ah_capabilities chain3 = [cap_row ''k1'' None (Some ''USDC'') 100, cap_row ''k2'' (Some ''k1'') (Some ''USDC'') 50,
     cap_row ''k3'' (Some ''k2'') (Some ''USDC'') 10]"
proof -
  show v1: "ah_capabilities chain1 = [cap_row ''k1'' None (Some ''USDC'') 100]"
    by (simp add: chain1_def capability_eval authority1_value sample_limits del: plain_decimal_parse)
  have s1: "ah_agents chain1 = ah_agents authority1" "ah_constitutions chain1 = []"
    by (simp_all add: chain1_def capability_eval authority1_value sample_limits del: plain_decimal_parse)
  show v2: "ah_capabilities chain2 = [cap_row ''k1'' None (Some ''USDC'') 100, cap_row ''k2'' (Some ''k1'') (Some ''USDC'') 50]"
    by (simp add: chain2_def capability_eval s1 v1 authority1_value sample_limits del: plain_decimal_parse)
  have s2: "ah_agents chain2 = ah_agents authority1" "ah_constitutions chain2 = []"
    by (simp_all add: chain2_def capability_eval s1 v1 authority1_value sample_limits del: plain_decimal_parse)
  show "ah_capabilities chain3 = [cap_row ''k1'' None (Some ''USDC'') 100, cap_row ''k2'' (Some ''k1'') (Some ''USDC'') 50,
     cap_row ''k3'' (Some ''k2'') (Some ''USDC'') 10]"
    by (simp add: chain3_def capability_eval s2 v2 authority1_value sample_limits del: plain_decimal_parse)
qed

lemma authority_reached_capability:
  "reachable (\<lambda>db. db = empty_authority) (authority_step sha) db \<Longrightarrow>
     reachable (\<lambda>db. db = empty_authority) (capability_step D sha) db"
  by (induction rule: reachable.induct) (auto intro: reachable.intros step_authority)

lemma chain_reached: "reachable (\<lambda>db. db = empty_authority) (capability_step plain_decimal (\<lambda>s. s)) chain3"
proof -
  let ?R = "reachable (\<lambda>db. db = empty_authority) (capability_step plain_decimal (\<lambda>s. s))"
  have "?R authority1" by (rule authority_reached_capability [OF authority_reached(1)])
  then have "?R chain1" unfolding chain1_def
    by (rule reachable_step) (rule step_create, simp_all add: authority1_value)
  then have "?R chain2" unfolding chain2_def
    by (rule reachable_step) (rule step_create, simp_all add: chain_values cap_row_def)
  then show ?thesis unfolding chain3_def
    by (rule reachable_step) (rule step_create, simp_all add: chain_values cap_row_def)
qed

definition sample_request :: authority_request where
  "sample_request = \<lparr> rq_action = ''PAY'', rq_asset = ''USDC'', rq_network = ''base'', rq_category = ''saas'',
     rq_recipient = ''r'', rq_amounts = [7, 7, 7, 7], rq_time = 5 \<rparr>"


definition chain_revoked :: authority_db where
  "chain_revoked = snd (revoke_capability 9 ''co'' ''k1'' chain3)"

text \<open>The child of the revoked capability is refused as well.\<close>

theorem revocation_is_final_witness:
  "validate_capability ''co'' ''k2'' 10 chain_revoked = Inl CAPABILITY_INVALID"
proof -
  have "\<exists>c. revoke_capability 9 ''co'' ''k1'' chain3 = (Inr c, chain_revoked)"
    by (simp add: chain_revoked_def revoke_capability_def transaction_def get_capability_def chain_values
        Let_def cap_row_def)
  then obtain c where "revoke_capability 9 ''co'' ''k1'' chain3 = (Inr c, chain_revoked)" ..
  moreover have "\<exists>x \<in> set (ah_capabilities chain3). cap_id x = ''k2'' \<and> cap_parent_id x = Some ''k1'' \<and> cap_status x = CAP_ACTIVE"
    by (simp add: chain_values cap_row_def)
  ultimately show ?thesis using revocation_is_final [OF chain_reached] by blast
qed

section \<open>What containment does not cover\<close>

text \<open>Revocation reaches the direct children only: the grandchild of a revoked capability validates.\<close>

theorem revocation_stops_at_children:
  "validate_capability ''co'' ''k3'' 10 chain_revoked = Inr (cap_row ''k3'' (Some ''k2'') (Some ''USDC'') 10)"
  by (simp add: chain_revoked_def revoke_capability_def transaction_def get_capability_def chain_values
      Let_def cap_row_def validate_capability_def)

text \<open>
  A capability without an asset, which restricts no asset, is accepted under a constitution that
  allows one asset only.
\<close>

theorem unrestricted_asset_within_constitution:
  "assert_within_constitution plain_decimal (sample_capability None None ''50'') (sample_config (Some [''USDC''])) = Inr ()
   \<and> envelope (cap_row ''k'' None None 50) (sample_request\<lparr>rq_asset := ''DAI''\<rparr>)"
proof
  show "assert_within_constitution plain_decimal (sample_capability None None ''50'') (sample_config (Some [''USDC''])) = Inr ()"
    by (simp add: assert_within_constitution_def sample_config_def sample_capability_def outside_list_def
        amount_of_def sample_limits unscoped_def del: plain_decimal_parse)
  show "envelope (cap_row ''k'' None None 50) (sample_request\<lparr>rq_asset := ''DAI''\<rparr>)"
    by (simp add: envelope_def cap_row_def sample_request_def field_allows_def scope_allows_def unscoped_def
        cap_limits_def limit_allows_def)
qed

end
