(* ===== verification/Policy_Rules.thy ===== *)
theory Policy_Rules
  imports Contracts Money Core_Errors
begin

text \<open>
  The compiled policy rules and their evaluators (Backend/src/policy/rules/types.ts and
  evaluators.ts). A rule's configuration is the JSON object the code casts from; amounts go
  through the decimal library \<open>D\<close> and dates through \<open>date_ms\<close> (the epoch milliseconds of
  \<open>new Date(s)\<close>, \<open>None\<close> for an invalid date, every comparison with which is false). An
  exception that is not a \<open>CoreError\<close>, here the decimal constructor's, is \<open>INTERNAL_ERROR\<close>,
  what the error handler makes of it. A configuration number is an integer.
\<close>

section \<open>Rules, context and outcomes\<close>

datatype rule_type =
    AMOUNT_LIMIT | CUMULATIVE_LIMIT | RECIPIENT_ALLOWLIST | RECIPIENT_BLOCKLIST
  | NEW_RECIPIENT_APPROVAL | CATEGORY_ALLOW | CATEGORY_BLOCK | ASSET_ALLOW | ASSET_BLOCK
  | NETWORK_ALLOW | NETWORK_BLOCK | TIME_WINDOW | HUMAN_APPROVAL | REQUIRED_PREDECESSOR
  | NO_STRUCTURING | CAPABILITY_EXPIRY

definition RULE_TYPES :: "(string \<times> rule_type) list" where
  "RULE_TYPES =
    [(''AMOUNT_LIMIT'', AMOUNT_LIMIT), (''CUMULATIVE_LIMIT'', CUMULATIVE_LIMIT),
     (''RECIPIENT_ALLOWLIST'', RECIPIENT_ALLOWLIST), (''RECIPIENT_BLOCKLIST'', RECIPIENT_BLOCKLIST),
     (''NEW_RECIPIENT_APPROVAL'', NEW_RECIPIENT_APPROVAL), (''CATEGORY_ALLOW'', CATEGORY_ALLOW),
     (''CATEGORY_BLOCK'', CATEGORY_BLOCK), (''ASSET_ALLOW'', ASSET_ALLOW),
     (''ASSET_BLOCK'', ASSET_BLOCK), (''NETWORK_ALLOW'', NETWORK_ALLOW),
     (''NETWORK_BLOCK'', NETWORK_BLOCK), (''TIME_WINDOW'', TIME_WINDOW),
     (''HUMAN_APPROVAL'', HUMAN_APPROVAL), (''REQUIRED_PREDECESSOR'', REQUIRED_PREDECESSOR),
     (''NO_STRUCTURING'', NO_STRUCTURING), (''CAPABILITY_EXPIRY'', CAPABILITY_EXPIRY)]"

record compiled_rule =
  pr_rule_id :: string
  pr_type :: string
  pr_priority :: "int option"
  pr_enabled :: "bool option"
  pr_config :: "(string \<times> json) list"

record evaluation_context =
  ec_action :: string
  ec_amount :: "string option"
  ec_currency :: "string option"
  ec_asset :: "string option"
  ec_network :: "string option"
  ec_category :: "string option"
  ec_recipient :: "string option"
  ec_cumulative_spent :: "(string \<times> string) list option"
  ec_cumulative_by_key :: "(string \<times> (string \<times> string) list) list option"
  ec_known_recipients :: "string list option"
  ec_trajectory_event_types :: "string list option"
  ec_recent_transactions :: "(string \<times> string) list option"
  ec_capability_expires_at :: "string option option"
  ec_now :: string

datatype rule_result = RR_PASS | RR_VIOLATION | RR_REVIEW | RR_REQUIRE_APPROVAL | RR_SKIPPED

record rule_outcome =
  ro_rule_id :: string
  ro_rule_type :: string
  ro_result :: rule_result
  ro_reason :: "string option"
  ro_field :: "string option"
  ro_actual_value :: "string option"
  ro_expected :: "string option"
  ro_severity :: "error_severity option"

section \<open>Structural validation\<close>

fun validate_from :: "string set \<Rightarrow> compiled_rule list \<Rightarrow> error_code + unit" where
  "validate_from seen [] = Inr ()"
| "validate_from seen (r # rs) =
    (if pr_rule_id r = [] then Inl POLICY_INVALID
     else if pr_rule_id r \<in> seen then Inl POLICY_CONFLICT
     else if map_of RULE_TYPES (pr_type r) = None then Inl POLICY_INVALID
     else validate_from (insert (pr_rule_id r) seen) rs)"

definition validate_compiled_rules :: "compiled_rule list \<Rightarrow> error_code + unit" where
  "validate_compiled_rules rules = validate_from {} rules"

section \<open>Configuration access\<close>

definition cfg :: "compiled_rule \<Rightarrow> string \<Rightarrow> json option" where
  "cfg r k = map_of (pr_config r) k"

definition cfg_int :: "compiled_rule \<Rightarrow> string \<Rightarrow> int option" where
  "cfg_int r k = (case cfg r k of Some (JNum i) \<Rightarrow> Some i | _ \<Rightarrow> None)"

fun json_text :: "json \<Rightarrow> string" where
  "json_text (JStr s) = s"
| "json_text j = stringify j"

fun js_truthy :: "json option \<Rightarrow> bool" where
  "js_truthy None = False"
| "js_truthy (Some JNull) = False"
| "js_truthy (Some (JBool b)) = b"
| "js_truthy (Some (JNum i)) = (i \<noteq> 0)"
| "js_truthy (Some (JStr s)) = (s \<noteq> [])"
| "js_truthy (Some _) = True"

definition as_string_array :: "json option \<Rightarrow> string list" where
  "as_string_array v = (case v of
       Some (JArr xs) \<Rightarrow> List.map_filter (\<lambda>x. case x of JStr s \<Rightarrow> Some s | _ \<Rightarrow> None) xs
     | _ \<Rightarrow> [])"

definition decimal_of_json :: "decimal_lib \<Rightarrow> json \<Rightarrow> rat option" where
  "decimal_of_json D j = (case j of JStr s \<Rightarrow> dl_parse D s | JNum i \<Rightarrow> Some (of_int i) | _ \<Rightarrow> None)"

definition outcome :: "compiled_rule \<Rightarrow> rule_result \<Rightarrow> rule_outcome" where
  "outcome r res = \<lparr> ro_rule_id = pr_rule_id r, ro_rule_type = pr_type r, ro_result = res,
     ro_reason = None, ro_field = None, ro_actual_value = None, ro_expected = None, ro_severity = None \<rparr>"

definition flagged :: "compiled_rule \<Rightarrow> rule_result \<Rightarrow> string \<Rightarrow> string option \<Rightarrow> string option \<Rightarrow>
    string option \<Rightarrow> error_severity \<Rightarrow> rule_outcome" where
  "flagged r res reason field actual expected sev =
     (outcome r res)\<lparr> ro_reason := Some reason, ro_field := field, ro_actual_value := actual,
       ro_expected := expected, ro_severity := Some sev \<rparr>"

section \<open>The evaluators\<close>

text \<open>An evaluator of the registry: it may throw, and reads only the rule and the context.\<close>

type_synonym evaluator = "compiled_rule \<Rightarrow> evaluation_context \<Rightarrow> error_code + rule_outcome"

definition amount_limit :: "decimal_lib \<Rightarrow> evaluator" where
  "amount_limit D r c =
    (case cfg r ''maximum'' of
       None \<Rightarrow> Inr (outcome r RR_SKIPPED)
     | Some limit_value \<Rightarrow>
        (case ec_amount c of
           None \<Rightarrow> Inr (flagged r RR_VIOLATION ''No amount to check against limit.'' None None None SEV_HIGH)
         | Some a \<Rightarrow>
            and_then (from_option INTERNAL_ERROR (dl_parse D a)) (\<lambda>amount.
            and_then (from_option INTERNAL_ERROR (decimal_of_json D limit_value)) (\<lambda>limit.
              if amount \<le> limit then Inr (outcome r RR_PASS)
              else Inr (flagged r RR_VIOLATION ''Amount exceeds the configured limit.''
                     (Some ''transaction.amount'') (Some a) (Some (''<= '' @ json_text limit_value)) SEV_HIGH)))))"

definition keyed_window :: "string \<Rightarrow> evaluation_context \<Rightarrow> string option" where
  "keyed_window window c =
     (if window = ''recipient'' then ec_recipient c
      else if window = ''category'' then ec_category c
      else ec_asset c)"

definition spent_text :: "string \<Rightarrow> evaluation_context \<Rightarrow> string" where
  "spent_text window c =
     (if window \<in> {''recipient'', ''category'', ''asset''} then
        (let by_key = (case ec_cumulative_by_key c of None \<Rightarrow> []
                        | Some m \<Rightarrow> nullish (map_of m window) []);
             found = (case keyed_window window c of None \<Rightarrow> None
                        | Some k \<Rightarrow> if k = [] then None else map_of by_key k)
         in if truthy found then the found else ''0'')
      else (case ec_cumulative_spent c of None \<Rightarrow> ''0'' | Some m \<Rightarrow> nullish (map_of m window) ''0''))"

definition cumulative_limit :: "decimal_lib \<Rightarrow> evaluator" where
  "cumulative_limit D r c =
    (case cfg r ''maximum'' of
       None \<Rightarrow> Inr (outcome r RR_SKIPPED)
     | Some limit_value \<Rightarrow>
        if \<not> js_truthy (cfg r ''window'') then Inr (outcome r RR_SKIPPED)
        else
          (let window = json_text (the (cfg r ''window'')) in
           and_then (from_option INTERNAL_ERROR
                (dl_parse D (if truthy (ec_amount c) then the (ec_amount c) else ''0''))) (\<lambda>amount.
           and_then (from_option INTERNAL_ERROR (dl_parse D (spent_text window c))) (\<lambda>spent.
           and_then (from_option INTERNAL_ERROR (decimal_of_json D limit_value)) (\<lambda>limit.
             if spent + amount \<le> limit then Inr (outcome r RR_PASS)
             else Inr (flagged r RR_VIOLATION
                    (''Cumulative '' @ window @ '' spend would exceed the limit.'')
                    (Some (''cumulative.'' @ window)) (Some (dl_show D (spent + amount)))
                    (Some (''<= '' @ json_text limit_value)) SEV_HIGH))))))"

definition recipient_allowlist :: evaluator where
  "recipient_allowlist r c =
    (let allow = as_string_array (cfg r ''recipients'') in
     if \<not> truthy (ec_recipient c)
     then Inr (flagged r RR_VIOLATION ''No recipient to match allowlist.'' None None None SEV_HIGH)
     else if arr_includes allow (the (ec_recipient c)) then Inr (outcome r RR_PASS)
     else Inr (flagged r RR_VIOLATION ''Recipient is not in the allowlist.''
            (Some ''transaction.recipient'') (ec_recipient c)
            (Some ''recipient must be allowlisted'') SEV_CRITICAL))"

definition recipient_blocklist :: evaluator where
  "recipient_blocklist r c =
    (let block = as_string_array (cfg r ''recipients'') in
     if \<not> truthy (ec_recipient c) then Inr (outcome r RR_PASS)
     else if \<not> arr_includes block (the (ec_recipient c)) then Inr (outcome r RR_PASS)
     else Inr (flagged r RR_VIOLATION ''Recipient is blocklisted.''
            (Some ''transaction.recipient'') (ec_recipient c)
            (Some ''recipient must not be blocklisted'') SEV_CRITICAL))"

definition new_recipient_approval :: evaluator where
  "new_recipient_approval r c =
    (if \<not> truthy (ec_recipient c) then Inr (outcome r RR_SKIPPED)
     else if arr_includes (nullish (ec_known_recipients c) []) (the (ec_recipient c))
     then Inr (outcome r RR_PASS)
     else Inr (flagged r RR_REQUIRE_APPROVAL ''New recipient requires human approval.''
            (Some ''transaction.recipient'') (ec_recipient c) None SEV_MEDIUM))"

definition asset_allow :: evaluator where
  "asset_allow r c =
    (let allow = as_string_array (cfg r ''assets'') in
     if \<not> truthy (ec_asset c)
     then Inr (flagged r RR_VIOLATION ''No asset specified.'' None None None SEV_HIGH)
     else if arr_includes allow (the (ec_asset c)) then Inr (outcome r RR_PASS)
     else Inr (flagged r RR_VIOLATION ''Asset is not allowed.'' (Some ''transaction.asset'') (ec_asset c)
            (Some (''one of '' @ join_comma allow)) SEV_HIGH))"

definition asset_block :: evaluator where
  "asset_block r c =
    (let block = as_string_array (cfg r ''assets'') in
     if \<not> truthy (ec_asset c) \<or> \<not> arr_includes block (the (ec_asset c)) then Inr (outcome r RR_PASS)
     else Inr (flagged r RR_VIOLATION ''Asset is blocked.'' (Some ''transaction.asset'') (ec_asset c)
            None SEV_HIGH))"

definition network_allow :: evaluator where
  "network_allow r c =
    (let allow = as_string_array (cfg r ''networks'') in
     if \<not> truthy (ec_network c)
     then Inr (flagged r RR_VIOLATION ''No network specified.'' None None None SEV_HIGH)
     else if arr_includes allow (the (ec_network c)) then Inr (outcome r RR_PASS)
     else Inr (flagged r RR_VIOLATION ''Network is not allowed.'' (Some ''transaction.network'')
            (ec_network c) (Some (''one of '' @ join_comma allow)) SEV_CRITICAL))"

definition network_block :: evaluator where
  "network_block r c =
    (let block = as_string_array (cfg r ''networks'') in
     if \<not> truthy (ec_network c) \<or> \<not> arr_includes block (the (ec_network c)) then Inr (outcome r RR_PASS)
     else Inr (flagged r RR_VIOLATION ''Network is blocked.'' (Some ''transaction.network'')
            (ec_network c) None SEV_CRITICAL))"

definition category_allow :: evaluator where
  "category_allow r c =
    (let allow = as_string_array (cfg r ''categories'') in
     if \<not> truthy (ec_category c)
     then Inr (flagged r RR_VIOLATION ''No category specified.'' None None None SEV_MEDIUM)
     else if arr_includes allow (the (ec_category c)) then Inr (outcome r RR_PASS)
     else Inr (flagged r RR_VIOLATION ''Category is not allowed.'' (Some ''transaction.category'')
            (ec_category c) None SEV_MEDIUM))"

definition category_block :: evaluator where
  "category_block r c =
    (let block = as_string_array (cfg r ''categories'') in
     if \<not> truthy (ec_category c) \<or> \<not> arr_includes block (the (ec_category c)) then Inr (outcome r RR_PASS)
     else Inr (flagged r RR_VIOLATION ''Category is blocked.'' (Some ''transaction.category'')
            (ec_category c) None SEV_MEDIUM))"

text \<open>\<open>Date.getUTCHours\<close> of the epoch milliseconds.\<close>

definition utc_hour :: "int \<Rightarrow> int" where
  "utc_hour ms = (ms div 3600000) mod 24"

definition in_hours :: "int \<Rightarrow> int \<Rightarrow> int \<Rightarrow> bool" where
  "in_hours start fin hour =
     (if start \<le> fin then hour \<ge> start \<and> hour < fin else hour \<ge> start \<or> hour < fin)"

definition time_window :: "(string \<Rightarrow> int option) \<Rightarrow> evaluator" where
  "time_window date_ms r c =
    (case (cfg_int r ''start_hour'', cfg_int r ''end_hour'') of
       (Some start, Some fin) \<Rightarrow>
         (let hour = map_option utc_hour (date_ms (ec_now c));
              inside = (case hour of None \<Rightarrow> False | Some h \<Rightarrow> in_hours start fin h)
          in if inside then Inr (outcome r RR_PASS)
             else Inr (flagged r RR_VIOLATION ''Outside the permitted UTC time window.''
                    (Some ''time.utc_hour'')
                    (Some (case hour of None \<Rightarrow> ''NaN'' | Some h \<Rightarrow> show_int h))
                    (Some (''['' @ show_int start @ '','' @ show_int fin @ '')'')) SEV_MEDIUM))
     | _ \<Rightarrow> Inr (outcome r RR_SKIPPED))"

definition human_approval :: evaluator where
  "human_approval r c =
     Inr (flagged r RR_REQUIRE_APPROVAL ''Policy requires human approval for this action.''
            None None None SEV_MEDIUM)"

definition required_predecessor :: evaluator where
  "required_predecessor r c =
    (if \<not> js_truthy (cfg r ''predecessor'') then Inr (outcome r RR_SKIPPED)
     else
       (let p = json_text (the (cfg r ''predecessor'')) in
        if arr_includes (nullish (ec_trajectory_event_types c) []) p then Inr (outcome r RR_PASS)
        else Inr (flagged r RR_VIOLATION
               (''Required predecessor '' @ CHR 0x27 # p @ CHR 0x27 # '' did not occur before this action.'')
               (Some ''trajectory.predecessor'') None (Some p) SEV_HIGH)))"

text \<open>
  The transactions the structuring rule counts: those within the window before now (an invalid
  date is in no window), and the one under evaluation.
\<close>

definition structuring_candidates ::
    "(string \<Rightarrow> int option) \<Rightarrow> int \<Rightarrow> evaluation_context \<Rightarrow> (string \<times> string) list" where
  "structuring_candidates date_ms window_minutes c =
     filter (\<lambda>(a, t). case (date_ms (ec_now c), date_ms t) of
               (Some now, Some t_at) \<Rightarrow> now - t_at \<le> window_minutes * 60000 | _ \<Rightarrow> False)
       (nullish (ec_recent_transactions c) [])
     @ (case ec_amount c of None \<Rightarrow> [] | Some a \<Rightarrow> [(a, ec_now c)])"

definition no_structuring :: "decimal_lib \<Rightarrow> (string \<Rightarrow> int option) \<Rightarrow> evaluator" where
  "no_structuring D date_ms r c =
    (case cfg r ''threshold'' of
       None \<Rightarrow> Inr (outcome r RR_SKIPPED)
     | Some t \<Rightarrow>
        (let window_minutes = nullish (cfg_int r ''window_minutes'') 60;
             max_count = nullish (cfg_int r ''max_count'') 3
         in
         and_then (from_option INTERNAL_ERROR (decimal_of_json D t)) (\<lambda>threshold.
         and_then (traverse (\<lambda>(a, _). from_option INTERNAL_ERROR (dl_parse D a))
                     (structuring_candidates date_ms window_minutes c)) (\<lambda>amounts.
           let count = int (length (filter (\<lambda>a. \<not> threshold < a) amounts)) in
           if max_count < count
           then Inr (flagged r RR_VIOLATION
                  ''Potential structuring: too many sub-threshold transactions in window.''
                  (Some ''structuring.count'') (Some (show_int count))
                  (Some (''<= '' @ show_int max_count)) SEV_HIGH)
           else Inr (outcome r RR_PASS)))))"

definition capability_expiry :: "(string \<Rightarrow> int option) \<Rightarrow> evaluator" where
  "capability_expiry date_ms r c =
    (case ec_capability_expires_at c of
       Some (Some e) \<Rightarrow>
         if e = [] then Inr (outcome r RR_SKIPPED)
         else (case (date_ms e, date_ms (ec_now c)) of
             (Some expires, Some now) \<Rightarrow>
               if now < expires then Inr (outcome r RR_PASS)
               else Inr (flagged r RR_VIOLATION ''Required capability has expired.''
                      (Some ''capability.expires_at'') (Some e) (Some (''> '' @ ec_now c)) SEV_CRITICAL)
           | _ \<Rightarrow> Inr (flagged r RR_VIOLATION ''Required capability has expired.''
                      (Some ''capability.expires_at'') (Some e) (Some (''> '' @ ec_now c)) SEV_CRITICAL))
     | _ \<Rightarrow> Inr (outcome r RR_SKIPPED))"

fun EVALUATORS :: "decimal_lib \<Rightarrow> (string \<Rightarrow> int option) \<Rightarrow> rule_type \<Rightarrow> evaluator" where
  "EVALUATORS D date_ms AMOUNT_LIMIT = amount_limit D"
| "EVALUATORS D date_ms CUMULATIVE_LIMIT = cumulative_limit D"
| "EVALUATORS D date_ms RECIPIENT_ALLOWLIST = recipient_allowlist"
| "EVALUATORS D date_ms RECIPIENT_BLOCKLIST = recipient_blocklist"
| "EVALUATORS D date_ms NEW_RECIPIENT_APPROVAL = new_recipient_approval"
| "EVALUATORS D date_ms ASSET_ALLOW = asset_allow"
| "EVALUATORS D date_ms ASSET_BLOCK = asset_block"
| "EVALUATORS D date_ms NETWORK_ALLOW = network_allow"
| "EVALUATORS D date_ms NETWORK_BLOCK = network_block"
| "EVALUATORS D date_ms CATEGORY_ALLOW = category_allow"
| "EVALUATORS D date_ms CATEGORY_BLOCK = category_block"
| "EVALUATORS D date_ms TIME_WINDOW = time_window date_ms"
| "EVALUATORS D date_ms HUMAN_APPROVAL = human_approval"
| "EVALUATORS D date_ms REQUIRED_PREDECESSOR = required_predecessor"
| "EVALUATORS D date_ms NO_STRUCTURING = no_structuring D date_ms"
| "EVALUATORS D date_ms CAPABILITY_EXPIRY = capability_expiry date_ms"

section \<open>What each rule permits\<close>

text \<open>
  The specification of the rules, free of evaluation order and of outcome records: the condition
  on the context under which a rule does not veto the action.
\<close>

definition amount_within :: "decimal_lib \<Rightarrow> json \<Rightarrow> string \<Rightarrow> rat \<Rightarrow> bool" where
  "amount_within D limit_value a spent \<longleftrightarrow>
     (\<exists>q l. dl_parse D a = Some q \<and> decimal_of_json D limit_value = Some l \<and> spent + q \<le> l)"

definition names :: "compiled_rule \<Rightarrow> string \<Rightarrow> string set" where
  "names r k = {s. \<exists>xs. cfg r k = Some (JArr xs) \<and> JStr s \<in> set xs}"

definition listed :: "compiled_rule \<Rightarrow> string \<Rightarrow> string option \<Rightarrow> bool" where
  "listed r k v \<longleftrightarrow> (\<exists>s. v = Some s \<and> s \<noteq> [] \<and> s \<in> names r k)"

definition hour_permitted :: "int \<Rightarrow> int \<Rightarrow> int \<Rightarrow> bool" where
  "hour_permitted start fin h \<longleftrightarrow> (h - start) mod 24 < (fin - start) mod 24"

fun permits :: "decimal_lib \<Rightarrow> (string \<Rightarrow> int option) \<Rightarrow> rule_type \<Rightarrow> compiled_rule \<Rightarrow> evaluation_context \<Rightarrow> bool" where
  "permits D date_ms AMOUNT_LIMIT r c =
     (\<forall>m. cfg r ''maximum'' = Some m \<longrightarrow> (\<exists>a. ec_amount c = Some a \<and> amount_within D m a 0))"
| "permits D date_ms CUMULATIVE_LIMIT r c =
     (\<forall>m w. cfg r ''maximum'' = Some m \<and> cfg r ''window'' = Some w \<and> js_truthy (Some w) \<longrightarrow>
        (\<exists>s. dl_parse D (spent_text (json_text w) c) = Some s \<and>
             amount_within D m (if truthy (ec_amount c) then the (ec_amount c) else ''0'') s))"
| "permits D date_ms RECIPIENT_ALLOWLIST r c = listed r ''recipients'' (ec_recipient c)"
| "permits D date_ms RECIPIENT_BLOCKLIST r c = (\<not> listed r ''recipients'' (ec_recipient c))"
| "permits D date_ms NEW_RECIPIENT_APPROVAL r c = True"
| "permits D date_ms ASSET_ALLOW r c = listed r ''assets'' (ec_asset c)"
| "permits D date_ms ASSET_BLOCK r c = (\<not> listed r ''assets'' (ec_asset c))"
| "permits D date_ms NETWORK_ALLOW r c = listed r ''networks'' (ec_network c)"
| "permits D date_ms NETWORK_BLOCK r c = (\<not> listed r ''networks'' (ec_network c))"
| "permits D date_ms CATEGORY_ALLOW r c = listed r ''categories'' (ec_category c)"
| "permits D date_ms CATEGORY_BLOCK r c = (\<not> listed r ''categories'' (ec_category c))"
| "permits D date_ms TIME_WINDOW r c =
     (\<forall>s e. cfg_int r ''start_hour'' = Some s \<and> cfg_int r ''end_hour'' = Some e \<longrightarrow>
        (\<exists>ms. date_ms (ec_now c) = Some ms \<and> in_hours s e (utc_hour ms)))"
| "permits D date_ms HUMAN_APPROVAL r c = True"
| "permits D date_ms REQUIRED_PREDECESSOR r c =
     (\<forall>p. cfg r ''predecessor'' = Some p \<and> js_truthy (Some p) \<longrightarrow>
        (\<exists>es. ec_trajectory_event_types c = Some es \<and> json_text p \<in> set es))"
| "permits D date_ms NO_STRUCTURING r c =
     (\<forall>t. cfg r ''threshold'' = Some t \<longrightarrow>
        int (card {i. i < length (structuring_candidates date_ms (nullish (cfg_int r ''window_minutes'') 60) c) \<and>
               (\<exists>q l. dl_parse D (fst (structuring_candidates date_ms
                         (nullish (cfg_int r ''window_minutes'') 60) c ! i)) = Some q \<and>
                     decimal_of_json D t = Some l \<and> q \<le> l)})
          \<le> nullish (cfg_int r ''max_count'') 3)"
| "permits D date_ms CAPABILITY_EXPIRY r c =
     (\<forall>e. ec_capability_expires_at c = Some (Some e) \<and> e \<noteq> [] \<longrightarrow>
        (\<exists>x n. date_ms e = Some x \<and> date_ms (ec_now c) = Some n \<and> n < x))"

section \<open>Lemmas\<close>

lemma utc_hour_range: "0 \<le> utc_hour ms \<and> utc_hour ms < 24"
  by (simp add: utc_hour_def)

lemma in_hours_iff_mod:
  assumes "0 \<le> s" "s < 24" "0 \<le> e" "e < 24" "0 \<le> h" "h < 24"
  shows "in_hours s e h \<longleftrightarrow> hour_permitted s e h"
proof -
  have m: "(x - y) mod 24 = (if y \<le> x then x - y else x - y + 24)"
    if "0 \<le> x" "x < 24" "0 \<le> y" "y < 24" for x y :: int
  proof (cases "y \<le> x")
    case True
    with that show ?thesis by (simp add: mod_pos_pos_trivial)
  next
    case False
    have "(x - y + 24) mod 24 = x - y + 24"
      by (rule mod_pos_pos_trivial) (use that False in linarith)+
    with False show ?thesis by (metis mod_add_self2)
  qed
  show ?thesis
    unfolding in_hours_def hour_permitted_def m [OF assms(5,6,1,2)] m [OF assms(3,4,1,2)]
    using assms by auto
qed

lemma outcome_simps [simp]:
  "ro_rule_id (outcome r res) = pr_rule_id r" "ro_rule_type (outcome r res) = pr_type r"
  "ro_result (outcome r res) = res"
  "ro_rule_id (flagged r res m f a x sv) = pr_rule_id r"
  "ro_rule_type (flagged r res m f a x sv) = pr_type r"
  "ro_result (flagged r res m f a x sv) = res"
  by (simp_all add: outcome_def flagged_def)

lemma outcome_neq_flagged [simp]:
  "res \<noteq> res' \<Longrightarrow> outcome r res \<noteq> flagged r' res' m f a x sv"
  "res \<noteq> res' \<Longrightarrow> flagged r' res' m f a x sv \<noteq> outcome r res"
  by (metis outcome_simps(3) outcome_simps(6))+

lemma mem_json_strings:
  "s \<in> set (List.map_filter (\<lambda>x. case x of JStr s \<Rightarrow> Some s | _ \<Rightarrow> None) xs) \<longleftrightarrow> JStr s \<in> set xs"
proof (induction xs)
  case Nil
  then show ?case by (simp add: map_filter_simps)
next
  case (Cons x xs)
  then show ?case by (cases x) (auto simp: map_filter_simps)
qed

lemma mem_as_string_array: "s \<in> set (as_string_array (cfg r k)) \<longleftrightarrow> s \<in> names r k"
  by (cases "cfg r k") (auto simp: as_string_array_def names_def mem_json_strings split: json.splits)

lemma listed_iff:
  "listed r k v \<longleftrightarrow> truthy v \<and> the v \<in> set (as_string_array (cfg r k))"
  by (cases v) (auto simp: listed_def mem_as_string_array)

lemma traverse_from_option:
  "traverse (\<lambda>(a, _). from_option e (f a)) xs = Inr ys \<Longrightarrow>
     length (filter Q ys) = card {i. i < length xs \<and> (\<exists>q. f (fst (xs ! i)) = Some q \<and> Q q)}"
proof -
  assume "traverse (\<lambda>(a, _). from_option e (f a)) xs = Inr ys"
  then have l: "length xs = length ys" and n: "\<And>i. i < length xs \<Longrightarrow> f (fst (xs ! i)) = Some (ys ! i)"
    by (auto simp: traverse_Inr_iff list_all2_conv_all_nth case_prod_beta)
  show ?thesis
    unfolding length_filter_conv_card l
    by (rule arg_cong [where f = card]) (use l n in auto)
qed

lemma evaluator_permits:
  assumes "EVALUATORS D date_ms t r c = Inr o1"
  shows "ro_result o1 \<noteq> RR_VIOLATION \<longleftrightarrow> permits D date_ms t r c"
proof (cases t)
  case AMOUNT_LIMIT
  with assms show ?thesis
    by (auto simp: amount_limit_def amount_within_def and_then_Inr_iff
        split: option.splits if_splits)
next
  case CUMULATIVE_LIMIT
  with assms show ?thesis
    by (cases "cfg r ''window''")
       (auto simp: cumulative_limit_def amount_within_def and_then_Inr_iff Let_def
        split: option.splits if_splits)
next
  case REQUIRED_PREDECESSOR
  with assms show ?thesis
    by (cases "cfg r ''predecessor''"; cases "ec_trajectory_event_types c")
       (auto simp: required_predecessor_def Let_def split: if_splits)
next
  case NO_STRUCTURING
  show ?thesis
  proof (cases "cfg r ''threshold''")
    case None
    with assms NO_STRUCTURING show ?thesis by (auto simp: no_structuring_def)
  next
    case (Some th)
    define cand where "cand = structuring_candidates date_ms (nullish (cfg_int r ''window_minutes'') 60) c"
    obtain l ys where l: "decimal_of_json D th = Some l"
      and ys: "traverse (\<lambda>(a, _). from_option INTERNAL_ERROR (dl_parse D a)) cand = Inr ys"
      and res: "ro_result o1 = (if nullish (cfg_int r ''max_count'') 3 < int (length (filter (\<lambda>a. \<not> l < a) ys))
                 then RR_VIOLATION else RR_PASS)"
      using assms NO_STRUCTURING Some
      by (auto simp: no_structuring_def Let_def and_then_Inr_iff cand_def split: if_splits)
    have "length (filter (\<lambda>a. \<not> l < a) ys)
        = card {i. i < length cand \<and> (\<exists>q. dl_parse D (fst (cand ! i)) = Some q \<and> \<not> l < q)}"
      using ys by (rule traverse_from_option)
    with res NO_STRUCTURING Some l show ?thesis
      by (auto simp: cand_def not_less)
  qed
qed (use assms in \<open>auto simp: recipient_allowlist_def recipient_blocklist_def new_recipient_approval_def
      asset_allow_def asset_block_def network_allow_def network_block_def category_allow_def
      category_block_def time_window_def human_approval_def required_predecessor_def
      capability_expiry_def listed_iff Let_def nullish_def
      split: option.splits if_splits\<close>)

section \<open>Properties\<close>

text \<open>
  with hours in 0..23, the time-window rule vetoes an action exactly when the UTC hour is
  not in the half-open arc from the start hour to the end hour around the clock; the code's two
  cases (a window inside a day, a window over midnight) are the one arc.
\<close>

theorem time_window_arc:
  assumes "cfg_int r ''start_hour'' = Some s" "0 \<le> s" "s < 24"
    and "cfg_int r ''end_hour'' = Some e" "0 \<le> e" "e < 24"
    and "date_ms (ec_now c) = Some ms"
  shows "map_sum id ro_result (time_window date_ms r c)
    = Inr (if (utc_hour ms - s) mod 24 < (e - s) mod 24 then RR_PASS else RR_VIOLATION)"
  using assms utc_hour_range [of ms] in_hours_iff_mod [of s e "utc_hour ms"]
  by (simp add: time_window_def Let_def hour_permitted_def)

definition sample_context :: "string \<Rightarrow> evaluation_context" where
  "sample_context amount = \<lparr> ec_action = ''PAY'', ec_amount = Some amount, ec_currency = Some ''USDC'',
     ec_asset = Some ''USDC'', ec_network = Some ''base-sepolia'', ec_category = None,
     ec_recipient = Some ''0xabc'', ec_cumulative_spent = Some [(''daily'', ''90'')],
     ec_cumulative_by_key = None, ec_known_recipients = None, ec_trajectory_event_types = None,
     ec_recent_transactions = None, ec_capability_expires_at = Some None, ec_now = ''23:30'' \<rparr>"

definition sample_rule :: "string \<Rightarrow> string \<Rightarrow> (string \<times> json) list \<Rightarrow> compiled_rule" where
  "sample_rule i t config = \<lparr> pr_rule_id = i, pr_type = t, pr_priority = None, pr_enabled = None,
     pr_config = config \<rparr>"

text \<open>Half past eleven at night is inside the window from 22 to 6.\<close>

theorem time_window_arc_witness:
  "map_sum id ro_result (time_window (\<lambda>_. Some 84600000)
      (sample_rule ''r'' ''TIME_WINDOW'' [(''start_hour'', JNum 22), (''end_hour'', JNum 6)])
      (sample_context ''5'')) = Inr RR_PASS"
  by (subst time_window_arc [where s = 22 and e = 6 and ms = 84600000])
     (simp_all add: sample_rule_def cfg_int_def cfg_def utc_hour_def)

end
