(* ===== verification/Policy_Engine.thy ===== *)
theory Policy_Engine
  imports Policy_Rules "HOL-Library.Product_Lexorder"
begin

text \<open>
  The deterministic policy engine (Backend/src/policy/engine/engine.ts): the enabled rules in
  the order of priority and rule id, their outcomes, the aggregate status, violations and
  requirements, and the hash of the evaluation. What it takes from outside is the record
  \<open>runtime\<close>: decimals, dates, the collation key of \<open>localeCompare\<close> (two identifiers
  compare as their keys do) and the digest. The random violation ids are cosmetic and left out.
\<close>

section \<open>Definitions\<close>

record runtime =
  rt_decimal :: decimal_lib
  rt_date_ms :: "string \<Rightarrow> int option"
  rt_collate :: "string \<Rightarrow> string"
  rt_sha :: "string \<Rightarrow> string"

record policy_violation_out =
  pv_rule_id :: string
  pv_rule_type :: string
  pv_field :: "string option"
  pv_actual_value :: "string option"
  pv_expected :: "string option"
  pv_severity :: error_severity
  pv_message :: string

record policy_requirement =
  pq_rule_id :: string
  pq_rule_type :: string
  pq_reason :: string

record policy_evaluation_out =
  po_policy_id :: string
  po_policy_version :: int
  po_status :: policy_evaluation_status
  po_rules_checked :: "(string \<times> rule_result) list"
  po_violations :: "policy_violation_out list"
  po_requirements :: "policy_requirement list"
  po_events_considered :: "nat option"
  po_evaluated_at :: string
  po_evaluation_hash :: string

record evaluate_input =
  ei_policy_id :: string
  ei_policy_version :: int
  ei_rules :: "compiled_rule list"
  ei_context :: evaluation_context

definition rule_enabled :: "compiled_rule \<Rightarrow> bool" where
  "rule_enabled r \<longleftrightarrow> pr_enabled r \<noteq> Some False"

definition rule_order_key :: "runtime \<Rightarrow> compiled_rule \<Rightarrow> int \<times> string" where
  "rule_order_key R r = (nullish (pr_priority r) 100, rt_collate R (pr_rule_id r))"

definition enabled_rules :: "runtime \<Rightarrow> compiled_rule list \<Rightarrow> compiled_rule list" where
  "enabled_rules R rules = sort_key (rule_order_key R) (filter rule_enabled rules)"

definition evaluate_rule :: "runtime \<Rightarrow> evaluation_context \<Rightarrow> compiled_rule \<Rightarrow> error_code + rule_outcome" where
  "evaluate_rule R c r =
     (case map_of RULE_TYPES (pr_type r) of
        None \<Rightarrow> Inl INTERNAL_ERROR
      | Some t \<Rightarrow> EVALUATORS (rt_decimal R) (rt_date_ms R) t r c)"

definition is_requirement :: "rule_outcome \<Rightarrow> bool" where
  "is_requirement o1 \<longleftrightarrow> ro_result o1 = RR_REQUIRE_APPROVAL \<or> ro_result o1 = RR_REVIEW"

definition violation_of :: "rule_outcome \<Rightarrow> policy_violation_out" where
  "violation_of o1 = \<lparr> pv_rule_id = ro_rule_id o1, pv_rule_type = ro_rule_type o1,
     pv_field = ro_field o1, pv_actual_value = ro_actual_value o1, pv_expected = ro_expected o1,
     pv_severity = nullish (ro_severity o1) SEV_HIGH,
     pv_message = nullish (ro_reason o1) ''Policy rule violated.'' \<rparr>"

definition requirement_of :: "rule_outcome \<Rightarrow> policy_requirement" where
  "requirement_of o1 = \<lparr> pq_rule_id = ro_rule_id o1, pq_rule_type = ro_rule_type o1,
     pq_reason = nullish (ro_reason o1) [] \<rparr>"

definition aggregate_status :: "rule_outcome list \<Rightarrow> policy_evaluation_status" where
  "aggregate_status os =
     (if 0 < length (filter (\<lambda>o1. ro_result o1 = RR_VIOLATION) os) then EVAL_FAIL
      else if 0 < length (filter is_requirement os) then EVAL_REVIEW
      else EVAL_PASS)"

subsection \<open>The hashed content of an evaluation\<close>

definition json_field :: "string \<Rightarrow> ('a \<Rightarrow> json) \<Rightarrow> 'a option \<Rightarrow> (string \<times> json) list" where
  "json_field k f v = (case v of None \<Rightarrow> [] | Some x \<Rightarrow> [(k, f x)])"

definition rule_json :: "compiled_rule \<Rightarrow> json" where
  "rule_json r = JObj ([(''rule_id'', JStr (pr_rule_id r)), (''type'', JStr (pr_type r))]
     @ json_field ''priority'' JNum (pr_priority r)
     @ json_field ''enabled'' JBool (pr_enabled r)
     @ [(''config'', JObj (pr_config r))])"

definition strings_json :: "string list \<Rightarrow> json" where
  "strings_json xs = JArr (map JStr xs)"

definition string_map_json :: "(string \<times> string) list \<Rightarrow> json" where
  "string_map_json m = JObj (map (map_prod id JStr) m)"

definition context_json :: "evaluation_context \<Rightarrow> json" where
  "context_json c = JObj
     ([(''transaction'', JObj ([(''action'', JStr (ec_action c))]
          @ json_field ''amount'' JStr (ec_amount c)
          @ json_field ''currency'' JStr (ec_currency c)
          @ json_field ''asset'' JStr (ec_asset c)
          @ json_field ''network'' JStr (ec_network c)
          @ json_field ''category'' JStr (ec_category c)
          @ json_field ''recipient'' JStr (ec_recipient c)))]
      @ json_field ''cumulativeSpent'' string_map_json (ec_cumulative_spent c)
      @ json_field ''cumulativeByKey'' (\<lambda>m. JObj (map (map_prod id string_map_json) m)) (ec_cumulative_by_key c)
      @ json_field ''knownRecipients'' strings_json (ec_known_recipients c)
      @ json_field ''trajectoryEventTypes'' strings_json (ec_trajectory_event_types c)
      @ json_field ''recentTransactions''
          (\<lambda>ts. JArr (map (\<lambda>(a, t). JObj [(''amount'', JStr a), (''at'', JStr t)]) ts))
          (ec_recent_transactions c)
      @ json_field ''capabilityExpiresAt'' json_opt (ec_capability_expires_at c)
      @ [(''now'', JStr (ec_now c))])"

fun rule_result_name :: "rule_result \<Rightarrow> string" where
  "rule_result_name RR_PASS = ''PASS''"
| "rule_result_name RR_VIOLATION = ''VIOLATION''"
| "rule_result_name RR_REVIEW = ''REVIEW''"
| "rule_result_name RR_REQUIRE_APPROVAL = ''REQUIRE_APPROVAL''"
| "rule_result_name RR_SKIPPED = ''SKIPPED''"

definition outcome_json :: "rule_outcome \<Rightarrow> json" where
  "outcome_json o1 = JObj [(''rule_id'', JStr (ro_rule_id o1)),
     (''result'', JStr (rule_result_name (ro_result o1)))]"

definition evaluation_json :: "evaluate_input \<Rightarrow> compiled_rule list \<Rightarrow> rule_outcome list \<Rightarrow> json" where
  "evaluation_json i enabled os = JObj
     [(''policyId'', JStr (ei_policy_id i)),
      (''version'', JNum (ei_policy_version i)),
      (''rules'', JArr (map rule_json enabled)),
      (''context'', context_json (ei_context i)),
      (''outcomes'', JArr (map outcome_json os))]"

subsection \<open>Evaluation\<close>

definition evaluate :: "runtime \<Rightarrow> evaluate_input \<Rightarrow> error_code + policy_evaluation_out" where
  "evaluate R i =
     (let enabled = enabled_rules R (ei_rules i) in
      and_then (traverse (evaluate_rule R (ei_context i)) enabled) (\<lambda>outcomes.
        Inr \<lparr> po_policy_id = ei_policy_id i,
              po_policy_version = ei_policy_version i,
              po_status = aggregate_status outcomes,
              po_rules_checked = map (\<lambda>o1. (ro_rule_id o1, ro_result o1)) outcomes,
              po_violations = map violation_of (filter (\<lambda>o1. ro_result o1 = RR_VIOLATION) outcomes),
              po_requirements = map requirement_of (filter is_requirement outcomes),
              po_events_considered = map_option length (ec_trajectory_event_types (ei_context i)),
              po_evaluated_at = ec_now (ei_context i),
              po_evaluation_hash = sha256_json (rt_sha R) (evaluation_json i enabled outcomes) \<rparr>))"

section \<open>Lemmas\<close>

lemma aggregate_status_iff:
  "aggregate_status os = EVAL_FAIL \<longleftrightarrow> (\<exists>o1 \<in> set os. ro_result o1 = RR_VIOLATION)"
  "aggregate_status os = EVAL_PASS \<longleftrightarrow> (\<forall>o1 \<in> set os. ro_result o1 \<in> {RR_PASS, RR_SKIPPED})"
proof -
  show "aggregate_status os = EVAL_FAIL \<longleftrightarrow> (\<exists>o1 \<in> set os. ro_result o1 = RR_VIOLATION)"
    by (auto simp: aggregate_status_def filter_empty_conv)
  have "(ro_result o1 \<noteq> RR_VIOLATION \<and> \<not> is_requirement o1) \<longleftrightarrow> ro_result o1 \<in> {RR_PASS, RR_SKIPPED}" for o1
    by (cases "ro_result o1") (auto simp: is_requirement_def)
  then show "aggregate_status os = EVAL_PASS \<longleftrightarrow> (\<forall>o1 \<in> set os. ro_result o1 \<in> {RR_PASS, RR_SKIPPED})"
    by (auto simp: aggregate_status_def filter_empty_conv)
qed

lemma set_enabled_rules: "set (enabled_rules R rules) = {r \<in> set rules. rule_enabled r}"
  by (auto simp: enabled_rules_def)

lemma evaluate_InrD:
  assumes "evaluate R i = Inr out"
  obtains os where "traverse (evaluate_rule R (ei_context i)) (enabled_rules R (ei_rules i)) = Inr os"
    and "po_status out = aggregate_status os"
    and "po_evaluation_hash out =
           sha256_json (rt_sha R) (evaluation_json i (enabled_rules R (ei_rules i)) os)"
  using assms by (auto simp: evaluate_def Let_def and_then_Inr_iff)

text \<open>A rule of a known type permits the context: the specification, by type name.\<close>

definition rule_permits :: "runtime \<Rightarrow> evaluation_context \<Rightarrow> compiled_rule \<Rightarrow> bool" where
  "rule_permits R c r = (case map_of RULE_TYPES (pr_type r) of
     None \<Rightarrow> False | Some t \<Rightarrow> permits (rt_decimal R) (rt_date_ms R) t r c)"

lemma evaluate_rule_permits:
  "evaluate_rule R c r = Inr o1 \<Longrightarrow> ro_result o1 \<noteq> RR_VIOLATION \<longleftrightarrow> rule_permits R c r"
  by (auto simp: evaluate_rule_def rule_permits_def dest: evaluator_permits split: option.splits)

lemma sort_key_unique:
  fixes f :: "'a \<Rightarrow> 'k :: linorder"
  assumes "mset xs = mset ys" and "inj_on f (set xs)" and "distinct xs"
  shows "sort_key f xs = sort_key f ys"
proof -
  have s: "set xs = set ys" using assms(1) by (metis set_mset_mset)
  have d: "distinct ys" using assms(1,3) mset_eq_imp_distinct_iff by blast
  show ?thesis
  proof (rule map_sorted_distinct_set_unique [where f = f])
    show "inj_on f (set (sort_key f xs) \<union> set (sort_key f ys))" using assms(2) s by simp
    show "distinct (map f (sort_key f xs))" "distinct (map f (sort_key f ys))"
      using assms(2,3) d s by (simp_all add: distinct_map)
  qed (use s in simp_all)
qed

lemma enabled_rules_perm:
  assumes "mset rules = mset rules'" and "distinct rules" and "inj_on (rule_order_key R) (set rules)"
  shows "enabled_rules R rules = enabled_rules R rules'"
  unfolding enabled_rules_def
proof (rule sort_key_unique)
  show "mset (filter rule_enabled rules) = mset (filter rule_enabled rules')"
    using assms(1) by simp
  show "inj_on (rule_order_key R) (set (filter rule_enabled rules))"
    using assms(3) by (rule inj_on_subset) auto
qed (use assms(2) in simp)

section \<open>Properties\<close>

text \<open>
  C6: the aggregate status is sound and complete for the hard rules: an evaluation that returns
  is not FAIL exactly when every enabled rule permits the context, whatever the rule order,
  and it is PASS exactly when no enabled rule asks for an approval or a review either.
\<close>

theorem evaluation_status_sound_complete:
  assumes "evaluate R i = Inr out"
  shows "(po_status out \<noteq> EVAL_FAIL \<longleftrightarrow>
            (\<forall>r \<in> set (ei_rules i). rule_enabled r \<longrightarrow> rule_permits R (ei_context i) r))
    \<and> (po_status out = EVAL_PASS \<longleftrightarrow>
            (\<forall>r \<in> set (ei_rules i). rule_enabled r \<longrightarrow>
               (\<exists>o1. evaluate_rule R (ei_context i) r = Inr o1 \<and> ro_result o1 \<in> {RR_PASS, RR_SKIPPED})))"
proof -
  obtain os where t: "traverse (evaluate_rule R (ei_context i)) (enabled_rules R (ei_rules i)) = Inr os"
    and st: "po_status out = aggregate_status os"
    using assms by (rule evaluate_InrD)
  have "\<exists>o1. evaluate_rule R (ei_context i) r = Inr o1"
    if "r \<in> set (ei_rules i)" "rule_enabled r" for r
    using traverse_total [of "evaluate_rule R (ei_context i)" "enabled_rules R (ei_rules i)"] t that
    by (auto simp: set_enabled_rules)
  then show ?thesis
    using traverse_Inr_ex [OF t, of "\<lambda>o1. ro_result o1 = RR_VIOLATION"]
      traverse_Inr_all [OF t, of "\<lambda>o1. ro_result o1 \<in> {RR_PASS, RR_SKIPPED}"]
    by (auto simp: st aggregate_status_iff set_enabled_rules) (metis evaluate_rule_permits)+
qed

definition sample_runtime :: runtime where
  "sample_runtime = \<lparr> rt_decimal = plain_decimal, rt_date_ms = (\<lambda>_. Some 84600000),
     rt_collate = (\<lambda>s. s), rt_sha = (\<lambda>s. s) \<rparr>"

definition sample_rules :: "compiled_rule list" where
  "sample_rules = [sample_rule ''cap'' ''AMOUNT_LIMIT'' [(''maximum'', JStr ''10.00'')],
     sample_rule ''day'' ''CUMULATIVE_LIMIT'' [(''window'', JStr ''daily''), (''maximum'', JStr ''100'')]]"

definition sample_input :: "string \<Rightarrow> evaluate_input" where
  "sample_input amount = \<lparr> ei_policy_id = ''pol'', ei_policy_version = 3, ei_rules = sample_rules,
     ei_context = sample_context amount \<rparr>"

lemma sample_evaluates:
  "\<exists>out. evaluate sample_runtime (sample_input ''10'') = Inr out \<and> po_status out = EVAL_PASS"
  by (simp add: evaluate_def sample_input_def sample_rules_def sample_rule_def enabled_rules_def
      rule_order_key_def rule_enabled_def sample_runtime_def evaluate_rule_def RULE_TYPES_def
      amount_limit_def cumulative_limit_def cfg_def sample_context_def spent_text_def Let_def
      decimal_of_json_def money_amount_def money_value_def split_point_def unsigned_part_def
      all_digits_def is_digit_def digits_value_def digit_value_def aggregate_status_def
      is_requirement_def from_option_def)

text \<open>Ten more after ninety spent is within both limits of the sample policy.\<close>

theorem evaluation_status_sound_complete_witness:
  "rule_permits sample_runtime (sample_context ''10'') (hd sample_rules)
   \<and> rule_permits sample_runtime (sample_context ''10'') (last sample_rules)"
proof -
  obtain out where "evaluate sample_runtime (sample_input ''10'') = Inr out" "po_status out = EVAL_PASS"
    using sample_evaluates by blast
  with evaluation_status_sound_complete [of sample_runtime "sample_input ''10''" out]
  show ?thesis by (simp add: sample_input_def sample_rules_def sample_rule_def rule_enabled_def)
qed

text \<open>
  The evaluation does not depend on the order in which the rules are stored: with distinct
  rule ids that collate apart, permuting them changes nothing of the result, hash included.
\<close>

theorem evaluation_order_independent:
  assumes "mset (ei_rules i) = mset rules'"
    and "distinct (map pr_rule_id (ei_rules i))"
    and "inj_on (rt_collate R) (pr_rule_id ` set (ei_rules i))"
  shows "evaluate R (i\<lparr>ei_rules := rules'\<rparr>) = evaluate R i"
proof -
  have d: "distinct (ei_rules i)" and inj: "inj_on pr_rule_id (set (ei_rules i))"
    using assms(2) by (auto simp: distinct_map)
  have "inj_on (rule_order_key R) (set (ei_rules i))"
    using comp_inj_on [OF inj assms(3)] by (auto simp: inj_on_def rule_order_key_def)
  then have "enabled_rules R rules' = enabled_rules R (ei_rules i)"
    using enabled_rules_perm [OF assms(1) d] by simp
  then show ?thesis by (simp add: evaluate_def evaluation_json_def)
qed

theorem evaluation_order_independent_witness:
  "evaluate sample_runtime ((sample_input ''10'')\<lparr>ei_rules := rev sample_rules\<rparr>)
     = evaluate sample_runtime (sample_input ''10'')"
  by (rule evaluation_order_independent)
     (simp_all add: sample_input_def sample_rules_def sample_rule_def sample_runtime_def inj_on_def)

text \<open>
  adding rules never relaxes a policy: if every rule of a policy is also in a second one
  and both evaluations return, a FAIL stays a FAIL, and a PASS of the larger policy is a PASS
  of the smaller.
\<close>

theorem more_rules_never_relax:
  assumes "evaluate R i = Inr out" and "evaluate R j = Inr out'"
    and "ei_context i = ei_context j" and "set (ei_rules i) \<subseteq> set (ei_rules j)"
  shows "(po_status out = EVAL_FAIL \<longrightarrow> po_status out' = EVAL_FAIL) \<and>
         (po_status out' = EVAL_PASS \<longrightarrow> po_status out = EVAL_PASS)"
proof -
  obtain os where os: "traverse (evaluate_rule R (ei_context i)) (enabled_rules R (ei_rules i)) = Inr os"
    "po_status out = aggregate_status os" using assms(1) by (rule evaluate_InrD)
  obtain os' where os': "traverse (evaluate_rule R (ei_context j)) (enabled_rules R (ei_rules j)) = Inr os'"
    "po_status out' = aggregate_status os'" using assms(2) by (rule evaluate_InrD)
  have sub: "set (enabled_rules R (ei_rules i)) \<subseteq> set (enabled_rules R (ei_rules j))"
    using assms(4) by (auto simp: set_enabled_rules)
  show ?thesis
    using sub traverse_Inr_ex [OF os(1), of "\<lambda>o1. ro_result o1 = RR_VIOLATION"]
      traverse_Inr_ex [OF os'(1), of "\<lambda>o1. ro_result o1 = RR_VIOLATION"]
      traverse_Inr_all [OF os(1), of "\<lambda>o1. ro_result o1 \<in> {RR_PASS, RR_SKIPPED}"]
      traverse_Inr_all [OF os'(1), of "\<lambda>o1. ro_result o1 \<in> {RR_PASS, RR_SKIPPED}"]
    by (simp add: os(2) os'(2) aggregate_status_iff assms(3)) blast
qed

text \<open>The first sample rule alone passes, because both together do.\<close>

theorem more_rules_never_relax_witness:
  "\<exists>out. evaluate sample_runtime ((sample_input ''10'')\<lparr>ei_rules := [hd sample_rules]\<rparr>) = Inr out \<and>
     po_status out = EVAL_PASS"
proof -
  obtain out' where large: "evaluate sample_runtime (sample_input ''10'') = Inr out'" "po_status out' = EVAL_PASS"
    using sample_evaluates by blast
  obtain out where small:
    "evaluate sample_runtime ((sample_input ''10'')\<lparr>ei_rules := [hd sample_rules]\<rparr>) = Inr out"
    by (simp add: evaluate_def sample_input_def sample_rules_def sample_rule_def enabled_rules_def
      rule_order_key_def rule_enabled_def sample_runtime_def evaluate_rule_def RULE_TYPES_def
      amount_limit_def cfg_def sample_context_def Let_def from_option_def
      decimal_of_json_def money_amount_def money_value_def split_point_def unsigned_part_def
      all_digits_def is_digit_def digits_value_def digit_value_def)
  have "po_status out = EVAL_PASS"
    using more_rules_never_relax [OF small large(1)] large(2)
    by (simp add: sample_input_def sample_rules_def)
  with small show ?thesis by blast
qed

end
