(* ===== verification/Policy_Lifecycle.thy ===== *)
theory Policy_Lifecycle
  imports Authority Policy_Engine
begin

text \<open>
  The policy lifecycle service (Backend/src/policy/policy.service.ts) over the tables
  \<open>policies\<close>, \<open>policy_versions\<close> and \<open>policy_rules\<close>: versions move through a fixed state
  machine, their compiled rules never change, and a policy has at most one active version.
\<close>

section \<open>State\<close>

datatype policy_status = PO_DRAFT | PO_ACTIVE | PO_DISABLED

datatype version_status =
  VS_DRAFT | VS_VALIDATING | VS_SIMULATED | VS_APPROVED | VS_ACTIVE | VS_SUPERSEDED | VS_DISABLED

record policy =
  pc_id :: string
  pc_company_id :: string
  pc_agent_id :: "string option"
  pc_name :: string
  pc_description :: string
  pc_current_version :: int
  pc_status :: policy_status
  pc_created_by :: "string option"

record policy_version =
  vn_id :: string
  vn_policy_id :: string
  vn_version :: int
  vn_status :: version_status
  vn_rules :: "compiled_rule list"
  vn_hash :: string
  vn_source_type :: "string option"
  vn_source_reference :: "string option"
  vn_activated_at :: "int option"
  vn_deactivated_at :: "int option"
  vn_approved_by :: "string option"

record policy_rule_row =
  rw_policy_version_id :: string
  rw_rule_id :: string
  rw_rule_type :: string
  rw_priority :: int
  rw_configuration :: compiled_rule
  rw_enabled :: bool

record policy_db =
  pl_policies :: "policy list"
  pl_versions :: "policy_version list"
  pl_rules :: "policy_rule_row list"

record create_draft_input =
  cd_company_id :: string
  cd_agent_id :: "string option"
  cd_name :: "string option"
  cd_description :: "string option"
  cd_rules :: "compiled_rule list"
  cd_source_type :: "string option"
  cd_source_reference :: "string option"
  cd_created_by :: "string option"

type_synonym 'a policy_op = "(policy_db, error_code, 'a) op"

section \<open>Operations\<close>

fun VERSION_TRANSITIONS :: "version_status \<Rightarrow> version_status list" where
  "VERSION_TRANSITIONS VS_DRAFT = [VS_VALIDATING, VS_DISABLED]"
| "VERSION_TRANSITIONS VS_VALIDATING = [VS_SIMULATED, VS_DRAFT, VS_DISABLED]"
| "VERSION_TRANSITIONS VS_SIMULATED = [VS_APPROVED, VS_DRAFT, VS_DISABLED]"
| "VERSION_TRANSITIONS VS_APPROVED = [VS_ACTIVE, VS_DISABLED]"
| "VERSION_TRANSITIONS VS_ACTIVE = [VS_SUPERSEDED, VS_DISABLED]"
| "VERSION_TRANSITIONS VS_SUPERSEDED = []"
| "VERSION_TRANSITIONS VS_DISABLED = []"

definition version_hash :: "(string \<Rightarrow> string) \<Rightarrow> string \<Rightarrow> int \<Rightarrow> compiled_rule list \<Rightarrow> string" where
  "version_hash sha policy_id version rules = sha256_json sha (JObj
     [(''policyId'', JStr policy_id), (''version'', JNum version), (''rules'', JArr (map rule_json rules))])"

definition rule_row :: "string \<Rightarrow> compiled_rule \<Rightarrow> policy_rule_row" where
  "rule_row version_id r = \<lparr> rw_policy_version_id = version_id, rw_rule_id = pr_rule_id r,
     rw_rule_type = pr_type r, rw_priority = nullish (pr_priority r) 100, rw_configuration = r,
     rw_enabled = nullish (pr_enabled r) True \<rparr>"

definition draft_policy :: "string \<Rightarrow> create_draft_input \<Rightarrow> string \<Rightarrow> policy_db \<Rightarrow> policy \<times> policy_db" where
  "draft_policy nid i name db =
     (case find (\<lambda>p. pc_company_id p = cd_company_id i \<and> pc_agent_id p = cd_agent_id i \<and> pc_name p = name)
             (pl_policies db) of
        Some p \<Rightarrow> (p, db)
      | None \<Rightarrow>
         (let p = \<lparr> pc_id = nid, pc_company_id = cd_company_id i, pc_agent_id = cd_agent_id i, pc_name = name,
                    pc_description = nullish (cd_description i) [], pc_current_version = 0,
                    pc_status = PO_DRAFT, pc_created_by = cd_created_by i \<rparr>
          in (p, db\<lparr>pl_policies := pl_policies db @ [p]\<rparr>)))"

definition create_draft ::
    "(string \<Rightarrow> string) \<Rightarrow> authority_db \<Rightarrow> string \<Rightarrow> string \<Rightarrow> create_draft_input \<Rightarrow> (policy \<times> policy_version) policy_op" where
  "create_draft sha A nid_policy nid_version i db =
     (case map_option trim (cd_name i) of
        None \<Rightarrow> (Inl INVALID_INPUT, db)
      | Some name \<Rightarrow>
          if name = [] then (Inl INVALID_INPUT, db)
          else
           (case validate_compiled_rules (cd_rules i) of
              Inl e \<Rightarrow> (Inl e, db)
            | Inr _ \<Rightarrow>
                if get_company (cd_company_id i) A = None then (Inl TENANT_ERROR, db)
                else transaction (\<lambda>db.
                 (let (p, db1) = draft_policy nid_policy i name db;
                      version = latest_version (map vn_version (filter (\<lambda>v. vn_policy_id v = pc_id p) (pl_versions db1))) + 1;
                      v = \<lparr> vn_id = nid_version, vn_policy_id = pc_id p, vn_version = version,
                            vn_status = VS_DRAFT, vn_rules = cd_rules i,
                            vn_hash = version_hash sha (pc_id p) version (cd_rules i),
                            vn_source_type = cd_source_type i, vn_source_reference = cd_source_reference i,
                            vn_activated_at = None, vn_deactivated_at = None, vn_approved_by = None \<rparr>
                  in (Inr (p, v), db1\<lparr>pl_versions := pl_versions db1 @ [v],
                        pl_rules := pl_rules db1 @ map (rule_row nid_version) (cd_rules i)\<rparr>))) db))"

definition get_policy :: "string \<Rightarrow> string \<Rightarrow> policy_db \<Rightarrow> policy option" where
  "get_policy company_id policy_id db =
     find (\<lambda>p. pc_id p = policy_id \<and> pc_company_id p = company_id) (pl_policies db)"

definition policy_in_company :: "string \<Rightarrow> policy_db \<Rightarrow> policy_version \<Rightarrow> bool" where
  "policy_in_company company_id db v \<longleftrightarrow> get_policy company_id (vn_policy_id v) db \<noteq> None"

definition get_version :: "string \<Rightarrow> string \<Rightarrow> policy_db \<Rightarrow> policy_version option" where
  "get_version company_id version_id db =
     find (\<lambda>v. vn_id v = version_id \<and> policy_in_company company_id db v) (pl_versions db)"

definition get_active_version :: "string \<Rightarrow> string \<Rightarrow> policy_db \<Rightarrow> policy_version option" where
  "get_active_version company_id policy_id db =
     find (\<lambda>v. vn_policy_id v = policy_id \<and> vn_status v = VS_ACTIVE \<and> policy_in_company company_id db v) (pl_versions db)"

definition assert_transition :: "version_status \<Rightarrow> version_status \<Rightarrow> error_code + unit" where
  "assert_transition from to = (if \<not> arr_includes (VERSION_TRANSITIONS from) to then Inl CONFLICT else Inr ())"

definition update_version :: "string \<Rightarrow> (policy_version \<Rightarrow> policy_version) \<Rightarrow> policy_db \<Rightarrow> policy_db" where
  "update_version i f db = db\<lparr>pl_versions := update_where (\<lambda>v. vn_id v = i) f (pl_versions db)\<rparr>"

definition transition_version :: "string \<Rightarrow> string \<Rightarrow> version_status \<Rightarrow> policy_version policy_op" where
  "transition_version company_id version_id to db =
     (case get_version company_id version_id db of
        None \<Rightarrow> (Inl NOT_FOUND, db)
      | Some v \<Rightarrow>
         (case assert_transition (vn_status v) to of
            Inl e \<Rightarrow> (Inl e, db)
          | Inr _ \<Rightarrow> (Inr (v\<lparr>vn_status := to\<rparr>), update_version (vn_id v) (\<lambda>v. v\<lparr>vn_status := to\<rparr>) db)))"

definition validate_version :: "string \<Rightarrow> string \<Rightarrow> policy_version policy_op" where
  "validate_version c v = transition_version c v VS_VALIDATING"

definition simulate_version :: "string \<Rightarrow> string \<Rightarrow> policy_version policy_op" where
  "simulate_version c v = transition_version c v VS_SIMULATED"

definition disable_version :: "string \<Rightarrow> string \<Rightarrow> policy_version policy_op" where
  "disable_version c v = transition_version c v VS_DISABLED"

definition approve_version :: "string option \<Rightarrow> string \<Rightarrow> string \<Rightarrow> policy_version policy_op" where
  "approve_version approved_by company_id version_id = transaction (\<lambda>db.
     (case get_version company_id version_id db of
        None \<Rightarrow> (Inl NOT_FOUND, db)
      | Some v \<Rightarrow>
         (case assert_transition (vn_status v) VS_APPROVED of
            Inl e \<Rightarrow> (Inl e, db)
          | Inr _ \<Rightarrow>
             (let f = (\<lambda>v. v\<lparr>vn_status := VS_APPROVED, vn_approved_by := approved_by\<rparr>)
              in (Inr (f v), update_version (vn_id v) f db)))))"

definition activate_version :: "int \<Rightarrow> string \<Rightarrow> string \<Rightarrow> policy_version policy_op" where
  "activate_version now company_id version_id = transaction (\<lambda>db.
     (case get_version company_id version_id db of
        None \<Rightarrow> (Inl NOT_FOUND, db)
      | Some target \<Rightarrow>
         (case assert_transition (vn_status target) VS_ACTIVE of
            Inl e \<Rightarrow> (Inl e, db)
          | Inr _ \<Rightarrow>
             (let superseded = update_where (\<lambda>v. vn_policy_id v = vn_policy_id target \<and> vn_status v = VS_ACTIVE)
                    (\<lambda>v. v\<lparr>vn_status := VS_SUPERSEDED, vn_deactivated_at := Some now\<rparr>) (pl_versions db);
                  f = (\<lambda>v. v\<lparr>vn_status := VS_ACTIVE, vn_activated_at := Some now\<rparr>);
                  activated = update_where (\<lambda>v. vn_id v = vn_id target) f superseded;
                  policies = update_where (\<lambda>p. pc_id p = vn_policy_id target)
                    (\<lambda>p. p\<lparr>pc_status := PO_ACTIVE, pc_current_version := vn_version target\<rparr>) (pl_policies db)
              in (Inr (f target), db\<lparr>pl_versions := activated, pl_policies := policies\<rparr>)))))"

definition assert_mutable_for_edit :: "string \<Rightarrow> string \<Rightarrow> policy_db \<Rightarrow> error_code + unit" where
  "assert_mutable_for_edit company_id version_id db =
     (case get_version company_id version_id db of
        None \<Rightarrow> Inl NOT_FOUND
      | Some v \<Rightarrow> if vn_status v = VS_ACTIVE \<or> vn_status v = VS_SUPERSEDED then Inl POLICY_INVALID else Inr ())"

definition load_rules :: "string \<Rightarrow> string \<Rightarrow> policy_db \<Rightarrow> error_code + compiled_rule list" where
  "load_rules company_id version_id db =
     (case get_version company_id version_id db of None \<Rightarrow> Inl NOT_FOUND | Some v \<Rightarrow> Inr (vn_rules v))"

section \<open>The service as a transition system\<close>

inductive policy_step :: "(string \<Rightarrow> string) \<Rightarrow> policy_db \<Rightarrow> policy_db \<Rightarrow> bool" for sha where
  step_draft: "np \<notin> pc_id ` set (pl_policies db) \<Longrightarrow> nv \<notin> vn_id ` set (pl_versions db) \<Longrightarrow>
     policy_step sha db (snd (create_draft sha A np nv i db))"
| step_validate: "policy_step sha db (snd (validate_version c v db))"
| step_simulate: "policy_step sha db (snd (simulate_version c v db))"
| step_disable: "policy_step sha db (snd (disable_version c v db))"
| step_approve: "policy_step sha db (snd (approve_version by c v db))"
| step_activate: "policy_step sha db (snd (activate_version now c v db))"

inductive_cases policy_stepE: "policy_step sha db db'"

definition empty_policies :: policy_db where
  "empty_policies = \<lparr> pl_policies = [], pl_versions = [], pl_rules = [] \<rparr>"

definition legal_move :: "version_status \<Rightarrow> version_status \<Rightarrow> bool" where
  "legal_move a b \<longleftrightarrow> b \<in> set (VERSION_TRANSITIONS a)"

text \<open>The part of a version that is fixed at its creation.\<close>

definition version_content :: "policy_version \<Rightarrow> string \<times> string \<times> int \<times> compiled_rule list \<times> string" where
  "version_content v = (vn_id v, vn_policy_id v, vn_version v, vn_rules v, vn_hash v)"

definition policy_identity :: "policy \<Rightarrow> string \<times> string" where
  "policy_identity p = (pc_id p, pc_company_id p)"

definition active_versions :: "string \<Rightarrow> policy_db \<Rightarrow> policy_version list" where
  "active_versions p db = filter (\<lambda>v. vn_policy_id v = p \<and> vn_status v = VS_ACTIVE) (pl_versions db)"

definition policies_ok :: "(string \<Rightarrow> string) \<Rightarrow> policy_db \<Rightarrow> bool" where
  "policies_ok sha db \<longleftrightarrow>
     distinct (map pc_id (pl_policies db)) \<and> distinct (map vn_id (pl_versions db))
   \<and> distinct (map (\<lambda>v. (vn_policy_id v, vn_version v)) (pl_versions db))
   \<and> (\<forall>v \<in> set (pl_versions db). vn_policy_id v \<in> pc_id ` set (pl_policies db)
        \<and> vn_hash v = version_hash sha (vn_policy_id v) (vn_version v) (vn_rules v))
   \<and> (\<forall>p \<in> set (pl_policies db).
        active_versions (pc_id p) db = [] \<or>
        (\<exists>v. active_versions (pc_id p) db = [v] \<and> vn_version v = pc_current_version p \<and> pc_status p = PO_ACTIVE))"

section \<open>Lemmas\<close>

lemma policies_okD:
  assumes "policies_ok sha db"
  shows "distinct (map pc_id (pl_policies db))" "distinct (map vn_id (pl_versions db))"
    and "distinct (map (\<lambda>v. (vn_policy_id v, vn_version v)) (pl_versions db))"
    and "v \<in> set (pl_versions db) \<Longrightarrow> vn_policy_id v \<in> pc_id ` set (pl_policies db)"
    and "v \<in> set (pl_versions db) \<Longrightarrow> vn_hash v = version_hash sha (vn_policy_id v) (vn_version v) (vn_rules v)"
    and "p \<in> set (pl_policies db) \<Longrightarrow> active_versions (pc_id p) db = [] \<or>
      (\<exists>v. active_versions (pc_id p) db = [v] \<and> vn_version v = pc_current_version p \<and> pc_status p = PO_ACTIVE)"
  using assms by (auto simp: policies_ok_def)

lemma get_version_D:
  "get_version c i db = Some v \<Longrightarrow> v \<in> set (pl_versions db) \<and> vn_id v = i \<and> policy_in_company c db v"
  by (auto simp: get_version_def dest: find_SomeD)

text \<open>
  What every call but the creation of a draft does: it changes the status (and time stamps) of
  versions and policies along legal moves, and nothing else.
\<close>

definition restatus :: "policy_db \<Rightarrow> policy_db \<Rightarrow> bool" where
  "restatus db db' \<longleftrightarrow>
     list_all2 (\<lambda>v v'. version_content v' = version_content v
        \<and> (vn_status v' = vn_status v \<or> legal_move (vn_status v) (vn_status v'))) (pl_versions db) (pl_versions db')
   \<and> map policy_identity (pl_policies db') = map policy_identity (pl_policies db)"

lemma restatus_refl: "restatus db db"
  by (simp add: restatus_def list.rel_refl)

lemma list_all2_update_where:
  "(\<And>x. x \<in> set xs \<Longrightarrow> R x (if P x then f x else x)) \<Longrightarrow> list_all2 R xs (update_where P f xs)"
  by (induction xs) auto

lemma restatus_update_version:
  assumes ok: "policies_ok sha db" and v: "v \<in> set (pl_versions db)" "legal_move (vn_status v) to"
    and f: "\<And>x. version_content (f x) = version_content x" "\<And>x. vn_status (f x) = to"
  shows "restatus db (update_version (vn_id v) f db)"
proof -
  have "legal_move (vn_status x) to" if "x \<in> set (pl_versions db)" "vn_id x = vn_id v" for x
    using key_unique [OF policies_okD(2) [OF ok], of x v] v that by simp
  then show ?thesis
    using f by (auto simp: restatus_def update_version_def intro!: list_all2_update_where)
qed

lemma assert_transition_Inr [simp]: "assert_transition a b = Inr u \<longleftrightarrow> legal_move a b"
  by (simp add: assert_transition_def legal_move_def)

lemma transition_version_cases:
  obtains (refused) e where "transition_version c i to db = (Inl e, db)"
  | (moved) v where "v \<in> set (pl_versions db)" "legal_move (vn_status v) to"
      "transition_version c i to db = (Inr (v\<lparr>vn_status := to\<rparr>), update_version (vn_id v) (\<lambda>v. v\<lparr>vn_status := to\<rparr>) db)"
proof (cases "get_version c i db")
  case None
  then show ?thesis by (intro refused) (simp add: transition_version_def)
next
  case (Some v)
  then show ?thesis
    using get_version_D [OF Some] moved [of v]
    by (cases "assert_transition (vn_status v) to") (auto simp: transition_version_def intro: refused)
qed

lemma restatus_transition:
  assumes "policies_ok sha db"
  shows "restatus db (snd (transition_version c i to db))"
proof (cases rule: transition_version_cases [of c i to db])
  case (moved v)
  then show ?thesis
    using restatus_update_version [OF assms moved(1,2), of "\<lambda>v. v\<lparr>vn_status := to\<rparr>"]
    by (simp add: version_content_def)
qed (simp add: restatus_refl)

lemma approve_version_cases:
  obtains (refused) e where "approve_version who c i db = (Inl e, db)"
  | (approved) v where "v \<in> set (pl_versions db)" "legal_move (vn_status v) VS_APPROVED"
      "snd (approve_version who c i db)
        = update_version (vn_id v) (\<lambda>v. v\<lparr>vn_status := VS_APPROVED, vn_approved_by := who\<rparr>) db"
proof (cases "get_version c i db")
  case None
  then show ?thesis by (intro refused) (simp add: approve_version_def transaction_def)
next
  case (Some v)
  then show ?thesis
    using get_version_D [OF Some] approved [of v]
    by (cases "assert_transition (vn_status v) VS_APPROVED")
      (auto simp: approve_version_def transaction_def Let_def intro: refused)
qed

lemma restatus_approve:
  assumes "policies_ok sha db"
  shows "restatus db (snd (approve_version who c i db))"
proof (cases rule: approve_version_cases [of who c i db])
  case (approved v)
  then show ?thesis
    using restatus_update_version [OF assms approved(1,2),
        of "\<lambda>v. v\<lparr>vn_status := VS_APPROVED, vn_approved_by := who\<rparr>"]
    by (simp add: version_content_def)
qed (simp add: restatus_refl)

definition promote :: "int \<Rightarrow> policy_version \<Rightarrow> policy_version \<Rightarrow> policy_version" where
  "promote now target v =
     (let z = (if vn_policy_id v = vn_policy_id target \<and> vn_status v = VS_ACTIVE
                 then v\<lparr>vn_status := VS_SUPERSEDED, vn_deactivated_at := Some now\<rparr> else v)
      in if vn_id z = vn_id target then z\<lparr>vn_status := VS_ACTIVE, vn_activated_at := Some now\<rparr> else z)"

lemma activate_version_cases:
  obtains (refused) e where "activate_version now c i db = (Inl e, db)"
  | (activated) v where "v \<in> set (pl_versions db)" "vn_status v = VS_APPROVED"
      "pl_versions (snd (activate_version now c i db)) = map (promote now v) (pl_versions db)"
      "pl_policies (snd (activate_version now c i db)) = update_where (\<lambda>p. pc_id p = vn_policy_id v)
         (\<lambda>p. p\<lparr>pc_status := PO_ACTIVE, pc_current_version := vn_version v\<rparr>) (pl_policies db)"
proof (cases "get_version c i db")
  case None
  then show ?thesis by (intro refused) (simp add: activate_version_def transaction_def)
next
  case (Some v)
  note v = get_version_D [OF Some]
  show ?thesis
  proof (cases "assert_transition (vn_status v) VS_ACTIVE")
    case Inl
    with Some show ?thesis by (intro refused) (simp add: activate_version_def transaction_def)
  next
    case Inr
    then have "vn_status v = VS_APPROVED" by (cases "vn_status v") (simp_all add: legal_move_def)
    moreover have "update_where (\<lambda>x. vn_id x = vn_id v) (\<lambda>x. x\<lparr>vn_status := VS_ACTIVE, vn_activated_at := Some now\<rparr>)
        (update_where (\<lambda>x. vn_policy_id x = vn_policy_id v \<and> vn_status x = VS_ACTIVE)
          (\<lambda>x. x\<lparr>vn_status := VS_SUPERSEDED, vn_deactivated_at := Some now\<rparr>) (pl_versions db))
      = map (promote now v) (pl_versions db)"
      by (simp add: update_where_def promote_def Let_def)
    ultimately show ?thesis using Some v
      by (intro activated [of v]) (simp_all add: activate_version_def transaction_def assert_transition_def Let_def)
  qed
qed

lemma promote_content [simp]: "version_content (promote now t v) = version_content v"
  "vn_id (promote now t v) = vn_id v" "vn_policy_id (promote now t v) = vn_policy_id v"
  "vn_version (promote now t v) = vn_version v" "vn_hash (promote now t v) = vn_hash v" "vn_rules (promote now t v) = vn_rules v"
  by (simp_all add: promote_def version_content_def Let_def)

lemma promote_status:
  assumes ok: "policies_ok sha db" and t: "t \<in> set (pl_versions db)" and v: "v \<in> set (pl_versions db)"
  shows "vn_status (promote now t v) =
    (if v = t then VS_ACTIVE else if vn_policy_id v = vn_policy_id t \<and> vn_status v = VS_ACTIVE
       then VS_SUPERSEDED else vn_status v)"
  using key_unique [OF policies_okD(2) [OF ok] v t] by (auto simp: promote_def Let_def)

lemma restatus_activate:
  assumes ok: "policies_ok sha db"
  shows "restatus db (snd (activate_version now c i db))"
proof (cases rule: activate_version_cases [of now c i db])
  case (activated t)
  have "legal_move (vn_status t) VS_ACTIVE" using activated(2) by (simp add: legal_move_def)
  moreover have "map policy_identity (pl_policies (snd (activate_version now c i db))) = map policy_identity (pl_policies db)"
    by (simp add: activated(4) map_update_where_same policy_identity_def)
  ultimately show ?thesis
    using promote_status [OF ok activated(1)]
    by (auto simp: restatus_def activated(3) list_all2_map2 legal_move_def split: if_splits intro!: list.rel_refl_strong)
qed (simp add: restatus_refl)

lemma active_after_activate:
  assumes ok: "policies_ok sha db" and t: "t \<in> set (pl_versions db)"
    and vs: "pl_versions db' = map (promote now t) (pl_versions db)"
  shows "active_versions p db' = (if p = vn_policy_id t then [promote now t t] else active_versions p db)"
proof -
  have "active_versions p db' = map (promote now t)
      (filter (\<lambda>v. vn_policy_id v = p \<and> vn_status (promote now t v) = VS_ACTIVE) (pl_versions db))"
    by (simp add: active_versions_def vs filter_map comp_def)
  also have "filter (\<lambda>v. vn_policy_id v = p \<and> vn_status (promote now t v) = VS_ACTIVE) (pl_versions db)
      = (if p = vn_policy_id t then filter (\<lambda>v. vn_id v = vn_id t) (pl_versions db) else active_versions p db)"
    using promote_status [OF ok t] key_unique [OF policies_okD(2) [OF ok] _ t]
    by (auto simp: active_versions_def split: if_splits intro!: filter_cong)
  also have "map (promote now t) \<dots> = (if p = vn_policy_id t then [promote now t t] else active_versions p db)"
  proof -
    have "promote now t v = v" if "v \<in> set (active_versions p db)" "p \<noteq> vn_policy_id t" for v
      using that key_unique [OF policies_okD(2) [OF ok] _ t, of v]
      by (auto simp: active_versions_def promote_def Let_def)
    then show ?thesis
      using filter_key_single [OF policies_okD(2) [OF ok] t] by (simp add: map_idI)
  qed
  finally show ?thesis .
qed

lemma policies_ok_restatus:
  assumes ok: "policies_ok sha db" and r: "restatus db db'"
    and act: "\<And>p. p \<in> set (pl_policies db') \<Longrightarrow> active_versions (pc_id p) db' = [] \<or>
      (\<exists>v. active_versions (pc_id p) db' = [v] \<and> vn_version v = pc_current_version p \<and> pc_status p = PO_ACTIVE)"
  shows "policies_ok sha db'"
proof -
  have content: "map version_content (pl_versions db') = map version_content (pl_versions db)"
    using r by (auto simp: restatus_def list_eq_iff_nth_eq list_all2_conv_all_nth)
  have keys: "map vn_id vs = map fst (map version_content vs)"
    "map (\<lambda>v. (vn_policy_id v, vn_version v)) vs = map (\<lambda>(_, p, n, _). (p, n)) (map version_content vs)" for vs
    by (simp_all add: version_content_def)
  have ids: "map pc_id ps = map fst (map policy_identity ps)" for ps
    by (simp add: policy_identity_def)
  have old: "\<exists>u \<in> set (pl_versions db). version_content u = version_content v" if "v \<in> set (pl_versions db')" for v
  proof -
    have "version_content v \<in> version_content ` set (pl_versions db)"
      using that arg_cong [OF content, of set] by (auto simp only: set_map)
    then show ?thesis by (auto simp: image_iff)
  qed
  then have rows: "vn_policy_id v \<in> pc_id ` set (pl_policies db) \<and> vn_hash v = version_hash sha (vn_policy_id v) (vn_version v) (vn_rules v)"
    if v: "v \<in> set (pl_versions db')" for v
  proof -
    obtain u where "u \<in> set (pl_versions db)" "version_content u = version_content v"
      using old [OF v] by blast
    then show ?thesis
      using policies_okD(4) [OF ok, of u] policies_okD(5) [OF ok, of u] by (auto simp: version_content_def)
  qed
  have pol: "map pc_id (pl_policies db') = map pc_id (pl_policies db)"
    using r by (simp only: ids) (simp add: restatus_def)
  then have "pc_id ` set (pl_policies db') = pc_id ` set (pl_policies db)" by (metis set_map)
  with rows act pol show ?thesis
    using policies_okD(1-3) [OF ok] unfolding policies_ok_def keys content by simp
qed

lemma filter_update_where:
  "(\<And>x. \<not> P (f x)) \<Longrightarrow> filter P (update_where Q f xs) = filter (\<lambda>x. P x \<and> \<not> Q x) xs"
  by (induction xs) auto

text \<open>Moving a version away from ACTIVE, or between inactive states, empties or keeps the active set.\<close>

lemma policies_ok_move:
  assumes ok: "policies_ok sha db" and v: "v \<in> set (pl_versions db)" "legal_move (vn_status v) to" "to \<noteq> VS_ACTIVE"
    and f: "\<And>x. version_content (f x) = version_content x" "\<And>x. vn_status (f x) = to"
  shows "policies_ok sha (update_version (vn_id v) f db)"
proof (rule policies_ok_restatus [OF ok restatus_update_version [OF ok v(1,2) f]])
  fix p
  assume "p \<in> set (pl_policies (update_version (vn_id v) f db))"
  then have p: "p \<in> set (pl_policies db)" by (simp add: update_version_def)
  have "active_versions (pc_id p) (update_version (vn_id v) f db)
      = filter (\<lambda>x. vn_id x \<noteq> vn_id v) (active_versions (pc_id p) db)"
    using f(2) v(3) by (simp add: active_versions_def update_version_def filter_update_where)
  then show "active_versions (pc_id p) (update_version (vn_id v) f db) = [] \<or>
      (\<exists>u. active_versions (pc_id p) (update_version (vn_id v) f db) = [u]
        \<and> vn_version u = pc_current_version p \<and> pc_status p = PO_ACTIVE)"
    using policies_okD(6) [OF ok p] by (auto split: if_splits)
qed

lemma policies_ok_transition:
  assumes "policies_ok sha db" and "to \<noteq> VS_ACTIVE"
  shows "policies_ok sha (snd (transition_version c i to db))"
proof (cases rule: transition_version_cases [of c i to db])
  case (moved v)
  then show ?thesis
    using policies_ok_move [OF assms(1) moved(1,2) assms(2), of "\<lambda>v. v\<lparr>vn_status := to\<rparr>"]
    by (simp add: version_content_def)
qed (use assms in simp)

lemma policies_ok_approve:
  assumes "policies_ok sha db"
  shows "policies_ok sha (snd (approve_version who c i db))"
proof (cases rule: approve_version_cases [of who c i db])
  case (approved v)
  then show ?thesis
    using policies_ok_move [OF assms(1) approved(1,2), of "\<lambda>v. v\<lparr>vn_status := VS_APPROVED, vn_approved_by := who\<rparr>"]
    by (simp add: version_content_def)
qed (use assms in simp)

lemma policies_ok_activate:
  assumes ok: "policies_ok sha db"
  shows "policies_ok sha (snd (activate_version now c i db))"
proof (cases rule: activate_version_cases [of now c i db])
  case (activated t)
  show ?thesis
  proof (rule policies_ok_restatus [OF ok restatus_activate [OF ok]])
    fix p
    assume "p \<in> set (pl_policies (snd (activate_version now c i db)))"
    then obtain q where "q \<in> set (pl_policies db)" and
      p: "p = (if pc_id q = vn_policy_id t then q\<lparr>pc_status := PO_ACTIVE, pc_current_version := vn_version t\<rparr> else q)"
      by (auto simp: activated(4) in_update_where)
    then show "active_versions (pc_id p) (snd (activate_version now c i db)) = [] \<or>
      (\<exists>v. active_versions (pc_id p) (snd (activate_version now c i db)) = [v]
         \<and> vn_version v = pc_current_version p \<and> pc_status p = PO_ACTIVE)"
      using policies_okD(6) [OF ok, of q] by (auto simp: active_after_activate [OF ok activated(1,3)])
  qed
qed (use ok in simp)

text \<open>A draft appends one DRAFT version, with a number not used before in its policy.\<close>

lemma draft_policy_cases:
  assumes "draft_policy np i name db = (p, db1)"
  obtains (found) "db1 = db" "p \<in> set (pl_policies db)"
  | (created) "db1 = db\<lparr>pl_policies := pl_policies db @ [p]\<rparr>" "pc_id p = np" "pc_company_id p = cd_company_id i"
  using assms by (auto simp: draft_policy_def Let_def split: option.splits dest: find_SomeD)

lemma create_draft_cases:
  obtains (refused) e where "create_draft sha A np nv i db = (Inl e, db)"
  | (drafted) p v db1 name where "draft_policy np i name db = (p, db1)"
      "create_draft sha A np nv i db = (Inr (p, v), db1\<lparr>pl_versions := pl_versions db1 @ [v],
         pl_rules := pl_rules db1 @ map (rule_row nv) (cd_rules i)\<rparr>)"
      "vn_id v = nv" "vn_policy_id v = pc_id p" "vn_status v = VS_DRAFT"
      "vn_version v \<notin> vn_version ` {x \<in> set (pl_versions db1). vn_policy_id x = pc_id p}"
      "vn_hash v = version_hash sha (vn_policy_id v) (vn_version v) (vn_rules v)"
proof (cases "create_draft sha A np nv i db")
  case (Pair r db')
  show ?thesis
  proof (cases r)
    case (Inl e)
    then have "db' = db"
      using Pair by (auto simp: create_draft_def transaction_def Let_def split: option.splits if_splits sum.splits prod.splits)
    with Pair Inl show ?thesis by (simp add: refused)
  next
    case (Inr pv)
    obtain name p db1 where d: "draft_policy np i name db = (p, db1)" and
      run: "let version = latest_version (map vn_version (filter (\<lambda>v. vn_policy_id v = pc_id p) (pl_versions db1))) + 1;
                v = \<lparr> vn_id = nv, vn_policy_id = pc_id p, vn_version = version, vn_status = VS_DRAFT,
                      vn_rules = cd_rules i, vn_hash = version_hash sha (pc_id p) version (cd_rules i),
                      vn_source_type = cd_source_type i, vn_source_reference = cd_source_reference i,
                      vn_activated_at = None, vn_deactivated_at = None, vn_approved_by = None \<rparr>
            in pv = (p, v) \<and> db' = db1\<lparr>pl_versions := pl_versions db1 @ [v],
                 pl_rules := pl_rules db1 @ map (rule_row nv) (cd_rules i)\<rparr>"
      using Pair Inr
      by (auto simp: create_draft_def transaction_def Let_def split: option.splits if_splits sum.splits prod.splits)
    show ?thesis
    proof (rule drafted [OF d, of "snd pv"])
      show "create_draft sha A np nv i db = (Inr (p, snd pv), db1\<lparr>pl_versions := pl_versions db1 @ [snd pv],
         pl_rules := pl_rules db1 @ map (rule_row nv) (cd_rules i)\<rparr>)"
        using Pair Inr run by (simp add: Let_def)
      show "vn_version (snd pv) \<notin> vn_version ` {x \<in> set (pl_versions db1). vn_policy_id x = pc_id p}"
        using run latest_version_fresh [of _ "map vn_version (filter (\<lambda>v. vn_policy_id v = pc_id p) (pl_versions db1))"]
        by (force simp: Let_def)
    qed (use run in \<open>simp_all add: Let_def\<close>)
  qed
qed

lemma policies_ok_draft:
  assumes ok: "policies_ok sha db" and fresh: "np \<notin> pc_id ` set (pl_policies db)" "nv \<notin> vn_id ` set (pl_versions db)"
  shows "policies_ok sha (snd (create_draft sha A np nv i db))"
proof (cases rule: create_draft_cases [of sha A np nv i db])
  case (drafted p v db1 name)
  have vs: "pl_versions db1 = pl_versions db" and pol: "p \<in> set (pl_policies db1)" "distinct (map pc_id (pl_policies db1))"
    "pc_id ` set (pl_policies db) \<subseteq> pc_id ` set (pl_policies db1)"
    and new: "q \<in> set (pl_policies db1) \<Longrightarrow> q \<in> set (pl_policies db) \<or> q = p \<and> pc_id p = np" for q
    using drafted(1) policies_okD(1) [OF ok] fresh(1)
    by (cases rule: draft_policy_cases; auto)+
  have none: "active_versions np db = []"
    using policies_okD(4) [OF ok] fresh(1) by (auto simp: active_versions_def filter_empty_conv)
  have act: "active_versions q (snd (create_draft sha A np nv i db)) = active_versions q db" for q
    by (simp add: drafted(2,5) active_versions_def vs)
  have "vn_policy_id x \<in> pc_id ` set (pl_policies db1)" if "x \<in> set (pl_versions db)" for x
    using policies_okD(4) [OF ok that] pol(3) by blast
  moreover have "(pc_id p, vn_version v) \<notin> (\<lambda>v. (vn_policy_id v, vn_version v)) ` set (pl_versions db)"
    using drafted(6) by (auto simp: vs)
  moreover have "active_versions (pc_id q) db = [] \<or> (\<exists>v. active_versions (pc_id q) db = [v]
      \<and> vn_version v = pc_current_version q \<and> pc_status q = PO_ACTIVE)" if "q \<in> set (pl_policies db1)" for q
    using new [OF that] policies_okD(6) [OF ok, of q] none by auto
  ultimately show ?thesis
    using fresh(2) pol policies_okD(2,3,5) [OF ok] drafted(3,4,7) unfolding policies_ok_def act
    by (auto simp: drafted(2) vs)
qed (use ok in simp)

lemma policies_ok_step:
  assumes "policies_ok sha db" and "policy_step sha db db'"
  shows "policies_ok sha db'"
  using assms(2)
  by (cases rule: policy_step.cases)
    (use assms(1) policies_ok_draft policies_ok_transition policies_ok_approve policies_ok_activate in
      \<open>simp_all add: validate_version_def simulate_version_def disable_version_def\<close>)

interpretation policies: invariant_system "\<lambda>db. db = empty_policies" "policy_step sha" "policies_ok sha" for sha
  by (unfold_locales, simp add: policies_ok_def empty_policies_def) (rule policies_ok_step)

text \<open>How one version's row evolves: content and company fixed, status along legal moves.\<close>

definition evolves :: "policy_db \<Rightarrow> policy_db \<Rightarrow> bool" where
  "evolves db db' \<longleftrightarrow>
     (\<forall>v \<in> set (pl_versions db). \<exists>v' \<in> set (pl_versions db'). version_content v' = version_content v
        \<and> legal_move\<^sup>*\<^sup>* (vn_status v) (vn_status v'))
   \<and> policy_identity ` set (pl_policies db) \<subseteq> policy_identity ` set (pl_policies db')"

lemma evolves_refl: "evolves db db"
  by (auto simp: evolves_def)

lemma evolves_version:
  assumes "evolves db db'" and "v \<in> set (pl_versions db)"
  obtains v' where "v' \<in> set (pl_versions db')" "version_content v' = version_content v"
    "legal_move\<^sup>*\<^sup>* (vn_status v) (vn_status v')"
  using assms by (auto simp: evolves_def)

lemma evolves_trans:
  assumes "evolves a b" and "evolves b c"
  shows "evolves a c"
  unfolding evolves_def
proof (intro conjI ballI)
  fix v
  assume "v \<in> set (pl_versions a)"
  then obtain u where u: "u \<in> set (pl_versions b)" "version_content u = version_content v"
      "legal_move\<^sup>*\<^sup>* (vn_status v) (vn_status u)"
    using evolves_version [OF assms(1)] by blast
  then obtain w where w: "w \<in> set (pl_versions c)" "version_content w = version_content u"
      "legal_move\<^sup>*\<^sup>* (vn_status u) (vn_status w)"
    using evolves_version [OF assms(2)] by blast
  then show "\<exists>w \<in> set (pl_versions c). version_content w = version_content v
      \<and> legal_move\<^sup>*\<^sup>* (vn_status v) (vn_status w)"
    using u by (intro bexI [of _ w]) auto
next
  show "policy_identity ` set (pl_policies a) \<subseteq> policy_identity ` set (pl_policies c)"
    using assms(1) [unfolded evolves_def, THEN conjunct2] assms(2) [unfolded evolves_def, THEN conjunct2]
    by (rule subset_trans)
qed

lemma restatus_evolves:
  assumes "restatus db db'"
  shows "evolves db db'"
proof -
  have "\<exists>v' \<in> set (pl_versions db'). version_content v' = version_content v \<and> legal_move\<^sup>*\<^sup>* (vn_status v) (vn_status v')"
    if v: "v \<in> set (pl_versions db)" for v
  proof -
    obtain n where n: "n < length (pl_versions db)" "v = pl_versions db ! n"
      using v by (auto simp: in_set_conv_nth)
    then have "pl_versions db' ! n \<in> set (pl_versions db')"
      "version_content (pl_versions db' ! n) = version_content v"
      "vn_status (pl_versions db' ! n) = vn_status v \<or> legal_move (vn_status v) (vn_status (pl_versions db' ! n))"
      using assms by (auto simp: restatus_def list_all2_conv_all_nth)
    then show ?thesis by (intro bexI [of _ "pl_versions db' ! n"]) auto
  qed
  moreover have "policy_identity ` set (pl_policies db') = policy_identity ` set (pl_policies db)"
    using assms unfolding restatus_def by (metis set_map)
  ultimately show ?thesis by (simp add: evolves_def)
qed

lemma step_evolves:
  assumes ok: "policies_ok sha db" and "policy_step sha db db'"
  shows "evolves db db'"
  using assms(2)
proof (cases rule: policy_step.cases)
  case (step_draft np nv A i)
  show ?thesis
    unfolding step_draft(1)
  proof (cases rule: create_draft_cases [of sha A np nv i db])
    case (drafted p v db1 name)
    from drafted(1) have "pl_versions db1 = pl_versions db" "set (pl_policies db) \<subseteq> set (pl_policies db1)"
      by (cases rule: draft_policy_cases; auto)+
    then show "evolves db (snd (create_draft sha A np nv i db))"
      by (auto simp: drafted(2) evolves_def)
  qed (simp add: evolves_refl)
qed (use ok restatus_transition restatus_approve restatus_activate in
    \<open>auto simp: validate_version_def simulate_version_def disable_version_def intro!: restatus_evolves\<close>)

lemma steps_evolve:
  assumes "(policy_step sha)\<^sup>*\<^sup>* db db'" and "policies_ok sha db"
  shows "evolves db db' \<and> policies_ok sha db'"
  using assms
proof (induction rule: rtranclp_induct)
  case base
  then show ?case by (simp add: evolves_refl)
next
  case (step y z)
  then show ?case using step_evolves policies_ok_step evolves_trans by blast
qed

section \<open>Properties\<close>

text \<open>
  C29: in every reachable state a policy has at most one active version, and then the policy is
  ACTIVE and its current version number is that version's; version numbers are not reused
  within a policy, and each version's hash is that of its policy, number and rules.
\<close>

theorem one_active_policy_version:
  assumes "reachable (\<lambda>db. db = empty_policies) (policy_step sha) db" and "p \<in> set (pl_policies db)"
  shows "(case filter (\<lambda>v. vn_policy_id v = pc_id p \<and> vn_status v = VS_ACTIVE) (pl_versions db) of
        [] \<Rightarrow> True
      | [v] \<Rightarrow> pc_status p = PO_ACTIVE \<and> pc_current_version p = vn_version v
          \<and> vn_hash v = version_hash sha (pc_id p) (vn_version v) (vn_rules v)
      | _ \<Rightarrow> False)
    \<and> distinct (map vn_version (filter (\<lambda>v. vn_policy_id v = pc_id p) (pl_versions db)))"
proof -
  have ok: "policies_ok sha db" using policies.reachable_inv [OF assms(1)] .
  have hash: "vn_hash v = version_hash sha (pc_id p) (vn_version v) (vn_rules v)"
    if "active_versions (pc_id p) db = [v]" for v
  proof -
    have "v \<in> set (active_versions (pc_id p) db)" using that by simp
    then show ?thesis using policies_okD(5) [OF ok, of v] by (auto simp: active_versions_def)
  qed
  have "distinct (map vn_version (filter (\<lambda>v. vn_policy_id v = pc_id p) (pl_versions db)))"
    using policies_okD(3) [OF ok] by (auto simp: distinct_map inj_on_def)
  moreover have "case active_versions (pc_id p) db of [] \<Rightarrow> True
      | [v] \<Rightarrow> pc_status p = PO_ACTIVE \<and> pc_current_version p = vn_version v
          \<and> vn_hash v = version_hash sha (pc_id p) (vn_version v) (vn_rules v)
      | _ \<Rightarrow> False"
    using policies_okD(6) [OF ok assms(2)] hash by auto
  ultimately show ?thesis by (simp add: active_versions_def)
qed

text \<open>
  a stored version is immutable: whatever operations follow, the version is still there with
  its number, its hash and its rules (so a later load returns the same rules), and its status
  has moved only along the transition table; in particular SUPERSEDED and DISABLED are final.
\<close>

theorem policy_version_immutable:
  assumes "reachable (\<lambda>db. db = empty_policies) (policy_step sha) db" and "(policy_step sha)\<^sup>*\<^sup>* db db'"
    and "get_version company_id i db = Some v"
  shows "\<exists>v'. get_version company_id i db' = Some v' \<and> vn_version v' = vn_version v \<and> vn_hash v' = vn_hash v
     \<and> load_rules company_id i db' = load_rules company_id i db
     \<and> (\<lambda>a b. b \<in> set (VERSION_TRANSITIONS a))\<^sup>*\<^sup>* (vn_status v) (vn_status v')"
proof -
  have ok: "policies_ok sha db" using policies.reachable_inv [OF assms(1)] .
  have ev: "evolves db db'" "policies_ok sha db'" using steps_evolve [OF assms(2) ok] by auto
  note v = get_version_D [OF assms(3)]
  obtain v' where v': "v' \<in> set (pl_versions db')" "version_content v' = version_content v"
    "legal_move\<^sup>*\<^sup>* (vn_status v) (vn_status v')"
    using ev(1) v by (auto simp: evolves_def)
  obtain p where "p \<in> set (pl_policies db)" "policy_identity p = (vn_policy_id v, company_id)"
    using v by (auto simp: policy_in_company_def get_policy_def policy_identity_def dest: find_SomeD)
  then have "(vn_policy_id v, company_id) \<in> policy_identity ` set (pl_policies db')"
    using ev(1) unfolding evolves_def by (metis image_eqI subsetD)
  then have here: "policy_in_company company_id db' v'"
    using v'(2) by (auto simp: policy_in_company_def get_policy_def policy_identity_def version_content_def find_None_iff)
  have "get_version company_id i db' = Some v'"
  proof (cases "get_version company_id i db'")
    case None
    then show ?thesis using v' v here by (auto simp: get_version_def find_None_iff version_content_def)
  next
    case (Some w)
    then show ?thesis
      using get_version_D [OF Some] v v' key_unique [OF policies_okD(2) [OF ev(2)], of w v']
      by (simp add: version_content_def)
  qed
  moreover have "legal_move = (\<lambda>a b. b \<in> set (VERSION_TRANSITIONS a))"
    by (simp add: fun_eq_iff legal_move_def)
  ultimately show ?thesis
    using v' assms(3) by (simp add: load_rules_def version_content_def)
qed

definition sample_draft :: create_draft_input where
  "sample_draft = \<lparr> cd_company_id = ''co'', cd_agent_id = None, cd_name = Some ''limits'', cd_description = None,
     cd_rules = sample_rules, cd_source_type = None, cd_source_reference = None, cd_created_by = None \<rparr>"

definition policies1 :: policy_db where
  "policies1 = snd (create_draft (\<lambda>s. s) authority1 ''p'' ''v1'' sample_draft empty_policies)"

definition policies_active :: policy_db where
  "policies_active = snd (activate_version 5 ''co'' ''v1'' (snd (approve_version None ''co'' ''v1''
     (snd (simulate_version ''co'' ''v1'' (snd (validate_version ''co'' ''v1'' policies1)))))))"

definition version_row :: "version_status \<Rightarrow> int option \<Rightarrow> policy_version" where
  "version_row st since = \<lparr> vn_id = ''v1'', vn_policy_id = ''p'', vn_version = 1, vn_status = st, vn_rules = sample_rules,
     vn_hash = version_hash (\<lambda>s. s) ''p'' 1 sample_rules, vn_source_type = None, vn_source_reference = None,
     vn_activated_at = since, vn_deactivated_at = None, vn_approved_by = None \<rparr>"

definition policy_row :: "policy_status \<Rightarrow> int \<Rightarrow> policy" where
  "policy_row st n = \<lparr> pc_id = ''p'', pc_company_id = ''co'', pc_agent_id = None, pc_name = ''limits'',
     pc_description = [], pc_current_version = n, pc_status = st, pc_created_by = None \<rparr>"

lemma authority1_company: "get_company ''co'' authority1 \<noteq> None"
  by (simp add: authority1_def authority_eval)

lemma sample_rules_valid: "validate_compiled_rules sample_rules = Inr ()"
  by (simp add: validate_compiled_rules_def sample_rules_def sample_rule_def RULE_TYPES_def)

lemma policies1_value: "pl_policies policies1 = [policy_row PO_DRAFT 0]" "pl_versions policies1 = [version_row VS_DRAFT None]"
  using authority1_company
  by (simp_all add: policies1_def create_draft_def sample_draft_def trim_def is_space_def transaction_def Let_def
      empty_policies_def draft_policy_def latest_version_def version_row_def policy_row_def sample_rules_valid)

lemmas lifecycle_eval = validate_version_def simulate_version_def approve_version_def activate_version_def
  transition_version_def get_version_def policy_in_company_def get_policy_def assert_transition_def
  update_version_def transaction_def Let_def version_row_def policy_row_def

lemma policies_active_value:
  "pl_policies policies_active = [policy_row PO_ACTIVE 1]" "pl_versions policies_active = [version_row VS_ACTIVE (Some 5)]"
  by (simp_all add: policies_active_def lifecycle_eval policies1_value)

lemma policies1_reached: "reachable (\<lambda>db. db = empty_policies) (policy_step (\<lambda>s. s)) policies1"
proof -
  have "reachable (\<lambda>db. db = empty_policies) (policy_step (\<lambda>s. s)) empty_policies" by (rule reachable_init) simp
  then show ?thesis unfolding policies1_def
    by (rule reachable_step) (rule step_draft, simp_all add: empty_policies_def)
qed

lemma policies_active_steps: "(policy_step (\<lambda>s. s))\<^sup>*\<^sup>* policies1 policies_active"
proof -
  have "(policy_step (\<lambda>s. s))\<^sup>*\<^sup>* policies1 (snd (validate_version ''co'' ''v1'' policies1))"
    by (rule r_into_rtranclp) (rule step_validate)
  then have "(policy_step (\<lambda>s. s))\<^sup>*\<^sup>* policies1 (snd (simulate_version ''co'' ''v1'' (snd (validate_version ''co'' ''v1'' policies1))))"
    by (rule rtranclp.rtrancl_into_rtrancl) (rule step_simulate)
  then have "(policy_step (\<lambda>s. s))\<^sup>*\<^sup>* policies1 (snd (approve_version None ''co'' ''v1''
      (snd (simulate_version ''co'' ''v1'' (snd (validate_version ''co'' ''v1'' policies1))))))"
    by (rule rtranclp.rtrancl_into_rtrancl) (rule step_approve)
  then show ?thesis unfolding policies_active_def
    by (rule rtranclp.rtrancl_into_rtrancl) (rule step_activate)
qed

text \<open>The sample policy after its first version went through the whole lifecycle.\<close>

theorem one_active_policy_version_witness:
  "pc_current_version (policy_row PO_ACTIVE 1) = vn_version (version_row VS_ACTIVE (Some 5))"
proof -
  have "policy_row PO_ACTIVE 1 \<in> set (pl_policies policies_active)" by (simp add: policies_active_value)
  from one_active_policy_version [OF reachable_rtranclp [OF policies_active_steps policies1_reached] this]
  show ?thesis by (simp add: policies_active_value version_row_def policy_row_def)
qed

theorem policy_version_immutable_witness:
  "load_rules ''co'' ''v1'' policies_active = Inr sample_rules"
proof -
  have v: "get_version ''co'' ''v1'' policies1 = Some (version_row VS_DRAFT None)"
    by (simp add: get_version_def policy_in_company_def get_policy_def policies1_value version_row_def policy_row_def)
  then have "load_rules ''co'' ''v1'' policies1 = Inr sample_rules"
    by (simp add: load_rules_def version_row_def)
  then show ?thesis
    using policy_version_immutable [OF policies1_reached policies_active_steps v] by auto
qed

end
