(* ===== verification/Hash_Chain.thy ===== *)
theory Hash_Chain
  imports Canonical_Json
begin

text \<open>
  The tamper-evident chain the trajectory and the audit log share: every record stores the hash
  of its predecessor and its own, computed over its content and that predecessor. \<open>chain_from\<close>
  is the loop of both \<open>verifyChain\<close> methods. The locale \<open>hash_chain\<close> is the contract of a
  chained table: the text that is hashed determines the previous hash and the content. Its
  lemmas are what verification gives: a verified chain is determined by its last hash.
\<close>

fun chain_from :: "(string \<Rightarrow> 'e \<Rightarrow> string) \<Rightarrow> ('e \<Rightarrow> string) \<Rightarrow> ('e \<Rightarrow> string) \<Rightarrow> string \<Rightarrow> 'e list \<Rightarrow> bool" where
  "chain_from recompute prev hash p [] = True"
| "chain_from recompute prev hash p (e # es) =
     (prev e = p \<and> recompute p e = hash e \<and> chain_from recompute prev hash (hash e) es)"

definition chain_head :: "('e \<Rightarrow> string) \<Rightarrow> string \<Rightarrow> 'e list \<Rightarrow> string" where
  "chain_head hash p es = (if es = [] then p else hash (last es))"

lemma chain_head_simps [simp]:
  "chain_head hash p [] = p" "chain_head hash p (es @ [e]) = hash e"
  "chain_head hash p (e # es) = chain_head hash (hash e) es"
  by (simp_all add: chain_head_def)

lemma chain_from_append:
  "chain_from rc prev hash p (es @ fs) \<longleftrightarrow>
     chain_from rc prev hash p es \<and> chain_from rc prev hash (chain_head hash p es) fs"
  by (induction es arbitrary: p) auto

lemma chain_from_snoc [simp]:
  "chain_from rc prev hash p (es @ [e]) \<longleftrightarrow>
     chain_from rc prev hash p es \<and> prev e = chain_head hash p es \<and> rc (chain_head hash p es) e = hash e"
  by (auto simp: chain_from_append)

locale hash_chain =
  fixes sha :: "string \<Rightarrow> string" and hashed :: "string \<Rightarrow> 'e \<Rightarrow> json"
    and content :: "'e \<Rightarrow> 'c" and prev :: "'e \<Rightarrow> string" and hash :: "'e \<Rightarrow> string"
  assumes hashed_binds:
    "canonicalize (hashed p e) = canonicalize (hashed q f) \<Longrightarrow> p = q \<and> content e = content f"
begin

definition texts :: "'e list \<Rightarrow> string set" where
  "texts es = (\<lambda>e. canonical_text (hashed (prev e) e)) ` set es"

lemma texts_simps [simp]:
  "texts [] = {}" "texts (e # es) = insert (canonical_text (hashed (prev e) e)) (texts es)"
  "texts (es @ fs) = texts es \<union> texts fs"
  by (auto simp: texts_def)

lemma hash_determines:
  assumes "sha256_json sha (hashed (prev e) e) = sha256_json sha (hashed (prev f) f)"
    and "inj_on sha (texts [e, f])"
  shows "prev e = prev f \<and> content e = content f"
  using assms by (intro hashed_binds sha256_json_eqD) simp_all

text \<open>Two verified chains with one last hash are the same chain, content and links alike.\<close>

lemma verified_chains_equal:
  assumes "chain_from (\<lambda>p e. sha256_json sha (hashed p e)) prev hash g es"
    and "chain_from (\<lambda>p e. sha256_json sha (hashed p e)) prev hash g fs"
    and "chain_head hash g es = chain_head hash g fs"
    and "g \<notin> hash ` set (es @ fs)" and "inj_on sha (texts (es @ fs))"
  shows "map content es = map content fs \<and> map hash es = map hash fs"
  using assms
proof (induction es arbitrary: fs rule: rev_induct)
  case Nil
  then show ?case by (cases fs rule: rev_cases) auto
next
  case (snoc e es)
  then obtain f fs' where fs: "fs = fs' @ [f]" by (cases fs rule: rev_cases) auto
  have h: "hash e = hash f" using snoc.prems(3) fs by simp
  have eq: "sha256_json sha (hashed (prev e) e) = sha256_json sha (hashed (prev f) f)"
    using snoc.prems(1,2) h fs by simp
  have "inj_on sha (texts [e, f])" using snoc.prems(5) fs by (auto elim: inj_on_subset)
  with eq have ef: "prev e = prev f" "content e = content f" using hash_determines by blast+
  have "map content es = map content fs' \<and> map hash es = map hash fs'"
  proof (rule snoc.IH)
    show "chain_head hash g es = chain_head hash g fs'" using snoc.prems(1,2) ef(1) fs by simp
    show "inj_on sha (texts (es @ fs'))" using snoc.prems(5) fs by (auto elim: inj_on_subset)
  qed (use snoc.prems fs in auto)
  with ef h fs show ?case by simp
qed

end

end
