(* ===== verification/Trajectory.thy ===== *)
theory Trajectory
  imports Hash_Chain Core_Errors
begin

text \<open>
  The trajectory service (Backend/src/trajectory/trajectory.service.ts) over the tables
  \<open>trajectory_traces\<close> and \<open>trajectory_events\<close>, and the handling of one stream message by the
  ingestion worker (trajectory/ingestion.worker.ts). An error is its code and its message,
  because the worker reads the message. \<open>date_ms\<close> is \<open>Date.getTime\<close> of a parsed string
  and \<open>to_iso\<close> is \<open>toISOString\<close>; events are stored in the order of their creation.
\<close>

section \<open>State\<close>

datatype trace_status = TRACE_ACTIVE | TRACE_COMPLETED | TRACE_ABORTED | TRACE_CORRUPTED

record trajectory_trace =
  tt_id :: string
  tt_company_id :: string
  tt_agent_id :: string
  tt_intent_id :: "string option"
  tt_status :: trace_status
  tt_sequence_head :: int
  tt_head_hash :: "string option"
  tt_completed_at :: "int option"

record trajectory_event =
  te_id :: string
  te_trace_id :: string
  te_company_id :: string
  te_agent_id :: string
  te_sequence :: int
  te_event_type :: string
  te_timestamp :: int
  te_payload :: "(string \<times> json) list"
  te_source_ref :: "string option"
  te_trust_context :: "json option"
  te_provenance_refs :: "string list option"
  te_previous_event_hash :: string
  te_event_hash :: string

record trajectory_db =
  tj_traces :: "trajectory_trace list"
  tj_events :: "trajectory_event list"

record append_event_input =
  ai_company_id :: string
  ai_trace_id :: string
  ai_agent_id :: string
  ai_sequence :: int
  ai_event_type :: string
  ai_timestamp :: string
  ai_payload :: "(string \<times> json) list"
  ai_source_ref :: "string option"
  ai_trust_context :: "json option"
  ai_provenance_refs :: "string list option"
  ai_event_hash :: "string option"
  ai_previous_event_hash :: "string option"

record clock_lib =
  ck_date_ms :: "string \<Rightarrow> int option"
  ck_to_iso :: "int \<Rightarrow> string"

type_synonym service_error = "error_code \<times> string"

type_synonym 'a trajectory_op = "(trajectory_db, service_error, 'a) op"

definition GENESIS_HASH :: string where
  "GENESIS_HASH = ''sha256:genesis''"

section \<open>Operations\<close>

definition event_json :: "string \<Rightarrow> int \<Rightarrow> string \<Rightarrow> string \<Rightarrow> (string \<times> json) list \<Rightarrow>
    string list option \<Rightarrow> string \<Rightarrow> json" where
  "event_json trace_id sequence event_type timestamp payload refs previous = JObj
     [(''traceId'', JStr trace_id), (''sequence'', JNum sequence), (''eventType'', JStr event_type),
      (''timestamp'', JStr timestamp), (''payload'', JObj payload),
      (''provenanceRefs'', JArr (map JStr (nullish refs []))), (''previousEventHash'', JStr previous)]"

definition compute_event_hash :: "(string \<Rightarrow> string) \<Rightarrow> string \<Rightarrow> int \<Rightarrow> string \<Rightarrow> string \<Rightarrow>
    (string \<times> json) list \<Rightarrow> string list option \<Rightarrow> string \<Rightarrow> string" where
  "compute_event_hash sha trace_id sequence event_type timestamp payload refs previous =
     sha256_json sha (event_json trace_id sequence event_type timestamp payload refs previous)"

definition create_trace ::
    "(string \<times> string) list \<Rightarrow> string \<Rightarrow> string \<Rightarrow> string \<Rightarrow> string option \<Rightarrow> trajectory_trace trajectory_op" where
  "create_trace agents nid company_id agent_id intent_id db =
     (case find (\<lambda>(i, c). i = agent_id \<and> c = company_id) agents of
        None \<Rightarrow> (Inl (TENANT_ERROR, ''Agent not found in this company.''), db)
      | Some _ \<Rightarrow>
          (let t = \<lparr> tt_id = nid, tt_company_id = company_id, tt_agent_id = agent_id,
                     tt_intent_id = intent_id, tt_status = TRACE_ACTIVE, tt_sequence_head = 0,
                     tt_head_hash = Some GENESIS_HASH, tt_completed_at = None \<rparr>
           in (Inr t, db\<lparr>tj_traces := tj_traces db @ [t]\<rparr>)))"

definition get_trace :: "string \<Rightarrow> string \<Rightarrow> trajectory_db \<Rightarrow> trajectory_trace option" where
  "get_trace company_id trace_id db =
     find (\<lambda>t. tt_id t = trace_id \<and> tt_company_id t = company_id) (tj_traces db)"

definition update_trace :: "string \<Rightarrow> (trajectory_trace \<Rightarrow> trajectory_trace) \<Rightarrow> trajectory_db \<Rightarrow> trajectory_db" where
  "update_trace i f db = db\<lparr>tj_traces := update_where (\<lambda>t. tt_id t = i) f (tj_traces db)\<rparr>"

text \<open>
  The insert, with the two unique constraints of the table; a violation is the database's own
  error. \<open>new Date(canonicalTs)\<close> is stored, the milliseconds \<open>ts\<close>.
\<close>

definition insert_event :: "string \<Rightarrow> append_event_input \<Rightarrow> int \<Rightarrow> string \<Rightarrow> string \<Rightarrow>
    trajectory_event trajectory_op" where
  "insert_event nid i ts previous computed db =
     (if find (\<lambda>e. te_trace_id e = ai_trace_id i \<and> te_sequence e = ai_sequence i) (tj_events db) \<noteq> None
       \<or> find (\<lambda>e. te_event_hash e = computed) (tj_events db) \<noteq> None
      then (Inl (INTERNAL_ERROR, ''Unique constraint failed.''), db)
      else
       (let e = \<lparr> te_id = nid, te_trace_id = ai_trace_id i, te_company_id = ai_company_id i,
                  te_agent_id = ai_agent_id i, te_sequence = ai_sequence i,
                  te_event_type = ai_event_type i, te_timestamp = ts, te_payload = ai_payload i,
                  te_source_ref = ai_source_ref i, te_trust_context = ai_trust_context i,
                  te_provenance_refs = ai_provenance_refs i, te_previous_event_hash = previous,
                  te_event_hash = computed \<rparr>
        in (Inr e, update_trace (ai_trace_id i)
              (\<lambda>t. t\<lparr>tt_sequence_head := ai_sequence i, tt_head_hash := Some computed\<rparr>)
              (db\<lparr>tj_events := tj_events db @ [e]\<rparr>))))"

definition append_event :: "(string \<Rightarrow> string) \<Rightarrow> clock_lib \<Rightarrow> string \<Rightarrow> append_event_input \<Rightarrow>
    trajectory_event trajectory_op" where
  "append_event sha clk nid i = transaction (\<lambda>db.
     (case get_trace (ai_company_id i) (ai_trace_id i) db of
        None \<Rightarrow> (Inl (NOT_FOUND, ''Trajectory trace not found in this company.''), db)
      | Some trace \<Rightarrow>
         if ai_agent_id i \<noteq> tt_agent_id trace
           then (Inl (INVALID_INPUT, ''Event agent does not match trace agent.''), db)
         else if tt_status trace \<noteq> TRACE_ACTIVE
           then (Inl (CONFLICT, ''Cannot append to a non-active trace.''), db)
         else if ai_sequence i \<noteq> tt_sequence_head trace + 1
           then (Inl (INVALID_INPUT, ''Out-of-order or duplicate trajectory sequence.''), db)
         else
          (let head_hash = nullish (tt_head_hash trace) GENESIS_HASH in
           if ai_previous_event_hash i \<noteq> None \<and> ai_previous_event_hash i \<noteq> Some head_hash
             then (Inl (INVALID_INPUT, ''previous_event_hash does not match chain head.''), db)
           else (case ck_date_ms clk (ai_timestamp i) of
              None \<Rightarrow> (Inl (INTERNAL_ERROR, ''Invalid time value''), db)
            | Some ms \<Rightarrow>
               (let canonical_ts = ck_to_iso clk ms;
                    computed = compute_event_hash sha (ai_trace_id i) (ai_sequence i) (ai_event_type i)
                      canonical_ts (ai_payload i) (ai_provenance_refs i) head_hash
                in if ai_event_hash i \<noteq> None \<and> ai_event_hash i \<noteq> Some computed
                   then (Inl (INVALID_INPUT, ''event_hash does not match event content (tamper).''), db)
                   else (case find (\<lambda>e. te_event_hash e = computed) (tj_events db) of
                       Some dup \<Rightarrow> (Inr dup, db)
                     | None \<Rightarrow> insert_event nid i ms head_hash computed db))))))"

text \<open>Ordered events of a trace: the database sorts by sequence.\<close>

definition get_events :: "string \<Rightarrow> string \<Rightarrow> trajectory_db \<Rightarrow> trajectory_event list" where
  "get_events company_id trace_id db =
     sort_key te_sequence (filter (\<lambda>e. te_trace_id e = trace_id \<and> te_company_id e = company_id) (tj_events db))"

definition get_timeline :: "string \<Rightarrow> string \<Rightarrow> trajectory_db \<Rightarrow>
    (trajectory_trace \<times> trajectory_event list) option" where
  "get_timeline company_id trace_id db =
     (case get_trace company_id trace_id db of None \<Rightarrow> None
      | Some t \<Rightarrow> Some (t, get_events company_id trace_id db))"

definition rehash :: "(string \<Rightarrow> string) \<Rightarrow> clock_lib \<Rightarrow> string \<Rightarrow> string \<Rightarrow> trajectory_event \<Rightarrow> string" where
  "rehash sha clk trace_id p e = compute_event_hash sha trace_id (te_sequence e) (te_event_type e)
     (ck_to_iso clk (te_timestamp e)) (te_payload e) (te_provenance_refs e) p"

fun verify_events :: "(string \<Rightarrow> string) \<Rightarrow> clock_lib \<Rightarrow> string \<Rightarrow> string \<Rightarrow> int \<Rightarrow> trajectory_event list \<Rightarrow> bool" where
  "verify_events sha clk trace_id p expected [] = True"
| "verify_events sha clk trace_id p expected (e # es) =
     (if te_sequence e \<noteq> expected then False
      else if te_previous_event_hash e \<noteq> p then False
      else if rehash sha clk trace_id p e \<noteq> te_event_hash e then False
      else verify_events sha clk trace_id (te_event_hash e) (expected + 1) es)"

definition verify_chain :: "(string \<Rightarrow> string) \<Rightarrow> clock_lib \<Rightarrow> string \<Rightarrow> string \<Rightarrow> trajectory_db \<Rightarrow> bool" where
  "verify_chain sha clk company_id trace_id db =
     verify_events sha clk trace_id GENESIS_HASH 1 (get_events company_id trace_id db)"

definition complete_trace :: "int \<Rightarrow> string \<Rightarrow> string \<Rightarrow> trajectory_trace trajectory_op" where
  "complete_trace now company_id trace_id db =
     (case get_trace company_id trace_id db of
        None \<Rightarrow> (Inl (NOT_FOUND, ''Trajectory trace not found.''), db)
      | Some trace \<Rightarrow>
          (Inr (trace\<lparr>tt_status := TRACE_COMPLETED, tt_completed_at := Some now\<rparr>),
           update_trace (tt_id trace)
             (\<lambda>t. t\<lparr>tt_status := TRACE_COMPLETED, tt_completed_at := Some now\<rparr>) db))"

section \<open>The chain of one trace\<close>

definition hashed_event :: "clock_lib \<Rightarrow> string \<Rightarrow> string \<Rightarrow> trajectory_event \<Rightarrow> json" where
  "hashed_event clk t p e = event_json t (te_sequence e) (te_event_type e) (ck_to_iso clk (te_timestamp e))
     (te_payload e) (te_provenance_refs e) p"

text \<open>The content the hash covers; the agent, the trust context and the source are not in it.\<close>

definition event_content :: "clock_lib \<Rightarrow> trajectory_event \<Rightarrow> int \<times> string \<times> string \<times> json \<times> string list" where
  "event_content clk e = (te_sequence e, te_event_type e, ck_to_iso clk (te_timestamp e),
     canonicalize (JObj (te_payload e)), nullish (te_provenance_refs e) [])"

lemma event_json_eqD:
  assumes "canonicalize (event_json t s y ts pl rf p) = canonicalize (event_json t' s' y' ts' pl' rf' q)"
  shows "t = t' \<and> s = s' \<and> y = y' \<and> ts = ts' \<and> canonicalize (JObj pl) = canonicalize (JObj pl')
    \<and> nullish rf [] = nullish rf' [] \<and> p = q"
proof -
  have m: "map_option canonicalize (map_of a k) = map_option canonicalize (map_of b k)"
    if "event_json t s y ts pl rf p = JObj a" "event_json t' s' y' ts' pl' rf' q = JObj b" for a b k
    by (rule canonicalize_member) (use assms that in \<open>simp, auto simp: event_json_def\<close>)
  note m = m [OF event_json_def event_json_def]
  have inj: "map (\<lambda>x. canonicalize (JStr x)) xs = map (\<lambda>x. canonicalize (JStr x)) ys \<Longrightarrow> xs = ys" for xs ys
    by (induction xs arbitrary: ys) (auto simp: Cons_eq_map_conv)
  show ?thesis
    using m [of "''traceId''"] m [of "''sequence''"] m [of "''eventType''"] m [of "''timestamp''"]
      m [of "''payload''"] m [of "''provenanceRefs''"] m [of "''previousEventHash''"] inj
    by (auto simp: comp_def simp del: canonicalize.simps(6))
qed

interpretation trace_events: hash_chain sha "hashed_event clk t" "event_content clk"
    te_previous_event_hash te_event_hash
  for sha clk t
  by unfold_locales (auto simp: hashed_event_def event_content_def dest: event_json_eqD)

section \<open>The tables as a transition system\<close>

inductive trajectory_step :: "(string \<Rightarrow> string) \<Rightarrow> clock_lib \<Rightarrow> trajectory_db \<Rightarrow> trajectory_db \<Rightarrow> bool"
  for sha clk where
  step_create: "nid \<notin> tt_id ` set (tj_traces db) \<Longrightarrow>
     trajectory_step sha clk db (snd (create_trace agents nid c a i db))"
| step_append: "trajectory_step sha clk db (snd (append_event sha clk nid i db))"
| step_complete: "trajectory_step sha clk db (snd (complete_trace now c t db))"

inductive_cases trajectory_stepE: "trajectory_step sha clk db db'"

definition empty_trajectory :: trajectory_db where
  "empty_trajectory = \<lparr> tj_traces = [], tj_events = [] \<rparr>"

definition events_of :: "string \<Rightarrow> trajectory_db \<Rightarrow> trajectory_event list" where
  "events_of i db = filter (\<lambda>e. te_trace_id e = i) (tj_events db)"

definition trace_ok :: "(string \<Rightarrow> string) \<Rightarrow> clock_lib \<Rightarrow> trajectory_db \<Rightarrow> trajectory_trace \<Rightarrow> bool" where
  "trace_ok sha clk db t \<longleftrightarrow>
     verify_events sha clk (tt_id t) GENESIS_HASH 1 (events_of (tt_id t) db)
   \<and> tt_sequence_head t = int (length (events_of (tt_id t) db))
   \<and> tt_head_hash t = Some (chain_head te_event_hash GENESIS_HASH (events_of (tt_id t) db))
   \<and> (\<forall>e \<in> set (events_of (tt_id t) db). te_company_id e = tt_company_id t \<and> te_agent_id e = tt_agent_id t)"

definition chained :: "(string \<Rightarrow> string) \<Rightarrow> clock_lib \<Rightarrow> trajectory_db \<Rightarrow> bool" where
  "chained sha clk db \<longleftrightarrow> distinct (map tt_id (tj_traces db))
     \<and> te_trace_id ` set (tj_events db) \<subseteq> tt_id ` set (tj_traces db)
     \<and> (\<forall>t \<in> set (tj_traces db). trace_ok sha clk db t)"

section \<open>Lemmas\<close>

lemma verify_events_iff:
  "verify_events sha clk t p k es \<longleftrightarrow>
     chain_from (rehash sha clk t) te_previous_event_hash te_event_hash p es
     \<and> map te_sequence es = map (\<lambda>i. k + int i) [0..<length es]"
proof (induction es arbitrary: p k)
  case (Cons e es)
  have "map (\<lambda>i. k + int i) [0..<length (e # es)] = k # map (\<lambda>i. k + 1 + int i) [0..<length es]"
    by (simp add: upt_conv_Cons map_Suc_upt [symmetric] del: upt_Suc)
  with Cons show ?case by auto
qed simp

lemma verify_events_snoc:
  "verify_events sha clk t p k (es @ [e]) \<longleftrightarrow> verify_events sha clk t p k es
     \<and> te_sequence e = k + int (length es) \<and> te_previous_event_hash e = chain_head te_event_hash p es
     \<and> rehash sha clk t (chain_head te_event_hash p es) e = te_event_hash e"
  by (auto simp: verify_events_iff)

lemma events_of_append [simp]:
  "events_of i (db\<lparr>tj_events := tj_events db @ [e]\<rparr>)
     = events_of i db @ (if te_trace_id e = i then [e] else [])"
  "events_of i (update_trace j f db) = events_of i db"
  "events_of i (db\<lparr>tj_traces := ts\<rparr>) = events_of i db"
  by (simp_all add: events_of_def update_trace_def)

lemma events_update_trace [simp]: "tj_events (update_trace j f db) = tj_events db"
  by (simp add: update_trace_def)

lemma get_trace_D:
  "get_trace c i db = Some t \<Longrightarrow> t \<in> set (tj_traces db) \<and> tt_id t = i \<and> tt_company_id t = c"
  by (auto simp: get_trace_def dest: find_SomeD)

lemma get_events_chained:
  assumes "chained sha clk db" and "t \<in> set (tj_traces db)"
  shows "get_events (tt_company_id t) (tt_id t) db = events_of (tt_id t) db"
proof -
  have ok: "trace_ok sha clk db t" using assms by (simp add: chained_def)
  have "filter (\<lambda>e. te_trace_id e = tt_id t \<and> te_company_id e = tt_company_id t) (tj_events db)
      = events_of (tt_id t) db"
    unfolding events_of_def
    by (rule filter_cong [OF refl]) (use ok in \<open>auto simp: trace_ok_def events_of_def\<close>)
  moreover have "sorted (map te_sequence (events_of (tt_id t) db))"
    using ok by (auto simp: trace_ok_def verify_events_iff sorted_iff_nth_mono)
  ultimately show ?thesis
    unfolding get_events_def by (simp add: sort_key_id_if_sorted)
qed

lemma append_event_Inr:
  assumes "append_event sha clk nid i db = (Inr e, db')"
  obtains (duplicate) "db' = db" "e \<in> set (tj_events db)"
    | (inserted) t ms where "get_trace (ai_company_id i) (ai_trace_id i) db = Some t"
        "ai_agent_id i = tt_agent_id t" "tt_status t = TRACE_ACTIVE" "ai_sequence i = tt_sequence_head t + 1"
        "ck_date_ms clk (ai_timestamp i) = Some ms"
        "te_event_hash e = rehash sha clk (ai_trace_id i) (te_previous_event_hash e) e"
        "te_previous_event_hash e = nullish (tt_head_hash t) GENESIS_HASH"
        "te_trace_id e = ai_trace_id i" "te_company_id e = ai_company_id i" "te_agent_id e = ai_agent_id i"
        "te_sequence e = ai_sequence i"
        "db' = update_trace (ai_trace_id i)
              (\<lambda>t. t\<lparr>tt_sequence_head := ai_sequence i, tt_head_hash := Some (te_event_hash e)\<rparr>)
              (db\<lparr>tj_events := tj_events db @ [e]\<rparr>)"
  using assms
  by (auto simp: append_event_def transaction_Inr insert_event_def Let_def rehash_def
      split: option.splits if_splits dest: find_SomeD)

lemma chained_append:
  assumes "chained sha clk db" and "append_event sha clk nid i db = (Inr e, db')"
  shows "chained sha clk db'"
  using assms(2)
proof (cases rule: append_event_Inr)
  case duplicate
  with assms(1) show ?thesis by simp
next
  case (inserted t ms)
  let ?f = "\<lambda>t. t\<lparr>tt_sequence_head := ai_sequence i, tt_head_hash := Some (te_event_hash e)\<rparr>"
  have t: "t \<in> set (tj_traces db)" "tt_id t = ai_trace_id i" "tt_company_id t = ai_company_id i"
    using get_trace_D [OF inserted(1)] by auto
  have ok: "trace_ok sha clk db s" if "s \<in> set (tj_traces db)" for s
    using assms(1) that by (simp add: chained_def)
  have ev: "events_of j db' = events_of j db @ (if ai_trace_id i = j then [e] else [])" for j
    using inserted by simp
  have "trace_ok sha clk db' s" if s_in: "s \<in> set (tj_traces db')" for s
  proof -
    from s_in obtain s0 where s0: "s0 \<in> set (tj_traces db)"
      and s: "s = (if tt_id s0 = ai_trace_id i then ?f s0 else s0)"
      using inserted(12) by (auto simp: update_trace_def in_update_where)
    show ?thesis
    proof (cases "tt_id s0 = ai_trace_id i")
      case True
      then have "s0 = t"
        using s0 t key_unique [of tt_id "tj_traces db" s0 t] assms(1) by (simp add: chained_def)
      then show ?thesis
        using ok [OF t(1)] s True inserted t
        by (auto simp: trace_ok_def ev verify_events_snoc)
    next
      case False
      then show ?thesis using ok [OF s0] s by (simp add: trace_ok_def ev)
    qed
  qed
  moreover have "map tt_id (tj_traces db') = map tt_id (tj_traces db)"
    using inserted(12) by (simp add: update_trace_def map_update_where_same)
  moreover have "set (tj_events db') = insert e (set (tj_events db))"
    using inserted(12) by (simp add: update_trace_def)
  ultimately show ?thesis
    using assms(1) t inserted(8) unfolding chained_def by (metis image_insert insert_subset list.set_map rev_image_eqI)
qed

lemma chained_create:
  assumes "chained sha clk db" and "nid \<notin> tt_id ` set (tj_traces db)"
  shows "chained sha clk (snd (create_trace agents nid c a i db))"
proof -
  have "events_of nid db = []"
    using assms by (auto simp: events_of_def chained_def filter_empty_conv)
  then show ?thesis
    using assms by (auto simp: create_trace_def Let_def chained_def trace_ok_def split: option.splits)
qed

lemma chained_complete:
  assumes "chained sha clk db"
  shows "chained sha clk (snd (complete_trace now c i db))"
proof -
  let ?f = "\<lambda>t. t\<lparr>tt_status := TRACE_COMPLETED, tt_completed_at := Some now\<rparr>"
  have "chained sha clk (update_trace j ?f db)" for j
  proof -
    have ids: "map tt_id (tj_traces (update_trace j ?f db)) = map tt_id (tj_traces db)"
      by (simp add: update_trace_def map_update_where_same)
    have "trace_ok sha clk (update_trace j ?f db) t" if "t \<in> set (tj_traces (update_trace j ?f db))" for t
      using that assms by (auto simp: chained_def trace_ok_def update_trace_def in_update_where events_of_def)
    then show ?thesis
      using assms unfolding chained_def by (metis ids list.set_map events_update_trace)
  qed
  then show ?thesis
    using assms by (auto simp: complete_trace_def split: option.splits)
qed

lemma append_event_Inl: "append_event sha clk nid i db = (Inl x, db') \<Longrightarrow> db' = db"
  by (simp only: append_event_def transaction_Inl)

lemma chained_step:
  assumes "chained sha clk db" and "trajectory_step sha clk db db'"
  shows "chained sha clk db'"
  using assms(2)
proof (cases rule: trajectory_step.cases)
  case (step_append nid i)
  obtain r s where "append_event sha clk nid i db = (r, s)" by fastforce
  with step_append assms(1) show ?thesis
    by (cases r) (auto dest: append_event_Inl intro: chained_append)
qed (use assms(1) chained_create chained_complete in simp_all)

interpretation trajectory_chain: invariant_system "\<lambda>db. db = empty_trajectory" "trajectory_step sha clk" "chained sha clk"
  for sha clk
  by (unfold_locales, simp add: chained_def empty_trajectory_def) (rule chained_step)

section \<open>Ingestion\<close>

text \<open>
  One message of the stream: its id and the flat list of its field names and values. \<open>JSON.parse\<close>
  is the parameter \<open>parse_json\<close>; a missing string of the parsed object is the empty string.
\<close>

record streamed_event =
  se_company_id :: string
  se_trace_id :: string
  se_agent_id :: string
  se_sequence :: int
  se_event_type :: string
  se_timestamp :: string
  se_payload :: "(string \<times> json) list option"
  se_source_ref :: "string option"
  se_trust_context :: "json option"
  se_provenance_refs :: "string list option"
  se_previous_event_hash :: "string option"
  se_event_hash :: "string option"

record ingestion_result =
  ir_processed :: nat
  ir_duplicates :: nat
  ir_rejected :: nat

record ingestion_state =
  is_db :: trajectory_db
  is_result :: ingestion_result
  is_acked :: "string list"

definition parse_streamed_event ::
    "(string \<Rightarrow> streamed_event option) \<Rightarrow> string \<Rightarrow> service_error + append_event_input" where
  "parse_streamed_event parse_json raw =
     (case parse_json raw of
        None \<Rightarrow> Inl (INTERNAL_ERROR, ''Unexpected token in JSON'')
      | Some p \<Rightarrow>
          if se_company_id p = [] \<or> se_trace_id p = [] \<or> se_agent_id p = []
          then Inl (INVALID_INPUT, ''Streamed trajectory event missing binding fields.'')
          else Inr \<lparr> ai_company_id = se_company_id p, ai_trace_id = se_trace_id p,
                     ai_agent_id = se_agent_id p, ai_sequence = se_sequence p,
                     ai_event_type = se_event_type p, ai_timestamp = se_timestamp p,
                     ai_payload = nullish (se_payload p) [], ai_source_ref = se_source_ref p,
                     ai_trust_context = se_trust_context p, ai_provenance_refs = se_provenance_refs p,
                     ai_event_hash = se_event_hash p,
                     ai_previous_event_hash = se_previous_event_hash p \<rparr>)"

fun event_field :: "string list \<Rightarrow> string option" where
  "event_field [] = None"
| "event_field [f] = None"
| "event_field (f # v # fs) = (if f = ''event'' then Some v else event_field (v # fs))"

text \<open>\<open>/duplicate/i\<close> on a message.\<close>

fun occurs_in :: "string \<Rightarrow> string \<Rightarrow> bool" where
  "occurs_in p [] = (p = [])"
| "occurs_in p (c # s) = (take (length p) (c # s) = p \<or> occurs_in p s)"

definition is_duplicate :: "service_error \<Rightarrow> bool" where
  "is_duplicate e \<longleftrightarrow> fst e = INVALID_INPUT \<and> occurs_in ''duplicate'' (to_lower (snd e))"

definition count_processed :: "ingestion_result \<Rightarrow> ingestion_result" where
  "count_processed r = r\<lparr>ir_processed := ir_processed r + 1\<rparr>"

definition count_failure :: "service_error \<Rightarrow> ingestion_result \<Rightarrow> ingestion_result" where
  "count_failure e r = (if is_duplicate e then r\<lparr>ir_duplicates := ir_duplicates r + 1\<rparr>
     else r\<lparr>ir_rejected := ir_rejected r + 1\<rparr>)"

definition ack :: "string \<Rightarrow> ingestion_state \<Rightarrow> ingestion_state" where
  "ack i st = st\<lparr>is_acked := is_acked st @ [i]\<rparr>"

definition handle_message ::
    "(string \<Rightarrow> streamed_event option) \<Rightarrow> (string \<Rightarrow> string) \<Rightarrow> clock_lib \<Rightarrow> string \<Rightarrow> string \<Rightarrow> string list \<Rightarrow>
     ingestion_state \<Rightarrow> ingestion_state" where
  "handle_message parse_json sha clk nid message_id flds st =
     (case event_field flds of
        None \<Rightarrow> ack message_id (st\<lparr>is_result := (is_result st)\<lparr>ir_rejected := ir_rejected (is_result st) + 1\<rparr>\<rparr>)
      | Some raw \<Rightarrow>
         if raw = [] then
           ack message_id (st\<lparr>is_result := (is_result st)\<lparr>ir_rejected := ir_rejected (is_result st) + 1\<rparr>\<rparr>)
         else (case parse_streamed_event parse_json raw of
            Inl e \<Rightarrow> ack message_id (st\<lparr>is_result := count_failure e (is_result st)\<rparr>)
          | Inr i \<Rightarrow>
             (case append_event sha clk nid i (is_db st) of
                (Inl e, db') \<Rightarrow>
                   ack message_id (st\<lparr>is_db := db', is_result := count_failure e (is_result st)\<rparr>)
              | (Inr ev, db') \<Rightarrow>
                   ack message_id (st\<lparr>is_db := db',
                     is_result := (if te_sequence ev = ai_sequence i then count_processed (is_result st)
                                   else is_result st)\<rparr>))))"

text \<open>A batch, each message with the id the database would give its row.\<close>

fun process_messages ::
    "(string \<Rightarrow> streamed_event option) \<Rightarrow> (string \<Rightarrow> string) \<Rightarrow> clock_lib \<Rightarrow>
     (string \<times> string \<times> string list) list \<Rightarrow> ingestion_state \<Rightarrow> ingestion_state" where
  "process_messages parse_json sha clk [] st = st"
| "process_messages parse_json sha clk ((nid, message_id, flds) # ms) st =
     process_messages parse_json sha clk ms (handle_message parse_json sha clk nid message_id flds st)"

lemma handle_message_step:
  "(trajectory_step sha clk)\<^sup>*\<^sup>* (is_db st) (is_db (handle_message pj sha clk nid mid fs st))"
proof -
  have "trajectory_step sha clk (is_db st) (snd (append_event sha clk nid i (is_db st)))" for i
    by (rule step_append)
  then have "(trajectory_step sha clk)\<^sup>*\<^sup>* (is_db st) db'"
    if "append_event sha clk nid i (is_db st) = (r, db')" for i r db'
    using that by (metis r_into_rtranclp snd_conv)
  then show ?thesis
    by (auto simp: handle_message_def ack_def split: option.splits sum.splits prod.splits)
qed

lemma process_messages_steps:
  "(trajectory_step sha clk)\<^sup>*\<^sup>* (is_db st) (is_db (process_messages pj sha clk ms st))"
proof (induction pj sha clk ms st rule: process_messages.induct)
  case (2 pj sha clk nid mid fs ms st)
  show ?case using rtranclp_trans [OF handle_message_step 2] by simp
qed simp

section \<open>Properties\<close>

text \<open>
  C32: whatever the batches of messages and calls, every stored trace verifies: its events are
  numbered 1, 2, 3, ... without a gap, each links to its predecessor, and each stored hash is
  the hash of the stored content.
\<close>

theorem stored_traces_verify:
  assumes "reachable (\<lambda>db. db = empty_trajectory) (trajectory_step sha clk) (is_db st)"
    and "t \<in> set (tj_traces (is_db (process_messages pj sha clk ms st)))"
  shows "verify_chain sha clk (tt_company_id t) (tt_id t) (is_db (process_messages pj sha clk ms st))
    \<and> map te_sequence (get_events (tt_company_id t) (tt_id t) (is_db (process_messages pj sha clk ms st)))
        = map (\<lambda>i. 1 + int i) [0..<nat (tt_sequence_head t)]"
proof -
  have c: "chained sha clk (is_db (process_messages pj sha clk ms st))"
    by (rule trajectory_chain.steps_inv [OF process_messages_steps trajectory_chain.reachable_inv [OF assms(1)]])
  show ?thesis
    using c assms(2) unfolding verify_chain_def get_events_chained [OF c assms(2)]
    by (auto simp: chained_def trace_ok_def verify_events_iff)
qed

definition sample_append :: "int \<Rightarrow> append_event_input" where
  "sample_append n = \<lparr> ai_company_id = ''co'', ai_trace_id = ''t'', ai_agent_id = ''ag'', ai_sequence = n,
     ai_event_type = ''TOOL_CALL'', ai_timestamp = ''now'', ai_payload = [], ai_source_ref = None,
     ai_trust_context = None, ai_provenance_refs = None, ai_event_hash = None,
     ai_previous_event_hash = None \<rparr>"

definition sample_clock :: clock_lib where
  "sample_clock = \<lparr> ck_date_ms = (\<lambda>_. Some 0), ck_to_iso = (\<lambda>_. ''1970'') \<rparr>"

definition sample_trace_db :: trajectory_db where
  "sample_trace_db = snd (create_trace [(''ag'', ''co'')] ''t'' ''co'' ''ag'' None empty_trajectory)"

lemma sample_trace_value: "sample_trace_db = \<lparr> tj_traces = [\<lparr> tt_id = ''t'', tt_company_id = ''co'',
     tt_agent_id = ''ag'', tt_intent_id = None, tt_status = TRACE_ACTIVE, tt_sequence_head = 0,
     tt_head_hash = Some GENESIS_HASH, tt_completed_at = None \<rparr>], tj_events = [] \<rparr>"
  by (simp add: sample_trace_db_def create_trace_def empty_trajectory_def Let_def)

lemma sample_trace_reachable:
  "reachable (\<lambda>db. db = empty_trajectory) (trajectory_step sha clk) sample_trace_db"
  unfolding sample_trace_db_def
  by (rule reachable_step [where s = empty_trajectory], rule reachable_init, rule refl, rule step_create)
     (simp add: empty_trajectory_def)

lemma sample_append_Inr:
  "\<exists>e db'. append_event sha sample_clock ''e1'' (sample_append 1) sample_trace_db = (Inr e, db')
     \<and> e \<notin> set (tj_events sample_trace_db) \<and> te_sequence e = 1"
  by (simp add: append_event_def transaction_def sample_trace_value get_trace_def sample_append_def
      sample_clock_def insert_event_def Let_def)

definition sample_state :: ingestion_state where
  "sample_state = \<lparr> is_db = sample_trace_db,
     is_result = \<lparr> ir_processed = 0, ir_duplicates = 0, ir_rejected = 0 \<rparr>, is_acked = [] \<rparr>"

definition sample_streamed :: "int \<Rightarrow> streamed_event" where
  "sample_streamed n = \<lparr> se_company_id = ''co'', se_trace_id = ''t'', se_agent_id = ''ag'', se_sequence = n,
     se_event_type = ''TOOL_CALL'', se_timestamp = ''now'', se_payload = None, se_source_ref = None,
     se_trust_context = None, se_provenance_refs = None, se_previous_event_hash = None, se_event_hash = None \<rparr>"

text \<open>The sample parser: the text of a message is the sequence number of its event.\<close>

definition sample_parser :: "string \<Rightarrow> streamed_event option" where
  "sample_parser raw = Some (sample_streamed (int (digits_value raw)))"

definition sample_messages :: "(string \<times> string \<times> string list) list" where
  "sample_messages = [(''e1'', ''m1'', [''event'', ''2'']), (''e2'', ''m2'', [''event'', ''1''])]"

lemma sample_processed:
  "\<exists>h. tj_traces (is_db (process_messages sample_parser sha sample_clock sample_messages sample_state))
     = [\<lparr> tt_id = ''t'', tt_company_id = ''co'', tt_agent_id = ''ag'', tt_intent_id = None,
         tt_status = TRACE_ACTIVE, tt_sequence_head = 1, tt_head_hash = Some h, tt_completed_at = None \<rparr>]"
  by (simp add: sample_messages_def handle_message_def parse_streamed_event_def sample_parser_def
      sample_streamed_def sample_state_def sample_trace_value append_event_def transaction_def get_trace_def
      sample_clock_def insert_event_def update_trace_def ack_def count_failure_def count_processed_def
      digits_value_def digit_value_def Let_def)

text \<open>The trace of the sample verifies after any messages.\<close>

theorem stored_traces_verify_witness:
  "verify_chain (\<lambda>s. s) sample_clock ''co'' ''t''
     (is_db (process_messages sample_parser (\<lambda>s. s) sample_clock sample_messages sample_state))"
proof -
  obtain t where "t \<in> set (tj_traces (is_db (process_messages sample_parser (\<lambda>s. s) sample_clock sample_messages sample_state)))"
    "tt_id t = ''t''" "tt_company_id t = ''co''"
    using sample_processed [of "\<lambda>s. s"] by force
  moreover have "reachable (\<lambda>db. db = empty_trajectory) (trajectory_step (\<lambda>s. s) sample_clock) (is_db sample_state)"
    using sample_trace_reachable by (simp add: sample_state_def)
  ultimately show ?thesis
    using stored_traces_verify [of "\<lambda>s. s" sample_clock sample_state t sample_parser sample_messages] by simp
qed

text \<open>
  C33: the chain is tamper-evident for what it hashes: two event lists that verify for one trace
  and end in one hash agree event by event in sequence, type, time, payload (up to key order)
  and provenance, unless the digest collides on the texts involved.
\<close>

theorem trace_tamper_evident:
  assumes "verify_events sha clk t GENESIS_HASH 1 es" and "verify_events sha clk t GENESIS_HASH 1 fs"
    and "chain_head te_event_hash GENESIS_HASH es = chain_head te_event_hash GENESIS_HASH fs"
    and "GENESIS_HASH \<notin> te_event_hash ` set (es @ fs)"
    and "inj_on sha ((\<lambda>e. canonical_text (hashed_event clk t (te_previous_event_hash e) e)) ` set (es @ fs))"
  shows "map (event_content clk) es = map (event_content clk) fs"
proof -
  have "rehash sha clk t = (\<lambda>p e. sha256_json sha (hashed_event clk t p e))"
    by (auto simp: fun_eq_iff rehash_def compute_event_hash_def hashed_event_def)
  then show ?thesis
    using trace_events.verified_chains_equal [of sha clk t GENESIS_HASH es fs] assms
    by (simp add: verify_events_iff trace_events.texts_def)
qed

definition sample_event :: "string \<Rightarrow> string \<Rightarrow> trajectory_event" where
  "sample_event kind h = \<lparr> te_id = ''e'', te_trace_id = ''t'', te_company_id = ''co'', te_agent_id = ''ag'',
     te_sequence = 1, te_event_type = kind, te_timestamp = 0, te_payload = [], te_source_ref = None,
     te_trust_context = None, te_provenance_refs = None, te_previous_event_hash = GENESIS_HASH,
     te_event_hash = h \<rparr>"

definition sample_hash :: "string \<Rightarrow> string" where
  "sample_hash kind = compute_event_hash (\<lambda>s. s) ''t'' 1 kind ''1970'' [] None GENESIS_HASH"

text \<open>A tool call cannot be replaced by a plan change under the hash of the tool call.\<close>

theorem trace_tamper_evident_witness:
  "verify_events (\<lambda>s. s) sample_clock ''t'' GENESIS_HASH 1 [sample_event ''TOOL_CALL'' (sample_hash ''TOOL_CALL'')]
   \<and> \<not> verify_events (\<lambda>s. s) sample_clock ''t'' GENESIS_HASH 1 [sample_event ''PLAN_CHANGE'' (sample_hash ''TOOL_CALL'')]"
proof -
  let ?good = "sample_event ''TOOL_CALL'' (sample_hash ''TOOL_CALL'')"
  let ?bad = "sample_event ''PLAN_CHANGE'' (sample_hash ''TOOL_CALL'')"
  have good: "verify_events (\<lambda>s. s) sample_clock ''t'' GENESIS_HASH 1 [?good]"
    by (simp add: sample_event_def sample_clock_def sample_hash_def rehash_def)
  have head: "sample_hash ''TOOL_CALL'' \<noteq> GENESIS_HASH"
    by (simp add: sample_hash_def compute_event_hash_def sha256_json_def GENESIS_HASH_def event_json_def
        stringify_JObj)
  have same: "map (event_content sample_clock) [?good] = map (event_content sample_clock) [?bad]"
    if "verify_events (\<lambda>s. s) sample_clock ''t'' GENESIS_HASH 1 [?bad]"
  proof (rule trace_tamper_evident [OF good that])
    show "GENESIS_HASH \<notin> te_event_hash ` set ([?good] @ [?bad])"
      using head by (simp add: sample_event_def)
    show "inj_on (\<lambda>s :: string. s) A" for A by (rule inj_onI)
  qed (simp add: sample_event_def)
  have differ: "event_content sample_clock ?good \<noteq> event_content sample_clock ?bad"
    by (simp add: event_content_def sample_event_def)
  have "\<not> verify_events (\<lambda>s. s) sample_clock ''t'' GENESIS_HASH 1 [?bad]"
  proof
    assume "verify_events (\<lambda>s. s) sample_clock ''t'' GENESIS_HASH 1 [?bad]"
    from same [OF this] have "event_content sample_clock ?good = event_content sample_clock ?bad"
      by (simp only: list.map list.inject simp_thms)
    with differ show False by (rule notE)
  qed
  with good show ?thesis by (rule conjI)
qed

text \<open>
  What the hash does not cover can be altered without trace: rewriting the agent, the source
  and the trust context of stored events leaves every verification as it was.
\<close>

theorem unhashed_fields_alterable:
  "verify_events sha clk t p k (map (\<lambda>e. e\<lparr>te_agent_id := agent e, te_source_ref := source e,
      te_trust_context := trust e\<rparr>) es) = verify_events sha clk t p k es"
  by (induction es arbitrary: p k) (simp_all add: rehash_def)

text \<open>
  A redelivered event is not answered with its stored row: once an append has inserted an event
  into a stored trace, the same append is refused as an out-of-order or duplicate sequence, and
  changes nothing.
\<close>

theorem redelivery_refused:
  assumes "reachable (\<lambda>db. db = empty_trajectory) (trajectory_step sha clk) db"
    and "append_event sha clk nid i db = (Inr e, db')" and "e \<notin> set (tj_events db)"
  shows "append_event sha clk nid' i db' = (Inl (INVALID_INPUT, ''Out-of-order or duplicate trajectory sequence.''), db')"
  using assms(2)
proof (cases rule: append_event_Inr)
  case duplicate
  with assms(3) show ?thesis by simp
next
  case (inserted t ms)
  let ?f = "\<lambda>t. t\<lparr>tt_sequence_head := ai_sequence i, tt_head_hash := Some (te_event_hash e)\<rparr>"
  have t: "t \<in> set (tj_traces db)" "tt_id t = ai_trace_id i" "tt_company_id t = ai_company_id i"
    using get_trace_D [OF inserted(1)] by auto
  have d: "distinct (map tt_id (tj_traces db))"
    using trajectory_chain.reachable_inv [OF assms(1)] by (simp add: chained_def)
  have "get_trace (ai_company_id i) (ai_trace_id i) db' = Some (?f t)"
  proof -
    have "find (\<lambda>x. tt_id x = ai_trace_id i) (tj_traces db') = Some (?f t)"
      unfolding inserted(12) update_trace_def
      using find_update_where_key [OF d t(1,2), of ?f] by simp
    then have "?f t \<in> set (tj_traces db')" "tt_id (?f t) = ai_trace_id i" by (auto dest: find_SomeD)
    moreover have "distinct (map tt_id (tj_traces db'))"
      using d inserted(12) by (simp add: update_trace_def map_update_where_same)
    ultimately show ?thesis
      using t(3) find_key_unique [of "\<lambda>x. (tt_id x, tt_company_id x)" "tj_traces db'" "?f t"]
      by (auto simp: get_trace_def distinct_map inj_on_def)
  qed
  then show ?thesis
    using inserted(2,3) by (simp add: append_event_def transaction_def)
qed

theorem redelivery_refused_witness:
  "\<exists>db'. fst (append_event (\<lambda>s. s) sample_clock ''e2'' (sample_append 1) db')
     = Inl (INVALID_INPUT, ''Out-of-order or duplicate trajectory sequence.'')"
proof -
  obtain e db' where "append_event (\<lambda>s. s) sample_clock ''e1'' (sample_append 1) sample_trace_db = (Inr e, db')"
    "e \<notin> set (tj_events sample_trace_db)" using sample_append_Inr by blast
  from redelivery_refused [OF sample_trace_reachable this, of "''e2''"] show ?thesis
    by (intro exI [of _ db']) simp
qed

text \<open>
  An event that arrives before its predecessor is lost: the worker counts the message as a
  duplicate, acknowledges it, so that it is never delivered again, and stores nothing.
\<close>

theorem early_event_dropped:
  assumes "event_field flds = Some raw" "raw \<noteq> []" "parse_streamed_event pj raw = Inr i"
    and "get_trace (ai_company_id i) (ai_trace_id i) (is_db st) = Some t"
    and "ai_agent_id i = tt_agent_id t" "tt_status t = TRACE_ACTIVE" "ai_sequence i > tt_sequence_head t + 1"
  shows "is_db (handle_message pj sha clk nid mid flds st) = is_db st
    \<and> is_acked (handle_message pj sha clk nid mid flds st) = is_acked st @ [mid]
    \<and> ir_duplicates (is_result (handle_message pj sha clk nid mid flds st))
        = ir_duplicates (is_result st) + 1"
proof -
  have "append_event sha clk nid i (is_db st)
      = (Inl (INVALID_INPUT, ''Out-of-order or duplicate trajectory sequence.''), is_db st)"
    using assms(4-7) by (simp add: append_event_def transaction_def)
  moreover have "is_duplicate (INVALID_INPUT, ''Out-of-order or duplicate trajectory sequence.'')"
    by (simp add: is_duplicate_def to_lower_def to_lower_char_def)
  ultimately show ?thesis
    using assms(1-3) by (simp add: handle_message_def ack_def count_failure_def)
qed

theorem early_event_dropped_witness:
  "is_db (handle_message sample_parser (\<lambda>s. s) sample_clock ''e1'' ''m1'' [''event'', ''2''] sample_state) = sample_trace_db"
  using early_event_dropped [of "[''event'', ''2'']" "''2''" sample_parser "sample_append 2" sample_state
      "hd (tj_traces sample_trace_db)" "\<lambda>s. s" sample_clock "''e1''" "''m1''"]
  by (simp add: parse_streamed_event_def sample_parser_def sample_streamed_def sample_append_def
      sample_state_def sample_trace_value get_trace_def digits_value_def digit_value_def)

end
