(* ===== verification/Transaction_Gate.thy ===== *)
theory Transaction_Gate
  imports Contracts Money
begin

text \<open>
  The transaction gate (Backend/src/execution-gate/transaction-gate.ts): the comparison of the
  proposal with the decoded transaction, the payload hash, the binding of a simulation to the
  payload it ran on, and the outcome a simulation status maps to. The reason strings of the
  binding are left out; the mismatches carry field, expected and actual value as in the code.
\<close>

section \<open>Definitions\<close>

datatype transaction_gate_status = MATCH | MISMATCH

record field_mismatch =
  fm_field :: string
  fm_expected :: "string option"
  fm_actual :: "string option"

record transaction_gate_result =
  tg_status :: transaction_gate_status
  tg_mismatches :: "field_mismatch list"

definition proposal_recipient :: "action_proposal \<Rightarrow> string option" where
  "proposal_recipient p = (case ap_recipient p of None \<Rightarrow> None
     | Some r \<Rightarrow> or_else (rr_address r) (rr_identifier r))"

definition proposal_network :: "action_proposal \<Rightarrow> string option" where
  "proposal_network p = or_else (ap_network p)
     (case ap_recipient p of None \<Rightarrow> None | Some r \<Rightarrow> rr_network r)"

definition gate_amounts_equal :: "decimal_lib \<Rightarrow> string option \<Rightarrow> string option \<Rightarrow> bool" where
  "gate_amounts_equal D a b = (case (a, b) of
       (Some x, Some y) \<Rightarrow> (case (dl_parse D x, dl_parse D y) of
            (Some p, Some q) \<Rightarrow> p = q | _ \<Rightarrow> False)
     | _ \<Rightarrow> a = b)"

definition normalize_to_transaction_intent :: "action_proposal \<Rightarrow> string \<Rightarrow> transaction_intent" where
  "normalize_to_transaction_intent p transaction_id =
     \<lparr> ti_transaction_id = transaction_id,
       ti_proposal_id = ap_proposal_id p,
       ti_action_type = action_name (ap_action_type p),
       ti_network = nullish (proposal_network p) [],
       ti_asset = \<lparr> as_symbol = (case ap_amount p of None \<Rightarrow> [] | Some m \<Rightarrow> mo_currency m),
                    as_address = None, as_type = None \<rparr>,
       ti_amount = (case ap_amount p of None \<Rightarrow> ''0'' | Some m \<Rightarrow> mo_value m),
       ti_recipient = \<lparr> tr_address = nullish (proposal_recipient p) [],
                        tr_type = map_option (recipient_type_name \<circ> rr_type) (ap_recipient p) \<rparr>,
       ti_payment_method = ap_payment_method p,
       ti_constraints = [] \<rparr>"

record gate_context =
  gc_expected_network :: string
  gc_actual_network :: string
  gc_expect_simple_payment :: bool

definition mismatch :: "string \<Rightarrow> string option \<Rightarrow> string option \<Rightarrow> field_mismatch" where
  "mismatch f e a = \<lparr> fm_field = f, fm_expected = e, fm_actual = a \<rparr>"

definition mismatch_if :: "bool \<Rightarrow> field_mismatch \<Rightarrow> field_mismatch list" where
  "mismatch_if b m = (if b then [m] else [])"

definition simple_payment_functions :: "string list" where
  "simple_payment_functions = [''transfer'', ''transferFrom'', ''pay'']"

definition compare_proposal_vs_transaction ::
    "decimal_lib \<Rightarrow> action_proposal \<Rightarrow> transaction_analysis \<Rightarrow> gate_context \<Rightarrow> transaction_gate_result" where
  "compare_proposal_vs_transaction D p an c =
     (let expected_recipient = proposal_recipient p;
          expected_amount = map_option mo_value (ap_amount p);
          expected_asset = map_option mo_currency (ap_amount p);
          fn = fr_name (ta_function an);
          ms = mismatch_if (expected_recipient \<noteq> Some (ta_recipient an))
                 (mismatch ''recipient'' expected_recipient (Some (ta_recipient an)))
             @ mismatch_if (\<not> gate_amounts_equal D expected_amount (Some (ta_amount an)))
                 (mismatch ''amount'' expected_amount (Some (ta_amount an)))
             @ mismatch_if (expected_asset \<noteq> Some (ta_asset an))
                 (mismatch ''asset'' expected_asset (Some (ta_asset an)))
             @ mismatch_if (gc_expected_network c \<noteq> gc_actual_network c)
                 (mismatch ''network'' (Some (gc_expected_network c)) (Some (gc_actual_network c)))
             @ mismatch_if (ta_status an \<noteq> AN_VALID)
                 (mismatch ''analysis.status'' (Some ''VALID'') (Some (analysis_status_name (ta_status an))))
             @ (if gc_expect_simple_payment c then
                  mismatch_if (fn \<noteq> [] \<and> \<not> arr_includes simple_payment_functions fn)
                    (mismatch ''function'' (Some ''transfer|pay'') (Some fn))
                @ mismatch_if (ta_risk_flags an \<noteq> [])
                    (mismatch ''risk_flags'' (Some ''none'') (Some (join_comma (ta_risk_flags an))))
                else [])
      in \<lparr> tg_status = (if ms = [] then MATCH else MISMATCH), tg_mismatches = ms \<rparr>)"

record payload_input =
  pi_transaction_id :: string
  pi_network :: string
  pi_recipient :: string
  pi_amount :: string
  pi_asset :: string
  pi_contract_address :: "string option"
  pi_function_selector :: "string option"

definition payload_json :: "payload_input \<Rightarrow> json" where
  "payload_json i = JObj
     [(''transactionId'', JStr (pi_transaction_id i)),
      (''network'', JStr (pi_network i)),
      (''recipient'', JStr (pi_recipient i)),
      (''amount'', JStr (pi_amount i)),
      (''asset'', JStr (pi_asset i)),
      (''contractAddress'', json_opt (pi_contract_address i)),
      (''functionSelector'', json_opt (pi_function_selector i))]"

definition transaction_payload_hash :: "(string \<Rightarrow> string) \<Rightarrow> payload_input \<Rightarrow> string" where
  "transaction_payload_hash sha i = sha256_json sha (payload_json i)"

datatype simulation_binding_status = BIND_VALID | BIND_STALE | BIND_WRONG_TRANSACTION | BIND_WRONG_PAYLOAD

record binding_expectation =
  be_transaction_id :: string
  be_simulated_payload_hash :: string
  be_current_payload_hash :: string

definition validate_simulation_binding ::
    "simulation_result \<Rightarrow> binding_expectation \<Rightarrow> simulation_binding_status" where
  "validate_simulation_binding sim e =
     (if sr_transaction_id sim \<noteq> be_transaction_id e then BIND_WRONG_TRANSACTION
      else if be_simulated_payload_hash e \<noteq> be_current_payload_hash e then BIND_STALE
      else BIND_VALID)"

datatype simulation_outcome = SO_CONTINUE | SO_DENY | SO_REVIEW | SO_FAIL_CLOSED

fun classify_simulation_status :: "simulation_status \<Rightarrow> simulation_outcome" where
  "classify_simulation_status SIM_PASS = SO_CONTINUE"
| "classify_simulation_status SIM_REVERT = SO_DENY"
| "classify_simulation_status SIM_INSUFFICIENT_FUNDS = SO_DENY"
| "classify_simulation_status SIM_UNEXPECTED_STATE_CHANGE = SO_REVIEW"
| "classify_simulation_status SIM_ERROR = SO_FAIL_CLOSED"
| "classify_simulation_status SIM_UNSUPPORTED = SO_FAIL_CLOSED"

definition classify_simulation :: "simulation_result \<Rightarrow> simulation_outcome" where
  "classify_simulation sim = classify_simulation_status (sr_status sim)"

section \<open>Lemmas\<close>

lemma mismatch_if_Nil [simp]: "mismatch_if b m = [] \<longleftrightarrow> \<not> b"
  by (simp add: mismatch_if_def)

lemma gate_amounts_equal_Some:
  "gate_amounts_equal D (Some a) (Some b) \<longleftrightarrow> (\<exists>q. dl_parse D a = Some q \<and> dl_parse D b = Some q)"
  by (auto simp: gate_amounts_equal_def split: option.splits)

lemma gate_amounts_equal_iff:
  "gate_amounts_equal D a (Some b) \<longleftrightarrow>
     (\<exists>x q. a = Some x \<and> dl_parse D x = Some q \<and> dl_parse D b = Some q)"
  by (cases a) (auto simp: gate_amounts_equal_Some, simp add: gate_amounts_equal_def)

lemma gate_match_iff_no_mismatch:
  "tg_status (compare_proposal_vs_transaction D p an c) = MATCH \<longleftrightarrow>
   tg_mismatches (compare_proposal_vs_transaction D p an c) = []"
  by (simp add: compare_proposal_vs_transaction_def Let_def)

lemma payload_keys_distinct:
  "payload_json i = JObj kvs \<Longrightarrow> distinct (map fst kvs)"
  by (auto simp: payload_json_def)

lemma payload_json_eqI:
  assumes "canonicalize (payload_json i) = canonicalize (payload_json j)"
  shows "i = j"
proof -
  define a where "a = [(''transactionId'', JStr (pi_transaction_id i)),
      (''network'', JStr (pi_network i)), (''recipient'', JStr (pi_recipient i)),
      (''amount'', JStr (pi_amount i)), (''asset'', JStr (pi_asset i)),
      (''contractAddress'', json_opt (pi_contract_address i)),
      (''functionSelector'', json_opt (pi_function_selector i))]"
  define b where "b = [(''transactionId'', JStr (pi_transaction_id j)),
      (''network'', JStr (pi_network j)), (''recipient'', JStr (pi_recipient j)),
      (''amount'', JStr (pi_amount j)), (''asset'', JStr (pi_asset j)),
      (''contractAddress'', json_opt (pi_contract_address j)),
      (''functionSelector'', json_opt (pi_function_selector j))]"
  have m: "map_option canonicalize (map_of a k) = map_option canonicalize (map_of b k)" for k
    by (rule canonicalize_member) (use assms in \<open>simp_all add: payload_json_def a_def b_def\<close>)
  show ?thesis
    using m [of "''transactionId''"] m [of "''network''"] m [of "''recipient''"] m [of "''amount''"]
      m [of "''asset''"] m [of "''contractAddress''"] m [of "''functionSelector''"]
    by (simp add: a_def b_def)
qed

section \<open>Properties\<close>

text \<open>
  the gate answers MATCH exactly when every material field of the decoded transaction is
  what was proposed: recipient, asset and network equal as strings, amount equal as an exact
  decimal, the analysis VALID, and for a simple payment a transfer function and no risk flag.
\<close>

theorem gate_match_iff:
  "tg_status (compare_proposal_vs_transaction D p an c) = MATCH \<longleftrightarrow>
     proposal_recipient p = Some (ta_recipient an) \<and>
     (\<exists>m q. ap_amount p = Some m \<and> dl_parse D (mo_value m) = Some q \<and> dl_parse D (ta_amount an) = Some q
        \<and> mo_currency m = ta_asset an) \<and>
     gc_expected_network c = gc_actual_network c \<and>
     ta_status an = AN_VALID \<and>
     (if gc_expect_simple_payment c
      then ta_risk_flags an = [] \<and> fr_name (ta_function an) \<in> set ([] # simple_payment_functions) else True)"
  by (auto simp: compare_proposal_vs_transaction_def Let_def gate_amounts_equal_iff)

text \<open>
  the payload hash of a transaction candidate binds all seven of its fields: unless the
  digest collides on their two texts, two candidates have one hash only when they are the same.
\<close>

theorem payload_hash_binds:
  assumes "inj_on sha {canonical_text (payload_json i), canonical_text (payload_json j)}"
  shows "transaction_payload_hash sha i = transaction_payload_hash sha j \<longleftrightarrow> i = j"
  using payload_json_eqI [OF sha256_json_eqD] assms
  unfolding transaction_payload_hash_def by blast

text \<open>Two candidates that differ in the amount's spelling only hash apart.\<close>

definition sample_payload :: "string \<Rightarrow> payload_input" where
  "sample_payload amount =
     \<lparr> pi_transaction_id = ''tx1'', pi_network = ''base-sepolia'', pi_recipient = ''0xabc'',
       pi_amount = amount, pi_asset = ''USDC'', pi_contract_address = None, pi_function_selector = None \<rparr>"

theorem payload_hash_binds_witness:
  "transaction_payload_hash (\<lambda>s. s) (sample_payload ''5'')
     \<noteq> transaction_payload_hash (\<lambda>s. s) (sample_payload ''5.00'')"
  by (subst payload_hash_binds) (simp_all add: sample_payload_def)

end
