(* ===== verification/Orchestrator.thy ===== *)
theory Orchestrator
  imports AI_Intake Capability Policy_Lifecycle Trajectory Transaction_Gate
begin

text \<open>
  The security orchestrator (Backend/src/application/orchestrator/security-orchestrator.ts): from
  the authoritative state and the AI layer's documents to a decision context, or an error. The
  read-only state is the record \<open>core_view\<close>; the analysis and simulation providers are
  parameters, absent or functions that may throw.
\<close>

section \<open>Definitions\<close>

record core_view =
  cv_authority :: authority_db
  cv_policies :: policy_db
  cv_trajectory :: trajectory_db

record analyze_request =
  az_transaction_id :: string
  az_network :: string
  az_recipient :: string
  az_amount :: string
  az_asset :: string

record simulate_request =
  sq_transaction_id :: string
  sq_network :: string

record providers =
  pr_analysis :: "(analyze_request \<Rightarrow> error_code + transaction_analysis) option"
  pr_simulation :: "(simulate_request \<Rightarrow> error_code + simulation_result) option"

record orchestrate_input =
  oi_company_id :: string
  oi_agent_id :: string
  oi_intent :: intent
  oi_proposal :: action_proposal
  oi_security_assessment :: security_assessment
  oi_trace_id :: "string option"
  oi_assessment_max_age_ms :: "int option"
  oi_require_simulation :: "bool option"

record decision_context =
  dc_company_id :: string
  dc_agent_id :: string
  dc_intent :: intent
  dc_proposal :: action_proposal
  dc_security_assessment :: security_assessment
  dc_overall_status :: overall_status
  dc_recommended_handling :: recommended_handling
  dc_policy_evaluation :: policy_evaluation_out
  dc_capability_id :: string
  dc_policy_version_id :: string
  dc_transaction_analysis :: "transaction_analysis option"
  dc_simulation_result :: "simulation_result option"
  dc_trajectory_event_count :: nat
  dc_assembled_at :: string

text \<open>Steps 1 to 5: binding, agent, constitution, capability, policy version.\<close>

definition resolve_authority ::
    "core_view \<Rightarrow> orchestrate_input \<Rightarrow> int \<Rightarrow> error_code + agent \<times> capability \<times> string \<times> policy_version" where
  "resolve_authority V i now =
     and_then (validate_proposal_intake (oi_proposal i)
       \<lparr> pb_intent_id = nt_intent_id (oi_intent i), pb_agent_id = oi_agent_id i \<rparr>) (\<lambda>_.
     if nt_agent_id (oi_intent i) \<noteq> oi_agent_id i then Inl INTENT_INVALID else
     and_then (require_agent (oi_company_id i) (oi_agent_id i) (cv_authority V)) (\<lambda>agent.
     if ag_status agent \<noteq> AG_ACTIVE then Inl AGENT_INACTIVE else
     if get_active_constitution (oi_company_id i) (oi_agent_id i) (cv_authority V) = None then Inl AUTHORIZATION_ERROR else
     (case get_active_capabilities (oi_company_id i) (oi_agent_id i) now (cv_authority V) of
        [] \<Rightarrow> Inl CAPABILITY_EXPIRED
      | cap # _ \<Rightarrow>
         if \<not> truthy (ag_active_policy_id agent) then Inl POLICY_INVALID
         else
          (let policy_id = the (ag_active_policy_id agent) in
           case get_active_version (oi_company_id i) policy_id (cv_policies V) of
             None \<Rightarrow> Inl POLICY_INVALID
           | Some v \<Rightarrow> Inr (agent, cap, policy_id, v)))))"

definition trajectory_types :: "core_view \<Rightarrow> orchestrate_input \<Rightarrow> error_code + string list" where
  "trajectory_types V i =
     (if truthy (oi_trace_id i) then
        (case get_trace (oi_company_id i) (the (oi_trace_id i)) (cv_trajectory V) of
           None \<Rightarrow> Inl NOT_FOUND
         | Some _ \<Rightarrow> Inr (map te_event_type (get_events (oi_company_id i) (the (oi_trace_id i)) (cv_trajectory V))))
      else Inr [])"

definition orchestrator_context ::
    "(int \<Rightarrow> string) \<Rightarrow> action_proposal \<Rightarrow> capability \<Rightarrow> string list \<Rightarrow> int \<Rightarrow> evaluation_context" where
  "orchestrator_context to_iso p cap types now =
     \<lparr> ec_action = action_name (ap_action_type p),
       ec_amount = map_option mo_value (ap_amount p),
       ec_currency = map_option mo_currency (ap_amount p),
       ec_asset = map_option mo_currency (ap_amount p),
       ec_network = proposal_network p,
       ec_category = None,
       ec_recipient = proposal_recipient p,
       ec_cumulative_spent = None,
       ec_cumulative_by_key = None,
       ec_known_recipients = None,
       ec_trajectory_event_types = Some types,
       ec_recent_transactions = None,
       ec_capability_expires_at = Some (map_option to_iso (cap_expires_at cap)),
       ec_now = to_iso now \<rparr>"

definition request_analysis ::
    "providers \<Rightarrow> action_proposal \<Rightarrow> evaluation_context \<Rightarrow> error_code + transaction_analysis option" where
  "request_analysis P p c =
     (case pr_analysis P of
        None \<Rightarrow> Inr None
      | Some analyze \<Rightarrow>
         if truthy (ec_recipient c) \<and> truthy (ec_amount c) \<and> truthy (ec_asset c) \<and> truthy (ec_network c)
         then and_then (analyze \<lparr> az_transaction_id = ap_proposal_id p, az_network = the (ec_network c),
                  az_recipient = the (ec_recipient c), az_amount = the (ec_amount c), az_asset = the (ec_asset c) \<rparr>)
                (\<lambda>a. Inr (Some a))
         else Inr None)"

definition request_simulation ::
    "providers \<Rightarrow> action_proposal \<Rightarrow> evaluation_context \<Rightarrow> bool option \<Rightarrow> error_code + simulation_result option" where
  "request_simulation P p c required =
     (if pr_simulation P \<noteq> None \<and> truthy (ec_network c) then
        and_then (the (pr_simulation P) \<lparr> sq_transaction_id = ap_proposal_id p, sq_network = the (ec_network c) \<rparr>)
          (\<lambda>s. Inr (Some s))
      else if required = Some True then Inl SIMULATION_FAILED
      else Inr None)"

definition orchestrate ::
    "runtime \<Rightarrow> (int \<Rightarrow> string) \<Rightarrow> providers \<Rightarrow> core_view \<Rightarrow> orchestrate_input \<Rightarrow> int \<Rightarrow> error_code + decision_context" where
  "orchestrate R to_iso P V i now =
     and_then (resolve_authority V i now) (\<lambda>(agent, cap, policy_id, v).
     and_then (load_rules (oi_company_id i) (vn_id v) (cv_policies V)) (\<lambda>rules.
     and_then (trajectory_types V i) (\<lambda>types.
     and_then (validate_assessment_binding (rt_date_ms R) (oi_security_assessment i)
        \<lparr> sb_proposal_id = ap_proposal_id (oi_proposal i), sb_max_age_ms = oi_assessment_max_age_ms i \<rparr> now) (\<lambda>_.
     let c = orchestrator_context to_iso (oi_proposal i) cap types now in
     and_then (evaluate R \<lparr> ei_policy_id = policy_id, ei_policy_version = vn_version v, ei_rules = rules,
        ei_context = c \<rparr>) (\<lambda>evaluation.
     and_then (request_analysis P (oi_proposal i) c) (\<lambda>analysis.
     and_then (request_simulation P (oi_proposal i) c (oi_require_simulation i)) (\<lambda>simulation.
       Inr \<lparr> dc_company_id = oi_company_id i, dc_agent_id = oi_agent_id i, dc_intent = oi_intent i,
             dc_proposal = oi_proposal i, dc_security_assessment = oi_security_assessment i,
             dc_overall_status = oa_status (sa_overall_assessment (oi_security_assessment i)),
             dc_recommended_handling = oa_recommended_handling (sa_overall_assessment (oi_security_assessment i)),
             dc_policy_evaluation = evaluation, dc_capability_id = cap_id cap,
             dc_policy_version_id = vn_id v, dc_transaction_analysis = analysis,
             dc_simulation_result = simulation, dc_trajectory_event_count = length types,
             dc_assembled_at = to_iso now \<rparr>)))))))"

section \<open>Lemmas\<close>

lemma resolve_authority_Inr:
  assumes "resolve_authority V i now = Inr (agent, cap, policy_id, v)"
  shows "ap_intent_id (oi_proposal i) = nt_intent_id (oi_intent i)" "ap_agent_id (oi_proposal i) = oi_agent_id i"
    and "nt_agent_id (oi_intent i) = oi_agent_id i"
    and "agent \<in> set (ah_agents (cv_authority V))" "ag_id agent = oi_agent_id i" "ag_company_id agent = oi_company_id i"
    and "ag_status agent = AG_ACTIVE"
    and "\<exists>c \<in> set (ah_constitutions (cv_authority V)). cn_company_id c = oi_company_id i
           \<and> cn_agent_id c = oi_agent_id i \<and> cn_status c = CN_ACTIVE"
    and "cap \<in> set (get_active_capabilities (oi_company_id i) (oi_agent_id i) now (cv_authority V))"
    and "ag_active_policy_id agent = Some policy_id"
    and "get_active_version (oi_company_id i) policy_id (cv_policies V) = Some v"
  using assms
  by (auto simp: resolve_authority_def and_then_Inr_iff require_agent_def get_active_constitution_def
      find_None_iff Let_def truthy_def dest!: get_agent_D split: if_splits list.splits option.splits)

lemma load_active_rules:
  assumes ok: "policies_ok sha db" and v: "get_active_version c p db = Some v"
  shows "load_rules c (vn_id v) db = Inr (vn_rules v)" and "vn_status v = VS_ACTIVE" and "vn_policy_id v = p"
    and "v \<in> set (pl_versions db)"
proof -
  show v1: "vn_status v = VS_ACTIVE" "vn_policy_id v = p" "v \<in> set (pl_versions db)"
    using find_SomeD [of _ "pl_versions db" v] v by (auto simp: get_active_version_def)
  have here: "policy_in_company c db v" using find_SomeD [of _ "pl_versions db" v] v by (auto simp: get_active_version_def)
  have "get_version c (vn_id v) db = Some v"
  proof (cases "get_version c (vn_id v) db")
    case None
    then show ?thesis using v1(3) here by (auto simp: get_version_def find_None_iff)
  next
    case (Some w)
    then show ?thesis
      using get_version_D [OF Some] key_unique [OF policies_okD(2) [OF ok], of w v] v1(3) by simp
  qed
  then show "load_rules c (vn_id v) db = Inr (vn_rules v)" by (simp add: load_rules_def)
qed

section \<open>Properties\<close>

text \<open>
  a decision context is assembled from live authority only: it exists only for an ACTIVE
  agent of the company with an active constitution and a capability valid now, for an intent,
  proposal and assessment bound to each other and to that agent, and its policy evaluation is
  that of the rules of the one active version of the agent's policy, over the proposal.
\<close>

theorem decision_context_is_authoritative:
  assumes "orchestrate R to_iso P V i now = Inr d" and "policies_ok sha (cv_policies V)"
  shows "(\<exists>agent \<in> set (ah_agents (cv_authority V)). ag_id agent = oi_agent_id i \<and> ag_company_id agent = oi_company_id i
       \<and> ag_status agent = AG_ACTIVE
       \<and> (\<exists>c \<in> set (ah_constitutions (cv_authority V)). cn_company_id c = oi_company_id i
            \<and> cn_agent_id c = oi_agent_id i \<and> cn_status c = CN_ACTIVE)
       \<and> (\<exists>cap \<in> set (ah_capabilities (cv_authority V)). cap_id cap = dc_capability_id d
            \<and> cap_company_id cap = oi_company_id i \<and> cap_agent_id cap = oi_agent_id i
            \<and> cap_status cap = CAP_ACTIVE \<and> cap_valid_from cap \<le> now
            \<and> (\<forall>e. cap_expires_at cap = Some e \<longrightarrow> now < e)
            \<and> (\<exists>v types. filter (\<lambda>v. vn_policy_id v = po_policy_id (dc_policy_evaluation d) \<and> vn_status v = VS_ACTIVE)
                   (pl_versions (cv_policies V)) = [v]
                \<and> ag_active_policy_id agent = Some (vn_policy_id v) \<and> vn_id v = dc_policy_version_id d
                \<and> evaluate R \<lparr> ei_policy_id = vn_policy_id v, ei_policy_version = vn_version v, ei_rules = vn_rules v,
                     ei_context = orchestrator_context to_iso (oi_proposal i) cap types now \<rparr>
                   = Inr (dc_policy_evaluation d))))
    \<and> ap_intent_id (oi_proposal i) = nt_intent_id (oi_intent i) \<and> ap_agent_id (oi_proposal i) = oi_agent_id i
    \<and> nt_agent_id (oi_intent i) = oi_agent_id i
    \<and> sa_proposal_id (oi_security_assessment i) = ap_proposal_id (oi_proposal i)"
proof -
  obtain agent cap policy_id v rules types evaluation where
    auth: "resolve_authority V i now = Inr (agent, cap, policy_id, v)"
    and rules: "load_rules (oi_company_id i) (vn_id v) (cv_policies V) = Inr rules"
    and bind: "validate_assessment_binding (rt_date_ms R) (oi_security_assessment i)
        \<lparr> sb_proposal_id = ap_proposal_id (oi_proposal i), sb_max_age_ms = oi_assessment_max_age_ms i \<rparr> now = Inr ()"
    and eval: "evaluate R \<lparr> ei_policy_id = policy_id, ei_policy_version = vn_version v, ei_rules = rules,
        ei_context = orchestrator_context to_iso (oi_proposal i) cap types now \<rparr> = Inr evaluation"
    and d: "dc_policy_evaluation d = evaluation" "dc_capability_id d = cap_id cap" "dc_policy_version_id d = vn_id v"
    using assms(1) by (auto simp: orchestrate_def and_then_Inr_iff Let_def)
  note a = resolve_authority_Inr [OF auth]
  note v = load_active_rules [OF assms(2) a(11)]
  have p: "po_policy_id evaluation = policy_id" using eval by (auto simp: evaluate_def and_then_Inr_iff Let_def)
  have "v \<in> set (active_versions policy_id (cv_policies V))" using v by (simp add: active_versions_def)
  moreover obtain q where "q \<in> set (pl_policies (cv_policies V))" "pc_id q = policy_id"
    using policies_okD(4) [OF assms(2) v(4)] v(3) by auto
  ultimately have one: "active_versions policy_id (cv_policies V) = [v]"
    using policies_okD(6) [OF assms(2), of q] by auto
  have cap: "cap \<in> set (ah_capabilities (cv_authority V))" "cap_company_id cap = oi_company_id i"
    "cap_agent_id cap = oi_agent_id i" "cap_status cap = CAP_ACTIVE" "cap_valid_from cap \<le> now"
    "cap_expires_at cap = Some e \<Longrightarrow> now < e" for e
    using a(9) by (auto simp: get_active_capabilities_def split: option.splits)
  show ?thesis
    using a(1-8,10) cap one eval rules v(1,3) bind
    by (auto simp: d p active_versions_def validate_assessment_binding_Inr
        intro!: bexI [of _ agent] bexI [of _ cap] exI [of _ v] exI [of _ types])
qed

definition sample_proposal :: "string \<Rightarrow> action_proposal" where
  "sample_proposal amount = \<lparr> ap_proposal_id = ''pr'', ap_intent_id = ''in'', ap_agent_id = ''ag'', ap_action_type = PAY,
     ap_purpose = ''saas'', ap_recipient = Some \<lparr> rr_type = WALLET, rr_identifier = None, rr_address = Some ''0xr'', rr_network = None \<rparr>,
     ap_amount = Some \<lparr> mo_value = amount, mo_currency = ''USDC'' \<rparr>, ap_payment_method = None, ap_network = Some ''base'',
     ap_reason = [], ap_evidence_ids = [], ap_trajectory_event_ids = [], ap_created_at = ''now'' \<rparr>"

definition sample_intent :: "intent_status \<Rightarrow> intent" where
  "sample_intent st = \<lparr> nt_intent_id = ''in'', nt_user_id = None, nt_agent_id = ''ag'', nt_user_goal = [], nt_purpose = [],
     nt_desired_outcome = [], nt_constraints = [], nt_budget = None, nt_authorized_actions = [], nt_forbidden_actions = [],
     nt_autonomy_level = AUTO_MANUAL, nt_approval_conditions = [], nt_valid_from = ''from'', nt_valid_until = ''until'',
     nt_status = st, nt_confidence = None, nt_ambiguities = [], nt_created_at = ''now'' \<rparr>"

definition sample_assessment :: "recommended_handling \<Rightarrow> security_assessment" where
  "sample_assessment h = \<lparr> sa_assessment_id = ''as'', sa_proposal_id = ''pr'', sa_intent_verification = JNull,
     sa_threat_assessment = JNull, sa_reputation_assessment = JNull, sa_anomaly_assessment = JNull,
     sa_risk_assessment = JNull, sa_overall_assessment = \<lparr> oa_status = LOW_RISK, oa_confidence = ''1'', oa_summary = [],
       oa_recommended_handling = h \<rparr>,
     sa_explanation = [], sa_model_metadata = None, sa_created_at = ''now'' \<rparr>"

definition live_agent :: agent where
  "live_agent = \<lparr> ag_id = ''ag'', ag_company_id = ''co'', ag_name = ''payer'', ag_purpose = [], ag_status = AG_ACTIVE,
     ag_execution_mode = MODE_TESTNET, ag_active_constitution_id = Some ''c1'', ag_active_policy_id = Some ''p'' \<rparr>"

definition live_constitution :: constitution where
  "live_constitution = \<lparr> cn_id = ''c1'', cn_company_id = ''co'', cn_agent_id = ''ag'', cn_version = 1, cn_status = CN_ACTIVE,
     cn_purpose = [], cn_config = sample_config None, cn_hash = ''h'', cn_created_by = None, cn_activated_at = Some 1,
     cn_deactivated_at = None \<rparr>"

definition live_authority :: authority_db where
  "live_authority = \<lparr> ah_companies = [], ah_agents = [live_agent], ah_constitutions = [live_constitution],
     ah_capabilities = [cap_row ''k1'' None (Some ''USDC'') 100] \<rparr>"

definition live_view :: core_view where
  "live_view = \<lparr> cv_authority = live_authority, cv_policies = policies_active, cv_trajectory = empty_trajectory \<rparr>"

definition sample_orchestration :: orchestrate_input where
  "sample_orchestration = \<lparr> oi_company_id = ''co'', oi_agent_id = ''ag'', oi_intent = sample_intent INTENT_VALID,
     oi_proposal = sample_proposal ''5'', oi_security_assessment = sample_assessment PROCEED_CANDIDATE, oi_trace_id = None,
     oi_assessment_max_age_ms = None, oi_require_simulation = None \<rparr>"

definition no_providers :: providers where
  "no_providers = \<lparr> pr_analysis = None, pr_simulation = None \<rparr>"

lemma live_policies_ok: "policies_ok (\<lambda>s. s) policies_active"
  by (rule policies.reachable_inv [OF reachable_rtranclp [OF policies_active_steps policies1_reached]])

lemma live_active_version: "get_active_version ''co'' ''p'' policies_active = Some (version_row VS_ACTIVE (Some 5))"
  by (simp add: get_active_version_def policy_in_company_def get_policy_def policies_active_value version_row_def policy_row_def)

lemma live_resolves:
  "resolve_authority live_view sample_orchestration 5
     = Inr (live_agent, cap_row ''k1'' None (Some ''USDC'') 100, ''p'', version_row VS_ACTIVE (Some 5))"
  by (simp add: resolve_authority_def sample_orchestration_def sample_proposal_def sample_intent_def live_view_def
      live_authority_def require_agent_def get_agent_def live_agent_def get_active_constitution_def
      live_constitution_def get_active_capabilities_def cap_row_def live_active_version
      validate_proposal_intake_def from_option_def Let_def)

lemma sample_rules_evaluate:
  assumes "ec_amount c = Some ''5''" and "ec_cumulative_spent c = None" and "ec_cumulative_by_key c = None"
  shows "\<exists>out. evaluate sample_runtime \<lparr> ei_policy_id = p, ei_policy_version = n, ei_rules = sample_rules, ei_context = c \<rparr> = Inr out
     \<and> po_status out = EVAL_PASS"
  using assms
  by (simp add: evaluate_def sample_rules_def sample_rule_def enabled_rules_def
      rule_order_key_def rule_enabled_def sample_runtime_def evaluate_rule_def RULE_TYPES_def
      amount_limit_def cumulative_limit_def cfg_def spent_text_def Let_def from_option_def
      money_eval decimal_of_json_def outcome_def aggregate_status_def is_requirement_def)

lemma live_orchestrates:
  "\<exists>d. orchestrate sample_runtime (\<lambda>_. ''t'') no_providers live_view sample_orchestration 5 = Inr d
     \<and> po_status (dc_policy_evaluation d) = EVAL_PASS \<and> po_policy_id (dc_policy_evaluation d) = ''p''"
proof -
  let ?c = "orchestrator_context (\<lambda>_. ''t'') (sample_proposal ''5'') (cap_row ''k1'' None (Some ''USDC'') 100) [] 5"
  obtain out where out: "evaluate sample_runtime \<lparr> ei_policy_id = ''p'', ei_policy_version = 1, ei_rules = sample_rules,
      ei_context = ?c \<rparr> = Inr out" "po_status out = EVAL_PASS"
    using sample_rules_evaluate [of ?c] by (auto simp: orchestrator_context_def sample_proposal_def)
  have "po_policy_id out = ''p''" using out(1) by (auto simp: evaluate_def and_then_Inr_iff Let_def)
  moreover have "load_rules ''co'' ''v1'' policies_active = Inr sample_rules"
    using load_active_rules(1) [OF live_policies_ok live_active_version] by (simp add: version_row_def)
  ultimately show ?thesis
    using out live_resolves
    by (simp add: orchestrate_def trajectory_types_def validate_assessment_binding_def request_analysis_def
        request_simulation_def no_providers_def Let_def version_row_def sample_orchestration_def live_view_def)
      (simp add: sample_assessment_def sample_proposal_def)
qed

theorem decision_context_is_authoritative_witness:
  "\<exists>d v. orchestrate sample_runtime (\<lambda>_. ''t'') no_providers live_view sample_orchestration 5 = Inr d
     \<and> filter (\<lambda>v. vn_policy_id v = ''p'' \<and> vn_status v = VS_ACTIVE) (pl_versions policies_active) = [v]
     \<and> vn_id v = dc_policy_version_id d"
proof -
  obtain d where d: "orchestrate sample_runtime (\<lambda>_. ''t'') no_providers live_view sample_orchestration 5 = Inr d"
    "po_policy_id (dc_policy_evaluation d) = ''p''"
    using live_orchestrates by blast
  have ok: "policies_ok (\<lambda>s. s) (cv_policies live_view)" using live_policies_ok by (simp add: live_view_def)
  obtain v where "filter (\<lambda>v. vn_policy_id v = ''p'' \<and> vn_status v = VS_ACTIVE) (pl_versions (cv_policies live_view)) = [v]"
    "vn_id v = dc_policy_version_id d"
    using decision_context_is_authoritative [OF d(1) ok] d(2) by auto
  with d show ?thesis by (auto simp: live_view_def)
qed

section \<open>An expired intent\<close>

text \<open>
  The orchestrator does not look at the status or the end of validity of the intent: an EXPIRED
  one yields the same decision context.
\<close>

theorem expired_intent_orchestrated:
  "validate_intent_intake date_ms (sample_intent INTENT_STATUS_EXPIRED) \<lparr> ib_company_id = ''co'', ib_agent_id = ''ag'' \<rparr> now
     = Inl INTENT_INVALID
   \<and> (\<exists>d. orchestrate sample_runtime (\<lambda>_. ''t'') no_providers live_view
        (sample_orchestration\<lparr>oi_intent := sample_intent INTENT_STATUS_EXPIRED\<rparr>) 5 = Inr d)"
proof
  show "validate_intent_intake date_ms (sample_intent INTENT_STATUS_EXPIRED) \<lparr> ib_company_id = ''co'', ib_agent_id = ''ag'' \<rparr> now
     = Inl INTENT_INVALID"
    by (simp add: validate_intent_intake_def sample_intent_def)
  have "resolve_authority live_view (sample_orchestration\<lparr>oi_intent := sample_intent INTENT_STATUS_EXPIRED\<rparr>) 5
      = resolve_authority live_view sample_orchestration 5"
    by (simp add: resolve_authority_def sample_orchestration_def sample_intent_def cong: if_cong list.case_cong option.case_cong)
  moreover have "oi_trace_id sample_orchestration = None" by (simp add: sample_orchestration_def)
  ultimately show "\<exists>d. orchestrate sample_runtime (\<lambda>_. ''t'') no_providers live_view
        (sample_orchestration\<lparr>oi_intent := sample_intent INTENT_STATUS_EXPIRED\<rparr>) 5 = Inr d"
    using live_orchestrates
    by (auto simp: orchestrate_def and_then_Inr_iff Let_def trajectory_types_def)
qed

end
