(* ===== verification/Intake_Service.thy ===== *)
theory Intake_Service
  imports Orchestrator
begin

text \<open>
  The intake of AI artifacts (Backend/src/application/intake.service.ts): intents, proposals and
  assessments, persisted per tenant after schema validation and reference checks. The schemas
  are Zod's and a parameter: \<open>contract_parser\<close> gives, for a payload that passes, the parsed JSON
  value and its typed reading. An identifier, the creation time and the agents of Core are
  arguments.
\<close>

section \<open>Tables\<close>

record contract_parser =
  cp_intent :: "json \<Rightarrow> (json \<times> intent) option"
  cp_proposal :: "json \<Rightarrow> (json \<times> action_proposal) option"
  cp_assessment :: "json \<Rightarrow> (json \<times> security_assessment) option"

datatype intent_record_status = NR_VALID | NR_NEEDS_CLARIFICATION | NR_EXPIRED | NR_CANCELLED | NR_COMPLETED

record intent_row =
  nw_id :: string
  nw_company_id :: string
  nw_agent_id :: string
  nw_user_goal :: string
  nw_purpose :: string
  nw_desired_outcome :: string
  nw_intent_json :: json
  nw_autonomy_level :: autonomy_level
  nw_valid_from :: int
  nw_valid_until :: int
  nw_status :: intent_record_status
  nw_created_at :: int

datatype proposal_record_status =
  PR_RECEIVED | PR_VALIDATING | PR_EVALUATING | PR_APPROVED_CANDIDATE | PR_REVIEW_REQUIRED | PR_DENIED | PR_COMPLETED

record proposal_row =
  pw_id :: string
  pw_company_id :: string
  pw_agent_id :: string
  pw_intent_id :: string
  pw_trace_id :: "string option"
  pw_action_type :: string
  pw_purpose :: string
  pw_proposal_json :: json
  pw_payment_method :: "string option"
  pw_network :: "string option"
  pw_evidence_refs :: "string list"
  pw_trajectory_refs :: "string list"
  pw_status :: proposal_record_status
  pw_created_at :: int

record assessment_row =
  sw_id :: string
  sw_company_id :: string
  sw_agent_id :: "string option"
  sw_proposal_id :: string
  sw_trace_id :: "string option"
  sw_assessment_json :: json
  sw_overall_status :: overall_status
  sw_recommended_handling :: recommended_handling
  sw_assessment_hash :: string
  sw_model_metadata :: "json option"
  sw_created_at :: int

record intake_db =
  ik_intents :: "intent_row list"
  ik_proposals :: "proposal_row list"
  ik_assessments :: "assessment_row list"

type_synonym 'a intake_op = "(intake_db, error_code, 'a) op"

text \<open>\<open>orderBy: createdAt desc\<close>; the database leaves the order of equal times open.\<close>

definition newest_first :: "('r \<Rightarrow> int) \<Rightarrow> 'r list \<Rightarrow> 'r list" where
  "newest_first created rows = sort_key (\<lambda>r. - created r) rows"

section \<open>Intents\<close>

fun stored_status :: "intent_status \<Rightarrow> intent_record_status" where
  "stored_status INTENT_VALID = NR_VALID"
| "stored_status INTENT_NEEDS_CLARIFICATION = NR_NEEDS_CLARIFICATION"
| "stored_status INTENT_STATUS_EXPIRED = NR_EXPIRED"
| "stored_status INTENT_STATUS_INVALID = NR_CANCELLED"

definition create_intent ::
    "contract_parser \<Rightarrow> runtime \<Rightarrow> authority_db \<Rightarrow> int \<Rightarrow> string \<Rightarrow> string \<Rightarrow> json \<Rightarrow> intent_row intake_op" where
  "create_intent P R A now nid company_id payload db =
     (case cp_intent P payload of
        None \<Rightarrow> (Inl INVALID_INPUT, db)
      | Some (j, i) \<Rightarrow>
         (case get_agent company_id (nt_agent_id i) A of
            None \<Rightarrow> (Inl AGENT_NOT_FOUND, db)
          | Some _ \<Rightarrow>
             (case (rt_date_ms R (nt_valid_from i), rt_date_ms R (nt_valid_until i)) of
                (Some f, Some u) \<Rightarrow>
                 (let row = \<lparr> nw_id = nid, nw_company_id = company_id, nw_agent_id = nt_agent_id i,
                    nw_user_goal = nt_user_goal i, nw_purpose = nt_purpose i,
                    nw_desired_outcome = nt_desired_outcome i, nw_intent_json = j,
                    nw_autonomy_level = nt_autonomy_level i, nw_valid_from = f, nw_valid_until = u,
                    nw_status = stored_status (nt_status i), nw_created_at = now \<rparr>
                  in (Inr row, db\<lparr>ik_intents := ik_intents db @ [row]\<rparr>))
              | _ \<Rightarrow> (Inl INTERNAL_ERROR, db))))"

definition get_intent :: "string \<Rightarrow> string \<Rightarrow> intake_db \<Rightarrow> intent_row option" where
  "get_intent company_id i db = find (\<lambda>r. nw_id r = i \<and> nw_company_id r = company_id) (ik_intents db)"

definition list_intents :: "string \<Rightarrow> int \<Rightarrow> int \<Rightarrow> intake_db \<Rightarrow> intent_row list \<times> int" where
  "list_intents company_id skip n db =
     (let rows = filter (\<lambda>r. nw_company_id r = company_id) (ik_intents db)
      in (take (nat n) (drop (nat skip) (newest_first nw_created_at rows)), int (length rows)))"

section \<open>Proposals\<close>

definition create_proposal ::
    "contract_parser \<Rightarrow> int \<Rightarrow> string \<Rightarrow> string \<Rightarrow> json \<Rightarrow> proposal_row intake_op" where
  "create_proposal P now nid company_id payload db =
     (case cp_proposal P payload of
        None \<Rightarrow> (Inl PROPOSAL_INVALID, db)
      | Some (j, p) \<Rightarrow>
         (case get_intent company_id (ap_intent_id p) db of
            None \<Rightarrow> (Inl PROPOSAL_INVALID, db)
          | Some i \<Rightarrow>
              if nw_agent_id i \<noteq> ap_agent_id p then (Inl PROPOSAL_INVALID, db)
              else
               (let row = \<lparr> pw_id = nid, pw_company_id = company_id, pw_agent_id = ap_agent_id p,
                  pw_intent_id = ap_intent_id p,
                  pw_trace_id = (case ap_trajectory_event_ids p of [] \<Rightarrow> None | t # _ \<Rightarrow> Some t),
                  pw_action_type = action_name (ap_action_type p), pw_purpose = ap_purpose p,
                  pw_proposal_json = j, pw_payment_method = ap_payment_method p, pw_network = ap_network p,
                  pw_evidence_refs = ap_evidence_ids p, pw_trajectory_refs = ap_trajectory_event_ids p,
                  pw_status = PR_RECEIVED, pw_created_at = now \<rparr>
                in (Inr row, db\<lparr>ik_proposals := ik_proposals db @ [row]\<rparr>))))"

definition get_proposal :: "string \<Rightarrow> string \<Rightarrow> intake_db \<Rightarrow> proposal_row option" where
  "get_proposal company_id i db = find (\<lambda>r. pw_id r = i \<and> pw_company_id r = company_id) (ik_proposals db)"

definition list_proposals :: "string \<Rightarrow> int \<Rightarrow> int \<Rightarrow> intake_db \<Rightarrow> proposal_row list \<times> int" where
  "list_proposals company_id skip n db =
     (let rows = filter (\<lambda>r. pw_company_id r = company_id) (ik_proposals db)
      in (take (nat n) (drop (nat skip) (newest_first pw_created_at rows)), int (length rows)))"

section \<open>Assessments\<close>

definition ingest_assessment ::
    "contract_parser \<Rightarrow> runtime \<Rightarrow> int \<Rightarrow> string \<Rightarrow> string \<Rightarrow> string \<Rightarrow> json \<Rightarrow> assessment_row intake_op" where
  "ingest_assessment P R now nid company_id proposal_id payload db =
     (case cp_assessment P payload of
        None \<Rightarrow> (Inl SECURITY_ASSESSMENT_INVALID, db)
      | Some (j, s) \<Rightarrow>
         (case get_proposal company_id proposal_id db of
            None \<Rightarrow> (Inl PROPOSAL_INVALID, db)
          | Some p \<Rightarrow>
             (let row = \<lparr> sw_id = nid, sw_company_id = company_id, sw_agent_id = Some (pw_agent_id p),
                sw_proposal_id = proposal_id, sw_trace_id = pw_trace_id p, sw_assessment_json = j,
                sw_overall_status = oa_status (sa_overall_assessment s),
                sw_recommended_handling = oa_recommended_handling (sa_overall_assessment s),
                sw_assessment_hash = sha256_json (rt_sha R) j, sw_model_metadata = sa_model_metadata s,
                sw_created_at = now \<rparr>
              in (Inr row, db\<lparr>ik_assessments := ik_assessments db @ [row]\<rparr>))))"

definition get_latest_assessment :: "string \<Rightarrow> string \<Rightarrow> intake_db \<Rightarrow> assessment_row option" where
  "get_latest_assessment company_id proposal_id db =
     (case newest_first sw_created_at
        (filter (\<lambda>r. sw_company_id r = company_id \<and> sw_proposal_id r = proposal_id) (ik_assessments db)) of
        [] \<Rightarrow> None | r # _ \<Rightarrow> Some r)"

section \<open>The tables beside Core's agents\<close>

inductive intake_step ::
    "contract_parser \<Rightarrow> runtime \<Rightarrow> authority_db \<times> intake_db \<Rightarrow> authority_db \<times> intake_db \<Rightarrow> bool" for P R where
  istep_authority: "authority_step (rt_sha R) A A' \<Longrightarrow> intake_step P R (A, db) (A', db)"
| istep_intent: "intake_step P R (A, db) (A, snd (create_intent P R A now nid c payload db))"
| istep_proposal: "intake_step P R (A, db) (A, snd (create_proposal P now nid c payload db))"
| istep_assessment: "intake_step P R (A, db) (A, snd (ingest_assessment P R now nid c i payload db))"

inductive_cases intake_stepE: "intake_step P R s t"

definition empty_intake :: "authority_db \<times> intake_db \<Rightarrow> bool" where
  "empty_intake s \<longleftrightarrow> snd s = \<lparr> ik_intents = [], ik_proposals = [], ik_assessments = [] \<rparr>"

text \<open>Every reference names a row of the same tenant and agrees with it on the agent.\<close>

definition references_closed :: "authority_db \<times> intake_db \<Rightarrow> bool" where
  "references_closed s \<longleftrightarrow> (case s of (A, db) \<Rightarrow>
     (\<forall>n \<in> set (ik_intents db). \<exists>a \<in> set (ah_agents A). ag_id a = nw_agent_id n \<and> ag_company_id a = nw_company_id n)
   \<and> (\<forall>p \<in> set (ik_proposals db). \<exists>n \<in> set (ik_intents db).
        nw_id n = pw_intent_id p \<and> nw_company_id n = pw_company_id p \<and> nw_agent_id n = pw_agent_id p)
   \<and> (\<forall>x \<in> set (ik_assessments db). \<exists>p \<in> set (ik_proposals db).
        pw_id p = sw_proposal_id x \<and> pw_company_id p = sw_company_id x
        \<and> sw_agent_id x = Some (pw_agent_id p) \<and> sw_trace_id x = pw_trace_id p))"

section \<open>Lemmas\<close>

text \<open>Agents are never removed and never change tenant.\<close>

lemma authority_step_agents:
  assumes "authority_step sha A A'" and "a \<in> set (ah_agents A)"
  shows "\<exists>a' \<in> set (ah_agents A'). ag_id a' = ag_id a \<and> ag_company_id a' = ag_company_id a"
  using assms
proof (induction)
  case (step_agent_status db c i st)
  then show ?case
    by (auto simp: transition_agent_def bex_update_where split: sum.splits)
next
  case (step_activate db now c cid)
  then show ?case
    by (auto simp: activate_constitution_def transaction_def Let_def bex_update_where split: option.splits sum.splits)
next
  case (step_agent nid db i)
  then show ?case by (auto simp: create_agent_def Let_def split: option.splits)
next
  case (step_constitution nid db c a config cb)
  then show ?case by (auto simp: create_constitution_def Let_def split: option.splits sum.splits)
next
  case (step_company db nid name)
  then show ?case by (auto simp: create_company_def Let_def split: option.splits)
next
  case (step_company_status db c cst)
  then show ?case by (auto simp: update_company_status_def split: sum.splits)
qed

lemma get_intent_D: "get_intent c i db = Some n \<Longrightarrow> n \<in> set (ik_intents db) \<and> nw_id n = i \<and> nw_company_id n = c"
  by (auto simp: get_intent_def dest: find_SomeD)

lemma get_proposal_D: "get_proposal c i db = Some p \<Longrightarrow> p \<in> set (ik_proposals db) \<and> pw_id p = i \<and> pw_company_id p = c"
  by (auto simp: get_proposal_def dest: find_SomeD)

lemma references_closed_step:
  assumes "intake_step P R s t" and "references_closed s"
  shows "references_closed t"
  using assms
proof (induction)
  case (istep_authority A A' db)
  have "\<exists>a' \<in> set (ah_agents A'). ag_id a' = nw_agent_id n \<and> ag_company_id a' = nw_company_id n"
    if n: "n \<in> set (ik_intents db)" for n
  proof -
    obtain a where "a \<in> set (ah_agents A)" "ag_id a = nw_agent_id n" "ag_company_id a = nw_company_id n"
      using istep_authority.prems n by (auto simp: references_closed_def)
    with authority_step_agents [OF istep_authority.hyps, of a] show ?thesis by simp
  qed
  with istep_authority.prems show ?case by (simp add: references_closed_def)
next
  case (istep_intent A db now nid c payload)
  then show ?case
    by (auto simp: references_closed_def create_intent_def Let_def dest: get_agent_D split: option.splits)
next
  case (istep_proposal A db now nid c payload)
  then show ?case
    by (auto simp: references_closed_def create_proposal_def Let_def dest: get_intent_D split: option.splits)
next
  case (istep_assessment A db now nid c i payload)
  then show ?case
    by (auto simp: references_closed_def ingest_assessment_def Let_def dest: get_proposal_D split: option.splits)
qed

interpretation intake: invariant_system empty_intake "intake_step P R" references_closed for P R
proof unfold_locales
  show "references_closed s" if "empty_intake s" for s
    using that by (cases s) (simp add: references_closed_def empty_intake_def)
qed (rule references_closed_step)

section \<open>Properties\<close>

text \<open>
  C37: the intake tables are well-formed in every reachable state: each intent belongs to an
  agent of its company, each proposal to an intent of its company and agent, each assessment to a
  proposal of its company, with its agent and trace.
\<close>

theorem intake_references_in_tenant:
  assumes "reachable empty_intake (intake_step P R) (A, db)"
  shows "(\<forall>n \<in> set (ik_intents db). \<exists>a \<in> set (ah_agents A). ag_id a = nw_agent_id n \<and> ag_company_id a = nw_company_id n)
   \<and> (\<forall>p \<in> set (ik_proposals db). \<exists>n \<in> set (ik_intents db).
        nw_id n = pw_intent_id p \<and> nw_company_id n = pw_company_id p \<and> nw_agent_id n = pw_agent_id p)
   \<and> (\<forall>x \<in> set (ik_assessments db). \<exists>p \<in> set (ik_proposals db).
        pw_id p = sw_proposal_id x \<and> pw_company_id p = sw_company_id x
        \<and> sw_agent_id x = Some (pw_agent_id p) \<and> sw_trace_id x = pw_trace_id p)"
  using intake.reachable_inv [OF assms] by (simp add: references_closed_def)

definition sample_parser_of :: contract_parser where
  "sample_parser_of = \<lparr> cp_intent = (\<lambda>j. Some (j, sample_intent INTENT_VALID)),
     cp_proposal = (\<lambda>j. Some (j, sample_proposal ''5'')),
     cp_assessment = (\<lambda>j. Some (j, sample_assessment PROCEED_CANDIDATE)) \<rparr>"

definition no_intake :: intake_db where
  "no_intake = \<lparr> ik_intents = [], ik_proposals = [], ik_assessments = [] \<rparr>"

definition intake1 :: intake_db where
  "intake1 = snd (create_intent sample_parser_of sample_runtime authority1 1 ''in'' ''co'' JNull no_intake)"

definition intake2 :: intake_db where
  "intake2 = snd (create_proposal sample_parser_of 2 ''pr'' ''co'' JNull intake1)"

definition intake3 :: intake_db where
  "intake3 = snd (ingest_assessment sample_parser_of sample_runtime 3 ''as'' ''co'' ''pr'' JNull intake2)"

lemmas intake_eval = create_intent_def create_proposal_def ingest_assessment_def get_intent_def get_proposal_def
  sample_parser_of_def no_intake_def sample_intent_def sample_proposal_def sample_assessment_def sample_runtime_def
  get_agent_def authority1_value

theorem intake_references_in_tenant_witness:
  "map pw_intent_id (ik_proposals intake3) = [''in''] \<and> map sw_proposal_id (ik_assessments intake3) = [''pr'']
   \<and> (\<exists>p \<in> set (ik_proposals intake3). pw_id p = ''pr'')"
proof -
  have rows: "map pw_intent_id (ik_proposals intake3) = [''in'']" "map sw_proposal_id (ik_assessments intake3) = [''pr'']"
    by (simp_all add: intake3_def intake2_def intake1_def intake_eval Let_def)
  have s: "intake_step sample_parser_of sample_runtime (authority1, no_intake) (authority1, intake1)"
    "intake_step sample_parser_of sample_runtime (authority1, intake1) (authority1, intake2)"
    "intake_step sample_parser_of sample_runtime (authority1, intake2) (authority1, intake3)"
    unfolding intake1_def intake2_def intake3_def by (rule istep_intent istep_proposal istep_assessment)+
  have "reachable empty_intake (intake_step sample_parser_of sample_runtime) (authority1, no_intake)"
    by (rule reachable_init) (simp add: empty_intake_def no_intake_def)
  then have r: "reachable empty_intake (intake_step sample_parser_of sample_runtime) (authority1, intake3)"
    using s by (blast intro: reachable_step)
  obtain x where x: "x \<in> set (ik_assessments intake3)" "sw_proposal_id x = ''pr''"
    using rows(2) by (auto simp: map_eq_Cons_conv)
  have "\<exists>p \<in> set (ik_proposals intake3). pw_id p = sw_proposal_id x"
    using intake_references_in_tenant [OF r] x(1) by blast
  with rows x(2) show ?thesis by simp
qed

section \<open>An assessment of another proposal\<close>

text \<open>
  The proposal an assessment is filed under is the one of the URL; the one it names itself is not
  compared, so the assessment of one proposal can be filed as the latest one of another.
\<close>

theorem foreign_assessment_filed:
  assumes "cp_assessment P payload = Some (j, s)" and "get_proposal c i db = Some p" and "sa_proposal_id s \<noteq> i"
  shows "\<exists>row db'. ingest_assessment P R now nid c i payload db = (Inr row, db')
    \<and> sw_proposal_id row = i \<and> row \<in> set (ik_assessments db')"
  using assms(1,2) by (simp add: ingest_assessment_def Let_def)

end
