(* ===== verification/Decision_Engine.thy ===== *)
theory Decision_Engine
  imports Transaction_Gate Policy_Engine
begin

text \<open>
  The decision engine (Backend/src/decision/engine.ts): the precedence ladder that turns the
  assembled context into ALLOW, REVIEW or DENY with its determinant, and the decision context
  hash. The human-readable reasons are left out; the determinant names the rule that decided.
\<close>

section \<open>Definitions\<close>

datatype required_approval_status =
    AS_NONE | AS_PENDING | AS_APPROVED | AS_DENIED | AS_EXPIRED | AS_MISMATCH

datatype approval_state = Approval_not_required | Approval_required required_approval_status

record policy_evaluation_ref =
  pe_status :: policy_evaluation_status
  pe_policy_id :: string
  pe_policy_version :: int
  pe_evaluation_hash :: string

record decision_input =
  di_platform_invariant_violated :: bool
  di_agent_active :: bool
  di_intent_valid :: bool
  di_capability_valid :: bool
  di_constitution_compatible :: bool
  di_policy_evaluation :: policy_evaluation_ref
  di_transaction_gate :: "transaction_gate_result option"
  di_simulation_required :: bool
  di_simulation_outcome :: "simulation_outcome option"
  di_simulation_binding :: "simulation_binding_status option"
  di_context_stale :: bool
  di_approval :: approval_state
  di_ai_recommended_handling :: "recommended_handling option"

datatype determinant =
    D_platform_invariant | D_agent_inactive | D_intent_invalid | D_constitution_incompatible
  | D_capability_invalid | D_policy_violation | D_transaction_mismatch
  | D_simulation_binding_invalid | D_simulation_deny | D_simulation_required | D_context_stale
  | D_approval_denied | D_approval_expired | D_approval_mismatch | D_approval_required
  | D_policy_review | D_ai_advisory_review | D_simulation_review | D_allow

record decision_output =
  do_result :: decision_result
  do_determinant :: determinant

definition deny :: "determinant \<Rightarrow> decision_output" where
  "deny d = \<lparr> do_result = DENY, do_determinant = d \<rparr>"

definition review :: "determinant \<Rightarrow> decision_output" where
  "review d = \<lparr> do_result = REVIEW, do_determinant = d \<rparr>"

text \<open>The ladder from its eighth rung down, reached when every required approval is given.\<close>

definition decide_review_or_allow :: "decision_input \<Rightarrow> decision_output" where
  "decide_review_or_allow i =
     (if pe_status (di_policy_evaluation i) = EVAL_REVIEW then review D_policy_review
      else if di_ai_recommended_handling i = Some DENY_RECOMMENDED
            \<or> di_ai_recommended_handling i = Some HANDLE_REVIEW then review D_ai_advisory_review
      else if di_simulation_outcome i = Some SO_REVIEW then review D_simulation_review
      else \<lparr> do_result = ALLOW, do_determinant = D_allow \<rparr>)"

definition decide :: "decision_input \<Rightarrow> decision_output" where
  "decide i =
     (if di_platform_invariant_violated i then deny D_platform_invariant
      else if \<not> di_agent_active i then deny D_agent_inactive
      else if \<not> di_intent_valid i then deny D_intent_invalid
      else if \<not> di_constitution_compatible i then deny D_constitution_incompatible
      else if \<not> di_capability_valid i then deny D_capability_invalid
      else if pe_status (di_policy_evaluation i) = EVAL_FAIL then deny D_policy_violation
      else if (case di_transaction_gate i of None \<Rightarrow> False | Some g \<Rightarrow> tg_status g = MISMATCH)
        then deny D_transaction_mismatch
      else if (case di_simulation_binding i of None \<Rightarrow> False | Some b \<Rightarrow> b \<noteq> BIND_VALID)
        then deny D_simulation_binding_invalid
      else if di_simulation_outcome i = Some SO_DENY then deny D_simulation_deny
      else if di_simulation_required i
            \<and> (di_simulation_outcome i = None \<or> di_simulation_outcome i = Some SO_FAIL_CLOSED)
        then deny D_simulation_required
      else if di_context_stale i then deny D_context_stale
      else (case di_approval i of
          Approval_not_required \<Rightarrow> decide_review_or_allow i
        | Approval_required st \<Rightarrow>
            (case st of
               AS_APPROVED \<Rightarrow> decide_review_or_allow i
             | AS_DENIED \<Rightarrow> deny D_approval_denied
             | AS_EXPIRED \<Rightarrow> deny D_approval_expired
             | AS_MISMATCH \<Rightarrow> deny D_approval_mismatch
             | AS_PENDING \<Rightarrow> review D_approval_required
             | AS_NONE \<Rightarrow> review D_approval_required)))"

record decision_hash_context =
  hc_intent_id :: string
  hc_proposal_id :: string
  hc_policy_id :: string
  hc_policy_version :: int
  hc_policy_evaluation_hash :: string
  hc_security_assessment_id :: string
  hc_transaction_id :: "string option"
  hc_transaction_payload_hash :: "string option"
  hc_simulation_id :: "string option"
  hc_approval_context_hash :: "string option"

definition decision_context_json :: "decision_hash_context \<Rightarrow> json" where
  "decision_context_json c = JObj
     [(''intentId'', JStr (hc_intent_id c)),
      (''proposalId'', JStr (hc_proposal_id c)),
      (''policyId'', JStr (hc_policy_id c)),
      (''policyVersion'', JNum (hc_policy_version c)),
      (''policyEvaluationHash'', JStr (hc_policy_evaluation_hash c)),
      (''securityAssessmentId'', JStr (hc_security_assessment_id c)),
      (''transactionId'', json_opt (hc_transaction_id c)),
      (''transactionPayloadHash'', json_opt (hc_transaction_payload_hash c)),
      (''simulationId'', json_opt (hc_simulation_id c)),
      (''approvalContextHash'', json_opt (hc_approval_context_hash c))]"

definition context_hash :: "(string \<Rightarrow> string) \<Rightarrow> decision_hash_context \<Rightarrow> string" where
  "context_hash sha c = sha256_json sha (decision_context_json c)"

section \<open>Lemmas\<close>

lemma do_simps [simp]:
  "do_result (deny d) = DENY" "do_determinant (deny d) = d"
  "do_result (review d) = REVIEW" "do_determinant (review d) = d"
  by (simp_all add: deny_def review_def)

text \<open>What blocks an authorization outright, and what merely raises it to a review.\<close>

definition hard_block :: "decision_input \<Rightarrow> bool" where
  "hard_block i \<longleftrightarrow>
     di_platform_invariant_violated i
   \<or> \<not> (di_agent_active i \<and> di_intent_valid i \<and> di_constitution_compatible i \<and> di_capability_valid i)
   \<or> pe_status (di_policy_evaluation i) = EVAL_FAIL
   \<or> (\<exists>g. di_transaction_gate i = Some g \<and> tg_status g = MISMATCH)
   \<or> (\<exists>b. di_simulation_binding i = Some b \<and> b \<noteq> BIND_VALID)
   \<or> di_simulation_outcome i = Some SO_DENY
   \<or> (di_simulation_required i \<and> di_simulation_outcome i \<in> {None, Some SO_FAIL_CLOSED})
   \<or> di_context_stale i
   \<or> di_approval i \<in> Approval_required ` {AS_DENIED, AS_EXPIRED, AS_MISMATCH}"

definition needs_review :: "decision_input \<Rightarrow> bool" where
  "needs_review i \<longleftrightarrow>
     di_approval i \<in> Approval_required ` {AS_NONE, AS_PENDING}
   \<or> pe_status (di_policy_evaluation i) = EVAL_REVIEW
   \<or> di_ai_recommended_handling i \<in> {Some DENY_RECOMMENDED, Some HANDLE_REVIEW}
   \<or> di_simulation_outcome i = Some SO_REVIEW"

lemma decide_review_or_allow_result:
  "do_result (decide_review_or_allow i) =
     (if pe_status (di_policy_evaluation i) = EVAL_REVIEW
       \<or> di_ai_recommended_handling i \<in> {Some DENY_RECOMMENDED, Some HANDLE_REVIEW}
       \<or> di_simulation_outcome i = Some SO_REVIEW then REVIEW else ALLOW)"
  by (simp add: decide_review_or_allow_def)

lemma decide_result:
  "do_result (decide i) = (if hard_block i then DENY else if needs_review i then REVIEW else ALLOW)"
proof (cases "di_approval i")
  case Approval_not_required
  then show ?thesis
    by (auto simp: decide_def hard_block_def needs_review_def decide_review_or_allow_result
        split: option.splits)
next
  case (Approval_required st)
  then show ?thesis
    by (cases st) (auto simp: decide_def hard_block_def needs_review_def decide_review_or_allow_result
        split: option.splits)
qed

lemma decision_context_json_eqI:
  assumes "canonicalize (decision_context_json c) = canonicalize (decision_context_json d)"
  shows "c = d"
proof -
  have m: "map_option canonicalize (map_of a k) = map_option canonicalize (map_of b k)"
    if "decision_context_json c = JObj a" "decision_context_json d = JObj b" for a b k
    by (rule canonicalize_member)
       (use assms that in \<open>simp, auto simp: decision_context_json_def\<close>)
  note m = m [OF decision_context_json_def decision_context_json_def]
  show ?thesis
    using m [of "''intentId''"] m [of "''proposalId''"] m [of "''policyId''"] m [of "''policyVersion''"]
      m [of "''policyEvaluationHash''"] m [of "''securityAssessmentId''"] m [of "''transactionId''"]
      m [of "''transactionPayloadHash''"] m [of "''simulationId''"] m [of "''approvalContextHash''"]
    by simp
qed

section \<open>Properties\<close>

text \<open>
  C1: the engine allows exactly when everything holds at once: no platform violation, live
  agent, intent, constitution and capability, a PASSing policy, no transaction mismatch, no
  invalid simulation binding, a simulation outcome that neither denies nor asks for a review and
  that is present when simulation is mandatory, a fresh context, every required approval given,
  and no advisory escalation.
\<close>

theorem allow_iff_all_conditions:
  "do_result (decide i) = ALLOW \<longleftrightarrow>
     \<not> di_platform_invariant_violated i \<and> di_agent_active i \<and> di_intent_valid i
   \<and> di_constitution_compatible i \<and> di_capability_valid i
   \<and> pe_status (di_policy_evaluation i) = EVAL_PASS
   \<and> map_option tg_status (di_transaction_gate i) \<noteq> Some MISMATCH
   \<and> di_simulation_binding i \<in> {None, Some BIND_VALID}
   \<and> (case di_simulation_outcome i of
        None \<Rightarrow> \<not> di_simulation_required i
      | Some out \<Rightarrow> out = SO_CONTINUE \<or> out = SO_FAIL_CLOSED \<and> \<not> di_simulation_required i)
   \<and> \<not> di_context_stale i
   \<and> di_approval i \<in> {Approval_not_required, Approval_required AS_APPROVED}
   \<and> di_ai_recommended_handling i \<in> {None, Some PROCEED_CANDIDATE, Some MONITOR}"
proof -
  have st: "st = EVAL_PASS \<longleftrightarrow> st \<noteq> EVAL_FAIL \<and> st \<noteq> EVAL_REVIEW" for st by (cases st) auto
  have ap: "a \<in> {Approval_not_required, Approval_required AS_APPROVED} \<longleftrightarrow>
      a \<notin> Approval_required ` {AS_DENIED, AS_EXPIRED, AS_MISMATCH} \<and>
      a \<notin> Approval_required ` {AS_NONE, AS_PENDING}" for a
    by (cases a; cases "case a of Approval_required x \<Rightarrow> x") (auto split: approval_state.splits)
  have ai: "h \<in> {None, Some PROCEED_CANDIDATE, Some MONITOR} \<longleftrightarrow>
      h \<notin> {Some DENY_RECOMMENDED, Some HANDLE_REVIEW}" for h
    by (cases h; cases "the h") auto
  have so: "(case x of None \<Rightarrow> \<not> req
      | Some out \<Rightarrow> out = SO_CONTINUE \<or> out = SO_FAIL_CLOSED \<and> \<not> req) \<longleftrightarrow>
      x \<noteq> Some SO_DENY \<and> x \<noteq> Some SO_REVIEW \<and> \<not> (req \<and> x \<in> {None, Some SO_FAIL_CLOSED})" for x req
    by (cases x; cases "the x") auto
  have bi: "b \<in> {None, Some BIND_VALID} \<longleftrightarrow> \<not> (\<exists>x. b = Some x \<and> x \<noteq> BIND_VALID)" for b
    by (cases b) auto
  show ?thesis
    unfolding decide_result hard_block_def needs_review_def st ap ai so bi by auto
qed

text \<open>
  the advisory signal is never authority: whatever it says, it neither authorizes what the
  engine would not allow without it nor turns anything into a denial; at most an ALLOW becomes
  a REVIEW.
\<close>

theorem advisory_never_authorizes:
  "do_result (decide (i\<lparr>di_ai_recommended_handling := h\<rparr>))
       \<le> do_result (decide (i\<lparr>di_ai_recommended_handling := None\<rparr>))
   \<and> (do_result (decide (i\<lparr>di_ai_recommended_handling := h\<rparr>)) = DENY \<longleftrightarrow>
        do_result (decide (i\<lparr>di_ai_recommended_handling := None\<rparr>)) = DENY)"
  by (auto simp: decide_result hard_block_def needs_review_def)

text \<open>
  a hard failure is final: when the context is denied with no approval required and no
  advisory at hand, no approval state and no advisory changes the outcome or its determinant.
\<close>

theorem hard_failure_not_overridden:
  assumes "do_result (decide (i\<lparr>di_approval := Approval_not_required, di_ai_recommended_handling := None\<rparr>)) = DENY"
  shows "decide (i\<lparr>di_approval := a, di_ai_recommended_handling := h\<rparr>)
       = decide (i\<lparr>di_approval := Approval_not_required, di_ai_recommended_handling := None\<rparr>)"
  using assms
  by (auto simp: decide_def decide_review_or_allow_def split: if_splits option.splits)

definition sample_decision :: "policy_evaluation_status \<Rightarrow> decision_input" where
  "sample_decision st = \<lparr> di_platform_invariant_violated = False, di_agent_active = True,
     di_intent_valid = True, di_capability_valid = True, di_constitution_compatible = True,
     di_policy_evaluation = \<lparr> pe_status = st, pe_policy_id = ''pol'', pe_policy_version = 1,
       pe_evaluation_hash = ''h'' \<rparr>,
     di_transaction_gate = None, di_simulation_required = False, di_simulation_outcome = None,
     di_simulation_binding = None, di_context_stale = False, di_approval = Approval_not_required,
     di_ai_recommended_handling = None \<rparr>"

text \<open>An approved request that violates the policy is denied as a policy violation.\<close>

theorem hard_failure_not_overridden_witness:
  "decide ((sample_decision EVAL_FAIL)\<lparr>di_approval := Approval_required AS_APPROVED,
      di_ai_recommended_handling := Some PROCEED_CANDIDATE\<rparr>) = deny D_policy_violation"
  by (subst hard_failure_not_overridden) (simp_all add: decide_def sample_decision_def)

text \<open>
  C2: the decision context hash binds all ten fields of the context: unless the digest collides
  on the two canonical texts, equal hashes mean equal contexts, and key order plays no part.
\<close>

theorem decision_context_hash_binds:
  assumes "inj_on sha {canonical_text (decision_context_json c), canonical_text (decision_context_json d)}"
  shows "context_hash sha c = context_hash sha d \<longleftrightarrow> c = d"
  using decision_context_json_eqI [OF sha256_json_eqD] assms
  unfolding context_hash_def by blast

definition sample_hash_context :: "int \<Rightarrow> decision_hash_context" where
  "sample_hash_context v = \<lparr> hc_intent_id = ''i'', hc_proposal_id = ''p'', hc_policy_id = ''pol'',
     hc_policy_version = v, hc_policy_evaluation_hash = ''h'', hc_security_assessment_id = ''a'',
     hc_transaction_id = None, hc_transaction_payload_hash = None, hc_simulation_id = None,
     hc_approval_context_hash = None \<rparr>"

theorem decision_context_hash_binds_witness:
  "context_hash (\<lambda>s. s) (sample_hash_context 1) \<noteq> context_hash (\<lambda>s. s) (sample_hash_context 2)"
  by (subst decision_context_hash_binds) (simp_all add: sample_hash_context_def)

end
