(* ===== verification/Approval_Engine.thy ===== *)
theory Approval_Engine
  imports Decision_Engine Core_Errors
begin

text \<open>
  Decision persistence (Backend/src/decision/decision.service.ts) and the human approval service
  (Backend/src/approval/approval.service.ts) over the tables \<open>decisions\<close>,
  \<open>approval_requests\<close> and \<open>approval_results\<close>. Times are epoch milliseconds; the id of a new
  row and the clock are arguments.
\<close>

section \<open>State\<close>

record decision_row =
  dr_id :: string
  dr_company_id :: string
  dr_agent_id :: string
  dr_intent_id :: string
  dr_proposal_id :: string
  dr_policy_id :: "string option"
  dr_policy_version_id :: "string option"
  dr_security_assessment_id :: "string option"
  dr_transaction_id :: "string option"
  dr_simulation_result_id :: "string option"
  dr_approval_request_id :: "string option"
  dr_result :: decision_result
  dr_determinant :: determinant
  dr_decision_context_hash :: string
  dr_version :: int

datatype approval_request_status = AR_PENDING | AR_APPROVED | AR_DENIED | AR_EXPIRED | AR_CANCELLED

datatype approval_result_kind = RES_APPROVED | RES_DENIED | RES_EXPIRED

record approval_request =
  aq_id :: string
  aq_company_id :: string
  aq_agent_id :: string
  aq_decision_id :: string
  aq_transaction_id :: "string option"
  aq_policy_version_id :: "string option"
  aq_required_role :: string
  aq_summary :: "(string \<times> json) list"
  aq_context_hash :: string
  aq_status :: approval_request_status
  aq_expires_at :: int

record approval_result =
  al_id :: string
  al_approval_request_id :: string
  al_decision_id :: string
  al_approver_id :: string
  al_approver_role :: string
  al_result :: approval_result_kind
  al_context_hash :: string

record approval_db =
  ad_decisions :: "decision_row list"
  ad_requests :: "approval_request list"
  ad_results :: "approval_result list"

type_synonym 'a approval_op = "(approval_db, error_code, 'a) op"

record persist_decision_input =
  pd_company_id :: string
  pd_agent_id :: string
  pd_intent_id :: string
  pd_proposal_id :: string
  pd_policy_id :: "string option"
  pd_policy_version_id :: "string option"
  pd_security_assessment_id :: "string option"
  pd_transaction_id :: "string option"
  pd_simulation_result_id :: "string option"
  pd_approval_request_id :: "string option"
  pd_output :: decision_output
  pd_decision_context_hash :: string

record create_approval_input =
  ca_company_id :: string
  ca_agent_id :: string
  ca_decision_id :: string
  ca_transaction_id :: "string option"
  ca_policy_version_id :: "string option"
  ca_required_role :: string
  ca_summary :: "(string \<times> json) list"
  ca_context_hash :: string
  ca_expires_at :: int

record approver =
  av_approver_id :: string
  av_company_id :: string
  av_role :: string

section \<open>Decisions\<close>

definition record_decision :: "string \<Rightarrow> persist_decision_input \<Rightarrow> decision_row approval_op" where
  "record_decision nid i db =
     (let d = \<lparr> dr_id = nid, dr_company_id = pd_company_id i, dr_agent_id = pd_agent_id i,
                dr_intent_id = pd_intent_id i, dr_proposal_id = pd_proposal_id i,
                dr_policy_id = pd_policy_id i, dr_policy_version_id = pd_policy_version_id i,
                dr_security_assessment_id = pd_security_assessment_id i,
                dr_transaction_id = pd_transaction_id i,
                dr_simulation_result_id = pd_simulation_result_id i,
                dr_approval_request_id = pd_approval_request_id i,
                dr_result = do_result (pd_output i), dr_determinant = do_determinant (pd_output i),
                dr_decision_context_hash = pd_decision_context_hash i, dr_version = 1 \<rparr>
      in (Inr d, db\<lparr>ad_decisions := ad_decisions db @ [d]\<rparr>))"

definition get_decision :: "string \<Rightarrow> string \<Rightarrow> approval_db \<Rightarrow> decision_row option" where
  "get_decision company_id decision_id db =
     find (\<lambda>d. dr_id d = decision_id \<and> dr_company_id d = company_id) (ad_decisions db)"

section \<open>Approvals\<close>

definition APPROVER_ROLES :: "string list" where
  "APPROVER_ROLES = [''ADMIN'', ''AUTHORIZED_OPERATOR'', ''APPROVER'']"

definition create_request :: "string \<Rightarrow> create_approval_input \<Rightarrow> approval_request approval_op" where
  "create_request nid i db =
     (case get_decision (ca_company_id i) (ca_decision_id i) db of
        None \<Rightarrow> (Inl NOT_FOUND, db)
      | Some _ \<Rightarrow>
         (let r = \<lparr> aq_id = nid, aq_company_id = ca_company_id i, aq_agent_id = ca_agent_id i,
                    aq_decision_id = ca_decision_id i, aq_transaction_id = ca_transaction_id i,
                    aq_policy_version_id = ca_policy_version_id i, aq_required_role = ca_required_role i,
                    aq_summary = ca_summary i, aq_context_hash = ca_context_hash i,
                    aq_status = AR_PENDING, aq_expires_at = ca_expires_at i \<rparr>
          in (Inr r, db\<lparr>ad_requests := ad_requests db @ [r]\<rparr>)))"

definition get_request :: "string \<Rightarrow> string \<Rightarrow> approval_db \<Rightarrow> approval_request option" where
  "get_request company_id approval_id db =
     find (\<lambda>r. aq_id r = approval_id \<and> aq_company_id r = company_id) (ad_requests db)"

definition set_status :: "string \<Rightarrow> approval_request_status \<Rightarrow> approval_db \<Rightarrow> approval_db" where
  "set_status i st db = db\<lparr>ad_requests := update_where (\<lambda>r. aq_id r = i) (\<lambda>r. r\<lparr>aq_status := st\<rparr>) (ad_requests db)\<rparr>"

definition assert_approver_authorized :: "approval_request \<Rightarrow> approver \<Rightarrow> error_code + unit" where
  "assert_approver_authorized r a =
     (if av_company_id a \<noteq> aq_company_id r then Inl AUTHORIZATION_ERROR
      else if \<not> arr_includes APPROVER_ROLES (av_role a) then Inl AUTHORIZATION_ERROR
      else if aq_required_role r \<noteq> [] \<and> av_role a \<noteq> aq_required_role r \<and> av_role a \<noteq> ''ADMIN''
        then Inl AUTHORIZATION_ERROR
      else Inr ())"

text \<open>Outside a transaction: an expired request is set EXPIRED before the error is thrown.\<close>

definition load_pending :: "string \<Rightarrow> string \<Rightarrow> int \<Rightarrow> approval_request approval_op" where
  "load_pending company_id approval_id now db =
     (case get_request company_id approval_id db of
        None \<Rightarrow> (Inl APPROVAL_NOT_FOUND, db)
      | Some r \<Rightarrow>
          if aq_status r \<noteq> AR_PENDING then (Inl CONFLICT, db)
          else if aq_expires_at r \<le> now then (Inl APPROVAL_EXPIRED, set_status (aq_id r) AR_EXPIRED db)
          else (Inr r, db))"

definition load_pending_tx :: "string \<Rightarrow> string \<Rightarrow> int \<Rightarrow> approval_request approval_op" where
  "load_pending_tx company_id approval_id now db =
     (case get_request company_id approval_id db of
        None \<Rightarrow> (Inl APPROVAL_NOT_FOUND, db)
      | Some r \<Rightarrow>
          if aq_status r \<in> {AR_APPROVED, AR_DENIED, AR_EXPIRED, AR_CANCELLED} then (Inl CONFLICT, db)
          else if aq_expires_at r \<le> now then (Inl APPROVAL_EXPIRED, set_status (aq_id r) AR_EXPIRED db)
          else (Inr r, db))"

definition conclude :: "string \<Rightarrow> approver \<Rightarrow> approval_request \<Rightarrow> approval_request_status \<Rightarrow>
    approval_result_kind \<Rightarrow> string \<Rightarrow> (approval_request \<times> approval_result) approval_op" where
  "conclude nid a r st kind ctx db =
     (let res = \<lparr> al_id = nid, al_approval_request_id = aq_id r, al_decision_id = aq_decision_id r,
                  al_approver_id = av_approver_id a, al_approver_role = av_role a,
                  al_result = kind, al_context_hash = ctx \<rparr>
      in (Inr (r\<lparr>aq_status := st\<rparr>, res),
          (set_status (aq_id r) st db)\<lparr>ad_results := ad_results db @ [res]\<rparr>))"

definition approve ::
    "string \<Rightarrow> string \<Rightarrow> string \<Rightarrow> approver \<Rightarrow> string \<Rightarrow> int \<Rightarrow> (approval_request \<times> approval_result) approval_op" where
  "approve nid company_id approval_id a current_context_hash now = transaction (\<lambda>db.
     (case load_pending_tx company_id approval_id now db of
        (Inl e, db1) \<Rightarrow> (Inl e, db1)
      | (Inr r, db1) \<Rightarrow>
         (case assert_approver_authorized r a of
            Inl e \<Rightarrow> (Inl e, db1)
          | Inr _ \<Rightarrow>
              if aq_context_hash r \<noteq> current_context_hash then (Inl APPROVAL_MISMATCH, db1)
              else conclude nid a r AR_APPROVED RES_APPROVED current_context_hash db1)))"

definition deny_request ::
    "string \<Rightarrow> string \<Rightarrow> string \<Rightarrow> approver \<Rightarrow> int \<Rightarrow> (approval_request \<times> approval_result) approval_op" where
  "deny_request nid company_id approval_id a now = transaction (\<lambda>db.
     (case load_pending_tx company_id approval_id now db of
        (Inl e, db1) \<Rightarrow> (Inl e, db1)
      | (Inr r, db1) \<Rightarrow>
         (case assert_approver_authorized r a of
            Inl e \<Rightarrow> (Inl e, db1)
          | Inr _ \<Rightarrow> conclude nid a r AR_DENIED RES_DENIED (aq_context_hash r) db1)))"

definition cancel :: "string \<Rightarrow> string \<Rightarrow> int \<Rightarrow> approval_request approval_op" where
  "cancel company_id approval_id now db =
     (case load_pending company_id approval_id now db of
        (Inl e, db1) \<Rightarrow> (Inl e, db1)
      | (Inr r, db1) \<Rightarrow> (Inr (r\<lparr>aq_status := AR_CANCELLED\<rparr>), set_status (aq_id r) AR_CANCELLED db1))"

definition is_stale :: "string \<Rightarrow> int \<Rightarrow> approval_request \<Rightarrow> bool" where
  "is_stale company_id now r \<longleftrightarrow>
     aq_company_id r = company_id \<and> aq_status r = AR_PENDING \<and> aq_expires_at r \<le> now"

definition expire_stale :: "string \<Rightarrow> int \<Rightarrow> nat approval_op" where
  "expire_stale company_id now db =
     (Inr (length (filter (is_stale company_id now) (ad_requests db))),
      db\<lparr>ad_requests := update_where (is_stale company_id now) (\<lambda>r. r\<lparr>aq_status := AR_EXPIRED\<rparr>) (ad_requests db)\<rparr>)"

definition resolve_approval_state ::
    "string \<Rightarrow> string \<Rightarrow> string \<Rightarrow> int \<Rightarrow> approval_db \<Rightarrow> required_approval_status" where
  "resolve_approval_state company_id approval_id current_context_hash now db =
     (case get_request company_id approval_id db of
        None \<Rightarrow> AS_NONE
      | Some r \<Rightarrow>
          if aq_status r = AR_EXPIRED \<or> aq_status r = AR_PENDING \<and> aq_expires_at r \<le> now then AS_EXPIRED
          else if aq_status r = AR_DENIED \<or> aq_status r = AR_CANCELLED then AS_DENIED
          else if aq_status r = AR_PENDING then AS_PENDING
          else if aq_context_hash r \<noteq> current_context_hash then AS_MISMATCH
          else AS_APPROVED)"

section \<open>The service as a transition system\<close>

inductive approval_step :: "approval_db \<Rightarrow> approval_db \<Rightarrow> bool" where
  step_decision: "approval_step db (snd (record_decision nid i db))"
| step_create: "nid \<notin> aq_id ` set (ad_requests db) \<Longrightarrow> approval_step db (snd (create_request nid ci db))"
| step_approve: "approval_step db (snd (approve nid c r a h now db))"
| step_deny: "approval_step db (snd (deny_request nid c r a now db))"
| step_cancel: "approval_step db (snd (cancel c r now db))"
| step_expire: "approval_step db (snd (expire_stale c now db))"

inductive_cases approval_stepE: "approval_step db db'"

definition empty_approvals :: approval_db where
  "empty_approvals = \<lparr> ad_decisions = [], ad_requests = [], ad_results = [] \<rparr>"

text \<open>The results a request has, and what each status says of them.\<close>

definition results_of :: "string \<Rightarrow> approval_db \<Rightarrow> approval_result list" where
  "results_of i db = filter (\<lambda>x. al_approval_request_id x = i) (ad_results db)"

definition authorized_role :: "approval_request \<Rightarrow> string \<Rightarrow> bool" where
  "authorized_role r role \<longleftrightarrow> role \<in> set APPROVER_ROLES \<and>
     (aq_required_role r = [] \<or> role = aq_required_role r \<or> role = ''ADMIN'')"

definition accounted :: "approval_db \<Rightarrow> approval_request \<Rightarrow> bool" where
  "accounted db r \<longleftrightarrow>
     (case aq_status r of
        AR_APPROVED \<Rightarrow> (\<exists>x. results_of (aq_id r) db = [x] \<and> al_result x = RES_APPROVED
          \<and> al_context_hash x = aq_context_hash r \<and> authorized_role r (al_approver_role x)
          \<and> al_decision_id x = aq_decision_id r)
      | AR_DENIED \<Rightarrow> (\<exists>x. results_of (aq_id r) db = [x] \<and> al_result x = RES_DENIED
          \<and> authorized_role r (al_approver_role x))
      | _ \<Rightarrow> results_of (aq_id r) db = [])"

definition approvals_ok :: "approval_db \<Rightarrow> bool" where
  "approvals_ok db \<longleftrightarrow> distinct (map aq_id (ad_requests db))
     \<and> al_approval_request_id ` set (ad_results db) \<subseteq> aq_id ` set (ad_requests db)
     \<and> (\<forall>r \<in> set (ad_requests db). accounted db r)"

section \<open>Lemmas\<close>

lemma get_request_D:
  "get_request c i db = Some r \<Longrightarrow> r \<in> set (ad_requests db) \<and> aq_id r = i \<and> aq_company_id r = c"
  by (auto simp: get_request_def dest: find_SomeD)

lemma load_pending_tx_Inr:
  "load_pending_tx c i now db = (Inr r, db1) \<Longrightarrow>
     db1 = db \<and> r \<in> set (ad_requests db) \<and> aq_status r = AR_PENDING \<and> now < aq_expires_at r
     \<and> aq_id r = i \<and> aq_company_id r = c"
  by (cases "aq_status r") (auto simp: load_pending_tx_def split: option.splits if_splits dest: get_request_D)

lemma authorized_Inr:
  "assert_approver_authorized r a = Inr u \<longleftrightarrow> av_company_id a = aq_company_id r \<and> authorized_role r (av_role a)"
  by (auto simp: assert_approver_authorized_def authorized_role_def)

lemma results_of_simps [simp]:
  "results_of i (set_status j st db) = results_of i db"
  "results_of i (db\<lparr>ad_requests := rs\<rparr>) = results_of i db"
  "results_of i (db\<lparr>ad_decisions := ds\<rparr>) = results_of i db"
  "results_of i (db\<lparr>ad_results := ad_results db @ [x]\<rparr>)
     = results_of i db @ (if al_approval_request_id x = i then [x] else [])"
  by (simp_all add: results_of_def set_status_def)

lemma requests_set_status:
  "r' \<in> set (ad_requests (set_status i st db)) \<longleftrightarrow>
     (\<exists>r \<in> set (ad_requests db). r' = (if aq_id r = i then r\<lparr>aq_status := st\<rparr> else r))"
  by (simp add: set_status_def in_update_where)

lemma set_status_ids [simp]:
  "map aq_id (ad_requests (set_status i st db)) = map aq_id (ad_requests db)"
  "aq_id ` set (ad_requests (set_status i st db)) = aq_id ` set (ad_requests db)"
  "ad_results (set_status i st db) = ad_results db"
proof -
  show m: "map aq_id (ad_requests (set_status i st db)) = map aq_id (ad_requests db)"
    by (simp add: set_status_def map_update_where_same)
  show "aq_id ` set (ad_requests (set_status i st db)) = aq_id ` set (ad_requests db)"
    using arg_cong [OF m, of set] by simp
  show "ad_results (set_status i st db) = ad_results db" by (simp add: set_status_def)
qed

lemma accounted_cong:
  "results_of (aq_id r) db = results_of (aq_id r) db' \<Longrightarrow> accounted db r = accounted db' r"
  by (cases "aq_status r") (simp_all add: accounted_def)

text \<open>A pending request may go to EXPIRED or CANCELLED: it has no result and gets none.\<close>

lemma ok_close:
  assumes "approvals_ok db" and "r \<in> set (ad_requests db)" "aq_status r = AR_PENDING"
    and "st \<in> {AR_EXPIRED, AR_CANCELLED}"
  shows "approvals_ok (set_status (aq_id r) st db)"
proof -
  have uniq: "s = r" if "s \<in> set (ad_requests db)" "aq_id s = aq_id r" for s
    using key_unique [of aq_id "ad_requests db" s r] assms(1,2) that by (simp add: approvals_ok_def)
  have "accounted db r" using assms(1,2) by (simp add: approvals_ok_def)
  then have none: "results_of (aq_id r) db = []" using assms(3) by (simp add: accounted_def)
  have "accounted (set_status (aq_id r) st db) s" if s_in: "s \<in> set (ad_requests (set_status (aq_id r) st db))" for s
  proof -
    from s_in obtain s0 where s0: "s0 \<in> set (ad_requests db)"
      and s: "s = (if aq_id s0 = aq_id r then s0\<lparr>aq_status := st\<rparr> else s0)"
      by (auto simp: requests_set_status)
    show ?thesis
    proof (cases "aq_id s0 = aq_id r")
      case True
      with uniq [OF s0] s none assms(4) show ?thesis by (auto simp: accounted_def)
    next
      case False
      with s s0 assms(1) show ?thesis
        using accounted_cong [of s0 db "set_status (aq_id r) st db"] by (simp add: approvals_ok_def)
    qed
  qed
  then show ?thesis using assms(1) by (simp add: approvals_ok_def)
qed

lemma ok_conclude:
  assumes "approvals_ok db" and r: "r \<in> set (ad_requests db)" "aq_status r = AR_PENDING"
    and "authorized_role r (av_role a)"
    and "st = AR_APPROVED \<and> kind = RES_APPROVED \<and> ctx = aq_context_hash r \<or> st = AR_DENIED \<and> kind = RES_DENIED"
  shows "approvals_ok (snd (conclude nid a r st kind ctx db))"
proof -
  let ?db = "snd (conclude nid a r st kind ctx db)"
  have uniq: "s = r" if "s \<in> set (ad_requests db)" "aq_id s = aq_id r" for s
    using key_unique [of aq_id "ad_requests db" s r] assms(1,2) that by (simp add: approvals_ok_def)
  have "accounted db r" using assms(1,2) by (simp add: approvals_ok_def)
  then have none: "results_of (aq_id r) db = []" using r(2) by (simp add: accounted_def)
  have res: "results_of i ?db = results_of i db @ (if aq_id r = i then
      [\<lparr> al_id = nid, al_approval_request_id = aq_id r, al_decision_id = aq_decision_id r,
         al_approver_id = av_approver_id a, al_approver_role = av_role a, al_result = kind,
         al_context_hash = ctx \<rparr>] else [])" for i
    by (simp add: conclude_def Let_def results_of_def set_status_def)
  have "accounted ?db s" if s_in: "s \<in> set (ad_requests ?db)" for s
  proof -
    from s_in obtain s0 where s0: "s0 \<in> set (ad_requests db)"
      and s: "s = (if aq_id s0 = aq_id r then s0\<lparr>aq_status := st\<rparr> else s0)"
      by (auto simp: conclude_def Let_def requests_set_status)
    show ?thesis
    proof (cases "aq_id s0 = aq_id r")
      case True
      with uniq [OF s0] s have "s = r\<lparr>aq_status := st\<rparr>" by auto
      moreover have "\<exists>x. results_of (aq_id r) ?db = [x] \<and> al_result x = kind \<and> al_context_hash x = ctx
          \<and> al_approver_role x = av_role a \<and> al_decision_id x = aq_decision_id r"
        using res [of "aq_id r"] none by simp
      ultimately show ?thesis
        using assms(4,5) by (fastforce simp: accounted_def authorized_role_def)
    next
      case False
      then have "accounted db s" using s s0 assms(1) by (simp add: approvals_ok_def)
      with False s show ?thesis using accounted_cong [of s db ?db] by (simp add: res)
    qed
  qed
  moreover have "map aq_id (ad_requests ?db) = map aq_id (ad_requests db)"
    "aq_id ` set (ad_requests ?db) = aq_id ` set (ad_requests db)"
    "al_approval_request_id ` set (ad_results ?db) = insert (aq_id r) (al_approval_request_id ` set (ad_results db))"
    by (simp_all add: conclude_def Let_def)
  ultimately show ?thesis
    using assms(1) r(1) by (simp add: approvals_ok_def)
qed

lemma ok_step:
  assumes "approvals_ok db" and "approval_step db db'"
  shows "approvals_ok db'"
  using assms(2)
proof (cases rule: approval_step.cases)
  case (step_decision nid i)
  have "accounted (snd (record_decision nid i db)) r = accounted db r" for r
    by (rule accounted_cong) (simp add: record_decision_def Let_def)
  with assms(1) step_decision show ?thesis
    by (simp add: approvals_ok_def) (simp add: record_decision_def Let_def)
next
  case (step_create nid ci)
  have none: "results_of nid db = []"
    using step_create assms(1) by (auto simp: approvals_ok_def results_of_def filter_empty_conv)
  have acc: "accounted (db\<lparr>ad_requests := rs\<rparr>) r = accounted db r" for rs r
    by (rule accounted_cong) simp
  show ?thesis
    using assms(1) step_create none
    by (auto simp: approvals_ok_def create_request_def Let_def acc split: option.splits)
       (auto simp: accounted_def)
next
  case (step_approve nid c r a h now)
  show ?thesis unfolding step_approve approve_def
  proof (rule transaction_preserves [where P = approvals_ok, OF assms(1)])
    fix p s'
    assume "(case load_pending_tx c r now db of (Inl e, db1) \<Rightarrow> (Inl e, db1)
      | (Inr q, db1) \<Rightarrow> (case assert_approver_authorized q a of Inl e \<Rightarrow> (Inl e, db1)
          | Inr _ \<Rightarrow> if aq_context_hash q \<noteq> h then (Inl APPROVAL_MISMATCH, db1)
              else conclude nid a q AR_APPROVED RES_APPROVED h db1)) = (Inr p, s')"
    then obtain q where "load_pending_tx c r now db = (Inr q, db)" "assert_approver_authorized q a = Inr ()"
      "h = aq_context_hash q" "s' = snd (conclude nid a q AR_APPROVED RES_APPROVED h db)"
      by (auto split: prod.splits sum.splits if_splits dest: load_pending_tx_Inr)
    then show "approvals_ok s'"
      using ok_conclude [OF assms(1), of q a AR_APPROVED RES_APPROVED h nid] load_pending_tx_Inr
      by (auto simp: authorized_Inr)
  qed
next
  case (step_deny nid c r a now)
  show ?thesis unfolding step_deny deny_request_def
  proof (rule transaction_preserves [where P = approvals_ok, OF assms(1)])
    fix p s'
    assume "(case load_pending_tx c r now db of (Inl e, db1) \<Rightarrow> (Inl e, db1)
      | (Inr q, db1) \<Rightarrow> (case assert_approver_authorized q a of Inl e \<Rightarrow> (Inl e, db1)
          | Inr _ \<Rightarrow> conclude nid a q AR_DENIED RES_DENIED (aq_context_hash q) db1)) = (Inr p, s')"
    then obtain q where "load_pending_tx c r now db = (Inr q, db)" "assert_approver_authorized q a = Inr ()"
      "s' = snd (conclude nid a q AR_DENIED RES_DENIED (aq_context_hash q) db)"
      by (auto split: prod.splits sum.splits dest: load_pending_tx_Inr)
    then show "approvals_ok s'"
      using ok_conclude [OF assms(1), of q a AR_DENIED RES_DENIED "aq_context_hash q" nid] load_pending_tx_Inr
      by (auto simp: authorized_Inr)
  qed
next
  case (step_cancel c r now)
  then show ?thesis
    using assms(1) by (auto simp: cancel_def load_pending_def split: option.splits if_splits dest: get_request_D intro!: ok_close)
next
  case (step_expire c now)
  let ?f = "\<lambda>r. r\<lparr>aq_status := AR_EXPIRED\<rparr>"
  have ids: "map aq_id (update_where (is_stale c now) ?f rs) = map aq_id rs" for rs
    by (rule map_update_where_same) simp
  have acc: "accounted (db\<lparr>ad_requests := rs\<rparr>) r = accounted db r" for rs r
    by (rule accounted_cong) simp
  have "accounted db r'" if "r' \<in> set (update_where (is_stale c now) ?f (ad_requests db))" for r'
    using that assms(1)
    by (fastforce simp: in_update_where approvals_ok_def accounted_def is_stale_def split: if_splits)
  moreover have "aq_id ` set (update_where (is_stale c now) ?f (ad_requests db)) = aq_id ` set (ad_requests db)"
    using arg_cong [OF ids, of set] by (simp only: list.set_map)
  ultimately show ?thesis
    using assms(1) by (simp add: step_expire expire_stale_def approvals_ok_def ids acc)
qed

interpretation approvals: invariant_system "\<lambda>db. db = empty_approvals" approval_step approvals_ok
  by (unfold_locales, simp add: approvals_ok_def empty_approvals_def) (rule ok_step)

section \<open>Properties\<close>

text \<open>
  C31: an approval the decision engine is told of is a real one: when the resolver answers APPROVED,
  exactly one result is recorded for the request, it says APPROVED, it was given by a
  role that may approve and satisfies the required role, and it is for exactly the context
  hash that is being decided.
\<close>

theorem resolved_approval_is_bound:
  assumes "reachable (\<lambda>db. db = empty_approvals) approval_step db"
    and "resolve_approval_state c i h now db = AS_APPROVED"
  shows "\<exists>r x. r \<in> set (ad_requests db) \<and> aq_id r = i \<and> aq_company_id r = c
     \<and> filter (\<lambda>y. al_approval_request_id y = i) (ad_results db) = [x]
     \<and> al_result x = RES_APPROVED \<and> al_context_hash x = h
     \<and> al_approver_role x \<in> set APPROVER_ROLES
     \<and> (aq_required_role r = [] \<or> al_approver_role x = aq_required_role r \<or> al_approver_role x = ''ADMIN'')"
proof -
  obtain r where r: "get_request c i db = Some r" "aq_status r = AR_APPROVED" "aq_context_hash r = h"
  proof (cases "get_request c i db")
    case None
    then show ?thesis using assms(2) by (simp add: resolve_approval_state_def)
  next
    case (Some r)
    then show ?thesis
      using assms(2) that [of r] by (cases "aq_status r") (auto simp: resolve_approval_state_def split: if_splits)
  qed
  have "accounted db r"
    using approvals.reachable_inv [OF assms(1)] get_request_D [OF r(1)] by (simp add: approvals_ok_def)
  then show ?thesis
    using r get_request_D [OF r(1)]
    by (auto simp: accounted_def results_of_def authorized_role_def)
qed

definition sample_create :: create_approval_input where
  "sample_create = \<lparr> ca_company_id = ''co'', ca_agent_id = ''ag'', ca_decision_id = ''d1'',
     ca_transaction_id = None, ca_policy_version_id = None, ca_required_role = ''APPROVER'',
     ca_summary = [], ca_context_hash = ''h1'', ca_expires_at = 100 \<rparr>"

definition sample_approver :: "string \<Rightarrow> approver" where
  "sample_approver role = \<lparr> av_approver_id = ''u1'', av_company_id = ''co'', av_role = role \<rparr>"

definition sample_persist :: persist_decision_input where
  "sample_persist = \<lparr> pd_company_id = ''co'', pd_agent_id = ''ag'', pd_intent_id = ''i'', pd_proposal_id = ''p'',
     pd_policy_id = None, pd_policy_version_id = None, pd_security_assessment_id = None,
     pd_transaction_id = None, pd_simulation_result_id = None, pd_approval_request_id = None,
     pd_output = review D_approval_required, pd_decision_context_hash = ''h1'' \<rparr>"

definition approvals1 :: approval_db where
  "approvals1 = snd (record_decision ''d1'' sample_persist empty_approvals)"

definition approvals2 :: approval_db where
  "approvals2 = snd (create_request ''q1'' sample_create approvals1)"

definition approvals3 :: approval_db where
  "approvals3 = snd (approve ''r1'' ''co'' ''q1'' (sample_approver ''APPROVER'') ''h1'' 50 approvals2)"

lemmas approval_eval = record_decision_def sample_persist_def create_request_def sample_create_def
  approve_def deny_request_def transaction_def load_pending_tx_def get_request_def get_decision_def
  assert_approver_authorized_def APPROVER_ROLES_def sample_approver_def conclude_def set_status_def
  Let_def empty_approvals_def

lemma approvals2_requests: "ad_requests approvals2 = [\<lparr> aq_id = ''q1'', aq_company_id = ''co'',
     aq_agent_id = ''ag'', aq_decision_id = ''d1'', aq_transaction_id = None, aq_policy_version_id = None,
     aq_required_role = ''APPROVER'', aq_summary = [], aq_context_hash = ''h1'', aq_status = AR_PENDING,
     aq_expires_at = 100 \<rparr>]" "ad_results approvals2 = []"
  by (simp_all add: approvals2_def approvals1_def approval_eval)

lemma approvals_reached:
  "reachable (\<lambda>db. db = empty_approvals) approval_step approvals2"
  "reachable (\<lambda>db. db = empty_approvals) approval_step approvals3"
proof -
  have "reachable (\<lambda>db. db = empty_approvals) approval_step empty_approvals" by (rule reachable_init) simp
  then have "reachable (\<lambda>db. db = empty_approvals) approval_step approvals1"
    unfolding approvals1_def by (rule reachable_step) (rule step_decision)
  then show r2: "reachable (\<lambda>db. db = empty_approvals) approval_step approvals2"
    unfolding approvals2_def by (rule reachable_step) (rule step_create, simp add: approvals1_def approval_eval)
  then show "reachable (\<lambda>db. db = empty_approvals) approval_step approvals3"
    unfolding approvals3_def by (rule reachable_step) (rule step_approve)
qed

theorem resolved_approval_is_bound_witness:
  "\<exists>x. filter (\<lambda>y. al_approval_request_id y = ''q1'') (ad_results approvals3) = [x] \<and> al_context_hash x = ''h1''"
proof -
  have "resolve_approval_state ''co'' ''q1'' ''h1'' 200 approvals3 = AS_APPROVED"
    by (simp add: approvals3_def approvals2_requests resolve_approval_state_def approval_eval)
  from resolved_approval_is_bound [OF approvals_reached(2) this] show ?thesis by blast
qed

text \<open>
  An approval does not outlive its context: in any later state, a changed context hash resolves
  to MISMATCH, and a terminal request answers no further approve or deny with anything but
  CONFLICT, leaving the tables as they are.
\<close>

theorem terminal_request_is_final:
  assumes "get_request c i db = Some r" and "aq_status r \<noteq> AR_PENDING"
  shows "approve nid c i a h now db = (Inl CONFLICT, db) \<and> deny_request nid c i a now db = (Inl CONFLICT, db)
    \<and> cancel c i now db = (Inl CONFLICT, db)
    \<and> (aq_status r = AR_APPROVED \<and> h \<noteq> aq_context_hash r \<longrightarrow> resolve_approval_state c i h now db = AS_MISMATCH)"
proof -
  have "load_pending_tx c i now db = (Inl CONFLICT, db)"
    using assms by (cases "aq_status r") (simp_all add: load_pending_tx_def)
  then show ?thesis
    using assms by (simp add: approve_def deny_request_def cancel_def load_pending_def transaction_def
        resolve_approval_state_def)
qed

theorem terminal_request_is_final_witness:
  "deny_request ''r2'' ''co'' ''q1'' (sample_approver ''ADMIN'') 60 approvals3 = (Inl CONFLICT, approvals3)
   \<and> resolve_approval_state ''co'' ''q1'' ''h2'' 60 approvals3 = AS_MISMATCH"
proof -
  obtain r where "get_request ''co'' ''q1'' approvals3 = Some r" "aq_status r = AR_APPROVED" "aq_context_hash r = ''h1''"
    by (simp add: approvals3_def approvals2_requests approval_eval)
  then show ?thesis
    using terminal_request_is_final [of "''co''" "''q1''" approvals3 r "''r2''" "sample_approver ''ADMIN''" "''h2''" 60]
    by simp
qed

text \<open>
  The auto-transition to EXPIRED is lost on the approve and deny paths: the update precedes the
  error inside the transaction, so it is rolled back and the request stays PENDING; only
  \<open>cancel\<close>, which runs outside a transaction, leaves it EXPIRED.
\<close>

theorem expiry_rolled_back:
  assumes "get_request c i db = Some r" "aq_status r = AR_PENDING" "aq_expires_at r \<le> now"
  shows "approve nid c i a h now db = (Inl APPROVAL_EXPIRED, db)
    \<and> deny_request nid c i a now db = (Inl APPROVAL_EXPIRED, db)
    \<and> cancel c i now db = (Inl APPROVAL_EXPIRED, set_status i AR_EXPIRED db)"
  using assms get_request_D [OF assms(1)]
  by (simp add: approve_def deny_request_def cancel_def load_pending_def load_pending_tx_def transaction_def)

theorem expiry_rolled_back_witness:
  "approve ''r1'' ''co'' ''q1'' (sample_approver ''APPROVER'') ''h1'' 100 approvals2 = (Inl APPROVAL_EXPIRED, approvals2)"
proof -
  obtain r where "get_request ''co'' ''q1'' approvals2 = Some r" "aq_status r = AR_PENDING" "aq_expires_at r = 100"
    by (simp add: get_request_def approvals2_requests)
  then show ?thesis using expiry_rolled_back by simp
qed

end
