(* ===== verification/Financial_State.thy ===== *)
theory Financial_State
  imports Core_Errors Money
begin

text \<open>
  Financial state and the reservation lifecycle (Backend/src/domain/financial/
  financial.service.ts) over the tables \<open>financial_accounts\<close> and
  \<open>financial_reservations\<close>. Each method is a function of its arguments, of the identifiers
  the database would generate and of the time; a method that opens a Prisma transaction
  is a \<open>transaction\<close>, which the row lock makes atomic with respect to the others.
\<close>

section \<open>State\<close>

datatype account_scope = SCOPE_AGENT | SCOPE_COMPANY | SCOPE_CATEGORY | SCOPE_RECIPIENT

datatype reservation_status = RESERVED | COMMITTED | RELEASED | HELD_UNKNOWN

record financial_account =
  fa_id :: string
  fa_company_id :: string
  fa_agent_id :: "string option"
  fa_scope :: account_scope
  fa_scope_key :: string
  fa_asset :: string
  fa_network :: "string option"
  fa_current_reserved :: rat
  fa_current_committed :: rat
  fa_limit_amount :: "rat option"

record reservation =
  re_id :: string
  re_company_id :: string
  re_agent_id :: "string option"
  re_execution_request_id :: "string option"
  re_account_id :: string
  re_amount :: rat
  re_asset :: string
  re_status :: reservation_status
  re_released_at :: "int option"
  re_committed_at :: "int option"

record ledger =
  lg_accounts :: "financial_account list"
  lg_reservations :: "reservation list"

record account_key =
  ak_company_id :: string
  ak_agent_id :: "string option"
  ak_scope :: account_scope
  ak_scope_key :: string
  ak_asset :: string
  ak_network :: "string option"

record reserve_input =
  ri_key :: account_key
  ri_amount :: string
  ri_execution_request_id :: "string option"

type_synonym 'a ledger_op = "(ledger, error_code, 'a) op"

section \<open>Operations\<close>

definition matches_key :: "account_key \<Rightarrow> financial_account \<Rightarrow> bool" where
  "matches_key k a \<longleftrightarrow> fa_company_id a = ak_company_id k \<and> fa_scope a = ak_scope k
     \<and> fa_scope_key a = ak_scope_key k \<and> fa_asset a = ak_asset k \<and> fa_network a = ak_network k"

text \<open>
  The insert of a new bucket fails on an unparsable limit, and on the unique constraint, which
  in PostgreSQL does not apply to rows whose network is NULL.
\<close>

definition create_account ::
    "decimal_lib \<Rightarrow> string \<Rightarrow> account_key \<Rightarrow> string option \<Rightarrow> ledger \<Rightarrow> (financial_account \<times> ledger) option" where
  "create_account D nid k limit L =
     (let parsed = (case limit of None \<Rightarrow> Some None | Some s \<Rightarrow> map_option Some (dl_parse D s)) in
      if ak_network k \<noteq> None \<and> find (matches_key k) (lg_accounts L) \<noteq> None then None
      else (case parsed of None \<Rightarrow> None
        | Some limit_amount \<Rightarrow>
           (let a = \<lparr> fa_id = nid, fa_company_id = ak_company_id k, fa_agent_id = ak_agent_id k,
                      fa_scope = ak_scope k, fa_scope_key = ak_scope_key k, fa_asset = ak_asset k,
                      fa_network = ak_network k, fa_current_reserved = 0, fa_current_committed = 0,
                      fa_limit_amount = limit_amount \<rparr>
            in Some (a, L\<lparr>lg_accounts := lg_accounts L @ [a]\<rparr>))))"

definition ensure_account ::
    "decimal_lib \<Rightarrow> string \<Rightarrow> account_key \<Rightarrow> string option \<Rightarrow> financial_account ledger_op" where
  "ensure_account D nid k limit L =
     (case find (matches_key k) (lg_accounts L) of
        Some a \<Rightarrow> (Inr a, L)
      | None \<Rightarrow>
         (case create_account D nid k limit L of
            Some (a, L') \<Rightarrow> (Inr a, L')
          | None \<Rightarrow> (case find (matches_key k) (lg_accounts L) of
                       None \<Rightarrow> (Inl INTERNAL_ERROR, L) | Some a \<Rightarrow> (Inr a, L))))"

definition find_account :: "string \<Rightarrow> ledger \<Rightarrow> financial_account option" where
  "find_account i L = find (\<lambda>a. fa_id a = i) (lg_accounts L)"

definition update_account :: "string \<Rightarrow> (financial_account \<Rightarrow> financial_account) \<Rightarrow> ledger \<Rightarrow> ledger" where
  "update_account i f L = L\<lparr>lg_accounts := update_where (\<lambda>a. fa_id a = i) f (lg_accounts L)\<rparr>"

definition update_reservation :: "string \<Rightarrow> (reservation \<Rightarrow> reservation) \<Rightarrow> ledger \<Rightarrow> ledger" where
  "update_reservation i f L = L\<lparr>lg_reservations := update_where (\<lambda>r. re_id r = i) f (lg_reservations L)\<rparr>"

definition reserve_tx :: "string \<Rightarrow> reserve_input \<Rightarrow> string \<Rightarrow> rat \<Rightarrow> reservation ledger_op" where
  "reserve_tx nid i account_id amount L =
     (case find_account account_id L of
        None \<Rightarrow> (Inl INTERNAL_ERROR, L)
      | Some row \<Rightarrow>
         (let reserved = fa_current_reserved row;
              committed = fa_current_committed row;
              projected = reserved + committed + amount
          in if (case fa_limit_amount row of None \<Rightarrow> False | Some limit \<Rightarrow> projected > limit)
             then (Inl POLICY_VIOLATION, L)
             else
               (let r = \<lparr> re_id = nid, re_company_id = ak_company_id (ri_key i),
                          re_agent_id = ak_agent_id (ri_key i),
                          re_execution_request_id = ri_execution_request_id i,
                          re_account_id = account_id, re_amount = amount,
                          re_asset = ak_asset (ri_key i), re_status = RESERVED,
                          re_released_at = None, re_committed_at = None \<rparr>
                in (Inr r, update_account account_id (\<lambda>a. a\<lparr>fa_current_reserved := reserved + amount\<rparr>)
                       (L\<lparr>lg_reservations := lg_reservations L @ [r]\<rparr>)))))"

definition reserve :: "decimal_lib \<Rightarrow> string \<Rightarrow> string \<Rightarrow> reserve_input \<Rightarrow> reservation ledger_op" where
  "reserve D nid_account nid_reservation i L =
     (case ensure_account D nid_account (ri_key i) None L of
        (Inl e, L1) \<Rightarrow> (Inl e, L1)
      | (Inr account, L1) \<Rightarrow>
         (case dl_parse D (ri_amount i) of
            None \<Rightarrow> (Inl INTERNAL_ERROR, L1)
          | Some amount \<Rightarrow> transaction (reserve_tx nid_reservation i (fa_id account) amount) L1))"

definition find_reservation :: "string \<Rightarrow> string \<Rightarrow> ledger \<Rightarrow> reservation option" where
  "find_reservation company_id i L =
     find (\<lambda>r. re_id r = i \<and> re_company_id r = company_id) (lg_reservations L)"

text \<open>
  The tail that commit, release and reconciliation share: lock the account row, move its
  balances, and set the reservation's new status.
\<close>

definition settle ::
    "reservation \<Rightarrow> (financial_account \<Rightarrow> financial_account) \<Rightarrow> (reservation \<Rightarrow> reservation) \<Rightarrow> reservation ledger_op" where
  "settle res move mark L =
     (case find_account (re_account_id res) L of
        None \<Rightarrow> (Inl INTERNAL_ERROR, L)
      | Some row \<Rightarrow>
          (Inr (mark res),
           update_reservation (re_id res) mark (update_account (re_account_id res) move L)))"

definition commit :: "int \<Rightarrow> string \<Rightarrow> string \<Rightarrow> reservation ledger_op" where
  "commit now company_id reservation_id = transaction (\<lambda>L.
     (case find_reservation company_id reservation_id L of
        None \<Rightarrow> (Inl NOT_FOUND, L)
      | Some res \<Rightarrow>
          if re_status res = COMMITTED then (Inr res, L)
          else if re_status res \<noteq> RESERVED then (Inl CONFLICT, L)
          else settle res
            (\<lambda>a. a\<lparr>fa_current_reserved := fa_current_reserved a - re_amount res,
                   fa_current_committed := fa_current_committed a + re_amount res\<rparr>)
            (\<lambda>r. r\<lparr>re_status := COMMITTED, re_committed_at := Some now\<rparr>) L))"

definition release :: "int \<Rightarrow> string \<Rightarrow> string \<Rightarrow> reservation ledger_op" where
  "release now company_id reservation_id = transaction (\<lambda>L.
     (case find_reservation company_id reservation_id L of
        None \<Rightarrow> (Inl NOT_FOUND, L)
      | Some res \<Rightarrow>
          if re_status res = RELEASED then (Inr res, L)
          else if re_status res = HELD_UNKNOWN then (Inl CONFLICT, L)
          else if re_status res \<noteq> RESERVED then (Inl CONFLICT, L)
          else settle res
            (\<lambda>a. a\<lparr>fa_current_reserved := fa_current_reserved a - re_amount res\<rparr>)
            (\<lambda>r. r\<lparr>re_status := RELEASED, re_released_at := Some now\<rparr>) L))"

definition reconcile_release :: "int \<Rightarrow> string \<Rightarrow> string \<Rightarrow> reservation ledger_op" where
  "reconcile_release now company_id reservation_id = transaction (\<lambda>L.
     (case find_reservation company_id reservation_id L of
        None \<Rightarrow> (Inl NOT_FOUND, L)
      | Some res \<Rightarrow>
          if re_status res = RELEASED then (Inr res, L)
          else if re_status res = COMMITTED then (Inl CONFLICT, L)
          else settle res
            (\<lambda>a. a\<lparr>fa_current_reserved := fa_current_reserved a - re_amount res\<rparr>)
            (\<lambda>r. r\<lparr>re_status := RELEASED, re_released_at := Some now\<rparr>) L))"

definition mark_unknown :: "string \<Rightarrow> string \<Rightarrow> reservation ledger_op" where
  "mark_unknown company_id reservation_id L =
     (case find_reservation company_id reservation_id L of
        None \<Rightarrow> (Inl NOT_FOUND, L)
      | Some res \<Rightarrow>
          if re_status res \<noteq> RESERVED \<and> re_status res \<noteq> HELD_UNKNOWN then (Inl CONFLICT, L)
          else (Inr (res\<lparr>re_status := HELD_UNKNOWN\<rparr>),
                update_reservation (re_id res) (\<lambda>r. r\<lparr>re_status := HELD_UNKNOWN\<rparr>) L))"

definition get_account :: "string \<Rightarrow> string \<Rightarrow> ledger \<Rightarrow> financial_account option" where
  "get_account company_id account_id L =
     find (\<lambda>a. fa_id a = account_id \<and> fa_company_id a = company_id) (lg_accounts L)"

definition get_reservation :: "string \<Rightarrow> string \<Rightarrow> ledger \<Rightarrow> reservation option" where
  "get_reservation company_id reservation_id L = find_reservation company_id reservation_id L"

section \<open>The ledger as a transition system\<close>

text \<open>
  Every call of a method on the ledger, with fresh identifiers where rows are created; the
  parameter \<open>admitted\<close> says which amount strings callers reserve with.
\<close>

definition fresh_account :: "string \<Rightarrow> ledger \<Rightarrow> bool" where
  "fresh_account i L \<longleftrightarrow> i \<notin> fa_id ` set (lg_accounts L)"

definition fresh_reservation :: "string \<Rightarrow> ledger \<Rightarrow> bool" where
  "fresh_reservation i L \<longleftrightarrow> i \<notin> re_id ` set (lg_reservations L)"

inductive ledger_step :: "decimal_lib \<Rightarrow> (string \<Rightarrow> bool) \<Rightarrow> ledger \<Rightarrow> ledger \<Rightarrow> bool"
  for D and admitted where
  step_ensure: "fresh_account n L \<Longrightarrow> ledger_step D admitted L (snd (ensure_account D n k limit L))"
| step_reserve: "fresh_account n L \<Longrightarrow> fresh_reservation m L \<Longrightarrow> admitted (ri_amount i) \<Longrightarrow>
     ledger_step D admitted L (snd (reserve D n m i L))"
| step_commit: "ledger_step D admitted L (snd (commit now c r L))"
| step_release: "ledger_step D admitted L (snd (release now c r L))"
| step_reconcile: "ledger_step D admitted L (snd (reconcile_release now c r L))"
| step_unknown: "ledger_step D admitted L (snd (mark_unknown c r L))"

inductive_cases ledger_stepE: "ledger_step D admitted L L'"

definition empty_ledger :: ledger where
  "empty_ledger = \<lparr> lg_accounts = [], lg_reservations = [] \<rparr>"

text \<open>What an account holds: the sum of its reservations in a set of statuses.\<close>

definition held :: "reservation_status set \<Rightarrow> string \<Rightarrow> ledger \<Rightarrow> rat" where
  "held S a L = sum_list (map (\<lambda>r. if re_account_id r = a \<and> re_status r \<in> S then re_amount r else 0)
     (lg_reservations L))"

definition balanced :: "ledger \<Rightarrow> bool" where
  "balanced L \<longleftrightarrow>
     distinct (map fa_id (lg_accounts L)) \<and> distinct (map re_id (lg_reservations L))
   \<and> re_account_id ` set (lg_reservations L) \<subseteq> fa_id ` set (lg_accounts L)
   \<and> (\<forall>a \<in> set (lg_accounts L).
        fa_current_reserved a = held {RESERVED, HELD_UNKNOWN} (fa_id a) L
      \<and> fa_current_committed a = held {COMMITTED} (fa_id a) L)"

section \<open>Lemmas\<close>

lemma balancedD:
  assumes "balanced L"
  shows "distinct (map fa_id (lg_accounts L))" "distinct (map re_id (lg_reservations L))"
    and "r \<in> set (lg_reservations L) \<Longrightarrow> re_account_id r \<in> fa_id ` set (lg_accounts L)"
    and "a \<in> set (lg_accounts L) \<Longrightarrow> fa_current_reserved a = held {RESERVED, HELD_UNKNOWN} (fa_id a) L"
    and "a \<in> set (lg_accounts L) \<Longrightarrow> fa_current_committed a = held {COMMITTED} (fa_id a) L"
  using assms by (auto simp: balanced_def)

lemma held_no_reservations:
  assumes "\<And>r. r \<in> set (lg_reservations L) \<Longrightarrow> re_account_id r \<noteq> a"
  shows "held S a L = 0"
proof -
  have "map (\<lambda>r. if re_account_id r = a \<and> re_status r \<in> S then re_amount r else 0) (lg_reservations L)
      = map (\<lambda>_. 0) (lg_reservations L)"
    using assms by auto
  then have "held S a L = sum_list (map (\<lambda>_. 0 :: rat) (lg_reservations L))"
    unfolding held_def by (rule arg_cong)
  then show ?thesis by (simp add: sum_list_triv)
qed

lemma held_accounts_update [simp]:
  "held S a (L\<lparr>lg_accounts := as\<rparr>) = held S a L"
  "held S a (update_account i f L) = held S a L"
  by (simp_all add: held_def update_account_def)

lemma held_append:
  "held S a (L\<lparr>lg_reservations := lg_reservations L @ [r]\<rparr>)
     = held S a L + (if re_account_id r = a \<and> re_status r \<in> S then re_amount r else 0)"
  by (simp add: held_def)

lemma held_update_reservation:
  assumes "distinct (map re_id (lg_reservations L))" and "res \<in> set (lg_reservations L)"
    and "re_account_id (mark res) = re_account_id res" "re_amount (mark res) = re_amount res"
  shows "held S a (update_reservation (re_id res) mark L)
     = held S a L
       - (if re_account_id res = a \<and> re_status res \<in> S then re_amount res else 0)
       + (if re_account_id res = a \<and> re_status (mark res) \<in> S then re_amount res else 0)"
  using sum_list_update_key [OF assms(1,2) refl,
      of "\<lambda>r. if re_account_id r = a \<and> re_status r \<in> S then re_amount r else 0" mark] assms(3,4)
  by (simp add: held_def update_reservation_def)

lemma balanced_empty: "balanced empty_ledger"
  by (simp add: balanced_def empty_ledger_def)

lemma balanced_create:
  assumes "balanced L" and "fresh_account n L" and "create_account D n k limit L = Some (a, L')"
  shows "balanced L' \<and> a \<in> set (lg_accounts L') \<and> lg_reservations L' = lg_reservations L
    \<and> set (lg_accounts L') = insert a (set (lg_accounts L)) \<and> fa_id a = n"
proof -
  have L': "L' = L\<lparr>lg_accounts := lg_accounts L @ [a]\<rparr>" and a: "fa_id a = n"
    "fa_current_reserved a = 0" "fa_current_committed a = 0"
    using assms(3) by (auto simp: create_account_def Let_def split: if_splits option.splits)
  have "held S n L = 0" for S
    using balancedD(3) [OF assms(1)] assms(2) by (intro held_no_reservations) (auto simp: fresh_account_def)
  then show ?thesis
    using assms(1,2) a by (auto simp: L' balanced_def fresh_account_def)
qed

lemma ensure_account_cases:
  assumes "ensure_account D n k limit L = (out, L')"
  obtains (found) a where "out = Inr a" "L' = L" "a \<in> set (lg_accounts L)"
    | (created) a where "out = Inr a" "create_account D n k limit L = Some (a, L')"
    | (failed) "out = Inl INTERNAL_ERROR" "L' = L"
  using assms by (auto simp: ensure_account_def split: option.splits dest: find_SomeD)

lemma balanced_ensure:
  assumes "balanced L" and "fresh_account n L" and "ensure_account D n k limit L = (out, L')"
  shows "balanced L'"
  using assms(3)
  by (cases rule: ensure_account_cases) (use assms(1,2) in \<open>auto dest: balanced_create\<close>)

lemma find_account_iff:
  assumes "distinct (map fa_id (lg_accounts L))"
  shows "find_account i L = Some a \<longleftrightarrow> a \<in> set (lg_accounts L) \<and> fa_id a = i"
  using find_key_unique [OF assms] by (auto simp: find_account_def dest: find_SomeD)

lemma find_reservation_D:
  "find_reservation c i L = Some r \<Longrightarrow> r \<in> set (lg_reservations L) \<and> re_id r = i \<and> re_company_id r = c"
  by (auto simp: find_reservation_def dest: find_SomeD)

text \<open>The one step of the arithmetic: moving a reservation and its account's balances together.\<close>

lemma balanced_settle:
  assumes bal: "balanced L" and res: "res \<in> set (lg_reservations L)"
    and keep: "\<And>r. re_id (mark r) = re_id r \<and> re_account_id (mark r) = re_account_id r \<and> re_amount (mark r) = re_amount r"
    and keep_id: "\<And>a. fa_id (move a) = fa_id a"
    and moved: "\<And>a. fa_current_reserved (move a) = fa_current_reserved a
        - (if re_status res \<in> {RESERVED, HELD_UNKNOWN} then re_amount res else 0)
        + (if re_status (mark res) \<in> {RESERVED, HELD_UNKNOWN} then re_amount res else 0)"
      "\<And>a. fa_current_committed (move a) = fa_current_committed a
        - (if re_status res = COMMITTED then re_amount res else 0)
        + (if re_status (mark res) = COMMITTED then re_amount res else 0)"
  shows "balanced (update_reservation (re_id res) mark (update_account (re_account_id res) move L))"
proof -
  let ?L1 = "update_account (re_account_id res) move L"
  have res1: "distinct (map re_id (lg_reservations ?L1))" "res \<in> set (lg_reservations ?L1)"
    using bal res by (simp_all add: update_account_def balancedD)
  have h: "held S a (update_reservation (re_id res) mark ?L1) = held S a L
       - (if re_account_id res = a \<and> re_status res \<in> S then re_amount res else 0)
       + (if re_account_id res = a \<and> re_status (mark res) \<in> S then re_amount res else 0)" for S a
    using held_update_reservation [OF res1] keep by simp
  let ?L2 = "update_reservation (re_id res) mark ?L1"
  have ids: "map fa_id (lg_accounts ?L2) = map fa_id (lg_accounts L)"
    "map re_id (lg_reservations ?L2) = map re_id (lg_reservations L)"
    "map re_account_id (lg_reservations ?L2) = map re_account_id (lg_reservations L)"
    using keep keep_id by (simp_all add: update_account_def update_reservation_def map_update_where_same)
  have sums: "fa_current_reserved b = held {RESERVED, HELD_UNKNOWN} (fa_id b) ?L2 \<and>
      fa_current_committed b = held {COMMITTED} (fa_id b) ?L2" if "b \<in> set (lg_accounts ?L2)" for b
  proof -
    from that obtain a where a: "a \<in> set (lg_accounts L)"
      and b: "b = (if fa_id a = re_account_id res then move a else a)"
      by (auto simp: update_account_def update_reservation_def in_update_where)
    have "fa_id b = fa_id a" using b keep_id by simp
    then show ?thesis
      unfolding h using balancedD(4,5) [OF bal a] moved [of a] by (cases "fa_id a = re_account_id res") (simp_all add: b)
  qed
  have "re_account_id ` set (lg_reservations ?L2) \<subseteq> fa_id ` set (lg_accounts ?L2)"
    using bal unfolding balanced_def by (metis ids(1,3) list.set_map)
  then show ?thesis
    using bal sums unfolding balanced_def by (simp add: ids)
qed

lemma reserve_tx_Inr:
  assumes "reserve_tx m i account_id q L = (Inr r, L')"
  obtains row where "row \<in> set (lg_accounts L)" "fa_id row = account_id"
    and "\<forall>l. fa_limit_amount row = Some l \<longrightarrow> fa_current_reserved row + fa_current_committed row + q \<le> l"
    and "re_id r = m" "re_account_id r = account_id" "re_amount r = q" "re_status r = RESERVED"
    and "L' = update_account account_id (\<lambda>a. a\<lparr>fa_current_reserved := fa_current_reserved row + q\<rparr>)
       (L\<lparr>lg_reservations := lg_reservations L @ [r]\<rparr>)"
proof (cases "find_account account_id L")
  case None
  with assms show ?thesis by (simp add: reserve_tx_def)
next
  case (Some row)
  have row: "row \<in> set (lg_accounts L)" "fa_id row = account_id"
    using Some by (auto simp: find_account_def dest: find_SomeD)
  show ?thesis
    by (rule that [of row]) (use assms Some row in
      \<open>auto simp: reserve_tx_def Let_def split: if_splits option.splits\<close>)
qed

lemma balanced_reserve_tx:
  assumes "balanced L" and "fresh_reservation m L" and "reserve_tx m i account_id q L = (Inr r, L')"
  shows "balanced L'"
proof -
  obtain row where row: "row \<in> set (lg_accounts L)" "fa_id row = account_id"
    and r: "re_id r = m" "re_account_id r = account_id" "re_amount r = q" "re_status r = RESERVED"
    and L': "L' = update_account account_id (\<lambda>a. a\<lparr>fa_current_reserved := fa_current_reserved row + q\<rparr>)
       (L\<lparr>lg_reservations := lg_reservations L @ [r]\<rparr>)"
    using assms(3) by (rule reserve_tx_Inr)
  have h: "held S a L' = held S a L + (if account_id = a \<and> RESERVED \<in> S then q else 0)" for S a
    unfolding L' using r by (simp add: held_append)
  have ids: "map fa_id (lg_accounts L') = map fa_id (lg_accounts L)"
    "lg_reservations L' = lg_reservations L @ [r]"
    by (simp_all add: L' update_account_def map_update_where_same)
  have sums: "fa_current_reserved b = held {RESERVED, HELD_UNKNOWN} (fa_id b) L' \<and>
      fa_current_committed b = held {COMMITTED} (fa_id b) L'" if "b \<in> set (lg_accounts L')" for b
  proof -
    from that obtain a where a: "a \<in> set (lg_accounts L)"
      and b: "b = (if fa_id a = account_id then a\<lparr>fa_current_reserved := fa_current_reserved row + q\<rparr> else a)"
      by (auto simp: L' update_account_def in_update_where)
    have "a = row" if "fa_id a = account_id"
      using that a row balancedD(1) [OF assms(1)] by (auto simp: distinct_map dest: inj_onD)
    then show ?thesis
      unfolding h using balancedD(4,5) [OF assms(1) a] by (auto simp: b)
  qed
  have "re_account_id ` set (lg_reservations L') \<subseteq> fa_id ` set (lg_accounts L')"
    using assms(1) row r unfolding balanced_def ids(2) by (metis (no_types, lifting) ids(1) list.set_map
        image_insert insert_subset image_eqI set_append list.simps(15) empty_set Un_insert_right sup_bot_right)
  then show ?thesis
    using assms(1,2) sums r unfolding balanced_def fresh_reservation_def by (simp add: ids)
qed

lemma reserve_cases:
  assumes "reserve D n m i L = (out, L')"
  obtains (not_reserved) a where "ensure_account D n (ri_key i) None L = (a, L')" "out \<in> range Inl"
    | (reserved) a L1 q r where "ensure_account D n (ri_key i) None L = (Inr a, L1)"
        "dl_parse D (ri_amount i) = Some q" "reserve_tx m i (fa_id a) q L1 = (Inr r, L')" "out = Inr r"
  using assms
  by (auto simp: reserve_def transaction_def split: prod.splits sum.splits option.splits)

lemma fresh_reservation_ensure:
  "ensure_account D n k limit L = (out, L') \<Longrightarrow> fresh_reservation m L \<longleftrightarrow> fresh_reservation m L'"
  by (cases rule: ensure_account_cases)
     (auto simp: fresh_reservation_def create_account_def Let_def split: if_splits option.splits)

lemma balanced_reserve:
  assumes "balanced L" "fresh_account n L" "fresh_reservation m L" "reserve D n m i L = (out, L')"
  shows "balanced L'"
  using assms(4)
proof (cases rule: reserve_cases)
  case (not_reserved a)
  then show ?thesis using balanced_ensure assms(1,2) by blast
next
  case (reserved a L1 q r)
  have "balanced L1" "fresh_reservation m L1"
    using reserved(1) balanced_ensure [OF assms(1,2)] fresh_reservation_ensure assms(3) by blast+
  then show ?thesis using reserved(3) balanced_reserve_tx by blast
qed

lemma settle_Inr:
  "settle res move mark L = (Inr r, L') \<Longrightarrow>
     L' = update_reservation (re_id res) mark (update_account (re_account_id res) move L) \<and> r = mark res"
  by (auto simp: settle_def split: option.splits)

lemmas settlement_defs = commit_def release_def reconcile_release_def

lemma balanced_settlements:
  assumes "balanced L"
  shows "balanced (snd (commit now c i L))" "balanced (snd (release now c i L))"
    "balanced (snd (reconcile_release now c i L))"
proof -
  have settled: "balanced L'"
    if "find_reservation c i L = Some res" "settle res move mark L = (Inr r, L')"
      and "\<And>r. re_id (mark r) = re_id r \<and> re_account_id (mark r) = re_account_id r \<and> re_amount (mark r) = re_amount r"
      and "\<And>a. fa_id (move a) = fa_id a"
      and "\<And>a. fa_current_reserved (move a) = fa_current_reserved a
        - (if re_status res \<in> {RESERVED, HELD_UNKNOWN} then re_amount res else 0)
        + (if re_status (mark res) \<in> {RESERVED, HELD_UNKNOWN} then re_amount res else 0)"
      "\<And>a. fa_current_committed (move a) = fa_current_committed a
        - (if re_status res = COMMITTED then re_amount res else 0)
        + (if re_status (mark res) = COMMITTED then re_amount res else 0)"
    for res move mark r L'
    using that balanced_settle [OF assms, of res mark move] find_reservation_D [OF that(1)] settle_Inr [OF that(2)]
    by blast
  have status_rest: "x = HELD_UNKNOWN" if "x \<noteq> RELEASED" "x \<noteq> COMMITTED" "x \<noteq> RESERVED" for x
    using that by (cases x) auto
  show "balanced (snd (commit now c i L))"
    unfolding commit_def
    by (rule transaction_preserves [where P = balanced, OF assms])
       (auto split: option.splits if_splits intro!: assms elim!: settled)
  show "balanced (snd (release now c i L))"
    unfolding release_def
    by (rule transaction_preserves [where P = balanced, OF assms])
       (auto split: option.splits if_splits intro!: assms elim!: settled)
  show "balanced (snd (reconcile_release now c i L))"
    unfolding reconcile_release_def
    by (rule transaction_preserves [where P = balanced, OF assms])
       (auto split: option.splits if_splits intro!: assms elim!: settled dest: status_rest)
qed

lemma balanced_mark_unknown:
  assumes "balanced L"
  shows "balanced (snd (mark_unknown c i L))"
proof -
  have "balanced (update_reservation (re_id res) (\<lambda>r. r\<lparr>re_status := HELD_UNKNOWN\<rparr>)
      (update_account (re_account_id res) (\<lambda>a. a) L))"
    if "res \<in> set (lg_reservations L)" "re_status res \<in> {RESERVED, HELD_UNKNOWN}" for res
    by (rule balanced_settle [OF assms that(1)]) (use that(2) in auto)
  moreover have "update_account j (\<lambda>a. a) L = L" for j
    by (simp add: update_account_def update_where_def)
  ultimately show ?thesis
    using assms by (auto simp: mark_unknown_def split: option.splits dest: find_reservation_D)
qed

lemma balanced_step: "balanced L \<Longrightarrow> ledger_step D admitted L L' \<Longrightarrow> balanced L'"
  by (erule ledger_stepE)
     (auto intro: balanced_settlements balanced_mark_unknown
       balanced_ensure [OF _ _ prod.collapse [symmetric]] balanced_reserve [OF _ _ _ prod.collapse [symmetric]])

interpretation balances: invariant_system "\<lambda>L. L = empty_ledger" "ledger_step D admitted" balanced
  for D admitted
  by unfold_locales (auto intro: balanced_empty balanced_step)

section \<open>The budget cap\<close>

text \<open>No account holds more than its limit (an account may be created with a negative limit).\<close>

definition within_budget :: "ledger \<Rightarrow> bool" where
  "within_budget L \<longleftrightarrow> (\<forall>a \<in> set (lg_accounts L). \<forall>l. fa_limit_amount a = Some l \<longrightarrow>
     fa_current_reserved a + fa_current_committed a \<le> max 0 l)"

definition nonneg_holds :: "ledger \<Rightarrow> bool" where
  "nonneg_holds L \<longleftrightarrow> (\<forall>r \<in> set (lg_reservations L). 0 \<le> re_amount r)"

definition capped :: "ledger \<Rightarrow> bool" where
  "capped L \<longleftrightarrow> balanced L \<and> nonneg_holds L \<and> within_budget L"

lemma capped_settle:
  assumes "capped L" and "res \<in> set (lg_reservations L)"
    and "\<And>r. re_amount (mark r) = re_amount r" "\<And>a. fa_limit_amount (move a) = fa_limit_amount a"
    and "\<And>a. fa_current_reserved (move a) + fa_current_committed (move a)
            \<le> fa_current_reserved a + fa_current_committed a"
  shows "nonneg_holds (update_reservation i mark (update_account j move L))
    \<and> within_budget (update_reservation i mark (update_account j move L))"
  using assms
  by (auto simp: capped_def nonneg_holds_def within_budget_def update_reservation_def update_account_def
      in_update_where split: if_splits) (meson order_trans)+

lemma capped_settlements:
  assumes "capped L"
  shows "capped (snd (commit now c i L))" "capped (snd (release now c i L))"
    "capped (snd (reconcile_release now c i L))" "capped (snd (mark_unknown c i L))"
proof -
  have bal: "balanced L" and nn: "\<And>r. r \<in> set (lg_reservations L) \<Longrightarrow> 0 \<le> re_amount r"
    using assms by (auto simp: capped_def nonneg_holds_def)
  have settled: "nonneg_holds L' \<and> within_budget L'"
    if "find_reservation c i L = Some res" "settle res move mark L = (Inr r, L')"
      and "\<And>r. re_amount (mark r) = re_amount r" "\<And>a. fa_limit_amount (move a) = fa_limit_amount a"
      and "0 \<le> re_amount res \<Longrightarrow> (\<And>a. fa_current_reserved (move a) + fa_current_committed (move a)
            \<le> fa_current_reserved a + fa_current_committed a)"
    for res move mark r L'
    using that capped_settle [OF assms, of res mark move] find_reservation_D [OF that(1)] settle_Inr [OF that(2)] nn
    by blast
  have goal: "nonneg_holds L \<and> within_budget L" using assms by (simp add: capped_def)
  have "nonneg_holds (snd (commit now c i L)) \<and> within_budget (snd (commit now c i L))"
    unfolding commit_def
    by (rule transaction_preserves [where P = "\<lambda>L. nonneg_holds L \<and> within_budget L", OF goal])
       (auto split: option.splits if_splits simp: goal dest!: settled)
  then show "capped (snd (commit now c i L))" using balanced_settlements [OF bal] by (simp add: capped_def)
  have "nonneg_holds (snd (release now c i L)) \<and> within_budget (snd (release now c i L))"
    unfolding release_def
    by (rule transaction_preserves [where P = "\<lambda>L. nonneg_holds L \<and> within_budget L", OF goal])
       (auto split: option.splits if_splits simp: goal dest!: settled)
  then show "capped (snd (release now c i L))" using balanced_settlements [OF bal] by (simp add: capped_def)
  have "nonneg_holds (snd (reconcile_release now c i L)) \<and> within_budget (snd (reconcile_release now c i L))"
    unfolding reconcile_release_def
    by (rule transaction_preserves [where P = "\<lambda>L. nonneg_holds L \<and> within_budget L", OF goal])
       (auto split: option.splits if_splits simp: goal dest!: settled)
  then show "capped (snd (reconcile_release now c i L))" using balanced_settlements [OF bal] by (simp add: capped_def)
  show "capped (snd (mark_unknown c i L))"
    using balanced_mark_unknown [OF bal, of c i] assms
    by (auto simp: capped_def mark_unknown_def nonneg_holds_def within_budget_def update_reservation_def
        in_update_where split: option.splits if_splits)
qed

lemma capped_ensure:
  assumes "capped L" and "fresh_account n L" and "ensure_account D n k limit L = (out, L')"
  shows "capped L'"
  using assms(3)
proof (cases rule: ensure_account_cases)
  case (created a)
  have a: "fa_current_reserved a = 0" "fa_current_committed a = 0"
    using created(2) by (auto simp: create_account_def Let_def split: if_splits option.splits)
  have "balanced L" using assms(1) by (simp add: capped_def)
  from balanced_create [OF this assms(2) created(2)] show ?thesis
    using assms(1) a by (auto simp: capped_def nonneg_holds_def within_budget_def)
qed (use assms(1) in simp_all)

lemma capped_reserve_tx:
  assumes "capped L" "fresh_reservation m L" "0 \<le> q" and "reserve_tx m i account_id q L = (Inr r, L')"
  shows "capped L'"
proof -
  have bal: "balanced L" using assms(1) by (simp add: capped_def)
  have b': "balanced L'" by (rule balanced_reserve_tx [OF bal assms(2,4)])
  obtain row where row: "row \<in> set (lg_accounts L)" "fa_id row = account_id"
    and lim: "\<forall>l. fa_limit_amount row = Some l \<longrightarrow> fa_current_reserved row + fa_current_committed row + q \<le> l"
    and r: "re_id r = m" "re_account_id r = account_id" "re_amount r = q" "re_status r = RESERVED"
    and L': "L' = update_account account_id (\<lambda>a. a\<lparr>fa_current_reserved := fa_current_reserved row + q\<rparr>)
       (L\<lparr>lg_reservations := lg_reservations L @ [r]\<rparr>)"
    using assms(4) by (rule reserve_tx_Inr)
  have "fa_current_reserved b + fa_current_committed b \<le> max 0 l"
    if b_in: "b \<in> set (lg_accounts L')" and l: "fa_limit_amount b = Some l" for b l
  proof -
    from b_in obtain a where a: "a \<in> set (lg_accounts L)"
      and b: "b = (if fa_id a = account_id then a\<lparr>fa_current_reserved := fa_current_reserved row + q\<rparr> else a)"
      by (auto simp: L' update_account_def in_update_where)
    have "a = row" if "fa_id a = account_id"
      using that a row balancedD(1) [OF bal] by (auto simp: distinct_map dest: inj_onD)
    then show ?thesis
      using assms(1) a l b lim
      by (fastforce simp: capped_def within_budget_def split: if_splits)
  qed
  then show ?thesis
    using b' assms(1,3) r
    by (auto simp: capped_def within_budget_def nonneg_holds_def L' update_account_def)
qed

lemma capped_reserve:
  assumes "capped L" "fresh_account n L" "fresh_reservation m L" "reserve D n m i L = (out, L')"
    and "\<And>q. dl_parse D (ri_amount i) = Some q \<Longrightarrow> 0 \<le> q"
  shows "capped L'"
  using assms(4)
proof (cases rule: reserve_cases)
  case (not_reserved a)
  then show ?thesis using capped_ensure assms(1,2) by blast
next
  case (reserved a L1 q r)
  have "capped L1" "fresh_reservation m L1"
    using reserved(1) capped_ensure [OF assms(1,2)] fresh_reservation_ensure assms(3) by blast+
  then show ?thesis using reserved(2,3) capped_reserve_tx assms(5) by blast
qed

definition nonneg_amount :: "decimal_lib \<Rightarrow> string \<Rightarrow> bool" where
  "nonneg_amount D s \<longleftrightarrow> (case dl_parse D s of None \<Rightarrow> True | Some q \<Rightarrow> 0 \<le> q)"

lemma capped_step: "capped L \<Longrightarrow> ledger_step D (nonneg_amount D) L L' \<Longrightarrow> capped L'"
  by (erule ledger_stepE)
     (auto intro: capped_settlements capped_ensure [OF _ _ prod.collapse [symmetric]]
       simp: nonneg_amount_def intro!: capped_reserve [OF _ _ _ prod.collapse [symmetric]])

lemma capped_empty: "capped empty_ledger"
  by (simp add: capped_def balanced_empty nonneg_holds_def within_budget_def) (simp add: empty_ledger_def)

interpretation budget: invariant_system "\<lambda>L. L = empty_ledger" "ledger_step D (nonneg_amount D)" capped
  for D
  by unfold_locales (auto intro: capped_empty capped_step)

section \<open>The life of a reservation\<close>

text \<open>The moves the lifecycle allows; COMMITTED and RELEASED are final.\<close>

fun status_move :: "reservation_status \<Rightarrow> reservation_status \<Rightarrow> bool" where
  "status_move RESERVED t = True"
| "status_move HELD_UNKNOWN t = (t = HELD_UNKNOWN \<or> t = RELEASED)"
| "status_move s t = (s = t)"

lemma status_move_refl [simp]: "status_move s s"
  by (cases s) simp_all

lemma status_move_trans: "status_move s t \<Longrightarrow> status_move t u \<Longrightarrow> status_move s u"
  by (cases s; cases t; cases u) simp_all

definition reservations_follow :: "ledger \<Rightarrow> ledger \<Rightarrow> bool" where
  "reservations_follow L L' \<longleftrightarrow> (\<forall>r \<in> set (lg_reservations L). \<exists>r' \<in> set (lg_reservations L').
     re_id r' = re_id r \<and> re_account_id r' = re_account_id r \<and> re_amount r' = re_amount r
     \<and> status_move (re_status r) (re_status r'))"

lemma reservations_follow_refl [simp]: "reservations_follow L L"
  by (force simp: reservations_follow_def)

lemma reservations_follow_trans:
  "reservations_follow L L' \<Longrightarrow> reservations_follow L' L'' \<Longrightarrow> reservations_follow L L''"
  unfolding reservations_follow_def by (metis status_move_trans)

lemma follow_update:
  assumes "distinct (map re_id (lg_reservations L))" "res \<in> set (lg_reservations L)"
    and "\<And>r. re_id (mark r) = re_id r \<and> re_account_id (mark r) = re_account_id r \<and> re_amount (mark r) = re_amount r"
    and "status_move (re_status res) (re_status (mark res))"
  shows "reservations_follow L (update_reservation (re_id res) mark (update_account j move L))"
proof -
  have "r = res" if "r \<in> set (lg_reservations L)" "re_id r = re_id res" for r
    using that assms(1,2) by (auto simp: distinct_map dest: inj_onD)
  then show ?thesis
    using assms(3,4)
    by (force simp: reservations_follow_def update_reservation_def update_account_def in_update_where)
qed

lemma follow_settlements:
  assumes "distinct (map re_id (lg_reservations L))"
  shows "reservations_follow L (snd (commit now c i L))" "reservations_follow L (snd (release now c i L))"
    "reservations_follow L (snd (reconcile_release now c i L))" "reservations_follow L (snd (mark_unknown c i L))"
proof -
  have settled: "reservations_follow L L'"
    if "find_reservation c i L = Some res" "settle res move mark L = (Inr r, L')"
      and "\<And>r. re_id (mark r) = re_id r \<and> re_account_id (mark r) = re_account_id r \<and> re_amount (mark r) = re_amount r"
      and "status_move (re_status res) (re_status (mark res))"
    for res move mark r L'
    using that follow_update [OF assms, of res mark] find_reservation_D [OF that(1)] settle_Inr [OF that(2)]
    by blast
  have status_rest: "x = HELD_UNKNOWN" if "x \<noteq> RELEASED" "x \<noteq> COMMITTED" "x \<noteq> RESERVED" for x
    using that by (cases x) auto
  have to_released: "status_move x RELEASED" if "x \<noteq> RELEASED" "x \<noteq> COMMITTED" for x
    using that by (cases x) auto
  show "reservations_follow L (snd (commit now c i L))"
    unfolding commit_def
    by (rule transaction_preserves [where P = "reservations_follow L", OF reservations_follow_refl])
       (auto split: option.splits if_splits elim!: settled)
  show "reservations_follow L (snd (release now c i L))"
    unfolding release_def
    by (rule transaction_preserves [where P = "reservations_follow L", OF reservations_follow_refl])
       (auto split: option.splits if_splits elim!: settled)
  show "reservations_follow L (snd (reconcile_release now c i L))"
    unfolding reconcile_release_def
    by (rule transaction_preserves [where P = "reservations_follow L", OF reservations_follow_refl])
       (auto split: option.splits if_splits elim!: settled intro: to_released)
  have "update_account j (\<lambda>a. a) L = L" for j
    by (simp add: update_account_def update_where_def)
  then have "reservations_follow L (update_reservation (re_id res) (\<lambda>r. r\<lparr>re_status := HELD_UNKNOWN\<rparr>) L)"
    if "res \<in> set (lg_reservations L)" "re_status res \<in> {RESERVED, HELD_UNKNOWN}" for res
    using follow_update [OF assms that(1), of "\<lambda>r. r\<lparr>re_status := HELD_UNKNOWN\<rparr>" _ "\<lambda>a. a"] that(2)
    by auto
  then show "reservations_follow L (snd (mark_unknown c i L))"
    by (auto simp: mark_unknown_def split: option.splits dest: find_reservation_D)
qed

lemma ensure_account_reservations [simp]:
  "lg_reservations (snd (ensure_account D n k limit L)) = lg_reservations L"
  by (auto simp: ensure_account_def create_account_def Let_def split: option.splits)

lemma follow_reserve: "reservations_follow L (snd (reserve D n m i L))"
proof -
  obtain out L' where e: "reserve D n m i L = (out, L')" by (cases "reserve D n m i L")
  then have "set (lg_reservations L) \<subseteq> set (lg_reservations L')"
  proof (cases rule: reserve_cases)
    case (not_reserved a)
    then show ?thesis using ensure_account_reservations by (metis order_refl snd_conv)
  next
    case (reserved a L1 q r)
    have "lg_reservations L1 = lg_reservations L"
      using reserved(1) ensure_account_reservations by (metis snd_conv)
    with reserved(3) show ?thesis
      by (auto simp: reserve_tx_def Let_def update_account_def split: option.splits if_splits)
  qed
  with e show ?thesis by (force simp: reservations_follow_def)
qed

lemma follow_ensure: "reservations_follow L (snd (ensure_account D n k limit L))"
  by (force simp: reservations_follow_def)

lemma follow_step:
  assumes "balanced L" and "ledger_step D admitted L L'"
  shows "reservations_follow L L'"
  using assms(2) follow_settlements [OF balancedD(2) [OF assms(1)]] follow_reserve follow_ensure
  by (elim ledger_stepE) simp_all

section \<open>Properties\<close>


definition sample_key :: account_key where
  "sample_key = \<lparr> ak_company_id = ''co'', ak_agent_id = Some ''ag'', ak_scope = SCOPE_AGENT,
     ak_scope_key = ''ag'', ak_asset = ''USDC'', ak_network = Some ''base'' \<rparr>"

definition sample_reserve :: "string \<Rightarrow> reserve_input" where
  "sample_reserve amount = \<lparr> ri_key = sample_key, ri_amount = amount, ri_execution_request_id = None \<rparr>"

text \<open>A bucket capped at ten; two reservations of four, the first committed, the second unknown.\<close>

definition ledger1 :: ledger where
  "ledger1 = snd (ensure_account plain_decimal ''a'' sample_key (Some ''10'') empty_ledger)"

definition ledger2 :: ledger where
  "ledger2 = snd (reserve plain_decimal ''x'' ''r1'' (sample_reserve ''4'') ledger1)"

definition ledger3 :: ledger where
  "ledger3 = snd (reserve plain_decimal ''x'' ''r2'' (sample_reserve ''4'') ledger2)"

definition ledger3c :: ledger where
  "ledger3c = snd (commit 7 ''co'' ''r1'' ledger3)"

definition ledger4 :: ledger where
  "ledger4 = snd (mark_unknown ''co'' ''r2'' ledger3c)"

lemmas ledger_eval = ensure_account_def create_account_def empty_ledger_def sample_key_def
  sample_reserve_def matches_key_def reserve_def reserve_tx_def transaction_def find_account_def
  update_account_def update_reservation_def find_reservation_def settle_def commit_def release_def
  reconcile_release_def mark_unknown_def Let_def money_amount_def money_value_def split_point_def
  unsigned_part_def all_digits_def is_digit_def digits_value_def digit_value_def

lemma ledger1_value: "ledger1 = \<lparr> lg_accounts = [\<lparr> fa_id = ''a'', fa_company_id = ''co'', fa_agent_id = Some ''ag'',
     fa_scope = SCOPE_AGENT, fa_scope_key = ''ag'', fa_asset = ''USDC'', fa_network = Some ''base'',
     fa_current_reserved = 0, fa_current_committed = 0, fa_limit_amount = Some 10 \<rparr>], lg_reservations = [] \<rparr>"
  by (simp add: ledger1_def ledger_eval)

definition sample_reservation :: "string \<Rightarrow> reservation_status \<Rightarrow> int option \<Rightarrow> reservation" where
  "sample_reservation i st committed = \<lparr> re_id = i, re_company_id = ''co'', re_agent_id = Some ''ag'',
     re_execution_request_id = None, re_account_id = ''a'', re_amount = 4, re_asset = ''USDC'',
     re_status = st, re_released_at = None, re_committed_at = committed \<rparr>"

definition sample_account :: "rat \<Rightarrow> rat \<Rightarrow> financial_account" where
  "sample_account reserved committed = \<lparr> fa_id = ''a'', fa_company_id = ''co'', fa_agent_id = Some ''ag'',
     fa_scope = SCOPE_AGENT, fa_scope_key = ''ag'', fa_asset = ''USDC'', fa_network = Some ''base'',
     fa_current_reserved = reserved, fa_current_committed = committed, fa_limit_amount = Some 10 \<rparr>"

lemma ledger3_value: "ledger2 = \<lparr> lg_accounts = [sample_account 4 0],
      lg_reservations = [sample_reservation ''r1'' RESERVED None] \<rparr>"
  "ledger3 = \<lparr> lg_accounts = [sample_account 8 0],
      lg_reservations = [sample_reservation ''r1'' RESERVED None, sample_reservation ''r2'' RESERVED None] \<rparr>"
  by (simp_all add: ledger3_def ledger2_def ledger1_value ledger_eval sample_reservation_def sample_account_def)

lemma ledger4_value: "ledger4 = \<lparr> lg_accounts = [sample_account 4 4],
      lg_reservations = [sample_reservation ''r1'' COMMITTED (Some 7), sample_reservation ''r2'' HELD_UNKNOWN None] \<rparr>"
  by (simp add: ledger4_def ledger3c_def ledger3_value ledger_eval sample_reservation_def sample_account_def)

lemma ledger_steps:
  "ledger_step plain_decimal (nonneg_amount plain_decimal) empty_ledger ledger1"
  "ledger_step plain_decimal (nonneg_amount plain_decimal) ledger1 ledger2"
  "ledger_step plain_decimal (nonneg_amount plain_decimal) ledger2 ledger3"
  "ledger_step plain_decimal (nonneg_amount plain_decimal) ledger3 ledger3c"
  "ledger_step plain_decimal (nonneg_amount plain_decimal) ledger3c ledger4"
proof -
  show "ledger_step plain_decimal (nonneg_amount plain_decimal) empty_ledger ledger1"
    unfolding ledger1_def by (rule step_ensure) (simp add: fresh_account_def empty_ledger_def)
  show "ledger_step plain_decimal (nonneg_amount plain_decimal) ledger1 ledger2"
    unfolding ledger2_def
    by (rule step_reserve)
       (simp_all add: fresh_account_def fresh_reservation_def ledger1_value nonneg_amount_def ledger_eval)
  show "ledger_step plain_decimal (nonneg_amount plain_decimal) ledger2 ledger3"
    unfolding ledger3_def
    by (rule step_reserve)
       (simp_all add: fresh_account_def fresh_reservation_def ledger3_value nonneg_amount_def ledger_eval
         sample_account_def sample_reservation_def)
  show "ledger_step plain_decimal (nonneg_amount plain_decimal) ledger3 ledger3c"
    unfolding ledger3c_def by (rule step_commit)
  show "ledger_step plain_decimal (nonneg_amount plain_decimal) ledger3c ledger4"
    unfolding ledger4_def by (rule step_unknown)
qed

lemma ledger_reached:
  "reachable (\<lambda>L. L = empty_ledger) (ledger_step plain_decimal (nonneg_amount plain_decimal)) ledger3"
  "reachable (\<lambda>L. L = empty_ledger) (ledger_step plain_decimal (nonneg_amount plain_decimal)) ledger4"
proof -
  let ?reach = "reachable (\<lambda>L. L = empty_ledger) (ledger_step plain_decimal (nonneg_amount plain_decimal))"
  have "?reach empty_ledger" by (rule reachable_init) simp
  from reachable_step [OF this ledger_steps(1)] have "?reach ledger1" .
  from reachable_step [OF this ledger_steps(2)] have "?reach ledger2" .
  from reachable_step [OF this ledger_steps(3)] show r3: "?reach ledger3" .
  from reachable_step [OF r3 ledger_steps(4)] have "?reach ledger3c" .
  from reachable_step [OF this ledger_steps(5)] show "?reach ledger4" .
qed


text \<open>
  C4: the cap holds: as long as callers reserve non-negative amounts, no reachable ledger has an
  account whose reserved and committed totals together exceed its limit.
\<close>

theorem budget_never_exceeded:
  assumes "reachable (\<lambda>L. L = empty_ledger) (ledger_step D (nonneg_amount D)) L"
    and "a \<in> set (lg_accounts L)" and "fa_limit_amount a = Some l"
  shows "fa_current_reserved a + fa_current_committed a \<le> max 0 l"
  using budget.reachable_inv [OF assms(1)] assms(2,3) by (auto simp: capped_def within_budget_def)

theorem budget_never_exceeded_witness:
  "fa_current_reserved (sample_account 4 4) + fa_current_committed (sample_account 4 4) \<le> max 0 10"
  by (rule budget_never_exceeded [OF ledger_reached(2)]) (simp_all add: ledger4_value sample_account_def)

text \<open>
  The cap needs that condition, because \<open>reserve\<close> accepts a negative amount: reserving minus
  five, then fifteen, then releasing the first leaves fifteen reserved under a limit of ten.
\<close>

theorem negative_reservation_breaks_cap:
  "\<exists>L a. reachable (\<lambda>L. L = empty_ledger) (ledger_step plain_decimal money_amount) L
     \<and> a \<in> set (lg_accounts L) \<and> fa_limit_amount a = Some 10 \<and> fa_current_reserved a = 15"
proof -
  define m1 where "m1 = snd (reserve plain_decimal ''x'' ''r1'' (sample_reserve ''-5'') ledger1)"
  define m2 where "m2 = snd (reserve plain_decimal ''x'' ''r2'' (sample_reserve ''15'') m1)"
  define m3 where "m3 = snd (release 9 ''co'' ''r1'' m2)"
  let ?reach = "reachable (\<lambda>L. L = empty_ledger) (ledger_step plain_decimal money_amount)"
  have "?reach ledger1"
    unfolding ledger1_def by (rule reachable_step [where s = empty_ledger], rule reachable_init, rule refl, rule step_ensure)
      (simp add: fresh_account_def empty_ledger_def)
  moreover have "ledger_step plain_decimal money_amount ledger1 m1"
    unfolding m1_def by (rule step_reserve)
      (simp_all add: fresh_account_def fresh_reservation_def ledger1_value ledger_eval)
  moreover have "ledger_step plain_decimal money_amount m1 m2"
    unfolding m2_def by (rule step_reserve)
      (simp_all add: m1_def fresh_account_def fresh_reservation_def ledger1_value ledger_eval)
  moreover have "ledger_step plain_decimal money_amount m2 m3"
    unfolding m3_def by (rule step_release)
  ultimately have "?reach m3" by (metis reachable_step)
  moreover have "lg_accounts m3 = [(sample_account 15 0)]"
    by (simp add: m3_def m2_def m1_def ledger1_value ledger_eval sample_account_def)
  ultimately show ?thesis
    by (intro exI [of _ m3] exI [of _ "sample_account 15 0"]) (simp add: sample_account_def)
qed



end
