(* ===== verification/Execution_Result.thy ===== *)
theory Execution_Result
  imports Financial_State Contracts
begin

text \<open>
  Execution results, reconciliation and receipt verification
  (Backend/src/execution-gate/execution-result.service.ts) over the tables of execution requests,
  results and verifications and the ledger. The execution client is a parameter: the answers of
  its \<open>getResult\<close> and \<open>verify\<close>, which may be errors. The methods are not transactions:
  what they wrote before an error stays.
\<close>

section \<open>State\<close>

datatype execution_request_status =
  XR_CREATED | XR_AUTHORIZED | XR_SUBMITTED | XR_CONFIRMED | XR_FAILED | XR_UNKNOWN | XR_CANCELLED

datatype execution_result_status = XS_SUBMITTED | XS_CONFIRMED | XS_FAILED | XS_UNKNOWN

datatype receipt_status = RV_PENDING | RV_VERIFIED | RV_MISMATCH | RV_FAILED | RV_UNKNOWN

record execution_request_row =
  xr_id :: string
  xr_company_id :: string
  xr_agent_id :: string
  xr_decision_id :: string
  xr_transaction_id :: string
  xr_policy_version_id :: "string option"
  xr_authorization_context_hash :: string
  xr_idempotency_key :: string
  xr_executor_type :: string
  xr_network :: string
  xr_status :: execution_request_status
  xr_authorized_at :: "int option"

record execution_result_row =
  xs_id :: string
  xs_execution_request_id :: string
  xs_transaction_hash :: "string option"
  xs_status :: execution_result_status
  xs_chain :: string
  xs_submitted_at :: "int option"
  xs_confirmed_at :: "int option"

record verification_row =
  xv_id :: string
  xv_execution_request_id :: string
  xv_status :: receipt_status
  xv_verified :: bool
  xv_transaction_hash :: string
  xv_expected :: receipt_snapshot
  xv_actual :: receipt_snapshot
  xv_discrepancies :: "string list"
  xv_verified_at :: int

record execution_db =
  xd_ledger :: ledger
  xd_requests :: "execution_request_row list"
  xd_results :: "execution_result_row list"
  xd_verifications :: "verification_row list"

record execution_result_input =
  xi_execution_id :: string
  xi_status :: execution_result_status
  xi_chain :: string
  xi_transaction_hash :: "string option"
  xi_submitted_at :: "string option"
  xi_confirmed_at :: "string option"
  xi_authenticated :: bool

datatype reconcile_outcome = RO_CONFIRMED | RO_FAILED | RO_STILL_UNKNOWN

type_synonym 'a execution_op = "(execution_db, error_code, 'a) op"

section \<open>Operations\<close>

definition find_request :: "string \<Rightarrow> string \<Rightarrow> execution_db \<Rightarrow> execution_request_row option" where
  "find_request company_id i db =
     find (\<lambda>r. xr_id r = i \<and> xr_company_id r = company_id) (xd_requests db)"

definition set_request_status :: "string \<Rightarrow> execution_request_status \<Rightarrow> execution_db \<Rightarrow> execution_db" where
  "set_request_status i st db =
     db\<lparr>xd_requests := update_where (\<lambda>r. xr_id r = i) (\<lambda>r. r\<lparr>xr_status := st\<rparr>) (xd_requests db)\<rparr>"

text \<open>A call of the financial service from here: its error is thrown on, its value dropped.\<close>

definition on_ledger :: "(ledger, error_code, 'a) op \<Rightarrow> unit execution_op" where
  "on_ledger m db = (case m (xd_ledger db) of
       (Inl e, L) \<Rightarrow> (Inl e, db\<lparr>xd_ledger := L\<rparr>) | (Inr _, L) \<Rightarrow> (Inr (), db\<lparr>xd_ledger := L\<rparr>))"

definition bound_reservation ::
    "reservation_status set \<Rightarrow> string \<Rightarrow> string \<Rightarrow> execution_db \<Rightarrow> reservation option" where
  "bound_reservation sts company_id request_id db =
     find (\<lambda>r. re_company_id r = company_id \<and> re_execution_request_id r = Some request_id \<and> re_status r \<in> sts)
       (lg_reservations (xd_ledger db))"

definition hold_reservation :: "string \<Rightarrow> string \<Rightarrow> unit execution_op" where
  "hold_reservation company_id request_id db =
     (case bound_reservation {RESERVED} company_id request_id db of
        None \<Rightarrow> (Inr (), db)
      | Some r \<Rightarrow> on_ledger (mark_unknown company_id (re_id r)) db)"

definition release_reservation :: "int \<Rightarrow> string \<Rightarrow> string \<Rightarrow> unit execution_op" where
  "release_reservation now company_id request_id db =
     (case bound_reservation {RESERVED} company_id request_id db of
        None \<Rightarrow> (Inr (), db)
      | Some r \<Rightarrow> on_ledger (release now company_id (re_id r)) db)"

fun request_status_of :: "execution_result_status \<Rightarrow> execution_request_status" where
  "request_status_of XS_SUBMITTED = XR_SUBMITTED"
| "request_status_of XS_CONFIRMED = XR_CONFIRMED"
| "request_status_of XS_FAILED = XR_FAILED"
| "request_status_of XS_UNKNOWN = XR_UNKNOWN"

text \<open>A given time stamp becomes a date; one that is not a date makes the insert fail.\<close>

definition opt_date :: "(string \<Rightarrow> int option) \<Rightarrow> string option \<Rightarrow> error_code + int option" where
  "opt_date date_ms v = (if truthy v then map_sum (\<lambda>e. e) Some (from_option INTERNAL_ERROR (date_ms (the v))) else Inr None)"

definition ingest_result ::
    "(string \<Rightarrow> int option) \<Rightarrow> int \<Rightarrow> string \<Rightarrow> string \<Rightarrow> execution_result_input \<Rightarrow> execution_result_row execution_op" where
  "ingest_result date_ms now nid company_id i db =
     (if \<not> xi_authenticated i then (Inl AUTHENTICATION_ERROR, db)
      else
       (case find_request company_id (xi_execution_id i) db of
          None \<Rightarrow> (Inl EXECUTION_FAILED, db)
        | Some request \<Rightarrow>
            if xi_chain i \<noteq> xr_network request then (Inl TRANSACTION_MISMATCH, db)
            else
             (case (opt_date date_ms (xi_submitted_at i), opt_date date_ms (xi_confirmed_at i)) of
                (Inr submitted, Inr confirmed) \<Rightarrow>
                 (let row = \<lparr> xs_id = nid, xs_execution_request_id = xr_id request,
                              xs_transaction_hash = xi_transaction_hash i, xs_status = xi_status i,
                              xs_chain = xi_chain i, xs_submitted_at = submitted, xs_confirmed_at = confirmed \<rparr>;
                      db1 = set_request_status (xr_id request) (request_status_of (xi_status i))
                        (db\<lparr>xd_results := xd_results db @ [row]\<rparr>)
                  in case (if xi_status i = XS_UNKNOWN then hold_reservation company_id (xr_id request) db1
                           else if xi_status i = XS_FAILED then release_reservation now company_id (xr_id request) db1
                           else (Inr (), db1)) of
                       (Inl e, db2) \<Rightarrow> (Inl e, db2) | (Inr _, db2) \<Rightarrow> (Inr row, db2))
              | _ \<Rightarrow> (Inl INTERNAL_ERROR, db))))"

definition reconcile ::
    "(string \<Rightarrow> error_code + execution_result) \<Rightarrow> int \<Rightarrow> string \<Rightarrow> string \<Rightarrow> reconcile_outcome execution_op" where
  "reconcile get_result now company_id execution_id db =
     (case find_request company_id execution_id db of
        None \<Rightarrow> (Inl EXECUTION_FAILED, db)
      | Some request \<Rightarrow>
         (case get_result execution_id of
            Inl e \<Rightarrow> (Inl e, db)
          | Inr authoritative \<Rightarrow>
              if ex_status authoritative = EX_CONFIRMED
              then (Inr RO_CONFIRMED, set_request_status (xr_id request) XR_CONFIRMED db)
              else if ex_status authoritative = EX_FAILED then
               (let db1 = set_request_status (xr_id request) XR_FAILED db
                in case bound_reservation {RESERVED, HELD_UNKNOWN} company_id (xr_id request) db1 of
                     None \<Rightarrow> (Inr RO_FAILED, db1)
                   | Some hold \<Rightarrow>
                      (case on_ledger (reconcile_release now company_id (re_id hold)) db1 of
                         (Inl e, db2) \<Rightarrow> (Inl e, db2) | (Inr _, db2) \<Rightarrow> (Inr RO_FAILED, db2)))
              else (Inr RO_STILL_UNKNOWN, db)))"

definition discrepancies ::
    "decimal_lib \<Rightarrow> receipt_snapshot \<Rightarrow> receipt_snapshot \<Rightarrow> bool \<Rightarrow> error_code + string list" where
  "discrepancies D authorized actual verified =
     and_then (amount_of D (rs_amount authorized) INTERNAL_ERROR) (\<lambda>a.
     and_then (amount_of D (rs_amount actual) INTERNAL_ERROR) (\<lambda>b.
       Inr ((if rs_recipient authorized \<noteq> rs_recipient actual then [''recipient''] else [])
          @ (if rs_asset authorized \<noteq> rs_asset actual then [''asset''] else [])
          @ (if a \<noteq> b then [''amount''] else [])
          @ (if rs_network authorized \<noteq> rs_network actual then [''network''] else [])
          @ (if \<not> verified then [''executor_unverified''] else []))))"

definition verify_and_finalize ::
    "decimal_lib \<Rightarrow> (string \<Rightarrow> error_code + receipt_verification) \<Rightarrow> int \<Rightarrow> string \<Rightarrow> string \<Rightarrow> string \<Rightarrow>
     receipt_snapshot \<Rightarrow> (verification_row \<times> bool) execution_op" where
  "verify_and_finalize D verify now nid company_id execution_id authorized db =
     (case find_request company_id execution_id db of
        None \<Rightarrow> (Inl EXECUTION_FAILED, db)
      | Some request \<Rightarrow>
         (case verify execution_id of
            Inl e \<Rightarrow> (Inl e, db)
          | Inr receipt \<Rightarrow>
             (case discrepancies D authorized (rv_actual receipt) (rv_verified receipt) of
                Inl e \<Rightarrow> (Inl e, db)
              | Inr ds \<Rightarrow>
                 (let verified = (length ds = 0);
                      row = \<lparr> xv_id = nid, xv_execution_request_id = xr_id request,
                              xv_status = (if verified then RV_VERIFIED else RV_MISMATCH),
                              xv_verified = verified, xv_transaction_hash = rv_transaction_hash receipt,
                              xv_expected = authorized, xv_actual = rv_actual receipt,
                              xv_discrepancies = ds, xv_verified_at = now \<rparr>;
                      db1 = db\<lparr>xd_verifications := xd_verifications db @ [row]\<rparr>
                  in if verified then
                      (case bound_reservation {RESERVED} company_id (xr_id request) db1 of
                         None \<Rightarrow> (Inr (row, False), db1)
                       | Some r \<Rightarrow>
                          (case on_ledger (commit now company_id (re_id r)) db1 of
                             (Inl e, db2) \<Rightarrow> (Inl e, db2) | (Inr _, db2) \<Rightarrow> (Inr (row, True), db2)))
                     else (Inr (row, False), db1)))))"

section \<open>The service as a transition system\<close>

inductive execution_step :: "execution_db \<Rightarrow> execution_db \<Rightarrow> bool" where
  xstep_ingest: "execution_step db (snd (ingest_result date_ms now nid c i db))"
| xstep_reconcile: "execution_step db (snd (reconcile get_result now c x db))"
| xstep_verify: "execution_step db (snd (verify_and_finalize D verify now nid c x authorized db))"

inductive_cases execution_stepE: "execution_step db db'"

section \<open>Lemmas\<close>

lemma on_ledger_ledger [simp]: "xd_ledger (snd (on_ledger m db)) = snd (m (xd_ledger db))"
  by (auto simp: on_ledger_def split: prod.splits sum.splits)

lemma set_request_status_ledger [simp]: "xd_ledger (set_request_status i st db) = xd_ledger db"
  by (simp add: set_request_status_def)

lemma snd_rewrap:
  "snd (case p of (Inl e, s) \<Rightarrow> (Inl e, s) | (Inr x, s) \<Rightarrow> (Inr (g x), s)) = snd p"
  by (auto split: prod.splits sum.splits)

text \<open>Whatever the service does to the ledger is at most one call of the financial service.\<close>

definition one_call :: "ledger \<Rightarrow> ledger \<Rightarrow> bool" where
  "one_call L L' \<longleftrightarrow> L' = L \<or> (\<forall>D admitted. ledger_step D admitted L L')"

lemma one_call_refl [simp]: "one_call L L"
  by (simp add: one_call_def)

lemma one_call_settlements:
  "one_call L (snd (mark_unknown c i L))" "one_call L (snd (release now c i L))"
  "one_call L (snd (reconcile_release now c i L))" "one_call L (snd (commit now c i L))"
  by (auto simp: one_call_def intro: step_unknown step_release step_reconcile step_commit)

lemma one_call_hold: "one_call (xd_ledger db) (xd_ledger (snd (hold_reservation c i db)))"
  by (simp add: hold_reservation_def one_call_settlements split: option.splits)

lemma one_call_release: "one_call (xd_ledger db) (xd_ledger (snd (release_reservation now c i db)))"
  by (simp add: release_reservation_def one_call_settlements split: option.splits)

lemma one_call_ingest: "one_call (xd_ledger db) (xd_ledger (snd (ingest_result date_ms now nid c i db)))"
proof -
  have h: "one_call (xd_ledger db) (xd_ledger (snd (hold_reservation c k (set_request_status k st (db\<lparr>xd_results := rs\<rparr>)))))"
    "one_call (xd_ledger db) (xd_ledger (snd (release_reservation now c k (set_request_status k st (db\<lparr>xd_results := rs\<rparr>)))))"
    for k st rs
    using one_call_hold [of "set_request_status k st (db\<lparr>xd_results := rs\<rparr>)"]
      one_call_release [of "set_request_status k st (db\<lparr>xd_results := rs\<rparr>)"] by simp_all
  show ?thesis
    by (simp add: ingest_result_def Let_def snd_rewrap h split: option.splits sum.splits)
qed

lemma one_call_reconcile: "one_call (xd_ledger db) (xd_ledger (snd (reconcile get_result now c x db)))"
  by (simp add: reconcile_def Let_def snd_rewrap one_call_settlements split: option.splits sum.splits)

lemma one_call_verify:
  "one_call (xd_ledger db) (xd_ledger (snd (verify_and_finalize D verify now nid c x authorized db)))"
  by (simp add: verify_and_finalize_def Let_def snd_rewrap one_call_settlements split: option.splits sum.splits)

lemma one_call_step: "execution_step db db' \<Longrightarrow> one_call (xd_ledger db) (xd_ledger db')"
  by (elim execution_stepE) (simp_all add: one_call_ingest one_call_reconcile one_call_verify)

lemma execution_steps_ledger:
  "execution_step\<^sup>*\<^sup>* db db' \<Longrightarrow> (ledger_step D admitted)\<^sup>*\<^sup>* (xd_ledger db) (xd_ledger db')"
proof (induction rule: rtranclp_induct)
  case (step y z)
  then show ?case using one_call_step [OF step.hyps(2)]
    by (auto simp: one_call_def intro: rtranclp.rtrancl_into_rtrancl)
qed simp

text \<open>Reservations and request rows are found again after the writes to the other tables.\<close>

lemma bound_reservation_D:
  "bound_reservation S c q db = Some r \<Longrightarrow> r \<in> set (lg_reservations (xd_ledger db)) \<and> re_company_id r = c
     \<and> re_execution_request_id r = Some q \<and> re_status r \<in> S"
  by (auto simp: bound_reservation_def dest: find_SomeD)

lemma bound_reservation_verifications [simp]:
  "bound_reservation S c q (db\<lparr>xd_verifications := vs\<rparr>) = bound_reservation S c q db"
  by (simp add: bound_reservation_def)

lemma discrepancies_empty:
  "discrepancies D a b v = Inr ds \<and> ds = [] \<longleftrightarrow>
     discrepancies D a b v = Inr ds \<and> v \<and> rs_recipient a = rs_recipient b \<and> rs_asset a = rs_asset b
   \<and> rs_network a = rs_network b
   \<and> (\<exists>q. dl_parse D (rs_amount a) = Some q \<and> dl_parse D (rs_amount b) = Some q)"
  by (auto simp: discrepancies_def and_then_Inr_iff)

section \<open>Properties\<close>

lemma verify_and_finalize_Inr:
  assumes "find_request c x db = Some request" and "verify x = Inr receipt"
    and "verify_and_finalize D verify now nid c x authorized db = (Inr (row, committed), db')"
  shows "(xv_status row = RV_VERIFIED \<longleftrightarrow> rv_verified receipt
       \<and> rs_recipient authorized = rs_recipient (rv_actual receipt)
       \<and> rs_asset authorized = rs_asset (rv_actual receipt)
       \<and> rs_network authorized = rs_network (rv_actual receipt)
       \<and> (\<exists>q. dl_parse D (rs_amount authorized) = Some q \<and> dl_parse D (rs_amount (rv_actual receipt)) = Some q))
    \<and> xd_verifications db' = xd_verifications db @ [row]
    \<and> (if committed then xv_status row = RV_VERIFIED \<and>
          (\<exists>r \<in> set (lg_reservations (xd_ledger db)). re_company_id r = c \<and> re_status r = RESERVED
             \<and> re_execution_request_id r = Some (xr_id request)
             \<and> xd_ledger db' = snd (commit now c (re_id r) (xd_ledger db)))
       else xd_ledger db' = xd_ledger db)"
proof -
  obtain ds where ds: "discrepancies D authorized (rv_actual receipt) (rv_verified receipt) = Inr ds"
    and st: "xv_status row = (if ds = [] then RV_VERIFIED else RV_MISMATCH)"
    and rest: "xd_verifications db' = xd_verifications db @ [row]"
      "if committed then ds = [] \<and> (\<exists>r. bound_reservation {RESERVED} c (xr_id request) db = Some r
          \<and> xd_ledger db' = snd (commit now c (re_id r) (xd_ledger db)))
       else xd_ledger db' = xd_ledger db"
    using assms
    by (auto simp: verify_and_finalize_def Let_def on_ledger_def split: sum.splits if_splits option.splits prod.splits)
  show ?thesis
    using discrepancies_empty [of D authorized "rv_actual receipt" "rv_verified receipt" ds] ds st rest
    by (auto dest!: bound_reservation_D)
qed


text \<open>
  C27: the execution component is a client of the ledger's contract: any run of ingestions,
  reconciliations and verifications, successful or not, changes the ledger by calls of the
  financial service only, so a ledger that was reachable stays so, with exact balances.
\<close>

theorem executions_refine_ledger:
  assumes "execution_step\<^sup>*\<^sup>* db db'"
    and "reachable (\<lambda>L. L = empty_ledger) (ledger_step D admitted) (xd_ledger db)"
  shows "reachable (\<lambda>L. L = empty_ledger) (ledger_step D admitted) (xd_ledger db')
    \<and> balanced (xd_ledger db')
    \<and> (\<forall>r \<in> set (lg_reservations (xd_ledger db)). re_status r \<in> {COMMITTED, RELEASED} \<longrightarrow>
         (\<exists>r' \<in> set (lg_reservations (xd_ledger db')). re_id r' = re_id r \<and> re_status r' = re_status r
            \<and> re_amount r' = re_amount r))"
proof -
  have steps: "(ledger_step D admitted)\<^sup>*\<^sup>* (xd_ledger db) (xd_ledger db')"
    by (rule execution_steps_ledger [OF assms(1)])
  have r: "reachable (\<lambda>L. L = empty_ledger) (ledger_step D admitted) (xd_ledger db')"
    using steps assms(2) by (induction rule: rtranclp_induct) (auto intro: reachable_step)
  have follow: "reservations_follow (xd_ledger db) (xd_ledger db')"
    using steps
  proof (induction rule: rtranclp_induct)
    case (step M N)
    then have "reachable (\<lambda>L. L = empty_ledger) (ledger_step D admitted) M"
      using assms(2) by (auto elim: rtranclp_induct intro: reachable_step)
    then show ?case
      using follow_step [OF balances.reachable_inv step.hyps(2)] step.IH reservations_follow_trans by blast
  qed simp
  have "\<exists>r' \<in> set (lg_reservations (xd_ledger db')). re_id r' = re_id r \<and> re_status r' = re_status r
      \<and> re_amount r' = re_amount r"
    if "r \<in> set (lg_reservations (xd_ledger db))" "re_status r \<in> {COMMITTED, RELEASED}" for r
    using follow that by (force simp: reservations_follow_def)
  then show ?thesis using r balances.reachable_inv [OF r] by blast
qed

text \<open>
  A result that is not authenticated, names no request of the company or comes from another
  network is refused and leaves the whole database as it was.
\<close>

theorem misbound_result_refused:
  assumes "\<not> xi_authenticated i \<or> find_request c (xi_execution_id i) db = None
    \<or> (\<exists>r. find_request c (xi_execution_id i) db = Some r \<and> xr_network r \<noteq> xi_chain i)"
  shows "\<exists>e \<in> {AUTHENTICATION_ERROR, EXECUTION_FAILED, TRANSACTION_MISMATCH}.
      ingest_result date_ms now nid c i db = (Inl e, db)"
  using assms by (auto simp: ingest_result_def split: option.splits)

definition sample_request_row :: "execution_request_status \<Rightarrow> execution_request_row" where
  "sample_request_row st = \<lparr> xr_id = ''x1'', xr_company_id = ''co'', xr_agent_id = ''ag'', xr_decision_id = ''d'',
     xr_transaction_id = ''t'', xr_policy_version_id = None, xr_authorization_context_hash = ''h'',
     xr_idempotency_key = ''k'', xr_executor_type = ''SMART_ACCOUNT'', xr_network = ''base'',
     xr_status = st, xr_authorized_at = Some 1 \<rparr>"

definition bound_ledger :: ledger where
  "bound_ledger = snd (reserve plain_decimal ''x'' ''r1''
     ((sample_reserve ''4'')\<lparr>ri_execution_request_id := Some ''x1''\<rparr>) ledger1)"

definition execution1 :: execution_db where
  "execution1 = \<lparr> xd_ledger = bound_ledger, xd_requests = [sample_request_row XR_AUTHORIZED], xd_results = [],
     xd_verifications = [] \<rparr>"

definition sample_snapshot :: "string \<Rightarrow> receipt_snapshot" where
  "sample_snapshot amount = \<lparr> rs_recipient = ''r'', rs_asset = ''USDC'', rs_amount = amount, rs_network = ''base'' \<rparr>"

definition sample_receipt :: "string \<Rightarrow> receipt_verification" where
  "sample_receipt amount = \<lparr> rv_execution_id = ''x1'', rv_verified = True, rv_transaction_hash = ''0x'',
     rv_expected = sample_snapshot amount, rv_actual = sample_snapshot amount, rv_discrepancies = [],
     rv_verified_at = ''now'' \<rparr>"

definition sample_verify :: "string \<Rightarrow> execution_db \<Rightarrow> (error_code + verification_row \<times> bool) \<times> execution_db" where
  "sample_verify amount = verify_and_finalize plain_decimal (\<lambda>_. Inr (sample_receipt amount)) 9 ''v'' ''co'' ''x1''
     (sample_snapshot ''4.0'')"

lemma bound_ledger_value: "bound_ledger = \<lparr> lg_accounts = [sample_account 4 0],
    lg_reservations = [(sample_reservation ''r1'' RESERVED None)\<lparr>re_execution_request_id := Some ''x1''\<rparr>] \<rparr>"
  by (simp add: bound_ledger_def ledger1_value ledger_eval sample_reservation_def sample_account_def)

lemma bound_ledger_reached:
  "reachable (\<lambda>L. L = empty_ledger) (ledger_step plain_decimal (nonneg_amount plain_decimal)) bound_ledger"
proof -
  have "reachable (\<lambda>L. L = empty_ledger) (ledger_step plain_decimal (nonneg_amount plain_decimal)) ledger1"
    by (rule reachable_step [where s = empty_ledger], rule reachable_init, rule refl, rule ledger_steps(1))
  moreover have "ledger_step plain_decimal (nonneg_amount plain_decimal) ledger1 bound_ledger"
    unfolding bound_ledger_def
    by (rule step_reserve)
       (simp_all add: fresh_account_def fresh_reservation_def ledger1_value nonneg_amount_def ledger_eval)
  ultimately show ?thesis by (rule reachable_step)
qed

lemma sample_discrepancies:
  "discrepancies plain_decimal (sample_snapshot ''4.0'') (sample_snapshot ''4'') True = Inr []"
  "discrepancies plain_decimal (sample_snapshot ''4.0'') (sample_snapshot ''5'') True = Inr [''amount'']"
  by (simp_all add: discrepancies_def sample_snapshot_def amount_of_def money_amount_def money_value_def
      split_point_def unsigned_part_def all_digits_def is_digit_def digits_value_def digit_value_def)

lemmas execution_eval = verify_and_finalize_def find_request_def bound_reservation_def on_ledger_def
  execution1_def sample_request_row_def sample_receipt_def bound_ledger_value sample_account_def
  sample_reservation_def ingest_result_def reconcile_def hold_reservation_def set_request_status_def opt_date_def

lemma sample_verify_mismatch:
  "\<exists>row. sample_verify ''5'' execution1 = (Inr (row, False), snd (sample_verify ''5'' execution1))"
  by (simp add: sample_verify_def execution_eval sample_discrepancies Let_def)


theorem executions_refine_ledger_witness:
  "balanced (xd_ledger (snd (sample_verify ''4'' execution1)))"
proof -
  have "execution_step\<^sup>*\<^sup>* execution1 (snd (sample_verify ''4'' execution1))"
    unfolding sample_verify_def by (rule r_into_rtranclp) (rule xstep_verify)
  then show ?thesis
    using executions_refine_ledger bound_ledger_reached by (fastforce simp: execution1_def)
qed

definition sample_result :: "execution_result_status \<Rightarrow> execution_result_input" where
  "sample_result st = \<lparr> xi_execution_id = ''x1'', xi_status = st, xi_chain = ''base'', xi_transaction_hash = None,
     xi_submitted_at = None, xi_confirmed_at = None, xi_authenticated = True \<rparr>"

theorem misbound_result_refused_witness:
  "\<exists>e. ingest_result (\<lambda>_. None) 1 ''n'' ''co'' ((sample_result XS_CONFIRMED)\<lparr>xi_chain := ''ethereum''\<rparr>) execution1 = (Inl e, execution1)"
proof -
  have "find_request ''co'' (xi_execution_id ((sample_result XS_CONFIRMED)\<lparr>xi_chain := ''ethereum''\<rparr>)) execution1
      = Some (sample_request_row XR_AUTHORIZED)"
    by (simp add: execution_eval sample_result_def)
  then have "\<exists>e \<in> {AUTHENTICATION_ERROR, EXECUTION_FAILED, TRANSACTION_MISMATCH}.
      ingest_result (\<lambda>_. None) 1 ''n'' ''co'' ((sample_result XS_CONFIRMED)\<lparr>xi_chain := ''ethereum''\<rparr>) execution1 = (Inl e, execution1)"
    by (intro misbound_result_refused) (simp add: sample_result_def sample_request_row_def)
  then show ?thesis by blast
qed

section \<open>What the state machine leaves out\<close>

definition sample_client_result :: "execution_status \<Rightarrow> execution_result" where
  "sample_client_result st = \<lparr> ex_execution_id = ''x1'', ex_status = st, ex_transaction_hash = None, ex_chain = ''base'',
     ex_submitted_at = None, ex_confirmed_at = None, ex_receipt_reference = None, ex_idempotency_key = ''k'' \<rparr>"

text \<open>
  A payment whose outcome was UNKNOWN and that reconciliation found CONFIRMED is verified but not
  committed: finalization looks for a RESERVED reservation and the hold is UNKNOWN.
\<close>

definition after_unknown :: execution_db where
  "after_unknown = snd (ingest_result (\<lambda>_. None) 1 ''n'' ''co'' (sample_result XS_UNKNOWN) execution1)"

definition after_reconcile :: execution_db where
  "after_reconcile = snd (reconcile (\<lambda>_. Inr (sample_client_result EX_CONFIRMED)) 2 ''co'' ''x1'' after_unknown)"

lemma after_unknown_value:
  "xd_requests after_unknown = [sample_request_row XR_UNKNOWN]" "xd_verifications after_unknown = []"
  "xd_ledger after_unknown = bound_ledger\<lparr>lg_reservations :=
     [(sample_reservation ''r1'' HELD_UNKNOWN None)\<lparr>re_execution_request_id := Some ''x1''\<rparr>]\<rparr>"
  by (simp_all add: after_unknown_def execution_eval sample_result_def mark_unknown_def find_reservation_def
      update_reservation_def Let_def)

lemma after_reconcile_value:
  "xd_requests after_reconcile = [sample_request_row XR_CONFIRMED]" "xd_ledger after_reconcile = xd_ledger after_unknown"
  by (simp_all add: after_reconcile_def reconcile_def find_request_def set_request_status_def after_unknown_value
      sample_request_row_def sample_client_result_def)

theorem reconciled_payment_not_committed:
  "\<exists>row. fst (sample_verify ''4'' after_reconcile) = Inr (row, False) \<and> xv_status row = RV_VERIFIED
     \<and> xd_ledger (snd (sample_verify ''4'' after_reconcile)) = xd_ledger after_unknown"
  by (simp add: sample_verify_def verify_and_finalize_def find_request_def bound_reservation_def
      after_reconcile_value after_unknown_value sample_request_row_def sample_receipt_def sample_discrepancies
      sample_reservation_def Let_def)

text \<open>
  Finalization does not look at the status of the request: a verified receipt commits although no
  result, let alone a CONFIRMED one, was ever ingested.
\<close>

theorem commit_without_confirmation:
  "map xr_status (xd_requests execution1) = [XR_AUTHORIZED] \<and> xd_results execution1 = []
   \<and> (\<exists>row. fst (sample_verify ''4'' execution1) = Inr (row, True))"
  by (simp add: sample_verify_def execution_eval sample_discrepancies commit_def transaction_def
      find_reservation_def settle_def find_account_def Let_def)

end
