(* ===== verification/Idempotency.thy ===== *)
theory Idempotency
  imports Core_Errors Canonical_Json
begin

text \<open>
  The idempotency service (Backend/src/domain/financial/idempotency.service.ts) over the table
  \<open>idempotency_records\<close>, whose key (company, operation type, idempotency key) is unique.
  A registration reads the table and, when the key is absent, inserts; other calls may run
  between the two, so they are two functions and \<open>register_between\<close> takes the state each
  of them sees. \<open>register\<close> is the undisturbed call.
\<close>

section \<open>State and operations\<close>

datatype idempotency_status = IN_PROGRESS | COMPLETED | IDEM_FAILED

record idempotency_record =
  ir_id :: string
  ir_company_id :: string
  ir_idempotency_key :: string
  ir_operation_type :: string
  ir_resource_type :: "string option"
  ir_resource_id :: "string option"
  ir_request_hash :: string
  ir_status :: idempotency_status
  ir_response :: json
  ir_expires_at :: "int option"

type_synonym idempotency_db = "idempotency_record list"

record register_input =
  gi_company_id :: string
  gi_idempotency_key :: string
  gi_operation_type :: string
  gi_request :: json
  gi_resource_type :: "string option"
  gi_resource_id :: "string option"
  gi_expires_at :: "int option"

datatype register_result = NEW idempotency_record | REPLAY idempotency_record

definition request_hash :: "(string \<Rightarrow> string) \<Rightarrow> json \<Rightarrow> string" where
  "request_hash sha request = sha256_json sha request"

definition same_key :: "register_input \<Rightarrow> idempotency_record \<Rightarrow> bool" where
  "same_key i r \<longleftrightarrow> ir_company_id r = gi_company_id i \<and> ir_operation_type r = gi_operation_type i
     \<and> ir_idempotency_key r = gi_idempotency_key i"

definition recognize :: "(string \<Rightarrow> string) \<Rightarrow> register_input \<Rightarrow> idempotency_record \<Rightarrow> error_code + register_result" where
  "recognize sha i existing =
     (if ir_request_hash existing \<noteq> request_hash sha (gi_request i) then Inl IDEMPOTENCY_CONFLICT
      else Inr (REPLAY existing))"

text \<open>The insert; when the unique constraint refuses it, the winner's row is read instead.\<close>

definition register_insert ::
    "(string \<Rightarrow> string) \<Rightarrow> string \<Rightarrow> register_input \<Rightarrow> (idempotency_db, error_code, register_result) op" where
  "register_insert sha nid i db =
     (case find (same_key i) db of
        None \<Rightarrow>
         (let r = \<lparr> ir_id = nid, ir_company_id = gi_company_id i, ir_idempotency_key = gi_idempotency_key i,
                    ir_operation_type = gi_operation_type i, ir_resource_type = gi_resource_type i,
                    ir_resource_id = gi_resource_id i, ir_request_hash = request_hash sha (gi_request i),
                    ir_status = IN_PROGRESS, ir_response = JNull, ir_expires_at = gi_expires_at i \<rparr>
          in (Inr (NEW r), db @ [r]))
      | Some winner \<Rightarrow> (recognize sha i winner, db))"

definition register_between ::
    "(string \<Rightarrow> string) \<Rightarrow> string \<Rightarrow> register_input \<Rightarrow> idempotency_db \<Rightarrow> (idempotency_db, error_code, register_result) op" where
  "register_between sha nid i db_read db =
     (case find (same_key i) db_read of
        Some existing \<Rightarrow> (recognize sha i existing, db)
      | None \<Rightarrow> register_insert sha nid i db)"

definition register ::
    "(string \<Rightarrow> string) \<Rightarrow> string \<Rightarrow> register_input \<Rightarrow> (idempotency_db, error_code, register_result) op" where
  "register sha nid i db = register_between sha nid i db db"

definition update_record ::
    "string \<Rightarrow> (idempotency_record \<Rightarrow> idempotency_record) \<Rightarrow> (idempotency_db, error_code, idempotency_record) op" where
  "update_record i f db =
     (case find (\<lambda>r. ir_id r = i) db of
        None \<Rightarrow> (Inl INTERNAL_ERROR, db)
      | Some r \<Rightarrow> (Inr (f r), update_where (\<lambda>r. ir_id r = i) f db))"

definition complete :: "string \<Rightarrow> json option \<Rightarrow> (idempotency_db, error_code, idempotency_record) op" where
  "complete i response =
     update_record i (\<lambda>r. r\<lparr>ir_status := COMPLETED, ir_response := nullish response JNull\<rparr>)"

definition fail_record :: "string \<Rightarrow> (idempotency_db, error_code, idempotency_record) op" where
  "fail_record i = update_record i (\<lambda>r. r\<lparr>ir_status := IDEM_FAILED\<rparr>)"

inductive idempotency_step :: "(string \<Rightarrow> string) \<Rightarrow> idempotency_db \<Rightarrow> idempotency_db \<Rightarrow> bool" for sha where
  step_register: "idempotency_step sha db (snd (register_between sha nid i db_read db))"
| step_complete: "idempotency_step sha db (snd (complete k response db))"
| step_fail: "idempotency_step sha db (snd (fail_record k db))"

inductive_cases idempotency_stepE: "idempotency_step sha db db'"

section \<open>Lemmas\<close>

text \<open>The first record of a key, with its identity and hash, stays the one a lookup finds.\<close>

definition held_by :: "register_input \<Rightarrow> string \<Rightarrow> string \<Rightarrow> idempotency_db \<Rightarrow> bool" where
  "held_by i rid h db \<longleftrightarrow> (\<exists>r. find (same_key i) db = Some r \<and> ir_id r = rid \<and> ir_request_hash r = h)"

lemma find_append_Some: "find P xs = Some x \<Longrightarrow> find P (xs @ ys) = Some x"
  by (induction xs) (auto split: if_splits)

lemma find_update_where_inv:
  "(\<And>x. P (f x) = P x) \<Longrightarrow> find P xs = Some x \<Longrightarrow> find P (update_where Q f xs) = Some (if Q x then f x else x)"
  by (induction xs) (auto split: if_splits)

lemma held_by_update:
  assumes "held_by i rid h db" and "\<And>r. same_key i (f r) = same_key i r \<and> ir_id (f r) = ir_id r \<and> ir_request_hash (f r) = ir_request_hash r"
  shows "held_by i rid h (snd (update_record k f db))"
  using assms find_update_where_inv [of "same_key i" f db _ "\<lambda>r. ir_id r = k"]
  by (auto simp: held_by_def update_record_def split: option.splits)

lemma register_insert_cases:
  obtains (inserted) r where "find (same_key i) db = None" "register_insert sha nid i db = (Inr (NEW r), db @ [r])"
    "same_key i r" "ir_id r = nid" "ir_request_hash r = request_hash sha (gi_request i)"
  | (lost) w where "find (same_key i) db = Some w" "register_insert sha nid i db = (recognize sha i w, db)"
  by (cases "find (same_key i) db") (auto simp: register_insert_def same_key_def Let_def)

lemma held_by_step:
  assumes "held_by i rid h db" and "idempotency_step sha db db'"
  shows "held_by i rid h db'"
  using assms(2)
proof (cases rule: idempotency_step.cases)
  case (step_register nid j db_read)
  show ?thesis
  proof (cases "find (same_key j) db_read")
    case (Some e)
    with assms(1) step_register show ?thesis by (simp add: register_between_def)
  next
    case None
    then show ?thesis
      using assms(1) step_register
      by (cases rule: register_insert_cases [of j db sha nid])
        (auto simp: register_between_def held_by_def find_append_Some)
  qed
qed (use assms(1) in \<open>auto simp: complete_def fail_record_def same_key_def intro!: held_by_update\<close>)

interpretation idempotency_key: invariant_system "held_by i rid h" "idempotency_step sha" "held_by i rid h" for i rid h sha
  by unfold_locales (auto intro: held_by_step)

lemma find_append_None: "find P xs = None \<Longrightarrow> find P (xs @ [x]) = (if P x then Some x else None)"
  by (induction xs) (auto split: if_splits)

section \<open>Properties\<close>

text \<open>
  C30: a key is granted once: after a registration was NEW, every later registration of the same
  key, whatever ran in between and however stale the state its lookup read, is a REPLAY of that
  very record when the requests hash alike and IDEMPOTENCY_CONFLICT otherwise, never NEW, and
  it leaves the table as it is.
\<close>

theorem key_granted_once:
  assumes "register_between sha nid i db_read db = (Inr (NEW r), db1)"
    and "(idempotency_step sha)\<^sup>*\<^sup>* db1 db2" and "same_key j r"
    and "find (same_key j) stale = None \<or> (idempotency_step sha)\<^sup>*\<^sup>* db1 stale"
  shows "(case fst (register_between sha nid' j stale db2) of
        Inl e \<Rightarrow> e = IDEMPOTENCY_CONFLICT \<and> request_hash sha (gi_request j) \<noteq> ir_request_hash r
      | Inr (NEW s) \<Rightarrow> False
      | Inr (REPLAY s) \<Rightarrow> ir_id s = ir_id r \<and> request_hash sha (gi_request j) = ir_request_hash r)
    \<and> snd (register_between sha nid' j stale db2) = db2"
proof -
  have r: "same_key i r" "find (same_key i) db = None" "db1 = db @ [r]"
    using assms(1) by (auto simp: register_between_def register_insert_def recognize_def same_key_def Let_def
        split: option.splits if_splits)
  then have key: "same_key j = same_key i" using assms(3) by (auto simp: same_key_def fun_eq_iff)
  have "held_by j (ir_id r) (ir_request_hash r) db1"
    using r by (simp add: held_by_def key find_append_None)
  then have held: "(idempotency_step sha)\<^sup>*\<^sup>* db1 x \<Longrightarrow> held_by j (ir_id r) (ir_request_hash r) x" for x
    using idempotency_key.steps_inv by blast
  show ?thesis
    using held [OF assms(2)] assms(4) held [of stale]
    by (auto simp: held_by_def register_between_def register_insert_def recognize_def)
qed

definition sample_registration :: "string \<Rightarrow> register_input" where
  "sample_registration amount = \<lparr> gi_company_id = ''co'', gi_idempotency_key = ''k'', gi_operation_type = ''EXECUTION'',
     gi_request = JObj [(''amount'', JStr amount)], gi_resource_type = None, gi_resource_id = None, gi_expires_at = None \<rparr>"

text \<open>Two racing calls that both found the key absent: the second one to insert replays the first.\<close>

theorem key_granted_once_witness:
  "snd (register_between (\<lambda>s. s) ''r2'' (sample_registration ''5'') [] (snd (register (\<lambda>s. s) ''r1'' (sample_registration ''5'') [])))
     = snd (register (\<lambda>s. s) ''r1'' (sample_registration ''5'') [])"
proof -
  obtain r where r: "register_between (\<lambda>s. s) ''r1'' (sample_registration ''5'') [] [] = (Inr (NEW r), [r])"
    and "same_key (sample_registration ''5'') r"
    by (simp add: register_between_def register_insert_def same_key_def Let_def)
  then show ?thesis using key_granted_once [OF r, of "[r]" "sample_registration ''5''" "[]" "''r2''"]
    by (simp add: register_def)
qed

section \<open>Failed operations\<close>

text \<open>
  A retry of a failed operation is answered with the failed record: \<open>fail_record\<close> does not let the
  same request through again.
\<close>

theorem failed_operation_is_replayed:
  "\<exists>r. fst (register (\<lambda>s. s) ''r2'' (sample_registration ''5'')
       (snd (fail_record ''r1'' (snd (register (\<lambda>s. s) ''r1'' (sample_registration ''5'') []))))) = Inr (REPLAY r)
     \<and> ir_status r = IDEM_FAILED"
  by (simp add: register_def register_between_def register_insert_def recognize_def same_key_def fail_record_def
      update_record_def sample_registration_def Let_def)

end
