(* ===== verification/Final_Revalidation.thy ===== *)
theory Final_Revalidation
  imports Orchestrator Approval_Engine Execution_Result Idempotency
begin

text \<open>
  The last gate before execution (Backend/src/execution-gate/final-revalidation.service.ts): the
  authoritative state is read again, the decision is derived again, and only on ALLOW is the
  idempotency key registered, the budget reserved and an execution request written and bound to
  the reservation. Identifiers of new rows and the clock are arguments.
\<close>

section \<open>State, input and outcome\<close>

record gate_db =
  gd_authority :: authority_db
  gd_policies :: policy_db
  gd_approvals :: approval_db
  gd_idempotency :: idempotency_db
  gd_execution :: execution_db

record revalidate_input =
  vi_company_id :: string
  vi_agent_id :: string
  vi_decision_id :: string
  vi_intent :: intent
  vi_proposal :: action_proposal
  vi_security_assessment :: security_assessment
  vi_transaction_id :: string
  vi_analysis :: transaction_analysis
  vi_expected_network :: string
  vi_actual_network :: string
  vi_simulation :: simulation_result
  vi_simulated_payload_hash :: string
  vi_approval_id :: "string option"
  vi_decision_context_hash :: string
  vi_financial_scope_key :: string
  vi_asset :: string
  vi_amount :: string
  vi_budget_limit :: "string option"
  vi_assessment_max_age_ms :: "int option"
  vi_simulation_required :: bool

datatype revalidation_determinant = RD_decision determinant | RD_allow_idempotent | RD_budget_exceeded

record revalidation_outcome =
  vo_result :: decision_result
  vo_determinant :: revalidation_determinant
  vo_execution_request :: "execution_request_row option"
  vo_reservation_id :: "string option"

record fresh_ids =
  fi_account :: string
  fi_reservation :: string
  fi_request :: string
  fi_idempotency :: string

section \<open>The decision at execution time\<close>

definition revalidation_payload :: "revalidate_input \<Rightarrow> payload_input" where
  "revalidation_payload i =
     \<lparr> pi_transaction_id = vi_transaction_id i, pi_network = vi_actual_network i,
       pi_recipient = ta_recipient (vi_analysis i), pi_amount = ta_amount (vi_analysis i),
       pi_asset = ta_asset (vi_analysis i),
       pi_contract_address = Some (cr_address (ta_contract (vi_analysis i))),
       pi_function_selector = Some (fr_selector (ta_function (vi_analysis i))) \<rparr>"

definition payload_hash :: "runtime \<Rightarrow> revalidate_input \<Rightarrow> string" where
  "payload_hash R i = transaction_payload_hash (rt_sha R) (revalidation_payload i)"

definition intent_live :: "runtime \<Rightarrow> revalidate_input \<Rightarrow> int \<Rightarrow> bool" where
  "intent_live R i now \<longleftrightarrow> nt_status (vi_intent i) = INTENT_VALID
     \<and> (case rt_date_ms R (nt_valid_until (vi_intent i)) of None \<Rightarrow> True | Some t \<Rightarrow> t > now)"

definition first_capability :: "revalidate_input \<Rightarrow> gate_db \<Rightarrow> int \<Rightarrow> capability option" where
  "first_capability i db now =
     (if get_agent (vi_company_id i) (vi_agent_id i) (gd_authority db) = None then None
      else (case get_active_capabilities (vi_company_id i) (vi_agent_id i) now (gd_authority db) of
              [] \<Rightarrow> None | c # _ \<Rightarrow> Some c))"

definition revalidation_context ::
    "(int \<Rightarrow> string) \<Rightarrow> action_proposal \<Rightarrow> capability option \<Rightarrow> int \<Rightarrow> evaluation_context" where
  "revalidation_context to_iso p cap now =
     \<lparr> ec_action = action_name (ap_action_type p),
       ec_amount = map_option mo_value (ap_amount p),
       ec_currency = map_option mo_currency (ap_amount p),
       ec_asset = map_option mo_currency (ap_amount p),
       ec_network = ap_network p,
       ec_category = None,
       ec_recipient = proposal_recipient p,
       ec_cumulative_spent = None,
       ec_cumulative_by_key = None,
       ec_known_recipients = None,
       ec_trajectory_event_types = None,
       ec_recent_transactions = None,
       ec_capability_expires_at = Some (case cap of None \<Rightarrow> None | Some c \<Rightarrow> map_option to_iso (cap_expires_at c)),
       ec_now = to_iso now \<rparr>"

text \<open>The policy part: version id, and the reference the decision reads; FAIL when there is no policy.\<close>

definition policy_part ::
    "runtime \<Rightarrow> (int \<Rightarrow> string) \<Rightarrow> revalidate_input \<Rightarrow> gate_db \<Rightarrow> int \<Rightarrow>
     error_code + string option \<times> policy_evaluation_ref" where
  "policy_part R to_iso i db now =
     (let policy_id = Option.bind (get_agent (vi_company_id i) (vi_agent_id i) (gd_authority db)) ag_active_policy_id;
          none = \<lparr> pe_status = EVAL_FAIL, pe_policy_id = nullish policy_id ''none'', pe_policy_version = 0,
                   pe_evaluation_hash = ''none'' \<rparr>
      in if \<not> truthy policy_id then Inr (None, none)
         else
          (case get_active_version (vi_company_id i) (the policy_id) (gd_policies db) of
             None \<Rightarrow> Inr (None, none)
           | Some v \<Rightarrow>
              and_then (load_rules (vi_company_id i) (vn_id v) (gd_policies db)) (\<lambda>rules.
              and_then (evaluate R \<lparr> ei_policy_id = the policy_id, ei_policy_version = vn_version v, ei_rules = rules,
                  ei_context = revalidation_context to_iso (vi_proposal i) (first_capability i db now) now \<rparr>) (\<lambda>e.
                Inr (Some (vn_id v), \<lparr> pe_status = po_status e, pe_policy_id = the policy_id,
                  pe_policy_version = vn_version v, pe_evaluation_hash = po_evaluation_hash e \<rparr>)))))"

definition assessment_stale :: "runtime \<Rightarrow> revalidate_input \<Rightarrow> int \<Rightarrow> bool" where
  "assessment_stale R i now \<longleftrightarrow>
     (case vi_assessment_max_age_ms i of
        None \<Rightarrow> False
      | Some max_age \<Rightarrow> (case rt_date_ms R (sa_created_at (vi_security_assessment i)) of
            None \<Rightarrow> True | Some created \<Rightarrow> now - created > max_age))"

definition approval_part :: "revalidate_input \<Rightarrow> gate_db \<Rightarrow> int \<Rightarrow> approval_state" where
  "approval_part i db now =
     (if truthy (vi_approval_id i) then
        Approval_required (resolve_approval_state (vi_company_id i) (the (vi_approval_id i))
          (vi_decision_context_hash i) now (gd_approvals db))
      else Approval_not_required)"

definition fresh_context :: "runtime \<Rightarrow> revalidate_input \<Rightarrow> policy_evaluation_ref \<Rightarrow> decision_hash_context" where
  "fresh_context R i pe =
     \<lparr> hc_intent_id = nt_intent_id (vi_intent i), hc_proposal_id = ap_proposal_id (vi_proposal i),
       hc_policy_id = pe_policy_id pe, hc_policy_version = pe_policy_version pe,
       hc_policy_evaluation_hash = pe_evaluation_hash pe,
       hc_security_assessment_id = sa_assessment_id (vi_security_assessment i),
       hc_transaction_id = Some (vi_transaction_id i),
       hc_transaction_payload_hash = Some (payload_hash R i),
       hc_simulation_id = Some (sr_transaction_id (vi_simulation i)),
       hc_approval_context_hash = (if truthy (vi_approval_id i) then Some (vi_decision_context_hash i) else None) \<rparr>"

definition revalidation_decision_input ::
    "runtime \<Rightarrow> revalidate_input \<Rightarrow> gate_db \<Rightarrow> int \<Rightarrow> policy_evaluation_ref \<Rightarrow> decision_input" where
  "revalidation_decision_input R i db now pe =
     (let agent = get_agent (vi_company_id i) (vi_agent_id i) (gd_authority db);
          fresh = context_hash (rt_sha R) (fresh_context R i pe)
      in \<lparr> di_platform_invariant_violated = False,
           di_agent_active = (case agent of None \<Rightarrow> False | Some a \<Rightarrow> ag_status a = AG_ACTIVE),
           di_intent_valid = intent_live R i now,
           di_capability_valid = (first_capability i db now \<noteq> None),
           di_constitution_compatible =
             (get_active_constitution (vi_company_id i) (vi_agent_id i) (gd_authority db) \<noteq> None),
           di_policy_evaluation = pe,
           di_transaction_gate = Some (compare_proposal_vs_transaction (rt_decimal R) (vi_proposal i) (vi_analysis i)
             \<lparr> gc_expected_network = vi_expected_network i, gc_actual_network = vi_actual_network i,
               gc_expect_simple_payment = (ap_action_type (vi_proposal i) = PAY) \<rparr>),
           di_simulation_required = vi_simulation_required i,
           di_simulation_outcome = Some (classify_simulation (vi_simulation i)),
           di_simulation_binding = Some (validate_simulation_binding (vi_simulation i)
             \<lparr> be_transaction_id = vi_transaction_id i, be_simulated_payload_hash = vi_simulated_payload_hash i,
               be_current_payload_hash = payload_hash R i \<rparr>),
           di_context_stale = (assessment_stale R i now
             \<or> vi_decision_context_hash i \<noteq> [] \<and> vi_decision_context_hash i \<noteq> fresh),
           di_approval = approval_part i db now,
           di_ai_recommended_handling =
             Some (oa_recommended_handling (sa_overall_assessment (vi_security_assessment i))) \<rparr>)"

section \<open>Authorization\<close>

definition execution_registration :: "runtime \<Rightarrow> revalidate_input \<Rightarrow> register_input" where
  "execution_registration R i =
     \<lparr> gi_company_id = vi_company_id i, gi_idempotency_key = payload_hash R i, gi_operation_type = ''EXECUTION'',
       gi_request = JObj [(''decisionId'', JStr (vi_decision_id i)), (''transactionId'', JStr (vi_transaction_id i)),
         (''amount'', JStr (vi_amount i)), (''recipient'', JStr (ta_recipient (vi_analysis i))),
         (''network'', JStr (vi_actual_network i))],
       gi_resource_type = None, gi_resource_id = None, gi_expires_at = None \<rparr>"

definition budget_request :: "revalidate_input \<Rightarrow> reserve_input" where
  "budget_request i =
     \<lparr> ri_key = \<lparr> ak_company_id = vi_company_id i, ak_agent_id = Some (vi_agent_id i), ak_scope = SCOPE_AGENT,
         ak_scope_key = vi_financial_scope_key i, ak_asset = vi_asset i, ak_network = Some (vi_actual_network i) \<rparr>,
       ri_amount = vi_amount i, ri_execution_request_id = None \<rparr>"

definition existing_request :: "runtime \<Rightarrow> revalidate_input \<Rightarrow> execution_db \<Rightarrow> execution_request_row option" where
  "existing_request R i xdb =
     find (\<lambda>r. xr_company_id r = vi_company_id i \<and> xr_idempotency_key r = payload_hash R i) (xd_requests xdb)"

definition bind_reservation :: "string \<Rightarrow> string \<Rightarrow> ledger \<Rightarrow> ledger" where
  "bind_reservation reservation_id request_id L =
     update_reservation reservation_id (\<lambda>r. r\<lparr>re_execution_request_id := Some request_id\<rparr>) L"

definition authorize ::
    "runtime \<Rightarrow> fresh_ids \<Rightarrow> revalidate_input \<Rightarrow> int \<Rightarrow> string option \<Rightarrow> policy_evaluation_ref \<Rightarrow>
     (execution_db, error_code, revalidation_outcome) op" where
  "authorize R n i now version_id pe xdb =
     (case existing_request R i xdb of
        Some existing \<Rightarrow>
          (Inr \<lparr> vo_result = ALLOW, vo_determinant = RD_allow_idempotent, vo_execution_request = Some existing,
                 vo_reservation_id = None \<rparr>, xdb)
      | None \<Rightarrow>
         (case reserve (rt_decimal R) (fi_account n) (fi_reservation n) (budget_request i) (xd_ledger xdb) of
            (Inl e, L) \<Rightarrow>
              (if e = POLICY_VIOLATION then
                 Inr \<lparr> vo_result = DENY, vo_determinant = RD_budget_exceeded, vo_execution_request = None,
                       vo_reservation_id = None \<rparr>
               else Inl e, xdb\<lparr>xd_ledger := L\<rparr>)
          | (Inr reservation, L) \<Rightarrow>
             (let request = \<lparr> xr_id = fi_request n, xr_company_id = vi_company_id i, xr_agent_id = vi_agent_id i,
                    xr_decision_id = vi_decision_id i, xr_transaction_id = vi_transaction_id i,
                    xr_policy_version_id = version_id,
                    xr_authorization_context_hash = context_hash (rt_sha R) (fresh_context R i pe),
                    xr_idempotency_key = payload_hash R i, xr_executor_type = ''SMART_ACCOUNT'',
                    xr_network = vi_actual_network i, xr_status = XR_AUTHORIZED, xr_authorized_at = Some now \<rparr>
              in (Inr \<lparr> vo_result = ALLOW, vo_determinant = RD_decision D_allow,
                        vo_execution_request = Some request, vo_reservation_id = Some (re_id reservation) \<rparr>,
                  xdb\<lparr>xd_requests := xd_requests xdb @ [request],
                      xd_ledger := bind_reservation (re_id reservation) (xr_id request) L\<rparr>))))"

definition revalidate ::
    "runtime \<Rightarrow> (int \<Rightarrow> string) \<Rightarrow> fresh_ids \<Rightarrow> revalidate_input \<Rightarrow> int \<Rightarrow> (gate_db, error_code, revalidation_outcome) op" where
  "revalidate R to_iso n i now db =
     (case policy_part R to_iso i db now of
        Inl e \<Rightarrow> (Inl e, db)
      | Inr (version_id, pe) \<Rightarrow>
         (let d = decide (revalidation_decision_input R i db now pe) in
          if do_result d \<noteq> ALLOW then
            (Inr \<lparr> vo_result = do_result d, vo_determinant = RD_decision (do_determinant d),
                   vo_execution_request = None, vo_reservation_id = None \<rparr>, db)
          else
           (case register (rt_sha R) (fi_idempotency n) (execution_registration R i) (gd_idempotency db) of
              (Inl e, idem) \<Rightarrow> (Inl e, db\<lparr>gd_idempotency := idem\<rparr>)
            | (Inr _, idem) \<Rightarrow>
               (case authorize R n i now version_id pe (gd_execution db) of
                  (r, xdb) \<Rightarrow> (r, db\<lparr>gd_idempotency := idem, gd_execution := xdb\<rparr>)))))"

section \<open>Lemmas\<close>

lemma revalidate_cases:
  obtains (failed) e where "policy_part R to_iso i db now = Inl e" "revalidate R to_iso n i now db = (Inl e, db)"
  | (refused) version_id pe where "policy_part R to_iso i db now = Inr (version_id, pe)"
      "do_result (decide (revalidation_decision_input R i db now pe)) \<noteq> ALLOW"
      "revalidate R to_iso n i now db =
         (Inr \<lparr> vo_result = do_result (decide (revalidation_decision_input R i db now pe)),
            vo_determinant = RD_decision (do_determinant (decide (revalidation_decision_input R i db now pe))),
            vo_execution_request = None, vo_reservation_id = None \<rparr>, db)"
  | (conflict) e version_id pe where "policy_part R to_iso i db now = Inr (version_id, pe)"
      "revalidate R to_iso n i now db = (Inl e, db\<lparr>gd_idempotency := snd (register (rt_sha R) (fi_idempotency n)
          (execution_registration R i) (gd_idempotency db))\<rparr>)"
  | (authorized) version_id pe where "policy_part R to_iso i db now = Inr (version_id, pe)"
      "do_result (decide (revalidation_decision_input R i db now pe)) = ALLOW"
      "revalidate R to_iso n i now db = (fst (authorize R n i now version_id pe (gd_execution db)),
         db\<lparr>gd_idempotency := snd (register (rt_sha R) (fi_idempotency n) (execution_registration R i) (gd_idempotency db)),
            gd_execution := snd (authorize R n i now version_id pe (gd_execution db))\<rparr>)"
proof (cases "policy_part R to_iso i db now")
  case (Inl e)
  then show ?thesis by (intro failed) (simp_all add: revalidate_def)
next
  case (Inr p)
  obtain version_id pe where p: "p = (version_id, pe)" by (cases p)
  show ?thesis
  proof (cases "do_result (decide (revalidation_decision_input R i db now pe)) = ALLOW")
    case False
    then show ?thesis using Inr p by (intro refused [of version_id pe]) (simp_all add: revalidate_def Let_def)
  next
    case True
    obtain r idem where reg: "register (rt_sha R) (fi_idempotency n) (execution_registration R i) (gd_idempotency db) = (r, idem)"
      by (cases "register (rt_sha R) (fi_idempotency n) (execution_registration R i) (gd_idempotency db)")
    show ?thesis
    proof (cases r)
      case (Inl e)
      then show ?thesis using Inr p True reg
        by (intro conflict [of version_id pe e]) (simp_all add: revalidate_def Let_def)
    next
      case (Inr s)
      then show ?thesis using \<open>policy_part R to_iso i db now = Inr p\<close> p True reg
        by (intro authorized [of version_id pe]) (simp_all add: revalidate_def Let_def split: prod.splits)
    qed
  qed
qed

lemma authorize_cases:
  obtains (existing) r where "existing_request R i xdb = Some r"
      "authorize R n i now version_id pe xdb = (Inr \<lparr> vo_result = ALLOW, vo_determinant = RD_allow_idempotent,
         vo_execution_request = Some r, vo_reservation_id = None \<rparr>, xdb)"
  | (no_budget) e L where "existing_request R i xdb = None"
      "reserve (rt_decimal R) (fi_account n) (fi_reservation n) (budget_request i) (xd_ledger xdb) = (Inl e, L)"
      "fst (authorize R n i now version_id pe xdb) = (if e = POLICY_VIOLATION then
           Inr \<lparr> vo_result = DENY, vo_determinant = RD_budget_exceeded, vo_execution_request = None, vo_reservation_id = None \<rparr>
         else Inl e)"
      "snd (authorize R n i now version_id pe xdb) = xdb\<lparr>xd_ledger := L\<rparr>"
  | (minted) res L q where "existing_request R i xdb = None"
      "reserve (rt_decimal R) (fi_account n) (fi_reservation n) (budget_request i) (xd_ledger xdb) = (Inr res, L)"
      "xr_id q = fi_request n" "xr_company_id q = vi_company_id i" "xr_agent_id q = vi_agent_id i"
      "xr_decision_id q = vi_decision_id i" "xr_transaction_id q = vi_transaction_id i"
      "xr_idempotency_key q = payload_hash R i" "xr_network q = vi_actual_network i" "xr_status q = XR_AUTHORIZED"
      "xr_policy_version_id q = version_id"
      "xr_authorization_context_hash q = context_hash (rt_sha R) (fresh_context R i pe)"
      "authorize R n i now version_id pe xdb =
         (Inr \<lparr> vo_result = ALLOW, vo_determinant = RD_decision D_allow, vo_execution_request = Some q,
                vo_reservation_id = Some (re_id res) \<rparr>,
          xdb\<lparr>xd_requests := xd_requests xdb @ [q], xd_ledger := bind_reservation (re_id res) (xr_id q) L\<rparr>)"
proof (cases "existing_request R i xdb")
  case (Some r)
  then show ?thesis by (intro existing [of r]) (simp_all add: authorize_def)
next
  case None
  obtain out L where out: "reserve (rt_decimal R) (fi_account n) (fi_reservation n) (budget_request i) (xd_ledger xdb) = (out, L)"
    by (cases "reserve (rt_decimal R) (fi_account n) (fi_reservation n) (budget_request i) (xd_ledger xdb)")
  show ?thesis
  proof (cases out)
    case (Inl e)
    then show ?thesis using None out by (intro no_budget [of e L]) (simp_all add: authorize_def)
  next
    case (Inr res)
    then show ?thesis using None out
      by (intro minted [of res L "the (vo_execution_request (projr (fst (authorize R n i now version_id pe xdb))))"])
        (simp_all add: authorize_def Let_def)
  qed
qed

lemma policy_part_PASS:
  assumes "policy_part R to_iso i db now = Inr (version_id, pe)" and "pe_status pe = EVAL_PASS"
  obtains a p v rules out where "get_agent (vi_company_id i) (vi_agent_id i) (gd_authority db) = Some a"
    "ag_active_policy_id a = Some p" "get_active_version (vi_company_id i) p (gd_policies db) = Some v"
    "load_rules (vi_company_id i) (vn_id v) (gd_policies db) = Inr rules"
    "evaluate R \<lparr> ei_policy_id = p, ei_policy_version = vn_version v, ei_rules = rules,
        ei_context = revalidation_context to_iso (vi_proposal i) (first_capability i db now) now \<rparr> = Inr out"
    "po_status out = EVAL_PASS" "version_id = Some (vn_id v)"
  using assms
  by (auto simp: policy_part_def Let_def and_then_Inr_iff bind_eq_Some_conv truthy_def
      split: if_splits option.splits)

lemma first_capability_D:
  "first_capability i db now = Some c \<Longrightarrow> c \<in> set (ah_capabilities (gd_authority db))
     \<and> cap_company_id c = vi_company_id i \<and> cap_agent_id c = vi_agent_id i \<and> cap_status c = CAP_ACTIVE
     \<and> cap_valid_from c \<le> now \<and> (\<forall>e. cap_expires_at c = Some e \<longrightarrow> now < e)"
proof -
  assume c: "first_capability i db now = Some c"
  then have "c \<in> set (get_active_capabilities (vi_company_id i) (vi_agent_id i) now (gd_authority db))"
    by (auto simp: first_capability_def split: if_splits list.splits)
  then show ?thesis by (auto simp: get_active_capabilities_def split: option.splits)
qed

text \<open>The conditions the gate re-establishes at execution time.\<close>

definition live_authorization :: "runtime \<Rightarrow> revalidate_input \<Rightarrow> gate_db \<Rightarrow> int \<Rightarrow> bool" where
  "live_authorization R i db now \<longleftrightarrow>
     (\<exists>a. get_agent (vi_company_id i) (vi_agent_id i) (gd_authority db) = Some a \<and> ag_status a = AG_ACTIVE)
   \<and> intent_live R i now
   \<and> get_active_constitution (vi_company_id i) (vi_agent_id i) (gd_authority db) \<noteq> None
   \<and> (\<exists>c \<in> set (ah_capabilities (gd_authority db)). cap_company_id c = vi_company_id i \<and> cap_agent_id c = vi_agent_id i
        \<and> cap_status c = CAP_ACTIVE \<and> cap_valid_from c \<le> now \<and> (\<forall>e. cap_expires_at c = Some e \<longrightarrow> now < e))
   \<and> proposal_recipient (vi_proposal i) = Some (ta_recipient (vi_analysis i))
   \<and> map_option mo_currency (ap_amount (vi_proposal i)) = Some (ta_asset (vi_analysis i))
   \<and> (\<exists>m q. ap_amount (vi_proposal i) = Some m \<and> dl_parse (rt_decimal R) (mo_value m) = Some q
        \<and> dl_parse (rt_decimal R) (ta_amount (vi_analysis i)) = Some q)
   \<and> vi_expected_network i = vi_actual_network i
   \<and> sr_transaction_id (vi_simulation i) = vi_transaction_id i
   \<and> vi_simulated_payload_hash i = payload_hash R i
   \<and> (sr_status (vi_simulation i) = SIM_PASS
      \<or> sr_status (vi_simulation i) \<in> {SIM_ERROR, SIM_UNSUPPORTED} \<and> \<not> vi_simulation_required i)
   \<and> \<not> assessment_stale R i now
   \<and> (truthy (vi_approval_id i) \<longrightarrow> resolve_approval_state (vi_company_id i) (the (vi_approval_id i))
        (vi_decision_context_hash i) now (gd_approvals db) = AS_APPROVED)"

lemma decide_allow_gate:
  assumes "do_result (decide (revalidation_decision_input R i db now pe)) = ALLOW"
  shows "live_authorization R i db now" and "pe_status pe = EVAL_PASS"
    and "vi_decision_context_hash i \<noteq> [] \<Longrightarrow> vi_decision_context_hash i = context_hash (rt_sha R) (fresh_context R i pe)"
proof -
  let ?d = "revalidation_decision_input R i db now pe"
  have h: "\<not> hard_block ?d" "\<not> needs_review ?d"
    using assms by (auto simp: decide_result split: if_splits)
  have sim: "sr_status s = SIM_PASS \<or> sr_status s \<in> {SIM_ERROR, SIM_UNSUPPORTED} \<and> \<not> req"
    if "classify_simulation s \<noteq> SO_DENY" "classify_simulation s \<noteq> SO_REVIEW"
      "\<not> (req \<and> classify_simulation s = SO_FAIL_CLOSED)" for s req
    using that by (cases "sr_status s") (auto simp: classify_simulation_def)
  have gate: "tg_status (compare_proposal_vs_transaction (rt_decimal R) (vi_proposal i) (vi_analysis i)
      \<lparr> gc_expected_network = vi_expected_network i, gc_actual_network = vi_actual_network i,
        gc_expect_simple_payment = (ap_action_type (vi_proposal i) = PAY) \<rparr>) = MATCH"
    using h(1) by (cases "tg_status (compare_proposal_vs_transaction (rt_decimal R) (vi_proposal i) (vi_analysis i)
      \<lparr> gc_expected_network = vi_expected_network i, gc_actual_network = vi_actual_network i,
        gc_expect_simple_payment = (ap_action_type (vi_proposal i) = PAY) \<rparr>)")
      (auto simp: hard_block_def revalidation_decision_input_def Let_def)
  then have fields: "proposal_recipient (vi_proposal i) = Some (ta_recipient (vi_analysis i))"
    "map_option mo_currency (ap_amount (vi_proposal i)) = Some (ta_asset (vi_analysis i))"
    "\<exists>m q. ap_amount (vi_proposal i) = Some m \<and> dl_parse (rt_decimal R) (mo_value m) = Some q
        \<and> dl_parse (rt_decimal R) (ta_amount (vi_analysis i)) = Some q"
    "vi_expected_network i = vi_actual_network i"
    by (auto simp: compare_proposal_vs_transaction_def Let_def gate_amounts_equal_iff split: if_splits)
  have bind: "sr_transaction_id (vi_simulation i) = vi_transaction_id i" "vi_simulated_payload_hash i = payload_hash R i"
    using h(1) by (auto simp: hard_block_def revalidation_decision_input_def Let_def validate_simulation_binding_def
        split: if_splits)
  have status: "(\<exists>a. get_agent (vi_company_id i) (vi_agent_id i) (gd_authority db) = Some a \<and> ag_status a = AG_ACTIVE)"
    "intent_live R i now" "get_active_constitution (vi_company_id i) (vi_agent_id i) (gd_authority db) \<noteq> None"
    "first_capability i db now \<noteq> None" "\<not> assessment_stale R i now" "pe_status pe \<noteq> EVAL_FAIL"
    "vi_decision_context_hash i \<noteq> [] \<Longrightarrow> vi_decision_context_hash i = context_hash (rt_sha R) (fresh_context R i pe)"
    "classify_simulation (vi_simulation i) \<noteq> SO_DENY"
    "\<not> (vi_simulation_required i \<and> classify_simulation (vi_simulation i) = SO_FAIL_CLOSED)"
    using h(1) by (auto simp: hard_block_def revalidation_decision_input_def Let_def split: option.splits)
  have rev: "pe_status pe \<noteq> EVAL_REVIEW" "classify_simulation (vi_simulation i) \<noteq> SO_REVIEW"
    using h(2) by (auto simp: needs_review_def revalidation_decision_input_def Let_def)
  have app: "resolve_approval_state (vi_company_id i) (the (vi_approval_id i)) (vi_decision_context_hash i) now
      (gd_approvals db) = AS_APPROVED" if "truthy (vi_approval_id i)"
    using h that by (cases "resolve_approval_state (vi_company_id i) (the (vi_approval_id i)) (vi_decision_context_hash i) now
      (gd_approvals db)") (auto simp: hard_block_def needs_review_def revalidation_decision_input_def Let_def approval_part_def)
  obtain c where "first_capability i db now = Some c" using status(4) by auto
  note c = first_capability_D [OF this]
  show "live_authorization R i db now"
    unfolding live_authorization_def
    using status(1-3,5) c fields bind sim [OF status(8) rev(2) status(9)] app by blast
  show "pe_status pe = EVAL_PASS" using status(6) rev(1) by (cases "pe_status pe") auto
  show "vi_decision_context_hash i \<noteq> [] \<Longrightarrow> vi_decision_context_hash i = context_hash (rt_sha R) (fresh_context R i pe)"
    by (rule status(7))
qed

section \<open>Properties\<close>


text \<open>
  C26: one payload, one execution: when the company already has an execution request for the payload,
  a revalidation, whatever it answers, writes no request and moves no money, and the request it
  names, if any, is that one.
\<close>

theorem payload_executes_once:
  assumes "existing_request R i (gd_execution db) = Some r"
  shows "gd_execution (snd (revalidate R to_iso n i now db)) = gd_execution db
    \<and> (case fst (revalidate R to_iso n i now db) of Inl e \<Rightarrow> True
       | Inr out \<Rightarrow> vo_execution_request out \<in> {None, Some r} \<and> vo_reservation_id out = None
           \<and> (vo_result out = ALLOW \<longrightarrow> vo_execution_request out = Some r))"
proof (cases rule: revalidate_cases [of R to_iso i db now n])
  case (authorized version_id pe)
  then show ?thesis
    using assms by (cases rule: authorize_cases [of R i "gd_execution db" n now version_id pe]) auto
qed auto


definition sample_analysis :: transaction_analysis where
  "sample_analysis = \<lparr> ta_transaction_id = ''t'', ta_contract = \<lparr> cr_address = ''0xc'', cr_verified = True \<rparr>,
     ta_function = \<lparr> fr_name = ''transfer'', fr_selector = ''0xa9059cbb'' \<rparr>, ta_decoded_arguments = [],
     ta_state_changes_expected = [], ta_recipient = ''0xr'', ta_amount = ''5.0'', ta_asset = ''USDC'', ta_risk_flags = [],
     ta_status = AN_VALID \<rparr>"

definition sample_simulation :: simulation_result where
  "sample_simulation = \<lparr> sr_transaction_id = ''t'', sr_status = SIM_PASS, sr_would_revert = False, sr_gas_estimate = None,
     sr_expected_state_changes = [], sr_unexpected_state_changes = [], sr_revert_reason = None,
     sr_simulator_provider = ''sim'', sr_simulator_version = ''1'', sr_simulated_at = ''now'' \<rparr>"

definition sample_payload_input :: payload_input where
  "sample_payload_input = \<lparr> pi_transaction_id = ''t'', pi_network = ''base'', pi_recipient = ''0xr'', pi_amount = ''5.0'',
     pi_asset = ''USDC'', pi_contract_address = Some ''0xc'', pi_function_selector = Some ''0xa9059cbb'' \<rparr>"

definition sample_revalidation :: "string option \<Rightarrow> string \<Rightarrow> revalidate_input" where
  "sample_revalidation approval h = \<lparr> vi_company_id = ''co'', vi_agent_id = ''ag'', vi_decision_id = ''d'',
     vi_intent = sample_intent INTENT_VALID, vi_proposal = sample_proposal ''5'',
     vi_security_assessment = sample_assessment PROCEED_CANDIDATE, vi_transaction_id = ''t'', vi_analysis = sample_analysis,
     vi_expected_network = ''base'', vi_actual_network = ''base'', vi_simulation = sample_simulation,
     vi_simulated_payload_hash = transaction_payload_hash (\<lambda>s. s) sample_payload_input,
     vi_approval_id = approval, vi_decision_context_hash = h, vi_financial_scope_key = ''ag'', vi_asset = ''USDC'',
     vi_amount = ''5'', vi_budget_limit = None, vi_assessment_max_age_ms = None, vi_simulation_required = True \<rparr>"

definition live_gate :: gate_db where
  "live_gate = \<lparr> gd_authority = live_authority, gd_policies = policies_active, gd_approvals = empty_approvals,
     gd_idempotency = [],
     gd_execution = \<lparr> xd_ledger = ledger1, xd_requests = [], xd_results = [], xd_verifications = [] \<rparr> \<rparr>"

definition sample_ids :: fresh_ids where
  "sample_ids = \<lparr> fi_account = ''a2'', fi_reservation = ''r9'', fi_request = ''x9'', fi_idempotency = ''i9'' \<rparr>"

lemma sample_payload_hash:
  "payload_hash sample_runtime (sample_revalidation a h) = transaction_payload_hash (\<lambda>s. s) sample_payload_input"
  by (simp add: payload_hash_def revalidation_payload_def sample_revalidation_def sample_payload_input_def
      sample_analysis_def sample_runtime_def)

lemma live_gate_agent: "get_agent ''co'' ''ag'' live_authority = Some live_agent"
  by (simp add: get_agent_def live_authority_def live_agent_def)

lemma live_gate_constitution: "get_active_constitution ''co'' ''ag'' live_authority = Some live_constitution"
  by (simp add: get_active_constitution_def live_authority_def live_constitution_def)

lemma live_gate_capability:
  "first_capability (sample_revalidation a h) live_gate 6 = Some (cap_row ''k1'' None (Some ''USDC'') 100)"
  by (simp add: first_capability_def sample_revalidation_def live_gate_def live_gate_agent)
    (simp add: live_authority_def get_active_capabilities_def cap_row_def)

lemma live_policy_part:
  "\<exists>pe. policy_part sample_runtime (\<lambda>_. ''t'') (sample_revalidation a h) live_gate 6 = Inr (Some ''v1'', pe)
     \<and> pe_status pe = EVAL_PASS"
proof -
  let ?c = "revalidation_context (\<lambda>_. ''t'') (sample_proposal ''5'') (Some (cap_row ''k1'' None (Some ''USDC'') 100)) 6"
  obtain out where "evaluate sample_runtime \<lparr> ei_policy_id = ''p'', ei_policy_version = 1, ei_rules = sample_rules,
      ei_context = ?c \<rparr> = Inr out" "po_status out = EVAL_PASS"
    using sample_rules_evaluate [of ?c] by (auto simp: revalidation_context_def sample_proposal_def)
  moreover have "load_rules ''co'' ''v1'' policies_active = Inr sample_rules"
    using load_active_rules(1) [OF live_policies_ok live_active_version] by (simp add: version_row_def)
  moreover have "ag_active_policy_id live_agent = Some ''p''" by (simp add: live_agent_def)
  moreover have "vn_id (version_row VS_ACTIVE (Some 5)) = ''v1''" "vn_version (version_row VS_ACTIVE (Some 5)) = 1"
    by (simp_all add: version_row_def)
  moreover have "vi_company_id (sample_revalidation a h) = ''co''" "vi_agent_id (sample_revalidation a h) = ''ag''"
    "vi_proposal (sample_revalidation a h) = sample_proposal ''5''"
    "gd_authority live_gate = live_authority" "gd_policies live_gate = policies_active"
    by (simp_all add: sample_revalidation_def live_gate_def)
  ultimately show ?thesis
    by (simp add: policy_part_def Let_def live_gate_agent live_active_version live_gate_capability)
qed

lemma live_decision:
  assumes "pe_status pe = EVAL_PASS"
  shows "do_result (decide (revalidation_decision_input sample_runtime (sample_revalidation None []) live_gate 6 pe)) = ALLOW"
proof -
  let ?i = "sample_revalidation None []"
  have sel: "vi_company_id ?i = ''co''" "vi_agent_id ?i = ''ag''" "vi_proposal ?i = sample_proposal ''5''"
    "gd_authority live_gate = live_authority" "vi_assessment_max_age_ms ?i = None" "vi_decision_context_hash ?i = []"
    "vi_approval_id ?i = None" "vi_expected_network ?i = ''base''" "vi_actual_network ?i = ''base''"
    "vi_security_assessment ?i = sample_assessment PROCEED_CANDIDATE" "vi_analysis ?i = sample_analysis"
    "vi_simulation ?i = sample_simulation" "vi_transaction_id ?i = ''t''"
    "vi_simulated_payload_hash ?i = transaction_payload_hash (\<lambda>s. s) sample_payload_input"
    by (simp_all add: sample_revalidation_def live_gate_def)
  have "intent_live sample_runtime ?i 6"
    by (simp add: intent_live_def sample_revalidation_def sample_intent_def sample_runtime_def)
  moreover have "tg_status (compare_proposal_vs_transaction (rt_decimal sample_runtime) (sample_proposal ''5'') sample_analysis
      \<lparr> gc_expected_network = ''base'', gc_actual_network = ''base'', gc_expect_simple_payment = True \<rparr>) = MATCH"
    by (simp add: compare_proposal_vs_transaction_def Let_def gate_amounts_equal_iff sample_proposal_def sample_analysis_def
        proposal_recipient_def sample_runtime_def simple_payment_functions_def money_eval)
  moreover have "ap_action_type (sample_proposal ''5'') = PAY" by (simp add: sample_proposal_def)
  moreover have "ag_status live_agent = AG_ACTIVE" by (simp add: live_agent_def)
  moreover have "classify_simulation sample_simulation = SO_CONTINUE" "sr_transaction_id sample_simulation = ''t''"
    by (simp_all add: classify_simulation_def sample_simulation_def)
  ultimately show ?thesis
    using assms
    by (simp add: decide_result hard_block_def needs_review_def revalidation_decision_input_def Let_def sel
        live_gate_agent live_gate_constitution live_gate_capability assessment_stale_def approval_part_def
        sample_payload_hash validate_simulation_binding_def sample_assessment_def)
qed

text \<open>The sample payment is authorized, with a reservation under the budget of ten.\<close>

lemma live_revalidation:
  "\<exists>out db'. revalidate sample_runtime (\<lambda>_. ''t'') sample_ids (sample_revalidation None []) 6 live_gate = (Inr out, db')
     \<and> vo_result out = ALLOW"
proof -
  obtain pe where pe: "policy_part sample_runtime (\<lambda>_. ''t'') (sample_revalidation None []) live_gate 6 = Inr (Some ''v1'', pe)"
    "pe_status pe = EVAL_PASS"
    using live_policy_part by blast
  have "\<exists>res L. reserve plain_decimal ''a2'' ''r9'' (budget_request (sample_revalidation None [])) ledger1 = (Inr res, L)"
    by (simp add: budget_request_def sample_revalidation_def ledger1_value ledger_eval)
  then obtain res L where
    "reserve plain_decimal ''a2'' ''r9'' (budget_request (sample_revalidation None [])) ledger1 = (Inr res, L)" by blast
  moreover have "xd_ledger (gd_execution live_gate) = ledger1" "xd_requests (gd_execution live_gate) = []"
    "gd_idempotency live_gate = []" "rt_decimal sample_runtime = plain_decimal"
    by (simp_all add: live_gate_def sample_runtime_def)
  moreover have "fi_account sample_ids = ''a2''" "fi_reservation sample_ids = ''r9''" by (simp_all add: sample_ids_def)
  ultimately show ?thesis
    using pe live_decision [OF pe(2)]
    by (simp add: revalidate_def Let_def register_def register_between_def register_insert_def authorize_def
        existing_request_def)
qed


definition executed_gate :: gate_db where
  "executed_gate = live_gate\<lparr>gd_execution := execution1\<lparr>xd_requests :=
     [(sample_request_row XR_CONFIRMED)\<lparr>xr_idempotency_key := transaction_payload_hash (\<lambda>s. s) sample_payload_input\<rparr>]\<rparr>\<rparr>"

text \<open>A confirmed payment is not paid again by preparing it again.\<close>

theorem payload_executes_once_witness:
  "gd_execution (snd (revalidate sample_runtime (\<lambda>_. ''t'') sample_ids (sample_revalidation None []) 6 executed_gate))
     = gd_execution executed_gate"
proof -
  have "existing_request sample_runtime (sample_revalidation None []) (gd_execution executed_gate)
      = Some ((sample_request_row XR_CONFIRMED)\<lparr>xr_idempotency_key := transaction_payload_hash (\<lambda>s. s) sample_payload_input\<rparr>)"
    by (simp add: existing_request_def executed_gate_def sample_payload_hash)
      (simp add: sample_request_row_def sample_revalidation_def)
  from payload_executes_once [OF this] show ?thesis by blast
qed


end
