(* ===== verification/Audit_Log.thy ===== *)
theory Audit_Log
  imports Hash_Chain Core_Errors
begin

text \<open>
  The audit service (Backend/src/audit/audit.service.ts): the append-only log chained per
  (company, entity type, entity id). The table is the list of its rows in creation order, which
  is the order of \<open>createdAt\<close>. \<open>plan_append\<close> is what the transaction decides from the rows
  it reads and \<open>audit_append\<close> the whole method; the split is what two transactions that
  read the same rows are made of (\<open>concurrent_append\<close>).
\<close>

section \<open>Definitions\<close>

record audit_event =
  ae_id :: string
  ae_company_id :: string
  ae_agent_id :: "string option"
  ae_correlation_id :: "string option"
  ae_request_id :: "string option"
  ae_entity_type :: string
  ae_entity_id :: string
  ae_event_type :: string
  ae_actor_type :: string
  ae_actor_id :: string
  ae_payload :: "(string \<times> json) list"
  ae_previous_event_hash :: string
  ae_event_hash :: string

record append_audit_input =
  au_company_id :: string
  au_agent_id :: "string option"
  au_correlation_id :: "string option"
  au_request_id :: "string option"
  au_entity_type :: string
  au_entity_id :: string
  au_event_type :: string
  au_actor_type :: string
  au_actor_id :: string
  au_payload :: "(string \<times> json) list"
  au_references :: "(string \<times> json) list option"
  au_event_key :: "string option"

definition GENESIS :: string where
  "GENESIS = ''sha256:audit-genesis''"

definition audit_json :: "string \<Rightarrow> string \<Rightarrow> string \<Rightarrow> string \<Rightarrow> (string \<times> json) list \<Rightarrow> string \<Rightarrow> json" where
  "audit_json company_id entity_type entity_id event_type payload previous = JObj
     [(''companyId'', JStr company_id), (''entityType'', JStr entity_type), (''entityId'', JStr entity_id),
      (''eventType'', JStr event_type), (''payload'', JObj payload), (''previousEventHash'', JStr previous)]"

definition compute_hash :: "(string \<Rightarrow> string) \<Rightarrow> string \<Rightarrow> string \<Rightarrow> string \<Rightarrow> string \<Rightarrow>
    (string \<times> json) list \<Rightarrow> string \<Rightarrow> string" where
  "compute_hash sha company_id entity_type entity_id event_type payload previous =
     sha256_json sha (audit_json company_id entity_type entity_id event_type payload previous)"

text \<open>The object spread \<open>{...xs, k: v}\<close>.\<close>

fun spread :: "(string \<times> json) list \<Rightarrow> string \<Rightarrow> json \<Rightarrow> (string \<times> json) list" where
  "spread [] k v = [(k, v)]"
| "spread ((k', v') # xs) k v = (if k' = k then (k, v) # xs else (k', v') # spread xs k v)"

definition of_entity :: "string \<Rightarrow> string \<Rightarrow> string \<Rightarrow> audit_event \<Rightarrow> bool" where
  "of_entity c t i e \<longleftrightarrow> ae_company_id e = c \<and> ae_entity_type e = t \<and> ae_entity_id e = i"

definition content_fingerprint :: "(string \<Rightarrow> string) \<Rightarrow> append_audit_input \<Rightarrow> string" where
  "content_fingerprint sha i = sha256_json sha (JObj
     [(''companyId'', JStr (au_company_id i)), (''entityType'', JStr (au_entity_type i)),
      (''entityId'', JStr (au_entity_id i)), (''eventType'', JStr (au_event_type i)),
      (''payload'', JObj (au_payload i)), (''references'', JObj (nullish (au_references i) [])),
      (''eventKey'', json_opt (au_event_key i))])"

definition stored_payload :: "(string \<Rightarrow> string) \<Rightarrow> append_audit_input \<Rightarrow> (string \<times> json) list" where
  "stored_payload sha i =
     spread (spread (au_payload i) ''references'' (JObj (nullish (au_references i) [])))
       ''_fingerprint'' (JStr (content_fingerprint sha i))"

definition plan_append ::
    "(string \<Rightarrow> string) \<Rightarrow> string \<Rightarrow> append_audit_input \<Rightarrow> audit_event list \<Rightarrow> audit_event + audit_event" where
  "plan_append sha nid i rows =
     (let here = of_entity (au_company_id i) (au_entity_type i) (au_entity_id i);
          previous_hash = (case find here (rev rows) of None \<Rightarrow> GENESIS | Some e \<Rightarrow> ae_event_hash e);
          prior_same_content = find (\<lambda>e. here e \<and> ae_event_type e = au_event_type i
             \<and> map_of (ae_payload e) ''_fingerprint'' = Some (JStr (content_fingerprint sha i))) rows
      in case prior_same_content of
           Some e \<Rightarrow> Inl e
         | None \<Rightarrow>
            (let event_hash = compute_hash sha (au_company_id i) (au_entity_type i) (au_entity_id i)
                   (au_event_type i) (stored_payload sha i) previous_hash
             in case find (\<lambda>e. ae_event_hash e = event_hash) rows of
                  Some e \<Rightarrow> Inl e
                | None \<Rightarrow> Inr \<lparr> ae_id = nid, ae_company_id = au_company_id i, ae_agent_id = au_agent_id i,
                     ae_correlation_id = au_correlation_id i, ae_request_id = au_request_id i,
                     ae_entity_type = au_entity_type i, ae_entity_id = au_entity_id i,
                     ae_event_type = au_event_type i, ae_actor_type = au_actor_type i,
                     ae_actor_id = au_actor_id i, ae_payload = stored_payload sha i,
                     ae_previous_event_hash = previous_hash, ae_event_hash = event_hash \<rparr>))"

text \<open>The insert, under the unique constraint on the event hash.\<close>

definition create_row :: "audit_event \<Rightarrow> (audit_event list, error_code, audit_event) op" where
  "create_row e rows =
     (if find (\<lambda>x. ae_event_hash x = ae_event_hash e) rows \<noteq> None then (Inl INTERNAL_ERROR, rows)
      else (Inr e, rows @ [e]))"

definition audit_append ::
    "(string \<Rightarrow> string) \<Rightarrow> string \<Rightarrow> append_audit_input \<Rightarrow> (audit_event list, error_code, audit_event) op" where
  "audit_append sha nid i = transaction (\<lambda>rows.
     (case plan_append sha nid i rows of Inl e \<Rightarrow> (Inr e, rows) | Inr e \<Rightarrow> create_row e rows))"

definition get_entity_timeline :: "string \<Rightarrow> string \<Rightarrow> string \<Rightarrow> audit_event list \<Rightarrow> audit_event list" where
  "get_entity_timeline c t i rows = filter (of_entity c t i) rows"

definition audit_rehash :: "(string \<Rightarrow> string) \<Rightarrow> string \<Rightarrow> audit_event \<Rightarrow> string" where
  "audit_rehash sha p e = compute_hash sha (ae_company_id e) (ae_entity_type e) (ae_entity_id e)
     (ae_event_type e) (ae_payload e) p"

definition verify_entity_chain :: "(string \<Rightarrow> string) \<Rightarrow> string \<Rightarrow> string \<Rightarrow> string \<Rightarrow> audit_event list \<Rightarrow> bool" where
  "verify_entity_chain sha c t i rows =
     chain_from (audit_rehash sha) ae_previous_event_hash ae_event_hash GENESIS (get_entity_timeline c t i rows)"

text \<open>Two transactions that both read before either has committed.\<close>

definition concurrent_append ::
    "(string \<Rightarrow> string) \<Rightarrow> string \<Rightarrow> append_audit_input \<Rightarrow> string \<Rightarrow> append_audit_input \<Rightarrow>
     audit_event list \<Rightarrow> audit_event list" where
  "concurrent_append sha n1 i1 n2 i2 rows =
     (case (plan_append sha n1 i1 rows, plan_append sha n2 i2 rows) of
        (Inr e1, Inr e2) \<Rightarrow> snd (create_row e2 (snd (create_row e1 rows)))
      | (Inr e1, Inl _) \<Rightarrow> snd (create_row e1 rows)
      | (Inl _, Inr e2) \<Rightarrow> snd (create_row e2 rows)
      | (Inl _, Inl _) \<Rightarrow> rows)"

section \<open>The chain contract\<close>

definition hashed_audit :: "string \<Rightarrow> audit_event \<Rightarrow> json" where
  "hashed_audit p e = audit_json (ae_company_id e) (ae_entity_type e) (ae_entity_id e) (ae_event_type e) (ae_payload e) p"

definition audit_content :: "audit_event \<Rightarrow> string \<times> string \<times> string \<times> string \<times> json" where
  "audit_content e = (ae_company_id e, ae_entity_type e, ae_entity_id e, ae_event_type e,
     canonicalize (JObj (ae_payload e)))"

lemma audit_json_eqD:
  assumes "canonicalize (audit_json c t i y pl p) = canonicalize (audit_json c' t' i' y' pl' q)"
  shows "c = c' \<and> t = t' \<and> i = i' \<and> y = y' \<and> canonicalize (JObj pl) = canonicalize (JObj pl') \<and> p = q"
proof -
  have m: "map_option canonicalize (map_of a k) = map_option canonicalize (map_of b k)"
    if "audit_json c t i y pl p = JObj a" "audit_json c' t' i' y' pl' q = JObj b" for a b k
    by (rule canonicalize_member) (use assms that in \<open>simp, auto simp: audit_json_def\<close>)
  note m = m [OF audit_json_def audit_json_def]
  show ?thesis
    using m [of "''companyId''"] m [of "''entityType''"] m [of "''entityId''"] m [of "''eventType''"]
      m [of "''payload''"] m [of "''previousEventHash''"]
    by (simp del: canonicalize.simps(6))
qed

interpretation audit_chain: hash_chain sha hashed_audit audit_content ae_previous_event_hash ae_event_hash
  for sha
  by unfold_locales (auto simp: hashed_audit_def audit_content_def dest: audit_json_eqD)

lemma audit_rehash_hashed: "audit_rehash sha = (\<lambda>p e. sha256_json sha (hashed_audit p e))"
  by (simp add: fun_eq_iff audit_rehash_def compute_hash_def hashed_audit_def)

section \<open>Lemmas\<close>

lemma map_of_spread [simp]: "map_of (spread xs k v) = (map_of xs)(k \<mapsto> v)"
  by (induction xs k v rule: spread.induct) (auto simp: fun_eq_iff)

lemma find_rev_last: "find P (rev xs) = (if filter P xs = [] then None else Some (last (filter P xs)))"
  by (induction xs rule: rev_induct) auto

lemma plan_append_InrD:
  assumes "plan_append sha nid i rows = Inr e"
  shows "of_entity (au_company_id i) (au_entity_type i) (au_entity_id i) e"
    and "ae_previous_event_hash e = chain_head ae_event_hash GENESIS
           (get_entity_timeline (au_company_id i) (au_entity_type i) (au_entity_id i) rows)"
    and "audit_rehash sha (ae_previous_event_hash e) e = ae_event_hash e"
    and "ae_event_hash e \<notin> ae_event_hash ` set rows"
    and "ae_event_type e = au_event_type i" "ae_payload e = stored_payload sha i"
    and "find (\<lambda>e. of_entity (au_company_id i) (au_entity_type i) (au_entity_id i) e \<and> ae_event_type e = au_event_type i
           \<and> map_of (ae_payload e) ''_fingerprint'' = Some (JStr (content_fingerprint sha i))) rows = None"
  using assms
  by (auto simp: plan_append_def Let_def of_entity_def audit_rehash_def find_rev_last chain_head_def
      get_entity_timeline_def find_None_iff split: option.splits if_splits)

lemma plan_append_InlD: "plan_append sha nid i rows = Inl e \<Longrightarrow> e \<in> set rows"
  by (auto simp: plan_append_def Let_def split: option.splits dest: find_SomeD)

lemma create_row_fresh: "ae_event_hash e \<notin> ae_event_hash ` set rows \<Longrightarrow> create_row e rows = (Inr e, rows @ [e])"
  by (auto simp: create_row_def find_None_iff image_iff)

lemma audit_append_plan:
  "audit_append sha nid i rows = (case plan_append sha nid i rows of
     Inl e \<Rightarrow> (Inr e, rows) | Inr e \<Rightarrow> (Inr e, rows @ [e]))"
  using create_row_fresh plan_append_InrD(4)
  by (auto simp: audit_append_def transaction_def split: sum.splits)

text \<open>All chains of a table verify and no two rows share a hash.\<close>

definition log_ok :: "(string \<Rightarrow> string) \<Rightarrow> audit_event list \<Rightarrow> bool" where
  "log_ok sha rows \<longleftrightarrow> distinct (map ae_event_hash rows) \<and> (\<forall>c t i. verify_entity_chain sha c t i rows)"

lemma log_ok_append:
  assumes "log_ok sha rows"
  shows "log_ok sha (snd (audit_append sha nid i rows))"
proof (cases "plan_append sha nid i rows")
  case (Inl e)
  with assms show ?thesis by (simp add: audit_append_plan)
next
  case (Inr e)
  have "verify_entity_chain sha c t j (rows @ [e])" for c t j
  proof (cases "of_entity c t j e")
    case True
    then have "c = au_company_id i" "t = au_entity_type i" "j = au_entity_id i"
      using plan_append_InrD(1) [OF Inr] by (auto simp: of_entity_def)
    with True assms show ?thesis
      using plan_append_InrD(2,3) [OF Inr]
      by (auto simp: log_ok_def verify_entity_chain_def get_entity_timeline_def)
  next
    case False
    with assms show ?thesis by (simp add: log_ok_def verify_entity_chain_def get_entity_timeline_def)
  qed
  with assms plan_append_InrD(4) [OF Inr] show ?thesis
    by (simp add: audit_append_plan Inr log_ok_def)
qed

inductive audit_step :: "(string \<Rightarrow> string) \<Rightarrow> audit_event list \<Rightarrow> audit_event list \<Rightarrow> bool" for sha where
  "audit_step sha rows (snd (audit_append sha nid i rows))"

inductive_cases audit_stepE: "audit_step sha rows rows'"

lemma log_ok_step: "log_ok sha rows \<Longrightarrow> audit_step sha rows rows' \<Longrightarrow> log_ok sha rows'"
  by (erule audit_stepE) (simp add: log_ok_append)

interpretation audit_log: invariant_system "\<lambda>rows. rows = []" "audit_step sha" "log_ok sha" for sha
  by (unfold_locales, simp add: log_ok_def verify_entity_chain_def get_entity_timeline_def)
     (rule log_ok_step)

section \<open>Properties\<close>

text \<open>
  any sequence of appends, whatever the interleaving of entities, leaves a log in which the
  chain of every entity of every company verifies and no event hash occurs twice.
\<close>

theorem audit_log_verifies:
  assumes "reachable (\<lambda>rows. rows = []) (audit_step sha) rows"
  shows "verify_entity_chain sha c t i rows \<and> distinct (map ae_event_hash rows)"
  using audit_log.reachable_inv [OF assms] by (simp add: log_ok_def)

definition sample_audit :: "string \<Rightarrow> append_audit_input" where
  "sample_audit kind = \<lparr> au_company_id = ''co'', au_agent_id = None, au_correlation_id = None,
     au_request_id = None, au_entity_type = ''decision'', au_entity_id = ''d1'', au_event_type = kind,
     au_actor_type = ''system'', au_actor_id = ''core'', au_payload = [], au_references = None,
     au_event_key = None \<rparr>"

definition sample_log :: "audit_event list" where
  "sample_log = snd (audit_append (\<lambda>s. s) ''a2'' (sample_audit ''EXECUTED'')
     (snd (audit_append (\<lambda>s. s) ''a1'' (sample_audit ''DECIDED'') [])))"

theorem audit_log_verifies_witness:
  "verify_entity_chain (\<lambda>s. s) ''co'' ''decision'' ''d1'' sample_log"
proof -
  have "reachable (\<lambda>rows. rows = []) (audit_step (\<lambda>s. s)) sample_log"
    unfolding sample_log_def
    by (rule reachable_step [OF reachable_step [OF reachable_init]], rule refl)
       (rule audit_step.intros)+
  from audit_log_verifies [OF this] show ?thesis by blast
qed

text \<open>
  An append is idempotent: repeating it, with whatever fresh id, answers with the same row and
  leaves the log as it is.
\<close>

theorem audit_append_idempotent:
  assumes "audit_append sha nid i rows = (Inr e, rows')"
  shows "audit_append sha nid' i rows' = (Inr e, rows')"
proof (cases "plan_append sha nid i rows")
  case (Inl x)
  then have "x = e" "rows' = rows" using assms by (auto simp: audit_append_plan)
  moreover have "plan_append sha nid' i rows = Inl x"
    using Inl by (auto simp: plan_append_def Let_def split: option.splits)
  ultimately show ?thesis by (simp add: audit_append_plan)
next
  case (Inr x)
  then have "x = e" "rows' = rows @ [e]" using assms by (auto simp: audit_append_plan)
  moreover have "plan_append sha nid' i (rows @ [x]) = Inl x"
  proof -
    have app: "find P (rows @ [x]) = Some x" if "find P rows = None" "P x" for P
      using that by (induction rows) (auto split: if_splits)
    have fp: "map_of (ae_payload x) ''_fingerprint'' = Some (JStr (content_fingerprint sha i))"
      using plan_append_InrD(6) [OF Inr] by (simp add: stored_payload_def)
    show ?thesis
      unfolding plan_append_def Let_def
      by (subst app [OF plan_append_InrD(7) [OF Inr]])
         (use plan_append_InrD(1,5) [OF Inr] fp in simp_all)
  qed
  ultimately show ?thesis by (simp add: audit_append_plan)
qed

theorem audit_append_idempotent_witness:
  "\<exists>e rows. audit_append (\<lambda>s. s) ''a9'' (sample_audit ''DECIDED'') rows = (Inr e, rows) \<and> length rows = 1"
proof -
  obtain e where e: "audit_append (\<lambda>s. s) ''a1'' (sample_audit ''DECIDED'') [] = (Inr e, [e])"
    by (simp add: audit_append_plan plan_append_def Let_def)
  from audit_append_idempotent [OF e, of "''a9''"] show ?thesis by (intro exI [of _ e] exI [of _ "[e]"]) simp
qed

text \<open>
  Two appends to one entity that run concurrently break its chain: when both read the log
  before the other commits and both insert, the second row links past the first and the chain
  of the entity no longer verifies, although neither transaction fails.
\<close>

theorem concurrent_append_forks:
  assumes "plan_append sha n1 i1 rows = Inr e1" "plan_append sha n2 i2 rows = Inr e2"
    and "of_entity (au_company_id i1) (au_entity_type i1) (au_entity_id i1) e2"
    and "ae_event_hash e1 \<noteq> ae_event_hash e2" and "ae_event_hash e1 \<noteq> GENESIS"
  shows "concurrent_append sha n1 i1 n2 i2 rows = rows @ [e1, e2]
    \<and> \<not> verify_entity_chain sha (au_company_id i1) (au_entity_type i1) (au_entity_id i1) (rows @ [e1, e2])"
proof -
  let ?tl = "get_entity_timeline (au_company_id i1) (au_entity_type i1) (au_entity_id i1) rows"
  have same: "au_company_id i2 = au_company_id i1" "au_entity_type i2 = au_entity_type i1"
    "au_entity_id i2 = au_entity_id i1"
    using assms(3) plan_append_InrD(1) [OF assms(2)] by (auto simp: of_entity_def)
  have "concurrent_append sha n1 i1 n2 i2 rows = rows @ [e1, e2]"
    using assms(1,2,4) plan_append_InrD(4) [OF assms(1)] plan_append_InrD(4) [OF assms(2)]
    by (simp add: concurrent_append_def create_row_fresh)
  moreover have "chain_head ae_event_hash GENESIS ?tl \<noteq> ae_event_hash e1"
  proof (cases "?tl = []")
    case True
    with assms(5) show ?thesis by (simp add: chain_head_def)
  next
    case False
    then have "last ?tl \<in> set rows" by (metis filter_is_subset get_entity_timeline_def last_in_set subset_iff)
    with False plan_append_InrD(4) [OF assms(1)] show ?thesis
      by (metis chain_head_def image_eqI)
  qed
  ultimately show ?thesis
    using plan_append_InrD(1) [OF assms(1)] plan_append_InrD(2) [OF assms(2)] assms(3) same
    by (simp add: verify_entity_chain_def get_entity_timeline_def chain_from_append)
qed

theorem concurrent_append_forks_witness:
  "\<exists>rows'. concurrent_append (\<lambda>s. s) ''a1'' (sample_audit ''DECIDED'') ''a2'' (sample_audit ''DENIED'') [] = rows'
     \<and> \<not> verify_entity_chain (\<lambda>s. s) ''co'' ''decision'' ''d1'' rows'"
proof -
  obtain e1 where e1: "plan_append (\<lambda>s. s) ''a1'' (sample_audit ''DECIDED'') [] = Inr e1"
    by (simp add: plan_append_def Let_def)
  obtain e2 where e2: "plan_append (\<lambda>s. s) ''a2'' (sample_audit ''DENIED'') [] = Inr e2"
    by (simp add: plan_append_def Let_def)
  have h: "ae_event_hash e = ''sha256:'' @ canonical_text (hashed_audit (ae_previous_event_hash e) e)"
    if "plan_append (\<lambda>s. s) n i [] = Inr e" for n i e
    using plan_append_InrD(3) [OF that] by (simp add: audit_rehash_hashed sha256_json_text)
  have kinds: "ae_event_type e1 = ''DECIDED''" "ae_event_type e2 = ''DENIED''"
    using plan_append_InrD(5) [OF e1] plan_append_InrD(5) [OF e2] by (simp_all add: sample_audit_def)
  have ne: "ae_event_hash e1 \<noteq> ae_event_hash e2"
  proof
    assume "ae_event_hash e1 = ae_event_hash e2"
    then have "canonicalize (hashed_audit (ae_previous_event_hash e1) e1)
        = canonicalize (hashed_audit (ae_previous_event_hash e2) e2)"
      using h [OF e1] h [OF e2] by (simp add: canonical_text_eq_iff)
    then have "audit_content e1 = audit_content e2" using audit_chain.hashed_binds by blast
    with kinds show False by (simp add: audit_content_def)
  qed
  have g: "ae_event_hash e1 \<noteq> GENESIS"
    using h [OF e1]
    by (simp add: GENESIS_def canonical_text_def hashed_audit_def audit_json_def stringify_JObj)
  have "of_entity ''co'' ''decision'' ''d1'' e2"
    using plan_append_InrD(1) [OF e2] by (simp add: sample_audit_def)
  then show ?thesis
    using concurrent_append_forks [OF e1 e2 _ ne g] by (simp add: sample_audit_def)
qed

text \<open>
  The audit chain does not protect who acted: rewriting agent, correlation and actor of stored
  rows leaves the verification of every chain as it was.
\<close>

theorem audit_actor_alterable:
  "verify_entity_chain sha c t i (map (\<lambda>e. e\<lparr>ae_agent_id := agent e, ae_correlation_id := corr e,
      ae_actor_type := atype e, ae_actor_id := actor e\<rparr>) rows) = verify_entity_chain sha c t i rows"
proof -
  let ?f = "\<lambda>e. e\<lparr>ae_agent_id := agent e, ae_correlation_id := corr e, ae_actor_type := atype e, ae_actor_id := actor e\<rparr>"
  have "filter (of_entity c t i) (map ?f rows) = map ?f (filter (of_entity c t i) rows)"
    by (induction rows) (auto simp: of_entity_def)
  moreover have "chain_from (audit_rehash sha) ae_previous_event_hash ae_event_hash p (map ?f es)
      = chain_from (audit_rehash sha) ae_previous_event_hash ae_event_hash p es" for p es
    by (induction es arbitrary: p) (simp_all add: audit_rehash_def)
  ultimately show ?thesis by (simp add: verify_entity_chain_def get_entity_timeline_def)
qed

end
