(* ===== verification/Evidence.thy ===== *)
theory Evidence
  imports Execution_Result Approval_Engine Audit_Log
begin

text \<open>
  What is kept about an execution after the fact: the attestation service
  (Backend/src/audit/attestation.service.ts), whose registry adapter is a parameter, and the
  forensic reconstruction of a lifecycle (Backend/src/audit/forensic.service.ts), which only reads.
\<close>

section \<open>Attestations\<close>

record attestation_payload =
  py_company_id :: string
  py_agent_id :: string
  py_execution_request_id :: string
  py_decision_id :: string
  py_trace_merkle_root :: string
  py_policy_hash :: string
  py_decision :: string
  py_transaction_hash :: "string option"

datatype attestation_status = AT_PENDING | AT_SUBMITTED | AT_CONFIRMED | AT_FAILED

datatype adapter_outcome = Adapter_submitted string | Adapter_confirmed string | Adapter_failed

record attestation_row =
  tw_id :: string
  tw_company_id :: string
  tw_agent_id :: string
  tw_execution_request_id :: string
  tw_decision_id :: string
  tw_trace_merkle_root :: string
  tw_policy_hash :: string
  tw_decision :: string
  tw_transaction_hash :: "string option"
  tw_status :: attestation_status
  tw_registry_tx_hash :: "string option"
  tw_confirmed_at :: "int option"

type_synonym attestation_op = "(attestation_row list, error_code, attestation_row) op"

text \<open>An adapter that throws is \<open>None\<close>; the error is not one of Core's.\<close>

type_synonym attestation_adapter = "attestation_payload \<Rightarrow> adapter_outcome option"

definition attestation_payload_json :: "attestation_payload \<Rightarrow> json" where
  "attestation_payload_json p = JObj
     [(''companyId'', JStr (py_company_id p)), (''agentId'', JStr (py_agent_id p)),
      (''executionRequestId'', JStr (py_execution_request_id p)), (''decisionId'', JStr (py_decision_id p)),
      (''traceMerkleRoot'', JStr (py_trace_merkle_root p)), (''policyHash'', JStr (py_policy_hash p)),
      (''decision'', JStr (py_decision p)), (''transactionHash'', json_opt (py_transaction_hash p))]"

definition mock_adapter :: "(string \<Rightarrow> string) \<Rightarrow> bool \<Rightarrow> attestation_adapter" where
  "mock_adapter sha fail p =
     Some (if fail then Adapter_failed else Adapter_confirmed (sha256_json sha (attestation_payload_json p)))"

definition update_attestation ::
    "attestation_row \<Rightarrow> (attestation_row \<Rightarrow> attestation_row) \<Rightarrow> attestation_op" where
  "update_attestation row f rows = (Inr (f row), update_where (\<lambda>r. tw_id r = tw_id row) f rows)"

definition attest :: "attestation_adapter \<Rightarrow> int \<Rightarrow> string \<Rightarrow> attestation_payload \<Rightarrow> attestation_op" where
  "attest adapter now nid p rows =
     (let row = \<lparr> tw_id = nid, tw_company_id = py_company_id p, tw_agent_id = py_agent_id p,
                  tw_execution_request_id = py_execution_request_id p, tw_decision_id = py_decision_id p,
                  tw_trace_merkle_root = py_trace_merkle_root p, tw_policy_hash = py_policy_hash p,
                  tw_decision = py_decision p, tw_transaction_hash = py_transaction_hash p,
                  tw_status = AT_PENDING, tw_registry_tx_hash = None, tw_confirmed_at = None \<rparr>;
          created = rows @ [row]
      in case adapter p of
           None \<Rightarrow> (Inl INTERNAL_ERROR, created)
         | Some Adapter_failed \<Rightarrow> update_attestation row (\<lambda>r. r\<lparr>tw_status := AT_FAILED\<rparr>) created
         | Some (Adapter_submitted h) \<Rightarrow>
             update_attestation row (\<lambda>r. r\<lparr>tw_status := AT_SUBMITTED, tw_registry_tx_hash := Some h, tw_confirmed_at := None\<rparr>) created
         | Some (Adapter_confirmed h) \<Rightarrow>
             update_attestation row (\<lambda>r. r\<lparr>tw_status := AT_CONFIRMED, tw_registry_tx_hash := Some h, tw_confirmed_at := Some now\<rparr>) created)"

definition get_attestation :: "string \<Rightarrow> string \<Rightarrow> attestation_row list \<Rightarrow> attestation_row option" where
  "get_attestation company_id i rows = find (\<lambda>r. tw_id r = i \<and> tw_company_id r = company_id) rows"

definition retry_attestation ::
    "attestation_adapter \<Rightarrow> int \<Rightarrow> string \<Rightarrow> string \<Rightarrow> attestation_payload \<Rightarrow> attestation_op" where
  "retry_attestation adapter now company_id i p rows =
     (case get_attestation company_id i rows of
        None \<Rightarrow> (Inl INTERNAL_ERROR, rows)
      | Some row \<Rightarrow>
          if tw_status row = AT_CONFIRMED then (Inr row, rows)
          else
           (case adapter p of
              None \<Rightarrow> (Inl INTERNAL_ERROR, rows)
            | Some Adapter_failed \<Rightarrow> update_attestation row (\<lambda>r. r\<lparr>tw_status := AT_FAILED\<rparr>) rows
            | Some (Adapter_submitted h) \<Rightarrow>
                update_attestation row (\<lambda>r. r\<lparr>tw_status := AT_SUBMITTED, tw_registry_tx_hash := Some h, tw_confirmed_at := Some now\<rparr>) rows
            | Some (Adapter_confirmed h) \<Rightarrow>
                update_attestation row (\<lambda>r. r\<lparr>tw_status := AT_CONFIRMED, tw_registry_tx_hash := Some h, tw_confirmed_at := Some now\<rparr>) rows))"

section \<open>Forensic record\<close>

record forensic_record =
  fo_execution_request :: execution_request_row
  fo_decision :: "decision_row option"
  fo_approval_requests :: "approval_request list"
  fo_execution_results :: "execution_result_row list"
  fo_receipt_verifications :: "verification_row list"
  fo_financial_reservations :: "reservation list"
  fo_attestations :: "attestation_row list"
  fo_audit_timeline :: "audit_event list"
  fo_complete :: bool

definition reconstruct ::
    "string \<Rightarrow> string \<Rightarrow> execution_db \<Rightarrow> approval_db \<Rightarrow> attestation_row list \<Rightarrow> audit_event list \<Rightarrow> forensic_record option" where
  "reconstruct company_id execution_id xdb adb attestations events =
     (case find_request company_id execution_id xdb of
        None \<Rightarrow> None
      | Some q \<Rightarrow>
         (let decision = get_decision company_id (xr_decision_id q) adb;
              results = filter (\<lambda>r. xs_execution_request_id r = execution_id) (xd_results xdb);
              verifications = filter (\<lambda>r. xv_execution_request_id r = execution_id) (xd_verifications xdb);
              holds = filter (\<lambda>r. re_execution_request_id r = Some execution_id \<and> re_company_id r = company_id)
                (lg_reservations (xd_ledger xdb))
          in Some \<lparr> fo_execution_request = q, fo_decision = decision,
               fo_approval_requests = filter (\<lambda>r. aq_decision_id r = xr_decision_id q \<and> aq_company_id r = company_id) (ad_requests adb),
               fo_execution_results = results, fo_receipt_verifications = verifications,
               fo_financial_reservations = holds,
               fo_attestations = filter (\<lambda>r. tw_execution_request_id r = execution_id \<and> tw_company_id r = company_id) attestations,
               fo_audit_timeline = get_entity_timeline company_id ''EXECUTION'' execution_id events,
               fo_complete = (decision \<noteq> None \<and> 0 < length results \<and> 0 < length verifications \<and> 0 < length holds) \<rparr>))"

section \<open>Lemmas\<close>

text \<open>A confirmed attestation is final, and a retry touches no row but its own.\<close>

lemma confirmed_attestation_final:
  assumes "get_attestation c i rows = Some r" and "tw_status r = AT_CONFIRMED"
  shows "retry_attestation adapter now c i p rows = (Inr r, rows)"
  using assms by (simp add: retry_attestation_def)

lemma retry_other_rows:
  assumes "r \<in> set rows" and "tw_id r \<noteq> i"
  shows "r \<in> set (snd (retry_attestation adapter now c i p rows))"
proof (cases "get_attestation c i rows")
  case None
  then show ?thesis using assms by (simp add: retry_attestation_def)
next
  case (Some row)
  then have "tw_id row = i" by (auto simp: get_attestation_def dest: find_SomeD)
  then have "r \<in> set (update_where (\<lambda>x. tw_id x = tw_id row) f rows)" for f
    using assms by (auto simp: set_update_where)
  with Some assms show ?thesis
    by (simp add: retry_attestation_def update_attestation_def split: option.splits adapter_outcome.splits)
qed

text \<open>The forensic record of an execution holds rows of the company and of the execution only.\<close>

lemma reconstruct_scoped:
  assumes "reconstruct c x xdb adb ats evs = Some f"
  shows "xr_company_id (fo_execution_request f) = c" and "xr_id (fo_execution_request f) = x"
    and "\<forall>d. fo_decision f = Some d \<longrightarrow> dr_company_id d = c"
    and "\<forall>r \<in> set (fo_approval_requests f). aq_company_id r = c"
    and "\<forall>r \<in> set (fo_financial_reservations f). re_company_id r = c"
    and "\<forall>r \<in> set (fo_attestations f). tw_company_id r = c"
    and "\<forall>e \<in> set (fo_audit_timeline f). ae_company_id e = c"
  using assms
  by (auto simp: reconstruct_def Let_def find_request_def get_decision_def get_entity_timeline_def of_entity_def
      dest: find_SomeD split: option.splits)

section \<open>A retry that is confirmed before it is\<close>

text \<open>
  A retry the registry only accepted, SUBMITTED, is stored with a confirmation time; and the
  payload of the retry is not compared with the record's.
\<close>

theorem submitted_retry_has_confirmation_time:
  assumes "get_attestation c i rows = Some r" and "tw_status r = AT_FAILED" and "adapter p = Some (Adapter_submitted h)"
    and "py_execution_request_id p \<noteq> tw_execution_request_id r"
  shows "\<exists>r' rows'. retry_attestation adapter now c i p rows = (Inr r', rows') \<and> tw_status r' = AT_SUBMITTED
    \<and> tw_confirmed_at r' = Some now \<and> tw_registry_tx_hash r' = Some h \<and> r' \<in> set rows'"
  using assms by (auto simp: retry_attestation_def update_attestation_def set_update_where get_attestation_def dest: find_SomeD)

end
