(* ===== verification/Gateway.thy ===== *)
theory Gateway
  imports Http_Boundary Intake_Service Final_Revalidation Evidence
begin

text \<open>
  The /v1 product API (Backend/src/api/routes/v1.ts) over the tables of Core. A route is an
  operation on \<open>core_db\<close> that answers a status code and data, or throws; it takes the
  authenticated tenant, the path parameters and the fields of the body, of the types the handler
  casts the body to. Payloads that the handlers parse with a schema are JSON values, and the
  schemas, the execution client and the new identifiers are arguments. The domain events the
  routes emit are log lines, in the theory Domain_Events.
\<close>

section \<open>State and services\<close>

record core_db =
  kd_gate :: gate_db
  kd_intake :: intake_db
  kd_trajectory :: trajectory_db
  kd_audit :: "audit_event list"
  kd_attestations :: "attestation_row list"

record core_services =
  gs_config :: core_config
  gs_runtime :: runtime
  gs_to_iso :: "int \<Rightarrow> string"
  gs_parser :: contract_parser
  gs_parse_analysis :: "json \<Rightarrow> transaction_analysis option"
  gs_parse_simulation :: "json \<Rightarrow> simulation_result option"
  gs_get_result :: "string \<Rightarrow> error_code + execution_result"
  gs_verify :: "string \<Rightarrow> error_code + receipt_verification"

type_synonym 'a handler = "(core_db, thrown, 'a) op"
type_synonym 'a route = "(nat \<times> 'a) handler"

definition then_op :: "('s, 'e, 'a) op \<Rightarrow> ('a \<Rightarrow> ('s, 'e, 'b) op) \<Rightarrow> ('s, 'e, 'b) op" where
  "then_op m k s = (case m s of (Inl e, s') \<Rightarrow> (Inl e, s') | (Inr a, s') \<Rightarrow> k a s')"

definition return_op :: "'a \<Rightarrow> ('s, 'e, 'a) op" where
  "return_op a s = (Inr a, s)"

definition answer :: "nat \<Rightarrow> 'a \<Rightarrow> 'a route" where
  "answer n a = return_op (n, a)"

text \<open>A service call: it works on its tables, and its error is a \<open>CoreError\<close>.\<close>

definition run_on ::
    "(core_db \<Rightarrow> 's) \<Rightarrow> ('s \<Rightarrow> core_db \<Rightarrow> core_db) \<Rightarrow> ('s, error_code, 'a) op \<Rightarrow> 'a handler" where
  "run_on get put m db = (case m (get db) of (r, s) \<Rightarrow> (map_sum Thrown_core id r, put s db))"

definition on_gate :: "(gate_db, error_code, 'a) op \<Rightarrow> 'a handler" where
  "on_gate = run_on kd_gate (\<lambda>s db. db\<lparr>kd_gate := s\<rparr>)"

definition on_authority :: "'a authority_op \<Rightarrow> 'a handler" where
  "on_authority = run_on (\<lambda>db. gd_authority (kd_gate db)) (\<lambda>s db. db\<lparr>kd_gate := (kd_gate db)\<lparr>gd_authority := s\<rparr>\<rparr>)"

definition on_policies :: "'a policy_op \<Rightarrow> 'a handler" where
  "on_policies = run_on (\<lambda>db. gd_policies (kd_gate db)) (\<lambda>s db. db\<lparr>kd_gate := (kd_gate db)\<lparr>gd_policies := s\<rparr>\<rparr>)"

definition on_approvals :: "'a approval_op \<Rightarrow> 'a handler" where
  "on_approvals = run_on (\<lambda>db. gd_approvals (kd_gate db)) (\<lambda>s db. db\<lparr>kd_gate := (kd_gate db)\<lparr>gd_approvals := s\<rparr>\<rparr>)"

definition on_execution :: "'a execution_op \<Rightarrow> 'a handler" where
  "on_execution = run_on (\<lambda>db. gd_execution (kd_gate db)) (\<lambda>s db. db\<lparr>kd_gate := (kd_gate db)\<lparr>gd_execution := s\<rparr>\<rparr>)"

definition on_intake :: "'a intake_op \<Rightarrow> 'a handler" where
  "on_intake = run_on kd_intake (\<lambda>s db. db\<lparr>kd_intake := s\<rparr>)"

definition reading :: "(core_db \<Rightarrow> error_code + 'a) \<Rightarrow> 'a handler" where
  "reading f db = (map_sum Thrown_core id (f db), db)"

text \<open>A schema's \<open>parse\<close>: its exception is not a \<open>CoreError\<close>.\<close>

definition parsed :: "'a option \<Rightarrow> 'a handler" where
  "parsed v db = (from_option Thrown_other v, db)"

definition with_role :: "auth_context \<Rightarrow> string list \<Rightarrow> 'a handler \<Rightarrow> 'a handler" where
  "with_role a roles m = then_op (reading (\<lambda>_. require_role a roles)) (\<lambda>_. m)"

text \<open>The pre-handler of the scope: no route runs without a tenant.\<close>

definition handle :: "core_services \<Rightarrow> headers \<Rightarrow> (auth_context \<Rightarrow> 'a handler) \<Rightarrow> 'a handler" where
  "handle S h route = then_op (reading (\<lambda>_. authenticate (gs_config S) h)) route"

definition OPERATORS :: "string list" where
  "OPERATORS = [''ADMIN'', ''AUTHORIZED_OPERATOR'', ''SERVICE'']"

definition ACTIVATORS :: "string list" where
  "ACTIVATORS = [''ADMIN'', ''AUTHORIZED_OPERATOR'']"

definition EXECUTORS :: "string list" where
  "EXECUTORS = [''ADMIN'', ''SERVICE'', ''EXECUTOR'']"

abbreviation authority_of :: "core_db \<Rightarrow> authority_db" where
  "authority_of db \<equiv> gd_authority (kd_gate db)"

abbreviation policies_of :: "core_db \<Rightarrow> policy_db" where
  "policies_of db \<equiv> gd_policies (kd_gate db)"

abbreviation approvals_of :: "core_db \<Rightarrow> approval_db" where
  "approvals_of db \<equiv> gd_approvals (kd_gate db)"

abbreviation execution_of :: "core_db \<Rightarrow> execution_db" where
  "execution_of db \<equiv> gd_execution (kd_gate db)"

text \<open>A page of the tenant's rows, newest first, and the number of all of them.\<close>

definition page_of :: "('r \<Rightarrow> string) \<Rightarrow> string \<Rightarrow> pagination \<Rightarrow> 'r list \<Rightarrow> 'r list \<times> page_meta" where
  "page_of owner company_id p rows =
     (let mine = filter (\<lambda>r. owner r = company_id) rows
      in (page_rows p (rev mine), page_meta_of p (int (length mine))))"

section \<open>Agents\<close>

definition list_agents_route :: "auth_context \<Rightarrow> pagination \<Rightarrow> (agent list \<times> page_meta) route" where
  "list_agents_route a p =
     then_op (reading (\<lambda>db. Inr (list_agents (at_company_id a) (authority_of db)))) (\<lambda>rows.
       answer 200 (page_rows p rows, page_meta_of p (int (length rows))))"

definition get_agent_route :: "auth_context \<Rightarrow> string \<Rightarrow> agent route" where
  "get_agent_route a i =
     then_op (reading (\<lambda>db. require_agent (at_company_id a) i (authority_of db))) (answer 200)"

definition agent_status_route :: "auth_context \<Rightarrow> string \<Rightarrow> (string \<times> agent_status \<times> execution_mode) route" where
  "agent_status_route a i =
     then_op (reading (\<lambda>db. require_agent (at_company_id a) i (authority_of db))) (\<lambda>g.
       answer 200 (ag_id g, ag_status g, ag_execution_mode g))"

definition create_agent_route ::
    "string \<Rightarrow> auth_context \<Rightarrow> string option \<Rightarrow> string option \<Rightarrow> execution_mode option \<Rightarrow> agent route" where
  "create_agent_route nid a name purpose mode =
     with_role a OPERATORS
      (then_op (on_authority (create_agent nid
          \<lparr> ci_company_id = at_company_id a, ci_name = name, ci_purpose = purpose, ci_execution_mode = mode \<rparr>))
        (answer 201))"

definition agent_transition :: "string \<Rightarrow> (string \<Rightarrow> string \<Rightarrow> agent authority_op) option" where
  "agent_transition st = map_of
     [(''ACTIVE'', activate_agent), (''PAUSED'', pause_agent), (''SUSPENDED'', suspend_agent), (''DISABLED'', disable_agent)] st"

text \<open>
  The handler looks the status up in an object literal, so the names that the literal inherits are
  found too. Called without a receiver, three of the inherited functions return and the other
  names throw a \<open>TypeError\<close>.
\<close>

definition INHERITED_RETURNING :: "string list" where
  "INHERITED_RETURNING = [''constructor'', ''isPrototypeOf'', ''toString'']"

definition INHERITED_THROWING :: "string list" where
  "INHERITED_THROWING = [''hasOwnProperty'', ''propertyIsEnumerable'', ''toLocaleString'', ''valueOf'',
     ''__defineGetter__'', ''__defineSetter__'', ''__lookupGetter__'', ''__lookupSetter__'', ''__proto__'']"

definition call_transition :: "string \<Rightarrow> string \<Rightarrow> string \<Rightarrow> unit handler" where
  "call_transition st company_id i =
     (case agent_transition st of
        Some fn \<Rightarrow> then_op (on_authority (fn company_id i)) (\<lambda>_. return_op ())
      | None \<Rightarrow>
         if st \<in> set INHERITED_RETURNING then return_op ()
         else if st \<in> set INHERITED_THROWING then parsed None
         else reading (\<lambda>_. Inl INVALID_INPUT))"

definition patch_agent_route :: "auth_context \<Rightarrow> string \<Rightarrow> string option \<Rightarrow> agent route" where
  "patch_agent_route a i st =
     with_role a OPERATORS
      (then_op (reading (\<lambda>db. require_agent (at_company_id a) i (authority_of db))) (\<lambda>_.
       then_op (if truthy st then call_transition (the st) (at_company_id a) i else return_op ()) (\<lambda>_.
       then_op (reading (\<lambda>db. require_agent (at_company_id a) i (authority_of db))) (answer 200))))"

section \<open>Intents, proposals, assessments\<close>

definition list_intents_route :: "auth_context \<Rightarrow> pagination \<Rightarrow> (intent_row list \<times> page_meta) route" where
  "list_intents_route a p =
     then_op (reading (\<lambda>db. Inr (list_intents (at_company_id a) (pg_skip p) (pg_take p) (kd_intake db)))) (\<lambda>(rows, count).
       answer 200 (rows, page_meta_of p count))"

definition get_intent_route :: "auth_context \<Rightarrow> string \<Rightarrow> intent_row route" where
  "get_intent_route a i =
     then_op (reading (\<lambda>db. from_option NOT_FOUND (get_intent (at_company_id a) i (kd_intake db)))) (answer 200)"

definition create_intent_route :: "core_services \<Rightarrow> int \<Rightarrow> string \<Rightarrow> auth_context \<Rightarrow> json \<Rightarrow> intent_row route" where
  "create_intent_route S now nid a payload db =
     then_op (on_intake (create_intent (gs_parser S) (gs_runtime S) (authority_of db) now nid (at_company_id a) payload))
       (answer 201) db"

definition list_proposals_route :: "auth_context \<Rightarrow> pagination \<Rightarrow> (proposal_row list \<times> page_meta) route" where
  "list_proposals_route a p =
     then_op (reading (\<lambda>db. Inr (list_proposals (at_company_id a) (pg_skip p) (pg_take p) (kd_intake db)))) (\<lambda>(rows, count).
       answer 200 (rows, page_meta_of p count))"

definition get_proposal_route :: "auth_context \<Rightarrow> string \<Rightarrow> proposal_row route" where
  "get_proposal_route a i =
     then_op (reading (\<lambda>db. from_option NOT_FOUND (get_proposal (at_company_id a) i (kd_intake db)))) (answer 200)"

definition create_proposal_route :: "core_services \<Rightarrow> int \<Rightarrow> string \<Rightarrow> auth_context \<Rightarrow> json \<Rightarrow> proposal_row route" where
  "create_proposal_route S now nid a payload =
     then_op (on_intake (create_proposal (gs_parser S) now nid (at_company_id a) payload)) (answer 201)"

definition ingest_assessment_route ::
    "core_services \<Rightarrow> int \<Rightarrow> string \<Rightarrow> auth_context \<Rightarrow> string \<Rightarrow> json \<Rightarrow> assessment_row route" where
  "ingest_assessment_route S now nid a proposal_id payload =
     then_op (on_intake (ingest_assessment (gs_parser S) (gs_runtime S) now nid (at_company_id a) proposal_id payload)) (answer 201)"

definition latest_assessment_route :: "auth_context \<Rightarrow> string \<Rightarrow> assessment_row route" where
  "latest_assessment_route a proposal_id =
     then_op (reading (\<lambda>db. from_option NOT_FOUND (get_latest_assessment (at_company_id a) proposal_id (kd_intake db)))) (answer 200)"

section \<open>Policies\<close>

definition list_policies_route :: "auth_context \<Rightarrow> pagination \<Rightarrow> (policy list \<times> page_meta) route" where
  "list_policies_route a p =
     then_op (reading (\<lambda>db. Inr (page_of pc_company_id (at_company_id a) p (pl_policies (policies_of db))))) (answer 200)"

definition get_policy_route :: "auth_context \<Rightarrow> string \<Rightarrow> policy route" where
  "get_policy_route a i =
     then_op (reading (\<lambda>db. from_option NOT_FOUND (get_policy (at_company_id a) i (policies_of db)))) (answer 200)"

definition policy_versions_route :: "auth_context \<Rightarrow> string \<Rightarrow> policy_version list route" where
  "policy_versions_route a i =
     then_op (reading (\<lambda>db. and_then (from_option NOT_FOUND (get_policy (at_company_id a) i (policies_of db))) (\<lambda>p.
       Inr (sort_key vn_version (filter (\<lambda>v. vn_policy_id v = pc_id p) (pl_versions (policies_of db))))))) (answer 200)"

definition draft_route ::
    "core_services \<Rightarrow> string \<Rightarrow> string \<Rightarrow> auth_context \<Rightarrow> string option \<Rightarrow> string option \<Rightarrow> string option \<Rightarrow>
     compiled_rule list \<Rightarrow> string option \<Rightarrow> (policy \<times> policy_version) route" where
  "draft_route S np nv a name agent_id description rules source db =
     with_role a OPERATORS
      (then_op (on_policies (create_draft (rt_sha (gs_runtime S)) (authority_of db) np nv
          \<lparr> cd_company_id = at_company_id a, cd_agent_id = agent_id, cd_name = name, cd_description = description,
            cd_rules = rules, cd_source_type = source, cd_source_reference = None, cd_created_by = None \<rparr>))
        (answer 201)) db"

definition create_policy_route where
  "create_policy_route S np nv a name agent_id description rules =
     draft_route S np nv a name agent_id description (nullish rules []) None"

text \<open>A compiled candidate is a draft like any other.\<close>

definition compile_policy_route where
  "compile_policy_route S np nv a name agent_id rules =
     draft_route S np nv a name agent_id (Some ''compiled candidate (DRAFT)'') (nullish rules []) (Some ''AI_COMPILED'')"

definition validate_policy_route ::
    "auth_context \<Rightarrow> string \<Rightarrow> (policy_version \<times> policy_version \<times> policy_version) route" where
  "validate_policy_route a version_id =
     with_role a OPERATORS
      (then_op (on_policies (validate_version (at_company_id a) version_id)) (\<lambda>validating.
       then_op (on_policies (simulate_version (at_company_id a) version_id)) (\<lambda>simulated.
       then_op (on_policies (approve_version (Some (at_actor_id a)) (at_company_id a) version_id)) (\<lambda>approved.
         answer 200 (validating, simulated, approved)))))"

text \<open>
  The agent that an agent-scoped policy names is updated by its id alone; an id that is none
  makes the update throw.
\<close>

definition point_agent :: "policy option \<Rightarrow> unit authority_op" where
  "point_agent p A =
     (if p \<noteq> None \<and> truthy (pc_agent_id (the p)) then
        (if \<exists>g \<in> set (ah_agents A). Some (ag_id g) = pc_agent_id (the p) then
          (Inr (), A\<lparr>ah_agents := update_where (\<lambda>g. Some (ag_id g) = pc_agent_id (the p))
             (\<lambda>g. g\<lparr>ag_active_policy_id := Some (pc_id (the p))\<rparr>) (ah_agents A)\<rparr>)
         else (Inl INTERNAL_ERROR, A))
      else (Inr (), A))"

definition activate_policy_route :: "int \<Rightarrow> auth_context \<Rightarrow> string \<Rightarrow> string \<Rightarrow> policy_version route" where
  "activate_policy_route now a policy_id version_id =
     with_role a ACTIVATORS
      (then_op (on_policies (activate_version now (at_company_id a) version_id)) (\<lambda>activated.
       then_op (reading (\<lambda>db. Inr (get_policy (at_company_id a) policy_id (policies_of db)))) (\<lambda>policy.
       then_op (on_authority (point_agent policy)) (\<lambda>_.
         answer 200 activated))))"

section \<open>Constitutions\<close>

definition create_constitution_route ::
    "core_services \<Rightarrow> string \<Rightarrow> auth_context \<Rightarrow> string \<Rightarrow> constitution_config \<Rightarrow> constitution route" where
  "create_constitution_route S nid a agent_id config =
     with_role a OPERATORS
      (then_op (on_authority (create_constitution (rt_sha (gs_runtime S)) nid (at_company_id a) agent_id config
          (Some (at_actor_id a)))) (answer 201))"

definition activate_constitution_route :: "int \<Rightarrow> auth_context \<Rightarrow> string \<Rightarrow> constitution route" where
  "activate_constitution_route now a i =
     with_role a ACTIVATORS (then_op (on_authority (activate_constitution now (at_company_id a) i)) (answer 200))"

section \<open>Decisions\<close>

definition list_decisions_route :: "auth_context \<Rightarrow> pagination \<Rightarrow> (decision_row list \<times> page_meta) route" where
  "list_decisions_route a p =
     then_op (reading (\<lambda>db. Inr (page_of dr_company_id (at_company_id a) p (ad_decisions (approvals_of db))))) (answer 200)"

definition get_decision_route :: "auth_context \<Rightarrow> string \<Rightarrow> decision_row route" where
  "get_decision_route a i =
     then_op (reading (\<lambda>db. from_option NOT_FOUND (get_decision (at_company_id a) i (approvals_of db)))) (answer 200)"

definition decision_timeline_route :: "auth_context \<Rightarrow> string \<Rightarrow> (decision_row \<times> audit_event list) route" where
  "decision_timeline_route a i =
     then_op (reading (\<lambda>db. from_option NOT_FOUND (get_decision (at_company_id a) i (approvals_of db)))) (\<lambda>d.
     then_op (reading (\<lambda>db. Inr (get_entity_timeline (at_company_id a) ''DECISION'' (dr_id d) (kd_audit db)))) (\<lambda>timeline.
       answer 200 (d, timeline)))"

record decision_body =
  bd_agent_id :: string
  bd_intent :: json
  bd_proposal :: json
  bd_security_assessment :: json
  bd_trace_id :: "string option"
  bd_assessment_max_age_ms :: "int option"
  bd_require_simulation :: "bool option"

record decision_answer =
  da_decision :: decision_row
  da_result :: decision_result
  da_context_hash :: string
  da_approval_id :: "string option"

definition core_view_of :: "core_db \<Rightarrow> core_view" where
  "core_view_of db = \<lparr> cv_authority = authority_of db, cv_policies = policies_of db, cv_trajectory = kd_trajectory db \<rparr>"

text \<open>Step 2: what the route tells the engine; step 3: what it hashes.\<close>

definition route_decision_input :: "decision_context \<Rightarrow> decision_input" where
  "route_decision_input c =
     (let e = dc_policy_evaluation c in
      \<lparr> di_platform_invariant_violated = False, di_agent_active = True, di_intent_valid = True,
        di_capability_valid = True, di_constitution_compatible = True,
        di_policy_evaluation = \<lparr> pe_status = po_status e, pe_policy_id = po_policy_id e,
          pe_policy_version = po_policy_version e, pe_evaluation_hash = po_evaluation_hash e \<rparr>,
        di_transaction_gate = None, di_simulation_required = False, di_simulation_outcome = None,
        di_simulation_binding = None, di_context_stale = False, di_approval = Approval_not_required,
        di_ai_recommended_handling = Some (dc_recommended_handling c) \<rparr>)"

definition route_hash_context :: "decision_context \<Rightarrow> decision_hash_context" where
  "route_hash_context c =
     (let e = dc_policy_evaluation c in
      \<lparr> hc_intent_id = nt_intent_id (dc_intent c), hc_proposal_id = ap_proposal_id (dc_proposal c),
        hc_policy_id = po_policy_id e, hc_policy_version = po_policy_version e,
        hc_policy_evaluation_hash = po_evaluation_hash e,
        hc_security_assessment_id = sa_assessment_id (dc_security_assessment c),
        hc_transaction_id = None, hc_transaction_payload_hash = None, hc_simulation_id = None,
        hc_approval_context_hash = None \<rparr>)"

definition route_persist_input :: "core_services \<Rightarrow> auth_context \<Rightarrow> decision_context \<Rightarrow> persist_decision_input" where
  "route_persist_input S a c =
     \<lparr> pd_company_id = at_company_id a, pd_agent_id = dc_agent_id c, pd_intent_id = nt_intent_id (dc_intent c),
       pd_proposal_id = ap_proposal_id (dc_proposal c), pd_policy_id = Some (po_policy_id (dc_policy_evaluation c)),
       pd_policy_version_id = Some (dc_policy_version_id c),
       pd_security_assessment_id = Some (sa_assessment_id (dc_security_assessment c)), pd_transaction_id = None,
       pd_simulation_result_id = None, pd_approval_request_id = None,
       pd_output = decide (route_decision_input c),
       pd_decision_context_hash = context_hash (rt_sha (gs_runtime S)) (route_hash_context c) \<rparr>"

definition route_approval_input :: "int \<Rightarrow> auth_context \<Rightarrow> decision_row \<Rightarrow> create_approval_input" where
  "route_approval_input now a d =
     \<lparr> ca_company_id = at_company_id a, ca_agent_id = dr_agent_id d, ca_decision_id = dr_id d,
       ca_transaction_id = None, ca_policy_version_id = None, ca_required_role = ''AUTHORIZED_OPERATOR'',
       ca_summary = [], ca_context_hash = dr_decision_context_hash d, ca_expires_at = now + 15 * 60000 \<rparr>"

definition create_decision_route ::
    "core_services \<Rightarrow> int \<Rightarrow> string \<Rightarrow> string \<Rightarrow> auth_context \<Rightarrow> decision_body \<Rightarrow> decision_answer route" where
  "create_decision_route S now nid_decision nid_approval a b =
     then_op (parsed (cp_intent (gs_parser S) (bd_intent b))) (\<lambda>(_, intent).
     then_op (parsed (cp_proposal (gs_parser S) (bd_proposal b))) (\<lambda>(_, proposal).
     then_op (parsed (cp_assessment (gs_parser S) (bd_security_assessment b))) (\<lambda>(_, assessment).
     then_op (reading (\<lambda>db. orchestrate (gs_runtime S) (gs_to_iso S) no_providers (core_view_of db)
       \<lparr> oi_company_id = at_company_id a, oi_agent_id = bd_agent_id b, oi_intent = intent, oi_proposal = proposal,
         oi_security_assessment = assessment, oi_trace_id = bd_trace_id b,
         oi_assessment_max_age_ms = bd_assessment_max_age_ms b, oi_require_simulation = bd_require_simulation b \<rparr> now)) (\<lambda>c.
     then_op (on_approvals (record_decision nid_decision (route_persist_input S a c))) (\<lambda>d.
     then_op (if dr_result d = REVIEW
              then then_op (on_approvals (create_request nid_approval (route_approval_input now a d))) (\<lambda>q. return_op (Some (aq_id q)))
              else return_op None) (\<lambda>approval_id.
       answer 201 \<lparr> da_decision = d, da_result = dr_result d, da_context_hash = dr_decision_context_hash d,
         da_approval_id = approval_id \<rparr>))))))"

section \<open>Approvals\<close>

definition list_approvals_route :: "auth_context \<Rightarrow> pagination \<Rightarrow> (approval_request list \<times> page_meta) route" where
  "list_approvals_route a p =
     then_op (reading (\<lambda>db. Inr (page_of aq_company_id (at_company_id a) p (ad_requests (approvals_of db))))) (answer 200)"

definition get_approval_route :: "auth_context \<Rightarrow> string \<Rightarrow> approval_request route" where
  "get_approval_route a i =
     then_op (reading (\<lambda>db. from_option APPROVAL_NOT_FOUND (get_request (at_company_id a) i (approvals_of db)))) (answer 200)"

definition approver_of :: "auth_context \<Rightarrow> approver" where
  "approver_of a = \<lparr> av_approver_id = at_actor_id a, av_company_id = at_company_id a, av_role = at_actor_role a \<rparr>"

definition approve_route :: "int \<Rightarrow> string \<Rightarrow> auth_context \<Rightarrow> string \<Rightarrow> string \<Rightarrow> (approval_request \<times> approval_result) route" where
  "approve_route now nid a i h =
     then_op (on_approvals (approve nid (at_company_id a) i (approver_of a) h now)) (answer 200)"

definition deny_route :: "int \<Rightarrow> string \<Rightarrow> auth_context \<Rightarrow> string \<Rightarrow> (approval_request \<times> approval_result) route" where
  "deny_route now nid a i =
     then_op (on_approvals (deny_request nid (at_company_id a) i (approver_of a) now)) (answer 200)"

section \<open>Executions\<close>

record prepare_body =
  bp_agent_id :: string
  bp_decision_id :: string
  bp_intent :: json
  bp_proposal :: json
  bp_security_assessment :: json
  bp_transaction_id :: string
  bp_analysis :: json
  bp_expected_network :: string
  bp_actual_network :: string
  bp_simulation :: json
  bp_simulated_payload_hash :: string
  bp_approval_id :: "string option"
  bp_decision_context_hash :: string
  bp_financial_scope_key :: string
  bp_asset :: string
  bp_amount :: string
  bp_assessment_max_age_ms :: "int option"
  bp_require_simulation :: "bool option"

definition prepare_route ::
    "core_services \<Rightarrow> int \<Rightarrow> fresh_ids \<Rightarrow> auth_context \<Rightarrow> prepare_body \<Rightarrow> (execution_request_row option \<times> string option) route" where
  "prepare_route S now n a b =
     with_role a OPERATORS
     (then_op (parsed (cp_intent (gs_parser S) (bp_intent b))) (\<lambda>(_, intent).
      then_op (parsed (cp_proposal (gs_parser S) (bp_proposal b))) (\<lambda>(_, proposal).
      then_op (parsed (cp_assessment (gs_parser S) (bp_security_assessment b))) (\<lambda>(_, assessment).
      then_op (parsed (gs_parse_analysis S (bp_analysis b))) (\<lambda>analysis.
      then_op (parsed (gs_parse_simulation S (bp_simulation b))) (\<lambda>simulation.
      then_op (on_gate (revalidate (gs_runtime S) (gs_to_iso S) n
        \<lparr> vi_company_id = at_company_id a, vi_agent_id = bp_agent_id b, vi_decision_id = bp_decision_id b,
          vi_intent = intent, vi_proposal = proposal, vi_security_assessment = assessment,
          vi_transaction_id = bp_transaction_id b, vi_analysis = analysis,
          vi_expected_network = bp_expected_network b, vi_actual_network = bp_actual_network b,
          vi_simulation = simulation, vi_simulated_payload_hash = bp_simulated_payload_hash b,
          vi_approval_id = bp_approval_id b, vi_decision_context_hash = bp_decision_context_hash b,
          vi_financial_scope_key = bp_financial_scope_key b, vi_asset = bp_asset b, vi_amount = bp_amount b,
          vi_budget_limit = None, vi_assessment_max_age_ms = bp_assessment_max_age_ms b,
          vi_simulation_required = nullish (bp_require_simulation b) False \<rparr> now)) (\<lambda>out.
        if vo_result out \<noteq> ALLOW then reading (\<lambda>_. Inl EXECUTION_BLOCKED)
        else answer 201 (vo_execution_request out, vo_reservation_id out))))))))"

definition list_executions_route :: "auth_context \<Rightarrow> pagination \<Rightarrow> (execution_request_row list \<times> page_meta) route" where
  "list_executions_route a p =
     then_op (reading (\<lambda>db. Inr (page_of xr_company_id (at_company_id a) p (xd_requests (execution_of db))))) (answer 200)"

definition get_execution_route :: "auth_context \<Rightarrow> string \<Rightarrow> execution_request_row route" where
  "get_execution_route a i =
     then_op (reading (\<lambda>db. from_option NOT_FOUND (find_request (at_company_id a) i (execution_of db)))) (answer 200)"

definition verifications_route :: "auth_context \<Rightarrow> string \<Rightarrow> verification_row list route" where
  "verifications_route a i =
     then_op (reading (\<lambda>db. and_then (from_option NOT_FOUND (find_request (at_company_id a) i (execution_of db))) (\<lambda>q.
       Inr (filter (\<lambda>v. xv_execution_request_id v = xr_id q) (xd_verifications (execution_of db)))))) (answer 200)"

definition reconcile_route :: "core_services \<Rightarrow> int \<Rightarrow> auth_context \<Rightarrow> string \<Rightarrow> reconcile_outcome route" where
  "reconcile_route S now a i = then_op (on_execution (reconcile (gs_get_result S) now (at_company_id a) i)) (answer 200)"

definition result_route ::
    "core_services \<Rightarrow> int \<Rightarrow> string \<Rightarrow> auth_context \<Rightarrow> string \<Rightarrow> execution_result_status \<Rightarrow> string \<Rightarrow> string option \<Rightarrow>
     execution_result_row route" where
  "result_route S now nid a i st chain tx_hash =
     with_role a EXECUTORS
      (then_op (on_execution (ingest_result (rt_date_ms (gs_runtime S)) now nid (at_company_id a)
          \<lparr> xi_execution_id = i, xi_status = st, xi_chain = chain, xi_transaction_hash = tx_hash,
            xi_submitted_at = None, xi_confirmed_at = None, xi_authenticated = True \<rparr>)) (answer 200))"

definition verify_route ::
    "core_services \<Rightarrow> int \<Rightarrow> string \<Rightarrow> auth_context \<Rightarrow> string \<Rightarrow> receipt_snapshot \<Rightarrow> (verification_row \<times> bool) route" where
  "verify_route S now nid a i authorized =
     with_role a EXECUTORS
      (then_op (on_execution (verify_and_finalize (rt_decimal (gs_runtime S)) (gs_verify S) now nid (at_company_id a) i authorized))
        (answer 200))"

section \<open>Audit, forensics, attestations\<close>

definition audit_route :: "auth_context \<Rightarrow> string \<Rightarrow> audit_event list route" where
  "audit_route a i =
     then_op (reading (\<lambda>db. Inr (get_entity_timeline (at_company_id a) ''EXECUTION'' i (kd_audit db)))) (answer 200)"

definition audit_timeline_route :: "core_services \<Rightarrow> auth_context \<Rightarrow> string \<Rightarrow> (audit_event list \<times> bool) route" where
  "audit_timeline_route S a i =
     then_op (reading (\<lambda>db. Inr (get_entity_timeline (at_company_id a) ''EXECUTION'' i (kd_audit db),
        verify_entity_chain (rt_sha (gs_runtime S)) (at_company_id a) ''EXECUTION'' i (kd_audit db)))) (answer 200)"

definition forensics_route :: "auth_context \<Rightarrow> string \<Rightarrow> forensic_record route" where
  "forensics_route a i =
     then_op (reading (\<lambda>db. from_option NOT_FOUND (reconstruct (at_company_id a) i (execution_of db) (approvals_of db)
        (kd_attestations db) (kd_audit db)))) (answer 200)"

definition attestations_route :: "auth_context \<Rightarrow> string \<Rightarrow> attestation_row list route" where
  "attestations_route a i =
     then_op (reading (\<lambda>db. Inr (filter (\<lambda>r. tw_company_id r = at_company_id a \<and> tw_execution_request_id r = i)
        (kd_attestations db)))) (answer 200)"

end
