(* ===== verification/Tenant_Tables.thy ===== *)
theory Tenant_Tables
  imports Gateway
begin

text \<open>
  What a tenant sees of Core's tables, and that no service operation changes what another tenant
  sees. The services find a row by its id and its company but update it by its id alone, so the
  argument rests on the ids being unique and on the references staying inside one company; both
  are kept by every operation, which the lemmas show beside the isolation itself.
\<close>

section \<open>Rows of another tenant\<close>

lemma filter_update_other:
  "(\<And>r. r \<in> set rows \<Longrightarrow> P r \<Longrightarrow> \<not> Q r \<and> \<not> Q (f r)) \<Longrightarrow> filter Q (update_where P f rows) = filter Q rows"
  by (induction rows) auto

lemma filter_same_test: "(\<And>r. r \<in> set rows \<Longrightarrow> Q r = Q' r) \<Longrightarrow> filter Q rows = filter Q' rows"
  by (rule filter_cong) auto

lemma ex_update_where:
  "(\<And>r. Q (f r) = Q r) \<Longrightarrow> (\<exists>r \<in> set (update_where P f rows). Q r) = (\<exists>r \<in> set rows. Q r)"
  by (induction rows) auto

lemma updated_from:
  "r \<in> set (update_where P f rows) \<Longrightarrow> (\<And>x. h (f x) = h x) \<Longrightarrow> \<exists>x \<in> set rows. h r = h x"
  by (auto simp: in_update_where)

lemma key_owner:
  "distinct (map key rows) \<Longrightarrow> x \<in> set rows \<Longrightarrow> r \<in> set rows \<Longrightarrow> key r = key x \<Longrightarrow> owner r = owner x"
  by (auto dest: key_unique)

lemma find_known: "find P rows \<noteq> None \<longleftrightarrow> (\<exists>r \<in> set rows. P r)"
  by (auto simp: find_None_iff)

section \<open>Agents and constitutions\<close>

definition authority_view where
  "authority_view t A =
     (ah_companies A, filter (\<lambda>a. ag_company_id a = t) (ah_agents A),
      filter (\<lambda>k. cn_company_id k = t) (ah_constitutions A), filter (\<lambda>k. cap_company_id k = t) (ah_capabilities A))"

definition authority_keys :: "authority_db \<Rightarrow> bool" where
  "authority_keys A \<longleftrightarrow> distinct (map ag_id (ah_agents A)) \<and> distinct (map cn_id (ah_constitutions A))
     \<and> (\<forall>k \<in> set (ah_constitutions A). \<exists>a \<in> set (ah_agents A).
          ag_id a = cn_agent_id k \<and> ag_company_id a = cn_company_id k)"

lemma get_constitution_D:
  "get_constitution c i A = Some k \<Longrightarrow> k \<in> set (ah_constitutions A) \<and> cn_id k = i \<and> cn_company_id k = c"
  by (auto simp: get_constitution_def dest: find_SomeD)

lemma create_agent_isolated:
  assumes "authority_keys A" and "nid \<notin> ag_id ` set (ah_agents A)" and "t \<noteq> ci_company_id i"
  shows "authority_view t (snd (create_agent nid i A)) = authority_view t A \<and> authority_keys (snd (create_agent nid i A))"
  using assms by (auto simp: create_agent_def authority_view_def authority_keys_def Let_def split: option.splits)

lemma transition_agent_isolated:
  assumes "authority_keys A" and "t \<noteq> c"
  shows "authority_view t (snd (transition_agent c i st A)) = authority_view t A \<and> authority_keys (snd (transition_agent c i st A))"
proof (cases "get_agent c i A")
  case (Some a)
  then have a: "a \<in> set (ah_agents A)" "ag_id a = i" "ag_company_id a = c" by (auto dest: get_agent_D)
  have "ag_company_id r = c" if "r \<in> set (ah_agents A)" "ag_id r = i" for r
    using key_owner [of ag_id "ah_agents A" a r ag_company_id] assms(1) a that by (simp add: authority_keys_def)
  then show ?thesis
    using Some assms
    by (auto simp: transition_agent_def require_agent_def from_option_def authority_view_def authority_keys_def ex_update_where
        map_update_where_same intro!: filter_update_other)
qed (simp add: transition_agent_def require_agent_def from_option_def assms)

lemma create_constitution_isolated:
  assumes "authority_keys A" and "nid \<notin> cn_id ` set (ah_constitutions A)" and "t \<noteq> c"
  shows "authority_view t (snd (create_constitution sha nid c i g cb A)) = authority_view t A
    \<and> authority_keys (snd (create_constitution sha nid c i g cb A))"
  using assms
  by (auto simp: create_constitution_def authority_view_def authority_keys_def Let_def dest: get_agent_D
      split: sum.splits option.splits)

lemma activate_constitution_isolated:
  assumes "authority_keys A" and "t \<noteq> c"
  shows "authority_view t (snd (activate_constitution now c i A)) = authority_view t A
    \<and> authority_keys (snd (activate_constitution now c i A))"
proof (cases "get_constitution c i A")
  case (Some k)
  then have k: "k \<in> set (ah_constitutions A)" "cn_company_id k = c" by (auto dest: get_constitution_D)
  obtain a where a: "a \<in> set (ah_agents A)" "ag_id a = cn_agent_id k" "ag_company_id a = c"
    using assms(1) k by (auto simp: authority_keys_def)
  have agents: "ag_company_id r = c" if "r \<in> set (ah_agents A)" "ag_id r = cn_agent_id k" for r
    using key_owner [of ag_id "ah_agents A" a r ag_company_id] assms(1) a that by (simp add: authority_keys_def)
  have same_id: "cn_company_id r = c" if "r \<in> set (ah_constitutions A)" "cn_id r = cn_id k" for r
    using key_owner [of cn_id "ah_constitutions A" k r cn_company_id] assms(1) k that by (simp add: authority_keys_def)
  let ?sup = "update_where (\<lambda>r. cn_company_id r = c \<and> cn_agent_id r = cn_agent_id k \<and> cn_status r = CN_ACTIVE)
      (\<lambda>r. r\<lparr>cn_status := CN_SUPERSEDED, cn_deactivated_at := Some now\<rparr>) (ah_constitutions A)"
  let ?act = "update_where (\<lambda>r. cn_id r = cn_id k) (\<lambda>r. r\<lparr>cn_status := CN_ACTIVE, cn_activated_at := Some now\<rparr>) ?sup"
  let ?ag = "update_where (\<lambda>a. ag_id a = cn_agent_id k) (\<lambda>a. a\<lparr>ag_active_constitution_id := Some (cn_id k)\<rparr>) (ah_agents A)"
  have "filter (\<lambda>r. cn_company_id r = t) ?act = filter (\<lambda>r. cn_company_id r = t) ?sup"
  proof (rule filter_update_other)
    fix r assume r: "r \<in> set ?sup" "cn_id r = cn_id k"
    have "\<exists>x \<in> set (ah_constitutions A). (cn_id r, cn_company_id r) = (cn_id x, cn_company_id x)"
      by (rule updated_from [OF r(1)]) simp
    with r(2) obtain r0 where "r0 \<in> set (ah_constitutions A)" "cn_id r0 = cn_id k" "cn_company_id r = cn_company_id r0"
      by auto
    then show "cn_company_id r \<noteq> t \<and> cn_company_id (r\<lparr>cn_status := CN_ACTIVE, cn_activated_at := Some now\<rparr>) \<noteq> t"
      using same_id assms(2) by simp
  qed
  also have "\<dots> = filter (\<lambda>r. cn_company_id r = t) (ah_constitutions A)"
    using assms(2) by (intro filter_update_other) auto
  finally have view: "filter (\<lambda>r. cn_company_id r = t) ?act = filter (\<lambda>r. cn_company_id r = t) (ah_constitutions A)" .
  have viewg: "filter (\<lambda>a. ag_company_id a = t) ?ag = filter (\<lambda>a. ag_company_id a = t) (ah_agents A)"
    using agents assms(2) by (intro filter_update_other) auto
  have keys: "map cn_id ?act = map cn_id (ah_constitutions A)" "map ag_id ?ag = map ag_id (ah_agents A)"
    by (simp_all add: map_update_where_same)
  have refs: "\<forall>r \<in> set ?act. \<exists>a \<in> set ?ag. ag_id a = cn_agent_id r \<and> ag_company_id a = cn_company_id r"
  proof
    fix r assume r: "r \<in> set ?act"
    have "\<exists>x \<in> set ?sup. (cn_agent_id r, cn_company_id r) = (cn_agent_id x, cn_company_id x)"
      by (rule updated_from [OF r]) simp
    then obtain x where x: "x \<in> set ?sup" "(cn_agent_id r, cn_company_id r) = (cn_agent_id x, cn_company_id x)" ..
    have "\<exists>y \<in> set (ah_constitutions A). (cn_agent_id x, cn_company_id x) = (cn_agent_id y, cn_company_id y)"
      by (rule updated_from [OF x(1)]) simp
    with x(2) show "\<exists>a \<in> set ?ag. ag_id a = cn_agent_id r \<and> ag_company_id a = cn_company_id r"
      using assms(1) by (auto simp: authority_keys_def ex_update_where)
  qed
  let ?A = "A\<lparr>ah_constitutions := ?act, ah_agents := ?ag\<rparr>"
  have seen: "authority_view t ?A = authority_view t A" by (simp add: authority_view_def view viewg)
  have kept: "authority_keys ?A" using assms(1) refs by (simp add: authority_keys_def keys)
  have "snd (activate_constitution now c i A) = A \<or> snd (activate_constitution now c i A) = ?A"
    by (simp add: activate_constitution_def transaction_def Let_def Some split: option.splits)
  then show ?thesis
  proof
    assume e: "snd (activate_constitution now c i A) = ?A"
    show ?thesis unfolding e using seen kept by (rule conjI)
  qed (simp add: assms(1))
qed (simp add: activate_constitution_def transaction_def assms)

section \<open>Policies\<close>

definition policy_view where
  "policy_view t P =
     (filter (\<lambda>p. pc_company_id p = t) (pl_policies P), filter (policy_in_company t P) (pl_versions P),
      filter (\<lambda>w. get_version t (rw_policy_version_id w) P \<noteq> None) (pl_rules P))"

definition policy_keys :: "policy_db \<Rightarrow> bool" where
  "policy_keys P \<longleftrightarrow> distinct (map pc_id (pl_policies P)) \<and> distinct (map vn_id (pl_versions P))
     \<and> vn_policy_id ` set (pl_versions P) \<subseteq> pc_id ` set (pl_policies P)"

lemma policy_in_company_iff:
  "policy_in_company t P v \<longleftrightarrow> (\<exists>p \<in> set (pl_policies P). pc_id p = vn_policy_id v \<and> pc_company_id p = t)"
  by (auto simp: policy_in_company_def get_policy_def find_None_iff)

lemma get_version_known:
  "get_version t i P \<noteq> None \<longleftrightarrow> (\<exists>v \<in> set (pl_versions P). vn_id v = i \<and> policy_in_company t P v)"
  by (auto simp: get_version_def find_None_iff)

lemma policy_one_company:
  assumes "policy_keys P" and "policy_in_company c P v" and "t \<noteq> c"
  shows "\<not> policy_in_company t P v"
proof
  assume "policy_in_company t P v"
  then obtain q where q: "q \<in> set (pl_policies P)" "pc_id q = vn_policy_id v" "pc_company_id q = t"
    by (auto simp: policy_in_company_iff)
  obtain p where p: "p \<in> set (pl_policies P)" "pc_id p = vn_policy_id v" "pc_company_id p = c"
    using assms(2) by (auto simp: policy_in_company_iff)
  have "pc_company_id q = pc_company_id p"
    using assms(1) p q by (intro key_owner [of pc_id "pl_policies P" p q pc_company_id]) (simp_all add: policy_keys_def)
  then show False using p q assms(3) by simp
qed

text \<open>Updating versions of one company leaves the view of the others.\<close>

lemma update_versions_isolated:
  assumes "policy_keys P" and "\<And>r. r \<in> set (pl_versions P) \<Longrightarrow> S r \<Longrightarrow> policy_in_company c P r"
    and "\<And>r. vn_id (f r) = vn_id r \<and> vn_policy_id (f r) = vn_policy_id r" and "t \<noteq> c"
  shows "policy_view t (P\<lparr>pl_versions := update_where S f (pl_versions P)\<rparr>) = policy_view t P
    \<and> policy_keys (P\<lparr>pl_versions := update_where S f (pl_versions P)\<rparr>)"
proof -
  let ?P = "P\<lparr>pl_versions := update_where S f (pl_versions P)\<rparr>"
  have pic: "policy_in_company t ?P = policy_in_company t P" by (intro ext) (simp add: policy_in_company_iff)
  have f: "policy_in_company t P (f r) = policy_in_company t P r" for r by (simp add: policy_in_company_iff assms(3))
  have "filter (policy_in_company t P) (update_where S f (pl_versions P)) = filter (policy_in_company t P) (pl_versions P)"
    using assms(2) f policy_one_company [OF assms(1) _ assms(4)] by (intro filter_update_other) auto
  moreover have "get_version t i ?P \<noteq> None \<longleftrightarrow> get_version t i P \<noteq> None" for i
    unfolding get_version_known pic using f assms(3)
    by (simp add: ex_update_where [of "\<lambda>v. vn_id v = i \<and> policy_in_company t P v"])
  ultimately have view: "policy_view t ?P = policy_view t P" by (simp add: policy_view_def pic)
  have "map vn_id (update_where S f (pl_versions P)) = map vn_id (pl_versions P)"
    "map vn_policy_id (update_where S f (pl_versions P)) = map vn_policy_id (pl_versions P)"
    using assms(3) by (simp_all add: map_update_where_same)
  moreover have "vn_policy_id ` set (update_where S f (pl_versions P)) = vn_policy_id ` set (pl_versions P)"
    using calculation(2) by (metis list.set_map)
  ultimately have "policy_keys ?P" using assms(1) by (simp add: policy_keys_def)
  with view show ?thesis by blast
qed

lemma get_version_company:
  "get_version c i P = Some v \<Longrightarrow> v \<in> set (pl_versions P) \<and> vn_id v = i \<and> policy_in_company c P v"
  by (auto simp: get_version_def dest: find_SomeD)

lemma same_version:
  "policy_keys P \<Longrightarrow> v \<in> set (pl_versions P) \<Longrightarrow> r \<in> set (pl_versions P) \<Longrightarrow> vn_id r = vn_id v \<Longrightarrow> r = v"
  by (auto simp: policy_keys_def dest: key_unique)

lemma update_version_isolated:
  assumes "policy_keys P" and "get_version c i P = Some v" and "t \<noteq> c"
    and "\<And>r. vn_id (f r) = vn_id r \<and> vn_policy_id (f r) = vn_policy_id r"
  shows "policy_view t (update_version (vn_id v) f P) = policy_view t P \<and> policy_keys (update_version (vn_id v) f P)"
proof -
  note v = get_version_company [OF assms(2)]
  have "policy_in_company c P r" if "r \<in> set (pl_versions P)" "vn_id r = vn_id v" for r
    using same_version [OF assms(1) _ that(1) that(2)] v by simp
  from update_versions_isolated [OF assms(1) this assms(4,3)] show ?thesis by (simp add: update_version_def)
qed

lemma transition_version_isolated:
  assumes "policy_keys P" and "t \<noteq> c"
  shows "policy_view t (snd (transition_version c i to P)) = policy_view t P \<and> policy_keys (snd (transition_version c i to P))"
  using assms(1) update_version_isolated [OF assms(1) _ assms(2)]
  by (auto simp: transition_version_def split: option.splits sum.splits)

lemma approve_version_isolated:
  assumes "policy_keys P" and "t \<noteq> c"
  shows "policy_view t (snd (approve_version by_whom c i P)) = policy_view t P \<and> policy_keys (snd (approve_version by_whom c i P))"
  using assms(1) update_version_isolated [OF assms(1) _ assms(2)]
  by (auto simp: approve_version_def transaction_def Let_def split: option.splits sum.splits)

lemma update_policies_isolated:
  assumes "policy_keys P" and "p \<in> set (pl_policies P)" and "pc_company_id p \<noteq> t"
    and "\<And>r. pc_id (f r) = pc_id r \<and> pc_company_id (f r) = pc_company_id r"
  shows "policy_view t (P\<lparr>pl_policies := update_where (\<lambda>r. pc_id r = pc_id p) f (pl_policies P)\<rparr>) = policy_view t P
    \<and> policy_keys (P\<lparr>pl_policies := update_where (\<lambda>r. pc_id r = pc_id p) f (pl_policies P)\<rparr>)"
proof -
  let ?P = "P\<lparr>pl_policies := update_where (\<lambda>r. pc_id r = pc_id p) f (pl_policies P)\<rparr>"
  have other: "pc_company_id r \<noteq> t" if "r \<in> set (pl_policies P)" "pc_id r = pc_id p" for r
    using key_owner [of pc_id "pl_policies P" p r pc_company_id] assms(1-3) that by (simp add: policy_keys_def)
  have pic: "policy_in_company t ?P = policy_in_company t P"
    by (intro ext) (simp add: policy_in_company_iff ex_update_where assms(4))
  have "filter (\<lambda>r. pc_company_id r = t) (update_where (\<lambda>r. pc_id r = pc_id p) f (pl_policies P))
      = filter (\<lambda>r. pc_company_id r = t) (pl_policies P)"
    using other assms(4) by (intro filter_update_other) auto
  moreover have "get_version t i ?P = get_version t i P" for i by (simp add: get_version_def pic)
  moreover have "map pc_id (update_where (\<lambda>r. pc_id r = pc_id p) f (pl_policies P)) = map pc_id (pl_policies P)"
    using assms(4) by (simp add: map_update_where_same)
  moreover from this have "pc_id ` set (update_where (\<lambda>r. pc_id r = pc_id p) f (pl_policies P)) = pc_id ` set (pl_policies P)"
    by (metis list.set_map)
  ultimately show ?thesis using assms(1) by (simp add: policy_view_def pic policy_keys_def)
qed

lemma activate_version_isolated:
  assumes "policy_keys P" and "t \<noteq> c"
  shows "policy_view t (snd (activate_version now c i P)) = policy_view t P \<and> policy_keys (snd (activate_version now c i P))"
proof (cases "get_version c i P")
  case (Some v)
  note v = get_version_company [OF Some]
  then obtain p where p: "p \<in> set (pl_policies P)" "pc_id p = vn_policy_id v" "pc_company_id p = c"
    by (auto simp: policy_in_company_iff)
  let ?s = "\<lambda>r. r\<lparr>vn_status := VS_SUPERSEDED, vn_deactivated_at := Some now\<rparr>"
  let ?a = "\<lambda>r. r\<lparr>vn_status := VS_ACTIVE, vn_activated_at := Some now\<rparr>"
  let ?p = "\<lambda>r. r\<lparr>pc_status := PO_ACTIVE, pc_current_version := vn_version v\<rparr>"
  let ?S = "\<lambda>r. vn_policy_id r = vn_policy_id v \<and> vn_status r = VS_ACTIVE"
  let ?P1 = "P\<lparr>pl_versions := update_where ?S ?s (pl_versions P)\<rparr>"
  let ?P2 = "?P1\<lparr>pl_versions := update_where (\<lambda>r. vn_id r = vn_id v) ?a (pl_versions ?P1)\<rparr>"
  let ?P3 = "?P2\<lparr>pl_policies := update_where (\<lambda>r. pc_id r = pc_id p) ?p (pl_policies ?P2)\<rparr>"
  have 1: "policy_view t ?P1 = policy_view t P \<and> policy_keys ?P1"
    using v by (intro update_versions_isolated [OF assms(1) _ _ assms(2)]) (auto simp: policy_in_company_iff)
  have "policy_in_company c ?P1 r" if r: "r \<in> set (pl_versions ?P1)" "vn_id r = vn_id v" for r
  proof -
    have "\<exists>x \<in> set (pl_versions P). (vn_id r, vn_policy_id r) = (vn_id x, vn_policy_id x)"
      by (rule updated_from [of r ?S ?s]) (use r in simp_all)
    then obtain x where "x \<in> set (pl_versions P)" "vn_id x = vn_id v" "vn_policy_id r = vn_policy_id x"
      using r(2) by auto
    moreover from this have "x = v" using v by (intro same_version [OF assms(1)]) auto
    ultimately show ?thesis using p by (auto simp: policy_in_company_iff)
  qed
  then have 2: "policy_view t ?P2 = policy_view t ?P1 \<and> policy_keys ?P2"
    by (intro update_versions_isolated [OF conjunct2 [OF 1] _ _ assms(2)]) simp_all
  have 3: "policy_view t ?P3 = policy_view t ?P2 \<and> policy_keys ?P3"
    by (rule update_policies_isolated [OF conjunct2 [OF 2]]) (use p assms(2) in simp_all)
  have "snd (activate_version now c i P) = P \<or> snd (activate_version now c i P) = ?P3"
    by (simp add: activate_version_def transaction_def Let_def Some p(2) split: sum.splits)
  then show ?thesis
  proof
    assume e: "snd (activate_version now c i P) = ?P3"
    show ?thesis unfolding e using 1 2 3 by metis
  qed (simp add: assms(1))
qed (simp add: activate_version_def transaction_def assms)

lemma append_version_isolated:
  assumes "policy_keys P" and "p \<in> set (pl_policies P)" and "pc_id p = vn_policy_id v" and "pc_company_id p = c" and "t \<noteq> c"
    and "vn_id v \<notin> vn_id ` set (pl_versions P)" and "\<And>w. w \<in> set ws \<Longrightarrow> rw_policy_version_id w = vn_id v"
    and "vn_id v \<notin> rw_policy_version_id ` set (pl_rules P)"
  shows "policy_view t (P\<lparr>pl_versions := pl_versions P @ [v], pl_rules := pl_rules P @ ws\<rparr>) = policy_view t P
    \<and> policy_keys (P\<lparr>pl_versions := pl_versions P @ [v], pl_rules := pl_rules P @ ws\<rparr>)"
proof -
  let ?P = "P\<lparr>pl_versions := pl_versions P @ [v], pl_rules := pl_rules P @ ws\<rparr>"
  have pic: "policy_in_company t ?P = policy_in_company t P" by (intro ext) (simp add: policy_in_company_iff)
  have own: "\<not> policy_in_company t P v"
    using assms(2-5) by (intro policy_one_company [OF assms(1)]) (auto simp: policy_in_company_iff)
  have "get_version t j ?P \<noteq> None \<longleftrightarrow> get_version t j P \<noteq> None" for j
    unfolding get_version_known pic using own by auto
  moreover have "get_version t (vn_id v) P = None"
    using assms(6) get_version_known [of t "vn_id v" P] by (metis image_eqI)
  moreover from this have "filter (\<lambda>w. get_version t (rw_policy_version_id w) P \<noteq> None) ws = []"
    using assms(7) by (simp add: filter_empty_conv)
  ultimately have "policy_view t ?P = policy_view t P" using own by (simp add: policy_view_def pic)
  moreover have "policy_keys ?P" using assms(1,2,6) by (auto simp: policy_keys_def assms(3) [symmetric])
  ultimately show ?thesis by blast
qed

lemma append_policy_isolated:
  assumes "policy_keys P" and "pc_id p \<notin> pc_id ` set (pl_policies P)" and "pc_company_id p \<noteq> t"
  shows "policy_view t (P\<lparr>pl_policies := pl_policies P @ [p]\<rparr>) = policy_view t P
    \<and> policy_keys (P\<lparr>pl_policies := pl_policies P @ [p]\<rparr>)"
proof -
  have pic: "policy_in_company t (P\<lparr>pl_policies := pl_policies P @ [p]\<rparr>) = policy_in_company t P"
    using assms(3) by (intro ext) (simp add: policy_in_company_iff)
  moreover have "get_version t j (P\<lparr>pl_policies := pl_policies P @ [p]\<rparr>) = get_version t j P" for j
    by (simp add: get_version_def pic)
  ultimately show ?thesis using assms by (auto simp: policy_view_def policy_keys_def)
qed

lemma create_draft_isolated:
  assumes "policy_keys P" and "t \<noteq> cd_company_id i" and "np \<notin> pc_id ` set (pl_policies P)"
    and "nv \<notin> vn_id ` set (pl_versions P)" and "nv \<notin> rw_policy_version_id ` set (pl_rules P)"
  shows "policy_view t (snd (create_draft sha A np nv i P)) = policy_view t P \<and> policy_keys (snd (create_draft sha A np nv i P))"
proof (cases "cd_name i")
  case (Some raw)
  obtain p P1 where d: "draft_policy np i (trim raw) P = (p, P1)" by (cases "draft_policy np i (trim raw) P")
  have drafted: "P1 = P \<and> p \<in> set (pl_policies P) \<and> pc_company_id p = cd_company_id i
      \<or> P1 = P\<lparr>pl_policies := pl_policies P @ [p]\<rparr> \<and> pc_id p = np \<and> pc_company_id p = cd_company_id i"
    using d by (auto simp: draft_policy_def Let_def dest: find_SomeD split: option.splits)
  then have P1: "policy_view t P1 = policy_view t P \<and> policy_keys P1"
    using append_policy_isolated [OF assms(1), of p t] assms(1-3) by auto
  have in1: "p \<in> set (pl_policies P1)" "pc_company_id p = cd_company_id i"
    "pl_versions P1 = pl_versions P" "pl_rules P1 = pl_rules P" using drafted by auto
  consider "snd (create_draft sha A np nv i P) = P"
    | v where "snd (create_draft sha A np nv i P)
        = P1\<lparr>pl_versions := pl_versions P1 @ [v], pl_rules := pl_rules P1 @ map (rule_row nv) (cd_rules i)\<rparr>"
        "vn_id v = nv" "vn_policy_id v = pc_id p"
  proof (cases "fst (create_draft sha A np nv i P)")
    case (Inl e)
    then have "snd (create_draft sha A np nv i P) = P"
      by (auto simp: create_draft_def transaction_def Let_def Some d split: option.splits sum.splits if_splits)
    then show ?thesis by (rule that(1))
  next
    case (Inr pv)
    then show ?thesis
      by (intro that(2) [of "snd pv"])
        (auto simp: create_draft_def transaction_def Let_def Some d split: option.splits sum.splits if_splits)
  qed
  then show ?thesis
  proof cases
    case 1
    then show ?thesis using assms(1) by simp
  next
    case (2 v)
    have "policy_view t (snd (create_draft sha A np nv i P)) = policy_view t P1 \<and> policy_keys (snd (create_draft sha A np nv i P))"
      unfolding 2(1)
      by (rule append_version_isolated [OF conjunct2 [OF P1] in1(1) _ in1(2) assms(2)])
        (use 2(2,3) assms(4,5) in1(3,4) in \<open>auto simp: rule_row_def\<close>)
    with P1 show ?thesis by simp
  qed
qed (simp add: create_draft_def assms(1))

section \<open>Decisions and approvals\<close>

definition approval_view where
  "approval_view t D =
     (filter (\<lambda>d. dr_company_id d = t) (ad_decisions D), filter (\<lambda>r. aq_company_id r = t) (ad_requests D),
      filter (\<lambda>l. get_request t (al_approval_request_id l) D \<noteq> None) (ad_results D))"

definition approval_keys :: "approval_db \<Rightarrow> bool" where
  "approval_keys D \<longleftrightarrow> distinct (map aq_id (ad_requests D))"

lemma get_request_known:
  "get_request t i D \<noteq> None \<longleftrightarrow> (\<exists>r \<in> set (ad_requests D). aq_id r = i \<and> aq_company_id r = t)"
  by (auto simp: get_request_def find_None_iff)

lemma record_decision_isolated:
  assumes "approval_keys D" and "t \<noteq> pd_company_id i"
  shows "approval_view t (snd (record_decision nid i D)) = approval_view t D \<and> approval_keys (snd (record_decision nid i D))"
  using assms by (simp add: record_decision_def approval_view_def approval_keys_def Let_def get_request_def)

lemma create_request_isolated:
  assumes "approval_keys D" and "t \<noteq> ca_company_id i" and "nid \<notin> aq_id ` set (ad_requests D)"
  shows "approval_view t (snd (create_request nid i D)) = approval_view t D \<and> approval_keys (snd (create_request nid i D))"
proof -
  have "get_request t j (D\<lparr>ad_requests := ad_requests D @ [r]\<rparr>) \<noteq> None \<longleftrightarrow> get_request t j D \<noteq> None"
    if "aq_company_id r = ca_company_id i" for r j
    unfolding get_request_known using that assms(2) by auto
  then show ?thesis
    using assms by (auto simp: create_request_def approval_view_def approval_keys_def Let_def split: option.splits)
qed

lemma set_status_isolated:
  assumes "approval_keys D" and "r \<in> set (ad_requests D)" and "t \<noteq> aq_company_id r"
  shows "approval_view t (set_status (aq_id r) st D) = approval_view t D \<and> approval_keys (set_status (aq_id r) st D)"
proof -
  have other: "aq_company_id q \<noteq> t" if "q \<in> set (ad_requests D)" "aq_id q = aq_id r" for q
    using key_owner [of aq_id "ad_requests D" r q aq_company_id] assms that by (simp add: approval_keys_def)
  have "filter (\<lambda>q. aq_company_id q = t) (update_where (\<lambda>q. aq_id q = aq_id r) (\<lambda>q. q\<lparr>aq_status := st\<rparr>) (ad_requests D))
      = filter (\<lambda>q. aq_company_id q = t) (ad_requests D)"
    using other by (intro filter_update_other) auto
  moreover have "get_request t j (set_status (aq_id r) st D) \<noteq> None \<longleftrightarrow> get_request t j D \<noteq> None" for j
    unfolding get_request_known by (simp add: set_status_def ex_update_where)
  ultimately show ?thesis
    using assms(1) by (simp add: approval_view_def approval_keys_def map_update_where_same) (simp add: set_status_def map_update_where_same)
qed

lemma conclude_isolated:
  assumes "approval_keys D" and "r \<in> set (ad_requests D)" and "t \<noteq> aq_company_id r"
  shows "approval_view t (snd (conclude nid a r st kind ctx D)) = approval_view t D
    \<and> approval_keys (snd (conclude nid a r st kind ctx D))"
proof -
  let ?D = "set_status (aq_id r) st D"
  note D = set_status_isolated [OF assms, of st]
  have "get_request t (aq_id r) D = None"
  proof (rule ccontr)
    assume "get_request t (aq_id r) D \<noteq> None"
    then obtain q where "q \<in> set (ad_requests D)" "aq_id q = aq_id r" "aq_company_id q = t"
      unfolding get_request_known by blast
    then show False using key_owner [of aq_id "ad_requests D" r q aq_company_id] assms by (simp add: approval_keys_def)
  qed
  moreover have "get_request t (aq_id r) ?D \<noteq> None \<longleftrightarrow> get_request t (aq_id r) D \<noteq> None"
    unfolding get_request_known by (simp add: set_status_def ex_update_where)
  ultimately have "get_request t (aq_id r) ?D = None" by simp
  moreover have "get_request t j (?D\<lparr>ad_results := rs\<rparr>) = get_request t j ?D" for j rs by (simp add: get_request_def)
  moreover have "ad_results ?D = ad_results D" by (simp add: set_status_def)
  ultimately have "approval_view t (snd (conclude nid a r st kind ctx D)) = approval_view t ?D"
    by (simp add: conclude_def approval_view_def Let_def)
  moreover have "approval_keys (snd (conclude nid a r st kind ctx D))"
    using D by (simp add: conclude_def approval_keys_def Let_def)
  ultimately show ?thesis using D by simp
qed

text \<open>Both verdicts end in \<open>conclude\<close> on a pending request of the company, or are rolled back.\<close>

lemma approve_outcome:
  assumes "approve nid c i a h now D = (Inr x, D')"
  obtains r where "r \<in> set (ad_requests D)" "aq_company_id r = c"
    "D' = snd (conclude nid a r AR_APPROVED RES_APPROVED h D)"
proof -
  from assms obtain r D1 where r: "load_pending_tx c i now D = (Inr r, D1)"
    "conclude nid a r AR_APPROVED RES_APPROVED h D1 = (Inr x, D')"
    by (auto simp: approve_def transaction_Inr split: prod.splits sum.splits if_splits)
  show ?thesis using load_pending_tx_Inr [OF r(1)] r(2) by (intro that [of r]) auto
qed

lemma deny_request_outcome:
  assumes "deny_request nid c i a now D = (Inr x, D')"
  obtains r where "r \<in> set (ad_requests D)" "aq_company_id r = c"
    "D' = snd (conclude nid a r AR_DENIED RES_DENIED (aq_context_hash r) D)"
proof -
  from assms obtain r D1 where r: "load_pending_tx c i now D = (Inr r, D1)"
    "conclude nid a r AR_DENIED RES_DENIED (aq_context_hash r) D1 = (Inr x, D')"
    by (auto simp: deny_request_def transaction_Inr split: prod.splits sum.splits if_splits)
  show ?thesis using load_pending_tx_Inr [OF r(1)] r(2) by (intro that [of r]) auto
qed

lemma approve_isolated:
  assumes "approval_keys D" and "t \<noteq> c"
  shows "approval_view t (snd (approve nid c i a h now D)) = approval_view t D \<and> approval_keys (snd (approve nid c i a h now D))"
proof (cases "fst (approve nid c i a h now D)")
  case (Inl e)
  then have "snd (approve nid c i a h now D) = D" by (simp add: approve_def transaction_rollback)
  then show ?thesis using assms by simp
next
  case (Inr x)
  then have "approve nid c i a h now D = (Inr x, snd (approve nid c i a h now D))" by (simp add: prod_eq_iff)
  then obtain r where r: "r \<in> set (ad_requests D)" "aq_company_id r = c"
    "snd (approve nid c i a h now D) = snd (conclude nid a r AR_APPROVED RES_APPROVED h D)"
    by (rule approve_outcome)
  show ?thesis unfolding r(3) by (rule conclude_isolated) (use assms r(1,2) in simp_all)
qed

lemma deny_request_isolated:
  assumes "approval_keys D" and "t \<noteq> c"
  shows "approval_view t (snd (deny_request nid c i a now D)) = approval_view t D \<and> approval_keys (snd (deny_request nid c i a now D))"
proof (cases "fst (deny_request nid c i a now D)")
  case (Inl e)
  then have "snd (deny_request nid c i a now D) = D" by (simp add: deny_request_def transaction_rollback)
  then show ?thesis using assms by simp
next
  case (Inr x)
  then have "deny_request nid c i a now D = (Inr x, snd (deny_request nid c i a now D))" by (simp add: prod_eq_iff)
  then obtain r where r: "r \<in> set (ad_requests D)" "aq_company_id r = c"
    "snd (deny_request nid c i a now D) = snd (conclude nid a r AR_DENIED RES_DENIED (aq_context_hash r) D)"
    by (rule deny_request_outcome)
  show ?thesis unfolding r(3) by (rule conclude_isolated) (use assms r(1,2) in simp_all)
qed

section \<open>Ledger and executions\<close>

definition ledger_view where
  "ledger_view t L = (filter (\<lambda>a. fa_company_id a = t) (lg_accounts L), filter (\<lambda>r. re_company_id r = t) (lg_reservations L))"

definition ledger_keys :: "ledger \<Rightarrow> bool" where
  "ledger_keys L \<longleftrightarrow> distinct (map fa_id (lg_accounts L)) \<and> distinct (map re_id (lg_reservations L))
     \<and> (\<forall>r \<in> set (lg_reservations L). \<exists>a \<in> set (lg_accounts L).
          fa_id a = re_account_id r \<and> fa_company_id a = re_company_id r)"

lemma find_reservation_company:
  "find_reservation c i L = Some r \<Longrightarrow> r \<in> set (lg_reservations L) \<and> re_id r = i \<and> re_company_id r = c"
  by (auto simp: find_reservation_def dest: find_SomeD)

lemma update_account_isolated:
  assumes "ledger_keys L" and "a \<in> set (lg_accounts L)" and "fa_company_id a \<noteq> t"
    and "\<And>x. fa_id (f x) = fa_id x \<and> fa_company_id (f x) = fa_company_id x"
  shows "ledger_view t (update_account (fa_id a) f L) = ledger_view t L \<and> ledger_keys (update_account (fa_id a) f L)"
proof -
  have other: "fa_company_id x \<noteq> t" if "x \<in> set (lg_accounts L)" "fa_id x = fa_id a" for x
    using key_owner [of fa_id "lg_accounts L" a x fa_company_id] assms(1-3) that by (simp add: ledger_keys_def)
  have "filter (\<lambda>x. fa_company_id x = t) (update_where (\<lambda>x. fa_id x = fa_id a) f (lg_accounts L))
      = filter (\<lambda>x. fa_company_id x = t) (lg_accounts L)"
    using other assms(4) by (intro filter_update_other) auto
  then show ?thesis
    using assms(1,4)
    by (simp add: ledger_view_def ledger_keys_def update_account_def map_update_where_same ex_update_where)
qed

lemma update_reservation_isolated:
  assumes "ledger_keys L" and "r \<in> set (lg_reservations L)" and "re_company_id r \<noteq> t"
    and "\<And>x. re_id (f x) = re_id x \<and> re_company_id (f x) = re_company_id x \<and> re_account_id (f x) = re_account_id x"
  shows "ledger_view t (update_reservation (re_id r) f L) = ledger_view t L \<and> ledger_keys (update_reservation (re_id r) f L)"
proof -
  have other: "re_company_id x \<noteq> t" if "x \<in> set (lg_reservations L)" "re_id x = re_id r" for x
    using key_owner [of re_id "lg_reservations L" r x re_company_id] assms(1-3) that by (simp add: ledger_keys_def)
  have "filter (\<lambda>x. re_company_id x = t) (update_where (\<lambda>x. re_id x = re_id r) f (lg_reservations L))
      = filter (\<lambda>x. re_company_id x = t) (lg_reservations L)"
    using other assms(4) by (intro filter_update_other) auto
  moreover have "\<exists>a \<in> set (lg_accounts L). fa_id a = re_account_id x \<and> fa_company_id a = re_company_id x"
    if x: "x \<in> set (update_where (\<lambda>x. re_id x = re_id r) f (lg_reservations L))" for x
  proof -
    have "\<exists>y \<in> set (lg_reservations L). (re_company_id x, re_account_id x) = (re_company_id y, re_account_id y)"
      by (rule updated_from [OF x]) (simp add: assms(4))
    then show ?thesis using assms(1) by (auto simp: ledger_keys_def)
  qed
  ultimately show ?thesis
    using assms(1,4) by (simp add: ledger_view_def ledger_keys_def update_reservation_def map_update_where_same)
qed

text \<open>Settling a reservation moves money of its own company only.\<close>

lemma settle_isolated:
  assumes "ledger_keys L" and "res \<in> set (lg_reservations L)" and "re_company_id res \<noteq> t"
    and "\<And>x. fa_id (move x) = fa_id x \<and> fa_company_id (move x) = fa_company_id x"
    and "\<And>x. re_id (mark x) = re_id x \<and> re_company_id (mark x) = re_company_id x \<and> re_account_id (mark x) = re_account_id x"
  shows "ledger_view t (snd (settle res move mark L)) = ledger_view t L \<and> ledger_keys (snd (settle res move mark L))"
proof (cases "find_account (re_account_id res) L")
  case (Some row)
  obtain a where a: "a \<in> set (lg_accounts L)" "fa_id a = re_account_id res" "fa_company_id a = re_company_id res"
    using assms(1,2) by (auto simp: ledger_keys_def)
  let ?L = "update_account (re_account_id res) move L"
  have 1: "ledger_view t ?L = ledger_view t L \<and> ledger_keys ?L"
    using update_account_isolated [OF assms(1) a(1) _ assms(4)] a(2,3) assms(3) by simp
  moreover have "ledger_view t (update_reservation (re_id res) mark ?L) = ledger_view t ?L
      \<and> ledger_keys (update_reservation (re_id res) mark ?L)"
    by (rule update_reservation_isolated [OF conjunct2 [OF 1] _ assms(3,5)]) (simp add: update_account_def assms(2))
  ultimately show ?thesis by (simp add: settle_def Some)
qed (simp add: settle_def assms(1))

lemma transaction_isolated:
  assumes "ledger_keys L" and "ledger_view t (snd (m L)) = ledger_view t L \<and> ledger_keys (snd (m L))"
  shows "ledger_view t (snd (transaction m L)) = ledger_view t L \<and> ledger_keys (snd (transaction m L))"
  using assms by (auto simp: transaction_def split: prod.splits sum.splits)

lemma settled_isolated:
  assumes "settle res move mark L = (x, L')" and "ledger_keys L" and "find_reservation c i L = Some res" and "t \<noteq> c"
    and "\<And>x. fa_id (move x) = fa_id x \<and> fa_company_id (move x) = fa_company_id x"
    and "\<And>x. re_id (mark x) = re_id x \<and> re_company_id (mark x) = re_company_id x \<and> re_account_id (mark x) = re_account_id x"
  shows "ledger_view t L' = ledger_view t L" and "ledger_keys L'"
  using settle_isolated [OF assms(2) _ _ assms(5,6), of res t] find_reservation_company [OF assms(3)] assms(1,4) by auto

lemma commit_isolated:
  assumes "ledger_keys L" and "t \<noteq> c"
  shows "ledger_view t (snd (commit now c i L)) = ledger_view t L \<and> ledger_keys (snd (commit now c i L))"
proof (cases "find_reservation c i L")
  case (Some res)
  note settled = settled_isolated [OF _ assms(1) Some assms(2)]
  show ?thesis
    by (auto simp: commit_def transaction_def Some assms(1) split: prod.splits sum.splits elim!: settled)
qed (simp add: commit_def transaction_def assms(1))

lemma release_isolated:
  assumes "ledger_keys L" and "t \<noteq> c"
  shows "ledger_view t (snd (release now c i L)) = ledger_view t L \<and> ledger_keys (snd (release now c i L))"
proof (cases "find_reservation c i L")
  case (Some res)
  note settled = settled_isolated [OF _ assms(1) Some assms(2)]
  show ?thesis
    by (auto simp: release_def transaction_def Some assms(1) split: prod.splits sum.splits elim!: settled)
qed (simp add: release_def transaction_def assms(1))

lemma reconcile_release_isolated:
  assumes "ledger_keys L" and "t \<noteq> c"
  shows "ledger_view t (snd (reconcile_release now c i L)) = ledger_view t L \<and> ledger_keys (snd (reconcile_release now c i L))"
proof (cases "find_reservation c i L")
  case (Some res)
  note settled = settled_isolated [OF _ assms(1) Some assms(2)]
  show ?thesis
    by (auto simp: reconcile_release_def transaction_def Some assms(1) split: prod.splits sum.splits elim!: settled)
qed (simp add: reconcile_release_def transaction_def assms(1))

lemma mark_unknown_isolated:
  assumes "ledger_keys L" and "t \<noteq> c"
  shows "ledger_view t (snd (mark_unknown c i L)) = ledger_view t L \<and> ledger_keys (snd (mark_unknown c i L))"
proof (cases "find_reservation c i L")
  case (Some res)
  note res = find_reservation_company [OF Some]
  have "ledger_view t (update_reservation (re_id res) (\<lambda>r. r\<lparr>re_status := HELD_UNKNOWN\<rparr>) L) = ledger_view t L
      \<and> ledger_keys (update_reservation (re_id res) (\<lambda>r. r\<lparr>re_status := HELD_UNKNOWN\<rparr>) L)"
    by (rule update_reservation_isolated [OF assms(1)]) (use res assms(2) in auto)
  then show ?thesis using assms(1) by (simp add: mark_unknown_def Some)
qed (simp add: mark_unknown_def assms(1))

text \<open>A reservation is made on an account of its company, found or created.\<close>

lemma ensure_account_isolated:
  assumes "ledger_keys L" and "t \<noteq> ak_company_id k" and "nid \<notin> fa_id ` set (lg_accounts L)"
    and "ensure_account D nid k limit L = (x, L')"
  shows "ledger_view t L' = ledger_view t L" and "ledger_keys L'" and "lg_reservations L' = lg_reservations L"
    and "x = Inr a \<Longrightarrow> a \<in> set (lg_accounts L') \<and> fa_company_id a = ak_company_id k"
  using assms
  by (auto simp: ensure_account_def create_account_def ledger_view_def ledger_keys_def matches_key_def Let_def
      dest!: find_SomeD split: option.splits if_splits)

lemma reserve_tx_isolated:
  assumes "ledger_keys L" and "t \<noteq> ak_company_id (ri_key i)" and "nid \<notin> re_id ` set (lg_reservations L)"
    and "a \<in> set (lg_accounts L)" and "fa_company_id a = ak_company_id (ri_key i)"
  shows "ledger_view t (snd (reserve_tx nid i (fa_id a) q L)) = ledger_view t L \<and> ledger_keys (snd (reserve_tx nid i (fa_id a) q L))"
proof -
  have "ledger_view t (update_account (fa_id a) f (L\<lparr>lg_reservations := lg_reservations L @ [r]\<rparr>)) = ledger_view t L
      \<and> ledger_keys (update_account (fa_id a) f (L\<lparr>lg_reservations := lg_reservations L @ [r]\<rparr>))"
    if "re_id r = nid" "re_company_id r = ak_company_id (ri_key i)" "re_account_id r = fa_id a"
      "\<And>x. fa_id (f x) = fa_id x \<and> fa_company_id (f x) = fa_company_id x" for r f
  proof -
    let ?L = "L\<lparr>lg_reservations := lg_reservations L @ [r]\<rparr>"
    have "ledger_keys ?L" "ledger_view t ?L = ledger_view t L"
      using assms that(1-3) by (auto simp: ledger_keys_def ledger_view_def)
    moreover have "ledger_view t (update_account (fa_id a) f ?L) = ledger_view t ?L \<and> ledger_keys (update_account (fa_id a) f ?L)"
      by (rule update_account_isolated [OF calculation(1) _ _ that(4)]) (use assms in simp_all)
    ultimately show ?thesis by simp
  qed
  then show ?thesis using assms(1) by (simp add: reserve_tx_def Let_def split: option.splits)
qed

lemma reserve_isolated:
  assumes "ledger_keys L" and "t \<noteq> ak_company_id (ri_key i)"
    and "na \<notin> fa_id ` set (lg_accounts L)" and "nr \<notin> re_id ` set (lg_reservations L)"
  shows "ledger_view t (snd (reserve D na nr i L)) = ledger_view t L \<and> ledger_keys (snd (reserve D na nr i L))"
proof -
  obtain x L1 where e: "ensure_account D na (ri_key i) None L = (x, L1)" by (cases "ensure_account D na (ri_key i) None L")
  note e1 = ensure_account_isolated [OF assms(1-3) e]
  show ?thesis
  proof (cases x)
    case (Inr a)
    have "ledger_view t (snd (transaction (reserve_tx nr i (fa_id a) q) L1)) = ledger_view t L1
        \<and> ledger_keys (snd (transaction (reserve_tx nr i (fa_id a) q) L1))" for q
      by (intro transaction_isolated reserve_tx_isolated) (use e1 Inr assms in auto)
    then show ?thesis using e e1(1,2) Inr by (simp add: reserve_def split: option.splits)
  qed (use e e1 in \<open>simp add: reserve_def\<close>)
qed

lemma reserve_returns:
  "reserve D na nr i L = (Inr res, L') \<Longrightarrow> res \<in> set (lg_reservations L') \<and> re_company_id res = ak_company_id (ri_key i)"
  by (auto simp: reserve_def transaction_Inr reserve_tx_def Let_def update_account_def
      split: prod.splits sum.splits option.splits if_splits)

definition execution_view where
  "execution_view t X =
     (ledger_view t (xd_ledger X), filter (\<lambda>r. xr_company_id r = t) (xd_requests X),
      filter (\<lambda>s. find_request t (xs_execution_request_id s) X \<noteq> None) (xd_results X),
      filter (\<lambda>v. find_request t (xv_execution_request_id v) X \<noteq> None) (xd_verifications X))"

definition execution_keys :: "execution_db \<Rightarrow> bool" where
  "execution_keys X \<longleftrightarrow> ledger_keys (xd_ledger X) \<and> distinct (map xr_id (xd_requests X))"

lemma find_request_known:
  "find_request t i X \<noteq> None \<longleftrightarrow> (\<exists>r \<in> set (xd_requests X). xr_id r = i \<and> xr_company_id r = t)"
  by (auto simp: find_request_def find_None_iff)

lemma find_request_company:
  "find_request c i X = Some r \<Longrightarrow> r \<in> set (xd_requests X) \<and> xr_id r = i \<and> xr_company_id r = c"
  by (auto simp: find_request_def dest: find_SomeD)

lemma find_request_other:
  assumes "execution_keys X" and "find_request c i X = Some r" and "t \<noteq> c"
  shows "find_request t i X = None"
proof (rule ccontr)
  assume "find_request t i X \<noteq> None"
  then obtain q where "q \<in> set (xd_requests X)" "xr_id q = i" "xr_company_id q = t"
    unfolding find_request_known by blast
  then show False
    using key_owner [of xr_id "xd_requests X" r q xr_company_id] find_request_company [OF assms(2)] assms(1,3)
    by (simp add: execution_keys_def)
qed

lemma on_ledger_isolated:
  assumes "execution_keys X"
    and "ledger_view t (snd (m (xd_ledger X))) = ledger_view t (xd_ledger X) \<and> ledger_keys (snd (m (xd_ledger X)))"
  shows "execution_view t (snd (on_ledger m X)) = execution_view t X \<and> execution_keys (snd (on_ledger m X))"
  using assms
  by (auto simp: on_ledger_def execution_view_def execution_keys_def find_request_def split: prod.splits sum.splits)

lemma set_request_status_isolated:
  assumes "execution_keys X" and "find_request c i X = Some r" and "t \<noteq> c"
  shows "execution_view t (set_request_status (xr_id r) st X) = execution_view t X
    \<and> execution_keys (set_request_status (xr_id r) st X)"
proof -
  note r = find_request_company [OF assms(2)]
  have other: "xr_company_id q \<noteq> t" if "q \<in> set (xd_requests X)" "xr_id q = xr_id r" for q
    using key_owner [of xr_id "xd_requests X" r q xr_company_id] r assms(1,3) that by (simp add: execution_keys_def)
  have "filter (\<lambda>q. xr_company_id q = t) (update_where (\<lambda>q. xr_id q = xr_id r) (\<lambda>q. q\<lparr>xr_status := st\<rparr>) (xd_requests X))
      = filter (\<lambda>q. xr_company_id q = t) (xd_requests X)"
    using other by (intro filter_update_other) auto
  moreover have "find_request t j (set_request_status (xr_id r) st X) \<noteq> None \<longleftrightarrow> find_request t j X \<noteq> None" for j
    unfolding find_request_known by (simp add: set_request_status_def ex_update_where)
  ultimately show ?thesis
    using assms(1) by (simp add: execution_view_def execution_keys_def)
      (simp add: set_request_status_def map_update_where_same)
qed

text \<open>The reservation bound to an execution is found in the company and settled there.\<close>

lemma hold_reservation_isolated:
  assumes "execution_keys X" and "t \<noteq> c"
  shows "execution_view t (snd (hold_reservation c i X)) = execution_view t X \<and> execution_keys (snd (hold_reservation c i X))"
proof -
  have "execution_view t (snd (on_ledger (mark_unknown c j) X)) = execution_view t X
      \<and> execution_keys (snd (on_ledger (mark_unknown c j) X))" for j
    by (intro on_ledger_isolated mark_unknown_isolated) (use assms in \<open>simp_all add: execution_keys_def\<close>)
  then show ?thesis using assms(1) by (simp add: hold_reservation_def split: option.splits)
qed

lemma release_reservation_isolated:
  assumes "execution_keys X" and "t \<noteq> c"
  shows "execution_view t (snd (release_reservation now c i X)) = execution_view t X
    \<and> execution_keys (snd (release_reservation now c i X))"
proof -
  have "execution_view t (snd (on_ledger (release now c j) X)) = execution_view t X
      \<and> execution_keys (snd (on_ledger (release now c j) X))" for j
    by (intro on_ledger_isolated release_isolated) (use assms in \<open>simp_all add: execution_keys_def\<close>)
  then show ?thesis using assms(1) by (simp add: release_reservation_def split: option.splits)
qed

lemma append_result_isolated:
  assumes "execution_keys X" and "find_request c i X = Some r" and "t \<noteq> c" and "xs_execution_request_id s = xr_id r"
  shows "execution_view t (X\<lparr>xd_results := xd_results X @ [s]\<rparr>) = execution_view t X
    \<and> execution_keys (X\<lparr>xd_results := xd_results X @ [s]\<rparr>)"
  using assms find_request_other [OF assms(1-3)] find_request_company [OF assms(2)]
  by (simp add: execution_view_def execution_keys_def find_request_def)

lemma append_verification_isolated:
  assumes "execution_keys X" and "find_request c i X = Some r" and "t \<noteq> c" and "xv_execution_request_id v = xr_id r"
  shows "execution_view t (X\<lparr>xd_verifications := xd_verifications X @ [v]\<rparr>) = execution_view t X
    \<and> execution_keys (X\<lparr>xd_verifications := xd_verifications X @ [v]\<rparr>)"
  using assms find_request_other [OF assms(1-3)] find_request_company [OF assms(2)]
  by (simp add: execution_view_def execution_keys_def find_request_def)

lemma snd_case_result: "snd (case m of (Inl e, Z) \<Rightarrow> (Inl e, Z) | (Inr _, Z) \<Rightarrow> (Inr y, Z)) = snd m"
  by (auto split: prod.splits sum.splits)

lemma ingest_result_isolated:
  assumes "execution_keys X" and "t \<noteq> c"
  shows "execution_view t (snd (ingest_result dm now nid c i X)) = execution_view t X
    \<and> execution_keys (snd (ingest_result dm now nid c i X))"
proof (cases "find_request c (xi_execution_id i) X")
  case (Some r)
  have written: "execution_view t (set_request_status (xr_id r) st (X\<lparr>xd_results := xd_results X @ [row]\<rparr>)) = execution_view t X
      \<and> execution_keys (set_request_status (xr_id r) st (X\<lparr>xd_results := xd_results X @ [row]\<rparr>))"
    if "xs_execution_request_id row = xr_id r" for row st
  proof -
    let ?X = "X\<lparr>xd_results := xd_results X @ [row]\<rparr>"
    note 1 = append_result_isolated [OF assms(1) Some assms(2) that]
    have "find_request c (xi_execution_id i) ?X = Some r" using Some by (simp add: find_request_def)
    from set_request_status_isolated [OF conjunct2 [OF 1] this assms(2)] 1 show ?thesis by simp
  qed
  have held_back: "execution_view t (snd (hold_reservation c (xr_id r) (set_request_status (xr_id r) st
        (X\<lparr>xd_results := xd_results X @ [row]\<rparr>)))) = execution_view t X
      \<and> execution_keys (snd (hold_reservation c (xr_id r) (set_request_status (xr_id r) st
        (X\<lparr>xd_results := xd_results X @ [row]\<rparr>))))"
    if "xs_execution_request_id row = xr_id r" for row st
    using hold_reservation_isolated [OF conjunct2 [OF written [OF that, of st]] assms(2), of "xr_id r"] written [OF that, of st]
    by simp
  have released: "execution_view t (snd (release_reservation now c (xr_id r) (set_request_status (xr_id r) st
        (X\<lparr>xd_results := xd_results X @ [row]\<rparr>)))) = execution_view t X
      \<and> execution_keys (snd (release_reservation now c (xr_id r) (set_request_status (xr_id r) st
        (X\<lparr>xd_results := xd_results X @ [row]\<rparr>))))"
    if "xs_execution_request_id row = xr_id r" for row st
    using release_reservation_isolated [OF conjunct2 [OF written [OF that, of st]] assms(2), of now "xr_id r"] written [OF that, of st]
    by simp
  show ?thesis
    by (simp add: ingest_result_def Some Let_def snd_case_result assms(1) written held_back released split: sum.split)
qed (simp add: ingest_result_def assms(1))

lemma reconcile_isolated:
  assumes "execution_keys X" and "t \<noteq> c"
  shows "execution_view t (snd (reconcile g now c i X)) = execution_view t X \<and> execution_keys (snd (reconcile g now c i X))"
proof (cases "find_request c i X")
  case (Some r)
  have status: "execution_view t (set_request_status (xr_id r) st X) = execution_view t X
      \<and> execution_keys (set_request_status (xr_id r) st X)" for st
    by (rule set_request_status_isolated [OF assms(1) Some assms(2)])
  have "execution_view t (snd (on_ledger (reconcile_release now c j) (set_request_status (xr_id r) st X))) = execution_view t X
      \<and> execution_keys (snd (on_ledger (reconcile_release now c j) (set_request_status (xr_id r) st X)))" for j st
    using on_ledger_isolated [OF conjunct2 [OF status], of t "reconcile_release now c j" st]
      reconcile_release_isolated [OF _ assms(2), of "xd_ledger (set_request_status (xr_id r) st X)" now j] status
    by (simp add: execution_keys_def)
  then show ?thesis
    using assms(1) status
    by (auto simp: reconcile_def Some Let_def split: sum.splits option.splits prod.splits) (metis snd_conv)+
qed (simp add: reconcile_def assms(1))

lemma verify_and_finalize_isolated:
  assumes "execution_keys X" and "t \<noteq> c"
  shows "execution_view t (snd (verify_and_finalize D g now nid c i a X)) = execution_view t X
    \<and> execution_keys (snd (verify_and_finalize D g now nid c i a X))"
proof (cases "find_request c i X")
  case (Some r)
  have written: "execution_view t (X\<lparr>xd_verifications := xd_verifications X @ [row]\<rparr>) = execution_view t X
      \<and> execution_keys (X\<lparr>xd_verifications := xd_verifications X @ [row]\<rparr>)"
    if "xv_execution_request_id row = xr_id r" for row
    by (rule append_verification_isolated [OF assms(1) Some assms(2) that])
  have committed: "execution_view t (snd (on_ledger (commit now c j) (X\<lparr>xd_verifications := xd_verifications X @ [row]\<rparr>))) = execution_view t X
      \<and> execution_keys (snd (on_ledger (commit now c j) (X\<lparr>xd_verifications := xd_verifications X @ [row]\<rparr>)))"
    if "xv_execution_request_id row = xr_id r" for row j
    using on_ledger_isolated [OF conjunct2 [OF written [OF that]], of t "commit now c j"]
      commit_isolated [OF _ assms(2), of "xd_ledger X" now j] written [OF that] assms(1)
    by (simp add: execution_keys_def)
  show ?thesis
    by (simp add: verify_and_finalize_def Some Let_def snd_case_result assms(1) written committed split: sum.split option.split)
qed (simp add: verify_and_finalize_def assms(1))

section \<open>The gate\<close>

definition gate_view where
  "gate_view t G =
     (authority_view t (gd_authority G), policy_view t (gd_policies G), approval_view t (gd_approvals G),
      filter (\<lambda>r. ir_company_id r = t) (gd_idempotency G), execution_view t (gd_execution G))"

definition gate_keys :: "gate_db \<Rightarrow> bool" where
  "gate_keys G \<longleftrightarrow> authority_keys (gd_authority G) \<and> policy_keys (gd_policies G)
     \<and> approval_keys (gd_approvals G) \<and> execution_keys (gd_execution G)"

lemma register_isolated:
  "t \<noteq> gi_company_id i \<Longrightarrow>
     filter (\<lambda>r. ir_company_id r = t) (snd (register sha nid i I)) = filter (\<lambda>r. ir_company_id r = t) I"
  by (simp add: register_def register_between_def register_insert_def Let_def split: option.split)

lemma authorize_isolated:
  assumes "execution_keys X" and "t \<noteq> vi_company_id i" and "fi_account n \<notin> fa_id ` set (lg_accounts (xd_ledger X))"
    and "fi_reservation n \<notin> re_id ` set (lg_reservations (xd_ledger X))" and "fi_request n \<notin> xr_id ` set (xd_requests X)"
  shows "execution_view t (snd (authorize R n i now v pe X)) = execution_view t X
    \<and> execution_keys (snd (authorize R n i now v pe X))"
proof (cases rule: authorize_cases [of R i X n now v pe])
  case (existing r)
  then show ?thesis using assms(1) by simp
next
  case (no_budget e L)
  have "ledger_view t L = ledger_view t (xd_ledger X) \<and> ledger_keys L"
    using reserve_isolated [of "xd_ledger X" t "budget_request i" "fi_account n" "fi_reservation n" "rt_decimal R"]
      assms no_budget(2) by (simp add: execution_keys_def budget_request_def)
  then show ?thesis
    using assms(1) by (simp add: no_budget(4) execution_view_def execution_keys_def find_request_def)
next
  case (minted res L q)
  have L: "ledger_view t L = ledger_view t (xd_ledger X) \<and> ledger_keys L"
    using reserve_isolated [of "xd_ledger X" t "budget_request i" "fi_account n" "fi_reservation n" "rt_decimal R"]
      assms minted(2) by (simp add: execution_keys_def budget_request_def)
  have "ledger_view t (bind_reservation (re_id res) (xr_id q) L) = ledger_view t L
      \<and> ledger_keys (bind_reservation (re_id res) (xr_id q) L)"
    unfolding bind_reservation_def
    by (rule update_reservation_isolated) (use L reserve_returns [OF minted(2)] assms(2) in \<open>auto simp: budget_request_def\<close>)
  moreover have "find_request t j (X\<lparr>xd_requests := xd_requests X @ [q], xd_ledger := M\<rparr>) \<noteq> None
      \<longleftrightarrow> find_request t j X \<noteq> None" for j M
    unfolding find_request_known using minted(4) assms(2) by auto
  ultimately show ?thesis
    using L assms(1,2,5) minted(3,4) by (simp add: minted(13) execution_view_def execution_keys_def)
qed

lemma revalidate_isolated:
  assumes "gate_keys G" and "t \<noteq> vi_company_id i" and "fi_account n \<notin> fa_id ` set (lg_accounts (xd_ledger (gd_execution G)))"
    and "fi_reservation n \<notin> re_id ` set (lg_reservations (xd_ledger (gd_execution G)))"
    and "fi_request n \<notin> xr_id ` set (xd_requests (gd_execution G))"
  shows "gate_view t (snd (revalidate R to_iso n i now G)) = gate_view t G \<and> gate_keys (snd (revalidate R to_iso n i now G))"
proof -
  have I: "filter (\<lambda>r. ir_company_id r = t) (snd (register (rt_sha R) (fi_idempotency n) (execution_registration R i) (gd_idempotency G)))
      = filter (\<lambda>r. ir_company_id r = t) (gd_idempotency G)"
    by (rule register_isolated) (simp add: execution_registration_def assms(2))
  have X: "execution_view t (snd (authorize R n i now v pe (gd_execution G))) = execution_view t (gd_execution G)
      \<and> execution_keys (snd (authorize R n i now v pe (gd_execution G)))" for v pe
    by (rule authorize_isolated) (use assms in \<open>simp_all add: gate_keys_def\<close>)
  show ?thesis
    by (cases rule: revalidate_cases [of R to_iso i G now n]) (use assms(1) I X in \<open>simp_all add: gate_view_def gate_keys_def\<close>)
qed

section \<open>Intake\<close>

definition intake_view where
  "intake_view t db =
     (filter (\<lambda>r. nw_company_id r = t) (ik_intents db), filter (\<lambda>r. pw_company_id r = t) (ik_proposals db),
      filter (\<lambda>r. sw_company_id r = t) (ik_assessments db))"

lemma intake_isolated:
  assumes "t \<noteq> c"
  shows "intake_view t (snd (create_intent P R A now nid c j db)) = intake_view t db"
    and "intake_view t (snd (create_proposal P now nid c j db)) = intake_view t db"
    and "intake_view t (snd (ingest_assessment P R now nid c pid j db)) = intake_view t db"
  using assms
  by (auto simp: intake_view_def create_intent_def create_proposal_def ingest_assessment_def Let_def split: option.splits)

end
