(* ===== verification/Api_Router.thy ===== *)
theory Api_Router
  imports Gateway
begin

text \<open>
  The routes of /v1 as one request handler: \<open>api_request\<close> has a constructor per registered
  route, in the order of Backend/src/api/routes/v1.ts, with the path parameters, the body and the
  identifiers that the database will give to the new rows; \<open>serve\<close> authenticates the headers,
  runs the route and answers the status code of the reply.
\<close>

datatype (plugins only: code) api_request =
    Get_agents pagination
  | Get_agent string
  | Get_agent_status string
  | Post_agents string "string option" "string option" "execution_mode option"
  | Patch_agent string "string option"
  | Get_intents pagination
  | Get_intent string
  | Post_intents string json
  | Get_proposals pagination
  | Get_proposal string
  | Post_proposals string json
  | Post_assessments string string json
  | Get_assessment string
  | Get_policies pagination
  | Get_policy string
  | Get_policy_versions string
  | Post_policies string string "string option" "string option" "string option" "compiled_rule list option"
  | Post_policies_compile string string "string option" "string option" "compiled_rule list option"
  | Post_policy_validate string
  | Post_policy_activate string string
  | Post_constitutions string string constitution_config
  | Post_constitution_activate string
  | Get_decisions pagination
  | Get_decision string
  | Get_decision_timeline string
  | Post_decisions string string decision_body
  | Get_approvals pagination
  | Get_approval string
  | Post_approve string string string
  | Post_deny string string
  | Post_prepare fresh_ids prepare_body
  | Get_executions pagination
  | Get_execution string
  | Get_verification string
  | Post_reconcile string
  | Post_result string string execution_result_status string "string option"
  | Post_verify string string receipt_snapshot
  | Get_audit string
  | Get_audit_timeline string
  | Get_forensics string
  | Get_attestations string

definition status_of :: "'a route \<Rightarrow> nat handler" where
  "status_of m = then_op m (\<lambda>(n, _). return_op n)"

primrec dispatch :: "core_services \<Rightarrow> int \<Rightarrow> auth_context \<Rightarrow> api_request \<Rightarrow> nat handler" where
  "dispatch S now a (Get_agents p) = status_of (list_agents_route a p)"
| "dispatch S now a (Get_agent i) = status_of (get_agent_route a i)"
| "dispatch S now a (Get_agent_status i) = status_of (agent_status_route a i)"
| "dispatch S now a (Post_agents nid name purpose mode) = status_of (create_agent_route nid a name purpose mode)"
| "dispatch S now a (Patch_agent i st) = status_of (patch_agent_route a i st)"
| "dispatch S now a (Get_intents p) = status_of (list_intents_route a p)"
| "dispatch S now a (Get_intent i) = status_of (get_intent_route a i)"
| "dispatch S now a (Post_intents nid j) = status_of (create_intent_route S now nid a j)"
| "dispatch S now a (Get_proposals p) = status_of (list_proposals_route a p)"
| "dispatch S now a (Get_proposal i) = status_of (get_proposal_route a i)"
| "dispatch S now a (Post_proposals nid j) = status_of (create_proposal_route S now nid a j)"
| "dispatch S now a (Post_assessments nid i j) = status_of (ingest_assessment_route S now nid a i j)"
| "dispatch S now a (Get_assessment i) = status_of (latest_assessment_route a i)"
| "dispatch S now a (Get_policies p) = status_of (list_policies_route a p)"
| "dispatch S now a (Get_policy i) = status_of (get_policy_route a i)"
| "dispatch S now a (Get_policy_versions i) = status_of (policy_versions_route a i)"
| "dispatch S now a (Post_policies np nv name ag d rules) = status_of (create_policy_route S np nv a name ag d rules)"
| "dispatch S now a (Post_policies_compile np nv name ag rules) = status_of (compile_policy_route S np nv a name ag rules)"
| "dispatch S now a (Post_policy_validate v) = status_of (validate_policy_route a v)"
| "dispatch S now a (Post_policy_activate i v) = status_of (activate_policy_route now a i v)"
| "dispatch S now a (Post_constitutions nid ag g) = status_of (create_constitution_route S nid a ag g)"
| "dispatch S now a (Post_constitution_activate i) = status_of (activate_constitution_route now a i)"
| "dispatch S now a (Get_decisions p) = status_of (list_decisions_route a p)"
| "dispatch S now a (Get_decision i) = status_of (get_decision_route a i)"
| "dispatch S now a (Get_decision_timeline i) = status_of (decision_timeline_route a i)"
| "dispatch S now a (Post_decisions nd na b) = status_of (create_decision_route S now nd na a b)"
| "dispatch S now a (Get_approvals p) = status_of (list_approvals_route a p)"
| "dispatch S now a (Get_approval i) = status_of (get_approval_route a i)"
| "dispatch S now a (Post_approve nid i h) = status_of (approve_route now nid a i h)"
| "dispatch S now a (Post_deny nid i) = status_of (deny_route now nid a i)"
| "dispatch S now a (Post_prepare n b) = status_of (prepare_route S now n a b)"
| "dispatch S now a (Get_executions p) = status_of (list_executions_route a p)"
| "dispatch S now a (Get_execution i) = status_of (get_execution_route a i)"
| "dispatch S now a (Get_verification i) = status_of (verifications_route a i)"
| "dispatch S now a (Post_reconcile i) = status_of (reconcile_route S now a i)"
| "dispatch S now a (Post_result nid i st ch tx) = status_of (result_route S now nid a i st ch tx)"
| "dispatch S now a (Post_verify nid i snap) = status_of (verify_route S now nid a i snap)"
| "dispatch S now a (Get_audit i) = status_of (audit_route a i)"
| "dispatch S now a (Get_audit_timeline i) = status_of (audit_timeline_route S a i)"
| "dispatch S now a (Get_forensics i) = status_of (forensics_route a i)"
| "dispatch S now a (Get_attestations i) = status_of (attestations_route a i)"

definition serve :: "core_services \<Rightarrow> int \<Rightarrow> headers \<Rightarrow> api_request \<Rightarrow> core_db \<Rightarrow> nat \<times> core_db" where
  "serve S now h r db =
     (case handle S h (\<lambda>a. dispatch S now a r) db of
        (Inl e, db') \<Rightarrow> (err_http_status (to_core_error e), db')
      | (Inr n, db') \<Rightarrow> (n, db'))"

text \<open>The identifiers that a request brings for the rows it creates.\<close>

definition new_ids :: "api_request \<Rightarrow> string list" where
  "new_ids r =
     (case r of
        Post_agents nid _ _ _ \<Rightarrow> [nid] | Post_intents nid _ \<Rightarrow> [nid] | Post_proposals nid _ \<Rightarrow> [nid]
      | Post_assessments nid _ _ \<Rightarrow> [nid] | Post_policies np nv _ _ _ _ \<Rightarrow> [np, nv]
      | Post_policies_compile np nv _ _ _ \<Rightarrow> [np, nv] | Post_constitutions nid _ _ \<Rightarrow> [nid]
      | Post_decisions nd na _ \<Rightarrow> [nd, na] | Post_approve nid _ _ \<Rightarrow> [nid] | Post_deny nid _ \<Rightarrow> [nid]
      | Post_prepare n _ \<Rightarrow> [fi_account n, fi_reservation n, fi_request n, fi_idempotency n]
      | Post_result nid _ _ _ _ \<Rightarrow> [nid] | Post_verify nid _ _ \<Rightarrow> [nid]
      | _ \<Rightarrow> [])"

section \<open>Requests without credentials\<close>

lemma serve_unauthenticated:
  assumes "authenticate (gs_config S) h = Inl e"
  shows "serve S now h r db = (err_http_status (core_error_of e default_options), db)"
  using assms by (simp add: serve_def handle_def then_op_def reading_def to_core_error_def)

lemma serve_authenticated:
  assumes "authenticate (gs_config S) h = Inr a"
  shows "snd (serve S now h r db) = snd (dispatch S now a r db)"
  using assms by (auto simp: serve_def handle_def then_op_def reading_def split: prod.splits sum.splits)

text \<open>
  The exception of a schema's \<open>parse\<close> is no \<open>CoreError\<close>: a decision request with a malformed
  intent is answered like a fault of the server.
\<close>

theorem malformed_contract_is_internal:
  assumes "authenticate (gs_config S) h = Inr a" and "cp_intent (gs_parser S) (bd_intent b) = None"
  shows "serve S now h (Post_decisions nd na b) db = (500, db)"
  using assms
  by (simp add: serve_def handle_def then_op_def reading_def status_of_def create_decision_route_def parsed_def
      from_option_def to_core_error_def core_error_of_def default_options_def)

end
