(* ===== verification/Tenant_Isolation.thy ===== *)
theory Tenant_Isolation
  imports Tenant_Tables Api_Router
begin

text \<open>
  Tenant isolation of the product API: a request authenticated for one tenant changes nothing that
  another tenant sees, in any run of the API, with the one exception that the code has, the
  activation of a policy that names an agent of another tenant.
\<close>

section \<open>What a tenant sees\<close>

definition tenant_view where
  "tenant_view t db =
     (gate_view t (kd_gate db), intake_view t (kd_intake db),
      filter (\<lambda>r. tt_company_id r = t) (tj_traces (kd_trajectory db)),
      filter (\<lambda>e. te_company_id e = t) (tj_events (kd_trajectory db)),
      filter (\<lambda>e. ae_company_id e = t) (kd_audit db), filter (\<lambda>r. tw_company_id r = t) (kd_attestations db))"

text \<open>Ids are unique and references stay in one company.\<close>

definition core_keys :: "core_db \<Rightarrow> bool" where
  "core_keys db \<longleftrightarrow> gate_keys (kd_gate db)"

definition unused :: "string \<Rightarrow> core_db \<Rightarrow> bool" where
  "unused i db \<longleftrightarrow>
     i \<notin> ag_id ` set (ah_agents (authority_of db)) \<and> i \<notin> cn_id ` set (ah_constitutions (authority_of db))
   \<and> i \<notin> pc_id ` set (pl_policies (policies_of db)) \<and> i \<notin> vn_id ` set (pl_versions (policies_of db))
   \<and> i \<notin> rw_policy_version_id ` set (pl_rules (policies_of db)) \<and> i \<notin> aq_id ` set (ad_requests (approvals_of db))
   \<and> i \<notin> fa_id ` set (lg_accounts (xd_ledger (execution_of db)))
   \<and> i \<notin> re_id ` set (lg_reservations (xd_ledger (execution_of db))) \<and> i \<notin> xr_id ` set (xd_requests (execution_of db))"

text \<open>No policy of the tenant names an agent of another one.\<close>

definition own_policy_agents :: "string \<Rightarrow> core_db \<Rightarrow> bool" where
  "own_policy_agents c db \<longleftrightarrow>
     (\<forall>p \<in> set (pl_policies (policies_of db)). pc_company_id p = c \<longrightarrow>
        (\<forall>g \<in> set (ah_agents (authority_of db)). pc_agent_id p = Some (ag_id g) \<longrightarrow> ag_company_id g = c))"

section \<open>Handlers that keep the view of a tenant\<close>

definition keeps :: "string \<Rightarrow> (core_db \<Rightarrow> bool) \<Rightarrow> 'a handler \<Rightarrow> bool" where
  "keeps t P m \<longleftrightarrow> (\<forall>db. core_keys db \<longrightarrow> P db \<longrightarrow>
     tenant_view t (snd (m db)) = tenant_view t db \<and> core_keys (snd (m db)))"

definition read_only :: "'a handler \<Rightarrow> bool" where
  "read_only m \<longleftrightarrow> (\<forall>db. snd (m db) = db)"

named_theorems read_only_rules \<open>handlers that write nothing\<close>

lemma read_only_basic [read_only_rules]:
  "read_only (reading f)" "read_only (parsed v)" "read_only (return_op x)" "read_only (answer n x)"
  by (simp_all add: read_only_def reading_def parsed_def return_op_def answer_def)

lemma read_only_then [read_only_rules]:
  "read_only m \<Longrightarrow> (\<And>x. read_only (k x)) \<Longrightarrow> read_only (then_op m k)"
  by (auto simp: read_only_def then_op_def split: prod.splits sum.splits) (metis snd_conv)+

lemma keeps_read_only: "read_only m \<Longrightarrow> keeps t P m"
  by (simp add: keeps_def read_only_def)

lemma keeps_weaken: "keeps t Q m \<Longrightarrow> (\<And>db. P db \<Longrightarrow> Q db) \<Longrightarrow> keeps t P m"
  by (simp add: keeps_def)

lemma keeps_then:
  assumes "keeps t P m" and "\<And>db. P db \<Longrightarrow> Q (snd (m db))" and "\<And>x. keeps t Q (k x)"
  shows "keeps t P (then_op m k)"
  unfolding keeps_def
proof (intro allI impI)
  fix db assume db: "core_keys db" "P db"
  obtain r db' where m: "m db = (r, db')" by (cases "m db")
  have 1: "tenant_view t db' = tenant_view t db" "core_keys db'" "Q db'"
    using assms(1) assms(2) [OF db(2)] db m by (auto simp: keeps_def)
  show "tenant_view t (snd (then_op m k db)) = tenant_view t db \<and> core_keys (snd (then_op m k db))"
  proof (cases r)
    case (Inr x)
    then show ?thesis using assms(3) [of x] 1 m by (simp add: keeps_def then_op_def)
  qed (use 1 m in \<open>simp add: then_op_def\<close>)
qed

lemma keeps_read_then:
  "read_only m \<Longrightarrow> (\<And>x. keeps t P (k x)) \<Longrightarrow> keeps t P (then_op m k)"
  by (rule keeps_then [where Q = P]) (simp_all add: keeps_read_only, simp add: read_only_def)

lemma keeps_parsed_then: "(\<And>x. keeps t P (k x)) \<Longrightarrow> keeps t P (then_op (parsed v) k)"
  and keeps_reading_then: "(\<And>x. keeps t P (l x)) \<Longrightarrow> keeps t P (then_op (reading f) l)"
  by (simp_all add: keeps_read_then read_only_rules)

text \<open>What follows a write may only read.\<close>

lemma keeps_then_read:
  "keeps t P m \<Longrightarrow> (\<And>x. read_only (k x)) \<Longrightarrow> keeps t P (then_op m k)"
  by (rule keeps_then [where Q = "\<lambda>_. True"]) (simp_all add: keeps_read_only)

lemma keeps_with_role: "keeps t P m \<Longrightarrow> keeps t P (with_role a roles m)"
  by (simp add: with_role_def keeps_read_then read_only_rules)

lemma keeps_status_of: "keeps t P m \<Longrightarrow> keeps t P (status_of m)"
  unfolding status_of_def by (rule keeps_then_read) (auto intro: read_only_rules split: prod.splits)

lemma read_only_status_of: "read_only m \<Longrightarrow> read_only (status_of m)"
  unfolding status_of_def by (intro read_only_rules) (auto intro: read_only_rules split: prod.splits)

lemma keeps_on_authority:
  "(\<And>db. core_keys db \<Longrightarrow> P db \<Longrightarrow> authority_view t (snd (m (authority_of db))) = authority_view t (authority_of db)
      \<and> authority_keys (snd (m (authority_of db)))) \<Longrightarrow> keeps t P (on_authority m)"
  by (auto simp: keeps_def on_authority_def run_on_def core_keys_def gate_keys_def tenant_view_def gate_view_def
      split: prod.splits) (metis snd_conv)+

lemma keeps_on_policies:
  "(\<And>db. core_keys db \<Longrightarrow> P db \<Longrightarrow> policy_view t (snd (m (policies_of db))) = policy_view t (policies_of db)
      \<and> policy_keys (snd (m (policies_of db)))) \<Longrightarrow> keeps t P (on_policies m)"
  by (auto simp: keeps_def on_policies_def run_on_def core_keys_def gate_keys_def tenant_view_def gate_view_def
      split: prod.splits) (metis snd_conv)+

lemma keeps_on_approvals:
  "(\<And>db. core_keys db \<Longrightarrow> P db \<Longrightarrow> approval_view t (snd (m (approvals_of db))) = approval_view t (approvals_of db)
      \<and> approval_keys (snd (m (approvals_of db)))) \<Longrightarrow> keeps t P (on_approvals m)"
  by (auto simp: keeps_def on_approvals_def run_on_def core_keys_def gate_keys_def tenant_view_def gate_view_def
      split: prod.splits) (metis snd_conv)+

lemma keeps_on_execution:
  "(\<And>db. core_keys db \<Longrightarrow> P db \<Longrightarrow> execution_view t (snd (m (execution_of db))) = execution_view t (execution_of db)
      \<and> execution_keys (snd (m (execution_of db)))) \<Longrightarrow> keeps t P (on_execution m)"
  by (auto simp: keeps_def on_execution_def run_on_def core_keys_def gate_keys_def tenant_view_def gate_view_def
      split: prod.splits) (metis snd_conv)+

lemma keeps_on_gate:
  "(\<And>db. core_keys db \<Longrightarrow> P db \<Longrightarrow> gate_view t (snd (m (kd_gate db))) = gate_view t (kd_gate db)
      \<and> gate_keys (snd (m (kd_gate db)))) \<Longrightarrow> keeps t P (on_gate m)"
  by (auto simp: keeps_def on_gate_def run_on_def core_keys_def tenant_view_def split: prod.splits) (metis snd_conv)+

lemma keeps_on_intake:
  "(\<And>db. P db \<Longrightarrow> intake_view t (snd (m (kd_intake db))) = intake_view t (kd_intake db)) \<Longrightarrow> keeps t P (on_intake m)"
  by (auto simp: keeps_def on_intake_def run_on_def core_keys_def tenant_view_def split: prod.splits) (metis snd_conv)+

section \<open>The routes\<close>

text \<open>Every GET route writes nothing.\<close>

lemma get_routes_read_only [read_only_rules]:
  "read_only (list_agents_route a p)" "read_only (get_agent_route a i)" "read_only (agent_status_route a i)"
  "read_only (list_intents_route a p)" "read_only (get_intent_route a i)"
  "read_only (list_proposals_route a p)" "read_only (get_proposal_route a i)" "read_only (latest_assessment_route a i)"
  "read_only (list_policies_route a p)" "read_only (get_policy_route a i)" "read_only (policy_versions_route a i)"
  "read_only (list_decisions_route a p)" "read_only (get_decision_route a i)" "read_only (decision_timeline_route a i)"
  "read_only (list_approvals_route a p)" "read_only (get_approval_route a i)"
  "read_only (list_executions_route a p)" "read_only (get_execution_route a i)" "read_only (verifications_route a i)"
  "read_only (audit_route a i)" "read_only (audit_timeline_route S a i)" "read_only (forensics_route a i)"
  "read_only (attestations_route a i)"
  unfolding list_agents_route_def get_agent_route_def agent_status_route_def list_intents_route_def get_intent_route_def
    list_proposals_route_def get_proposal_route_def latest_assessment_route_def list_policies_route_def
    get_policy_route_def policy_versions_route_def list_decisions_route_def get_decision_route_def
    decision_timeline_route_def list_approvals_route_def get_approval_route_def list_executions_route_def
    get_execution_route_def verifications_route_def audit_route_def audit_timeline_route_def forensics_route_def
    attestations_route_def
  by (auto intro!: read_only_rules split: prod.splits)

lemma keeps_dependent: "(\<And>db0. keeps t P (m db0)) \<Longrightarrow> keeps t P (\<lambda>db. m db db)"
  by (simp add: keeps_def)

lemma create_agent_keeps:
  "t \<noteq> at_company_id a \<Longrightarrow> keeps t (unused nid) (create_agent_route nid a name purpose mode)"
  unfolding create_agent_route_def
  by (intro keeps_with_role keeps_then_read keeps_on_authority create_agent_isolated read_only_rules)
    (auto simp: core_keys_def gate_keys_def unused_def)

lemma patch_agent_keeps:
  assumes "t \<noteq> at_company_id a"
  shows "keeps t P (patch_agent_route a i st)"
proof -
  have moved: "keeps t P (on_authority (transition_agent (at_company_id a) i s))" for s
    by (intro keeps_on_authority transition_agent_isolated) (use assms in \<open>auto simp: core_keys_def gate_keys_def\<close>)
  have "keeps t P (then_op (on_authority (fn (at_company_id a) i)) (\<lambda>_. return_op ()))" if "agent_transition s = Some fn" for s fn
    using that moved
    by (auto simp: agent_transition_def activate_agent_def pause_agent_def suspend_agent_def disable_agent_def
        intro!: keeps_then_read read_only_rules split: if_splits)
  then have "keeps t P (call_transition s (at_company_id a) i)" for s
    by (auto simp: call_transition_def intro: keeps_read_only read_only_rules split: option.splits)
  then have "keeps t P (if truthy st then call_transition (the st) (at_company_id a) i else return_op ())"
    by (simp add: keeps_read_only read_only_rules)
  then show ?thesis
    unfolding patch_agent_route_def
    by (intro keeps_with_role keeps_read_then keeps_then_read read_only_rules)
qed

lemma intake_routes_keep:
  assumes "t \<noteq> at_company_id a"
  shows "keeps t P (create_intent_route S now nid a j)" and "keeps t P (create_proposal_route S now nid a j)"
    and "keeps t P (ingest_assessment_route S now nid a i j)"
proof -
  show "keeps t P (create_intent_route S now nid a j)"
    unfolding create_intent_route_def
    by (rule keeps_dependent, intro keeps_then_read keeps_on_intake intake_isolated assms read_only_rules)
  show "keeps t P (create_proposal_route S now nid a j)" "keeps t P (ingest_assessment_route S now nid a i j)"
    unfolding create_proposal_route_def ingest_assessment_route_def
    by (intro keeps_then_read keeps_on_intake intake_isolated assms read_only_rules)+
qed

lemma draft_keeps:
  assumes "t \<noteq> at_company_id a"
  shows "keeps t (\<lambda>db. unused np db \<and> unused nv db) (draft_route S np nv a name ag d rules src)"
  unfolding draft_route_def
  by (rule keeps_dependent, intro keeps_with_role keeps_then_read keeps_on_policies create_draft_isolated read_only_rules)
    (use assms in \<open>auto simp: core_keys_def gate_keys_def unused_def\<close>)

lemma validate_policy_keeps:
  assumes "t \<noteq> at_company_id a"
  shows "keeps t P (validate_policy_route a v)"
proof -
  have step: "keeps t Q (on_policies (transition_version (at_company_id a) v s))"
    "keeps t Q (on_policies (approve_version w (at_company_id a) v))" for Q s w
    by (intro keeps_on_policies transition_version_isolated approve_version_isolated;
        use assms in \<open>auto simp: core_keys_def gate_keys_def\<close>)+
  show ?thesis
    unfolding validate_policy_route_def validate_version_def simulate_version_def
    by (intro keeps_with_role keeps_then [where Q = "\<lambda>_. True"] step keeps_read_only read_only_rules TrueI)
qed

lemma constitution_routes_keep:
  assumes "t \<noteq> at_company_id a"
  shows "keeps t (unused nid) (create_constitution_route S nid a ag g)" and "keeps t P (activate_constitution_route now a i)"
proof -
  show "keeps t (unused nid) (create_constitution_route S nid a ag g)"
    unfolding create_constitution_route_def
    by (intro keeps_with_role keeps_then_read keeps_on_authority create_constitution_isolated read_only_rules)
      (use assms in \<open>auto simp: core_keys_def gate_keys_def unused_def\<close>)
  show "keeps t P (activate_constitution_route now a i)"
    unfolding activate_constitution_route_def
    by (intro keeps_with_role keeps_then_read keeps_on_authority activate_constitution_isolated read_only_rules)
      (use assms in \<open>auto simp: core_keys_def gate_keys_def\<close>)
qed

text \<open>An activation moves no policy to another agent, and points no agent of another tenant.\<close>

lemma activate_version_policies:
  assumes "activate_version now c v P = (r, P')" and "p \<in> set (pl_policies P')"
  obtains q where "q \<in> set (pl_policies P)" "pc_id p = pc_id q" "pc_company_id p = pc_company_id q" "pc_agent_id p = pc_agent_id q"
proof -
  have "pl_policies P' = pl_policies P \<or> (\<exists>i f. pl_policies P' = update_where i f (pl_policies P)
      \<and> (\<forall>p. pc_id (f p) = pc_id p \<and> pc_company_id (f p) = pc_company_id p \<and> pc_agent_id (f p) = pc_agent_id p))"
  proof (cases "get_version c v P")
    case (Some x)
    have "P' = P \<or> pl_policies P' = update_where (\<lambda>p. pc_id p = vn_policy_id x)
        (\<lambda>p. p\<lparr>pc_status := PO_ACTIVE, pc_current_version := vn_version x\<rparr>) (pl_policies P)"
      using assms(1) by (auto simp: activate_version_def transaction_def Let_def Some split: sum.splits)
    then show ?thesis by (elim disjE) (blast, intro disjI2 exI conjI, assumption, simp)
  qed (use assms(1) in \<open>simp add: activate_version_def transaction_def\<close>)
  then show ?thesis
  proof (elim disjE exE conjE)
    fix i f assume f: "pl_policies P' = update_where i f (pl_policies P)"
      and "\<forall>p. pc_id (f p) = pc_id p \<and> pc_company_id (f p) = pc_company_id p \<and> pc_agent_id (f p) = pc_agent_id p"
    with assms(2) show ?thesis
      using updated_from [of p i f "pl_policies P" "\<lambda>p. (pc_id p, pc_company_id p, pc_agent_id p)"] that by auto
  qed (use assms(2) that in auto)
qed

lemma point_agent_isolated:
  assumes "authority_keys A" and "\<And>p g. q = Some p \<Longrightarrow> g \<in> set (ah_agents A) \<Longrightarrow> Some (ag_id g) = pc_agent_id p \<Longrightarrow> ag_company_id g \<noteq> t"
  shows "authority_view t (snd (point_agent q A)) = authority_view t A \<and> authority_keys (snd (point_agent q A))"
proof (cases q)
  case (Some p)
  have "filter (\<lambda>g. ag_company_id g = t) (update_where (\<lambda>g. Some (ag_id g) = pc_agent_id p)
      (\<lambda>g. g\<lparr>ag_active_policy_id := Some (pc_id p)\<rparr>) (ah_agents A)) = filter (\<lambda>g. ag_company_id g = t) (ah_agents A)"
    using assms(2) [OF Some] by (intro filter_update_other) auto
  then show ?thesis
    using assms(1) Some
    by (simp add: point_agent_def authority_view_def authority_keys_def map_update_where_same ex_update_where)
qed (simp add: point_agent_def assms(1))

lemma activate_policy_keeps:
  assumes "t \<noteq> at_company_id a"
  shows "keeps t (own_policy_agents (at_company_id a)) (activate_policy_route now a i v)"
proof -
  let ?c = "at_company_id a"
  have activated: "keeps t (own_policy_agents ?c) (on_policies (activate_version now ?c v))"
    by (intro keeps_on_policies activate_version_isolated) (use assms in \<open>auto simp: core_keys_def gate_keys_def\<close>)
  have own: "own_policy_agents ?c (snd (on_policies (activate_version now ?c v) db))" if "own_policy_agents ?c db" for db
  proof -
    obtain r P where P: "activate_version now ?c v (policies_of db) = (r, P)"
      by (cases "activate_version now ?c v (policies_of db)")
    have "ag_company_id g = ?c" if "p \<in> set (pl_policies P)" "pc_company_id p = ?c"
      "g \<in> set (ah_agents (authority_of db))" "pc_agent_id p = Some (ag_id g)" for p g
      using activate_version_policies [OF P that(1)] \<open>own_policy_agents ?c db\<close> that(2-4)
      unfolding own_policy_agents_def by metis
    then show ?thesis by (auto simp: own_policy_agents_def on_policies_def run_on_def P)
  qed
  have pointed: "keeps t (\<lambda>db. own_policy_agents ?c db \<and> q = get_policy ?c i (policies_of db)) (on_authority (point_agent q))" for q
  proof (intro keeps_on_authority point_agent_isolated)
    fix db p g
    assume db: "own_policy_agents ?c db \<and> q = get_policy ?c i (policies_of db)" "q = Some p"
      and g: "g \<in> set (ah_agents (authority_of db))" "Some (ag_id g) = pc_agent_id p"
    then have "p \<in> set (pl_policies (policies_of db))" "pc_company_id p = ?c"
      by (auto simp: get_policy_def dest!: find_SomeD [OF sym])
    then show "ag_company_id g \<noteq> t" using db g assms by (auto simp: own_policy_agents_def)
  qed (simp add: core_keys_def gate_keys_def)
  have rest: "keeps t (own_policy_agents ?c) (then_op (reading (\<lambda>db. Inr (get_policy ?c i (policies_of db)))) (\<lambda>policy.
       then_op (on_authority (point_agent policy)) (\<lambda>_. answer 200 x)))" for x
  proof -
    have "keeps t (own_policy_agents ?c) (\<lambda>db. then_op (on_authority (point_agent (get_policy ?c i (policies_of db)))) (\<lambda>_. answer 200 x) db)"
      unfolding keeps_def
    proof (intro allI impI)
      fix db assume "core_keys db" "own_policy_agents ?c db"
      moreover have "keeps t (\<lambda>d. own_policy_agents ?c d \<and> q = get_policy ?c i (policies_of d))
          (then_op (on_authority (point_agent q)) (\<lambda>_. answer 200 x))" for q
        by (intro keeps_then_read pointed read_only_rules)
      ultimately show "tenant_view t (snd (then_op (on_authority (point_agent (get_policy ?c i (policies_of db)))) (\<lambda>_. answer 200 x) db))
          = tenant_view t db
        \<and> core_keys (snd (then_op (on_authority (point_agent (get_policy ?c i (policies_of db)))) (\<lambda>_. answer 200 x) db))"
        by (simp add: keeps_def)
    qed
    then show ?thesis by (simp add: keeps_def then_op_def reading_def)
  qed
  show ?thesis
    unfolding activate_policy_route_def by (intro keeps_with_role keeps_then [where Q = "own_policy_agents ?c", OF activated own rest])
qed

lemma create_decision_keeps:
  assumes "t \<noteq> at_company_id a"
  shows "keeps t (\<lambda>db. unused na db) (create_decision_route S now nd na a b)"
proof -
  have recorded: "keeps t (unused na) (on_approvals (record_decision nd (route_persist_input S a c)))" for c
    by (intro keeps_on_approvals record_decision_isolated)
      (use assms in \<open>auto simp: core_keys_def gate_keys_def route_persist_input_def\<close>)
  have fresh: "unused na (snd (on_approvals (record_decision nd (route_persist_input S a c)) db))" if "unused na db" for c db
    using that by (simp add: on_approvals_def run_on_def record_decision_def Let_def unused_def)
  have requested: "keeps t (unused na) (on_approvals (create_request na (route_approval_input now a d)))" for d
    by (intro keeps_on_approvals create_request_isolated)
      (use assms in \<open>auto simp: core_keys_def gate_keys_def route_approval_input_def unused_def\<close>)
  have rest: "keeps t (unused na) (then_op (if dr_result d = REVIEW
       then then_op (on_approvals (create_request na (route_approval_input now a d))) (\<lambda>q. return_op (Some (aq_id q)))
       else return_op None) (\<lambda>x. answer 201 (f x)))" for d f
    by (intro keeps_then_read) (simp_all add: requested keeps_then_read keeps_read_only read_only_rules)
  have written: "keeps t (unused na) (then_op (on_approvals (record_decision nd (route_persist_input S a c))) (\<lambda>d.
     then_op (if dr_result d = REVIEW
       then then_op (on_approvals (create_request na (route_approval_input now a d))) (\<lambda>q. return_op (Some (aq_id q)))
       else return_op None) (\<lambda>x. answer 201 (g d x))))" for c g
    by (rule keeps_then [where Q = "unused na", OF recorded fresh rest])
  show ?thesis
    unfolding create_decision_route_def
    by (auto intro!: keeps_parsed_then keeps_reading_then written split: prod.splits)
qed

lemma verdict_routes_keep:
  assumes "t \<noteq> at_company_id a"
  shows "keeps t P (approve_route now nid a i h)" and "keeps t P (deny_route now nid a i)"
  unfolding approve_route_def deny_route_def
  by (intro keeps_then_read keeps_on_approvals approve_isolated deny_request_isolated read_only_rules;
      use assms in \<open>auto simp: core_keys_def gate_keys_def\<close>)+

lemma execution_routes_keep:
  assumes "t \<noteq> at_company_id a"
  shows "keeps t P (reconcile_route S now a i)" and "keeps t P (result_route S now nid a i st ch tx)"
    and "keeps t P (verify_route S now nid a i snap)"
  unfolding reconcile_route_def result_route_def verify_route_def
  by (intro keeps_with_role keeps_then_read keeps_on_execution reconcile_isolated ingest_result_isolated
        verify_and_finalize_isolated read_only_rules;
      use assms in \<open>auto simp: core_keys_def gate_keys_def\<close>)+

lemma prepare_keeps:
  assumes "t \<noteq> at_company_id a"
  shows "keeps t (\<lambda>db. unused (fi_account n) db \<and> unused (fi_reservation n) db \<and> unused (fi_request n) db) (prepare_route S now n a b)"
proof -
  have gate: "keeps t (\<lambda>db. unused (fi_account n) db \<and> unused (fi_reservation n) db \<and> unused (fi_request n) db)
      (on_gate (revalidate R to_iso n i now))" if "vi_company_id i = at_company_id a" for R to_iso i
    by (intro keeps_on_gate revalidate_isolated) (use assms that in \<open>auto simp: core_keys_def unused_def\<close>)
  show ?thesis
    unfolding prepare_route_def
    by (auto intro!: keeps_with_role keeps_parsed_then keeps_then_read gate read_only_rules split: prod.splits)
qed

section \<open>Requests\<close>

definition admissible :: "string \<Rightarrow> api_request \<Rightarrow> core_db \<Rightarrow> bool" where
  "admissible c r db \<longleftrightarrow> (\<forall>i \<in> set (new_ids r). unused i db)
     \<and> (case r of Post_policy_activate _ _ \<Rightarrow> own_policy_agents c db | _ \<Rightarrow> True)"

lemma dispatch_keeps:
  assumes "t \<noteq> at_company_id a"
  shows "keeps t (admissible (at_company_id a) r) (dispatch S now a r)"
proof -
  note guarded = create_agent_keeps draft_keeps activate_policy_keeps constitution_routes_keep(1)
    create_decision_keeps prepare_keeps
  note guarded = guarded [OF assms, THEN keeps_weaken]
  note free = patch_agent_keeps intake_routes_keep validate_policy_keeps constitution_routes_keep(2)
    verdict_routes_keep execution_routes_keep
  note free = free [OF assms]
  show ?thesis
    by (cases r) (auto simp: admissible_def new_ids_def create_policy_route_def compile_policy_route_def
        intro!: keeps_status_of intro: keeps_read_only read_only_rules free guarded)
qed

section \<open>Runs of the API\<close>

inductive api_step :: "core_services \<Rightarrow> string \<Rightarrow> core_db \<Rightarrow> core_db \<Rightarrow> bool" for S c where
  astep_request: "authenticate (gs_config S) h = Inr a \<Longrightarrow> at_company_id a = c \<Longrightarrow> admissible c r db \<Longrightarrow>
     api_step S c db (snd (serve S now h r db))"
| astep_refused: "authenticate (gs_config S) h = Inl e \<Longrightarrow> api_step S c db (snd (serve S now h r db))"

inductive_cases api_stepE: "api_step S c db db'"

lemma api_step_isolated:
  assumes "api_step S c db db'" and "core_keys db"
  shows "core_keys db'" and "t \<noteq> c \<Longrightarrow> tenant_view t db' = tenant_view t db"
proof -
  have kept: "core_keys db' \<and> (t \<noteq> c \<longrightarrow> tenant_view t db' = tenant_view t db)" for t
    using assms
  proof (cases rule: api_step.cases)
    case (astep_request h a r now)
    have "tenant_view u db' = tenant_view u db \<and> core_keys db'" if "u \<noteq> c" for u
      using dispatch_keeps [of u a r S now] that astep_request assms(2)
      by (auto simp: keeps_def serve_authenticated)
    moreover have "\<exists>u. u \<noteq> c" by (metis list.distinct(1))
    ultimately show ?thesis by blast
  qed (use assms(2) in \<open>simp add: serve_unauthenticated\<close>)
  show "core_keys db'" using kept by blast
  show "t \<noteq> c \<Longrightarrow> tenant_view t db' = tenant_view t db" using kept by blast
qed

text \<open>
  The contract of a multi-tenant store, and what follows for whole runs: what the others do, in
  any number of steps, a tenant does not see.
\<close>

locale isolated_tenants =
  fixes ok :: "'s \<Rightarrow> bool" and view :: "'t \<Rightarrow> 's \<Rightarrow> 'v" and step :: "'t \<Rightarrow> 's \<Rightarrow> 's \<Rightarrow> bool"
  assumes step_ok: "ok s \<Longrightarrow> step c s s' \<Longrightarrow> ok s'"
    and step_hidden: "ok s \<Longrightarrow> step c s s' \<Longrightarrow> t \<noteq> c \<Longrightarrow> view t s' = view t s"
begin

lemma run_ok: "(\<lambda>u v. \<exists>c. step c u v)\<^sup>*\<^sup>* s s' \<Longrightarrow> ok s \<Longrightarrow> ok s'"
  by (induction rule: rtranclp_induct) (auto intro: step_ok)

lemma run_hidden: "(\<lambda>u v. \<exists>c. c \<noteq> t \<and> step c u v)\<^sup>*\<^sup>* s s' \<Longrightarrow> ok s \<Longrightarrow> view t s' = view t s \<and> ok s'"
  by (induction rule: rtranclp_induct) (auto intro: step_ok simp: step_hidden)

end

interpretation api: isolated_tenants core_keys tenant_view "api_step S" for S
  by unfold_locales (auto intro: api_step_isolated)


section \<open>A sample run, and the exception\<close>

definition sample_core_config :: core_config where
  "sample_core_config = \<lparr> cg_environment = ENV_test, cg_port = 8090, cg_log_level = ''info'',
     cg_service_name = ''sentinel-core'', cg_version = ''0.1.0'', cg_database_url = None, cg_redis_url = None,
     cg_ai_service_url = None, cg_execution_service_url = None, cg_internal_service_token = None,
     cg_network = ''base-sepolia'', cg_execution_mode = ''SIMULATE'', cg_allow_mainnet = False, cg_otel_enabled = False,
     cg_otel_exporter_endpoint = None, cg_otel_exporter_headers = None \<rparr>"

definition sample_services :: core_services where
  "sample_services = \<lparr> gs_config = sample_core_config, gs_runtime = sample_runtime, gs_to_iso = (\<lambda>_. ''t''),
     gs_parser = sample_parser_of, gs_parse_analysis = (\<lambda>_. Some sample_analysis),
     gs_parse_simulation = (\<lambda>_. Some sample_simulation), gs_get_result = (\<lambda>_. Inl EXECUTION_FAILED),
     gs_verify = (\<lambda>_. Inl EXECUTION_FAILED) \<rparr>"

definition sample_headers :: "string \<Rightarrow> headers" where
  "sample_headers role = [''x-company-id'' \<mapsto> Header_one ''co'', ''x-actor-role'' \<mapsto> Header_one role]"

text \<open>Tenant co with its agent and an approved policy for agent g2, which belongs to tenant eve.\<close>

definition shared_core :: core_db where
  "shared_core = \<lparr>
     kd_gate = \<lparr>
       gd_authority = live_authority\<lparr>ah_agents := [live_agent, live_agent\<lparr>ag_id := ''g2'', ag_company_id := ''eve'', ag_active_policy_id := None\<rparr>]\<rparr>,
       gd_policies = \<lparr> pl_policies = [(policy_row PO_DRAFT 0)\<lparr>pc_agent_id := Some ''g2''\<rparr>],
         pl_versions = [version_row VS_APPROVED None], pl_rules = [] \<rparr>,
       gd_approvals = empty_approvals, gd_idempotency = [], gd_execution = execution1\<lparr>xd_ledger := ledger1\<rparr> \<rparr>,
     kd_intake = no_intake, kd_trajectory = empty_trajectory, kd_audit = [], kd_attestations = [] \<rparr>"

lemma sample_authenticated:
  "authenticate (gs_config sample_services) (sample_headers role)
     = Inr \<lparr> at_company_id = ''co'', at_actor_id = ''unknown-actor'', at_actor_role = role \<rparr>"
  by (simp add: authenticate_def bearer_relaxed_def sample_services_def sample_core_config_def sample_headers_def
      header_def truthy_def nullish_def)

lemma shared_core_keys: "core_keys shared_core"
  by (simp add: core_keys_def gate_keys_def authority_keys_def policy_keys_def approval_keys_def execution_keys_def
      ledger_keys_def shared_core_def live_authority_def live_agent_def live_constitution_def policy_row_def
      version_row_def empty_approvals_def execution1_def ledger1_value sample_request_row_def)


text \<open>
  The exception is real: an administrator of co activates co's policy p, which was drafted with
  the agent id g2, and the agent of tenant eve is pointed at it.
\<close>

theorem foreign_agent_pointed:
  "fst (serve sample_services 1 (sample_headers ''ADMIN'') (Post_policy_activate ''p'' ''v1'') shared_core) = 200
   \<and> map (\<lambda>g. (ag_id g, ag_company_id g, ag_active_policy_id g)) (ah_agents (authority_of
        (snd (serve sample_services 1 (sample_headers ''ADMIN'') (Post_policy_activate ''p'' ''v1'') shared_core))))
     = [(''ag'', ''co'', Some ''p''), (''g2'', ''eve'', Some ''p'')]"
proof -
  have v: "get_version ''co'' ''v1'' (policies_of shared_core) = Some (version_row VS_APPROVED None)"
    by (simp add: get_version_def policy_in_company_def get_policy_def shared_core_def policy_row_def version_row_def)
  have t: "assert_transition (vn_status (version_row VS_APPROVED None)) VS_ACTIVE = Inr ()"
    by (simp add: assert_transition_def version_row_def arr_includes_def)
  have p: "pl_policies (policies_of shared_core) = [(policy_row PO_DRAFT 0)\<lparr>pc_agent_id := Some ''g2''\<rparr>]"
    and g: "ah_agents (authority_of shared_core)
      = [live_agent, live_agent\<lparr>ag_id := ''g2'', ag_company_id := ''eve'', ag_active_policy_id := None\<rparr>]"
    by (simp_all add: shared_core_def)
  have r: "''ADMIN'' \<in> set ACTIVATORS" by (simp add: ACTIVATORS_def)
  show ?thesis
    by (simp add: serve_def handle_def then_op_def reading_def sample_authenticated status_of_def activate_policy_route_def
        with_role_def require_role_def r on_policies_def run_on_def activate_version_def transaction_def v t Let_def
        get_policy_def p on_authority_def point_agent_def g truthy_def answer_def return_op_def)
      (simp add: policy_row_def version_row_def live_agent_def)
qed

text \<open>A status that the object literal only inherits is accepted, and changes nothing.\<close>

theorem inherited_status_accepted:
  "fst (serve sample_services 1 (sample_headers ''ADMIN'') (Patch_agent ''ag'' (Some ''toString'')) shared_core) = 200"
proof -
  have g: "get_agent ''co'' ''ag'' (authority_of shared_core) = Some live_agent"
    by (simp add: get_agent_def shared_core_def live_agent_def)
  have r: "''ADMIN'' \<in> set OPERATORS" by (simp add: OPERATORS_def)
  have c: "call_transition ''toString'' ''co'' ''ag'' = return_op ()"
    by (simp add: call_transition_def agent_transition_def INHERITED_RETURNING_def)
  show ?thesis
    by (simp add: serve_def handle_def then_op_def reading_def sample_authenticated status_of_def patch_agent_route_def
        with_role_def require_role_def r require_agent_def from_option_def g truthy_def c answer_def return_op_def)
qed

end
