(* ===== verification/Decision_Binding.thy ===== *)
theory Decision_Binding
  imports Tenant_Isolation
begin

text \<open>
  The decision and the preparation of its execution, as the two routes compose them: the context
  hash that POST /decisions stores and returns is the hash of a context without a transaction,
  while POST /executions/prepare compares the hash it is given with that of a context with one.
\<close>

section \<open>Lemmas\<close>

lemma create_decision_hash:
  assumes "create_decision_route S now nd na a b db = (Inr (n, ans), db')"
  obtains c where "da_context_hash ans = context_hash (rt_sha (gs_runtime S)) (route_hash_context c)"
proof -
  from assms obtain c where "dr_decision_context_hash (da_decision ans) = context_hash (rt_sha (gs_runtime S)) (route_hash_context c)"
    "da_context_hash ans = dr_decision_context_hash (da_decision ans)"
    by (auto simp: create_decision_route_def then_op_def parsed_def reading_def on_approvals_def run_on_def
        record_decision_def route_persist_input_def answer_def return_op_def Let_def
        split: prod.splits sum.splits option.splits if_splits)
  then show ?thesis using that by simp
qed

text \<open>A hash that no context with the transaction has is drift: the gate refuses and writes nothing.\<close>

lemma drifted_revalidation:
  assumes "vi_decision_context_hash i \<noteq> []"
    and "\<And>c. hc_transaction_id c = Some (vi_transaction_id i) \<Longrightarrow> context_hash (rt_sha R) c \<noteq> vi_decision_context_hash i"
  shows "snd (revalidate R to_iso n i now G) = G
    \<and> (\<forall>out. fst (revalidate R to_iso n i now G) = Inr out \<longrightarrow> vo_result out \<noteq> ALLOW)"
proof -
  have "do_result (decide (revalidation_decision_input R i G now pe)) \<noteq> ALLOW" for pe
  proof
    assume "do_result (decide (revalidation_decision_input R i G now pe)) = ALLOW"
    from decide_allow_gate(3) [OF this assms(1)] assms(2) [of "fresh_context R i pe"]
    show False by (simp add: fresh_context_def)
  qed
  then show ?thesis by (auto simp: revalidate_def Let_def split: sum.splits)
qed

text \<open>A handler that always throws and never writes.\<close>

definition refuses :: "'a handler \<Rightarrow> bool" where
  "refuses m \<longleftrightarrow> (\<forall>db. snd (m db) = db \<and> (\<exists>e. fst (m db) = Inl e))"

lemma refuses_then: "read_only m \<Longrightarrow> (\<And>x. refuses (k x)) \<Longrightarrow> refuses (then_op m k)"
  unfolding refuses_def read_only_def then_op_def
  by (auto split: prod.splits sum.splits) (metis fst_conv snd_conv)+

lemma refuses_with_role: "refuses m \<Longrightarrow> refuses (with_role a roles m)"
  by (simp add: with_role_def refuses_then read_only_rules)

lemma drifted_gate:
  assumes "vi_decision_context_hash i \<noteq> []"
    and "\<And>c. hc_transaction_id c = Some (vi_transaction_id i) \<Longrightarrow> context_hash (rt_sha R) c \<noteq> vi_decision_context_hash i"
  shows "refuses (then_op (on_gate (revalidate R to_iso n i now)) (\<lambda>out.
           if vo_result out \<noteq> ALLOW then reading (\<lambda>_. Inl EXECUTION_BLOCKED) else k out))"
  unfolding refuses_def
proof
  fix db :: core_db
  obtain r G where r: "revalidate R to_iso n i now (kd_gate db) = (r, G)" by (cases "revalidate R to_iso n i now (kd_gate db)")
  have "G = kd_gate db" "\<And>out. r = Inr out \<Longrightarrow> vo_result out \<noteq> ALLOW"
    using drifted_revalidation [OF assms, of to_iso n now "kd_gate db"] r by simp_all
  then show "snd (then_op (on_gate (revalidate R to_iso n i now)) (\<lambda>out.
           if vo_result out \<noteq> ALLOW then reading (\<lambda>_. Inl EXECUTION_BLOCKED) else k out) db) = db
    \<and> (\<exists>e. fst (then_op (on_gate (revalidate R to_iso n i now)) (\<lambda>out.
           if vo_result out \<noteq> ALLOW then reading (\<lambda>_. Inl EXECUTION_BLOCKED) else k out) db) = Inl e)"
    by (cases r) (simp_all add: then_op_def on_gate_def run_on_def r reading_def)
qed

lemma drifted_prepare:
  assumes "bp_decision_context_hash b \<noteq> []"
    and "\<And>c. hc_transaction_id c = Some (bp_transaction_id b) \<Longrightarrow>
           context_hash (rt_sha (gs_runtime S)) c \<noteq> bp_decision_context_hash b"
  shows "refuses (prepare_route S now n a b)"
  unfolding prepare_route_def
  by (auto simp: assms intro!: refuses_with_role refuses_then [OF read_only_basic(2)] drifted_gate split: prod.splits)

section \<open>Properties\<close>


section \<open>A sample run\<close>

definition live_core :: core_db where
  "live_core = \<lparr> kd_gate = live_gate, kd_intake = no_intake, kd_trajectory = empty_trajectory, kd_audit = [],
     kd_attestations = [] \<rparr>"

definition sample_auth :: auth_context where
  "sample_auth = \<lparr> at_company_id = ''co'', at_actor_id = ''u'', at_actor_role = ''ADMIN'' \<rparr>"

definition sample_decision_body :: decision_body where
  "sample_decision_body = \<lparr> bd_agent_id = ''ag'', bd_intent = JNull, bd_proposal = JNull, bd_security_assessment = JNull,
     bd_trace_id = None, bd_assessment_max_age_ms = None, bd_require_simulation = None \<rparr>"

definition sample_prepare_body :: "string \<Rightarrow> prepare_body" where
  "sample_prepare_body h = \<lparr> bp_agent_id = ''ag'', bp_decision_id = ''d'', bp_intent = JNull, bp_proposal = JNull,
     bp_security_assessment = JNull, bp_transaction_id = ''t'', bp_analysis = JNull, bp_expected_network = ''base'',
     bp_actual_network = ''base'', bp_simulation = JNull,
     bp_simulated_payload_hash = transaction_payload_hash (\<lambda>s. s) sample_payload_input, bp_approval_id = None,
     bp_decision_context_hash = h, bp_financial_scope_key = ''ag'', bp_asset = ''USDC'', bp_amount = ''5'',
     bp_assessment_max_age_ms = None, bp_require_simulation = Some True \<rparr>"

lemma sample_decided:
  "\<exists>ans db1. create_decision_route sample_services 5 ''d'' ''q'' sample_auth sample_decision_body live_core = (Inr (201, ans), db1)"
proof -
  obtain d where d: "orchestrate sample_runtime (\<lambda>_. ''t'') no_providers live_view sample_orchestration 5 = Inr d"
    using live_orchestrates by blast
  have S: "gs_parser sample_services = sample_parser_of" "gs_runtime sample_services = sample_runtime"
    "gs_to_iso sample_services = (\<lambda>_. ''t'')" by (simp_all add: sample_services_def)
  have P: "cp_intent sample_parser_of j = Some (j, sample_intent INTENT_VALID)"
    "cp_proposal sample_parser_of j = Some (j, sample_proposal ''5'')"
    "cp_assessment sample_parser_of j = Some (j, sample_assessment PROCEED_CANDIDATE)" for j
    by (simp_all add: sample_parser_of_def)
  have V: "core_view_of live_core = live_view"
    by (simp add: core_view_of_def live_core_def live_gate_def live_view_def)
  have I: "\<lparr> oi_company_id = at_company_id sample_auth, oi_agent_id = bd_agent_id sample_decision_body,
      oi_intent = sample_intent INTENT_VALID, oi_proposal = sample_proposal ''5'',
      oi_security_assessment = sample_assessment PROCEED_CANDIDATE, oi_trace_id = bd_trace_id sample_decision_body,
      oi_assessment_max_age_ms = bd_assessment_max_age_ms sample_decision_body,
      oi_require_simulation = bd_require_simulation sample_decision_body \<rparr> = sample_orchestration"
    by (simp add: sample_auth_def sample_decision_body_def sample_orchestration_def)
  have D: "ad_decisions (gd_approvals (kd_gate live_core)) = []"
    by (simp add: live_core_def live_gate_def empty_approvals_def)
  show ?thesis
    by (simp add: create_decision_route_def then_op_def parsed_def from_option_def reading_def S P V I d on_approvals_def
        run_on_def record_decision_def Let_def route_persist_input_def create_request_def get_decision_def
        route_approval_input_def D answer_def return_op_def)
qed


end
