(* ===== verification/Role_Boundary.thy ===== *)
theory Role_Boundary
  imports Tenant_Isolation "HOL-Library.Sublist"
begin

text \<open>
  What a caller may do with the role it acts in (Backend/src/api/http/auth.ts, api/routes/v1.ts): the
  routes that a role without any permission can use, and what they can change.
\<close>

section \<open>Roles\<close>

text \<open>Every role that some guard of the API names: those of the routes and the approvers.\<close>

definition permitted_roles :: "string set" where
  "permitted_roles = set OPERATORS \<union> set ACTIVATORS \<union> set EXECUTORS \<union> set APPROVER_ROLES"

text \<open>
  What may change without a permission: decisions and approval requests are only appended, the
  intake tables change, and \<open>money\<close> allows the execution tables other than results and
  verifications to change.
\<close>

definition untouched :: "bool \<Rightarrow> core_db \<Rightarrow> core_db \<Rightarrow> bool" where
  "untouched money db db' \<longleftrightarrow>
     authority_of db' = authority_of db \<and> policies_of db' = policies_of db
   \<and> gd_idempotency (kd_gate db') = gd_idempotency (kd_gate db)
   \<and> ad_results (approvals_of db') = ad_results (approvals_of db)
   \<and> prefix (ad_decisions (approvals_of db)) (ad_decisions (approvals_of db'))
   \<and> prefix (ad_requests (approvals_of db)) (ad_requests (approvals_of db'))
   \<and> xd_results (execution_of db') = xd_results (execution_of db)
   \<and> xd_verifications (execution_of db') = xd_verifications (execution_of db)
   \<and> (execution_of db' = execution_of db \<or> money)
   \<and> kd_trajectory db' = kd_trajectory db \<and> kd_audit db' = kd_audit db \<and> kd_attestations db' = kd_attestations db"

lemma untouched_refl [simp]: "untouched money db db"
  by (simp add: untouched_def)

lemma untouched_trans: "untouched money db1 db2 \<Longrightarrow> untouched money db2 db3 \<Longrightarrow> untouched money db1 db3"
  unfolding untouched_def by (metis prefix_order.trans)

definition stays :: "bool \<Rightarrow> 'a handler \<Rightarrow> bool" where
  "stays money m \<longleftrightarrow> (\<forall>db. untouched money db (snd (m db)))"

named_theorems stays_rules \<open>handlers that need no permission\<close>

lemma stays_read_only: "read_only m \<Longrightarrow> stays money m"
  by (simp add: stays_def read_only_def)

lemma stays_basic [stays_rules]:
  "stays money (reading f)" "stays money (parsed v)" "stays money (return_op x)" "stays money (answer n x)"
  by (intro stays_read_only read_only_rules)+

lemma stays_then [stays_rules]:
  assumes "stays money m" and "\<And>x. stays money (k x)"
  shows "stays money (then_op m k)"
  unfolding stays_def
proof
  fix db
  obtain r db' where m: "m db = (r, db')" by fastforce
  then have 1: "untouched money db db'" using assms(1) unfolding stays_def by (metis snd_conv)
  show "untouched money db (snd (then_op m k db))"
  proof (cases r)
    case (Inr x)
    have "untouched money db' (snd (k x db'))" using assms(2) by (simp add: stays_def)
    with 1 show ?thesis using Inr m by (auto simp: then_op_def intro: untouched_trans)
  qed (use 1 m in \<open>simp add: then_op_def\<close>)
qed

lemma stays_status_of [stays_rules]: "stays money m \<Longrightarrow> stays money (status_of m)"
  unfolding status_of_def by (auto intro!: stays_rules split: prod.splits)

lemma stays_dependent: "(\<And>db0. stays money (m db0)) \<Longrightarrow> stays money (\<lambda>db. m db db)"
  by (simp add: stays_def)

text \<open>A guard that names the role in no list of its own refuses it and writes nothing.\<close>

lemma stays_with_role:
  assumes "at_actor_role a \<notin> set roles"
  shows "stays money (with_role a roles m)"
  using assms by (simp add: stays_def with_role_def then_op_def reading_def require_role_def arr_includes_iff)

lemma stays_on_intake [stays_rules]: "stays money (on_intake m)"
  by (auto simp: stays_def on_intake_def run_on_def untouched_def split: prod.splits)

lemma stays_on_approvals:
  assumes "\<And>db. ad_results (snd (m db)) = ad_results db \<and> prefix (ad_decisions db) (ad_decisions (snd (m db)))
     \<and> prefix (ad_requests db) (ad_requests (snd (m db)))"
  shows "stays money (on_approvals m)"
  unfolding stays_def
proof
  fix db
  obtain r s where "m (approvals_of db) = (r, s)" by fastforce
  then show "untouched money db (snd (on_approvals m db))"
    using assms [of "approvals_of db"] by (simp add: on_approvals_def run_on_def untouched_def)
qed

lemma stays_on_execution:
  assumes "\<And>db. xd_results (snd (m db)) = xd_results db \<and> xd_verifications (snd (m db)) = xd_verifications db"
  shows "stays True (on_execution m)"
  unfolding stays_def
proof
  fix db
  obtain r s where "m (execution_of db) = (r, s)" by fastforce
  then show "untouched True db (snd (on_execution m db))"
    using assms [of "execution_of db"] by (simp add: on_execution_def run_on_def untouched_def)
qed

section \<open>The routes without a guard\<close>

lemma stays_decision [stays_rules]: "stays money (create_decision_route S now nd na a b)"
  unfolding create_decision_route_def
  by (auto intro!: stays_rules stays_on_approvals
      simp: record_decision_def create_request_def Let_def split: prod.splits option.splits)

lemma stays_intake_routes [stays_rules]:
  "stays money (create_intent_route S now nid a j)" "stays money (create_proposal_route S now nid a j)"
  "stays money (ingest_assessment_route S now nid a i j)"
proof -
  show "stays money (create_intent_route S now nid a j)"
    unfolding create_intent_route_def by (rule stays_dependent) (intro stays_rules)
qed (auto simp: create_proposal_route_def ingest_assessment_route_def intro!: stays_rules)

text \<open>A verdict of a role that no approver has is refused inside the transaction.\<close>

lemma verdict_refused:
  assumes "av_role p \<notin> set APPROVER_ROLES"
  shows "snd (approve nid c i p h now db) = db" and "snd (deny_request nid c i p now db) = db"
  using assms
  by (auto simp: approve_def deny_request_def transaction_def assert_approver_authorized_def arr_includes_iff
      split: prod.splits sum.splits)

lemma stays_verdicts:
  assumes "at_actor_role a \<notin> set APPROVER_ROLES"
  shows "stays money (approve_route now nid a i h)" and "stays money (deny_route now nid a i)"
  unfolding approve_route_def deny_route_def
  by (intro stays_rules stays_on_approvals; use assms in \<open>simp add: verdict_refused approver_of_def\<close>)+

lemma reconcile_keeps_records:
  "xd_results (snd (reconcile g now c i db)) = xd_results db \<and> xd_verifications (snd (reconcile g now c i db)) = xd_verifications db"
  by (auto simp: reconcile_def set_request_status_def on_ledger_def Let_def split: option.splits sum.splits prod.splits)

lemma stays_reconcile: "stays True (reconcile_route S now a i)"
  unfolding reconcile_route_def by (intro stays_rules stays_on_execution reconcile_keeps_records)

lemma stays_draft:
  "at_actor_role a \<notin> set OPERATORS \<Longrightarrow> stays money (draft_route S np nv a name ag d rules source)"
  unfolding draft_route_def by (rule stays_dependent) (rule stays_with_role)

lemma dispatch_stays:
  assumes "at_actor_role a \<notin> permitted_roles"
  shows "stays (\<exists>i. r = Post_reconcile i) (dispatch S now a r)"
proof -
  have g: "at_actor_role a \<notin> set OPERATORS" "at_actor_role a \<notin> set ACTIVATORS" "at_actor_role a \<notin> set EXECUTORS"
    "at_actor_role a \<notin> set APPROVER_ROLES"
    using assms by (auto simp: permitted_roles_def)
  note refused = g(1,2,3) [THEN stays_with_role]
  note guarded = create_agent_route_def patch_agent_route_def create_policy_route_def compile_policy_route_def
    validate_policy_route_def activate_policy_route_def create_constitution_route_def
    activate_constitution_route_def prepare_route_def result_route_def verify_route_def
  show ?thesis
    by (cases r) (auto simp: guarded intro!: stays_status_of refused stays_draft [OF g(1)] stays_verdicts [OF g(4)] stays_reconcile
        intro: stays_rules stays_read_only read_only_rules)
qed

section \<open>Properties\<close>

text \<open>
  C25: A caller whose role no guard names has no authority: whatever request it makes, agents,
  constitutions, capabilities, policies and idempotency keys stay as they are, no approval is given or
  refused, no execution is requested, no result or verification is recorded; it can append decisions
  and approval requests and file intake documents. The one exception is the reconciliation, which the
  routes leave unguarded.
\<close>

theorem unprivileged_role_powers:
  assumes "authenticate (gs_config S) h = Inr a" and "at_actor_role a \<notin> permitted_roles"
  shows "untouched (\<exists>i. r = Post_reconcile i) db (snd (serve S now h r db))"
  using dispatch_stays [OF assms(2), of r S now] serve_authenticated [OF assms(1)] by (simp add: stays_def)

theorem unprivileged_role_powers_witness:
  "execution_of (snd (serve sample_services 1 (sample_headers ''AUDITOR'') (Post_result ''x'' ''xr'' XS_CONFIRMED ''base'' None) shared_core))
     = execution_of shared_core"
proof -
  have "''AUDITOR'' \<notin> permitted_roles"
    by (simp add: permitted_roles_def OPERATORS_def ACTIVATORS_def EXECUTORS_def APPROVER_ROLES_def)
  then have "untouched False shared_core (snd (serve sample_services 1 (sample_headers ''AUDITOR'')
      (Post_result ''x'' ''xr'' XS_CONFIRMED ''base'' None) shared_core))"
    using unprivileged_role_powers [OF sample_authenticated, of "''AUDITOR''" "Post_result ''x'' ''xr'' XS_CONFIRMED ''base'' None"
        shared_core 1] by simp
  then show ?thesis by (simp add: untouched_def)
qed

text \<open>
  The exception: the reconciliation of an execution has no role guard, so a caller in any role, one
  that may only read included, moves an execution to CONFIRMED.
\<close>

theorem any_role_reconciles:
  assumes "authenticate (gs_config S) h = Inr a" and "find_request (at_company_id a) i (execution_of db) = Some x"
    and "gs_get_result S i = Inr v" and "ex_status v = EX_CONFIRMED"
  shows "fst (serve S now h (Post_reconcile i) db) = 200
    \<and> execution_of (snd (serve S now h (Post_reconcile i) db)) = set_request_status (xr_id x) XR_CONFIRMED (execution_of db)"
  using assms
  by (simp add: serve_def handle_def then_op_def reading_def status_of_def reconcile_route_def on_execution_def
      run_on_def reconcile_def answer_def return_op_def)

text \<open>
  The header comment of the boundary says that the actor headers are required. A request that names no
  role acts as SERVICE, which the guards of every route but the activations and the verdicts permit.
\<close>

theorem missing_role_is_service:
  assumes "authenticate config h = Inr a" and "h ''x-actor-role'' = None"
  shows "at_actor_role a = ''SERVICE'' \<and> require_role a OPERATORS = Inr () \<and> require_role a EXECUTORS = Inr ()"
proof -
  have "at_actor_role a = ''SERVICE''" using assms by (auto simp: authenticate_def header_def nullish_def split: if_splits option.splits)
  then show ?thesis by (simp add: require_role_def OPERATORS_def EXECUTORS_def arr_includes_iff)
qed

end
