(* ===== verification/Base_Units.thy ===== *)
theory Base_Units
  imports Money
begin

text \<open>
  The execution errors (Blockchain/src/shared/errors.ts) and the exact conversion between decimal
  strings and the integer base units of a token (Blockchain/src/shared/money.ts). A bigint is an
  \<open>int\<close>, the number of decimals a \<open>nat\<close>.
\<close>

section \<open>Errors\<close>

datatype execution_error =
    XE_CONFIG_ERROR | XE_CHAIN_MISMATCH | XE_RPC_ERROR | XE_BUILD_ERROR | XE_VALIDATION_FAILED
  | XE_SIMULATION_FAILED | XE_STALE_SIMULATION | XE_SUBMISSION_FAILED | XE_VERIFICATION_FAILED
  | XE_MAINNET_BLOCKED | XE_SIGNER_UNAVAILABLE | XE_UNSUPPORTED | XE_UNKNOWN
  | XE_uncaught

text \<open>
  \<open>XE_uncaught\<close> is any exception that is not an \<open>ExecutionError\<close>: it leaves the methods
  below as it is.
\<close>

section \<open>Conversion\<close>

text \<open>\<open>replace(/^0+(?=\d)/, "")\<close> and \<open>replace(/0+$/, "")\<close>.\<close>

fun strip_leading_zeros :: "string \<Rightarrow> string" where
  "strip_leading_zeros (c # e # s) =
     (if c = CHR ''0'' \<and> is_digit e then strip_leading_zeros (e # s) else c # e # s)"
| "strip_leading_zeros s = s"

definition strip_trailing_zeros :: "string \<Rightarrow> string" where
  "strip_trailing_zeros s = rev (dropWhile (\<lambda>c. c = CHR ''0'') (rev s))"

definition pad_end :: "nat \<Rightarrow> string \<Rightarrow> string" where
  "pad_end n s = s @ replicate (n - length s) (CHR ''0'')"

definition pad_start :: "nat \<Rightarrow> string \<Rightarrow> string" where
  "pad_start n s = replicate (n - length s) (CHR ''0'') @ s"

definition to_base_units :: "string \<Rightarrow> nat \<Rightarrow> execution_error + int" where
  "to_base_units amount decimals =
     (if trim amount = [] then Inl XE_BUILD_ERROR
      else if \<not> limit_format (trim amount) then Inl XE_BUILD_ERROR
      else
       (let (whole, f) = split_point (trim amount);
            frac = nullish f []
        in if length frac > decimals then Inl XE_BUILD_ERROR
           else
            (let combined = strip_leading_zeros (whole @ pad_end decimals frac)
             in Inr (int (digits_value (if combined = [] then ''0'' else combined))))))"

definition from_base_units :: "int \<Rightarrow> nat \<Rightarrow> execution_error + string" where
  "from_base_units units decimals =
     (if units < 0 then Inl XE_BUILD_ERROR
      else if decimals = 0 then Inr (show_int units)
      else
       (let s = pad_start (decimals + 1) (show_int units);
            whole = take (length s - decimals) s;
            frac = strip_trailing_zeros (drop (length s - decimals) s)
        in Inr (if frac = [] then whole else whole @ ''.'' @ frac)))"

definition amounts_equal :: "string \<Rightarrow> string \<Rightarrow> nat \<Rightarrow> execution_error + bool" where
  "amounts_equal a b decimals =
     and_then (to_base_units a decimals) (\<lambda>x. and_then (to_base_units b decimals) (\<lambda>y. Inr (x = y)))"

section \<open>Lemmas\<close>

lemma digits_value_append: "digits_value (s @ t) = digits_value s * 10 ^ length t + digits_value t"
proof (induction t rule: rev_induct)
  case Nil
  show ?case by (simp add: digits_value_def)
next
  case (snoc c t)
  have "digits_value (s @ t @ [c]) = digits_value ((s @ t) @ [c])" by simp
  then show ?case
    using snoc.IH by (simp only: digits_value_snoc) (simp add: algebra_simps)
qed

lemma digits_value_zeros [simp]: "digits_value (replicate n (CHR ''0'')) = 0"
proof (induction n)
  case (Suc n)
  then show ?case using digits_value_append [of "[CHR ''0'']" "replicate n (CHR ''0'')"]
    by (simp add: digits_value_def digit_value_def)
qed (simp add: digits_value_def)

lemma digits_value_strip [simp]: "digits_value (strip_leading_zeros s) = digits_value s"
  by (induction s rule: strip_leading_zeros.induct)
    (auto simp: digits_value_def digit_value_def)

lemma strip_leading_nonempty: "s \<noteq> [] \<Longrightarrow> strip_leading_zeros s \<noteq> []"
  by (induction s rule: strip_leading_zeros.induct) auto

lemma replicate_rev_takeWhile: "takeWhile (\<lambda>c. c = x) s = replicate (length (takeWhile (\<lambda>c. c = x) s)) x"
  by (induction s) auto

text \<open>What was stripped behind are zeros, so padding puts it back.\<close>

lemma pad_strip_trailing: "pad_end (length s) (strip_trailing_zeros s) = s"
proof -
  let ?z = "takeWhile (\<lambda>c. c = CHR ''0'') (rev s)"
  have s: "s = strip_trailing_zeros s @ rev ?z"
    using takeWhile_dropWhile_id [of "\<lambda>c. c = CHR ''0''" "rev s"]
    unfolding strip_trailing_zeros_def by (metis rev_append rev_rev_ident)
  have "length ?z = length s - length (strip_trailing_zeros s)"
    using arg_cong [OF s, of length] by simp
  moreover have "rev ?z = replicate (length ?z) (CHR ''0'')"
    by (metis replicate_rev_takeWhile rev_replicate)
  ultimately show ?thesis using s by (simp add: pad_end_def)
qed

lemma strip_trailing_digits: "list_all is_digit s \<Longrightarrow> list_all is_digit (strip_trailing_zeros s)"
  by (auto simp: strip_trailing_zeros_def list_all_iff dest: set_dropWhileD)

lemma length_strip_trailing: "length (strip_trailing_zeros s) \<le> length s"
  using length_dropWhile_le [of _ "rev s"] by (simp add: strip_trailing_zeros_def)

lemma no_point: "list_all is_digit s \<Longrightarrow> \<forall>c \<in> set s. c \<noteq> CHR ''.''"
  by (auto simp: list_all_iff is_digit_def)

lemma split_point_digits: "list_all is_digit s \<Longrightarrow> split_point s = (s, None)"
proof -
  assume "list_all is_digit s"
  note np = no_point [OF this]
  have "takeWhile (\<lambda>c. c \<noteq> CHR ''.'') s = s" "dropWhile (\<lambda>c. c \<noteq> CHR ''.'') s = []"
    using np by (simp_all only: takeWhile_eq_all_conv dropWhile_eq_Nil_conv)
  then show ?thesis by (simp only: split_point_def list.case)
qed

lemma split_point_fraction:
  "list_all is_digit s \<Longrightarrow> split_point (s @ CHR ''.'' # f) = (s, Some f)"
proof -
  assume "list_all is_digit s"
  then have "\<And>c. c \<in> set s \<Longrightarrow> c \<noteq> CHR ''.''" by (auto simp: list_all_iff is_digit_def)
  then show ?thesis by (simp add: split_point_def)
qed

lemma dropWhile_none: "(\<And>c. c \<in> set t \<Longrightarrow> \<not> P c) \<Longrightarrow> dropWhile P t = t"
  by (cases t) auto

lemma trim_no_space: "(\<And>c. c \<in> set s \<Longrightarrow> \<not> is_space c) \<Longrightarrow> trim s = s"
  using dropWhile_none [of s is_space] dropWhile_none [of "rev s" is_space] by (simp add: trim_def)

lemma digit_not_space: "is_digit c \<Longrightarrow> \<not> is_space c" and point_not_space: "\<not> is_space (CHR ''.'')"
  by (auto simp: is_digit_def is_space_def)

lemma trim_parts:
  assumes "all_digits w" and "list_all is_digit f"
  shows "trim (if f = [] then w else w @ CHR ''.'' # f) = (if f = [] then w else w @ CHR ''.'' # f)"
  using assms digit_not_space point_not_space
  by (intro trim_no_space) (auto simp: all_digits_def list_all_iff split: if_splits)

text \<open>The conversion of a string whose parts are known.\<close>

lemma to_base_units_parts:
  assumes "all_digits w" and "list_all is_digit f" and "length f \<le> d"
    and "trim s = (if f = [] then w else w @ CHR ''.'' # f)"
  shows "to_base_units s d = Inr (int (digits_value (w @ pad_end d f)))"
proof -
  have w: "list_all is_digit w" "w \<noteq> []" using assms(1) by (auto simp: all_digits_def)
  have sp: "split_point (trim s) = (w, if f = [] then None else Some f)"
    using split_point_digits [OF w(1)] split_point_fraction [OF w(1)] assms(4) by simp
  have lf: "limit_format (trim s)" using sp assms(1,2) by (auto simp: limit_format_def all_digits_def)
  have ne: "trim s \<noteq> []" using assms(4) w(2) by (auto split: if_splits)
  have nn: "nullish (if f = [] then None else Some f) [] = f" by simp
  show ?thesis
    using assms(3) w(2) strip_leading_nonempty [of "w @ pad_end d f"]
    unfolding to_base_units_def sp
    by (simp only: ne lf nn not_True_eq_False if_False Let_def split) simp
qed

lemma from_base_units_parts:
  assumes "0 \<le> n" and "0 < d"
  obtains w f where "from_base_units n d = Inr (if f = [] then w else w @ CHR ''.'' # f)"
    "all_digits w" "list_all is_digit f" "length f \<le> d" "digits_value (w @ pad_end d f) = nat n"
    "f \<noteq> [] \<Longrightarrow> last f \<noteq> CHR ''0''"
proof -
  define s where "s = pad_start (Suc d) (show_int n)"
  define w where "w = take (length s - d) s"
  define g where "g = drop (length s - d) s"
  have shown: "show_int n = show_nat (nat n)" using assms(1) by (simp add: show_int_def)
  have ds: "list_all is_digit s"
  proof -
    have "is_digit (CHR ''0'')" by (simp add: is_digit_def)
    then have "list_all is_digit (replicate k (CHR ''0''))" for k by (simp add: list_all_iff)
    moreover have "list_all is_digit (show_nat k)" for k using show_nat_digits by (auto simp: list_all_iff)
    ultimately show ?thesis unfolding s_def pad_start_def shown by simp
  qed
  have len: "d < length s" by (simp add: s_def pad_start_def)
  have s: "s = w @ g" "length g = d" using len by (auto simp: w_def g_def)
  have val: "digits_value s = nat n" by (simp add: s_def pad_start_def shown digits_value_append)
  have conv: "from_base_units n d = Inr (if strip_trailing_zeros g = [] then w
        else w @ CHR ''.'' # strip_trailing_zeros g)"
  proof -
    have "from_base_units n d = (let s = s; whole = take (length s - d) s;
        frac = strip_trailing_zeros (drop (length s - d) s)
        in Inr (if frac = [] then whole else whole @ ''.'' @ frac))"
      using assms by (simp add: from_base_units_def s_def)
    then show ?thesis by (simp add: Let_def w_def g_def)
  qed
  show ?thesis
  proof (rule that [of "strip_trailing_zeros g" w])
    show "from_base_units n d = Inr (if strip_trailing_zeros g = [] then w
        else w @ CHR ''.'' # strip_trailing_zeros g)" by (rule conv)
    have "length w = length s - d" by (simp add: w_def)
    then have "w \<noteq> []" using len by auto
    then show "all_digits w" using ds s(1) by (simp add: all_digits_def)
    show "list_all is_digit (strip_trailing_zeros g)" using ds s(1) by (intro strip_trailing_digits) simp
    show "length (strip_trailing_zeros g) \<le> d" using length_strip_trailing [of g] s(2) by simp
    show "digits_value (w @ pad_end d (strip_trailing_zeros g)) = nat n"
      using pad_strip_trailing [of g] s val by simp
    show "strip_trailing_zeros g \<noteq> [] \<Longrightarrow> last (strip_trailing_zeros g) \<noteq> CHR ''0''"
      using hd_dropWhile [of "\<lambda>c. c = CHR ''0''" "rev g"] by (simp add: strip_trailing_zeros_def last_rev)
  qed
qed

lemma money_value_parts:
  assumes "all_digits w" and "list_all is_digit f" and "s = (if f = [] then w else w @ CHR ''.'' # f)"
  shows "money_value s = (of_nat (digits_value w) * 10 ^ length f + of_nat (digits_value f)) / 10 ^ length f"
proof -
  have w: "list_all is_digit w" "w \<noteq> []" using assms(1) by (auto simp: all_digits_def)
  moreover have "\<not> is_digit (CHR ''-'')" by (simp add: is_digit_def)
  ultimately obtain c t where c: "w = c # t" "c \<noteq> CHR ''-''" by (cases w) auto
  have s: "s = c # (if f = [] then t else t @ CHR ''.'' # f)" using assms(3) c(1) by simp
  have u: "unsigned_part s = s" "hd s \<noteq> CHR ''-''" using s c(2) by (simp_all add: unsigned_part_def)
  have v: "digits_value [] = 0" by (simp add: digits_value_def)
  have sp: "split_point (unsigned_part s) = (w, if f = [] then None else Some f)"
    using split_point_digits [OF w(1)] split_point_fraction [OF w(1)] unfolding u(1) unfolding assms(3) by simp
  show ?thesis unfolding money_value_def sp using u(2) by (simp add: v Let_def add_divide_distrib)
qed

lemma limit_format_parts:
  assumes "limit_format s"
  obtains w f where "all_digits w" "list_all is_digit f" "s = (if f = [] then w else w @ CHR ''.'' # f)"
    "split_point s = (w, if f = [] then None else Some f)"
proof -
  obtain w g where g: "split_point s = (w, g)" by (cases "split_point s")
  have s: "s = (case g of None \<Rightarrow> w | Some f \<Rightarrow> w @ CHR ''.'' # f)"
  proof (cases "dropWhile (\<lambda>c. c \<noteq> CHR ''.'') s")
    case Nil
    moreover from this have "w = takeWhile (\<lambda>c. c \<noteq> CHR ''.'') s" "g = None"
      using g by (simp_all only: split_point_def list.case prod.inject)
    ultimately show ?thesis using takeWhile_dropWhile_id [of "\<lambda>c. c \<noteq> CHR ''.''" s]
      by (simp only: append_Nil2 option.case)
  next
    case (Cons c t)
    then have "c = CHR ''.''" using hd_dropWhile [of "\<lambda>c. c \<noteq> CHR ''.''" s] by simp
    moreover have "w = takeWhile (\<lambda>c. c \<noteq> CHR ''.'') s" "g = Some t"
      using g Cons by (simp_all only: split_point_def list.case prod.inject)
    ultimately show ?thesis using takeWhile_dropWhile_id [of "\<lambda>c. c \<noteq> CHR ''.''" s] Cons by simp
  qed
  show ?thesis
  proof (cases g)
    case None
    then show ?thesis using assms g s by (intro that [of w "[]"]) (auto simp: limit_format_def)
  next
    case (Some f)
    then have "f \<noteq> []" using assms g by (simp add: limit_format_def all_digits_def)
    with Some show ?thesis using assms g s
      by (intro that [of w f]) (auto simp: limit_format_def all_digits_def)
  qed
qed

lemma from_base_units_inverse:
  assumes "0 \<le> n"
  shows "\<exists>s. from_base_units n d = Inr s \<and> to_base_units s d = Inr n
     \<and> (case snd (split_point s) of None \<Rightarrow> True | Some f \<Rightarrow> f \<noteq> [] \<and> last f \<noteq> CHR ''0'')"
proof (cases "d = 0")
  case True
  have s: "show_int n = show_nat (nat n)" using assms by (simp add: show_int_def)
  have "to_base_units (show_nat (nat n)) 0 = Inr (int (digits_value (show_nat (nat n) @ pad_end 0 [])))"
    using trim_parts [of "show_nat (nat n)" "[]"] by (intro to_base_units_parts) simp_all
  moreover have "split_point (show_nat (nat n)) = (show_nat (nat n), None)"
    using all_digits_show_nat by (intro split_point_digits) (simp add: all_digits_def)
  ultimately show ?thesis using True assms s by (simp add: from_base_units_def pad_end_def)
next
  case False
  then obtain w f where parts: "from_base_units n d = Inr (if f = [] then w else w @ CHR ''.'' # f)"
    "all_digits w" "list_all is_digit f" "length f \<le> d" "digits_value (w @ pad_end d f) = nat n"
    "f \<noteq> [] \<Longrightarrow> last f \<noteq> CHR ''0''"
    using from_base_units_parts [OF assms] by blast
  let ?s = "if f = [] then w else w @ CHR ''.'' # f"
  have "to_base_units ?s d = Inr n" using to_base_units_parts [OF parts(2-4) trim_parts [OF parts(2,3)]] parts(5) assms by simp
  moreover have "split_point ?s = (w, if f = [] then None else Some f)"
    using parts(2) split_point_digits split_point_fraction by (auto simp: all_digits_def)
  ultimately show ?thesis using parts(1,6) by (intro exI [of _ ?s]) auto
qed

lemma to_base_units_nonneg: "to_base_units s d = Inr n \<Longrightarrow> 0 \<le> n"
  by (auto simp: to_base_units_def Let_def split: if_splits prod.splits)

lemma amounts_equal_iff:
  "amounts_equal a b d = Inr r \<longleftrightarrow>
     (\<exists>x y. to_base_units a d = Inr x \<and> to_base_units b d = Inr y \<and> r = (x = y))"
  by (auto simp: amounts_equal_def and_then_Inr_iff)

section \<open>Properties\<close>

text \<open>
  C36: no rounding anywhere on the way into base units: a string converts exactly when it is a
  plain non-negative decimal of at most the token's number of fractional digits, and its base
  units are its exact value scaled by the power of ten.
\<close>

theorem base_units_exact:
  "to_base_units s d = Inr n \<longleftrightarrow>
     limit_format (trim s) \<and> length (nullish (snd (split_point (trim s))) []) \<le> d
   \<and> rat_of_int n = money_value (trim s) * 10 ^ d"
proof (cases "limit_format (trim s)")
  case False
  then show ?thesis by (simp add: to_base_units_def)
next
  case True
  then obtain w f where parts: "all_digits w" "list_all is_digit f"
      "trim s = (if f = [] then w else w @ CHR ''.'' # f)"
      "split_point (trim s) = (w, if f = [] then None else Some f)"
    by (rule limit_format_parts)
  have f: "nullish (snd (split_point (trim s))) [] = f" using parts(4) by simp
  show ?thesis
  proof (cases "length f \<le> d")
    case False
    then show ?thesis using parts(4) f by (auto simp: to_base_units_def Let_def)
  next
    case len: True
    let ?n = "int (digits_value (w @ pad_end d f))"
    have conv: "to_base_units s d = Inr ?n" by (rule to_base_units_parts [OF parts(1,2) len parts(3)])
    have "rat_of_int ?n = (of_nat (digits_value w) * 10 ^ length f + of_nat (digits_value f)) * 10 ^ (d - length f)"
      using len by (simp add: pad_end_def digits_value_append power_add [symmetric] algebra_simps)
    also have "\<dots> = money_value (trim s) * 10 ^ d"
      using len by (simp add: money_value_parts [OF parts(1-3)] power_diff)
    finally have val: "rat_of_int ?n = money_value (trim s) * 10 ^ d" .
    have "n = ?n \<longleftrightarrow> rat_of_int n = rat_of_int ?n" by (simp only: of_int_eq_iff)
    with True conv f len val show ?thesis by auto
  qed
qed

text \<open>
  Every non-negative number of base units prints as a decimal string that converts back to
  it, and that is the shortest one: it has no trailing fractional zero.
\<close>

theorem base_units_roundtrip:
  assumes "0 \<le> n"
  shows "\<exists>s. from_base_units n d = Inr s \<and> to_base_units s d = Inr n
     \<and> (case snd (split_point s) of None \<Rightarrow> True | Some f \<Rightarrow> f \<noteq> [] \<and> last f \<noteq> CHR ''0'')"
  by (rule from_base_units_inverse [OF assms])

theorem base_units_roundtrip_witness:
  "\<exists>s. from_base_units 5250000 6 = Inr s \<and> to_base_units s 6 = Inr 5250000"
  using base_units_roundtrip [of 5250000 6] by auto

end
