(* ===== verification/Chain_Registry.thy ===== *)
theory Chain_Registry
  imports Base_Units
begin

text \<open>
  The chain registry (Blockchain/src/chains/chain-registry.ts) and the two guards of the RPC
  provider (Blockchain/src/rpc/rpc-provider.ts): no mainnet unless it is allowed, and the
  configured, the reported and the requested chain id must agree. The registry is the list of its
  chains in insertion order; a provider carries the chain id it has verified.
\<close>

section \<open>Registry\<close>

record asset_definition =
  ad_symbol :: string
  ad_address :: "string option"
  ad_decimals :: nat

record chain_definition =
  cf_key :: string
  cf_network :: string
  cf_chain_id :: int
  cf_display_name :: string
  cf_is_testnet :: bool
  cf_is_mainnet :: bool
  cf_native_symbol :: string
  cf_native_decimals :: nat
  cf_explorer :: "string option"
  cf_x402_network :: "string option"
  cf_assets :: "(string \<times> asset_definition) list"

definition USDC_DECIMALS :: nat where
  "USDC_DECIMALS = 6"

definition ANVIL :: chain_definition where
  "ANVIL = \<lparr> cf_key = ''anvil'', cf_network = ''anvil'', cf_chain_id = 31337,
     cf_display_name = ''Local Anvil'', cf_is_testnet = True, cf_is_mainnet = False,
     cf_native_symbol = ''ETH'', cf_native_decimals = 18, cf_explorer = None, cf_x402_network = None,
     cf_assets = [(''USDC'', \<lparr> ad_symbol = ''USDC'', ad_address = None, ad_decimals = USDC_DECIMALS \<rparr>)] \<rparr>"

definition BASE_SEPOLIA :: chain_definition where
  "BASE_SEPOLIA = \<lparr> cf_key = ''base-sepolia'', cf_network = ''base-sepolia'', cf_chain_id = 84532,
     cf_display_name = ''Base Sepolia'', cf_is_testnet = True, cf_is_mainnet = False,
     cf_native_symbol = ''ETH'', cf_native_decimals = 18,
     cf_explorer = Some ''https://sepolia.basescan.org'', cf_x402_network = Some ''base-sepolia'',
     cf_assets = [(''USDC'', \<lparr> ad_symbol = ''USDC'',
       ad_address = Some ''0x036CbD53842c5426634e7929541eC2318f3dCF7e'', ad_decimals = USDC_DECIMALS \<rparr>)] \<rparr>"

definition BASE_MAINNET :: chain_definition where
  "BASE_MAINNET = \<lparr> cf_key = ''base'', cf_network = ''base'', cf_chain_id = 8453,
     cf_display_name = ''Base Mainnet'', cf_is_testnet = False, cf_is_mainnet = True,
     cf_native_symbol = ''ETH'', cf_native_decimals = 18,
     cf_explorer = Some ''https://basescan.org'', cf_x402_network = Some ''base'',
     cf_assets = [(''USDC'', \<lparr> ad_symbol = ''USDC'',
       ad_address = Some ''0x833589fCD6eDb6E08f4c7C32D4f71b54bdA02913'', ad_decimals = USDC_DECIMALS \<rparr>)] \<rparr>"

record registry_options =
  go_base_sepolia_usdc_address :: "string option"
  go_anvil_usdc_address :: "string option"

type_synonym chain_registry = "chain_definition list"

definition with_usdc_address :: "string option \<Rightarrow> chain_definition \<Rightarrow> chain_definition" where
  "with_usdc_address a c = c\<lparr>cf_assets :=
     [(''USDC'', (the (map_of (cf_assets c) ''USDC''))\<lparr>ad_address := a\<rparr>)]\<rparr>"

definition new_chain_registry :: "registry_options \<Rightarrow> chain_registry" where
  "new_chain_registry opts =
     [with_usdc_address (go_anvil_usdc_address opts) ANVIL,
      with_usdc_address (or_else (go_base_sepolia_usdc_address opts)
        (ad_address (the (map_of (cf_assets BASE_SEPOLIA) ''USDC'')))) BASE_SEPOLIA,
      BASE_MAINNET]"

definition get_by_network :: "chain_registry \<Rightarrow> string \<Rightarrow> execution_error + chain_definition" where
  "get_by_network G network = from_option XE_CONFIG_ERROR (find (\<lambda>c. cf_network c = network) G)"

definition get_by_chain_id :: "chain_registry \<Rightarrow> int \<Rightarrow> chain_definition option" where
  "get_by_chain_id G i = find (\<lambda>c. cf_chain_id c = i) G"

definition usdc :: "chain_registry \<Rightarrow> string \<Rightarrow> execution_error + asset_definition" where
  "usdc G network = and_then (get_by_network G network)
     (\<lambda>c. from_option XE_UNSUPPORTED (map_of (cf_assets c) ''USDC''))"

definition list_chains :: "chain_registry \<Rightarrow> chain_definition list" where
  "list_chains G = G"

text \<open>\<open>safeUsdc\<close> of the analyzer and of the validator.\<close>

definition safe_usdc :: "chain_registry \<Rightarrow> string \<Rightarrow> asset_definition option" where
  "safe_usdc G network = (case usdc G network of Inl _ \<Rightarrow> None | Inr a \<Rightarrow> Some a)"

section \<open>Provider\<close>

text \<open>What the node answers to \<open>eth_chainId\<close>; \<open>None\<close> when the call fails.\<close>

record rpc_provider =
  rp_chain :: chain_definition
  rp_verified_chain_id :: "int option"

definition new_provider ::
    "chain_definition \<Rightarrow> string option \<Rightarrow> bool \<Rightarrow> bool \<Rightarrow> execution_error + rpc_provider" where
  "new_provider chain rpc_url allow_mainnet transport_given =
     (if cf_is_mainnet chain \<and> \<not> allow_mainnet then Inl XE_MAINNET_BLOCKED
      else if \<not> transport_given \<and> \<not> truthy rpc_url then Inl XE_CONFIG_ERROR
      else Inr \<lparr> rp_chain = chain, rp_verified_chain_id = None \<rparr>)"

definition assert_configured_chain ::
    "int option \<Rightarrow> rpc_provider \<Rightarrow> (execution_error + int) \<times> rpc_provider" where
  "assert_configured_chain reported P =
     (case rp_verified_chain_id P of
        Some i \<Rightarrow> (Inr i, P)
      | None \<Rightarrow>
         (case reported of
            None \<Rightarrow> (Inl XE_RPC_ERROR, P)
          | Some i \<Rightarrow>
              if i \<noteq> cf_chain_id (rp_chain P) then (Inl XE_CHAIN_MISMATCH, P)
              else (Inr i, P\<lparr>rp_verified_chain_id := Some i\<rparr>)))"

definition assert_chain_for_request ::
    "int option \<Rightarrow> int \<Rightarrow> rpc_provider \<Rightarrow> (execution_error + unit) \<times> rpc_provider" where
  "assert_chain_for_request reported requested P =
     (if requested \<noteq> cf_chain_id (rp_chain P) then (Inl XE_CHAIN_MISMATCH, P)
      else (case assert_configured_chain reported P of
              (Inl e, P') \<Rightarrow> (Inl e, P') | (Inr _, P') \<Rightarrow> (Inr (), P')))"

section \<open>Lemmas\<close>

text \<open>
  A provider that came out of the constructor and was only used through its guards: its chain is
  allowed, and what it has verified is the id of that chain.
\<close>

definition provider_ok :: "bool \<Rightarrow> rpc_provider \<Rightarrow> bool" where
  "provider_ok allow_mainnet P \<longleftrightarrow>
     (cf_is_mainnet (rp_chain P) \<longrightarrow> allow_mainnet)
   \<and> (\<forall>i. rp_verified_chain_id P = Some i \<longrightarrow> i = cf_chain_id (rp_chain P))"

lemma new_provider_ok: "new_provider c u m t = Inr P \<Longrightarrow> provider_ok m P"
  by (auto simp: new_provider_def provider_ok_def split: if_splits)

lemma assert_chain_keeps:
  "rp_chain (snd (assert_chain_for_request reported requested P)) = rp_chain P"
  "provider_ok m P \<Longrightarrow> provider_ok m (snd (assert_chain_for_request reported requested P))"
  by (auto simp: assert_chain_for_request_def assert_configured_chain_def provider_ok_def
      split: option.splits)

lemma assert_chain_Inr:
  "fst (assert_chain_for_request reported requested P) = Inr u \<Longrightarrow> requested = cf_chain_id (rp_chain P)
     \<and> (rp_verified_chain_id P \<noteq> None \<or> reported = Some requested)"
  by (auto simp: assert_chain_for_request_def assert_configured_chain_def split: if_splits option.splits)

lemma get_by_network_D: "get_by_network G n = Inr c \<Longrightarrow> c \<in> set G \<and> cf_network c = n"
  by (auto simp: get_by_network_def dest: find_SomeD)

lemma registry_keys:
  "map cf_network (new_chain_registry opts) = [''anvil'', ''base-sepolia'', ''base'']"
  "map cf_chain_id (new_chain_registry opts) = [31337, 84532, 8453]"
  by (simp_all add: new_chain_registry_def with_usdc_address_def ANVIL_def BASE_SEPOLIA_def BASE_MAINNET_def)

lemma registry_lookup:
  "get_by_network (new_chain_registry opts) n = Inr c \<Longrightarrow> get_by_chain_id (new_chain_registry opts) (cf_chain_id c) = Some c"
  unfolding get_by_chain_id_def
  by (rule find_key_unique) (auto simp: registry_keys dest: get_by_network_D)

lemma safe_usdc_Some: "safe_usdc G n = Some a \<longleftrightarrow> usdc G n = Inr a"
  by (simp add: safe_usdc_def split: sum.splits)

end
