(* ===== verification/Payment_Transaction.thy ===== *)
theory Payment_Transaction
  imports Chain_Registry Contracts
begin

text \<open>
  Building, decoding, analyzing and validating a token transfer (Blockchain/src/transactions).
  The viem library is a parameter, the record \<open>evm_lib\<close>: checksum addresses and the ABI
  encoding of the ERC-20 functions and of their Transfer event; \<open>None\<close> is an exception of the library. What the code
  relies on is \<open>evm_laws\<close>.
\<close>

section \<open>The library\<close>

datatype erc20_call =
    Call_transfer string int | Call_approve string int | Call_transfer_from string string int | Call_view

record evm_lib =
  el_is_address :: "string \<Rightarrow> bool"
  el_get_address :: "string \<Rightarrow> string option"
  el_encode_transfer :: "string \<Rightarrow> int \<Rightarrow> string option"
  el_decode_call :: "string \<Rightarrow> erc20_call option"
  el_selector :: "string \<Rightarrow> string"
  el_decode_transfer_log :: "string list \<Rightarrow> string \<Rightarrow> (string \<times> string \<times> int) option"

text \<open>
  \<open>getAddress\<close> returns the checksum form, which is an address and its own checksum form; it
  throws on nothing \<open>isAddress\<close> accepts; decoding the encoding of a transfer to a checksum
  address gives it back, and calldata has at least a selector.
\<close>

definition evm_laws :: "evm_lib \<Rightarrow> bool" where
  "evm_laws E \<longleftrightarrow>
     (\<forall>a b. el_get_address E a = Some b \<longrightarrow> el_get_address E b = Some b \<and> el_is_address E b \<and> b \<noteq> [])
   \<and> (\<forall>a. el_is_address E a \<longrightarrow> el_get_address E a \<noteq> None)
   \<and> (\<forall>a n data. el_get_address E a = Some a \<longrightarrow> el_encode_transfer E a n = Some data \<longrightarrow>
        el_decode_call E data = Some (Call_transfer a n) \<and> 10 \<le> length data)"

section \<open>Builder\<close>

definition require_address :: "evm_lib \<Rightarrow> string \<Rightarrow> execution_error + string" where
  "require_address E v =
     (if v = [] \<or> \<not> el_is_address E v then Inl XE_BUILD_ERROR
      else from_option XE_uncaught (el_get_address E v))"

record build_context =
  bx_from :: string
  bx_transaction_id :: "string option"

definition build ::
    "evm_lib \<Rightarrow> chain_registry \<Rightarrow> transaction_intent \<Rightarrow> build_context \<Rightarrow> string \<Rightarrow> execution_error + transaction_request" where
  "build E G i ctx now =
     (if ti_action_type i \<noteq> ''payment'' \<and> ti_action_type i \<noteq> ''transfer'' then Inl XE_BUILD_ERROR
      else if as_symbol (ti_asset i) \<noteq> ''USDC'' then Inl XE_UNSUPPORTED
      else
       and_then (get_by_network G (ti_network i)) (\<lambda>chain.
       and_then (usdc G (ti_network i)) (\<lambda>token.
       if \<not> truthy (ad_address token) then Inl XE_CONFIG_ERROR else
       and_then (require_address E (bx_from ctx)) (\<lambda>sender.
       and_then (require_address E (tr_address (ti_recipient i))) (\<lambda>recipient.
       and_then (require_address E (the (ad_address token))) (\<lambda>token_address.
       and_then (to_base_units (ti_amount i) (ad_decimals token)) (\<lambda>units.
       if units \<le> 0 then Inl XE_BUILD_ERROR else
       and_then (from_option XE_uncaught (el_encode_transfer E recipient units)) (\<lambda>data.
         Inr \<lparr> tq_transaction_id = nullish (bx_transaction_id ctx) (ti_transaction_id i),
               tq_chain = \<lparr> ch_id = cf_chain_id chain, ch_name = cf_network chain \<rparr>,
               tq_from = sender, tq_to = token_address, tq_value = ''0'', tq_data = data,
               tq_asset = \<lparr> as_symbol = ad_symbol token, as_address = Some token_address, as_type = Some ''erc20'' \<rparr>,
               tq_amount = ti_amount i, tq_proposal_id = ti_proposal_id i,
               tq_intent_id = ti_transaction_id i, tq_created_at = now \<rparr>))))))))"

section \<open>Decoder\<close>

record decoded_transaction =
  dt_selector :: string
  dt_function_name :: "string option"
  dt_known :: bool
  dt_target :: "string option"
  dt_amount_units :: "int option"
  dt_token :: string
  dt_args :: "(string \<times> string) list"

definition unknown_call :: "string \<Rightarrow> string \<Rightarrow> decoded_transaction" where
  "unknown_call selector token =
     \<lparr> dt_selector = selector, dt_function_name = None, dt_known = False, dt_target = None,
       dt_amount_units = None, dt_token = token, dt_args = [] \<rparr>"

definition known_call ::
    "string \<Rightarrow> string \<Rightarrow> string \<Rightarrow> string \<Rightarrow> int \<Rightarrow> (string \<times> string) list \<Rightarrow> decoded_transaction" where
  "known_call selector token name target units args =
     \<lparr> dt_selector = selector, dt_function_name = Some name, dt_known = True, dt_target = Some target,
       dt_amount_units = Some units, dt_token = token, dt_args = args \<rparr>"

text \<open>The body of the \<open>try\<close>: an exception of the library falls through to an unknown function.\<close>

definition decode_call :: "evm_lib \<Rightarrow> string \<Rightarrow> string \<Rightarrow> string \<Rightarrow> decoded_transaction option" where
  "decode_call E selector token data =
     (case el_decode_call E data of
        None \<Rightarrow> None
      | Some (Call_transfer to n) \<Rightarrow>
          map_option (\<lambda>a. known_call selector token ''transfer'' a n
            [(''to'', a), (''amount'', show_int n)]) (el_get_address E to)
      | Some (Call_approve spender n) \<Rightarrow>
          map_option (\<lambda>a. known_call selector token ''approve'' a n
            [(''spender'', a), (''amount'', show_int n)]) (el_get_address E spender)
      | Some (Call_transfer_from sender to n) \<Rightarrow>
          Option.bind (el_get_address E to) (\<lambda>a.
          Option.bind (el_get_address E sender) (\<lambda>f.
            Some (known_call selector token ''transferFrom'' a n
              [(''from'', f), (''to'', a), (''amount'', show_int n)])))
      | Some Call_view \<Rightarrow> None)"

definition decode :: "evm_lib \<Rightarrow> transaction_request \<Rightarrow> execution_error + decoded_transaction" where
  "decode E tx =
     and_then (from_option XE_uncaught (el_get_address E (tq_to tx))) (\<lambda>token.
       if tq_data tx = [] \<or> tq_data tx = ''0x'' \<or> length (tq_data tx) < 10
       then Inr (unknown_call (if tq_data tx \<noteq> [] \<and> 10 \<le> length (tq_data tx) then el_selector E (tq_data tx) else ''0x'') token)
       else
        (let selector = to_lower (el_selector E (tq_data tx))
         in Inr (nullish (decode_call E selector token (tq_data tx)) (unknown_call selector token))))"

definition TRANSFER_SELECTOR :: string where "TRANSFER_SELECTOR = ''0xa9059cbb''"
definition APPROVE_SELECTOR :: string where "APPROVE_SELECTOR = ''0x095ea7b3''"
definition TRANSFER_FROM_SELECTOR :: string where "TRANSFER_FROM_SELECTOR = ''0x23b872dd''"

definition is_known_selector :: "string \<Rightarrow> bool" where
  "is_known_selector selector =
     (let s = to_lower selector in s = TRANSFER_SELECTOR \<or> s = APPROVE_SELECTOR \<or> s = TRANSFER_FROM_SELECTOR)"

section \<open>Analyzer\<close>

text \<open>Flags and status: an unknown function is INVALID, an approval or a transferFrom SUSPICIOUS.\<close>

definition function_risk :: "decoded_transaction \<Rightarrow> string list \<times> analysis_status" where
  "function_risk d =
     (if \<not> dt_known d then ([''unknown_function''], AN_INVALID)
      else if dt_function_name d = Some ''approve'' then
        ([''approval''] @ (case dt_amount_units d of None \<Rightarrow> []
            | Some n \<Rightarrow> if n \<ge> 2 ^ 255 then [''unlimited_approval''] else []), AN_SUSPICIOUS)
      else if dt_function_name d = Some ''transferFrom'' then ([''transfer_from''], AN_SUSPICIOUS)
      else ([], AN_VALID))"

definition native_value_risk :: "transaction_request \<Rightarrow> string list \<times> analysis_status \<Rightarrow> string list \<times> analysis_status" where
  "native_value_risk tx r =
     (if tq_value tx \<noteq> ''0'' then (fst r @ [''nonzero_native_value''],
        if snd r = AN_VALID then AN_SUSPICIOUS else snd r)
      else r)"

definition analyze :: "evm_lib \<Rightarrow> chain_registry \<Rightarrow> transaction_request \<Rightarrow> execution_error + transaction_analysis" where
  "analyze E G tx =
     and_then (decode E tx) (\<lambda>d.
       let token = safe_usdc G (ch_name (tq_chain tx));
           decimals = nullish (map_option ad_decimals token) 6;
           risk = native_value_risk tx (function_risk d);
           recipient = nullish (dt_target d) []
       in and_then (case dt_amount_units d of None \<Rightarrow> Inr ''0'' | Some n \<Rightarrow> from_base_units n decimals) (\<lambda>amount.
          and_then (from_option XE_uncaught (el_get_address E (tq_to tx))) (\<lambda>contract.
            Inr \<lparr> ta_transaction_id = tq_transaction_id tx,
                  ta_contract = \<lparr> cr_address = contract, cr_verified = truthy (Option.bind token ad_address) \<rparr>,
                  ta_function = \<lparr> fr_name = nullish (dt_function_name d) ''unknown'', fr_selector = dt_selector d \<rparr>,
                  ta_decoded_arguments = map (map_prod id JStr) (dt_args d),
                  ta_state_changes_expected =
                    (if dt_function_name d = Some ''transfer'' \<and> truthy (dt_target d) then
                       [JObj [(''type'', JStr ''erc20_transfer''), (''asset'', JStr ''USDC''),
                         (''from'', JStr (tq_from tx)), (''to'', JStr recipient), (''amount'', JStr amount)]]
                     else []),
                  ta_recipient = recipient, ta_amount = amount, ta_asset = as_symbol (tq_asset tx),
                  ta_risk_flags = fst risk, ta_status = snd risk \<rparr>)))"

section \<open>Validator\<close>

record authorized_expectation =
  ae_network :: string
  ae_chain_id :: int
  ae_recipient :: string
  ae_asset :: string
  ae_amount :: string
  ae_allowed_function :: string

record validation_result =
  vl_ok :: bool
  vl_discrepancies :: "string list"

definition token_discrepancies ::
    "evm_lib \<Rightarrow> asset_definition option \<Rightarrow> transaction_request \<Rightarrow> execution_error + string list" where
  "token_discrepancies E token tx =
     (if truthy (Option.bind token ad_address) \<and> tq_to tx \<noteq> [] \<and> el_is_address E (tq_to tx) then
        and_then (from_option XE_uncaught (el_get_address E (tq_to tx))) (\<lambda>a.
        and_then (from_option XE_uncaught (el_get_address E (the (Option.bind token ad_address)))) (\<lambda>b.
          Inr (if a \<noteq> b then [''token_contract''] else [])))
      else if \<not> truthy (Option.bind token ad_address) then Inr [''token_unknown'']
      else Inr [])"

definition call_discrepancies ::
    "evm_lib \<Rightarrow> nat \<Rightarrow> decoded_transaction \<Rightarrow> authorized_expectation \<Rightarrow> execution_error + string list" where
  "call_discrepancies E decimals d A =
     (if \<not> dt_known d then Inr [''unknown_function'']
      else if dt_function_name d \<noteq> Some (ae_allowed_function A) then Inr [''unexpected_function'']
      else
       and_then
        (if \<not> truthy (dt_target d) \<or> \<not> el_is_address E (ae_recipient A) then Inr [''recipient'']
         else
          and_then (from_option XE_uncaught (el_get_address E (the (dt_target d)))) (\<lambda>a.
          and_then (from_option XE_uncaught (el_get_address E (ae_recipient A))) (\<lambda>b.
            Inr (if a \<noteq> b then [''recipient''] else []))))
        (\<lambda>recipient.
         and_then (to_base_units (ae_amount A) decimals) (\<lambda>units.
           Inr (recipient @ (if dt_amount_units d \<noteq> Some units then [''amount''] else [])))))"

definition check ::
    "evm_lib \<Rightarrow> chain_registry \<Rightarrow> transaction_request \<Rightarrow> authorized_expectation \<Rightarrow> execution_error + validation_result" where
  "check E G tx A =
     (let token = safe_usdc G (ae_network A) in
      and_then (token_discrepancies E token tx) (\<lambda>about_token.
      and_then (decode E tx) (\<lambda>d.
      and_then (call_discrepancies E (nullish (map_option ad_decimals token) 6) d A) (\<lambda>about_call.
        let ds = (if ch_id (tq_chain tx) \<noteq> ae_chain_id A then [''chain''] else [])
               @ (if ch_name (tq_chain tx) \<noteq> ae_network A then [''network''] else [])
               @ (if as_symbol (tq_asset tx) \<noteq> ae_asset A then [''asset_symbol''] else [])
               @ about_token @ about_call
               @ (if tq_value tx \<noteq> ''0'' then [''native_value''] else [])
        in Inr \<lparr> vl_ok = (length ds = 0), vl_discrepancies = ds \<rparr>))))"

definition assert_valid ::
    "evm_lib \<Rightarrow> chain_registry \<Rightarrow> transaction_request \<Rightarrow> authorized_expectation \<Rightarrow> execution_error + unit" where
  "assert_valid E G tx A =
     and_then (check E G tx A) (\<lambda>r. if \<not> vl_ok r then Inl XE_VALIDATION_FAILED else Inr ())"

section \<open>Lemmas\<close>

lemma evm_lawsD:
  assumes "evm_laws E"
  shows "el_get_address E a = Some b \<Longrightarrow> el_get_address E b = Some b"
    and "el_get_address E a = Some b \<Longrightarrow> el_is_address E b"
    and "el_get_address E a = Some b \<Longrightarrow> b \<noteq> []"
    and "el_is_address E a \<Longrightarrow> \<exists>b. el_get_address E a = Some b"
    and "el_get_address E a = Some a \<Longrightarrow> el_encode_transfer E a n = Some data \<Longrightarrow>
      el_decode_call E data = Some (Call_transfer a n) \<and> 10 \<le> length data"
  using assms by (auto simp: evm_laws_def)

lemma require_address_Inr [simp]:
  "require_address E v = Inr a \<longleftrightarrow> v \<noteq> [] \<and> el_is_address E v \<and> el_get_address E v = Some a"
  by (auto simp: require_address_def)

lemma build_Inr:
  assumes "build E G i ctx now = Inr tx" and "usdc G (ti_network i) = Inr token"
  obtains chain recipient units where "get_by_network G (ti_network i) = Inr chain"
    "truthy (ad_address token)" "el_is_address E (tr_address (ti_recipient i))"
    "el_get_address E (tr_address (ti_recipient i)) = Some recipient"
    "el_get_address E (the (ad_address token)) = Some (tq_to tx)"
    "el_get_address E (bx_from ctx) = Some (tq_from tx)"
    "to_base_units (ti_amount i) (ad_decimals token) = Inr units" "0 < units"
    "el_encode_transfer E recipient units = Some (tq_data tx)"
    "tq_chain tx = \<lparr> ch_id = cf_chain_id chain, ch_name = ti_network i \<rparr>" "tq_value tx = ''0''"
    "as_symbol (tq_asset tx) = ad_symbol token"
    "tq_transaction_id tx = nullish (bx_transaction_id ctx) (ti_transaction_id i)"
  using assms get_by_network_D [of G "ti_network i"]
  by (auto simp: build_def and_then_Inr_iff split: if_splits)

text \<open>The calldata of a built transaction is the transfer it was built for.\<close>

lemma decode_built:
  assumes "evm_laws E" and "el_get_address E a = Some r" and "el_encode_transfer E r n = Some (tq_data tx)"
    and "el_get_address E t = Some (tq_to tx)"
  shows "decode E tx = Inr (known_call (to_lower (el_selector E (tq_data tx))) (tq_to tx) ''transfer'' r n
     [(''to'', r), (''amount'', show_int n)])"
proof -
  have r: "el_get_address E r = Some r" "el_get_address E (tq_to tx) = Some (tq_to tx)"
    using evm_lawsD(1) [OF assms(1)] assms(2,4) by blast+
  note d = evm_lawsD(5) [OF assms(1) r(1) assms(3)]
  have "tq_data tx \<noteq> []" "tq_data tx \<noteq> ''0x''" "\<not> length (tq_data tx) < 10" using d by auto
  then show ?thesis using d r by (simp add: decode_def from_option_def decode_call_def Let_def)
qed

lemma token_discrepancies_built:
  assumes "evm_laws E" and "usdc G n = Inr token" and "truthy (ad_address token)"
    and "el_get_address E (the (ad_address token)) = Some (tq_to tx)"
  shows "token_discrepancies E (safe_usdc G n) tx = Inr []"
proof -
  have u: "safe_usdc G n = Some token" using assms(2) by (simp add: safe_usdc_Some)
  have "el_get_address E (tq_to tx) = Some (tq_to tx)" using evm_lawsD(1) [OF assms(1,4)] .
  with assms(3,4) show ?thesis by (simp add: token_discrepancies_def u from_option_def)
qed

lemma call_discrepancies_transfer:
  assumes "evm_laws E" and "el_get_address E r = Some r"
  shows "call_discrepancies E d (known_call s t ''transfer'' r n args) A = Inr ds \<and> ds = [] \<longleftrightarrow>
    call_discrepancies E d (known_call s t ''transfer'' r n args) A = Inr ds
    \<and> ae_allowed_function A = ''transfer'' \<and> el_is_address E (ae_recipient A)
    \<and> el_get_address E (ae_recipient A) = Some r \<and> to_base_units (ae_amount A) d = Inr n"
  using evm_lawsD(3) [OF assms(1,2)] assms(2)
  by (auto simp: call_discrepancies_def known_call_def and_then_Inr_iff split: if_splits)

lemma check_Inr:
  assumes "check E G tx A = Inr v"
  obtains ts d cs where "token_discrepancies E (safe_usdc G (ae_network A)) tx = Inr ts" "decode E tx = Inr d"
    "call_discrepancies E (nullish (map_option ad_decimals (safe_usdc G (ae_network A))) 6) d A = Inr cs"
    "vl_ok v \<longleftrightarrow> ch_id (tq_chain tx) = ae_chain_id A \<and> ch_name (tq_chain tx) = ae_network A
       \<and> as_symbol (tq_asset tx) = ae_asset A \<and> ts = [] \<and> cs = [] \<and> tq_value tx = ''0''"
proof -
  obtain ts d cs where ok: "token_discrepancies E (safe_usdc G (ae_network A)) tx = Inr ts" "decode E tx = Inr d"
    "call_discrepancies E (nullish (map_option ad_decimals (safe_usdc G (ae_network A))) 6) d A = Inr cs"
    using assms by (auto simp: check_def and_then_Inr_iff Let_def)
  show ?thesis using assms ok by (intro that [OF ok]) (auto simp: check_def Let_def split: if_splits)
qed

lemma built_checked:
  assumes "evm_laws E" and "build E G i ctx now = Inr tx" and "check E G tx A = Inr v"
    and "usdc G (ti_network i) = Inr token" and "get_by_network G (ti_network i) = Inr chain"
  shows "vl_ok v \<longleftrightarrow> ae_chain_id A = cf_chain_id chain \<and> ae_network A = ti_network i
     \<and> ae_asset A = ad_symbol token \<and> ae_allowed_function A = ''transfer''
     \<and> el_is_address E (ae_recipient A)
     \<and> el_get_address E (ae_recipient A) = el_get_address E (tr_address (ti_recipient i))
     \<and> to_base_units (ae_amount A) (ad_decimals token) = to_base_units (ti_amount i) (ad_decimals token)"
proof -
  obtain chain' recipient units where "get_by_network G (ti_network i) = Inr chain'"
    and b: "truthy (ad_address token)"
    "el_get_address E (tr_address (ti_recipient i)) = Some recipient"
    "el_get_address E (the (ad_address token)) = Some (tq_to tx)"
    "to_base_units (ti_amount i) (ad_decimals token) = Inr units"
    "el_encode_transfer E recipient units = Some (tq_data tx)"
    "tq_chain tx = \<lparr> ch_id = cf_chain_id chain', ch_name = ti_network i \<rparr>" "tq_value tx = ''0''"
    "as_symbol (tq_asset tx) = ad_symbol token"
    by (rule build_Inr [OF assms(2,4)]) (blast intro: that)
  then have chain: "chain' = chain" using assms(5) by simp
  obtain ts d cs where c: "token_discrepancies E (safe_usdc G (ae_network A)) tx = Inr ts" "decode E tx = Inr d"
    "call_discrepancies E (nullish (map_option ad_decimals (safe_usdc G (ae_network A))) 6) d A = Inr cs"
    "vl_ok v \<longleftrightarrow> ch_id (tq_chain tx) = ae_chain_id A \<and> ch_name (tq_chain tx) = ae_network A
       \<and> as_symbol (tq_asset tx) = ae_asset A \<and> ts = [] \<and> cs = [] \<and> tq_value tx = ''0''"
    using check_Inr [OF assms(3)] .
  note d = decode_built [OF assms(1) b(2,5,3)]
  have r: "el_get_address E recipient = Some recipient" using evm_lawsD(1) [OF assms(1) b(2)] .
  show ?thesis
  proof (cases "ae_network A = ti_network i")
    case False
    then show ?thesis using c(4) b(6) by auto
  next
    case True
    then have u: "safe_usdc G (ae_network A) = Some token" using assms(4) by (simp add: safe_usdc_Some)
    have "ts = []" using token_discrepancies_built [OF assms(1,4) b(1,3)] c(1) True by simp
    moreover have "cs = [] \<longleftrightarrow> ae_allowed_function A = ''transfer'' \<and> el_is_address E (ae_recipient A)
        \<and> el_get_address E (ae_recipient A) = Some recipient \<and> to_base_units (ae_amount A) (ad_decimals token) = Inr units"
      using call_discrepancies_transfer [OF assms(1) r, of "ad_decimals token" _ _ units _ A cs] c(2,3) d u by auto
    ultimately show ?thesis using c(4) b chain True by auto
  qed
qed

lemma analyze_built:
  assumes "evm_laws E" and "build E G i ctx now = Inr tx" and "usdc G (ti_network i) = Inr token"
  shows "\<exists>a. analyze E G tx = Inr a \<and> ta_status a = AN_VALID \<and> ta_risk_flags a = []
     \<and> el_get_address E (tr_address (ti_recipient i)) = Some (ta_recipient a)
     \<and> to_base_units (ta_amount a) (ad_decimals token) = to_base_units (ti_amount i) (ad_decimals token)"
proof -
  obtain chain recipient units where "get_by_network G (ti_network i) = Inr chain" and b: "el_get_address E (tr_address (ti_recipient i)) = Some recipient"
    "el_get_address E (the (ad_address token)) = Some (tq_to tx)"
    "to_base_units (ti_amount i) (ad_decimals token) = Inr units" "0 < units"
    "el_encode_transfer E recipient units = Some (tq_data tx)"
    "tq_chain tx = \<lparr> ch_id = cf_chain_id chain, ch_name = ti_network i \<rparr>" "tq_value tx = ''0''"
    by (rule build_Inr [OF assms(2,3)]) (blast intro: that)
  obtain amount where amount: "from_base_units units (ad_decimals token) = Inr amount"
    "to_base_units amount (ad_decimals token) = Inr units"
    using from_base_units_inverse [of units "ad_decimals token"] b(4) by auto
  have u: "safe_usdc G (ti_network i) = Some token" using assms(3) by (simp add: safe_usdc_Some)
  have "el_get_address E (tq_to tx) = Some (tq_to tx)" using evm_lawsD(1) [OF assms(1) b(2)] .
  then show ?thesis
    using decode_built [OF assms(1) b(1,5,2)] amount b(1,3,6,7) u
    by (simp add: analyze_def Let_def known_call_def function_risk_def native_value_risk_def from_option_def)
qed

section \<open>Properties\<close>

text \<open>
  A built transaction is accepted by the validator exactly when the expectation names the
  same chain id and network, the registry's token, a plain transfer, the recipient of the intent
  up to address case, and an amount with the same base units.
\<close>

theorem built_transaction_validated:
  assumes "evm_laws E" and "build E G i ctx now = Inr tx" and "check E G tx A = Inr v"
    and "usdc G (ti_network i) = Inr token" and "get_by_network G (ti_network i) = Inr chain"
  shows "vl_ok v \<longleftrightarrow> ae_chain_id A = cf_chain_id chain \<and> ae_network A = ti_network i
     \<and> ae_asset A = ad_symbol token \<and> ae_allowed_function A = ''transfer''
     \<and> el_is_address E (ae_recipient A)
     \<and> el_get_address E (ae_recipient A) = el_get_address E (tr_address (ti_recipient i))
     \<and> to_base_units (ae_amount A) (ad_decimals token) = to_base_units (ti_amount i) (ad_decimals token)"
  by (rule built_checked [OF assms])

text \<open>
  The analysis of a built transaction is VALID without a risk flag, names the checksum form
  of the intended recipient, and its amount denotes exactly the intended base units.
\<close>

theorem built_transaction_analyzed:
  assumes "evm_laws E" and "build E G i ctx now = Inr tx" and "usdc G (ti_network i) = Inr token"
  shows "\<exists>a. analyze E G tx = Inr a \<and> ta_status a = AN_VALID \<and> ta_risk_flags a = []
     \<and> el_get_address E (tr_address (ti_recipient i)) = Some (ta_recipient a)
     \<and> to_base_units (ta_amount a) (ad_decimals token) = to_base_units (ti_amount i) (ad_decimals token)"
  by (rule analyze_built [OF assms])

section \<open>A sample library\<close>

text \<open>Addresses are non-empty texts, lower case is the checksum form; calldata is readable.\<close>

definition sample_evm :: evm_lib where
  "sample_evm = \<lparr> el_is_address = (\<lambda>a. a \<noteq> [] \<and> to_lower a = a),
     el_get_address = (\<lambda>a. if a = [] then None else Some (to_lower a)),
     el_encode_transfer = (\<lambda>a n. if n < 0 then None else Some (TRANSFER_SELECTOR @ show_int n @ '':'' @ a)),
     el_decode_call = (\<lambda>data. if take 10 data = TRANSFER_SELECTOR then
         Some (Call_transfer (tl (dropWhile (\<lambda>c. c \<noteq> CHR '':'') (drop 10 data)))
           (int (digits_value (takeWhile (\<lambda>c. c \<noteq> CHR '':'') (drop 10 data))))) else None),
     el_selector = take 10,
     el_decode_transfer_log = (\<lambda>topics data. case topics of
         [sender, to] \<Rightarrow> Some (sender, to, int (digits_value data)) | _ \<Rightarrow> None) \<rparr>"

lemma to_lower_idem [simp]: "to_lower (to_lower s) = to_lower s"
proof -
  have "to_lower_char (to_lower_char c) = to_lower_char c" for c
    by (cases "65 \<le> (of_char c :: nat) \<and> (of_char c :: nat) \<le> 90") (auto simp: to_lower_char_def)
  then show ?thesis by (simp add: to_lower_def)
qed

lemma to_lower_Nil [simp]: "to_lower s = [] \<longleftrightarrow> s = []"
  by (simp add: to_lower_def)

lemma sample_evm_laws: "evm_laws sample_evm"
proof -
  have colon: "\<forall>c \<in> set (show_nat k). c \<noteq> CHR '':''" for k
  proof -
    have "\<not> is_digit (CHR '':'')" by (simp add: is_digit_def)
    then show ?thesis using show_nat_digits by blast
  qed
  have "takeWhile (\<lambda>c. c \<noteq> CHR '':'') (show_nat k @ CHR '':'' # a) = show_nat k"
    "dropWhile (\<lambda>c. c \<noteq> CHR '':'') (show_nat k @ CHR '':'' # a) = CHR '':'' # a" for k a
    using colon [of k] by (simp_all add: takeWhile_append dropWhile_append3)
  moreover have "length TRANSFER_SELECTOR = 10" by (simp add: TRANSFER_SELECTOR_def)
  ultimately show ?thesis
    by (auto simp: evm_laws_def sample_evm_def show_int_def split: if_splits)
qed

definition sample_registry :: chain_registry where
  "sample_registry = new_chain_registry
     \<lparr> go_base_sepolia_usdc_address = Some ''0xusdc'', go_anvil_usdc_address = None \<rparr>"

definition sample_transfer :: "string \<Rightarrow> transaction_intent" where
  "sample_transfer amount = \<lparr> ti_transaction_id = ''t1'', ti_proposal_id = ''p1'', ti_action_type = ''payment'',
     ti_network = ''base-sepolia'', ti_asset = \<lparr> as_symbol = ''USDC'', as_address = None, as_type = None \<rparr>,
     ti_amount = amount, ti_recipient = \<lparr> tr_address = ''0xbob'', tr_type = None \<rparr>,
     ti_payment_method = None, ti_constraints = [] \<rparr>"

definition sample_build_context :: build_context where
  "sample_build_context = \<lparr> bx_from = ''0xme'', bx_transaction_id = None \<rparr>"

definition sample_expectation :: "string \<Rightarrow> authorized_expectation" where
  "sample_expectation amount = \<lparr> ae_network = ''base-sepolia'', ae_chain_id = 84532, ae_recipient = ''0xbob'',
     ae_asset = ''USDC'', ae_amount = amount, ae_allowed_function = ''transfer'' \<rparr>"

definition sample_tx_request :: transaction_request where
  "sample_tx_request = \<lparr> tq_transaction_id = ''t1'', tq_chain = \<lparr> ch_id = 84532, ch_name = ''base-sepolia'' \<rparr>,
     tq_from = ''0xme'', tq_to = ''0xusdc'', tq_value = ''0'', tq_data = ''0xa9059cbb5250000:0xbob'',
     tq_asset = \<lparr> as_symbol = ''USDC'', as_address = Some ''0xusdc'', as_type = Some ''erc20'' \<rparr>,
     tq_amount = ''5.25'', tq_proposal_id = ''p1'', tq_intent_id = ''t1'', tq_created_at = ''now'' \<rparr>"

lemmas chain_eval = new_chain_registry_def with_usdc_address_def ANVIL_def BASE_SEPOLIA_def BASE_MAINNET_def
  USDC_DECIMALS_def get_by_network_def usdc_def safe_usdc_def from_option_def sample_registry_def

lemmas base_units_eval = to_base_units_def trim_def is_space_def limit_format_def split_point_def all_digits_def
  is_digit_def digits_value_def digit_value_def pad_end_def

lemma sample_units: "to_base_units ''5.25'' 6 = Inr 5250000" "to_base_units ''5.250'' 6 = Inr 5250000"
proof -
  have "replicate 4 c = [c, c, c, c]" "replicate 3 c = [c, c, c]" for c :: char by (simp_all add: numeral_eq_Suc)
  then show "to_base_units ''5.25'' 6 = Inr 5250000" "to_base_units ''5.250'' 6 = Inr 5250000"
    by (simp_all add: base_units_eval)
qed

lemma sample_lower: "to_lower ''0xbob'' = ''0xbob''" "to_lower ''0xme'' = ''0xme''"
  "to_lower ''0xusdc'' = ''0xusdc''" "to_lower ''0xEVIL'' = ''0xevil''" "to_lower ''0xa9059cbb'' = ''0xa9059cbb''"
  by (simp_all add: to_lower_def to_lower_char_def char_of_def bit_Suc_0_iff)

lemma sample_built:
  "build sample_evm sample_registry (sample_transfer ''5.25'') sample_build_context ''now'' = Inr sample_tx_request"
proof -
  have "show_int 5250000 = ''5250000''" by (simp add: show_int_def show_nat.simps digit_char_def char_of_def bit_Suc_0_iff)
  then show ?thesis
    by (simp add: sample_lower build_def sample_transfer_def sample_build_context_def sample_tx_request_def chain_eval
        require_address_def sample_evm_def sample_units TRANSFER_SELECTOR_def)
qed

lemma sample_usdc: "usdc sample_registry ''base-sepolia''
    = Inr \<lparr> ad_symbol = ''USDC'', ad_address = Some ''0xusdc'', ad_decimals = 6 \<rparr>"
  by (simp add: chain_eval)

lemmas check_eval = check_def safe_usdc_def sample_usdc sample_expectation_def sample_tx_request_def token_discrepancies_def
  call_discrepancies_def decode_def decode_call_def known_call_def sample_evm_def sample_lower
  from_option_def TRANSFER_SELECTOR_def sample_units digits_value_def digit_value_def

theorem built_transaction_analyzed_witness:
  "\<exists>a. analyze sample_evm sample_registry sample_tx_request = Inr a \<and> ta_status a = AN_VALID
     \<and> to_base_units (ta_amount a) 6 = Inr 5250000"
  using built_transaction_analyzed [OF sample_evm_laws sample_built] sample_usdc sample_units
  by (simp add: sample_transfer_def) blast

theorem built_transaction_validated_witness:
  "\<exists>v. check sample_evm sample_registry sample_tx_request (sample_expectation ''5.250'') = Inr v \<and> vl_ok v"
proof -
  have net: "\<exists>c. get_by_network sample_registry ''base-sepolia'' = Inr c \<and> cf_chain_id c = 84532"
    by (simp add: chain_eval)
  obtain c where c: "get_by_network sample_registry ''base-sepolia'' = Inr c" "cf_chain_id c = 84532"
    using net by blast
  have "check sample_evm sample_registry sample_tx_request (sample_expectation ''5.250'') = Inr \<lparr> vl_ok = True, vl_discrepancies = [] \<rparr>"
    by (simp add: check_eval)
  then have "\<exists>v. check sample_evm sample_registry sample_tx_request (sample_expectation ''5.250'') = Inr v" by blast
  then obtain v where v: "check sample_evm sample_registry sample_tx_request (sample_expectation ''5.250'') = Inr v" ..
  have "el_is_address sample_evm ''0xbob''" by (simp add: sample_evm_def sample_lower)
  then have "vl_ok v"
    using built_transaction_validated [OF sample_evm_laws sample_built v] sample_usdc c sample_units
    by (simp add: sample_transfer_def sample_expectation_def)
  with v show ?thesis by blast
qed

section \<open>An address that is not in checksum form\<close>

text \<open>
  The token contract is compared only when \<open>tx.to\<close> passes the strict address check, while the
  decoder accepts any spelling: a call of another contract, whose address is spelled with a wrong
  checksum, passes the validator.
\<close>

theorem misspelled_token_contract_accepted:
  "check sample_evm sample_registry (sample_tx_request\<lparr>tq_to := ''0xEVIL''\<rparr>) (sample_expectation ''5.25'')
     = Inr \<lparr> vl_ok = True, vl_discrepancies = [] \<rparr>
   \<and> el_get_address sample_evm ''0xEVIL'' \<noteq> el_get_address sample_evm ''0xusdc''"
  by (simp add: check_eval)

end
