(* ===== verification/Chain_Simulation.thy ===== *)
theory Chain_Simulation
  imports Payment_Transaction "HOL-Library.Sublist"
begin

text \<open>
  The payload hash of a transaction request (Blockchain/src/shared/hashing.ts) and the simulator
  with its freshness guard (Blockchain/src/simulation/simulator.ts). The node is a parameter, the
  record \<open>node\<close>: what it answers to the reads of one simulation; \<open>None\<close> is a failed call.
\<close>

section \<open>Payload hash\<close>

definition material_json :: "transaction_request \<Rightarrow> json" where
  "material_json tx = JObj
     [(''chainId'', JNum (ch_id (tq_chain tx))),
      (''from'', JStr (to_lower (tq_from tx))),
      (''to'', JStr (to_lower (tq_to tx))),
      (''value'', JStr (tq_value tx)),
      (''data'', JStr (to_lower (tq_data tx))),
      (''asset'', JStr (as_symbol (tq_asset tx))),
      (''assetAddress'', JStr (to_lower (nullish (as_address (tq_asset tx)) []))),
      (''amount'', JStr (tq_amount tx))]"

definition request_payload_hash :: "(string \<Rightarrow> string) \<Rightarrow> transaction_request \<Rightarrow> string" where
  "request_payload_hash sha tx = sha (canonical_text (material_json tx))"

section \<open>Simulator\<close>

text \<open>The fields of an exception that hold revert text; those that are not strings are absent.\<close>

record revert_cause =
  vc_short_message :: "string option"
  vc_details :: "string option"
  vc_meta_messages :: "string option"
  vc_cause_details :: "string option"
  vc_cause_short_message :: "string option"
  vc_message :: string

definition picked :: "string option \<Rightarrow> string list" where
  "picked v = (if truthy v then [the v] else [])"

fun join_bar :: "string list \<Rightarrow> string" where
  "join_bar [] = []"
| "join_bar [p] = p"
| "join_bar (p # q # ps) = p @ '' | '' @ join_bar (q # ps)"

definition mentions :: "string \<Rightarrow> string \<Rightarrow> bool" where
  "mentions word message = sublist word (to_lower message)"

definition extract_revert_reason :: "revert_cause \<Rightarrow> string \<times> bool" where
  "extract_revert_reason c =
     (let parts = picked (vc_short_message c) @ picked (vc_details c) @ picked (vc_meta_messages c)
            @ picked (vc_cause_details c) @ picked (vc_cause_short_message c);
          parts = (if parts = [] then [vc_message c] else parts);
          message = (if join_bar parts = [] then ''reverted'' else join_bar parts)
      in (message, mentions ''insufficient'' message \<or> mentions ''balance'' message \<or> mentions ''exceeds'' message))"

record transfer_call =
  tc_account :: string
  tc_token :: string
  tc_to :: string
  tc_amount :: int

record node =
  nd_chain_id :: "int option"
  nd_balance_of :: "string \<Rightarrow> string \<Rightarrow> int option"
  nd_simulate :: "transfer_call \<Rightarrow> revert_cause option"
  nd_estimate_gas :: "transfer_call \<Rightarrow> int option"

record bound_simulation =
  bs_result :: simulation_result
  bs_payload_hash :: string

definition simulation ::
    "transaction_request \<Rightarrow> string \<Rightarrow> simulation_status \<Rightarrow> string option \<Rightarrow> state_change list \<Rightarrow> string option \<Rightarrow>
     simulation_result" where
  "simulation tx now st gas changes reason =
     \<lparr> sr_transaction_id = tq_transaction_id tx, sr_status = st, sr_would_revert = (st \<noteq> SIM_PASS),
       sr_gas_estimate = gas, sr_expected_state_changes = changes, sr_unexpected_state_changes = [],
       sr_revert_reason = reason, sr_simulator_provider = ''viem-eth_call'', sr_simulator_version = ''1.0.0'',
       sr_simulated_at = now \<rparr>"

text \<open>Balance check, eth_call and gas estimate of a decoded transfer.\<close>

definition simulate_transfer ::
    "node \<Rightarrow> nat \<Rightarrow> transaction_request \<Rightarrow> transfer_call \<Rightarrow> string \<Rightarrow> execution_error + simulation_result" where
  "simulate_transfer N decimals tx c now =
     (if (case nd_balance_of N (tc_token c) (tc_account c) of None \<Rightarrow> False | Some b \<Rightarrow> b < tc_amount c)
      then Inr (simulation tx now SIM_INSUFFICIENT_FUNDS None [] (Some ''insufficient_balance''))
      else
       (case nd_simulate N c of
          Some cause \<Rightarrow>
           (let (message, insufficient) = extract_revert_reason cause
            in Inr (simulation tx now (if insufficient then SIM_INSUFFICIENT_FUNDS else SIM_REVERT) None []
                 (Some message)))
        | None \<Rightarrow>
            and_then (from_base_units (tc_amount c) decimals) (\<lambda>amount.
              Inr (simulation tx now SIM_PASS (map_option show_int (nd_estimate_gas N c))
                [\<lparr> sc_type = ''erc20_transfer'', sc_asset = Some ''USDC'', sc_from = Some (tc_account c),
                   sc_to = Some (tc_to c), sc_amount = Some amount \<rparr>] None))))"

text \<open>What follows the chain check: only a decoded transfer is simulated.\<close>

definition simulate_decoded ::
    "evm_lib \<Rightarrow> chain_registry \<Rightarrow> node \<Rightarrow> transaction_request \<Rightarrow> string \<Rightarrow> decoded_transaction \<Rightarrow> execution_error + simulation_result" where
  "simulate_decoded E G N tx now d =
     (if \<not> dt_known d \<or> dt_function_name d \<noteq> Some ''transfer'' \<or> \<not> truthy (dt_target d) \<or> dt_amount_units d = None
      then Inr (simulation tx now SIM_UNSUPPORTED None [] (Some ''unsupported_or_unknown_function''))
      else
       and_then (from_option XE_uncaught (el_get_address E (tq_to tx))) (\<lambda>token.
       and_then (from_option XE_uncaught (el_get_address E (tq_from tx))) (\<lambda>sender.
       and_then (usdc G (ch_name (tq_chain tx))) (\<lambda>asset.
         simulate_transfer N (ad_decimals asset) tx
           \<lparr> tc_account = sender, tc_token = token, tc_to = the (dt_target d),
              tc_amount = the (dt_amount_units d) \<rparr> now))))"

definition simulate ::
    "(string \<Rightarrow> string) \<Rightarrow> evm_lib \<Rightarrow> chain_registry \<Rightarrow> node \<Rightarrow> transaction_request \<Rightarrow> string \<Rightarrow> rpc_provider \<Rightarrow>
     (execution_error + bound_simulation) \<times> rpc_provider" where
  "simulate sha E G N tx now P =
     (case assert_chain_for_request (nd_chain_id N) (ch_id (tq_chain tx)) P of
        (Inl e, P') \<Rightarrow> (Inl e, P')
      | (Inr _, P') \<Rightarrow>
         (and_then (decode E tx) (\<lambda>d.
          and_then (simulate_decoded E G N tx now d) (\<lambda>r.
            Inr \<lparr> bs_result = r, bs_payload_hash = request_payload_hash sha tx \<rparr>)), P'))"

definition assert_fresh ::
    "(string \<Rightarrow> string) \<Rightarrow> bound_simulation \<Rightarrow> transaction_request \<Rightarrow> execution_error + unit" where
  "assert_fresh sha sim tx =
     (if request_payload_hash sha tx \<noteq> bs_payload_hash sim then Inl XE_STALE_SIMULATION
      else if sr_status (bs_result sim) \<noteq> SIM_PASS then Inl XE_SIMULATION_FAILED
      else Inr ())"

section \<open>Lemmas\<close>

text \<open>The fields the hash binds, compared as the code compares them.\<close>

definition same_payload :: "transaction_request \<Rightarrow> transaction_request \<Rightarrow> bool" where
  "same_payload s t \<longleftrightarrow>
     ch_id (tq_chain s) = ch_id (tq_chain t) \<and> to_lower (tq_from s) = to_lower (tq_from t)
   \<and> to_lower (tq_to s) = to_lower (tq_to t) \<and> tq_value s = tq_value t
   \<and> to_lower (tq_data s) = to_lower (tq_data t) \<and> as_symbol (tq_asset s) = as_symbol (tq_asset t)
   \<and> to_lower (nullish (as_address (tq_asset s)) []) = to_lower (nullish (as_address (tq_asset t)) [])
   \<and> tq_amount s = tq_amount t"

lemma material_json_eqD:
  assumes "canonicalize (material_json s) = canonicalize (material_json t)"
  shows "same_payload s t"
proof -
  define a where "a = (case material_json s of JObj kvs \<Rightarrow> kvs | _ \<Rightarrow> [])"
  define b where "b = (case material_json t of JObj kvs \<Rightarrow> kvs | _ \<Rightarrow> [])"
  have m: "map_option canonicalize (map_of a k) = map_option canonicalize (map_of b k)" for k
    by (rule canonicalize_member) (use assms in \<open>simp_all add: material_json_def a_def b_def\<close>)
  show ?thesis
    using m [of "''chainId''"] m [of "''from''"] m [of "''to''"] m [of "''value''"] m [of "''data''"]
      m [of "''asset''"] m [of "''assetAddress''"] m [of "''amount''"]
    by (simp add: a_def b_def material_json_def same_payload_def)
qed

lemma request_payload_hash_eqD:
  assumes "request_payload_hash sha s = request_payload_hash sha t"
    and "inj_on sha {canonical_text (material_json s), canonical_text (material_json t)}"
  shows "same_payload s t"
proof -
  have "canonical_text (material_json s) = canonical_text (material_json t)"
    using assms by (auto simp: request_payload_hash_def dest: inj_onD)
  then show ?thesis by (intro material_json_eqD) (simp add: canonical_text_eq_iff)
qed

lemma simulate_transfer_PASS:
  assumes "simulate_transfer N decimals tx c now = Inr r" and "sr_status r = SIM_PASS"
  shows "nd_simulate N c = None \<and> (case nd_balance_of N (tc_token c) (tc_account c) of None \<Rightarrow> True | Some b \<Rightarrow> tc_amount c \<le> b)"
  using assms
  by (auto simp: simulate_transfer_def simulation_def and_then_Inr_iff split: if_splits option.splits prod.splits)

lemma simulate_provider: "snd (simulate sha E G N tx now P) = snd (assert_chain_for_request (nd_chain_id N) (ch_id (tq_chain tx)) P)"
  by (auto simp: simulate_def split: prod.splits sum.splits)

lemma simulate_decoded_PASS:
  assumes "simulate_decoded E G N tx now d = Inr r" and "sr_status r = SIM_PASS"
  obtains to units token sender where "dt_known d" "dt_function_name d = Some ''transfer''"
    "dt_target d = Some to" "dt_amount_units d = Some units" "el_get_address E (tq_to tx) = Some token"
    "el_get_address E (tq_from tx) = Some sender"
    "nd_simulate N \<lparr> tc_account = sender, tc_token = token, tc_to = to, tc_amount = units \<rparr> = None"
    "case nd_balance_of N token sender of None \<Rightarrow> True | Some b \<Rightarrow> units \<le> b"
proof -
  have call: "dt_known d" "dt_function_name d = Some ''transfer''" "truthy (dt_target d)" "dt_amount_units d \<noteq> None"
    using assms by (auto simp: simulate_decoded_def simulation_def split: if_splits)
  then obtain to units where tu: "dt_target d = Some to" "dt_amount_units d = Some units"
    by (auto elim: truthy_obtain)
  obtain token sender asset where "usdc G (ch_name (tq_chain tx)) = Inr asset"
    and t: "el_get_address E (tq_to tx) = Some token" "el_get_address E (tq_from tx) = Some sender"
    "simulate_transfer N (ad_decimals asset) tx \<lparr> tc_account = sender, tc_token = token, tc_to = to, tc_amount = units \<rparr> now = Inr r"
    using assms(1) call tu by (auto simp: simulate_decoded_def and_then_Inr_iff)
  show ?thesis
    using simulate_transfer_PASS [OF t(3) assms(2)] by (intro that [OF call(1,2) tu t(1,2)]) (simp_all cong: option.case_cong)
qed

lemma simulate_Inr:
  assumes "fst (simulate sha E G N tx now P) = Inr sim"
  obtains d where "decode E tx = Inr d" "simulate_decoded E G N tx now d = Inr (bs_result sim)"
    "bs_payload_hash sim = request_payload_hash sha tx" "ch_id (tq_chain tx) = cf_chain_id (rp_chain P)"
proof -
  have "\<exists>u. fst (assert_chain_for_request (nd_chain_id N) (ch_id (tq_chain tx)) P) = Inr u"
    using assms by (auto simp: simulate_def split: prod.splits sum.splits)
  then have "ch_id (tq_chain tx) = cf_chain_id (rp_chain P)" by (auto dest: assert_chain_Inr)
  with assms show ?thesis
    by (auto simp: simulate_def and_then_Inr_iff intro!: that split: prod.splits sum.splits)
qed

section \<open>Properties\<close>

text \<open>
  what passed the simulation is what is executed: when the guard accepts a transaction, it
  has the chain, sender, target, value, calldata, asset and amount that were simulated, the
  simulated chain is the configured one, and its call was a transfer that the node accepted and
  the balance, where it could be read, covered.
\<close>

theorem fresh_simulation_binds:
  assumes "fst (simulate sha E G N tx now P) = Inr sim" and "assert_fresh sha sim tx' = Inr ()"
    and "inj_on sha {canonical_text (material_json tx'), canonical_text (material_json tx)}"
  shows "same_payload tx' tx \<and> ch_id (tq_chain tx) = cf_chain_id (rp_chain P)
    \<and> (\<exists>d to units token sender. decode E tx = Inr d \<and> dt_function_name d = Some ''transfer''
         \<and> dt_target d = Some to \<and> dt_amount_units d = Some units
         \<and> el_get_address E (tq_to tx) = Some token \<and> el_get_address E (tq_from tx) = Some sender
         \<and> nd_simulate N \<lparr> tc_account = sender, tc_token = token, tc_to = to, tc_amount = units \<rparr> = None
         \<and> (case nd_balance_of N token sender of None \<Rightarrow> True | Some b \<Rightarrow> units \<le> b))"
proof -
  obtain d where d: "decode E tx = Inr d" "simulate_decoded E G N tx now d = Inr (bs_result sim)"
    "bs_payload_hash sim = request_payload_hash sha tx" "ch_id (tq_chain tx) = cf_chain_id (rp_chain P)"
    using simulate_Inr [OF assms(1)] .
  have fresh: "request_payload_hash sha tx' = request_payload_hash sha tx" "sr_status (bs_result sim) = SIM_PASS"
    using assms(2) d(3) by (auto simp: assert_fresh_def split: if_splits)
  show ?thesis
    using request_payload_hash_eqD [OF fresh(1) assms(3)] simulate_decoded_PASS [OF d(2) fresh(2)] d(1,4)
    by (metis (lifting))
qed

definition sample_node :: node where
  "sample_node = \<lparr> nd_chain_id = Some 84532, nd_balance_of = (\<lambda>_ _. Some 9000000), nd_simulate = (\<lambda>_. None),
     nd_estimate_gas = (\<lambda>_. Some 50000) \<rparr>"

definition sample_provider :: rpc_provider where
  "sample_provider = \<lparr> rp_chain = BASE_SEPOLIA, rp_verified_chain_id = None \<rparr>"

lemma sample_chain:
  assumes "rp_chain P = BASE_SEPOLIA" and "rp_verified_chain_id P = None \<or> rp_verified_chain_id P = Some 84532"
  shows "assert_chain_for_request (nd_chain_id sample_node) 84532 P = (Inr (), P\<lparr>rp_verified_chain_id := Some 84532\<rparr>)"
  using assms by (cases P) (auto simp: assert_chain_for_request_def assert_configured_chain_def sample_node_def BASE_SEPOLIA_def)

lemma sample_fresh:
  assumes "rp_chain P = BASE_SEPOLIA" and "rp_verified_chain_id P = None \<or> rp_verified_chain_id P = Some 84532"
  shows "\<exists>sim. fst (simulate sha sample_evm sample_registry sample_node sample_tx_request ''now'' P) = Inr sim
     \<and> assert_fresh sha sim sample_tx_request = Inr ()"
proof -
  obtain d where d: "decode sample_evm sample_tx_request = Inr d" "dt_known d" "dt_function_name d = Some ''transfer''"
    "dt_target d = Some ''0xbob''" "dt_amount_units d = Some 5250000"
    by (simp add: check_eval)
  obtain amount where "from_base_units 5250000 6 = Inr amount" using from_base_units_inverse [of 5250000 6] by auto
  then obtain r where "simulate_decoded sample_evm sample_registry sample_node sample_tx_request ''now'' d = Inr r" "sr_status r = SIM_PASS"
    using d(2-5) sample_usdc
    by (fastforce simp: simulate_decoded_def simulate_transfer_def sample_node_def sample_tx_request_def sample_evm_def
        sample_lower from_option_def simulation_def)
  moreover have "ch_id (tq_chain sample_tx_request) = 84532" by (simp add: sample_tx_request_def)
  ultimately show ?thesis using sample_chain [OF assms] d(1)
    by (simp add: simulate_def) (simp add: assert_fresh_def)
qed

theorem fresh_simulation_binds_witness:
  "\<exists>d units. decode sample_evm sample_tx_request = Inr d \<and> dt_amount_units d = Some units
     \<and> nd_simulate sample_node \<lparr> tc_account = ''0xme'', tc_token = ''0xusdc'', tc_to = ''0xbob'', tc_amount = units \<rparr> = None"
proof -
  obtain sim where sim: "fst (simulate (\<lambda>s. s) sample_evm sample_registry sample_node sample_tx_request ''now'' sample_provider) = Inr sim"
    "assert_fresh (\<lambda>s. s) sim sample_tx_request = Inr ()"
    using sample_fresh [of sample_provider] by (auto simp: sample_provider_def)
  from fresh_simulation_binds [OF sim] show ?thesis by (auto simp: sample_node_def)
qed

end
