(* ===== verification/Receipts.thy ===== *)
theory Receipts
  imports Payment_Transaction
begin

text \<open>
  Fetching, parsing and verifying a receipt (Blockchain/src/receipts). The node's answers are
  parameters: the receipt of one lookup, and for the bounded wait the sequence of lookups with
  the clock readings between them. The wait is a \<open>partial_function\<close>: that it returns is a
  theorem about clocks that move.
\<close>

section \<open>Receipts of the node\<close>

record raw_log =
  lo_address :: string
  lo_topics :: "string list"
  lo_data :: string

record raw_receipt =
  rc_transaction_hash :: string
  rc_success :: bool
  rc_from :: string
  rc_to :: "string option"
  rc_logs :: "raw_log list"

text \<open>
  What \<open>getTransactionReceipt\<close> does: a receipt, the not-found exception, or another one.
\<close>

datatype receipt_lookup = Receipt_found raw_receipt | Receipt_not_found | Receipt_failed

text \<open>
  The normalization of the addresses; in \<open>getReceipt\<close> it happens inside the \<open>try\<close>.
\<close>

definition normalize_log :: "evm_lib \<Rightarrow> raw_log \<Rightarrow> execution_error + raw_log" where
  "normalize_log E l = and_then (from_option XE_uncaught (el_get_address E (lo_address l)))
     (\<lambda>a. Inr (l\<lparr>lo_address := a\<rparr>))"

definition normalize_receipt :: "evm_lib \<Rightarrow> raw_receipt \<Rightarrow> execution_error + raw_receipt" where
  "normalize_receipt E r =
     and_then (from_option XE_uncaught (el_get_address E (rc_from r))) (\<lambda>sender.
     and_then (if truthy (rc_to r) then map_sum id Some (from_option XE_uncaught (el_get_address E (the (rc_to r)))) else Inr None) (\<lambda>to.
     and_then (traverse (normalize_log E) (rc_logs r)) (\<lambda>logs.
       Inr (r\<lparr>rc_from := sender, rc_to := to, rc_logs := logs\<rparr>))))"

definition get_receipt :: "evm_lib \<Rightarrow> receipt_lookup \<Rightarrow> execution_error + raw_receipt option" where
  "get_receipt E l =
     (case l of
        Receipt_found r \<Rightarrow>
          (case normalize_receipt E r of Inl _ \<Rightarrow> Inl XE_RPC_ERROR | Inr n \<Rightarrow> Inr (Some n))
      | Receipt_not_found \<Rightarrow> Inr None
      | Receipt_failed \<Rightarrow> Inl XE_RPC_ERROR)"

section \<open>Bounded waiting\<close>

text \<open>
  \<open>while (Date.now() < deadline)\<close> with one lookup and a sleep per turn; \<open>clock k\<close> is the
  time at the k-th test, \<open>answer k\<close> the k-th lookup. \<open>None\<close> would be a wait without end.
\<close>

partial_function (option) poll_until ::
    "(nat \<Rightarrow> int) \<Rightarrow> (nat \<Rightarrow> 'e + 'r option) \<Rightarrow> int \<Rightarrow> nat \<Rightarrow> ('e + 'r option) option" where
  "poll_until clock answer deadline k =
     (if clock k < deadline then
        (case answer k of
           Inl e \<Rightarrow> Some (Inl e)
         | Inr (Some r) \<Rightarrow> Some (Inr (Some r))
         | Inr None \<Rightarrow> poll_until clock answer deadline (Suc k))
      else Some (Inr None))"

definition wait_for_receipt ::
    "evm_lib \<Rightarrow> raw_receipt option \<Rightarrow> (nat \<Rightarrow> int) \<Rightarrow> (nat \<Rightarrow> receipt_lookup) \<Rightarrow> int \<Rightarrow> int \<Rightarrow>
     (execution_error + raw_receipt option) option" where
  "wait_for_receipt E fast clock answer start timeout_ms =
     (case fast of
        Some r \<Rightarrow>
          (case normalize_receipt E r of
             Inr n \<Rightarrow> Some (Inr (Some n))
           | Inl _ \<Rightarrow> poll_until clock (\<lambda>k. get_receipt E (answer k)) (start + timeout_ms) 0)
      | None \<Rightarrow> poll_until clock (\<lambda>k. get_receipt E (answer k)) (start + timeout_ms) 0)"

section \<open>Parser\<close>

record parsed_transfer =
  pt_token :: string
  pt_from :: string
  pt_to :: string
  pt_value_units :: int

record parsed_receipt =
  pr_transaction_hash :: string
  pr_success :: bool
  pr_transfers :: "parsed_transfer list"

definition parse_log :: "evm_lib \<Rightarrow> raw_log \<Rightarrow> parsed_transfer option" where
  "parse_log E l =
     Option.bind (el_decode_transfer_log E (lo_topics l) (lo_data l)) (\<lambda>(sender, to, n).
     Option.bind (el_get_address E (lo_address l)) (\<lambda>token.
     Option.bind (el_get_address E sender) (\<lambda>sender.
     Option.bind (el_get_address E to) (\<lambda>to.
       Some \<lparr> pt_token = token, pt_from = sender, pt_to = to, pt_value_units = n \<rparr>))))"

definition parse_receipt :: "evm_lib \<Rightarrow> raw_receipt \<Rightarrow> parsed_receipt" where
  "parse_receipt E r =
     \<lparr> pr_transaction_hash = rc_transaction_hash r, pr_success = rc_success r,
       pr_transfers = List.map_filter (parse_log E) (rc_logs r) \<rparr>"

section \<open>Verifier\<close>

record authorized_receipt =
  au_recipient :: string
  au_asset :: string
  au_amount :: string
  au_network :: string
  au_token_address :: string
  au_decimals :: nat

fun find_transfer ::
    "evm_lib \<Rightarrow> string option \<Rightarrow> string option \<Rightarrow> parsed_transfer list \<Rightarrow> execution_error + parsed_transfer option" where
  "find_transfer E token recipient [] = Inr None"
| "find_transfer E token recipient (t # ts) =
     (case (token, recipient) of
        (Some tok, Some rcp) \<Rightarrow>
          and_then (from_option XE_uncaught (el_get_address E (pt_token t))) (\<lambda>a.
            if a \<noteq> tok then find_transfer E token recipient ts else
            and_then (from_option XE_uncaught (el_get_address E (pt_to t))) (\<lambda>b.
              if b \<noteq> rcp then find_transfer E token recipient ts else Inr (Some t)))
      | _ \<Rightarrow> find_transfer E token recipient ts)"

text \<open>The findings about the transfer: discrepancies, actual recipient and actual amount.\<close>

definition transfer_findings ::
    "evm_lib \<Rightarrow> authorized_receipt \<Rightarrow> int \<Rightarrow> string option \<Rightarrow> parsed_transfer option \<Rightarrow> parsed_transfer list \<Rightarrow>
     execution_error + string list \<times> string \<times> string" where
  "transfer_findings E A units token matching transfers =
     (case matching of
        None \<Rightarrow>
          (case transfers of
             [] \<Rightarrow> Inr ([''recipient'', ''no_transfer''], [], ''0'')
           | first # _ \<Rightarrow>
               and_then (from_base_units (pt_value_units first) (au_decimals A)) (\<lambda>amount.
                 Inr ([''recipient''] @ (if el_get_address E (pt_token first) \<noteq> token then [''asset''] else []),
                      pt_to first, amount)))
      | Some t \<Rightarrow>
          and_then (from_base_units (pt_value_units t) (au_decimals A)) (\<lambda>amount.
            Inr (if pt_value_units t \<noteq> units then [''amount''] else [], pt_to t, amount)))"

definition verify_receipt ::
    "evm_lib \<Rightarrow> string \<Rightarrow> authorized_receipt \<Rightarrow> parsed_receipt \<Rightarrow> string \<Rightarrow> string \<Rightarrow> execution_error + receipt_verification" where
  "verify_receipt E execution_id A parsed actual_network now =
     (let token = el_get_address E (au_token_address A);
          recipient = el_get_address E (au_recipient A) in
      and_then (to_base_units (au_amount A) (au_decimals A)) (\<lambda>units.
      and_then (find_transfer E token recipient (pr_transfers parsed)) (\<lambda>matching.
      and_then (transfer_findings E A units token matching (pr_transfers parsed)) (\<lambda>(found, actual_recipient, actual_amount).
        let ds = (if \<not> pr_success parsed then [''tx_reverted''] else []) @ found
               @ (if au_network A \<noteq> actual_network then [''network''] else []);
            verified = (length ds = 0)
        in Inr \<lparr> rv_execution_id = execution_id, rv_verified = verified,
                 rv_transaction_hash = pr_transaction_hash parsed,
                 rv_expected = \<lparr> rs_recipient = nullish recipient (au_recipient A), rs_asset = au_asset A,
                   rs_amount = au_amount A, rs_network = au_network A \<rparr>,
                 rv_actual = \<lparr> rs_recipient = (if actual_recipient \<noteq> [] then actual_recipient
                     else nullish recipient (au_recipient A)),
                   rs_asset = au_asset A, rs_amount = (if verified then au_amount A else actual_amount),
                   rs_network = actual_network \<rparr>,
                 rv_discrepancies = ds, rv_verified_at = now \<rparr>))))"

section \<open>Lemmas\<close>

text \<open>
  Over a clock that advances a wait returns: the first lookup before the deadline that is not
  pending, or nothing when all of them were; and it looks up at most once per tick.
\<close>

definition first_answer :: "(nat \<Rightarrow> int) \<Rightarrow> (nat \<Rightarrow> 'e + 'r option) \<Rightarrow> int \<Rightarrow> nat \<Rightarrow> nat \<Rightarrow> 'e + 'r option \<Rightarrow> bool" where
  "first_answer clock answer deadline k n r \<longleftrightarrow>
     (\<forall>j < n. clock (k + j) < deadline \<and> answer (k + j) = Inr None)
   \<and> (if clock (k + n) < deadline then answer (k + n) = r \<and> r \<noteq> Inr None else r = Inr None)"

lemma first_answer_Suc:
  "clock k < deadline \<Longrightarrow> answer k = Inr None \<Longrightarrow> first_answer clock answer deadline (Suc k) n r \<Longrightarrow>
     first_answer clock answer deadline k (Suc n) r"
  by (auto simp: first_answer_def less_Suc_eq_0_disj)

lemma poll_until_first:
  assumes "\<And>j. clock j < clock (Suc j)" and "deadline \<le> clock k + int m"
  shows "\<exists>n r. poll_until clock answer deadline k = Some r \<and> n \<le> m \<and> first_answer clock answer deadline k n r"
  using assms(2)
proof (induction m arbitrary: k)
  case 0
  then have "poll_until clock answer deadline k = Some (Inr None)" by (subst poll_until.simps) simp
  then show ?case using 0 by (intro exI [of _ 0] exI [of _ "Inr None"]) (simp add: first_answer_def)
next
  case (Suc m)
  show ?case
  proof (cases "clock k < deadline \<and> answer k = Inr None")
    case True
    have "deadline \<le> clock (Suc k) + int m" using assms(1) [of k] Suc.prems by simp
    with Suc.IH obtain n r where n: "poll_until clock answer deadline (Suc k) = Some r" "n \<le> m"
      "first_answer clock answer deadline (Suc k) n r" by blast
    have "poll_until clock answer deadline k = Some r" using True n(1) by (subst poll_until.simps) simp
    with n True show ?thesis by (intro exI [of _ "Suc n"] exI [of _ r]) (simp add: first_answer_Suc)
  next
    case False
    then have "poll_until clock answer deadline k = Some (if clock k < deadline then answer k else Inr None)"
      by (subst poll_until.simps) (auto split: sum.splits option.splits)
    with False show ?thesis
      by (intro exI [of _ 0] exI [of _ "if clock k < deadline then answer k else Inr None"])
        (auto simp: first_answer_def)
  qed
qed

lemma find_transfer_Some:
  assumes "find_transfer E token recipient ts = Inr (Some t)"
  shows "\<exists>tok rcp. token = Some tok \<and> recipient = Some rcp \<and> t \<in> set ts
     \<and> el_get_address E (pt_token t) = Some tok \<and> el_get_address E (pt_to t) = Some rcp"
  using assms
  by (induction ts) (auto simp: and_then_Inr_iff split: option.splits if_splits)

lemma parse_log_D:
  assumes "t \<in> set (pr_transfers (parse_receipt E r))"
  shows "\<exists>l sender to. l \<in> set (rc_logs r)
     \<and> el_decode_transfer_log E (lo_topics l) (lo_data l) = Some (sender, to, pt_value_units t)
     \<and> el_get_address E to = Some (pt_to t) \<and> el_get_address E (lo_address l) = Some (pt_token t)"
proof -
  obtain l where l: "l \<in> set (rc_logs r)" "parse_log E l = Some t"
    using assms by (auto simp: parse_receipt_def map_filter_def)
  then show ?thesis by (auto simp: parse_log_def bind_eq_Some_conv intro!: exI [of _ l])
qed

lemma verify_receipt_Inr:
  assumes "verify_receipt E x A parsed net now = Inr v"
  obtains units m found a n where "to_base_units (au_amount A) (au_decimals A) = Inr units"
    "find_transfer E (el_get_address E (au_token_address A)) (el_get_address E (au_recipient A)) (pr_transfers parsed) = Inr m"
    "transfer_findings E A units (el_get_address E (au_token_address A)) m (pr_transfers parsed) = Inr (found, a, n)"
    "rv_verified v \<longleftrightarrow> pr_success parsed \<and> found = [] \<and> au_network A = net"
    "rv_actual v = \<lparr> rs_recipient = (if a \<noteq> [] then a else nullish (el_get_address E (au_recipient A)) (au_recipient A)),
       rs_asset = au_asset A, rs_amount = (if rv_verified v then au_amount A else n), rs_network = net \<rparr>"
    "rv_transaction_hash v = pr_transaction_hash parsed"
  using assms
  by (auto simp: verify_receipt_def and_then_Inr_iff Let_def split: if_splits)

lemma wait_for_receipt_answer:
  assumes "\<And>j. clock j < clock (Suc j)" and "start \<le> clock 0"
  shows "\<exists>r. wait_for_receipt E fast clock answer start timeout_ms = Some r
    \<and> ((\<exists>raw n. fast = Some raw \<and> normalize_receipt E raw = Inr n \<and> r = Inr (Some n))
       \<or> (\<exists>n. int n \<le> max 0 timeout_ms
            \<and> first_answer clock (\<lambda>k. get_receipt E (answer k)) (start + timeout_ms) 0 n r))"
proof (cases "\<exists>raw n. fast = Some raw \<and> normalize_receipt E raw = Inr n")
  case True
  then show ?thesis by (auto simp: wait_for_receipt_def)
next
  case False
  have "start + timeout_ms \<le> clock 0 + int (nat timeout_ms)" using assms(2) by simp
  then obtain n r where n: "poll_until clock (\<lambda>k. get_receipt E (answer k)) (start + timeout_ms) 0 = Some r"
    "n \<le> nat timeout_ms" "first_answer clock (\<lambda>k. get_receipt E (answer k)) (start + timeout_ms) 0 n r"
    using poll_until_first [of clock, OF assms(1)] by blast
  have "wait_for_receipt E fast clock answer start timeout_ms = Some r"
    using False n(1) by (auto simp: wait_for_receipt_def split: option.splits sum.splits)
  moreover have "int n \<le> max 0 timeout_ms" using n(2) by linarith
  ultimately show ?thesis using n(3) by blast
qed

section \<open>Properties\<close>

text \<open>
  C34: a wait for a receipt always returns when time advances, after at most one lookup per
  millisecond of the timeout, with the first receipt or failure before the deadline, or nothing.
\<close>

theorem wait_for_receipt_returns:
  assumes "\<And>j. clock j < clock (Suc j)" and "start \<le> clock 0"
  shows "\<exists>r. wait_for_receipt E fast clock answer start timeout_ms = Some r
    \<and> ((\<exists>raw n. fast = Some raw \<and> normalize_receipt E raw = Inr n \<and> r = Inr (Some n))
       \<or> (\<exists>n. int n \<le> max 0 timeout_ms
            \<and> first_answer clock (\<lambda>k. get_receipt E (answer k)) (start + timeout_ms) 0 n r))"
  by (rule wait_for_receipt_answer [of clock, OF assms])

lemma verify_receipt_verified:
  assumes "verify_receipt E x A parsed net now = Inr v"
  shows "rv_verified v \<longleftrightarrow> pr_success parsed \<and> au_network A = net
    \<and> (\<exists>t. find_transfer E (el_get_address E (au_token_address A)) (el_get_address E (au_recipient A)) (pr_transfers parsed) = Inr (Some t)
         \<and> to_base_units (au_amount A) (au_decimals A) = Inr (pt_value_units t))"
proof -
  obtain units m found a n where v: "to_base_units (au_amount A) (au_decimals A) = Inr units"
    "find_transfer E (el_get_address E (au_token_address A)) (el_get_address E (au_recipient A)) (pr_transfers parsed) = Inr m"
    "transfer_findings E A units (el_get_address E (au_token_address A)) m (pr_transfers parsed) = Inr (found, a, n)"
    "rv_verified v \<longleftrightarrow> pr_success parsed \<and> found = [] \<and> au_network A = net"
    using verify_receipt_Inr [OF assms] .
  have "found = [] \<longleftrightarrow> (\<exists>t. m = Some t \<and> pt_value_units t = units)"
    using v(3) by (auto simp: transfer_findings_def and_then_Inr_iff split: option.splits list.splits if_splits)
  then show ?thesis using v by auto
qed

text \<open>
  a receipt verifies exactly when the transaction succeeded, the first transfer of the
  authorized token to the authorized recipient moved exactly the authorized base units, and the
  network is the authorized one.
\<close>

theorem receipt_verified_iff:
  assumes "verify_receipt E x A parsed net now = Inr v"
  shows "rv_verified v \<longleftrightarrow> pr_success parsed \<and> au_network A = net
    \<and> (\<exists>t. find_transfer E (el_get_address E (au_token_address A)) (el_get_address E (au_recipient A)) (pr_transfers parsed) = Inr (Some t)
         \<and> to_base_units (au_amount A) (au_decimals A) = Inr (pt_value_units t))"
  by (rule verify_receipt_verified [OF assms])

definition sample_raw_receipt :: "string \<Rightarrow> string \<Rightarrow> raw_receipt" where
  "sample_raw_receipt to amount = \<lparr> rc_transaction_hash = ''0xh'', rc_success = True, rc_from = ''0xme'',
     rc_to = Some ''0xusdc'',
     rc_logs = [\<lparr> lo_address = ''0xusdc'', lo_topics = [''0xme'', to], lo_data = amount \<rparr>] \<rparr>"

definition sample_authorized :: authorized_receipt where
  "sample_authorized = \<lparr> au_recipient = ''0xbob'', au_asset = ''USDC'', au_amount = ''5.25'',
     au_network = ''base-sepolia'', au_token_address = ''0xusdc'', au_decimals = 6 \<rparr>"

theorem wait_for_receipt_returns_witness:
  "\<exists>r n. wait_for_receipt sample_evm None int (\<lambda>k. if k < 3 then Receipt_not_found else Receipt_failed) 0 10 = Some r
     \<and> n \<le> 10 \<and> first_answer int (\<lambda>k. get_receipt sample_evm (if k < 3 then Receipt_not_found else Receipt_failed)) 10 0 n r"
  using wait_for_receipt_returns [of int 0 sample_evm None "\<lambda>k. if k < 3 then Receipt_not_found else Receipt_failed" 10]
  by auto

lemma sample_parsed:
  "parse_receipt sample_evm (sample_raw_receipt ''0xbob'' ''5250000'')
     = \<lparr> pr_transaction_hash = ''0xh'', pr_success = True, pr_transfers =
         [\<lparr> pt_token = ''0xusdc'', pt_from = ''0xme'', pt_to = ''0xbob'', pt_value_units = 5250000 \<rparr>] \<rparr>"
  by (simp add: parse_receipt_def sample_raw_receipt_def parse_log_def sample_evm_def sample_lower map_filter_simps
      digits_value_def digit_value_def)

lemma sample_verified:
  "\<exists>v. verify_receipt sample_evm ''x1'' sample_authorized (parse_receipt sample_evm (sample_raw_receipt ''0xbob'' ''5250000''))
     ''base-sepolia'' ''now'' = Inr v"
proof -
  obtain amount where "from_base_units 5250000 6 = Inr amount" using from_base_units_inverse [of 5250000 6] by auto
  then show ?thesis unfolding sample_parsed
    by (simp add: verify_receipt_def sample_authorized_def sample_evm_def sample_lower from_option_def sample_units
        transfer_findings_def Let_def)
qed

theorem receipt_verified_iff_witness:
  "\<exists>v. verify_receipt sample_evm ''x1'' sample_authorized (parse_receipt sample_evm (sample_raw_receipt ''0xbob'' ''5250000''))
     ''base-sepolia'' ''now'' = Inr v \<and> rv_verified v"
proof -
  obtain v where v: "verify_receipt sample_evm ''x1'' sample_authorized
      (parse_receipt sample_evm (sample_raw_receipt ''0xbob'' ''5250000'')) ''base-sepolia'' ''now'' = Inr v"
    using sample_verified by blast
  have "rv_verified v"
    unfolding receipt_verified_iff [OF v] sample_parsed
    by (simp add: sample_authorized_def sample_evm_def sample_lower from_option_def sample_units)
  with v show ?thesis by blast
qed

end
