(* ===== verification/Execution_Pipeline.thy ===== *)
theory Execution_Pipeline
  imports Chain_Simulation Receipts
begin

text \<open>
  The execution pipeline: idempotency store, submitter, the ordered checks of \<open>execute\<close>, and
  the answers to \<open>getResult\<close> and \<open>verify\<close> (Blockchain/src/execution), behind the client that
  resolves what Core authorized (base-sepolia-execution-client.ts, integration/
  authorized-context-registry.ts). The node and the signer's network are the parameter
  \<open>world\<close>. The state keeps, beside the code's own, the list of transactions handed to the
  network, in order, with the idempotency key of the request: what the properties speak about.
\<close>

section \<open>Idempotency store\<close>

record execution_record =
  xe_execution_id :: string
  xe_idempotency_key :: string
  xe_result :: execution_result
  xe_verification :: "receipt_verification option"
  xe_authorized :: "authorized_expectation option"

record execution_store =
  es_key_index :: "string \<rightharpoonup> string"
  es_records :: "string \<rightharpoonup> execution_record"

definition by_execution_id :: "execution_store \<Rightarrow> string \<Rightarrow> execution_record option" where
  "by_execution_id S i = es_records S i"

definition by_key :: "execution_store \<Rightarrow> string \<Rightarrow> execution_record option" where
  "by_key S k = (if truthy (es_key_index S k) then es_records S (the (es_key_index S k)) else None)"

definition put :: "execution_record \<Rightarrow> execution_store \<Rightarrow> execution_store" where
  "put r S = S\<lparr>es_records := (es_records S)(xe_execution_id r \<mapsto> r),
              es_key_index := (es_key_index S)(xe_idempotency_key r \<mapsto> xe_execution_id r)\<rparr>"

definition update_record_with ::
    "string \<Rightarrow> (execution_record \<Rightarrow> execution_record) \<Rightarrow> execution_store \<Rightarrow> execution_store" where
  "update_record_with i patch S =
     (case es_records S i of None \<Rightarrow> S | Some r \<Rightarrow> S\<lparr>es_records := (es_records S)(i \<mapsto> patch r)\<rparr>)"

definition empty_store :: execution_store where
  "empty_store = \<lparr> es_key_index = Map.empty, es_records = Map.empty \<rparr>"

text \<open>
  What the pipeline relies on: a recorded key is found, and no later write makes a key unknown.
\<close>

locale idempotency_store =
  fixes lookup :: "'s \<Rightarrow> string \<Rightarrow> execution_record option"
    and insert :: "execution_record \<Rightarrow> 's \<Rightarrow> 's"
    and modify :: "string \<Rightarrow> (execution_record \<Rightarrow> execution_record) \<Rightarrow> 's \<Rightarrow> 's"
  assumes insert_known: "xe_execution_id r \<noteq> [] \<Longrightarrow> lookup (insert r s) (xe_idempotency_key r) \<noteq> None"
    and insert_keeps: "xe_execution_id r \<noteq> [] \<Longrightarrow> lookup s k \<noteq> None \<Longrightarrow> lookup (insert r s) k \<noteq> None"
    and modify_keeps: "lookup s k \<noteq> None \<Longrightarrow> lookup (modify i f s) k \<noteq> None"
begin

lemma recorded: "xe_execution_id r \<noteq> [] \<Longrightarrow> lookup (modify i f (insert r s)) (xe_idempotency_key r) \<noteq> None"
  by (intro modify_keeps insert_known)

lemma kept: "xe_execution_id r \<noteq> [] \<Longrightarrow> lookup s k \<noteq> None \<Longrightarrow> lookup (modify i f (insert r s)) k \<noteq> None"
  by (intro modify_keeps insert_keeps)

end

interpretation store: idempotency_store by_key put update_record_with
proof
  show "by_key (put r s) (xe_idempotency_key r) \<noteq> None" if "xe_execution_id r \<noteq> []" for r s
    using that by (simp add: by_key_def put_def)
  show "by_key (put r s) k \<noteq> None" if "xe_execution_id r \<noteq> []" "by_key s k \<noteq> None" for r s k
    using that by (auto simp: by_key_def put_def split: if_splits)
  show "by_key (update_record_with i f s) k \<noteq> None" if "by_key s k \<noteq> None" for s k i f
    using that by (auto simp: by_key_def update_record_with_def split: if_splits option.splits)
qed

section \<open>Submitter\<close>

record signer =
  sg_address :: string
  sg_chain :: chain_definition
  sg_send :: "transaction_request \<Rightarrow> string option"

text \<open>
  The second component is what reached the network: the chain id is checked before the client is
  called, and every exception of the signer becomes SUBMISSION_FAILED.
\<close>

definition send_transaction :: "signer \<Rightarrow> transaction_request \<Rightarrow> (execution_error + string) \<times> transaction_request list" where
  "send_transaction g tx =
     (if ch_id (tq_chain tx) \<noteq> cf_chain_id (sg_chain g) then (Inl XE_CHAIN_MISMATCH, [])
      else (from_option XE_uncaught (sg_send g tx), [tx]))"

text \<open>What \<open>BigInt\<close> accepts: nothing, a signed decimal, or a hexadecimal, octal or binary text.\<close>

definition big_int_text :: "string \<Rightarrow> bool" where
  "big_int_text s =
     (let t = trim s;
          digits = (\<lambda>base. set (drop 2 t) \<subseteq> set base \<and> drop 2 t \<noteq> []);
          unsigned = (if take 1 t = ''-'' \<or> take 1 t = ''+'' then drop 1 t else t)
      in t = [] \<or> all_digits unsigned
         \<or> (take 2 t = ''0x'' \<or> take 2 t = ''0X'') \<and> digits ''0123456789abcdefABCDEF''
         \<or> (take 2 t = ''0o'' \<or> take 2 t = ''0O'') \<and> digits ''01234567''
         \<or> (take 2 t = ''0b'' \<or> take 2 t = ''0B'') \<and> digits ''01'')"

definition submit :: "evm_lib \<Rightarrow> signer \<Rightarrow> transaction_request \<Rightarrow> (execution_error + string) \<times> transaction_request list" where
  "submit E g tx =
     (case (el_get_address E (tq_from tx), el_get_address E (sg_address g)) of
        (Some a, Some b) \<Rightarrow>
          if a \<noteq> b then (Inl XE_SUBMISSION_FAILED, [])
          else if \<not> big_int_text (tq_value tx) then (Inl XE_SUBMISSION_FAILED, [])
          else (case send_transaction g tx of
                  (Inl _, out) \<Rightarrow> (Inl XE_SUBMISSION_FAILED, out) | (Inr h, out) \<Rightarrow> (Inr h, out))
      | _ \<Rightarrow> (Inl XE_uncaught, []))"

section \<open>Pipeline\<close>

record authorized_context =
  cx_intent :: transaction_intent
  cx_expectation :: authorized_expectation

record world =
  wd_node :: node
  wd_fast_receipt :: "raw_receipt option"
  wd_clock :: "nat \<Rightarrow> int"
  wd_lookups :: "nat \<Rightarrow> receipt_lookup"
  wd_submitted_at :: int
  wd_now :: string

record pipeline =
  pp_provider :: rpc_provider
  pp_store :: execution_store
  pp_broadcasts :: "(string \<times> transaction_request) list"

record pipeline_deps =
  pd_sha :: "string \<Rightarrow> string"
  pd_evm :: evm_lib
  pd_registry :: chain_registry
  pd_signer :: signer
  pd_timeout_ms :: int

definition mk_result :: "execution_request \<Rightarrow> string \<Rightarrow> execution_status \<Rightarrow> string option \<Rightarrow> execution_result" where
  "mk_result request now st tx_hash =
     \<lparr> ex_execution_id = er_execution_id request, ex_status = st, ex_transaction_hash = tx_hash,
       ex_chain = er_network request,
       ex_submitted_at = (if truthy tx_hash then Some now else None),
       ex_confirmed_at = (if st = EX_CONFIRMED then Some now else None),
       ex_receipt_reference = None, ex_idempotency_key = er_idempotency_key request \<rparr>"

text \<open>Steps 2 and 3: build, analyze, validate.\<close>

definition checked_transaction ::
    "pipeline_deps \<Rightarrow> world \<Rightarrow> execution_request \<Rightarrow> authorized_context \<Rightarrow> execution_error + transaction_request" where
  "checked_transaction D W request ctx =
     and_then (build (pd_evm D) (pd_registry D) (cx_intent ctx)
         \<lparr> bx_from = sg_address (pd_signer D), bx_transaction_id = Some (er_transaction_id request) \<rparr> (wd_now W)) (\<lambda>tx.
     and_then (analyze (pd_evm D) (pd_registry D) tx) (\<lambda>analysis.
       if ta_status analysis = AN_INVALID then Inl XE_VALIDATION_FAILED
       else and_then (assert_valid (pd_evm D) (pd_registry D) tx (cx_expectation ctx)) (\<lambda>_. Inr tx)))"

text \<open>Steps 1 to 5: chain, build, analyze, validate, simulate, freshness.\<close>

definition prepare ::
    "pipeline_deps \<Rightarrow> world \<Rightarrow> execution_request \<Rightarrow> authorized_context \<Rightarrow> rpc_provider \<Rightarrow>
     (execution_error + transaction_request) \<times> rpc_provider" where
  "prepare D W request ctx P =
     (case get_by_network (pd_registry D) (er_network request) of
        Inl e \<Rightarrow> (Inl e, P)
      | Inr chain \<Rightarrow>
         (case assert_chain_for_request (nd_chain_id (wd_node W)) (cf_chain_id chain) P of
            (Inl e, P1) \<Rightarrow> (Inl e, P1)
          | (Inr _, P1) \<Rightarrow>
             (case checked_transaction D W request ctx of
                Inl e \<Rightarrow> (Inl e, P1)
              | Inr tx \<Rightarrow>
                 (case simulate (pd_sha D) (pd_evm D) (pd_registry D) (wd_node W) tx (wd_now W) P1 of
                    (Inl e, P2) \<Rightarrow> (Inl e, P2)
                  | (Inr sim, P2) \<Rightarrow> (and_then (assert_fresh (pd_sha D) sim tx) (\<lambda>_. Inr tx), P2)))))"

definition recorded_as :: "execution_request \<Rightarrow> authorized_context \<Rightarrow> execution_result \<Rightarrow> execution_record" where
  "recorded_as request ctx r =
     \<lparr> xe_execution_id = er_execution_id request, xe_idempotency_key = er_idempotency_key request,
       xe_result = r, xe_verification = None, xe_authorized = Some (cx_expectation ctx) \<rparr>"

text \<open>Step 8: the outcome of the wait, recorded.\<close>

definition settle_receipt ::
    "pipeline_deps \<Rightarrow> world \<Rightarrow> execution_request \<Rightarrow> string \<Rightarrow> execution_error + raw_receipt option \<Rightarrow> execution_store \<Rightarrow>
     (execution_error + execution_result) \<times> execution_store" where
  "settle_receipt D W request tx_hash outcome S =
     (case outcome of
        Inl e \<Rightarrow> (Inl e, S)
      | Inr None \<Rightarrow>
         (let r = mk_result request (wd_now W) EX_UNKNOWN (Some tx_hash)
          in (Inr r, update_record_with (er_execution_id request) (\<lambda>x. x\<lparr>xe_result := r\<rparr>) S))
      | Inr (Some raw) \<Rightarrow>
         (let r = mk_result request (wd_now W)
                (if pr_success (parse_receipt (pd_evm D) raw) then EX_CONFIRMED else EX_FAILED) (Some tx_hash)
          in (Inr r, update_record_with (er_execution_id request) (\<lambda>x. x\<lparr>xe_result := r\<rparr>) S)))"

text \<open>Steps 7 and 8 on a prepared transaction; \<open>None\<close> is a wait that never ends.\<close>

definition broadcast ::
    "pipeline_deps \<Rightarrow> world \<Rightarrow> execution_request \<Rightarrow> authorized_context \<Rightarrow> transaction_request \<Rightarrow> pipeline \<Rightarrow>
     ((execution_error + execution_result) \<times> pipeline) option" where
  "broadcast D W request ctx tx pp =
     (case submit (pd_evm D) (pd_signer D) tx of
        (outcome, out) \<Rightarrow>
         (let pp1 = pp\<lparr>pp_broadcasts := pp_broadcasts pp @ map (\<lambda>t. (er_idempotency_key request, t)) out\<rparr> in
          case outcome of
            Inl cause \<Rightarrow>
             (let r = mk_result request (wd_now W) EX_UNKNOWN None;
                  S = put (recorded_as request ctx r) (pp_store pp1) in
              if cause = XE_SUBMISSION_FAILED then
                (let failed = mk_result request (wd_now W) EX_FAILED None
                 in Some (Inr failed, pp1\<lparr>pp_store :=
                      update_record_with (er_execution_id request) (\<lambda>x. x\<lparr>xe_result := failed\<rparr>) S\<rparr>))
              else Some (Inr r, pp1\<lparr>pp_store := S\<rparr>))
          | Inr tx_hash \<Rightarrow>
             (let S = put (recorded_as request ctx (mk_result request (wd_now W) EX_PENDING (Some tx_hash))) (pp_store pp1)
              in map_option (\<lambda>o1. case settle_receipt D W request tx_hash o1 S of (r, S') \<Rightarrow> (r, pp1\<lparr>pp_store := S'\<rparr>))
                   (wait_for_receipt (pd_evm D) (wd_fast_receipt W) (wd_clock W) (wd_lookups W)
                     (wd_submitted_at W) (pd_timeout_ms D)))))"

text \<open>What follows the early idempotency check.\<close>

definition execute_new ::
    "pipeline_deps \<Rightarrow> world \<Rightarrow> execution_request \<Rightarrow> authorized_context \<Rightarrow> pipeline \<Rightarrow>
     ((execution_error + execution_result) \<times> pipeline) option" where
  "execute_new D W request ctx pp =
     (case prepare D W request ctx (pp_provider pp) of
        (Inl e, P) \<Rightarrow> Some (Inl e, pp\<lparr>pp_provider := P\<rparr>)
      | (Inr tx, P) \<Rightarrow> broadcast D W request ctx tx (pp\<lparr>pp_provider := P\<rparr>))"

definition execute ::
    "pipeline_deps \<Rightarrow> world \<Rightarrow> execution_request \<Rightarrow> authorized_context \<Rightarrow> pipeline \<Rightarrow>
     ((execution_error + execution_result) \<times> pipeline) option" where
  "execute D W request ctx pp =
     (case by_key (pp_store pp) (er_idempotency_key request) of
        Some prior \<Rightarrow> Some (Inr (xe_result prior), pp)
      | None \<Rightarrow> execute_new D W request ctx pp)"

definition get_result :: "pipeline \<Rightarrow> string \<Rightarrow> execution_error + execution_result" where
  "get_result pp i = map_sum id xe_result (from_option XE_UNKNOWN (by_execution_id (pp_store pp) i))"

definition authorized_receipt_of :: "authorized_expectation \<Rightarrow> asset_definition \<Rightarrow> authorized_receipt" where
  "authorized_receipt_of A token =
     \<lparr> au_recipient = ae_recipient A, au_asset = ae_asset A, au_amount = ae_amount A, au_network = ae_network A,
       au_token_address = nullish (ad_address token) [], au_decimals = ad_decimals token \<rparr>"

definition verify ::
    "pipeline_deps \<Rightarrow> receipt_lookup \<Rightarrow> string \<Rightarrow> string \<Rightarrow> pipeline \<Rightarrow> (execution_error + receipt_verification) \<times> pipeline" where
  "verify D found now i pp =
     (case by_execution_id (pp_store pp) i of
        None \<Rightarrow> (Inl XE_UNKNOWN, pp)
      | Some rec \<Rightarrow>
          if \<not> truthy (ex_transaction_hash (xe_result rec)) then (Inl XE_VERIFICATION_FAILED, pp)
          else
           (case xe_authorized rec of
              None \<Rightarrow> (Inl XE_VERIFICATION_FAILED, pp)
            | Some A \<Rightarrow>
               (case get_receipt (pd_evm D) found of
                  Inl e \<Rightarrow> (Inl e, pp)
                | Inr None \<Rightarrow> (Inl XE_UNKNOWN, pp)
                | Inr (Some raw) \<Rightarrow>
                   (case and_then (usdc (pd_registry D) (ae_network A)) (\<lambda>token.
                           verify_receipt (pd_evm D) i (authorized_receipt_of A token)
                             (parse_receipt (pd_evm D) raw) (ex_chain (xe_result rec)) now) of
                      Inl e \<Rightarrow> (Inl e, pp)
                    | Inr v \<Rightarrow> (Inr v, pp\<lparr>pp_store := update_record_with i (\<lambda>x. x\<lparr>xe_verification := Some v\<rparr>) (pp_store pp)\<rparr>)))))"

section \<open>Client\<close>

text \<open>The registry of authorized contexts: two JavaScript maps.\<close>

record context_registry =
  gx_by_transaction :: "string \<rightharpoonup> authorized_context"
  gx_by_execution :: "string \<rightharpoonup> string"

definition register_context ::
    "string \<Rightarrow> string option \<Rightarrow> authorized_context \<Rightarrow> context_registry \<Rightarrow> context_registry" where
  "register_context transaction_id execution_id c X =
     (let X1 = X\<lparr>gx_by_transaction := (gx_by_transaction X)(transaction_id \<mapsto> c)\<rparr>
      in if truthy execution_id then X1\<lparr>gx_by_execution := (gx_by_execution X1)(the execution_id \<mapsto> transaction_id)\<rparr>
         else X1)"

definition resolve_context :: "context_registry \<Rightarrow> string option \<Rightarrow> string \<Rightarrow> authorized_context option" where
  "resolve_context X execution_id transaction_id =
     (if transaction_id \<noteq> [] \<and> gx_by_transaction X transaction_id \<noteq> None then gx_by_transaction X transaction_id
      else if truthy execution_id then
        (let tx_id = gx_by_execution X (the execution_id)
         in if truthy tx_id then gx_by_transaction X (the tx_id) else None)
      else None)"

definition require_context ::
    "pipeline_deps \<Rightarrow> context_registry \<Rightarrow> string option \<Rightarrow> string \<Rightarrow> execution_error + authorized_context" where
  "require_context D X execution_id transaction_id =
     and_then (from_option XE_VALIDATION_FAILED (resolve_context X execution_id transaction_id)) (\<lambda>ctx.
     and_then (from_option XE_uncaught (el_get_address (pd_evm D) (sg_address (pd_signer D)))) (\<lambda>_. Inr ctx))"

definition client_build ::
    "pipeline_deps \<Rightarrow> context_registry \<Rightarrow> string \<Rightarrow> string \<Rightarrow> execution_error + transaction_request" where
  "client_build D X transaction_id now =
     and_then (require_context D X None transaction_id) (\<lambda>ctx.
       build (pd_evm D) (pd_registry D) (cx_intent ctx)
         \<lparr> bx_from = sg_address (pd_signer D), bx_transaction_id = Some transaction_id \<rparr> now)"

definition client_validate_transaction ::
    "pipeline_deps \<Rightarrow> context_registry \<Rightarrow> string \<Rightarrow> string \<Rightarrow> execution_error + transaction_analysis" where
  "client_validate_transaction D X transaction_id now =
     and_then (client_build D X transaction_id now) (analyze (pd_evm D) (pd_registry D))"

definition client_simulate ::
    "pipeline_deps \<Rightarrow> context_registry \<Rightarrow> node \<Rightarrow> string \<Rightarrow> string \<Rightarrow> pipeline \<Rightarrow> (execution_error + simulation_result) \<times> pipeline" where
  "client_simulate D X N transaction_id now pp =
     (case client_build D X transaction_id now of
        Inl e \<Rightarrow> (Inl e, pp)
      | Inr tx \<Rightarrow>
         (case simulate (pd_sha D) (pd_evm D) (pd_registry D) N tx now (pp_provider pp) of
            (r, P) \<Rightarrow> (map_sum id bs_result r, pp\<lparr>pp_provider := P\<rparr>)))"

definition client_execute ::
    "pipeline_deps \<Rightarrow> context_registry \<Rightarrow> world \<Rightarrow> execution_request \<Rightarrow> pipeline \<Rightarrow>
     ((execution_error + execution_result) \<times> pipeline) option" where
  "client_execute D X W request pp =
     (case require_context D X (Some (er_execution_id request)) (er_transaction_id request) of
        Inl e \<Rightarrow> Some (Inl e, pp)
      | Inr ctx \<Rightarrow>
          if ae_network (cx_expectation ctx) \<noteq> er_network request then Some (Inl XE_VALIDATION_FAILED, pp)
          else execute D W request ctx pp)"

section \<open>The pipeline as a transition system\<close>

inductive pipeline_step :: "pipeline_deps \<Rightarrow> pipeline \<Rightarrow> pipeline \<Rightarrow> bool" for D where
  pstep_execute: "er_execution_id request \<noteq> [] \<Longrightarrow> execute D W request ctx pp = Some (r, pp') \<Longrightarrow> pipeline_step D pp pp'"
| pstep_verify: "pipeline_step D pp (snd (verify D found now i pp))"
| pstep_simulate: "pipeline_step D pp (snd (client_simulate D X N t now pp))"

inductive_cases pipeline_stepE: "pipeline_step D pp pp'"

definition fresh_pipeline :: "pipeline \<Rightarrow> bool" where
  "fresh_pipeline pp \<longleftrightarrow> pp_store pp = empty_store \<and> pp_broadcasts pp = []"

text \<open>Every key that was broadcast is recorded, and was broadcast once.\<close>

definition single_broadcast :: "pipeline \<Rightarrow> bool" where
  "single_broadcast pp \<longleftrightarrow> distinct (map fst (pp_broadcasts pp))
     \<and> (\<forall>k \<in> fst ` set (pp_broadcasts pp). by_key (pp_store pp) k \<noteq> None)"

section \<open>Lemmas\<close>

lemma submit_out:
  assumes "submit E g tx = (outcome, out)"
  shows "out = [] \<or> out = [tx] \<and> ch_id (tq_chain tx) = cf_chain_id (sg_chain g)
     \<and> el_get_address E (tq_from tx) = el_get_address E (sg_address g)"
  using assms by (auto simp: submit_def send_transaction_def split: option.splits if_splits sum.splits prod.splits)

lemma prepare_chain: "rp_chain (snd (prepare D W request ctx P)) = rp_chain P"
  using assert_chain_keeps(1)
  by (auto simp: prepare_def simulate_provider [symmetric] split: sum.splits prod.splits) (metis simulate_provider snd_conv assert_chain_keeps(1))+

lemma checked_transaction_Inr:
  assumes "checked_transaction D W request ctx = Inr tx"
  shows "build (pd_evm D) (pd_registry D) (cx_intent ctx)
       \<lparr> bx_from = sg_address (pd_signer D), bx_transaction_id = Some (er_transaction_id request) \<rparr> (wd_now W) = Inr tx"
    and "assert_valid (pd_evm D) (pd_registry D) tx (cx_expectation ctx) = Inr ()"
  using assms by (auto simp: checked_transaction_def and_then_Inr_iff split: if_splits)

lemma prepare_Inr:
  assumes "prepare D W request ctx P = (Inr tx, P')"
  obtains chain sim P1 where "get_by_network (pd_registry D) (er_network request) = Inr chain"
    "cf_chain_id chain = cf_chain_id (rp_chain P)" "checked_transaction D W request ctx = Inr tx"
    "fst (simulate (pd_sha D) (pd_evm D) (pd_registry D) (wd_node W) tx (wd_now W) P1) = Inr sim"
    "rp_chain P1 = rp_chain P" "assert_fresh (pd_sha D) sim tx = Inr ()"
proof -
  obtain chain P1 where c: "get_by_network (pd_registry D) (er_network request) = Inr chain"
    "assert_chain_for_request (nd_chain_id (wd_node W)) (cf_chain_id chain) P = (Inr (), P1)"
    using assms by (auto simp: prepare_def split: sum.splits prod.splits)
  have i: "cf_chain_id chain = cf_chain_id (rp_chain P)" "rp_chain P1 = rp_chain P"
    using assert_chain_Inr [of "nd_chain_id (wd_node W)" "cf_chain_id chain" P "()"]
      assert_chain_keeps(1) [of "nd_chain_id (wd_node W)" "cf_chain_id chain" P] c(2) by auto
  obtain tx' sim P2 where t: "checked_transaction D W request ctx = Inr tx'"
    "simulate (pd_sha D) (pd_evm D) (pd_registry D) (wd_node W) tx' (wd_now W) P1 = (Inr sim, P2)"
    "and_then (assert_fresh (pd_sha D) sim tx') (\<lambda>_. Inr tx') = Inr tx"
    using assms c by (auto simp: prepare_def split: sum.splits prod.splits)
  then have "tx' = tx" "assert_fresh (pd_sha D) sim tx = Inr ()" by (auto simp: and_then_Inr_iff)
  with t c i show ?thesis by (intro that [of chain P1 sim]) simp_all
qed

text \<open>A broadcast writes the record of its key, and may then patch it.\<close>

definition records_call ::
    "execution_request \<Rightarrow> authorized_context \<Rightarrow> execution_store \<Rightarrow> execution_store \<Rightarrow> bool" where
  "records_call request ctx S S' \<longleftrightarrow> (\<exists>v. S' = put (recorded_as request ctx v) S
     \<or> (\<exists>i f. S' = update_record_with i f (put (recorded_as request ctx v) S)))"

lemma records_call_put [intro]: "records_call request ctx S (put (recorded_as request ctx v) S)"
  and records_call_update [intro]: "records_call request ctx S (update_record_with i f (put (recorded_as request ctx v) S))"
  by (auto simp: records_call_def)

lemma records_call_known:
  assumes "records_call request ctx S S'" and "er_execution_id request \<noteq> []"
  shows "by_key S' (er_idempotency_key request) \<noteq> None" and "by_key S k \<noteq> None \<Longrightarrow> by_key S' k \<noteq> None"
proof -
  have r: "xe_execution_id (recorded_as request ctx v) \<noteq> []"
    "xe_idempotency_key (recorded_as request ctx v) = er_idempotency_key request" for v
    using assms(2) by (simp_all add: recorded_as_def)
  show "by_key S' (er_idempotency_key request) \<noteq> None"
    using assms(1) store.recorded [OF r(1)] store.insert_known [OF r(1)] r(2)
    unfolding records_call_def by metis
  show "by_key S k \<noteq> None \<Longrightarrow> by_key S' k \<noteq> None"
    using assms(1) store.kept [OF r(1)] store.insert_keeps [OF r(1)]
    unfolding records_call_def by metis
qed

lemma settle_receipt_store:
  assumes "settle_receipt D W request h outcome (put (recorded_as request ctx v) S) = (r, S')"
  shows "records_call request ctx S S'"
proof (cases outcome)
  case (Inl e)
  then show ?thesis using assms by (auto simp: settle_receipt_def)
next
  case (Inr o1)
  then show ?thesis using assms by (cases o1) (auto simp: settle_receipt_def Let_def)
qed

lemma broadcast_Inl:
  assumes "submit (pd_evm D) (pd_signer D) tx = (Inl cause, out)"
    and "broadcast D W request ctx tx pp = Some (r, pp')"
  shows "pp_broadcasts pp' = pp_broadcasts pp @ map (\<lambda>t. (er_idempotency_key request, t)) out"
    and "pp_provider pp' = pp_provider pp" and "records_call request ctx (pp_store pp) (pp_store pp')"
    and "\<exists>v. r = Inr v \<and> ex_status v = (if cause = XE_SUBMISSION_FAILED then EX_FAILED else EX_UNKNOWN)"
  using assms by (auto simp: broadcast_def Let_def mk_result_def split: if_splits)

lemma broadcast_Inr:
  assumes "submit (pd_evm D) (pd_signer D) tx = (Inr h, out)"
    and "broadcast D W request ctx tx pp = Some (r, pp')"
  shows "pp_broadcasts pp' = pp_broadcasts pp @ map (\<lambda>t. (er_idempotency_key request, t)) out"
    and "pp_provider pp' = pp_provider pp" and "records_call request ctx (pp_store pp) (pp_store pp')"
proof -
  let ?S = "put (recorded_as request ctx (mk_result request (wd_now W) EX_PENDING (Some h))) (pp_store pp)"
  obtain o1 where o1: "wait_for_receipt (pd_evm D) (wd_fast_receipt W) (wd_clock W) (wd_lookups W)
      (wd_submitted_at W) (pd_timeout_ms D) = Some o1"
    using assms by (auto simp: broadcast_def Let_def)
  obtain r1 S' where s: "settle_receipt D W request h o1 ?S = (r1, S')" by (cases "settle_receipt D W request h o1 ?S")
  have "pp' = pp\<lparr>pp_broadcasts := pp_broadcasts pp @ map (\<lambda>t. (er_idempotency_key request, t)) out, pp_store := S'\<rparr>"
    using assms o1 s by (auto simp: broadcast_def Let_def)
  then show "pp_broadcasts pp' = pp_broadcasts pp @ map (\<lambda>t. (er_idempotency_key request, t)) out"
    "pp_provider pp' = pp_provider pp" "records_call request ctx (pp_store pp) (pp_store pp')"
    using settle_receipt_store [OF s] by simp_all
qed

lemma broadcast_effect:
  assumes "broadcast D W request ctx tx pp = Some (r, pp')"
  obtains out where "out = [] \<or> out = [tx] \<and> ch_id (tq_chain tx) = cf_chain_id (sg_chain (pd_signer D))"
    "pp_broadcasts pp' = pp_broadcasts pp @ map (\<lambda>t. (er_idempotency_key request, t)) out"
    "pp_provider pp' = pp_provider pp" "records_call request ctx (pp_store pp) (pp_store pp')"
proof -
  obtain outcome out where o1: "submit (pd_evm D) (pd_signer D) tx = (outcome, out)"
    by (cases "submit (pd_evm D) (pd_signer D) tx")
  have out: "out = [] \<or> out = [tx] \<and> ch_id (tq_chain tx) = cf_chain_id (sg_chain (pd_signer D))"
    using submit_out [OF o1] by blast
  show ?thesis
    by (cases outcome; rule that [OF out])
      (use o1 assms broadcast_Inl broadcast_Inr in \<open>simp; fail\<close>)+
qed

lemma single_broadcast_execute:
  assumes "single_broadcast pp" and "er_execution_id request \<noteq> []" and "execute D W request ctx pp = Some (r, pp')"
  shows "single_broadcast pp'"
proof (cases "by_key (pp_store pp) (er_idempotency_key request)")
  case (Some prior)
  then show ?thesis using assms by (simp add: execute_def)
next
  case None
  obtain o1 P where p: "prepare D W request ctx (pp_provider pp) = (o1, P)" by (cases "prepare D W request ctx (pp_provider pp)")
  show ?thesis
  proof (cases o1)
    case (Inl e)
    then have "pp' = pp\<lparr>pp_provider := P\<rparr>" using None p assms(3) by (simp add: execute_def execute_new_def)
    then show ?thesis using assms(1) by (simp add: single_broadcast_def)
  next
    case (Inr tx)
    have "broadcast D W request ctx tx (pp\<lparr>pp_provider := P\<rparr>) = Some (r, pp')"
      using assms(3) None p Inr by (simp add: execute_def execute_new_def)
    then obtain out where out: "out = [] \<or> out = [tx]"
      "pp_broadcasts pp' = pp_broadcasts pp @ map (\<lambda>t. (er_idempotency_key request, t)) out"
      "records_call request ctx (pp_store pp) (pp_store pp')"
      by (rule broadcast_effect) auto
    have "er_idempotency_key request \<notin> fst ` set (pp_broadcasts pp)"
      using assms(1) None by (auto simp: single_broadcast_def)
    with out(1,2) assms(1) records_call_known [OF out(3) assms(2)] show ?thesis
      by (elim disjE) (simp_all add: single_broadcast_def del: not_None_eq)
  qed
qed

lemma verify_effect:
  shows "pp_broadcasts (snd (verify D found now i pp)) = pp_broadcasts pp"
    and "pp_store (snd (verify D found now i pp)) = pp_store pp
      \<or> (\<exists>f. pp_store (snd (verify D found now i pp)) = update_record_with i f (pp_store pp))"
  by (auto simp: verify_def split: option.splits sum.splits)

lemma client_simulate_effect:
  "pp_broadcasts (snd (client_simulate D X N t now pp)) = pp_broadcasts pp"
  "pp_store (snd (client_simulate D X N t now pp)) = pp_store pp"
  by (auto simp: client_simulate_def split: sum.splits prod.splits)

lemma single_broadcast_step:
  assumes "pipeline_step D pp pp'" and "single_broadcast pp"
  shows "single_broadcast pp'"
  using assms
proof (induction)
  case (pstep_execute request W ctx pp r pp')
  then show ?case by (blast intro: single_broadcast_execute)
next
  case (pstep_verify pp found now i)
  with verify_effect [of D found now i pp] store.modify_keeps show ?case
    by (fastforce simp: single_broadcast_def)
next
  case (pstep_simulate pp X N t now)
  then show ?case by (simp add: single_broadcast_def client_simulate_effect)
qed

interpretation broadcasts: invariant_system fresh_pipeline "pipeline_step D" single_broadcast for D
proof unfold_locales
  show "single_broadcast s" if "fresh_pipeline s" for s
    using that by (simp add: fresh_pipeline_def single_broadcast_def)
qed (rule single_broadcast_step)

section \<open>Answers\<close>

lemma by_key_recorded [simp]:
  "er_execution_id request \<noteq> [] \<Longrightarrow> by_key (put (recorded_as request ctx v) S) (er_idempotency_key request)
     = Some (recorded_as request ctx v)"
  "er_execution_id request \<noteq> [] \<Longrightarrow>
     by_key (update_record_with (er_execution_id request) f (put (recorded_as request ctx v) S)) (er_idempotency_key request)
     = Some (f (recorded_as request ctx v))"
  by (simp_all add: by_key_def put_def update_record_with_def recorded_as_def)

lemma xe_result_recorded_as [simp]: "xe_result (recorded_as request ctx v) = v"
  by (simp add: recorded_as_def)

lemma settle_receipt_recorded:
  assumes "settle_receipt D W request h outcome (put (recorded_as request ctx v) S) = (Inr w, S')"
    and "er_execution_id request \<noteq> []"
  shows "\<exists>x. by_key S' (er_idempotency_key request) = Some x \<and> xe_result x = w"
proof (cases outcome)
  case (Inl e)
  then show ?thesis using assms by (simp add: settle_receipt_def)
next
  case (Inr o1)
  then show ?thesis using assms by (cases o1) (auto simp: settle_receipt_def Let_def)
qed

lemma broadcast_recorded:
  assumes "broadcast D W request ctx tx pp = Some (Inr v, pp')" and "er_execution_id request \<noteq> []"
  shows "\<exists>x. by_key (pp_store pp') (er_idempotency_key request) = Some x \<and> xe_result x = v"
proof -
  obtain outcome out where s: "submit (pd_evm D) (pd_signer D) tx = (outcome, out)"
    by (cases "submit (pd_evm D) (pd_signer D) tx")
  show ?thesis
  proof (cases outcome)
    case (Inl cause)
    then show ?thesis using assms s
      by (cases "cause = XE_SUBMISSION_FAILED") (auto simp: broadcast_def Let_def)
  next
    case (Inr h)
    let ?S = "put (recorded_as request ctx (mk_result request (wd_now W) EX_PENDING (Some h))) (pp_store pp)"
    obtain o1 where o1: "wait_for_receipt (pd_evm D) (wd_fast_receipt W) (wd_clock W) (wd_lookups W)
        (wd_submitted_at W) (pd_timeout_ms D) = Some o1"
      using assms Inr s by (auto simp: broadcast_def Let_def)
    obtain r1 S' where st: "settle_receipt D W request h o1 ?S = (r1, S')" by (cases "settle_receipt D W request h o1 ?S")
    have "r1 = Inr v" "pp_store pp' = S'" using assms(1) Inr s o1 st by (auto simp: broadcast_def Let_def)
    then show ?thesis using settle_receipt_recorded [of D W request h o1] st assms(2) by simp
  qed
qed

lemma execute_replayed:
  assumes "execute D W request ctx pp = Some (Inr v, pp')" and "er_execution_id request \<noteq> []"
  shows "execute D W' request ctx' pp' = Some (Inr v, pp')"
proof (cases "by_key (pp_store pp) (er_idempotency_key request)")
  case (Some prior)
  then show ?thesis using assms by (auto simp: execute_def)
next
  case None
  obtain tx P where "broadcast D W request ctx tx (pp\<lparr>pp_provider := P\<rparr>) = Some (Inr v, pp')"
    using assms(1) None by (auto simp: execute_def execute_new_def split: prod.splits sum.splits)
  from broadcast_recorded [OF this assms(2)] show ?thesis by (auto simp: execute_def)
qed

lemma broadcast_total:
  assumes "wait_for_receipt (pd_evm D) (wd_fast_receipt W) (wd_clock W) (wd_lookups W)
      (wd_submitted_at W) (pd_timeout_ms D) = Some o1"
  shows "broadcast D W request ctx tx pp \<noteq> None"
  using assms by (auto simp: broadcast_def Let_def split: prod.splits sum.splits)

lemma execute_total:
  assumes "wait_for_receipt (pd_evm D) (wd_fast_receipt W) (wd_clock W) (wd_lookups W)
      (wd_submitted_at W) (pd_timeout_ms D) = Some o1"
  shows "\<exists>r pp'. execute D W request ctx pp = Some (r, pp')"
  using broadcast_total [OF assms]
  by (auto simp: execute_def execute_new_def split: option.splits prod.splits sum.splits)

lemma execute_new_broadcast:
  assumes "execute D W request ctx pp = Some (r, pp')" and "pp_broadcasts pp' \<noteq> pp_broadcasts pp"
  obtains tx P where "by_key (pp_store pp) (er_idempotency_key request) = None"
    "prepare D W request ctx (pp_provider pp) = (Inr tx, P)"
    "broadcast D W request ctx tx (pp\<lparr>pp_provider := P\<rparr>) = Some (r, pp')"
proof -
  have k: "by_key (pp_store pp) (er_idempotency_key request) = None"
    using assms by (cases "by_key (pp_store pp) (er_idempotency_key request)") (auto simp: execute_def)
  obtain o1 P where p: "prepare D W request ctx (pp_provider pp) = (o1, P)"
    by (cases "prepare D W request ctx (pp_provider pp)")
  obtain tx where "o1 = Inr tx"
    using assms k p by (cases o1) (auto simp: execute_def execute_new_def)
  then show ?thesis using that [of tx P] assms(1) k p by (simp add: execute_def execute_new_def)
qed

lemma require_context_Inr:
  "require_context D X i t = Inr ctx \<Longrightarrow> resolve_context X i t = Some ctx"
  by (auto simp: require_context_def and_then_Inr_iff from_option_def split: option.splits)

text \<open>What a transaction that was built from an authorization and accepted by the validator calls.\<close>

definition authorized_call :: "evm_lib \<Rightarrow> chain_registry \<Rightarrow> authorized_expectation \<Rightarrow> transaction_request \<Rightarrow> decoded_transaction \<Rightarrow> bool" where
  "authorized_call E G A tx d \<longleftrightarrow>
     ch_id (tq_chain tx) = ae_chain_id A \<and> ch_name (tq_chain tx) = ae_network A \<and> tq_value tx = ''0''
   \<and> decode E tx = Inr d \<and> dt_function_name d = Some ''transfer''
   \<and> dt_target d \<noteq> None \<and> dt_target d = el_get_address E (ae_recipient A)
   \<and> (\<exists>token. usdc G (ae_network A) = Inr token \<and> as_symbol (tq_asset tx) = ad_symbol token
        \<and> ad_address token \<noteq> None \<and> el_get_address E (the (ad_address token)) = Some (tq_to tx)
        \<and> (\<exists>units. dt_amount_units d = Some units \<and> 0 < units
             \<and> to_base_units (ae_amount A) (ad_decimals token) = Inr units))"

lemma built_authorized_call:
  assumes "evm_laws E" and "build E G i ctx now = Inr tx" and "assert_valid E G tx A = Inr ()"
  shows "\<exists>d. authorized_call E G A tx d \<and> el_get_address E (bx_from ctx) = Some (tq_from tx)"
proof -
  obtain v where v: "check E G tx A = Inr v" "vl_ok v"
    using assms(3) by (auto simp: assert_valid_def and_then_Inr_iff split: if_splits)
  obtain token where token: "usdc G (ti_network i) = Inr token"
    using assms(2) by (auto simp: build_def and_then_Inr_iff split: if_splits)
  obtain chain recipient units where b: "get_by_network G (ti_network i) = Inr chain"
    "truthy (ad_address token)" "el_get_address E (tr_address (ti_recipient i)) = Some recipient"
    "el_get_address E (the (ad_address token)) = Some (tq_to tx)"
    "el_get_address E (bx_from ctx) = Some (tq_from tx)"
    "to_base_units (ti_amount i) (ad_decimals token) = Inr units" "0 < units"
    "el_encode_transfer E recipient units = Some (tq_data tx)"
    "tq_chain tx = \<lparr> ch_id = cf_chain_id chain, ch_name = ti_network i \<rparr>" "tq_value tx = ''0''"
    "as_symbol (tq_asset tx) = ad_symbol token"
    by (rule build_Inr [OF assms(2) token]) (blast intro: that)
  have ok: "ae_chain_id A = cf_chain_id chain" "ae_network A = ti_network i"
    "el_get_address E (ae_recipient A) = Some recipient"
    "to_base_units (ae_amount A) (ad_decimals token) = Inr units"
    using built_checked [OF assms(1,2) v(1) token b(1)] v(2) b(3,6) by auto
  have "ad_address token \<noteq> None" using b(2) by (auto elim: truthy_obtain)
  then show ?thesis
    using decode_built [OF assms(1) b(3,8,4)] ok token b(4,5,7,9-11)
    by (simp add: authorized_call_def known_call_def)
qed

section \<open>Properties\<close>


text \<open>
  C9: whatever the client hands to the network was authorized: the key was unknown, the resolved
  context is for the requested network, the transaction is signed for the configured chain by the
  signer, carries no native value, and its calldata transfers exactly the authorized base units of
  the registry's token to the authorized recipient, a call the node accepted in simulation.
\<close>

theorem broadcast_is_authorized:
  assumes "evm_laws (pd_evm D)" and "client_execute D X W request pp = Some (r, pp')"
    and "pp_broadcasts pp' \<noteq> pp_broadcasts pp"
  shows "\<exists>ctx tx d sender units.
       resolve_context X (Some (er_execution_id request)) (er_transaction_id request) = Some ctx
     \<and> by_key (pp_store pp) (er_idempotency_key request) = None
     \<and> pp_broadcasts pp' = pp_broadcasts pp @ [(er_idempotency_key request, tx)]
     \<and> ae_network (cx_expectation ctx) = er_network request
     \<and> authorized_call (pd_evm D) (pd_registry D) (cx_expectation ctx) tx d
     \<and> ch_id (tq_chain tx) = cf_chain_id (rp_chain (pp_provider pp))
     \<and> ch_id (tq_chain tx) = cf_chain_id (sg_chain (pd_signer D))
     \<and> el_get_address (pd_evm D) (sg_address (pd_signer D)) = Some sender
     \<and> dt_amount_units d = Some units
     \<and> nd_simulate (wd_node W) \<lparr> tc_account = sender, tc_token = tq_to tx, tc_to = the (dt_target d), tc_amount = units \<rparr> = None"
proof -
  obtain ctx where ctx: "require_context D X (Some (er_execution_id request)) (er_transaction_id request) = Inr ctx"
    "ae_network (cx_expectation ctx) = er_network request" "execute D W request ctx pp = Some (r, pp')"
    using assms(2,3) by (auto simp: client_execute_def split: sum.splits if_splits)
  obtain tx P where new: "by_key (pp_store pp) (er_idempotency_key request) = None"
    "prepare D W request ctx (pp_provider pp) = (Inr tx, P)"
    "broadcast D W request ctx tx (pp\<lparr>pp_provider := P\<rparr>) = Some (r, pp')"
    using execute_new_broadcast [OF ctx(3) assms(3)] .
  obtain sim P1 where sim: "checked_transaction D W request ctx = Inr tx"
    "fst (simulate (pd_sha D) (pd_evm D) (pd_registry D) (wd_node W) tx (wd_now W) P1) = Inr sim"
    "rp_chain P1 = rp_chain (pp_provider pp)" "assert_fresh (pd_sha D) sim tx = Inr ()"
    by (rule prepare_Inr [OF new(2)]) (blast intro: that)
  obtain d where d: "authorized_call (pd_evm D) (pd_registry D) (cx_expectation ctx) tx d"
    "el_get_address (pd_evm D) (sg_address (pd_signer D)) = Some (tq_from tx)"
    using built_authorized_call [OF assms(1) checked_transaction_Inr [OF sim(1)]] by auto
  obtain out where out: "out = [] \<or> out = [tx] \<and> ch_id (tq_chain tx) = cf_chain_id (sg_chain (pd_signer D))"
    "pp_broadcasts pp' = pp_broadcasts pp @ map (\<lambda>t. (er_idempotency_key request, t)) out"
    by (rule broadcast_effect [OF new(3)]) (simp add: that)
  have out1: "out = [tx]" "ch_id (tq_chain tx) = cf_chain_id (sg_chain (pd_signer D))" using out assms(3) by auto
  have pass: "sr_status (bs_result sim) = SIM_PASS" using sim(4) by (simp add: assert_fresh_def split: if_splits)
  have dec: "decode (pd_evm D) tx = Inr d" and to: "el_get_address (pd_evm D) (tq_to tx) = Some (tq_to tx)"
    "el_get_address (pd_evm D) (tq_from tx) = Some (tq_from tx)"
    using d evm_lawsD(1) [OF assms(1)] by (auto simp: authorized_call_def)
  have sd: "simulate_decoded (pd_evm D) (pd_registry D) (wd_node W) tx (wd_now W) d = Inr (bs_result sim)"
    and chain: "ch_id (tq_chain tx) = cf_chain_id (rp_chain P1)"
    by (rule simulate_Inr [OF sim(2)]; simp add: dec)+
  obtain units where "dt_amount_units d = Some units"
    "nd_simulate (wd_node W) \<lparr> tc_account = tq_from tx, tc_token = tq_to tx, tc_to = the (dt_target d), tc_amount = units \<rparr> = None"
    by (rule simulate_decoded_PASS [OF sd pass]) (use to that in auto)
  with require_context_Inr [OF ctx(1)] ctx(2) new(1) out(2) out1 d chain sim(3) show ?thesis
    by (intro exI [of _ ctx] exI [of _ tx] exI [of _ d] exI [of _ "tq_from tx"] exI [of _ units]) simp
qed


section \<open>A sample run\<close>

definition sample_deps :: pipeline_deps where
  "sample_deps = \<lparr> pd_sha = (\<lambda>s. s), pd_evm = sample_evm, pd_registry = sample_registry,
     pd_signer = \<lparr> sg_address = ''0xme'', sg_chain = BASE_SEPOLIA, sg_send = (\<lambda>_. Some ''0xh'') \<rparr>,
     pd_timeout_ms = 10 \<rparr>"

definition sample_world :: world where
  "sample_world = \<lparr> wd_node = sample_node, wd_fast_receipt = Some (sample_raw_receipt ''0xbob'' ''5250000''),
     wd_clock = int, wd_lookups = (\<lambda>_. Receipt_not_found), wd_submitted_at = 0, wd_now = ''now'' \<rparr>"

definition sample_call :: execution_request where
  "sample_call = \<lparr> er_execution_id = ''x1'', er_decision_id = ''d1'', er_transaction_id = ''t1'',
     er_executor_type = ''EOA'', er_executor_account = ''0xme'', er_payment_method = ''DIRECT'',
     er_network = ''base-sepolia'', er_idempotency_key = ''k1'', er_authorization_context_hash = ''h1'',
     er_created_at = ''now'' \<rparr>"

definition sample_authorized_context :: authorized_context where
  "sample_authorized_context = \<lparr> cx_intent = sample_transfer ''5.25'', cx_expectation = sample_expectation ''5.250'' \<rparr>"

definition sample_contexts :: context_registry where
  "sample_contexts = register_context ''t1'' None sample_authorized_context
     \<lparr> gx_by_transaction = Map.empty, gx_by_execution = Map.empty \<rparr>"

definition sample_pipeline :: pipeline where
  "sample_pipeline = \<lparr> pp_provider = sample_provider, pp_store = empty_store, pp_broadcasts = [] \<rparr>"

lemma sample_value: "big_int_text ''0''"
  by (simp add: big_int_text_def trim_def is_space_def all_digits_def is_digit_def)

lemma sample_checked:
  "checked_transaction sample_deps sample_world sample_call sample_authorized_context = Inr sample_tx_request"
proof -
  have b: "build sample_evm sample_registry (sample_transfer ''5.25'')
      \<lparr> bx_from = ''0xme'', bx_transaction_id = Some ''t1'' \<rparr> ''now'' = Inr sample_tx_request"
    using sample_built by (simp add: build_def sample_build_context_def sample_transfer_def cong: if_cong)
  have "\<exists>c. check sample_evm sample_registry sample_tx_request (sample_expectation ''5.250'') = Inr c \<and> vl_ok c"
    by (simp add: check_eval)
  then have v: "assert_valid sample_evm sample_registry sample_tx_request (sample_expectation ''5.250'') = Inr ()"
    by (auto simp: assert_valid_def)
  obtain a where "analyze sample_evm sample_registry sample_tx_request = Inr a" "ta_status a = AN_VALID"
    using analyze_built [OF sample_evm_laws sample_built] sample_usdc by (auto simp: sample_transfer_def)
  with b v show ?thesis
    by (simp add: checked_transaction_def sample_deps_def sample_world_def sample_call_def sample_authorized_context_def)
qed

lemma sample_prepared:
  assumes "rp_chain P = BASE_SEPOLIA" and "rp_verified_chain_id P = None \<or> rp_verified_chain_id P = Some 84532"
  shows "\<exists>P'. prepare sample_deps sample_world sample_call sample_authorized_context P = (Inr sample_tx_request, P')
     \<and> rp_chain P' = BASE_SEPOLIA \<and> rp_verified_chain_id P' = Some 84532"
proof -
  let ?P1 = "P\<lparr>rp_verified_chain_id := Some 84532\<rparr>"
  obtain chain where chain: "get_by_network sample_registry ''base-sepolia'' = Inr chain" "cf_chain_id chain = 84532"
    by (simp add: chain_eval)
  obtain sim where sim: "fst (simulate (\<lambda>s. s) sample_evm sample_registry sample_node sample_tx_request ''now'' ?P1) = Inr sim"
    "assert_fresh (\<lambda>s. s) sim sample_tx_request = Inr ()"
    using sample_fresh [of ?P1] assms(1) by auto
  moreover have "snd (simulate (\<lambda>s. s) sample_evm sample_registry sample_node sample_tx_request ''now'' ?P1) = ?P1"
    using sample_chain [of ?P1] assms(1) by (simp add: simulate_provider sample_tx_request_def)
  ultimately have "simulate (\<lambda>s. s) sample_evm sample_registry sample_node sample_tx_request ''now'' ?P1 = (Inr sim, ?P1)"
    by (metis prod.collapse)
  with sim sample_checked sample_chain [OF assms] chain assms(1) show ?thesis
    by (simp add: prepare_def) (simp add: sample_deps_def sample_world_def sample_call_def)
qed

lemma sample_confirmed:
  "wait_for_receipt sample_evm (Some (sample_raw_receipt ''0xbob'' ''5250000'')) int (\<lambda>_. Receipt_not_found) 0 10
     = Some (Inr (Some (sample_raw_receipt ''0xbob'' ''5250000'')))"
  by (simp add: wait_for_receipt_def normalize_receipt_def sample_raw_receipt_def sample_evm_def sample_lower
      from_option_def normalize_log_def)

lemma sample_broadcast:
  "\<exists>v pp'. broadcast sample_deps sample_world sample_call sample_authorized_context sample_tx_request pp = Some (Inr v, pp')
     \<and> ex_status v = EX_CONFIRMED \<and> pp_broadcasts pp' = pp_broadcasts pp @ [(''k1'', sample_tx_request)]
     \<and> pp_provider pp' = pp_provider pp"
proof -
  have s: "submit sample_evm (pd_signer sample_deps) sample_tx_request = (Inr ''0xh'', [sample_tx_request])"
    by (simp add: submit_def send_transaction_def sample_value sample_deps_def sample_evm_def sample_tx_request_def sample_lower
        BASE_SEPOLIA_def from_option_def)
  show ?thesis
    using s sample_confirmed sample_parsed
    by (simp add: broadcast_def sample_deps_def sample_world_def settle_receipt_def mk_result_def sample_call_def Let_def)
qed

lemma sample_executed:
  assumes "rp_chain (pp_provider pp) = BASE_SEPOLIA"
    and "rp_verified_chain_id (pp_provider pp) = None \<or> rp_verified_chain_id (pp_provider pp) = Some 84532"
  shows "\<exists>v pp'. execute_new sample_deps sample_world sample_call sample_authorized_context pp = Some (Inr v, pp')
     \<and> ex_status v = EX_CONFIRMED \<and> pp_broadcasts pp' = pp_broadcasts pp @ [(''k1'', sample_tx_request)]
     \<and> rp_chain (pp_provider pp') = BASE_SEPOLIA \<and> rp_verified_chain_id (pp_provider pp') = Some 84532"
proof -
  obtain P where P: "prepare sample_deps sample_world sample_call sample_authorized_context (pp_provider pp) = (Inr sample_tx_request, P)"
    "rp_chain P = BASE_SEPOLIA" "rp_verified_chain_id P = Some 84532"
    using sample_prepared [OF assms] by blast
  obtain v pp' where "broadcast sample_deps sample_world sample_call sample_authorized_context sample_tx_request (pp\<lparr>pp_provider := P\<rparr>) = Some (Inr v, pp')"
    "ex_status v = EX_CONFIRMED" "pp_broadcasts pp' = pp_broadcasts pp @ [(''k1'', sample_tx_request)]" "pp_provider pp' = P"
    using sample_broadcast [of "pp\<lparr>pp_provider := P\<rparr>"] by auto
  with P show ?thesis by (intro exI [of _ v] exI [of _ pp']) (simp add: execute_new_def)
qed

lemma sample_run:
  "\<exists>v pp'. execute sample_deps sample_world sample_call sample_authorized_context sample_pipeline = Some (Inr v, pp')
     \<and> ex_status v = EX_CONFIRMED \<and> pp_broadcasts pp' = [(''k1'', sample_tx_request)]"
proof -
  have "by_key (pp_store sample_pipeline) k = None" for k by (simp add: sample_pipeline_def by_key_def empty_store_def)
  then show ?thesis
    using sample_executed [of sample_pipeline]
    by (fastforce simp: execute_def sample_pipeline_def sample_provider_def)
qed


theorem broadcast_is_authorized_witness:
  "\<exists>d. authorized_call sample_evm sample_registry (sample_expectation ''5.250'') sample_tx_request d"
proof -
  obtain v pp where run: "execute sample_deps sample_world sample_call sample_authorized_context sample_pipeline = Some (Inr v, pp)"
    "pp_broadcasts pp = [(''k1'', sample_tx_request)]"
    using sample_run by blast
  have r: "resolve_context sample_contexts i ''t1'' = Some sample_authorized_context" for i
    by (simp add: resolve_context_def sample_contexts_def register_context_def)
  then have "require_context sample_deps sample_contexts (Some ''x1'') ''t1'' = Inr sample_authorized_context"
    by (simp add: require_context_def from_option_def sample_deps_def sample_evm_def)
  then have x: "client_execute sample_deps sample_contexts sample_world sample_call sample_pipeline = Some (Inr v, pp)"
    using run(1) by (simp add: client_execute_def sample_call_def sample_authorized_context_def sample_expectation_def)
  have "evm_laws (pd_evm sample_deps)" by (simp add: sample_deps_def sample_evm_laws)
  from broadcast_is_authorized [OF this x] run(2) r show ?thesis
    by (auto simp: sample_pipeline_def sample_call_def) (auto simp: sample_deps_def sample_authorized_context_def)
qed


section \<open>Where the code falls short\<close>

text \<open>
  The submitter turns every failure of the client into SUBMISSION_FAILED, one that happened after
  the transaction left included: the record says FAILED, without a hash to reconcile by, of a
  transaction that may be on the chain.
\<close>

theorem lost_answer_recorded_as_failed:
  "\<exists>v pp'. broadcast (sample_deps\<lparr>pd_signer := (pd_signer sample_deps)\<lparr>sg_send := (\<lambda>_. None)\<rparr>\<rparr>) sample_world
       sample_call sample_authorized_context sample_tx_request sample_pipeline = Some (Inr v, pp')
     \<and> ex_status v = EX_FAILED \<and> ex_transaction_hash v = None \<and> pp_broadcasts pp' = [(''k1'', sample_tx_request)]"
proof -
  have s: "submit sample_evm ((pd_signer sample_deps)\<lparr>sg_send := (\<lambda>_. None)\<rparr>) sample_tx_request = (Inl XE_SUBMISSION_FAILED, [sample_tx_request])"
    by (simp add: submit_def send_transaction_def sample_value sample_deps_def sample_evm_def sample_tx_request_def sample_lower
        BASE_SEPOLIA_def from_option_def)
  then show ?thesis by (simp add: broadcast_def sample_deps_def sample_pipeline_def mk_result_def sample_call_def Let_def)
qed

text \<open>
  The key is looked up before the first \<open>await\<close> and recorded after the broadcast: two calls
  that overlap both find it unknown and both broadcast.
\<close>

theorem overlapping_calls_broadcast_twice:
  "\<exists>r1 pp1 r2 pp2. by_key (pp_store sample_pipeline) (er_idempotency_key sample_call) = None
     \<and> execute_new sample_deps sample_world sample_call sample_authorized_context sample_pipeline = Some (r1, pp1)
     \<and> execute_new sample_deps sample_world sample_call sample_authorized_context pp1 = Some (r2, pp2)
     \<and> map fst (pp_broadcasts pp2) = [''k1'', ''k1'']"
proof -
  have "by_key (pp_store sample_pipeline) (er_idempotency_key sample_call) = None"
    by (simp add: sample_pipeline_def by_key_def empty_store_def)
  moreover obtain v pp1 where "execute_new sample_deps sample_world sample_call sample_authorized_context sample_pipeline = Some (Inr v, pp1)"
    "pp_broadcasts pp1 = [(''k1'', sample_tx_request)]" "rp_chain (pp_provider pp1) = BASE_SEPOLIA"
    "rp_verified_chain_id (pp_provider pp1) = Some 84532"
    using sample_executed [of sample_pipeline] by (auto simp: sample_pipeline_def sample_provider_def)
  ultimately show ?thesis using sample_executed [of pp1] by fastforce
qed

end
