(* ===== verification/Settlement.thy ===== *)
theory Settlement
  imports Execution_Result Execution_Pipeline
begin

text \<open>
  The two halves of a settlement together: the verification that the execution client answers
  (Blockchain/src/execution/execution-pipeline.ts) is the one Core's service compares with what
  it authorized before it commits the money (Backend/src/execution-gate/execution-result.service.ts).
\<close>

section \<open>What a verified execution moved\<close>

text \<open>A token transfer in the logs of a successful receipt.\<close>

definition moved_on_chain :: "evm_lib \<Rightarrow> raw_receipt \<Rightarrow> string \<Rightarrow> string \<Rightarrow> int \<Rightarrow> bool" where
  "moved_on_chain E raw token recipient units \<longleftrightarrow> rc_success raw \<and>
     (\<exists>l \<in> set (rc_logs raw). \<exists>sender to.
        el_decode_transfer_log E (lo_topics l) (lo_data l) = Some (sender, to, units)
        \<and> el_get_address E (lo_address l) = el_get_address E token \<and> el_get_address E to = Some recipient)"

lemma verify_Inr:
  assumes "verify D found t x pp = (Inr v, pp')"
  obtains r A raw token where "by_execution_id (pp_store pp) x = Some r" "xe_authorized r = Some A"
    "get_receipt (pd_evm D) found = Inr (Some raw)" "usdc (pd_registry D) (ae_network A) = Inr token"
    "verify_receipt (pd_evm D) x (authorized_receipt_of A token) (parse_receipt (pd_evm D) raw) (ex_chain (xe_result r)) t = Inr v"
  using assms
  by (auto simp: verify_def and_then_Inr_iff split: option.splits if_splits sum.splits)

lemma verified_receipt_moved:
  assumes "evm_laws E" and "verify_receipt E x A (parse_receipt E raw) net t = Inr v" and "rv_verified v"
  obtains units where "to_base_units (au_amount A) (au_decimals A) = Inr units"
    "moved_on_chain E raw (au_token_address A) (rs_recipient (rv_actual v)) units"
    "el_get_address E (au_recipient A) = Some (rs_recipient (rv_actual v))"
    "rs_asset (rv_actual v) = au_asset A" "rs_amount (rv_actual v) = au_amount A"
    "rs_network (rv_actual v) = au_network A"
proof -
  obtain units m found a n where v: "to_base_units (au_amount A) (au_decimals A) = Inr units"
    "find_transfer E (el_get_address E (au_token_address A)) (el_get_address E (au_recipient A))
       (pr_transfers (parse_receipt E raw)) = Inr m"
    "transfer_findings E A units (el_get_address E (au_token_address A)) m (pr_transfers (parse_receipt E raw)) = Inr (found, a, n)"
    "rv_verified v \<longleftrightarrow> pr_success (parse_receipt E raw) \<and> found = [] \<and> au_network A = net"
    "rv_actual v = \<lparr> rs_recipient = (if a \<noteq> [] then a else nullish (el_get_address E (au_recipient A)) (au_recipient A)),
       rs_asset = au_asset A, rs_amount = (if rv_verified v then au_amount A else n), rs_network = net \<rparr>"
    by (rule verify_receipt_Inr [OF assms(2)]) (blast intro: that)
  obtain x where x: "m = Some x" "pt_value_units x = units" "a = pt_to x"
    using v(3,4) assms(3) by (auto simp: transfer_findings_def and_then_Inr_iff split: option.splits list.splits if_splits)
  have ft: "x \<in> set (pr_transfers (parse_receipt E raw))"
    "el_get_address E (pt_token x) = el_get_address E (au_token_address A)"
    "el_get_address E (pt_to x) = el_get_address E (au_recipient A)" "el_get_address E (au_recipient A) \<noteq> None"
    using find_transfer_Some [OF v(2) [unfolded x(1)]] by auto
  obtain l sender to where l: "l \<in> set (rc_logs raw)"
    "el_decode_transfer_log E (lo_topics l) (lo_data l) = Some (sender, to, pt_value_units x)"
    "el_get_address E to = Some (pt_to x)" "el_get_address E (lo_address l) = Some (pt_token x)"
    using parse_log_D [OF ft(1)] by blast
  have ids: "el_get_address E (pt_to x) = Some (pt_to x)" "el_get_address E (pt_token x) = Some (pt_token x)" "pt_to x \<noteq> []"
    using evm_lawsD [OF assms(1)] l(3,4) by blast+
  have s: "rc_success raw" using v(4) assms(3) by (simp add: parse_receipt_def)
  have "moved_on_chain E raw (au_token_address A) (pt_to x) units"
    using l ids ft(2) x(2) s by (auto simp: moved_on_chain_def)
  then show ?thesis using v(1,4,5) x(3) ids ft(3) assms(3) by (intro that [of units]) simp_all
qed

lemma commit_implies_moved:
  assumes "evm_laws (pd_evm P)" and "verify P found t x pp = (Inr receipt, pp')" and "client x = Inr receipt"
    and "verify_and_finalize D client now nid c x authorized db = (Inr (row, True), db')"
  shows "\<exists>request r A raw token units hold.
       find_request c x db = Some request
     \<and> by_execution_id (pp_store pp) x = Some r \<and> xe_authorized r = Some A
     \<and> get_receipt (pd_evm P) found = Inr (Some raw)
     \<and> usdc (pd_registry P) (ae_network A) = Inr token
     \<and> moved_on_chain (pd_evm P) raw (nullish (ad_address token) []) (rs_recipient authorized) units
     \<and> to_base_units (ae_amount A) (ad_decimals token) = Inr units
     \<and> (\<exists>q. dl_parse D (rs_amount authorized) = Some q \<and> dl_parse D (ae_amount A) = Some q)
     \<and> rs_asset authorized = ae_asset A \<and> rs_network authorized = ae_network A
     \<and> hold \<in> set (lg_reservations (xd_ledger db)) \<and> re_status hold = RESERVED
     \<and> re_execution_request_id hold = Some (xr_id request)
     \<and> xd_ledger db' = snd (commit now c (re_id hold) (xd_ledger db))"
proof -
  obtain request where request: "find_request c x db = Some request"
    using assms(4) by (auto simp: verify_and_finalize_def split: option.splits)
  note fin = verify_and_finalize_Inr [OF request assms(3,4)]
  obtain r A raw token where v: "by_execution_id (pp_store pp) x = Some r" "xe_authorized r = Some A"
    "get_receipt (pd_evm P) found = Inr (Some raw)" "usdc (pd_registry P) (ae_network A) = Inr token"
    "verify_receipt (pd_evm P) x (authorized_receipt_of A token) (parse_receipt (pd_evm P) raw) (ex_chain (xe_result r)) t = Inr receipt"
    by (rule verify_Inr [OF assms(2)]) (blast intro: that)
  have ok: "rv_verified receipt" "rs_recipient authorized = rs_recipient (rv_actual receipt)"
    "rs_asset authorized = rs_asset (rv_actual receipt)" "rs_network authorized = rs_network (rv_actual receipt)"
    "\<exists>q. dl_parse D (rs_amount authorized) = Some q \<and> dl_parse D (rs_amount (rv_actual receipt)) = Some q"
    using fin by auto
  obtain hold where hold: "hold \<in> set (lg_reservations (xd_ledger db))" "re_status hold = RESERVED"
    "re_execution_request_id hold = Some (xr_id request)"
    "xd_ledger db' = snd (commit now c (re_id hold) (xd_ledger db))"
    using fin by auto
  obtain units where "to_base_units (ae_amount A) (ad_decimals token) = Inr units"
    "moved_on_chain (pd_evm P) raw (nullish (ad_address token) []) (rs_recipient authorized) units"
    "rs_asset (rv_actual receipt) = ae_asset A" "rs_amount (rv_actual receipt) = ae_amount A"
    "rs_network (rv_actual receipt) = ae_network A"
    by (rule verified_receipt_moved [OF assms(1) v(5) ok(1)]) (simp add: authorized_receipt_of_def ok(2) that)
  with request v(1-4) ok hold show ?thesis by metis
qed

section \<open>Properties\<close>


text \<open>The sample execution, settled.\<close>

definition settled_pipeline :: pipeline where
  "settled_pipeline = sample_pipeline\<lparr>pp_store := put (recorded_as sample_call
     (sample_authorized_context\<lparr>cx_expectation := sample_expectation ''5.25''\<rparr>)
     (mk_result sample_call ''now'' EX_CONFIRMED (Some ''0xh''))) empty_store\<rparr>"

definition settled_snapshot :: receipt_snapshot where
  "settled_snapshot = \<lparr> rs_recipient = ''0xbob'', rs_asset = ''USDC'', rs_amount = ''5.25'', rs_network = ''base-sepolia'' \<rparr>"

lemma settled_record: "by_execution_id (pp_store settled_pipeline) ''x1'' = Some (recorded_as sample_call
      (sample_authorized_context\<lparr>cx_expectation := sample_expectation ''5.25''\<rparr>)
      (mk_result sample_call ''now'' EX_CONFIRMED (Some ''0xh'')))"
  by (simp add: by_execution_id_def settled_pipeline_def put_def recorded_as_def sample_call_def)

lemma settled_receipt: "get_receipt sample_evm (Receipt_found (sample_raw_receipt ''0xbob'' ''5250000''))
    = Inr (Some (sample_raw_receipt ''0xbob'' ''5250000''))"
  by (simp add: get_receipt_def normalize_receipt_def sample_raw_receipt_def sample_evm_def sample_lower
      from_option_def normalize_log_def)

lemma settled_expectation: "ae_network (sample_expectation ''5.25'') = ''base-sepolia''"
  "authorized_receipt_of (sample_expectation ''5.25'') \<lparr> ad_symbol = ''USDC'', ad_address = Some ''0xusdc'', ad_decimals = 6 \<rparr>
      = sample_authorized"
  by (simp_all add: authorized_receipt_of_def sample_expectation_def sample_authorized_def)

lemma settled_verification:
  "\<exists>receipt pp'. verify sample_deps (Receipt_found (sample_raw_receipt ''0xbob'' ''5250000'')) ''now'' ''x1'' settled_pipeline
       = (Inr receipt, pp')
     \<and> rv_verified receipt \<and> rv_actual receipt = settled_snapshot"
proof -
  let ?raw = "sample_raw_receipt ''0xbob'' ''5250000''"
  obtain v where v: "verify_receipt sample_evm ''x1'' sample_authorized (parse_receipt sample_evm ?raw) ''base-sepolia'' ''now'' = Inr v"
    using sample_verified by blast
  have ok: "rv_verified v"
    unfolding verify_receipt_verified [OF v] sample_parsed
    by (simp add: sample_authorized_def sample_evm_def sample_lower from_option_def sample_units)
  obtain "el_get_address sample_evm (au_recipient sample_authorized) = Some (rs_recipient (rv_actual v))"
    "rs_asset (rv_actual v) = au_asset sample_authorized" "rs_amount (rv_actual v) = au_amount sample_authorized"
    "rs_network (rv_actual v) = au_network sample_authorized"
    by (rule verified_receipt_moved [OF sample_evm_laws v ok]) (simp add: that)
  then have "rv_actual v = settled_snapshot"
    by (intro receipt_snapshot.equality) (simp_all add: settled_snapshot_def sample_authorized_def sample_evm_def sample_lower)
  with v ok show ?thesis
    using sample_usdc settled_record settled_receipt settled_expectation
    by (simp add: verify_def sample_deps_def recorded_as_def mk_result_def sample_call_def)
qed

lemma settled_finalization:
  "\<exists>receipt pp' row db'.
     verify sample_deps (Receipt_found (sample_raw_receipt ''0xbob'' ''5250000'')) ''now'' ''x1'' settled_pipeline = (Inr receipt, pp')
   \<and> verify_and_finalize plain_decimal (\<lambda>_. Inr receipt) 9 ''v'' ''co'' ''x1'' settled_snapshot execution1 = (Inr (row, True), db')"
proof -
  obtain receipt pp' where v: "verify sample_deps (Receipt_found (sample_raw_receipt ''0xbob'' ''5250000'')) ''now'' ''x1''
      settled_pipeline = (Inr receipt, pp')" "rv_verified receipt" "rv_actual receipt = settled_snapshot"
    using settled_verification by blast
  have "discrepancies plain_decimal settled_snapshot settled_snapshot True = Inr []"
    by (simp add: discrepancies_def settled_snapshot_def amount_of_def money_amount_def money_value_def
        split_point_def unsigned_part_def all_digits_def is_digit_def digits_value_def digit_value_def)
  then obtain row db' where "verify_and_finalize plain_decimal (\<lambda>_. Inr receipt) 9 ''v'' ''co'' ''x1'' settled_snapshot execution1
      = (Inr (row, True), db')"
    using v(2,3) by (simp add: execution_eval ledger_eval Let_def)
  with v(1) show ?thesis by blast
qed


section \<open>Where the two halves disagree\<close>

text \<open>
  The client answers with the checksum form of the recipient and Core compares texts: a payment
  that Core authorized with another spelling of the same address is verified by the client, and
  recorded as a mismatch whose money is never committed.
\<close>

theorem respelled_recipient_never_settles:
  "el_get_address sample_evm ''0xBob'' = Some (rs_recipient settled_snapshot)
   \<and> (\<forall>verified. discrepancies plain_decimal (settled_snapshot\<lparr>rs_recipient := ''0xBob''\<rparr>) settled_snapshot verified \<noteq> Inr [])"
proof -
  have "to_lower ''0xBob'' = ''0xbob''" by (simp add: to_lower_def to_lower_char_def char_of_def bit_Suc_0_iff)
  then show ?thesis
    by (auto simp: sample_evm_def settled_snapshot_def discrepancies_def and_then_Inr_iff)
qed

end
