(* ===== verification/Stream_Worker.thy ===== *)
theory Stream_Worker
  imports Trajectory
begin

text \<open>
  The ingestion worker over its Redis stream (Backend/src/trajectory/ingestion.worker.ts): the
  consumer group, publication, batches and the recovery after a restart. Redis is the argument
  \<open>redis_lib\<close> with the documented behaviour of consumer groups as \<open>redis_laws\<close>; the handling of
  one message is in Trajectory.
\<close>

section \<open>The stream\<close>

type_synonym stream_message = "string \<times> string list"

record 'r redis_lib =
  rl_xgroup_create :: "'r \<Rightarrow> (string + unit) \<times> 'r"
  rl_xadd :: "string list \<Rightarrow> 'r \<Rightarrow> string \<times> 'r"
  rl_read_new :: "nat \<Rightarrow> 'r \<Rightarrow> stream_message list option \<times> 'r"
  rl_read_pending :: "nat \<Rightarrow> 'r \<Rightarrow> stream_message list option \<times> 'r"
  rl_xack :: "string \<Rightarrow> 'r \<Rightarrow> 'r"
  rl_pending :: "'r \<Rightarrow> stream_message list"

text \<open>
  Reading with the id \<open>>\<close> delivers at most \<open>count\<close> messages and puts them at the end of the pending
  list of the consumer; reading with the id 0 returns the first \<open>count\<close> pending ones and changes
  nothing; an acknowledgement takes one id from the pending list. \<open>rl_pending\<close> is that list.
\<close>

definition redis_laws :: "'r redis_lib \<Rightarrow> bool" where
  "redis_laws R \<longleftrightarrow>
     (\<forall>n r ms r'. rl_read_new R n r = (ms, r') \<longrightarrow>
        rl_pending R r' = rl_pending R r @ nullish ms [] \<and> length (nullish ms []) \<le> n)
   \<and> (\<forall>n r ms r'. rl_read_pending R n r = (ms, r') \<longrightarrow>
        rl_pending R r' = rl_pending R r \<and> nullish ms [] = take n (rl_pending R r))
   \<and> (\<forall>i r. rl_pending R (rl_xack R i r) = filter (\<lambda>m. fst m \<noteq> i) (rl_pending R r))"

lemma redis_read_new:
  "redis_laws R \<Longrightarrow> rl_read_new R n r = (ms, r') \<Longrightarrow> rl_pending R r' = rl_pending R r @ nullish ms []"
  by (simp add: redis_laws_def)

lemma redis_read_pending:
  "redis_laws R \<Longrightarrow> rl_read_pending R n r = (ms, r') \<Longrightarrow>
     rl_pending R r' = rl_pending R r \<and> nullish ms [] = take n (rl_pending R r)"
  by (simp add: redis_laws_def)

lemma redis_ack: "redis_laws R \<Longrightarrow> rl_pending R (rl_xack R i r) = filter (\<lambda>m. fst m \<noteq> i) (rl_pending R r)"
  by (simp add: redis_laws_def)

section \<open>The worker\<close>

definition ensure_group :: "'r redis_lib \<Rightarrow> 'r \<Rightarrow> (string + unit) \<times> 'r" where
  "ensure_group R r =
     (case rl_xgroup_create R r of
        (Inl message, r') \<Rightarrow> if \<not> occurs_in ''BUSYGROUP'' message then (Inl message, r') else (Inr (), r')
      | (Inr _, r') \<Rightarrow> (Inr (), r'))"

definition publish :: "'r redis_lib \<Rightarrow> (streamed_event \<Rightarrow> string) \<Rightarrow> streamed_event \<Rightarrow> 'r \<Rightarrow> string \<times> 'r" where
  "publish R to_json event r = rl_xadd R [''event'', to_json event] r"

text \<open>What one worker needs: the parser, the digest, the clock and the id the database gives the row of a message.\<close>

record worker_lib =
  wl_parse_json :: "string \<Rightarrow> streamed_event option"
  wl_sha :: "string \<Rightarrow> string"
  wl_clock :: clock_lib
  wl_row_id :: "string \<Rightarrow> string"

definition handle_stream_message :: "worker_lib \<Rightarrow> stream_message \<Rightarrow> ingestion_state \<Rightarrow> ingestion_state" where
  "handle_stream_message W m = handle_message (wl_parse_json W) (wl_sha W) (wl_clock W) (wl_row_id W (fst m)) (fst m) (snd m)"

text \<open>The acknowledgements of a message go to the stream; the tables and the counters are the ingestion state.\<close>

fun handle_all :: "'r redis_lib \<Rightarrow> worker_lib \<Rightarrow> stream_message list \<Rightarrow> ingestion_state \<times> 'r \<Rightarrow> ingestion_state \<times> 'r" where
  "handle_all R W [] s = s"
| "handle_all R W (m # ms) (st, r) = handle_all R W ms (handle_stream_message W m st, rl_xack R (fst m) r)"

definition no_result :: ingestion_result where
  "no_result = \<lparr> ir_processed = 0, ir_duplicates = 0, ir_rejected = 0 \<rparr>"

definition start_run :: "trajectory_db \<Rightarrow> ingestion_state" where
  "start_run db = \<lparr> is_db = db, is_result = no_result, is_acked = [] \<rparr>"

definition process_batch :: "'r redis_lib \<Rightarrow> worker_lib \<Rightarrow> nat \<Rightarrow> trajectory_db \<times> 'r \<Rightarrow> ingestion_state \<times> 'r" where
  "process_batch R W batch s =
     (case rl_read_new R batch (snd s) of
        (None, r) \<Rightarrow> (start_run (fst s), r)
      | (Some ms, r) \<Rightarrow> handle_all R W ms (start_run (fst s), r))"

definition recover_pending :: "'r redis_lib \<Rightarrow> worker_lib \<Rightarrow> nat \<Rightarrow> trajectory_db \<times> 'r \<Rightarrow> ingestion_state \<times> 'r" where
  "recover_pending R W batch s =
     (case rl_read_pending R batch (snd s) of
        (None, r) \<Rightarrow> (start_run (fst s), r)
      | (Some ms, r) \<Rightarrow> handle_all R W ms (start_run (fst s), r))"

text \<open>
  A batch whose process dies while it handles the message number \<open>k\<close>: either before its append or
  after the append and before the acknowledgement. What is left are the tables and the stream.
\<close>

definition crash_batch :: "'r redis_lib \<Rightarrow> worker_lib \<Rightarrow> nat \<Rightarrow> nat \<Rightarrow> bool \<Rightarrow> trajectory_db \<times> 'r \<Rightarrow> trajectory_db \<times> 'r" where
  "crash_batch R W batch k appended s =
     (case rl_read_new R batch (snd s) of
        (None, r) \<Rightarrow> (fst s, r)
      | (Some ms, r) \<Rightarrow>
         (case handle_all R W (take k ms) (start_run (fst s), r) of
            (st, r1) \<Rightarrow> (if appended \<and> k < length ms then is_db (handle_stream_message W (ms ! k) st) else is_db st, r1)))"

section \<open>Lemmas\<close>

lemma handle_all_append: "handle_all R W (ms @ ns) s = handle_all R W ns (handle_all R W ms s)"
  by (induction R W ms s rule: handle_all.induct) simp_all

lemma handle_all_snd: "snd (handle_all R W ms (st, r)) = foldl (\<lambda>r m. rl_xack R (fst m) r) r ms"
  by (induction ms arbitrary: st r) simp_all

lemma handle_all_fst: "fst (handle_all R W ms (st, r)) = foldl (\<lambda>st m. handle_stream_message W m st) st ms"
  by (induction ms arbitrary: st r) simp_all

lemma handle_acks: "is_acked (handle_stream_message W m st) = is_acked st @ [fst m]"
  by (auto simp: handle_stream_message_def handle_message_def ack_def split: option.splits sum.splits prod.splits)

lemma handled_acks: "is_acked (fst (handle_all R W ms (st, r))) = is_acked st @ map fst ms"
  by (induction ms arbitrary: st r) (simp_all add: handle_acks)

lemma handled_pending:
  "redis_laws R \<Longrightarrow> rl_pending R (snd (handle_all R W ms (st, r))) = filter (\<lambda>m. fst m \<notin> fst ` set ms) (rl_pending R r)"
  by (induction ms arbitrary: st r) (auto simp: redis_ack intro: filter_cong)

text \<open>What a message does to the tables: it appends the event it carries, if it carries one.\<close>

definition incoming :: "worker_lib \<Rightarrow> stream_message \<Rightarrow> append_event_input option" where
  "incoming W m =
     (case event_field (snd m) of
        None \<Rightarrow> None
      | Some raw \<Rightarrow>
          if raw = [] then None
          else (case parse_streamed_event (wl_parse_json W) raw of Inl e \<Rightarrow> None | Inr i \<Rightarrow> Some i))"

lemma handle_db:
  "is_db (handle_stream_message W m st) =
     (case incoming W m of
        None \<Rightarrow> is_db st
      | Some i \<Rightarrow> snd (append_event (wl_sha W) (wl_clock W) (wl_row_id W (fst m)) i (is_db st)))"
  by (auto simp: incoming_def handle_stream_message_def handle_message_def ack_def split: option.splits sum.splits prod.splits)

lemma handle_db_only: "is_db st = is_db st' \<Longrightarrow> is_db (handle_stream_message W m st) = is_db (handle_stream_message W m st')"
  by (simp add: handle_db cong: option.case_cong)

lemma handled_db_only: "is_db st = is_db st' \<Longrightarrow> is_db (fst (handle_all R W ms (st, r))) = is_db (fst (handle_all R W ms (st', r')))"
proof (induction ms arbitrary: st st' r r')
  case (Cons m ms)
  show ?case using Cons.IH [OF handle_db_only [OF Cons.prems]] by simp
qed simp

lemma handle_reachable:
  assumes "reachable (\<lambda>db. db = empty_trajectory) (trajectory_step (wl_sha W) (wl_clock W)) (is_db st)"
  shows "reachable (\<lambda>db. db = empty_trajectory) (trajectory_step (wl_sha W) (wl_clock W)) (is_db (handle_stream_message W m st))"
  unfolding handle_stream_message_def using reachable_rtranclp [OF handle_message_step assms] .

text \<open>An append either changes nothing or stores an event that was not stored.\<close>

lemma append_event_new: "append_event sha clk nid i db = (Inr e, db') \<Longrightarrow> db' \<noteq> db \<Longrightarrow> e \<notin> set (tj_events db)"
  by (auto simp: append_event_def transaction_Inr insert_event_def Let_def find_None_iff split: option.splits if_splits)

text \<open>A message that is handled a second time leaves the tables as they are.\<close>

lemma append_twice:
  assumes "reachable (\<lambda>db. db = empty_trajectory) (trajectory_step sha clk) db"
  shows "snd (append_event sha clk nid i (snd (append_event sha clk nid i db))) = snd (append_event sha clk nid i db)"
proof -
  obtain x db' where a: "append_event sha clk nid i db = (x, db')" by fastforce
  show ?thesis
  proof (cases "db' = db")
    case False
    then obtain e where x: "x = Inr e" using a append_event_Inl by (cases x) auto
    show ?thesis
      using redelivery_refused [OF assms a [unfolded x] append_event_new [OF a [unfolded x] False]] a by simp
  qed (use a in simp)
qed

lemma handle_twice:
  assumes "reachable (\<lambda>db. db = empty_trajectory) (trajectory_step (wl_sha W) (wl_clock W)) (is_db st)"
    and "is_db st' = is_db (handle_stream_message W m st)"
  shows "is_db (handle_stream_message W m st') = is_db st'"
  using assms append_twice by (simp add: handle_db split: option.splits)

lemma handled_reachable:
  "reachable (\<lambda>db. db = empty_trajectory) (trajectory_step (wl_sha W) (wl_clock W)) (is_db st) \<Longrightarrow>
     reachable (\<lambda>db. db = empty_trajectory) (trajectory_step (wl_sha W) (wl_clock W)) (is_db (fst (handle_all R W ms (st, r))))"
  by (induction ms arbitrary: st r) (simp_all add: handle_reachable)

lemma recover_pending_db:
  assumes "redis_laws R"
  shows "is_db (fst (recover_pending R W batch (db, r)))
       = is_db (fst (handle_all R W (take batch (rl_pending R r)) (start_run db, r)))
    \<and> rl_pending R (snd (recover_pending R W batch (db, r)))
       = filter (\<lambda>m. fst m \<notin> fst ` set (take batch (rl_pending R r))) (rl_pending R r)"
proof -
  obtain ms r1 where q: "rl_read_pending R batch r = (ms, r1)" by fastforce
  have l: "rl_pending R r1 = rl_pending R r" "nullish ms [] = take batch (rl_pending R r)"
    using redis_read_pending [OF assms q] by auto
  show ?thesis
  proof (cases ms)
    case None
    with l(2) have "take batch (rl_pending R r) = []" by (simp add: nullish_def)
    with None show ?thesis by (simp only: handle_all.simps) (simp add: recover_pending_def q l(1) start_run_def)
  next
    case (Some xs)
    with l have "xs = take batch (rl_pending R r)" by (simp add: nullish_def)
    with Some show ?thesis
      using handled_pending [OF assms] handled_db_only [of "start_run db" "start_run db" R W xs r1 r]
      by (simp add: recover_pending_def q l(1))
  qed
qed

lemma unacked_suffix:
  assumes "distinct (map fst ms)"
  shows "filter (\<lambda>m. fst m \<notin> fst ` set (take k ms)) ms = drop k ms"
proof -
  have d: "fst ` set (take k ms) \<inter> fst ` set (drop k ms) = {}"
    using assms distinct_append [of "map fst (take k ms)" "map fst (drop k ms)"]
    by (simp flip: map_append)
  have "filter (\<lambda>m. fst m \<notin> fst ` set (take k ms)) (take k ms @ drop k ms) = drop k ms"
    unfolding filter_append using d by (auto simp: filter_empty_conv intro!: filter_True)
  then show ?thesis by (simp only: append_take_drop_id)
qed

section \<open>Properties\<close>

text \<open>
  C22: A worker that dies in the middle of a batch loses and repeats nothing: after a crash at any
  message, before its append or between the append and the acknowledgement, the recovery brings the
  tables to what the batch would have left without the crash, and no delivered message is left pending.
\<close>

theorem crash_recovery_completes:
  assumes "redis_laws R"
    and "reachable (\<lambda>db. db = empty_trajectory) (trajectory_step (wl_sha W) (wl_clock W)) db"
    and "rl_pending R r = []" and "rl_read_new R batch r = (Some ms, r1)" and "distinct (map fst ms)"
  shows "is_db (fst (recover_pending R W batch (crash_batch R W batch k appended (db, r))))
       = is_db (fst (process_batch R W batch (db, r)))
    \<and> rl_pending R (snd (recover_pending R W batch (crash_batch R W batch k appended (db, r)))) = []
    \<and> rl_pending R (snd (process_batch R W batch (db, r))) = []"
proof -
  have p: "rl_pending R r1 = ms" "length ms \<le> batch"
    using assms(1,3,4) unfolding redis_laws_def by (fastforce simp: nullish_def)+
  obtain st r2 where h: "handle_all R W (take k ms) (start_run db, r1) = (st, r2)" by fastforce
  define db1 where "db1 = (if appended \<and> k < length ms then is_db (handle_stream_message W (ms ! k) st) else is_db st)"
  have c: "crash_batch R W batch k appended (db, r) = (db1, r2)" by (simp add: crash_batch_def assms(4) h db1_def)
  have rest: "rl_pending R r2 = drop k ms"
    using handled_pending [OF assms(1), of W "take k ms" "start_run db" r1] unacked_suffix [OF assms(5)] by (simp add: h p(1))
  have whole: "process_batch R W batch (db, r) = handle_all R W (drop k ms) (st, r2)"
    using handle_all_append [of R W "take k ms" "drop k ms"] by (simp add: process_batch_def assms(4) h)
  have st: "reachable (\<lambda>db. db = empty_trajectory) (trajectory_step (wl_sha W) (wl_clock W)) (is_db st)"
    using handled_reachable [of W "start_run db" R "take k ms" r1] assms(2) unfolding h
    by (simp add: start_run_def)
  have "is_db (fst (handle_all R W (drop k ms) (start_run db1, r2))) = is_db (fst (handle_all R W (drop k ms) (st, r2)))"
  proof (cases "appended \<and> k < length ms")
    case True
    then have d: "drop k ms = ms ! k # drop (Suc k) ms" "db1 = is_db (handle_stream_message W (ms ! k) st)"
      by (simp_all add: Cons_nth_drop_Suc db1_def)
    have "is_db (handle_stream_message W (ms ! k) (start_run db1)) = is_db (handle_stream_message W (ms ! k) st)"
      using handle_twice [OF st, of "start_run db1" "ms ! k"] d(2) by (simp add: start_run_def)
    then show ?thesis unfolding d(1) by (simp add: handled_db_only)
  next
    case False
    then have "is_db (start_run db1) = is_db st" by (auto simp: db1_def start_run_def)
    then show ?thesis by (rule handled_db_only)
  qed
  moreover have "take batch (rl_pending R r2) = drop k ms" using p(2) by (simp add: rest)
  ultimately show ?thesis
    using recover_pending_db [OF assms(1), of W batch db1 r2] handled_pending [OF assms(1), of W "drop k ms" st r2]
    by (auto simp: c whole rest filter_empty_conv)
qed

definition sample_redis :: "(stream_message list \<times> stream_message list) redis_lib" where
  "sample_redis =
     \<lparr> rl_xgroup_create = (\<lambda>r. (Inl ''BUSYGROUP Consumer Group name already exists'', r)),
       rl_xadd = (\<lambda>fields r. (''m'', (fst r @ [(''m'', fields)], snd r))),
       rl_read_new = (\<lambda>n r. (Some (take n (fst r)), (drop n (fst r), snd r @ take n (fst r)))),
       rl_read_pending = (\<lambda>n r. (Some (take n (snd r)), r)),
       rl_xack = (\<lambda>i r. (fst r, filter (\<lambda>m. fst m \<noteq> i) (snd r))),
       rl_pending = snd \<rparr>"

lemma sample_redis_laws: "redis_laws sample_redis"
  by (auto simp: redis_laws_def sample_redis_def nullish_def)

definition sample_worker :: worker_lib where
  "sample_worker = \<lparr> wl_parse_json = sample_parser, wl_sha = (\<lambda>s. s), wl_clock = sample_clock, wl_row_id = (\<lambda>i. i) \<rparr>"

definition sample_stream :: "stream_message list" where
  "sample_stream = [(''m1'', [''event'', ''1'']), (''m2'', [''event'', ''2''])]"

lemma sample_read:
  "rl_read_new sample_redis 2 (sample_stream, []) = (Some sample_stream, ([], sample_stream))"
  by (simp add: sample_redis_def sample_stream_def)

theorem crash_recovery_completes_witness:
  "is_db (fst (recover_pending sample_redis sample_worker 2
       (crash_batch sample_redis sample_worker 2 0 True (sample_trace_db, (sample_stream, [])))))
   = is_db (fst (process_batch sample_redis sample_worker 2 (sample_trace_db, (sample_stream, []))))"
proof -
  have "reachable (\<lambda>db. db = empty_trajectory) (trajectory_step (wl_sha sample_worker) (wl_clock sample_worker)) sample_trace_db"
    using sample_trace_reachable by (simp add: sample_worker_def)
  moreover have "rl_pending sample_redis (sample_stream, []) = []" by (simp add: sample_redis_def)
  moreover have "distinct (map fst sample_stream)" by (simp add: sample_stream_def)
  ultimately show ?thesis
    using crash_recovery_completes [OF sample_redis_laws _ _ sample_read, of sample_worker sample_trace_db 0 True] by blast
qed

text \<open>
  The comment of \<open>processBatch\<close> says that a message whose write failed for a transient reason stays
  unacknowledged and is retried. Every message of a batch is acknowledged whatever came of it, so a
  batch leaves nothing for the recovery.
\<close>

theorem failed_messages_are_acked:
  assumes "redis_laws R" and "rl_read_new R batch r = (Some ms, r1)"
  shows "is_acked (fst (process_batch R W batch (db, r))) = map fst ms
    \<and> set (rl_pending R (snd (process_batch R W batch (db, r)))) \<subseteq> set (rl_pending R r)"
proof -
  have "rl_pending R r1 = rl_pending R r @ ms" using redis_read_new [OF assms] by (simp add: nullish_def)
  then show ?thesis
    using handled_acks [of R W ms "start_run db" r1] handled_pending [OF assms(1), of W ms "start_run db" r1]
    by (auto simp: process_batch_def assms(2) start_run_def)
qed

theorem failed_messages_are_acked_witness:
  "is_acked (fst (process_batch sample_redis sample_worker 2 (sample_trace_db, (sample_stream, [])))) = [''m1'', ''m2'']"
  using failed_messages_are_acked [OF sample_redis_laws sample_read] by (simp add: sample_stream_def)

end
