(* ===== verification/X402_Payments.thy ===== *)
theory X402_Payments
  imports Payment_Transaction
begin

text \<open>
  The x402 rail (Blockchain/src/x402): parsing an untrusted payment requirement, mapping it to a
  candidate that Core still has to authorize, settling through the facilitator and checking the
  settlement. The body of the 402 answer arrives as the value its Zod schema returns
  (\<open>None\<close> is a failed \<open>safeParse\<close>); the facilitator is a parameter, and \<open>settle\<close>
  returns the requests it sent beside its result, so that what reaches it can be stated.
\<close>

section \<open>Parsing a requirement\<close>

record x402_requirement =
  xr_scheme :: string
  xr_network :: string
  xr_max_amount_required :: string
  xr_pay_to :: string
  xr_asset :: string
  xr_resource :: "string option"

record parsed_x402 =
  px_scheme :: string
  px_network :: string
  px_amount :: string
  px_pay_to :: string
  px_asset :: string
  px_resource :: "string option"

record x402_parse_options =
  xo_allowed_networks :: "string list"
  xo_expected_usdc :: string

definition is_expected_asset :: "evm_lib \<Rightarrow> string \<Rightarrow> string \<Rightarrow> execution_error + bool" where
  "is_expected_asset E asset expected =
     (if \<not> el_is_address E asset then Inr False
      else
       and_then (from_option XE_uncaught (el_get_address E asset)) (\<lambda>a.
       and_then (from_option XE_uncaught (el_get_address E expected)) (\<lambda>b. Inr (a = b))))"

definition parse_requirement ::
    "evm_lib \<Rightarrow> x402_requirement option \<Rightarrow> x402_parse_options \<Rightarrow> execution_error + parsed_x402" where
  "parse_requirement E raw opts =
     (case raw of
        None \<Rightarrow> Inl XE_VALIDATION_FAILED
      | Some r \<Rightarrow>
          if xr_scheme r \<noteq> ''exact'' then Inl XE_UNSUPPORTED
          else if \<not> arr_includes (xo_allowed_networks opts) (xr_network r) then Inl XE_VALIDATION_FAILED
          else if \<not> el_is_address E (xr_pay_to r) then Inl XE_VALIDATION_FAILED
          else
           and_then (is_expected_asset E (xr_asset r) (xo_expected_usdc opts)) (\<lambda>expected.
             if \<not> expected then Inl XE_VALIDATION_FAILED
             else if \<not> limit_format (xr_max_amount_required r) then Inl XE_VALIDATION_FAILED
             else
              and_then (from_option XE_uncaught (el_get_address E (xr_pay_to r))) (\<lambda>pay_to.
              and_then (from_option XE_uncaught (el_get_address E (xr_asset r))) (\<lambda>asset.
                Inr \<lparr> px_scheme = xr_scheme r, px_network = xr_network r,
                      px_amount = xr_max_amount_required r, px_pay_to = pay_to, px_asset = asset,
                      px_resource = xr_resource r \<rparr>))))"

section \<open>The candidate\<close>

record x402_execution_candidate =
  xc_parsed :: parsed_x402
  xc_intent :: transaction_intent
  xc_expectation :: authorized_expectation

record x402_adapter_options =
  xa_parse_options :: x402_parse_options
  xa_chain_id :: int
  xa_decimals :: nat

record x402_context =
  xx_proposal_id :: string
  xx_transaction_id :: string

definition x402_intent :: "parsed_x402 \<Rightarrow> x402_context \<Rightarrow> transaction_intent" where
  "x402_intent p ctx =
     \<lparr> ti_transaction_id = xx_transaction_id ctx, ti_proposal_id = xx_proposal_id ctx,
       ti_action_type = ''payment'', ti_network = px_network p,
       ti_asset = \<lparr> as_symbol = ''USDC'', as_address = Some (px_asset p), as_type = Some ''erc20'' \<rparr>,
       ti_amount = px_amount p,
       ti_recipient = \<lparr> tr_address = px_pay_to p, tr_type = Some ''x402_resource'' \<rparr>,
       ti_payment_method = Some ''x402'',
       ti_constraints = [(''x402_resource'', JStr (nullish (px_resource p) []))] \<rparr>"

definition x402_expectation :: "parsed_x402 \<Rightarrow> int \<Rightarrow> authorized_expectation" where
  "x402_expectation p chain_id =
     \<lparr> ae_network = px_network p, ae_chain_id = chain_id, ae_recipient = px_pay_to p,
       ae_asset = ''USDC'', ae_amount = px_amount p, ae_allowed_function = ''transfer'' \<rparr>"

definition to_execution_candidate ::
    "evm_lib \<Rightarrow> x402_adapter_options \<Rightarrow> x402_requirement option \<Rightarrow> x402_context \<Rightarrow>
     execution_error + x402_execution_candidate" where
  "to_execution_candidate E opts raw ctx =
     and_then (parse_requirement E raw (xa_parse_options opts)) (\<lambda>p.
       Inr \<lparr> xc_parsed = p, xc_intent = x402_intent p ctx,
             xc_expectation = x402_expectation p (xa_chain_id opts) \<rparr>)"

section \<open>Settlement\<close>

text \<open>The facilitator's answer as the code reads it: \<open>success\<close> through \<open>Boolean\<close>, the rest optional.\<close>

record facilitator_answer =
  fa_success :: bool
  fa_tx_hash :: "string option"
  fa_network :: "string option"
  fa_payer :: "string option"

record settlement_request =
  sq_payload :: json
  sq_authorization :: string

record settlement_result =
  se_settled :: bool
  se_transaction_hash :: "string option"
  se_network :: "string option"
  se_payer :: "string option"

definition facilitator_settle ::
    "(settlement_request \<Rightarrow> facilitator_answer option) \<Rightarrow> json \<Rightarrow> string option \<Rightarrow>
     (execution_error + settlement_result) \<times> settlement_request list" where
  "facilitator_settle transport payload token =
     (if \<not> truthy token then (Inl XE_VALIDATION_FAILED, [])
      else
       (let q = \<lparr> sq_payload = payload, sq_authorization = the token \<rparr>
        in (case transport q of
              None \<Rightarrow> (Inl XE_uncaught, [q])
            | Some a \<Rightarrow>
                (Inr \<lparr> se_settled = fa_success a, se_transaction_hash = fa_tx_hash a,
                       se_network = fa_network a, se_payer = fa_payer a \<rparr>, [q]))))"

definition verify_settlement :: "x402_execution_candidate \<Rightarrow> settlement_result \<Rightarrow> bool \<times> string list" where
  "verify_settlement c s =
     (let ds = (if \<not> se_settled s then [''not_settled''] else [])
             @ (if \<not> truthy (se_transaction_hash s) then [''no_tx_hash''] else [])
             @ (if truthy (se_network s) \<and> the (se_network s) \<noteq> px_network (xc_parsed c) then [''network''] else [])
      in (length ds = 0, ds))"

section \<open>Lemmas\<close>

lemma is_expected_asset_True:
  "is_expected_asset E asset expected = Inr True \<longleftrightarrow>
     el_is_address E asset \<and> (\<exists>a. el_get_address E asset = Some a \<and> el_get_address E expected = Some a)"
  by (auto simp: is_expected_asset_def and_then_Inr_iff)

lemma and_then_Inl_iff: "and_then r k = Inl e \<longleftrightarrow> r = Inl e \<or> (\<exists>x. r = Inr x \<and> k x = Inl e)"
  by (cases r) simp_all

lemma parse_requirement_Inr:
  assumes "parse_requirement E raw opts = Inr p"
  shows "px_network p \<in> set (xo_allowed_networks opts) \<and> limit_format (px_amount p) \<and> px_scheme p = ''exact''
     \<and> el_get_address E (xo_expected_usdc opts) = Some (px_asset p)
     \<and> (\<exists>a. el_is_address E a \<and> el_get_address E a = Some (px_pay_to p))"
proof -
  obtain r where r: "raw = Some r" using assms by (cases raw) (simp_all add: parse_requirement_def)
  have c: "xr_scheme r = ''exact''" "xr_network r \<in> set (xo_allowed_networks opts)" "el_is_address E (xr_pay_to r)"
    and n: "and_then (is_expected_asset E (xr_asset r) (xo_expected_usdc opts)) (\<lambda>expected.
             if \<not> expected then Inl XE_VALIDATION_FAILED
             else if \<not> limit_format (xr_max_amount_required r) then Inl XE_VALIDATION_FAILED
             else
              and_then (from_option XE_uncaught (el_get_address E (xr_pay_to r))) (\<lambda>pay_to.
              and_then (from_option XE_uncaught (el_get_address E (xr_asset r))) (\<lambda>asset.
                Inr \<lparr> px_scheme = xr_scheme r, px_network = xr_network r,
                      px_amount = xr_max_amount_required r, px_pay_to = pay_to, px_asset = asset,
                      px_resource = xr_resource r \<rparr>))) = Inr p"
    using assms unfolding parse_requirement_def r by (simp_all split: if_splits)
  obtain e where e: "is_expected_asset E (xr_asset r) (xo_expected_usdc opts) = Inr e" "e"
    "limit_format (xr_max_amount_required r)"
    using n by (auto simp: and_then_Inr_iff split: if_splits)
  obtain a b where ab: "el_get_address E (xr_pay_to r) = Some a" "el_get_address E (xr_asset r) = Some b"
    using n e by (auto simp: and_then_Inr_iff)
  have "p = \<lparr> px_scheme = xr_scheme r, px_network = xr_network r, px_amount = xr_max_amount_required r,
      px_pay_to = a, px_asset = b, px_resource = xr_resource r \<rparr>"
    using n e ab by (simp add: from_option_def)
  moreover have "el_get_address E (xo_expected_usdc opts) = Some b"
    using e ab by (simp add: is_expected_asset_True)
  ultimately show ?thesis using c e ab by auto
qed

lemma to_execution_candidate_Inr:
  "to_execution_candidate E opts raw ctx = Inr c \<longleftrightarrow>
     (\<exists>p. parse_requirement E raw (xa_parse_options opts) = Inr p \<and> xc_parsed c = p
       \<and> xc_intent c = x402_intent p ctx \<and> xc_expectation c = x402_expectation p (xa_chain_id opts))"
  by (auto simp: to_execution_candidate_def and_then_Inr_iff)

text \<open>Under a well-formed configured token address every rejection is one of the parser's own errors.\<close>

lemma parse_requirement_no_throw:
  assumes "evm_laws E" and "el_is_address E (xo_expected_usdc opts)"
  shows "parse_requirement E raw opts \<noteq> Inl XE_uncaught"
proof -
  obtain u where u: "el_get_address E (xo_expected_usdc opts) = Some u"
    using evm_lawsD(4) [OF assms] by blast
  have "\<exists>b. is_expected_asset E a (xo_expected_usdc opts) = Inr b" for a
    using evm_lawsD(4) [OF assms(1), of a] u by (auto simp: is_expected_asset_def from_option_def)
  then have asset: "is_expected_asset E a (xo_expected_usdc opts) \<noteq> Inl e" for a e by (metis sum.simps(4))
  have pay: "el_is_address E a \<Longrightarrow> \<exists>y. el_get_address E a = Some y" for a
    using evm_lawsD(4) [OF assms(1), of a] .
  have "is_expected_asset E a (xo_expected_usdc opts) = Inr True \<Longrightarrow> \<exists>y. el_get_address E a = Some y" for a
    by (auto simp: is_expected_asset_True)
  with asset pay show ?thesis
    by (cases raw) (auto simp: parse_requirement_def and_then_Inl_iff)
qed

text \<open>
  The candidate is coherent: the transaction built from its intent passes the validator against
  its own expectation, exactly when the adapter was configured with the chain id of the network.
\<close>

lemma candidate_validates:
  assumes "evm_laws E" and "to_execution_candidate E opts raw ctx = Inr c"
    and "build E G (xc_intent c) bctx now = Inr tx" and "check E G tx (xc_expectation c) = Inr v"
    and "usdc G (px_network (xc_parsed c)) = Inr token"
    and "get_by_network G (px_network (xc_parsed c)) = Inr chain" and "ad_symbol token = ''USDC''"
  shows "vl_ok v \<longleftrightarrow> xa_chain_id opts = cf_chain_id chain"
proof -
  obtain p where p: "parse_requirement E raw (xa_parse_options opts) = Inr p" "xc_parsed c = p"
    "xc_intent c = x402_intent p ctx" "xc_expectation c = x402_expectation p (xa_chain_id opts)"
    using assms(2) unfolding to_execution_candidate_Inr by blast
  obtain a where "el_get_address E a = Some (px_pay_to p)" using parse_requirement_Inr [OF p(1)] by blast
  then have "el_get_address E (px_pay_to p) = Some (px_pay_to p)" "el_is_address E (px_pay_to p)"
    using evm_lawsD(1,2) [OF assms(1)] by blast+
  then show ?thesis
    using built_checked [OF assms(1,3,4), of token chain] assms(5,6,7) p
    by (simp add: x402_intent_def x402_expectation_def)
qed

lemma settle_requests_authorized:
  assumes "facilitator_settle transport payload token = (r, qs)" and "q \<in> set qs"
  shows "\<exists>t. token = Some t \<and> t \<noteq> [] \<and> q = \<lparr> sq_payload = payload, sq_authorization = t \<rparr>"
  using assms by (auto simp: facilitator_settle_def Let_def truthy_def split: if_splits option.splits)

lemma verify_settlement_iff:
  "fst (verify_settlement c s) \<longleftrightarrow> se_settled s \<and> truthy (se_transaction_hash s)
     \<and> (truthy (se_network s) \<longrightarrow> se_network s = Some (px_network (xc_parsed c)))"
  by (auto simp: verify_settlement_def Let_def truthy_def split: option.splits)

text \<open>
  What the settlement check does not look at: its verdict depends on the candidate through the
  network only, so that a settlement to another recipient or of another amount passes as well.
\<close>

lemma verify_settlement_ignores_recipient:
  "px_network (xc_parsed c) = px_network (xc_parsed d) \<Longrightarrow> verify_settlement c s = verify_settlement d s"
  by (simp add: verify_settlement_def)

section \<open>Samples\<close>

definition sample_requirement :: x402_requirement where
  "sample_requirement = \<lparr> xr_scheme = ''exact'', xr_network = ''base-sepolia'', xr_max_amount_required = ''5.25'',
     xr_pay_to = ''0xbob'', xr_asset = ''0xusdc'', xr_resource = None \<rparr>"

definition sample_x402_options :: x402_adapter_options where
  "sample_x402_options = \<lparr> xa_parse_options = \<lparr> xo_allowed_networks = [''base-sepolia''],
     xo_expected_usdc = ''0xusdc'' \<rparr>, xa_chain_id = 84532, xa_decimals = 6 \<rparr>"

definition sample_x402_context :: x402_context where
  "sample_x402_context = \<lparr> xx_proposal_id = ''p1'', xx_transaction_id = ''t1'' \<rparr>"

definition sample_parsed_x402 :: parsed_x402 where
  "sample_parsed_x402 = \<lparr> px_scheme = ''exact'', px_network = ''base-sepolia'', px_amount = ''5.25'',
     px_pay_to = ''0xbob'', px_asset = ''0xusdc'', px_resource = None \<rparr>"

definition sample_candidate :: x402_execution_candidate where
  "sample_candidate = \<lparr> xc_parsed = sample_parsed_x402,
     xc_intent = x402_intent sample_parsed_x402 sample_x402_context,
     xc_expectation = x402_expectation sample_parsed_x402 84532 \<rparr>"

lemma sample_candidate_made:
  "to_execution_candidate sample_evm sample_x402_options (Some sample_requirement) sample_x402_context
     = Inr sample_candidate"
proof -
  have "limit_format ''5.25''" by (simp add: base_units_eval)
  then show ?thesis
    by (simp add: to_execution_candidate_def parse_requirement_def is_expected_asset_def sample_x402_options_def
        sample_requirement_def sample_candidate_def sample_parsed_x402_def sample_evm_def sample_lower from_option_def)
qed

lemma sample_candidate_built:
  "build sample_evm sample_registry (xc_intent sample_candidate) sample_build_context ''now'' = Inr sample_tx_request"
proof -
  have "show_int 5250000 = ''5250000''" by (simp add: show_int_def show_nat.simps digit_char_def char_of_def bit_Suc_0_iff)
  then show ?thesis
    by (simp add: sample_lower build_def sample_candidate_def x402_intent_def sample_parsed_x402_def sample_x402_context_def
        sample_build_context_def sample_tx_request_def chain_eval require_address_def sample_evm_def sample_units TRANSFER_SELECTOR_def)
qed

lemma sample_candidate_checked:
  "check sample_evm sample_registry sample_tx_request (xc_expectation sample_candidate)
     = Inr \<lparr> vl_ok = True, vl_discrepancies = [] \<rparr>"
proof -
  have "xc_expectation sample_candidate = sample_expectation ''5.25''"
    by (simp add: sample_candidate_def x402_expectation_def sample_parsed_x402_def sample_expectation_def)
  then show ?thesis by (simp add: check_eval)
qed

section \<open>Properties\<close>

text \<open>
  An x402 requirement becomes a candidate that is coherent with the rest of the rail: built and
  checked against its own expectation it passes, exactly when the adapter carries the chain id
  of the network; the requirement had an allow-listed network, the expected token and an exact amount.
\<close>

theorem x402_candidate_is_executable:
  assumes "evm_laws E" and "to_execution_candidate E opts raw ctx = Inr c"
    and "build E G (xc_intent c) bctx now = Inr tx" and "check E G tx (xc_expectation c) = Inr v"
    and "usdc G (px_network (xc_parsed c)) = Inr token"
    and "get_by_network G (px_network (xc_parsed c)) = Inr chain" and "ad_symbol token = ''USDC''"
  shows "(vl_ok v \<longleftrightarrow> xa_chain_id opts = cf_chain_id chain)
     \<and> px_network (xc_parsed c) \<in> set (xo_allowed_networks (xa_parse_options opts))
     \<and> el_get_address E (xo_expected_usdc (xa_parse_options opts)) = Some (px_asset (xc_parsed c))
     \<and> limit_format (ti_amount (xc_intent c))"
proof -
  have "px_network (xc_parsed c) \<in> set (xo_allowed_networks (xa_parse_options opts))
     \<and> el_get_address E (xo_expected_usdc (xa_parse_options opts)) = Some (px_asset (xc_parsed c))
     \<and> limit_format (ti_amount (xc_intent c))"
    using assms(2) by (auto simp: to_execution_candidate_Inr x402_intent_def dest!: parse_requirement_Inr)
  then show ?thesis using candidate_validates [OF assms] by blast
qed

text \<open>
  The facilitator is never called without a non-empty authorization token of Core, and the one
  request of a settlement carries that token and the payload unchanged.
\<close>

theorem x402_never_bypasses_core:
  "facilitator_settle transport payload token = (r, qs) \<Longrightarrow> q \<in> set qs \<Longrightarrow>
     token = Some (sq_authorization q) \<and> sq_authorization q \<noteq> [] \<and> sq_payload q = payload"
  by (drule (1) settle_requests_authorized) auto

theorem x402_candidate_is_executable_witness:
  "\<exists>c v. to_execution_candidate sample_evm sample_x402_options (Some sample_requirement) sample_x402_context = Inr c
     \<and> check sample_evm sample_registry sample_tx_request (xc_expectation c) = Inr v \<and> vl_ok v
     \<and> limit_format (ti_amount (xc_intent c))"
proof -
  let ?t = "\<lparr> ad_symbol = ''USDC'', ad_address = Some ''0xusdc'', ad_decimals = 6 \<rparr>"
  have n: "px_network (xc_parsed sample_candidate) = ''base-sepolia''"
    by (simp add: sample_candidate_def sample_parsed_x402_def)
  have u: "usdc sample_registry (px_network (xc_parsed sample_candidate)) = Inr ?t"
    unfolding n by (rule sample_usdc)
  have "\<exists>c. get_by_network sample_registry ''base-sepolia'' = Inr c \<and> cf_chain_id c = 84532"
    by (simp add: chain_eval)
  then obtain c where g: "get_by_network sample_registry (px_network (xc_parsed sample_candidate)) = Inr c"
    and id: "cf_chain_id c = 84532" unfolding n by blast
  have "xa_chain_id sample_x402_options = cf_chain_id c" by (simp add: sample_x402_options_def id)
  then have "vl_ok \<lparr> vl_ok = True, vl_discrepancies = [] \<rparr> \<and> limit_format (ti_amount (xc_intent sample_candidate))"
    using x402_candidate_is_executable [OF sample_evm_laws sample_candidate_made sample_candidate_built
      sample_candidate_checked u g] by simp
  with sample_candidate_made sample_candidate_checked show ?thesis by blast
qed

theorem x402_never_bypasses_core_witness:
  "\<exists>r q. facilitator_settle (\<lambda>q. None) JNull (Some ''tok'') = (r, [q]) \<and> sq_authorization q = ''tok''"
proof -
  let ?q = "\<lparr> sq_payload = JNull, sq_authorization = ''tok'' \<rparr>"
  have e: "facilitator_settle (\<lambda>q. None) JNull (Some ''tok'') = (Inl XE_uncaught, [?q])"
    by (simp add: facilitator_settle_def)
  show ?thesis using x402_never_bypasses_core [OF e, of ?q] e by auto
qed

end
