(* ===== verification/Smart_Account.thy ===== *)
theory Smart_Account
  imports Receipts Core_Config
begin

text \<open>
  The ERC-4337 rail (Blockchain/src/smart-account): building a user operation, its wire form, the
  bundler client and the adapter's lifecycle. Parameters: the ABI encoding of the account's
  \<open>execute\<close>, the hash to sign, the isolated signer and the answers of the bundler (\<open>None\<close>
  or \<open>Inl\<close> is an exception). A bigint is an \<open>int\<close>; \<open>BigInt(s)\<close> and
  \<open>toString(16)\<close> are written out. The adapter returns the operations it handed to the
  bundler beside its result.
\<close>

section \<open>Big integers as text\<close>

fun show_hex :: "nat \<Rightarrow> string" where
  "show_hex n = (if n < 16 then [hex_char n] else show_hex (n div 16) @ [hex_char (n mod 16)])"

declare show_hex.simps [simp del]

definition hex_quantity :: "int \<Rightarrow> string" where
  "hex_quantity v = ''0x'' @ (if v < 0 then CHR ''-'' # show_hex (nat (- v)) else show_hex (nat v))"

definition radix_value :: "nat \<Rightarrow> string \<Rightarrow> nat" where
  "radix_value base s = foldl (\<lambda>n c. n * base + the (radix_digit base c)) 0 s"

definition radix_integer :: "nat \<Rightarrow> string \<Rightarrow> int option" where
  "radix_integer base s =
     (if s \<noteq> [] \<and> list_all (\<lambda>c. radix_digit base c \<noteq> None) s then Some (int (radix_value base s)) else None)"

definition big_int :: "string \<Rightarrow> int option" where
  "big_int s =
     (let t = trim s; radix = to_lower (take 2 t)
      in if t = [] then Some 0
         else if radix = ''0x'' then radix_integer 16 (drop 2 t)
         else if radix = ''0o'' then radix_integer 8 (drop 2 t)
         else if radix = ''0b'' then radix_integer 2 (drop 2 t)
         else signed_digits t)"

section \<open>User operations\<close>

record user_operation =
  uo_sender :: string
  uo_nonce :: int
  uo_call_data :: string
  uo_call_gas_limit :: int
  uo_verification_gas_limit :: int
  uo_pre_verification_gas :: int
  uo_max_fee_per_gas :: int
  uo_max_priority_fee_per_gas :: int
  uo_paymaster :: "string option"
  uo_signature :: string

record user_op_gas =
  ug_call_gas_limit :: int
  ug_verification_gas_limit :: int
  ug_pre_verification_gas :: int
  ug_max_fee_per_gas :: int
  ug_max_priority_fee_per_gas :: int

record build_user_op_params =
  up_sender :: string
  up_nonce :: int
  up_token :: string
  up_recipient :: string
  up_amount_units :: int
  up_gas :: user_op_gas

type_synonym encode_execute = "string \<Rightarrow> int \<Rightarrow> string \<Rightarrow> string option"

definition build_user_op ::
    "evm_lib \<Rightarrow> encode_execute \<Rightarrow> build_user_op_params \<Rightarrow> execution_error + user_operation" where
  "build_user_op E encode_execute p =
     and_then (from_option XE_uncaught (el_encode_transfer E (up_recipient p) (up_amount_units p))) (\<lambda>transfer_data.
     and_then (from_option XE_uncaught (encode_execute (up_token p) 0 transfer_data)) (\<lambda>call_data.
       Inr \<lparr> uo_sender = up_sender p, uo_nonce = up_nonce p, uo_call_data = call_data,
             uo_call_gas_limit = ug_call_gas_limit (up_gas p),
             uo_verification_gas_limit = ug_verification_gas_limit (up_gas p),
             uo_pre_verification_gas = ug_pre_verification_gas (up_gas p),
             uo_max_fee_per_gas = ug_max_fee_per_gas (up_gas p),
             uo_max_priority_fee_per_gas = ug_max_priority_fee_per_gas (up_gas p),
             uo_paymaster = None, uo_signature = ''0x'' \<rparr>))"

section \<open>Bundler\<close>

type_synonym rpc_user_op = "(string \<times> string) list"

definition to_rpc_user_op :: "user_operation \<Rightarrow> rpc_user_op" where
  "to_rpc_user_op u =
     [(''sender'', uo_sender u), (''nonce'', hex_quantity (uo_nonce u)), (''callData'', uo_call_data u),
      (''callGasLimit'', hex_quantity (uo_call_gas_limit u)),
      (''verificationGasLimit'', hex_quantity (uo_verification_gas_limit u)),
      (''preVerificationGas'', hex_quantity (uo_pre_verification_gas u)),
      (''maxFeePerGas'', hex_quantity (uo_max_fee_per_gas u)),
      (''maxPriorityFeePerGas'', hex_quantity (uo_max_priority_fee_per_gas u)),
      (''signature'', uo_signature u)]"

record gas_answer =
  ga_call_gas_limit :: string
  ga_verification_gas_limit :: string
  ga_pre_verification_gas :: string

record user_op_answer =
  ua_success :: bool
  ua_transaction_hash :: "string option"

record user_op_receipt =
  ur_user_op_hash :: string
  ur_success :: bool
  ur_transaction_hash :: "string option"

text \<open>
  What the transport answers to each method; a receipt is looked up repeatedly, \<open>k\<close> numbers
  the lookups.
\<close>

record bundler_transport =
  bt_estimate :: "rpc_user_op \<Rightarrow> string \<Rightarrow> gas_answer option"
  bt_send :: "rpc_user_op \<Rightarrow> string \<Rightarrow> execution_error + string"
  bt_receipt :: "nat \<Rightarrow> string \<Rightarrow> execution_error + user_op_answer option"
  bt_nonce :: "string \<Rightarrow> string \<Rightarrow> execution_error + string"

datatype bundler_message = Msg_estimate rpc_user_op string | Msg_send rpc_user_op string

definition estimate_user_operation_gas ::
    "bundler_transport \<Rightarrow> string \<Rightarrow> user_operation \<Rightarrow> (int \<times> int \<times> int) option" where
  "estimate_user_operation_gas T entry_point u =
     Option.bind (bt_estimate T (to_rpc_user_op u) entry_point) (\<lambda>a.
     Option.bind (big_int (ga_call_gas_limit a)) (\<lambda>c.
     Option.bind (big_int (ga_verification_gas_limit a)) (\<lambda>v.
     Option.bind (big_int (ga_pre_verification_gas a)) (\<lambda>p. Some (c, v, p)))))"

definition send_user_operation ::
    "bundler_transport \<Rightarrow> string \<Rightarrow> user_operation \<Rightarrow> (execution_error + string) \<times> bundler_message list" where
  "send_user_operation T entry_point u =
     (if uo_signature u = [] \<or> uo_signature u = ''0x'' then (Inl XE_SUBMISSION_FAILED, [])
      else (bt_send T (to_rpc_user_op u) entry_point, [Msg_send (to_rpc_user_op u) entry_point]))"

definition get_user_operation_receipt ::
    "bundler_transport \<Rightarrow> string \<Rightarrow> nat \<Rightarrow> execution_error + user_op_receipt option" where
  "get_user_operation_receipt T hash k =
     and_then (bt_receipt T k hash) (\<lambda>res. case res of
        None \<Rightarrow> Inr None
      | Some a \<Rightarrow> Inr (Some \<lparr> ur_user_op_hash = hash, ur_success = ua_success a,
          ur_transaction_hash = (if truthy (ua_transaction_hash a) then ua_transaction_hash a else None) \<rparr>))"

definition get_nonce :: "bundler_transport \<Rightarrow> string \<Rightarrow> int \<Rightarrow> execution_error + int" where
  "get_nonce T sender key =
     and_then (bt_nonce T sender (hex_quantity key)) (\<lambda>res. from_option XE_uncaught (big_int res))"

section \<open>Adapter\<close>

record user_op_signer =
  us_owner_address :: string
  us_sign :: "string \<Rightarrow> execution_error + string"

record smart_account_params =
  sp_smart_account :: string
  sp_token :: string
  sp_recipient :: string
  sp_amount_units :: int
  sp_max_fee_per_gas :: int
  sp_max_priority_fee_per_gas :: int
  sp_compute_user_op_hash :: "user_operation \<Rightarrow> string"

record smart_account_result =
  sx_user_op_hash :: string
  sx_transaction_hash :: "string option"
  sx_success :: bool
  sx_status :: execution_status

text \<open>Steps 1 to 3: nonce, placeholder operation, gas, signature.\<close>

definition unsigned_user_op ::
    "evm_lib \<Rightarrow> encode_execute \<Rightarrow> bundler_transport \<Rightarrow> smart_account_params \<Rightarrow> execution_error + user_operation" where
  "unsigned_user_op E encode_execute T p =
     and_then (from_option XE_uncaught (el_get_address E (sp_smart_account p))) (\<lambda>sender.
     and_then (get_nonce T sender 0) (\<lambda>nonce.
       build_user_op E encode_execute
         \<lparr> up_sender = sender, up_nonce = nonce, up_token = sp_token p, up_recipient = sp_recipient p,
           up_amount_units = sp_amount_units p,
           up_gas = \<lparr> ug_call_gas_limit = 200000, ug_verification_gas_limit = 200000,
             ug_pre_verification_gas = 60000, ug_max_fee_per_gas = sp_max_fee_per_gas p,
             ug_max_priority_fee_per_gas = sp_max_priority_fee_per_gas p \<rparr> \<rparr>))"

definition with_gas :: "user_operation \<Rightarrow> int \<times> int \<times> int \<Rightarrow> user_operation" where
  "with_gas u est = (case est of (c, v, p) \<Rightarrow>
     u\<lparr>uo_call_gas_limit := c, uo_verification_gas_limit := v, uo_pre_verification_gas := p\<rparr>)"

definition signed_user_op ::
    "user_op_signer \<Rightarrow> smart_account_params \<Rightarrow> user_operation \<Rightarrow> execution_error + user_operation" where
  "signed_user_op S p u =
     and_then (us_sign S (sp_compute_user_op_hash p u)) (\<lambda>signature. Inr (u\<lparr>uo_signature := signature\<rparr>))"

text \<open>Step 5, over the clock readings of its loop.\<close>

definition await_receipt ::
    "bundler_transport \<Rightarrow> (nat \<Rightarrow> int) \<Rightarrow> int \<Rightarrow> string \<Rightarrow> (execution_error + smart_account_result) option" where
  "await_receipt T clock deadline sent_hash =
     map_option (\<lambda>r. case r of
        Inl e \<Rightarrow> Inl e
      | Inr (Some receipt) \<Rightarrow>
          Inr \<lparr> sx_user_op_hash = sent_hash, sx_transaction_hash = ur_transaction_hash receipt,
                sx_success = ur_success receipt,
                sx_status = (if ur_success receipt then EX_CONFIRMED else EX_FAILED) \<rparr>
      | Inr None \<Rightarrow>
          Inr \<lparr> sx_user_op_hash = sent_hash, sx_transaction_hash = None, sx_success = False,
                sx_status = EX_UNKNOWN \<rparr>)
      (poll_until clock (get_user_operation_receipt T sent_hash) deadline 0)"

definition smart_account_execute ::
    "evm_lib \<Rightarrow> encode_execute \<Rightarrow> bundler_transport \<Rightarrow> string \<Rightarrow> user_op_signer \<Rightarrow> smart_account_params \<Rightarrow>
     (nat \<Rightarrow> int) \<Rightarrow> int \<Rightarrow> int \<Rightarrow> (execution_error + smart_account_result) option \<times> bundler_message list" where
  "smart_account_execute E encode_execute T entry_point S p clock now timeout_ms =
     (case unsigned_user_op E encode_execute T p of
        Inl e \<Rightarrow> (Some (Inl e), [])
      | Inr u \<Rightarrow>
         (let estimated = [Msg_estimate (to_rpc_user_op u) entry_point]
          in (case estimate_user_operation_gas T entry_point u of
                None \<Rightarrow> (Some (Inl XE_SIMULATION_FAILED), estimated)
              | Some est \<Rightarrow>
                 (case signed_user_op S p (with_gas u est) of
                    Inl e \<Rightarrow> (Some (Inl e), estimated)
                  | Inr signed \<Rightarrow>
                     (case send_user_operation T entry_point signed of
                        (Inl e, sent) \<Rightarrow>
                          (Some (Inl (if e = XE_SUBMISSION_FAILED then XE_SUBMISSION_FAILED else XE_UNKNOWN)), estimated @ sent)
                      | (Inr sent_hash, sent) \<Rightarrow>
                          (await_receipt T clock (now + timeout_ms) sent_hash, estimated @ sent))))))"

section \<open>Lemmas\<close>

lemma radix_digit_hex: "n < 16 \<Longrightarrow> radix_digit 16 (hex_char n) = Some n \<and> \<not> is_space (hex_char n)"
proof -
  have "\<forall>n \<in> set [0..<16]. radix_digit 16 (hex_char n) = Some n \<and> \<not> is_space (hex_char n)"
    by (simp add: upt_rec hex_char_def radix_digit_def is_digit_def digit_value_def to_lower_char_def is_space_def
        char_of_def bit_Suc_0_iff)
  then show "n < 16 \<Longrightarrow> ?thesis" by simp
qed

lemma show_hex_digits: "c \<in> set (show_hex n) \<Longrightarrow> radix_digit 16 c \<noteq> None \<and> \<not> is_space c"
proof (induction n rule: show_hex.induct)
  case (1 n)
  then show ?case
    using radix_digit_hex [of n] radix_digit_hex [of "n mod 16"]
    by (cases "n < 16") (auto simp: show_hex.simps [of n])
qed

lemma show_hex_nonempty [simp]: "show_hex n \<noteq> []"
  by (simp add: show_hex.simps [of n])

lemma radix_value_show_hex [simp]: "radix_value 16 (show_hex n) = n"
proof (induction n rule: show_hex.induct)
  case (1 n)
  show ?case
  proof (cases "n < 16")
    case True
    then show ?thesis using radix_digit_hex [of n] by (simp add: show_hex.simps [of n] radix_value_def)
  next
    case False
    with 1 have "radix_value 16 (show_hex (n div 16)) = n div 16" by blast
    with False show ?thesis
      using radix_digit_hex [of "n mod 16"] by (simp add: show_hex.simps [of n] radix_value_def)
  qed
qed

text \<open>What the adapter writes as a quantity is read back as the same number.\<close>

lemma big_int_hex:
  assumes "0 \<le> v"
  shows "big_int (hex_quantity v) = Some v"
proof -
  let ?h = "show_hex (nat v)"
  have q: "hex_quantity v = CHR ''0'' # CHR ''x'' # ?h" using assms by (simp add: hex_quantity_def)
  have "\<not> is_space c" if "c \<in> set (hex_quantity v)" for c
    using that show_hex_digits [of c "nat v"] by (auto simp: q is_space_def)
  then have "trim (hex_quantity v) = hex_quantity v" by (rule trim_no_space)
  moreover have "to_lower ''0x'' = ''0x''"
    by (simp add: to_lower_def to_lower_char_def)
  moreover have "list_all (\<lambda>c. radix_digit 16 c \<noteq> None) ?h"
    using show_hex_digits by (auto simp: list_all_iff)
  ultimately show ?thesis
    using assms by (simp add: big_int_def q radix_integer_def numeral_2_eq_2)
qed

lemma hex_quantity_eq [simp]: "0 \<le> v \<Longrightarrow> 0 \<le> w \<Longrightarrow> hex_quantity v = hex_quantity w \<longleftrightarrow> v = w"
  by (metis big_int_hex option.inject)

definition quantities :: "user_operation \<Rightarrow> int list" where
  "quantities u = [uo_nonce u, uo_call_gas_limit u, uo_verification_gas_limit u, uo_pre_verification_gas u,
     uo_max_fee_per_gas u, uo_max_priority_fee_per_gas u]"

lemma to_rpc_user_op_inj:
  assumes "list_all (\<lambda>v. 0 \<le> v) (quantities u)" and "list_all (\<lambda>v. 0 \<le> v) (quantities w)"
    and "to_rpc_user_op u = to_rpc_user_op w"
  shows "u = w\<lparr>uo_paymaster := uo_paymaster u\<rparr>"
proof -
  have "uo_nonce u = uo_nonce w" "uo_call_gas_limit u = uo_call_gas_limit w"
    "uo_verification_gas_limit u = uo_verification_gas_limit w"
    "uo_pre_verification_gas u = uo_pre_verification_gas w" "uo_max_fee_per_gas u = uo_max_fee_per_gas w"
    "uo_max_priority_fee_per_gas u = uo_max_priority_fee_per_gas w"
    using assms by (simp_all add: to_rpc_user_op_def quantities_def)
  moreover have "uo_sender u = uo_sender w" "uo_call_data u = uo_call_data w" "uo_signature u = uo_signature w"
    using assms(3) by (simp_all add: to_rpc_user_op_def)
  ultimately show ?thesis by (cases u; cases w) simp
qed

lemma unsigned_user_op_Inr:
  assumes "unsigned_user_op E enc T p = Inr u"
  obtains data call where "el_encode_transfer E (sp_recipient p) (sp_amount_units p) = Some data"
    "enc (sp_token p) 0 data = Some call" "uo_call_data u = call"
    "el_get_address E (sp_smart_account p) = Some (uo_sender u)" "get_nonce T (uo_sender u) 0 = Inr (uo_nonce u)"
    "uo_signature u = ''0x''" "uo_paymaster u = None"
    "uo_max_fee_per_gas u = sp_max_fee_per_gas p" "uo_max_priority_fee_per_gas u = sp_max_priority_fee_per_gas p"
  using assms by (auto simp: unsigned_user_op_def build_user_op_def and_then_Inr_iff)

text \<open>
  The operation an execution authorizes: the unsigned one with the estimated gas; what is sent
  differs from it by the signature only.
\<close>

definition authorized_user_op ::
    "evm_lib \<Rightarrow> encode_execute \<Rightarrow> bundler_transport \<Rightarrow> string \<Rightarrow> smart_account_params \<Rightarrow> user_operation \<Rightarrow> bool" where
  "authorized_user_op E enc T entry_point p u \<longleftrightarrow>
     (\<exists>v est. unsigned_user_op E enc T p = Inr v
        \<and> estimate_user_operation_gas T entry_point v = Some est \<and> u = with_gas v est)"

lemma with_gas_sel [simp]:
  "uo_sender (with_gas u est) = uo_sender u" "uo_nonce (with_gas u est) = uo_nonce u"
  "uo_call_data (with_gas u est) = uo_call_data u" "uo_signature (with_gas u est) = uo_signature u"
  "uo_paymaster (with_gas u est) = uo_paymaster u"
  by (simp_all add: with_gas_def split: prod.splits)

lemma sent_signed:
  assumes "smart_account_execute E enc T ep S p clock now timeout = (r, ms)" and "Msg_send q ep' \<in> set ms"
  shows "\<exists>u signature. authorized_user_op E enc T ep p u
     \<and> us_sign S (sp_compute_user_op_hash p u) = Inr signature \<and> signature \<noteq> [] \<and> signature \<noteq> ''0x''
     \<and> q = to_rpc_user_op (u\<lparr>uo_signature := signature\<rparr>) \<and> ep' = ep
     \<and> filter (\<lambda>m. case m of Msg_send _ _ \<Rightarrow> True | _ \<Rightarrow> False) ms = [Msg_send q ep]"
proof (cases "unsigned_user_op E enc T p")
  case (Inl e)
  with assms show ?thesis by (simp add: smart_account_execute_def)
next
  case (Inr v)
  note v = this
  show ?thesis
  proof (cases "estimate_user_operation_gas T ep v")
    case None
    with assms v show ?thesis by (auto simp: smart_account_execute_def)
  next
    case (Some est)
    note est = this
    show ?thesis
    proof (cases "signed_user_op S p (with_gas v est)")
      case (Inl e)
      with assms v est show ?thesis by (auto simp: smart_account_execute_def)
    next
      case (Inr signed)
      then obtain signature where sg: "us_sign S (sp_compute_user_op_hash p (with_gas v est)) = Inr signature"
        "signed = (with_gas v est)\<lparr>uo_signature := signature\<rparr>"
        by (auto simp: signed_user_op_def and_then_Inr_iff)
      have ms: "ms = Msg_estimate (to_rpc_user_op v) ep # snd (send_user_operation T ep signed)"
        using assms(1) v est Inr by (auto simp: smart_account_execute_def Let_def split: prod.splits sum.splits)
      then have "Msg_send q ep' \<in> set (snd (send_user_operation T ep signed))" using assms(2) by auto
      then have "signature \<noteq> [] \<and> signature \<noteq> ''0x'' \<and> q = to_rpc_user_op signed \<and> ep' = ep
          \<and> snd (send_user_operation T ep signed) = [Msg_send q ep]"
        by (auto simp: send_user_operation_def sg(2) split: if_splits)
      moreover have "authorized_user_op E enc T ep p (with_gas v est)"
        using v est unfolding authorized_user_op_def by blast
      ultimately show ?thesis
        using sg ms by (intro exI [of _ "with_gas v est"] exI [of _ signature]) simp
    qed
  qed
qed

text \<open>
  The result once the bundler has accepted the operation: the first receipt before the deadline
  decides between CONFIRMED and FAILED, no receipt is UNKNOWN.
\<close>

lemma await_receipt_first:
  assumes "\<And>j. clock j < clock (Suc j)" and "now \<le> clock 0"
  shows "\<exists>r n. await_receipt T clock (now + timeout) h = Some r \<and> int n \<le> max 0 timeout
     \<and> (\<forall>a. r = Inr a \<longrightarrow>
          (sx_status a = EX_UNKNOWN \<longleftrightarrow> (\<forall>k. clock k < now + timeout \<longrightarrow> bt_receipt T k h = Inr None))
        \<and> (sx_status a = EX_CONFIRMED \<longleftrightarrow> (\<exists>w. clock n < now + timeout \<and> bt_receipt T n h = Inr (Some w) \<and> ua_success w))
        \<and> (sx_success a \<longleftrightarrow> sx_status a = EX_CONFIRMED) \<and> sx_user_op_hash a = h)"
proof -
  let ?ans = "get_user_operation_receipt T h" and ?d = "now + timeout"
  have "?d \<le> clock 0 + int (nat timeout)" using assms(2) by simp
  then obtain n r where n: "poll_until clock ?ans ?d 0 = Some r" "n \<le> nat timeout" "first_answer clock ?ans ?d 0 n r"
    using poll_until_first [of clock, OF assms(1)] by blast
  have mono: "i \<le> j \<Longrightarrow> clock i \<le> clock j" for i j
    using lift_Suc_mono_le [of clock] assms(1) by (meson less_imp_le)
  have pending: "?ans k = Inr None \<longleftrightarrow> bt_receipt T k h = Inr None" for k
    by (auto simp: get_user_operation_receipt_def and_then_Inr_iff split: option.splits)
  show ?thesis
  proof (cases "clock n < ?d")
    case True
    then have r: "?ans n = r" "r \<noteq> Inr None" using n(3) by (auto simp: first_answer_def)
    have un: "\<not> (\<forall>k. clock k < ?d \<longrightarrow> bt_receipt T k h = Inr None)" using True r pending by blast
    have "int n \<le> max 0 timeout" using n(2) by linarith
    moreover obtain x where x: "await_receipt T clock ?d h = Some x" using n(1) by (simp add: await_receipt_def)
    moreover have "\<forall>a. x = Inr a \<longrightarrow>
          (sx_status a = EX_UNKNOWN \<longleftrightarrow> (\<forall>k. clock k < ?d \<longrightarrow> bt_receipt T k h = Inr None))
        \<and> (sx_status a = EX_CONFIRMED \<longleftrightarrow> (\<exists>w. clock n < ?d \<and> bt_receipt T n h = Inr (Some w) \<and> ua_success w))
        \<and> (sx_success a \<longleftrightarrow> sx_status a = EX_CONFIRMED) \<and> sx_user_op_hash a = h"
    proof (cases "bt_receipt T n h")
      case (Inl e)
      then show ?thesis using x r n(1) by (auto simp: await_receipt_def get_user_operation_receipt_def)
    next
      case (Inr w)
      with r obtain w' where w: "bt_receipt T n h = Inr (Some w')"
        by (cases w) (auto simp: get_user_operation_receipt_def)
      then show ?thesis using x r n(1) un True
        by (auto simp: await_receipt_def get_user_operation_receipt_def split: if_splits)
    qed
    ultimately show ?thesis by blast
  next
    case False
    then have r: "r = Inr None" using n(3) by (auto simp: first_answer_def)
    have "bt_receipt T k h = Inr None" if "clock k < ?d" for k
    proof -
      have "k < n" using that False mono [of n k] by (meson leD linorder_not_less order_less_le_trans)
      then show ?thesis using n(3) pending by (auto simp: first_answer_def)
    qed
    moreover have "int n \<le> max 0 timeout" using n(2) by linarith
    ultimately show ?thesis using False r n(1) by (intro exI exI [of _ n]) (auto simp: await_receipt_def)
  qed
qed

section \<open>Samples\<close>

definition sample_bundler :: bundler_transport where
  "sample_bundler = \<lparr> bt_estimate = (\<lambda>_ _. Some \<lparr> ga_call_gas_limit = hex_quantity 90000,
       ga_verification_gas_limit = hex_quantity 80000, ga_pre_verification_gas = hex_quantity 50000 \<rparr>),
     bt_send = (\<lambda>_ _. Inr ''0xop''), bt_receipt = (\<lambda>k _. Inr (if k = 0 then None
       else Some \<lparr> ua_success = True, ua_transaction_hash = Some ''0xtx'' \<rparr>)),
     bt_nonce = (\<lambda>_ _. Inr (hex_quantity 7)) \<rparr>"

definition sample_signer :: user_op_signer where
  "sample_signer = \<lparr> us_owner_address = ''0xowner'', us_sign = (\<lambda>h. Inr (''0xsig:'' @ h)) \<rparr>"

definition sample_account_params :: smart_account_params where
  "sample_account_params = \<lparr> sp_smart_account = ''0xme'', sp_token = ''0xusdc'', sp_recipient = ''0xbob'',
     sp_amount_units = 5250000, sp_max_fee_per_gas = 20, sp_max_priority_fee_per_gas = 2,
     sp_compute_user_op_hash = uo_call_data \<rparr>"

definition sample_encode_execute :: encode_execute where
  "sample_encode_execute token value data = Some (''0xb61d27f6'' @ token @ data)"

lemmas account_eval = unsigned_user_op_def build_user_op_def get_nonce_def big_int_hex sample_bundler_def
  sample_account_params_def sample_encode_execute_def sample_evm_def sample_lower from_option_def

lemma sample_unsigned: "\<exists>u. unsigned_user_op sample_evm sample_encode_execute sample_bundler sample_account_params = Inr u"
  by (simp add: account_eval)

lemma sample_estimated: "estimate_user_operation_gas sample_bundler ep u = Some (90000, 80000, 50000)"
  by (simp add: estimate_user_operation_gas_def sample_bundler_def big_int_hex)

lemma sample_signed:
  "signed_user_op sample_signer sample_account_params u = Inr (u\<lparr>uo_signature := ''0xsig:'' @ uo_call_data u\<rparr>)"
  by (simp add: signed_user_op_def sample_signer_def sample_account_params_def)

lemma sample_account_execute:
  "\<exists>q. smart_account_execute sample_evm sample_encode_execute sample_bundler ep sample_signer sample_account_params clock now t
     = (await_receipt sample_bundler clock (now + t) ''0xop'', [q, Msg_send (to_rpc_user_op
         ((with_gas u (90000, 80000, 50000))\<lparr>uo_signature := ''0xsig:'' @ uo_call_data u\<rparr>)) ep])"
  if "unsigned_user_op sample_evm sample_encode_execute sample_bundler sample_account_params = Inr u"
  using that
  by (simp add: smart_account_execute_def sample_estimated sample_signed send_user_operation_def)
    (simp add: sample_bundler_def)

section \<open>Properties\<close>

text \<open>
  C18: What a smart account execution hands to the bundler for inclusion is one operation, signed by
  the isolated signer over the hash of exactly that operation with its placeholder signature: it
  calls, from the account, the transfer of the authorized amount to the authorized recipient on
  the authorized token with no native value, and nothing unsigned is ever sent.
\<close>

theorem smart_account_sends_authorized:
  assumes "smart_account_execute E enc T ep S p clock now timeout = (r, ms)" and "Msg_send q ep' \<in> set ms"
  shows "\<exists>u signature data. authorized_user_op E enc T ep p u
     \<and> el_encode_transfer E (sp_recipient p) (sp_amount_units p) = Some data
     \<and> enc (sp_token p) 0 data = Some (uo_call_data u)
     \<and> el_get_address E (sp_smart_account p) = Some (uo_sender u)
     \<and> us_sign S (sp_compute_user_op_hash p u) = Inr signature \<and> signature \<noteq> [] \<and> signature \<noteq> ''0x''
     \<and> q = to_rpc_user_op (u\<lparr>uo_signature := signature\<rparr>) \<and> ep' = ep
     \<and> filter (\<lambda>m. case m of Msg_send _ _ \<Rightarrow> True | _ \<Rightarrow> False) ms = [Msg_send q ep]"
proof -
  obtain u signature where u: "authorized_user_op E enc T ep p u"
    "us_sign S (sp_compute_user_op_hash p u) = Inr signature" "signature \<noteq> []" "signature \<noteq> ''0x''"
    "q = to_rpc_user_op (u\<lparr>uo_signature := signature\<rparr>)" "ep' = ep"
    "filter (\<lambda>m. case m of Msg_send _ _ \<Rightarrow> True | _ \<Rightarrow> False) ms = [Msg_send q ep]"
    using sent_signed [OF assms] by blast
  obtain v est where v: "unsigned_user_op E enc T p = Inr v" "u = with_gas v est"
    using u(1) unfolding authorized_user_op_def by blast
  obtain data where "el_encode_transfer E (sp_recipient p) (sp_amount_units p) = Some data"
    "enc (sp_token p) 0 data = Some (uo_call_data v)" "el_get_address E (sp_smart_account p) = Some (uo_sender v)"
    using unsigned_user_op_Inr [OF v(1)] by metis
  with u v(2) show ?thesis by (intro exI [of _ u] exI [of _ signature] exI [of _ data]) simp
qed

theorem smart_account_sends_authorized_witness:
  "\<exists>r ms q u. smart_account_execute sample_evm sample_encode_execute sample_bundler ''0xep'' sample_signer
       sample_account_params int 0 1000 = (r, ms)
     \<and> Msg_send q ''0xep'' \<in> set ms \<and> authorized_user_op sample_evm sample_encode_execute sample_bundler ''0xep''
       sample_account_params u"
proof -
  obtain u where u: "unsigned_user_op sample_evm sample_encode_execute sample_bundler sample_account_params = Inr u"
    using sample_unsigned by blast
  obtain q where q: "smart_account_execute sample_evm sample_encode_execute sample_bundler ''0xep'' sample_signer
      sample_account_params int 0 1000 = (await_receipt sample_bundler int (0 + 1000) ''0xop'', [q, Msg_send (to_rpc_user_op
         ((with_gas u (90000, 80000, 50000))\<lparr>uo_signature := ''0xsig:'' @ uo_call_data u\<rparr>)) ''0xep''])"
    using sample_account_execute [OF u] by blast
  show ?thesis using smart_account_sends_authorized [OF q] q by fastforce
qed

text \<open>
  The wire form of a user operation is injective on non-negative quantities: the bundler can
  read back every field, except the paymaster, which is never sent.
\<close>

theorem user_op_wire_injective:
  assumes "list_all (\<lambda>v. 0 \<le> v) (quantities u)" and "list_all (\<lambda>v. 0 \<le> v) (quantities w)"
    and "to_rpc_user_op u = to_rpc_user_op w"
  shows "u = w\<lparr>uo_paymaster := uo_paymaster u\<rparr>"
  by (rule to_rpc_user_op_inj [OF assms])

text \<open>
  Once the bundler has accepted an operation the execution returns, after at most one lookup per
  millisecond: UNKNOWN exactly when no lookup before the deadline had a receipt, CONFIRMED exactly
  when the deciding receipt reports success. Uncertainty is never reported as a failure.
\<close>

theorem smart_account_outcome:
  assumes "\<And>j. clock j < clock (Suc j)" and "now \<le> clock 0"
  shows "\<exists>r n. await_receipt T clock (now + timeout) h = Some r \<and> int n \<le> max 0 timeout
     \<and> (\<forall>a. r = Inr a \<longrightarrow>
          (sx_status a = EX_UNKNOWN \<longleftrightarrow> (\<forall>k. clock k < now + timeout \<longrightarrow> bt_receipt T k h = Inr None))
        \<and> (sx_status a = EX_CONFIRMED \<longleftrightarrow> (\<exists>w. clock n < now + timeout \<and> bt_receipt T n h = Inr (Some w) \<and> ua_success w))
        \<and> (sx_success a \<longleftrightarrow> sx_status a = EX_CONFIRMED) \<and> sx_user_op_hash a = h)"
  by (rule await_receipt_first [of clock, OF assms])

theorem smart_account_outcome_witness:
  "\<exists>r. await_receipt sample_bundler int (0 + 1000) ''0xop'' = Some r"
  using smart_account_outcome [of int 0 sample_bundler 1000 "''0xop''"] by (simp add: strict_monoI) blast

end
