(* ===== verification/Secret_Redaction.thy ===== *)
theory Secret_Redaction
  imports Canonical_Json "HOL-Library.Sublist"
begin

text \<open>
  The signer-isolation guard of the execution boundary (Blockchain/src/shared/redaction.ts): keys
  with a secret-looking name and texts that look like a raw private key are redacted before
  anything is logged. The guard's global regular expression keeps its \<open>lastIndex\<close> between
  calls of \<open>test\<close>; that index is the state of \<open>contains_raw_secret\<close>.
\<close>

section \<open>Raw keys in a text\<close>

definition is_hex_digit :: "char \<Rightarrow> bool" where
  "is_hex_digit c \<longleftrightarrow> is_digit c \<or> (97 \<le> (of_char c :: nat) \<and> (of_char c :: nat) \<le> 102)
     \<or> (65 \<le> (of_char c :: nat) \<and> (of_char c :: nat) \<le> 70)"

text \<open>\<open>0x[0-9a-fA-F]{64}\<close> at the start of a text, and as the whole text.\<close>

definition raw_key_at :: "string \<Rightarrow> bool" where
  "raw_key_at s \<longleftrightarrow> take 2 s = ''0x'' \<and> 66 \<le> length s \<and> list_all is_hex_digit (take 64 (drop 2 s))"

definition bytes32_hex :: "string \<Rightarrow> bool" where
  "bytes32_hex s \<longleftrightarrow> raw_key_at s \<and> length s = 66"

definition REDACTED :: string where "REDACTED = ''[REDACTED]''"

text \<open>\<open>replace\<close> with the global expression: leftmost matches, none overlapping.\<close>

function redact_text :: "string \<Rightarrow> string" where
  "redact_text s =
     (if raw_key_at s then REDACTED @ redact_text (drop 66 s)
      else (case s of [] \<Rightarrow> [] | c # t \<Rightarrow> c # redact_text t))"
  by auto
termination
  by (relation "measure length") (auto simp: raw_key_at_def)

declare redact_text.simps [simp del]

text \<open>The index of the first match, and \<open>test\<close> from \<open>lastIndex\<close>, which it updates.\<close>

fun find_raw_key :: "string \<Rightarrow> nat option" where
  "find_raw_key s =
     (if raw_key_at s then Some 0
      else (case s of [] \<Rightarrow> None | c # t \<Rightarrow> map_option Suc (find_raw_key t)))"

declare find_raw_key.simps [simp del]

definition regex_test :: "nat \<Rightarrow> string \<Rightarrow> bool \<times> nat" where
  "regex_test last_index s =
     (if last_index > length s then (False, 0)
      else (case find_raw_key (drop last_index s) of
              None \<Rightarrow> (False, 0)
            | Some i \<Rightarrow> (True, last_index + i + 66)))"

section \<open>The guard\<close>

definition SECRET_WORDS :: "string list" where
  "SECRET_WORDS = [''private_key'', ''private-key'', ''privatekey'', ''privkey'', ''signer_key'', ''signer-key'',
     ''signerkey'', ''mnemonic'', ''seed_phrase'', ''seed-phrase'', ''seedphrase'', ''secret'']"

definition secret_key_name :: "string \<Rightarrow> bool" where
  "secret_key_name k \<longleftrightarrow> list_ex (\<lambda>w. sublist w (to_lower k)) SECRET_WORDS"

primrec redact_secrets :: "json \<Rightarrow> json" where
  "redact_secrets (JStr s) = JStr (redact_text s)"
| "redact_secrets (JArr xs) = JArr (map redact_secrets xs)"
| "redact_secrets (JObj kvs) =
     JObj (map (\<lambda>(k, r). (k, if secret_key_name k then JStr REDACTED else r)) (map (map_prod id redact_secrets) kvs))"
| "redact_secrets JNull = JNull"
| "redact_secrets (JBool b) = JBool b"
| "redact_secrets (JNum i) = JNum i"

definition guarded_text :: "json \<Rightarrow> string" where
  "guarded_text v = (case v of JStr s \<Rightarrow> s | JNull \<Rightarrow> stringify (JStr []) | _ \<Rightarrow> stringify v)"

definition contains_raw_secret :: "nat \<Rightarrow> json \<Rightarrow> bool \<times> nat" where
  "contains_raw_secret last_index v = regex_test last_index (guarded_text v)"

section \<open>Lemmas\<close>

lemma find_raw_key_Some: "find_raw_key s = Some i \<Longrightarrow> i + 66 \<le> length s \<and> raw_key_at (drop i s)"
proof (induction s arbitrary: i)
  case Nil
  then show ?case by (simp add: find_raw_key.simps raw_key_at_def)
next
  case (Cons c t)
  then show ?case
    by (subst (asm) find_raw_key.simps) (auto simp: raw_key_at_def split: if_splits)
qed

lemma find_raw_key_None: "find_raw_key s = None \<longleftrightarrow> (\<forall>i. \<not> raw_key_at (drop i s))"
proof (induction s)
  case Nil
  then show ?case by (simp add: find_raw_key.simps raw_key_at_def)
next
  case (Cons c t)
  have "(\<forall>i. \<not> raw_key_at (drop i (c # t))) \<longleftrightarrow> \<not> raw_key_at (c # t) \<and> (\<forall>i. \<not> raw_key_at (drop i t))"
    by (metis drop0 drop_Suc_Cons not0_implies_Suc)
  with Cons show ?case by (subst find_raw_key.simps) auto
qed

definition no_raw_key :: "string \<Rightarrow> bool" where
  "no_raw_key s \<longleftrightarrow> find_raw_key s = None"

lemma no_raw_key_Nil [simp]: "no_raw_key []"
  by (simp add: no_raw_key_def find_raw_key.simps raw_key_at_def)

lemma no_raw_key_Cons: "no_raw_key (c # t) \<longleftrightarrow> \<not> raw_key_at (c # t) \<and> no_raw_key t"
  unfolding no_raw_key_def by (subst find_raw_key.simps) auto

lemma not_raw_key_Nil [simp]: "\<not> raw_key_at []"
  by (simp add: raw_key_at_def)

lemma redact_text_Nil [simp]: "redact_text [] = []"
  by (subst redact_text.simps) simp

lemma redact_text_key: "raw_key_at s \<Longrightarrow> redact_text s = REDACTED @ redact_text (drop 66 s)"
  by (subst redact_text.simps) simp

lemma redact_text_Cons: "\<not> raw_key_at (c # t) \<Longrightarrow> redact_text (c # t) = c # redact_text t"
  by (subst redact_text.simps) simp

text \<open>A prefix of a redacted text without a bracket comes unchanged from the original.\<close>

lemma redact_text_prefix:
  "n \<le> length (redact_text s) \<Longrightarrow> CHR ''['' \<notin> set (take n (redact_text s)) \<Longrightarrow>
     take n (redact_text s) = take n s \<and> n \<le> length s"
proof (induction n arbitrary: s)
  case (Suc n)
  show ?case
  proof (cases "raw_key_at s")
    case True
    with Suc.prems show ?thesis by (simp add: redact_text_key REDACTED_def)
  next
    case False
    show ?thesis
    proof (cases s)
      case Nil
      with Suc.prems show ?thesis by simp
    next
      case (Cons c t)
      with False have "redact_text s = c # redact_text t" by (simp add: redact_text_Cons)
      with Cons Suc show ?thesis by simp
    qed
  qed
qed simp

lemma bracket_not_hex: "\<not> is_hex_digit (CHR ''['')" "\<not> is_hex_digit (CHR '']'')"
  by (simp_all add: is_hex_digit_def is_digit_def)

lemma raw_key_no_bracket:
  assumes "raw_key_at s"
  shows "CHR ''['' \<notin> set (take 66 s)"
proof -
  have "take 66 s = take 2 s @ take 64 (drop 2 s)" using take_add [of 2 64 s] by simp
  then show ?thesis using assms bracket_not_hex by (auto simp: raw_key_at_def list_all_iff)
qed

lemma raw_key_at_take: "raw_key_at (take 66 s) \<longleftrightarrow> raw_key_at s"
proof -
  have "take 64 (drop 2 (take 66 s)) = take 64 (drop 2 s)" by (simp add: drop_take)
  then show ?thesis by (auto simp: raw_key_at_def)
qed

lemma raw_key_redacted:
  assumes "raw_key_at (redact_text s)"
  shows "raw_key_at s"
proof -
  have "take 66 (redact_text s) = take 66 s"
    using redact_text_prefix [of 66 s] raw_key_no_bracket [OF assms] assms by (simp add: raw_key_at_def)
  then show ?thesis using assms raw_key_at_take by metis
qed

lemma no_raw_key_append_bracket:
  "list_all (\<lambda>c. c \<noteq> CHR ''0'') w \<Longrightarrow> no_raw_key t \<Longrightarrow> no_raw_key (w @ t)"
  by (induction w) (auto simp: no_raw_key_Cons raw_key_at_def)

lemma redact_text_clean: "no_raw_key (redact_text s)"
proof (induction s rule: redact_text.induct)
  case (1 s)
  show ?case
  proof (cases "raw_key_at s")
    case True
    then show ?thesis
      using 1(1) no_raw_key_append_bracket [of REDACTED] by (simp add: redact_text_key REDACTED_def)
  next
    case False
    show ?thesis
    proof (cases s)
      case Nil
      then show ?thesis by simp
    next
      case (Cons c t)
      with False have "redact_text s = c # redact_text t" by (simp add: redact_text_Cons)
      then show ?thesis using 1(2) [OF False] Cons False raw_key_redacted [of s] by (auto simp: no_raw_key_Cons)
    qed
  qed
qed

lemma redact_text_id: "no_raw_key s \<Longrightarrow> redact_text s = s"
  by (induction s) (simp_all add: redact_text_Cons no_raw_key_Cons)

text \<open>Every text that is a value somewhere in a document satisfies a predicate.\<close>

primrec all_texts :: "(string \<Rightarrow> bool) \<Rightarrow> json \<Rightarrow> bool" where
  "all_texts P (JStr s) = P s"
| "all_texts P (JArr xs) = list_all id (map (all_texts P) xs)"
| "all_texts P (JObj kvs) = list_all snd (map (map_prod id (all_texts P)) kvs)"
| "all_texts P JNull = True"
| "all_texts P (JBool b) = True"
| "all_texts P (JNum i) = True"

lemma REDACTED_clean [simp]: "no_raw_key REDACTED"
  by (simp add: REDACTED_def no_raw_key_Cons raw_key_at_def)

lemma redact_secrets_clean: "all_texts no_raw_key (redact_secrets v)"
proof (induction v)
  case (JArr xs)
  then show ?case by (auto simp: list_all_iff)
next
  case (JObj kvs)
  then show ?case by (fastforce simp: list_all_iff)
qed (simp_all add: redact_text_clean)

lemma redact_secrets_idem: "redact_secrets (redact_secrets v) = redact_secrets v"
proof (induction v)
  case (JObj kvs)
  then show ?case
    using redact_text_id [OF REDACTED_clean] by (fastforce simp: map_prod_def)
qed (auto simp: redact_text_id [OF redact_text_clean])

lemma regex_test_start: "fst (regex_test 0 s) \<longleftrightarrow> \<not> no_raw_key s"
  by (auto simp: regex_test_def no_raw_key_def split: option.splits)

text \<open>
  The expression is global, so a positive answer leaves its index behind the match: asked again
  about the same value, the guard answers no when the match was the last one.
\<close>

lemma regex_test_forgets:
  assumes "find_raw_key s = Some i" and "no_raw_key (drop (i + 66) s)"
  shows "regex_test 0 s = (True, i + 66) \<and> regex_test (i + 66) s = (False, 0)"
  using assms find_raw_key_Some [OF assms(1)] by (simp add: regex_test_def no_raw_key_def)

lemma bytes32_hex_is_key: "bytes32_hex s \<Longrightarrow> find_raw_key s = Some 0 \<and> drop 66 s = []"
  by (subst find_raw_key.simps) (simp add: bytes32_hex_def)

lemma redact_text_bytes32: "bytes32_hex s \<Longrightarrow> redact_text s = REDACTED"
  by (simp add: bytes32_hex_def redact_text_key)

definition sample_raw_key :: string where
  "sample_raw_key = ''0x'' @ replicate 64 (CHR ''a'')"

lemma sample_key_bytes32: "bytes32_hex sample_raw_key"
  by (simp add: sample_raw_key_def bytes32_hex_def raw_key_at_def list_all_iff is_hex_digit_def)

section \<open>Properties\<close>

text \<open>
  After redaction no text value of a document contains anything that looks like a raw key, a
  second redaction changes nothing, and a text without such a key is left as it is.
\<close>

theorem redaction_removes_raw_keys:
  "all_texts no_raw_key (redact_secrets v) \<and> redact_secrets (redact_secrets v) = redact_secrets v
     \<and> redact_secrets (JStr s) = JStr (if no_raw_key s then s else redact_text s)"
  using redact_secrets_clean redact_secrets_idem redact_text_id by simp

text \<open>
  The guard \<open>containsRawSecret\<close> is right on its first call and wrong on the second: asked twice
  about one key it says yes, then no.
\<close>

theorem contains_raw_secret_forgets:
  assumes "bytes32_hex s"
  shows "fst (contains_raw_secret 0 (JStr s)) \<and> \<not> fst (contains_raw_secret (snd (contains_raw_secret 0 (JStr s))) (JStr s))"
proof -
  have "find_raw_key s = Some 0" "no_raw_key (drop (0 + 66) s)" using bytes32_hex_is_key [OF assms] by simp_all
  from regex_test_forgets [OF this] show ?thesis by (simp add: contains_raw_secret_def guarded_text_def)
qed

theorem contains_raw_secret_forgets_witness:
  "fst (contains_raw_secret 0 (JStr sample_raw_key))
     \<and> \<not> fst (contains_raw_secret (snd (contains_raw_secret 0 (JStr sample_raw_key))) (JStr sample_raw_key))"
  by (rule contains_raw_secret_forgets [OF sample_key_bytes32])

end
