(* ===== verification/Chain_Attestation.thy ===== *)
theory Chain_Attestation
  imports Secret_Redaction
begin

text \<open>
  The on-chain attestation adapter (Blockchain/src/attestation/attestation-adapter.ts). The
  digest \<open>keccak256(toHex(v))\<close>, the ABI encoding and the signer are parameters; an exception
  of the last two is an \<open>Inl\<close> with its message.
\<close>

section \<open>Commitments\<close>

record attestation_input =
  ai_execution_id :: string
  ai_agent_id :: string
  ai_policy_hash :: string
  ai_intent_ref :: string
  ai_trajectory_root :: string
  ai_assessment_hash :: string
  ai_decision :: string
  ai_transaction_hash :: "string option"

record commitment =
  cm_execution_id :: string
  cm_agent_id :: string
  cm_policy_hash :: string
  cm_intent_ref :: string
  cm_trajectory_root :: string
  cm_assessment_hash :: string
  cm_decision :: string
  cm_transaction_hash :: string

definition zero_word :: string where
  "zero_word = ''0x'' @ replicate 64 (CHR ''0'')"

definition to_bytes32 :: "(string \<Rightarrow> string) \<Rightarrow> string option \<Rightarrow> string" where
  "to_bytes32 keccak v =
     (if \<not> truthy v then zero_word
      else if bytes32_hex (the v) then the v
      else keccak (the v))"

definition build_commitment :: "(string \<Rightarrow> string) \<Rightarrow> attestation_input \<Rightarrow> commitment" where
  "build_commitment keccak i =
     \<lparr> cm_execution_id = to_bytes32 keccak (Some (ai_execution_id i)),
       cm_agent_id = to_bytes32 keccak (Some (ai_agent_id i)),
       cm_policy_hash = to_bytes32 keccak (Some (ai_policy_hash i)),
       cm_intent_ref = to_bytes32 keccak (Some (ai_intent_ref i)),
       cm_trajectory_root = to_bytes32 keccak (Some (ai_trajectory_root i)),
       cm_assessment_hash = to_bytes32 keccak (Some (ai_assessment_hash i)),
       cm_decision = to_bytes32 keccak (Some (ai_decision i)),
       cm_transaction_hash = to_bytes32 keccak (ai_transaction_hash i) \<rparr>"

definition commitment_args :: "commitment \<Rightarrow> string list" where
  "commitment_args c = [cm_execution_id c, cm_agent_id c, cm_policy_hash c, cm_intent_ref c,
     cm_trajectory_root c, cm_assessment_hash c, cm_decision c, cm_transaction_hash c]"

section \<open>Adapter\<close>

record attestation_tx =
  at_to :: string
  at_data :: string
  at_value :: int

record attestation_result =
  an_attested :: bool
  an_transaction_hash :: "string option"
  an_error :: "string option"

definition attestation_failed :: "string \<Rightarrow> attestation_result" where
  "attestation_failed msg = \<lparr> an_attested = False, an_transaction_hash = None, an_error = Some msg \<rparr>"

definition attest_on_chain ::
    "(string \<Rightarrow> string) \<Rightarrow> (string list \<Rightarrow> string + string) \<Rightarrow> (attestation_tx \<Rightarrow> string + string) \<Rightarrow> string \<Rightarrow>
     attestation_input \<Rightarrow> attestation_result \<times> attestation_tx list" where
  "attest_on_chain keccak encode send registry_address i =
     (case encode (commitment_args (build_commitment keccak i)) of
        Inl msg \<Rightarrow> (attestation_failed msg, [])
      | Inr data \<Rightarrow>
         (let tx = \<lparr> at_to = registry_address, at_data = data, at_value = 0 \<rparr>
          in (case send tx of
                Inl msg \<Rightarrow> (attestation_failed msg, [tx])
              | Inr h \<Rightarrow> (\<lparr> an_attested = True, an_transaction_hash = Some h, an_error = None \<rparr>, [tx]))))"

section \<open>Lemmas\<close>

definition attested_values :: "attestation_input \<Rightarrow> string list" where
  "attested_values i = [ai_execution_id i, ai_agent_id i, ai_policy_hash i, ai_intent_ref i,
     ai_trajectory_root i, ai_assessment_hash i, ai_decision i, nullish (ai_transaction_hash i) []]"

lemma to_bytes32_nullish: "to_bytes32 k v = to_bytes32 k (Some (nullish v []))"
  by (cases v) (simp_all add: to_bytes32_def)

lemma commitment_args_values:
  "commitment_args (build_commitment k i) = map (\<lambda>v. to_bytes32 k (Some v)) (attested_values i)"
  using to_bytes32_nullish [of k "ai_transaction_hash i"]
  by (simp add: commitment_args_def build_commitment_def attested_values_def)

lemma zero_word_bytes32: "bytes32_hex zero_word"
  by (simp add: zero_word_def bytes32_hex_def raw_key_at_def list_all_iff is_hex_digit_def is_digit_def)

lemma to_bytes32_fixed: "(\<And>s. bytes32_hex (k s)) \<Longrightarrow> bytes32_hex (to_bytes32 k v)"
  by (auto simp: to_bytes32_def zero_word_bytes32)

text \<open>
  A digest that is neither the zero word nor one of the given values and does not collide on them
  keeps the values apart.
\<close>

definition digest_separates :: "(string \<Rightarrow> string) \<Rightarrow> string set \<Rightarrow> bool" where
  "digest_separates k vs \<longleftrightarrow> inj_on k vs \<and> (\<forall>v \<in> vs. k v \<noteq> zero_word \<and> k v \<notin> vs) \<and> zero_word \<notin> vs"

lemma to_bytes32_inj:
  assumes "digest_separates k vs" and "v \<in> vs" and "w \<in> vs" and "to_bytes32 k (Some v) = to_bytes32 k (Some w)"
  shows "v = w"
proof -
  have "inj_on k vs" "k v \<noteq> zero_word" "k w \<noteq> zero_word" "k v \<noteq> w" "k w \<noteq> v" "v \<noteq> zero_word" "w \<noteq> zero_word"
    using assms(1-3) by (auto simp: digest_separates_def)
  with assms(2-4) show ?thesis by (auto simp: to_bytes32_def dest: inj_onD split: if_splits)
qed

lemma map_to_bytes32_inj:
  assumes "digest_separates k (set vs \<union> set ws)" and "map (\<lambda>v. to_bytes32 k (Some v)) vs = map (\<lambda>v. to_bytes32 k (Some v)) ws"
  shows "vs = ws"
proof (rule nth_equalityI)
  show len: "length vs = length ws" using assms(2) by (rule map_eq_imp_length_eq)
  fix j assume j: "j < length vs"
  then have "to_bytes32 k (Some (vs ! j)) = to_bytes32 k (Some (ws ! j))"
    using assms(2) len by (metis nth_map)
  then show "vs ! j = ws ! j" using to_bytes32_inj [OF assms(1)] j len by simp
qed

section \<open>Samples\<close>

definition sample_attestation :: "string option \<Rightarrow> attestation_input" where
  "sample_attestation tx = \<lparr> ai_execution_id = ''e'', ai_agent_id = ''e'', ai_policy_hash = ''e'',
     ai_intent_ref = ''e'', ai_trajectory_root = ''e'', ai_assessment_hash = ''e'',
     ai_decision = ''ALLOW'', ai_transaction_hash = tx \<rparr>"

text \<open>A digest that tells short texts of different lengths apart.\<close>

definition sample_keccak :: "string \<Rightarrow> string" where
  "sample_keccak s = (let n = (if length s < 63 then length s else 63)
     in ''0x'' @ replicate n (CHR ''b'') @ replicate (64 - n) (CHR ''c''))"

lemma sample_keccak_bytes32: "bytes32_hex (sample_keccak s)"
  by (simp add: sample_keccak_def Let_def bytes32_hex_def raw_key_at_def list_all_iff is_hex_digit_def)

lemma sample_keccak_facts:
  "last (sample_keccak s) = CHR ''c''" "length (sample_keccak s) = 66"
  "length (takeWhile (\<lambda>c. c = CHR ''b'') (drop 2 (sample_keccak s))) = (if length s < 63 then length s else 63)"
proof -
  have t: "takeWhile (\<lambda>c. c = CHR ''b'') (replicate n (CHR ''b'') @ replicate m (CHR ''c'')) = replicate n (CHR ''b'')" for n m
    by (induction n) (cases m; simp)+
  show "last (sample_keccak s) = CHR ''c''" "length (sample_keccak s) = 66"
    "length (takeWhile (\<lambda>c. c = CHR ''b'') (drop 2 (sample_keccak s))) = (if length s < 63 then length s else 63)"
    by (simp_all add: sample_keccak_def Let_def t)
qed

lemma sample_keccak_separates: "digest_separates sample_keccak {''e'', ''ALLOW'', []}"
proof -
  have ne: "sample_keccak s \<noteq> sample_keccak t" if "length s \<noteq> length t" "length s < 63" "length t < 63" for s t
    using sample_keccak_facts(3) [of s] sample_keccak_facts(3) [of t] that by auto
  have "last zero_word = CHR ''0''" "length zero_word = 66" by (simp_all add: zero_word_def)
  then have z: "sample_keccak s \<noteq> zero_word" for s
    using sample_keccak_facts(1) [of s] by auto
  have "zero_word \<notin> {''e'', ''ALLOW'', []}"
  proof
    assume "zero_word \<in> {''e'', ''ALLOW'', []}"
    then have "length zero_word \<in> length ` {''e'', ''ALLOW'', []}" by (rule imageI)
    then show False by (simp add: zero_word_def)
  qed
  moreover have "sample_keccak s \<noteq> zero_word" for s by (rule z)
  moreover have "sample_keccak s \<notin> {''e'', ''ALLOW'', []}" for s
    using sample_keccak_facts(2) [of s] by auto
  moreover have "inj_on sample_keccak {''e'', ''ALLOW'', []}"
    using ne by (simp add: inj_on_def)
  ultimately show ?thesis by (simp add: digest_separates_def)
qed

section \<open>Properties\<close>

text \<open>
  What reaches the chain is eight words of 32 bytes, whatever the inputs are; the commitment
  binds every value as long as the digest does not collide on them, a missing transaction hash
  counting as the empty one.
\<close>

theorem commitment_binds_inputs:
  assumes "\<And>s. bytes32_hex (k s)" and "digest_separates k (set (attested_values i) \<union> set (attested_values j))"
  shows "list_all bytes32_hex (commitment_args (build_commitment k i))
     \<and> (build_commitment k i = build_commitment k j \<longleftrightarrow> attested_values i = attested_values j)"
proof -
  have "list_all bytes32_hex (commitment_args (build_commitment k i))"
    using to_bytes32_fixed [of k, OF assms(1)] by (simp add: commitment_args_values list_all_iff)
  moreover have "build_commitment k i = build_commitment k j \<longleftrightarrow>
      commitment_args (build_commitment k i) = commitment_args (build_commitment k j)"
    by (auto simp: commitment_args_def)
  moreover have "\<dots> \<longleftrightarrow> attested_values i = attested_values j"
    unfolding commitment_args_values using map_to_bytes32_inj [OF assms(2)] by auto
  ultimately show ?thesis by simp
qed

theorem commitment_binds_inputs_witness:
  "build_commitment sample_keccak (sample_attestation None) \<noteq> build_commitment sample_keccak (sample_attestation (Some ''e''))
   \<and> list_all bytes32_hex (commitment_args (build_commitment sample_keccak (sample_attestation None)))"
proof -
  have v: "attested_values (sample_attestation None) = [''e'', ''e'', ''e'', ''e'', ''e'', ''e'', ''ALLOW'', []]"
    "attested_values (sample_attestation (Some ''e'')) = [''e'', ''e'', ''e'', ''e'', ''e'', ''e'', ''ALLOW'', ''e'']"
    by (simp_all add: attested_values_def sample_attestation_def)
  have "set (attested_values (sample_attestation None)) \<union> set (attested_values (sample_attestation (Some ''e'')))
    = {''e'', ''ALLOW'', []}" unfolding v by auto
  then have "digest_separates sample_keccak (set (attested_values (sample_attestation None))
      \<union> set (attested_values (sample_attestation (Some ''e''))))" using sample_keccak_separates by simp
  from commitment_binds_inputs [of sample_keccak, OF sample_keccak_bytes32 this] v show ?thesis by simp
qed

text \<open>
  Attestation is isolated from the payment path: whatever the encoder and the signer do, the
  adapter returns a result, an error message exactly when nothing was attested, and sends at most
  one transaction, to the registry and without native value.
\<close>

theorem attestation_isolated:
  "\<exists>r txs. attest_on_chain k encode send registry i = (r, txs)
     \<and> (an_attested r \<longleftrightarrow> an_error r = None) \<and> (an_attested r \<longleftrightarrow> an_transaction_hash r \<noteq> None)
     \<and> (txs = [] \<or> (\<exists>data. encode (commitment_args (build_commitment k i)) = Inr data
          \<and> txs = [\<lparr> at_to = registry, at_data = data, at_value = 0 \<rparr>]))"
  by (auto simp: attest_on_chain_def attestation_failed_def Let_def split: sum.splits)

end
