(* ===== verification/Chain_Config.thy ===== *)
theory Chain_Config
  imports Execution_Pipeline Core_Config Secret_Redaction
begin

text \<open>
  The configuration of the execution boundary and the factory that wires its client
  (Blockchain/src/config/config.ts, Blockchain/src/integration/factory.ts). An environment is a
  partial map of texts; key material becomes an account through a parameter.
\<close>

section \<open>Configuration\<close>

datatype chain_execution_mode = MODE_SIMULATE | MODE_TESTNET

record blockchain_config =
  bc_node_env :: string
  bc_execution_mode :: chain_execution_mode
  bc_execution_timeout_ms :: int
  bc_anvil_rpc_url :: string
  bc_anvil_chain_id :: int
  bc_base_sepolia_rpc_url :: "string option"
  bc_base_sepolia_chain_id :: int
  bc_base_sepolia_usdc_address :: "string option"
  bc_entry_point_address :: "string option"
  bc_bundler_url :: "string option"
  bc_smart_account_address :: "string option"
  bc_x402_network :: string
  bc_x402_facilitator_url :: "string option"
  bc_attestation_registry_address :: "string option"
  bc_allow_mainnet :: bool
  bc_has_signer :: bool

definition mode_field :: "string option \<Rightarrow> chain_execution_mode option" where
  "mode_field v = (case v of None \<Rightarrow> Some MODE_SIMULATE
     | Some s \<Rightarrow> map_of [(''SIMULATE'', MODE_SIMULATE), (''TESTNET'', MODE_TESTNET)] s)"

text \<open>\<open>z.coerce.number().int().positive()\<close>: a positive safe integer.\<close>

definition positive_int_field :: "int \<Rightarrow> string option \<Rightarrow> int option" where
  "positive_int_field d v =
     (case v of
        None \<Rightarrow> Some d
      | Some s \<Rightarrow>
         (case to_number s of
            Js_finite q \<Rightarrow> if q \<in> \<int> \<and> 0 < q \<and> q \<le> 2 ^ 53 - 1 then Some \<lfloor>q\<rfloor> else None
          | _ \<Rightarrow> None))"

definition load_blockchain_config :: "env \<Rightarrow> execution_error + blockchain_config" where
  "load_blockchain_config env =
     from_option XE_CONFIG_ERROR
      (Option.bind (mode_field (env ''EXECUTION_MODE'')) (\<lambda>execution_mode.
       Option.bind (positive_int_field 60000 (env ''EXECUTION_TIMEOUT_MS'')) (\<lambda>timeout_ms.
       Option.bind (positive_int_field 31337 (env ''ANVIL_CHAIN_ID'')) (\<lambda>anvil_chain_id.
       Option.bind (positive_int_field 84532 (env ''BASE_SEPOLIA_CHAIN_ID'')) (\<lambda>base_sepolia_chain_id.
         Some \<lparr> bc_node_env = nullish (env ''NODE_ENV'') ''development'',
                bc_execution_mode = execution_mode, bc_execution_timeout_ms = timeout_ms,
                bc_anvil_rpc_url = nullish (env ''ANVIL_RPC_URL'') ''http://127.0.0.1:8545'',
                bc_anvil_chain_id = anvil_chain_id,
                bc_base_sepolia_rpc_url = env ''BASE_SEPOLIA_RPC_URL'',
                bc_base_sepolia_chain_id = base_sepolia_chain_id,
                bc_base_sepolia_usdc_address = env ''BASE_SEPOLIA_USDC_ADDRESS'',
                bc_entry_point_address = env ''ENTRYPOINT_ADDRESS'',
                bc_bundler_url = env ''BUNDLER_URL'',
                bc_smart_account_address = env ''SMART_ACCOUNT_ADDRESS'',
                bc_x402_network = nullish (env ''X402_NETWORK'') ''base-sepolia'',
                bc_x402_facilitator_url = env ''X402_FACILITATOR_URL'',
                bc_attestation_registry_address = env ''ATTESTATION_REGISTRY_ADDRESS'',
                bc_allow_mainnet = (env ''ALLOW_MAINNET'' = Some ''true''),
                bc_has_signer = truthy (env ''EXECUTION_SIGNER_PRIVATE_KEY'') \<rparr>)))))"

definition get_signer_key :: "env \<Rightarrow> execution_error + string option" where
  "get_signer_key env =
     (let raw = env ''EXECUTION_SIGNER_PRIVATE_KEY''
      in if \<not> truthy raw then Inr None
         else
          (let normalized = (if take 2 (the raw) = ''0x'' then the raw else ''0x'' @ the raw)
           in if \<not> bytes32_hex normalized then Inl XE_SIGNER_UNAVAILABLE else Inr (Some normalized)))"

definition has_signer :: "blockchain_config \<Rightarrow> bool" where
  "has_signer c = bc_has_signer c"

section \<open>Factory\<close>

text \<open>\<open>privateKeyToAccount\<close> and the wallet client: an address and what sending does.\<close>

type_synonym account_of = "string \<Rightarrow> (string \<times> (transaction_request \<Rightarrow> string option)) option"

definition create_key_signer :: "account_of \<Rightarrow> string \<Rightarrow> chain_definition \<Rightarrow> execution_error + signer" where
  "create_key_signer account_of key chain =
     (case account_of key of
        None \<Rightarrow> Inl XE_SIGNER_UNAVAILABLE
      | Some (address, send) \<Rightarrow> Inr \<lparr> sg_address = address, sg_chain = chain, sg_send = send \<rparr>)"

definition empty_contexts :: context_registry where
  "empty_contexts = \<lparr> gx_by_transaction = Map.empty, gx_by_execution = Map.empty \<rparr>"

record built_client =
  bu_deps :: pipeline_deps
  bu_pipeline :: pipeline
  bu_registry :: context_registry
  bu_config :: blockchain_config

definition build_base_sepolia_execution_client ::
    "(string \<Rightarrow> string) \<Rightarrow> evm_lib \<Rightarrow> account_of \<Rightarrow> env \<Rightarrow> execution_error + built_client" where
  "build_base_sepolia_execution_client sha E account_of env =
     and_then (load_blockchain_config env) (\<lambda>config.
       if \<not> truthy (bc_base_sepolia_rpc_url config) then Inl XE_CONFIG_ERROR else
       and_then (get_signer_key env) (\<lambda>key. case key of
          None \<Rightarrow> Inl XE_SIGNER_UNAVAILABLE
        | Some key \<Rightarrow>
           (let registry = new_chain_registry
                  \<lparr> go_base_sepolia_usdc_address = bc_base_sepolia_usdc_address config, go_anvil_usdc_address = None \<rparr>
            in
            and_then (get_by_network registry ''base-sepolia'') (\<lambda>chain.
            and_then (new_provider chain (bc_base_sepolia_rpc_url config) (bc_allow_mainnet config) False) (\<lambda>rpc.
            and_then (create_key_signer account_of key chain) (\<lambda>signer.
              Inr \<lparr> bu_deps = \<lparr> pd_sha = sha, pd_evm = E, pd_registry = registry, pd_signer = signer,
                      pd_timeout_ms = bc_execution_timeout_ms config \<rparr>,
                    bu_pipeline = \<lparr> pp_provider = rpc, pp_store = empty_store, pp_broadcasts = [] \<rparr>,
                    bu_registry = empty_contexts, bu_config = config \<rparr>))))))"

section \<open>Lemmas\<close>

lemma positive_int_field_Some: "positive_int_field d v = Some n \<Longrightarrow> 0 < d \<Longrightarrow> 0 < n"
  by (auto simp: positive_int_field_def split: option.splits js_number.splits if_splits elim!: Ints_cases)

lemma load_blockchain_config_Inr:
  assumes "load_blockchain_config env = Inr c"
  shows "bc_base_sepolia_rpc_url c = env ''BASE_SEPOLIA_RPC_URL''"
    and "bc_base_sepolia_usdc_address c = env ''BASE_SEPOLIA_USDC_ADDRESS''"
    and "0 < bc_execution_timeout_ms c"
    and "bc_has_signer c \<longleftrightarrow> truthy (env ''EXECUTION_SIGNER_PRIVATE_KEY'')"
    and "bc_allow_mainnet c \<longleftrightarrow> env ''ALLOW_MAINNET'' = Some ''true''"
  using assms positive_int_field_Some [of 60000 "env ''EXECUTION_TIMEOUT_MS''"]
  by (auto simp: load_blockchain_config_def bind_eq_Some_conv)

lemma get_signer_key_Inr:
  "get_signer_key env = Inr k \<Longrightarrow> (k \<noteq> None \<longleftrightarrow> truthy (env ''EXECUTION_SIGNER_PRIVATE_KEY'')) \<and> (\<forall>s. k = Some s \<longrightarrow> bytes32_hex s)"
  by (auto simp: get_signer_key_def Let_def split: if_splits)

text \<open>Reading the key back from its normal form changes nothing.\<close>

lemma get_signer_key_idem:
  assumes "get_signer_key env = Inr (Some k)"
  shows "get_signer_key (env(''EXECUTION_SIGNER_PRIVATE_KEY'' \<mapsto> k)) = Inr (Some k)"
proof -
  have "bytes32_hex k" using get_signer_key_Inr [OF assms] by blast
  moreover from this have "take 2 k = ''0x''" "k \<noteq> []" by (auto simp: bytes32_hex_def raw_key_at_def)
  ultimately show ?thesis by (simp add: get_signer_key_def)
qed

lemma base_sepolia_chain:
  "\<exists>c. get_by_network (new_chain_registry opts) ''base-sepolia'' = Inr c \<and> cf_chain_id c = 84532
     \<and> \<not> cf_is_mainnet c \<and> cf_network c = ''base-sepolia''"
  by (simp add: new_chain_registry_def with_usdc_address_def ANVIL_def BASE_SEPOLIA_def BASE_MAINNET_def
      get_by_network_def from_option_def)

lemma build_client_Inr:
  assumes "build_base_sepolia_execution_client sha E account_of env = Inr b"
  shows "load_blockchain_config env = Inr (bu_config b) \<and> truthy (env ''BASE_SEPOLIA_RPC_URL'')
     \<and> (\<exists>key a. get_signer_key env = Inr (Some key) \<and> bytes32_hex key \<and> account_of key = Some a
          \<and> sg_address (pd_signer (bu_deps b)) = fst a)
     \<and> cf_chain_id (rp_chain (pp_provider (bu_pipeline b))) = 84532
     \<and> \<not> cf_is_mainnet (rp_chain (pp_provider (bu_pipeline b)))
     \<and> sg_chain (pd_signer (bu_deps b)) = rp_chain (pp_provider (bu_pipeline b))
     \<and> pp_store (bu_pipeline b) = empty_store \<and> pp_broadcasts (bu_pipeline b) = []
     \<and> 0 < pd_timeout_ms (bu_deps b)"
proof -
  obtain config key where c: "load_blockchain_config env = Inr config" "truthy (bc_base_sepolia_rpc_url config)"
    "get_signer_key env = Inr (Some key)"
    using assms by (auto simp: build_base_sepolia_execution_client_def and_then_Inr_iff split: if_splits option.splits)
  let ?reg = "new_chain_registry
      \<lparr> go_base_sepolia_usdc_address = bc_base_sepolia_usdc_address config, go_anvil_usdc_address = None \<rparr>"
  obtain chain where ch: "get_by_network ?reg ''base-sepolia'' = Inr chain" "cf_chain_id chain = 84532" "\<not> cf_is_mainnet chain"
    using base_sepolia_chain by blast
  obtain address send where a: "account_of key = Some (address, send)"
    using assms c ch
    by (auto simp: build_base_sepolia_execution_client_def new_provider_def create_key_signer_def split: option.splits)
  have "b = \<lparr> bu_deps = \<lparr> pd_sha = sha, pd_evm = E, pd_registry = ?reg,
        pd_signer = \<lparr> sg_address = address, sg_chain = chain, sg_send = send \<rparr>, pd_timeout_ms = bc_execution_timeout_ms config \<rparr>,
      bu_pipeline = \<lparr> pp_provider = \<lparr> rp_chain = chain, rp_verified_chain_id = None \<rparr>, pp_store = empty_store, pp_broadcasts = [] \<rparr>,
      bu_registry = empty_contexts, bu_config = config \<rparr>"
    using assms c ch a by (simp add: build_base_sepolia_execution_client_def new_provider_def create_key_signer_def)
  then show ?thesis
    using c ch a load_blockchain_config_Inr [OF c(1)] get_signer_key_Inr [OF c(3)] by simp
qed

text \<open>Loading depends on the mode only through the mode field of the result.\<close>

lemma load_blockchain_config_mode:
  assumes "m \<in> {''SIMULATE'', ''TESTNET''}"
  shows "load_blockchain_config (env(''EXECUTION_MODE'' \<mapsto> m)) =
    map_sum id (\<lambda>c. c\<lparr>bc_execution_mode := the (mode_field (Some m))\<rparr>) (load_blockchain_config (env(''EXECUTION_MODE'' := None)))"
  using assms
  by (auto simp: load_blockchain_config_def mode_field_def from_option_def
      split: option.splits Option.bind_splits)

definition wired :: "built_client \<Rightarrow> pipeline_deps \<times> pipeline \<times> context_registry" where
  "wired b = (bu_deps b, bu_pipeline b, bu_registry b)"

lemma build_client_mode:
  assumes "m \<in> {''SIMULATE'', ''TESTNET''}"
  shows "map_sum id wired (build_base_sepolia_execution_client sha E account_of (env(''EXECUTION_MODE'' \<mapsto> m)))
    = map_sum id wired (build_base_sepolia_execution_client sha E account_of (env(''EXECUTION_MODE'' := None)))"
proof (cases "load_blockchain_config (env(''EXECUTION_MODE'' := None))")
  case (Inl e)
  then show ?thesis using load_blockchain_config_mode [OF assms]
    by (simp add: build_base_sepolia_execution_client_def)
next
  case (Inr c)
  have k: "get_signer_key (env(''EXECUTION_MODE'' \<mapsto> m)) = get_signer_key (env(''EXECUTION_MODE'' := None))"
    by (simp add: get_signer_key_def)
  show ?thesis
  proof (cases "get_signer_key (env(''EXECUTION_MODE'' := None))")
    case (Inl e)
    then show ?thesis using Inr k load_blockchain_config_mode [OF assms, of env]
      by (simp add: build_base_sepolia_execution_client_def)
  next
    case key: (Inr o1)
    obtain chain where ch: "get_by_network (new_chain_registry
        \<lparr> go_base_sepolia_usdc_address = bc_base_sepolia_usdc_address c, go_anvil_usdc_address = None \<rparr>) ''base-sepolia''
        = Inr chain" "\<not> cf_is_mainnet chain"
      using base_sepolia_chain by blast
    show ?thesis using Inr k key ch load_blockchain_config_mode [OF assms, of env]
      by (cases o1) (auto simp: build_base_sepolia_execution_client_def new_provider_def create_key_signer_def wired_def
          split: option.splits)
  qed
qed

definition broadcasts_on :: "int \<Rightarrow> pipeline \<Rightarrow> bool" where
  "broadcasts_on i pp \<longleftrightarrow> (\<forall>p \<in> set (pp_broadcasts pp). ch_id (tq_chain (snd p)) = i)"

lemma broadcasts_on_execute:
  assumes "broadcasts_on i pp" and "i = cf_chain_id (sg_chain (pd_signer D))"
    and "execute D W request ctx pp = Some (r, pp')"
  shows "broadcasts_on i pp'"
proof (cases "by_key (pp_store pp) (er_idempotency_key request)")
  case (Some prior)
  then show ?thesis using assms by (simp add: execute_def)
next
  case None
  obtain o1 P where p: "prepare D W request ctx (pp_provider pp) = (o1, P)" by (cases "prepare D W request ctx (pp_provider pp)")
  show ?thesis
  proof (cases o1)
    case (Inl e)
    then have "pp' = pp\<lparr>pp_provider := P\<rparr>" using None p assms(3) by (simp add: execute_def execute_new_def)
    then show ?thesis using assms(1) by (simp add: broadcasts_on_def)
  next
    case (Inr tx)
    have "broadcast D W request ctx tx (pp\<lparr>pp_provider := P\<rparr>) = Some (r, pp')"
      using assms(3) None p Inr by (simp add: execute_def execute_new_def)
    then obtain out where "out = [] \<or> out = [tx] \<and> ch_id (tq_chain tx) = i"
      "pp_broadcasts pp' = pp_broadcasts pp @ map (\<lambda>t. (er_idempotency_key request, t)) out"
      using assms(2) by (elim broadcast_effect) auto
    then show ?thesis using assms(1) by (auto simp: broadcasts_on_def)
  qed
qed

interpretation one_chain: invariant_system fresh_pipeline "pipeline_step D" "broadcasts_on (cf_chain_id (sg_chain (pd_signer D)))" for D
proof unfold_locales
  show "broadcasts_on (cf_chain_id (sg_chain (pd_signer D))) s" if "fresh_pipeline s" for s
    using that by (simp add: fresh_pipeline_def broadcasts_on_def)
next
  fix s t
  assume "pipeline_step D s t" "broadcasts_on (cf_chain_id (sg_chain (pd_signer D))) s"
  then show "broadcasts_on (cf_chain_id (sg_chain (pd_signer D))) t"
  proof (induction)
    case (pstep_execute request W ctx pp r pp')
    then show ?case by (blast intro: broadcasts_on_execute)
  qed (simp_all add: broadcasts_on_def verify_effect client_simulate_effect)
qed

lemma reachable_from_fresh:
  "reachable (\<lambda>p. p = start) step s \<Longrightarrow> init start \<Longrightarrow> reachable init step s"
  by (induction rule: reachable.induct) (auto intro: reachable.intros)

lemma factory_builds_aux:
  "(\<exists>b. build_base_sepolia_execution_client sha E account_of env = Inr b) \<longleftrightarrow>
     (\<exists>c. load_blockchain_config env = Inr c) \<and> truthy (env ''BASE_SEPOLIA_RPC_URL'')
     \<and> (\<exists>k. get_signer_key env = Inr (Some k) \<and> bytes32_hex k \<and> account_of k \<noteq> None)"
proof
  assume "\<exists>b. build_base_sepolia_execution_client sha E account_of env = Inr b"
  then show "(\<exists>c. load_blockchain_config env = Inr c) \<and> truthy (env ''BASE_SEPOLIA_RPC_URL'')
     \<and> (\<exists>k. get_signer_key env = Inr (Some k) \<and> bytes32_hex k \<and> account_of k \<noteq> None)"
    using build_client_Inr by blast
next
  assume "(\<exists>c. load_blockchain_config env = Inr c) \<and> truthy (env ''BASE_SEPOLIA_RPC_URL'')
     \<and> (\<exists>k. get_signer_key env = Inr (Some k) \<and> bytes32_hex k \<and> account_of k \<noteq> None)"
  then obtain c k a where c: "load_blockchain_config env = Inr c" "truthy (bc_base_sepolia_rpc_url c)"
    "get_signer_key env = Inr (Some k)" "account_of k = Some a"
    using load_blockchain_config_Inr(1) by fastforce
  obtain chain where "get_by_network (new_chain_registry
      \<lparr> go_base_sepolia_usdc_address = bc_base_sepolia_usdc_address c, go_anvil_usdc_address = None \<rparr>) ''base-sepolia''
      = Inr chain" "\<not> cf_is_mainnet chain"
    using base_sepolia_chain by blast
  with c show "\<exists>b. build_base_sepolia_execution_client sha E account_of env = Inr b"
    by (cases a) (simp add: build_base_sepolia_execution_client_def new_provider_def create_key_signer_def)
qed

section \<open>Properties\<close>

text \<open>
  The factory fails loudly and completely: it builds a client exactly when the configuration is
  valid, an RPC URL and a well-formed signer key are configured and the key gives an account.
\<close>

theorem factory_builds_iff:
  "(\<exists>b. build_base_sepolia_execution_client sha E account_of env = Inr b) \<longleftrightarrow>
     (\<exists>c. load_blockchain_config env = Inr c) \<and> truthy (env ''BASE_SEPOLIA_RPC_URL'')
     \<and> (\<exists>k. get_signer_key env = Inr (Some k) \<and> bytes32_hex k \<and> account_of k \<noteq> None)"
  by (rule factory_builds_aux)


text \<open>
  The execution mode has no effect: the client wired under SIMULATE, the default, is the one wired
  under TESTNET, whose \<open>execute\<close> broadcasts.
\<close>

theorem execution_mode_ignored:
  "map_sum id wired (build_base_sepolia_execution_client sha E account_of (env(''EXECUTION_MODE'' \<mapsto> ''SIMULATE'')))
   = map_sum id wired (build_base_sepolia_execution_client sha E account_of (env(''EXECUTION_MODE'' \<mapsto> ''TESTNET'')))"
  using build_client_mode by simp

definition sample_env :: env where
  "sample_env = [''BASE_SEPOLIA_RPC_URL'' \<mapsto> ''http://node'', ''EXECUTION_SIGNER_PRIVATE_KEY'' \<mapsto> sample_raw_key]"

lemma sample_client: "\<exists>b. build_base_sepolia_execution_client sha E (\<lambda>k. Some (''0xme'', \<lambda>tx. None)) sample_env = Inr b"
proof -
  have "take 2 sample_raw_key = ''0x''" "sample_raw_key \<noteq> []" by (simp_all add: sample_raw_key_def)
  then have "get_signer_key sample_env = Inr (Some sample_raw_key)"
    by (simp add: get_signer_key_def sample_env_def sample_key_bytes32)
  moreover have "\<exists>c. load_blockchain_config sample_env = Inr c"
    by (simp add: load_blockchain_config_def sample_env_def mode_field_def positive_int_field_def from_option_def)
  ultimately show ?thesis
    by (subst factory_builds_aux) (simp add: sample_env_def sample_key_bytes32)
qed


end
