(* ===== verification/Client_Selection.thy ===== *)
theory Client_Selection
  imports Chain_Config Orchestrator Execution_Result Core_Config "HOL-Library.Sublist"
begin

text \<open>
  How Core gets its execution client (Backend/src/api/http/execution-client-provider.ts,
  api/http/container.ts, api/app.ts) and the deterministic mock it uses outside TESTNET
  (application/clients/execution). Loading the blockchain package is a parameter: \<open>None\<close> when the
  package is missing; the factory it exports is the modelled one.
\<close>

section \<open>Mocks\<close>

definition mock_analyze :: "analyze_request \<Rightarrow> transaction_analysis" where
  "mock_analyze q =
     \<lparr> ta_transaction_id = az_transaction_id q, ta_contract = \<lparr> cr_address = ''0xmock'', cr_verified = True \<rparr>,
       ta_function = \<lparr> fr_name = ''transfer'', fr_selector = ''0xa9059cbb'' \<rparr>,
       ta_decoded_arguments = [(''to'', JStr (az_recipient q)), (''amount'', JStr (az_amount q))],
       ta_state_changes_expected = [], ta_recipient = az_recipient q, ta_amount = az_amount q,
       ta_asset = az_asset q, ta_risk_flags = [], ta_status = AN_VALID \<rparr>"

definition mock_simulate :: "simulate_request \<Rightarrow> string \<Rightarrow> simulation_result" where
  "mock_simulate q now =
     \<lparr> sr_transaction_id = sq_transaction_id q, sr_status = SIM_PASS, sr_would_revert = False,
       sr_gas_estimate = Some ''21000'', sr_expected_state_changes = [], sr_unexpected_state_changes = [],
       sr_revert_reason = None, sr_simulator_provider = ''mock-simulator'', sr_simulator_version = ''0.0.0'',
       sr_simulated_at = now \<rparr>"

text \<open>The two placeholder providers of the orchestrator (types.ts).\<close>

definition mock_analysis_provider :: "analyze_request \<Rightarrow> error_code + transaction_analysis" where
  "mock_analysis_provider q =
     Inr \<lparr> ta_transaction_id = az_transaction_id q, ta_contract = \<lparr> cr_address = ''0xmock'', cr_verified = True \<rparr>,
       ta_function = \<lparr> fr_name = ''transfer'', fr_selector = ''0xa9059cbb'' \<rparr>,
       ta_decoded_arguments = [(''to'', JStr (az_recipient q)), (''amount'', JStr (az_amount q))],
       ta_state_changes_expected = [], ta_recipient = az_recipient q, ta_amount = az_amount q,
       ta_asset = az_asset q, ta_risk_flags = [], ta_status = AN_VALID \<rparr>"

definition mock_simulation_provider :: "string \<Rightarrow> simulate_request \<Rightarrow> error_code + simulation_result" where
  "mock_simulation_provider now q =
     Inr \<lparr> sr_transaction_id = sq_transaction_id q, sr_status = SIM_PASS, sr_would_revert = False,
       sr_gas_estimate = Some ''21000'', sr_expected_state_changes = [], sr_unexpected_state_changes = [],
       sr_revert_reason = None, sr_simulator_provider = ''mock-simulator'', sr_simulator_version = ''0.0.0'',
       sr_simulated_at = now \<rparr>"

record mock_execution_config =
  mc_result_status :: "execution_status option"
  mc_transaction_hash :: "string option"
  mc_actual :: "receipt_snapshot option"
  mc_verified :: "bool option"

definition mock_execute :: "mock_execution_config \<Rightarrow> execution_request \<Rightarrow> string \<Rightarrow> string \<Rightarrow> execution_result" where
  "mock_execute m q submitted confirmed =
     \<lparr> ex_execution_id = er_execution_id q, ex_status = nullish (mc_result_status m) EX_CONFIRMED,
       ex_transaction_hash = Some (nullish (mc_transaction_hash m) ''0xmocktxhash''), ex_chain = er_network q,
       ex_submitted_at = Some submitted, ex_confirmed_at = Some confirmed, ex_receipt_reference = None,
       ex_idempotency_key = er_idempotency_key q \<rparr>"

definition mock_get_result :: "mock_execution_config \<Rightarrow> string \<Rightarrow> execution_result" where
  "mock_get_result m execution_id =
     \<lparr> ex_execution_id = execution_id, ex_status = nullish (mc_result_status m) EX_CONFIRMED,
       ex_transaction_hash = Some (nullish (mc_transaction_hash m) ''0xmocktxhash''),
       ex_chain = nullish (map_option rs_network (mc_actual m)) ''base-sepolia'',
       ex_submitted_at = None, ex_confirmed_at = None, ex_receipt_reference = None,
       ex_idempotency_key = ''reconcile'' \<rparr>"

definition mock_receipt :: receipt_snapshot where
  "mock_receipt = \<lparr> rs_recipient = ''0xrecipient'', rs_asset = ''USDC'', rs_amount = ''5.00'', rs_network = ''base-sepolia'' \<rparr>"

definition mock_verify :: "mock_execution_config \<Rightarrow> string \<Rightarrow> string \<Rightarrow> receipt_verification" where
  "mock_verify m now execution_id =
     (let actual = nullish (mc_actual m) mock_receipt
      in \<lparr> rv_execution_id = execution_id, rv_verified = nullish (mc_verified m) True,
           rv_transaction_hash = nullish (mc_transaction_hash m) ''0xmocktxhash'', rv_expected = actual,
           rv_actual = actual, rv_discrepancies = [], rv_verified_at = now \<rparr>)"

section \<open>Selection\<close>

datatype execution_client = Client_mock mock_execution_config | Client_base_sepolia built_client

record client_selection =
  es_client :: "built_client option"
  es_authorized_context_registry :: "context_registry option"
  es_mode :: string

type_synonym blockchain_package = "(env \<Rightarrow> execution_error + built_client) option"

definition resolve_execution_client ::
    "blockchain_package \<Rightarrow> env \<Rightarrow> core_config \<Rightarrow> execution_error + client_selection" where
  "resolve_execution_client package env c =
     (if cg_allow_mainnet c \<and> \<not> sublist ''sepolia'' (cg_network c) then Inl XE_uncaught
      else if cg_execution_mode c \<noteq> ''TESTNET''
      then Inr \<lparr> es_client = None, es_authorized_context_registry = None, es_mode = cg_execution_mode c \<rparr>
      else
       (case package of
          None \<Rightarrow> Inl XE_uncaught
        | Some factory \<Rightarrow>
            and_then (factory env) (\<lambda>b.
              Inr \<lparr> es_client = Some b, es_authorized_context_registry = Some (bu_registry b), es_mode = ''TESTNET'' \<rparr>)))"

text \<open>The client the container ends up with, and the registry of contexts it resolves against.\<close>

definition container_client :: "client_selection \<Rightarrow> execution_client" where
  "container_client s =
     (case es_client s of
        None \<Rightarrow> Client_mock \<lparr> mc_result_status = None, mc_transaction_hash = None, mc_actual = None, mc_verified = Some True \<rparr>
      | Some b \<Rightarrow> Client_base_sepolia b)"

definition app_client :: "blockchain_package \<Rightarrow> env \<Rightarrow> core_config \<Rightarrow> execution_error + execution_client" where
  "app_client package env c =
     and_then (resolve_execution_client package env c) (\<lambda>s. Inr (container_client s))"

section \<open>Lemmas\<close>

definition sepolia_factory :: "(string \<Rightarrow> string) \<Rightarrow> evm_lib \<Rightarrow> account_of \<Rightarrow> blockchain_package" where
  "sepolia_factory sha E account_of = Some (build_base_sepolia_execution_client sha E account_of)"

lemma app_client_base_sepolia:
  assumes "app_client (sepolia_factory sha E account_of) env c = Inr (Client_base_sepolia b)"
  shows "cg_execution_mode c = ''TESTNET'' \<and> build_base_sepolia_execution_client sha E account_of env = Inr b
    \<and> bu_registry b = empty_contexts"
proof -
  have f: "build_base_sepolia_execution_client sha E account_of env = Inr b" and m: "cg_execution_mode c = ''TESTNET''"
    using assms
    by (auto simp: app_client_def container_client_def resolve_execution_client_def sepolia_factory_def
        and_then_Inr_iff split: if_splits option.splits)
  have "bu_registry b = empty_contexts"
    using f by (auto simp: build_base_sepolia_execution_client_def and_then_Inr_iff Let_def
        split: if_splits option.splits)
  with f m show ?thesis by simp
qed

lemma resolve_empty [simp]: "resolve_context empty_contexts i t = None"
  by (simp add: resolve_context_def empty_contexts_def)

lemma empty_contexts_refuse:
  "client_validate_transaction D empty_contexts t now = Inl XE_VALIDATION_FAILED"
  "client_simulate D empty_contexts N t now pp = (Inl XE_VALIDATION_FAILED, pp)"
  "client_execute D empty_contexts W request pp = Some (Inl XE_VALIDATION_FAILED, pp)"
  by (simp_all add: client_validate_transaction_def client_simulate_def client_execute_def client_build_def
      require_context_def from_option_def)

lemma discrepancies_none:
  "discrepancies D authorized actual verified = Inr [] \<longleftrightarrow>
     (\<exists>a. amount_of D (rs_amount authorized) INTERNAL_ERROR = Inr a \<and> amount_of D (rs_amount actual) INTERNAL_ERROR = Inr a)
     \<and> rs_recipient authorized = rs_recipient actual \<and> rs_asset authorized = rs_asset actual
     \<and> rs_network authorized = rs_network actual \<and> verified"
  by (auto simp: discrepancies_def and_then_Inr_iff)

section \<open>Properties\<close>

text \<open>
  Outside TESTNET no chain client is ever built, and in TESTNET a missing package or a
  misconfigured factory is an error, never a fall back to the mock.
\<close>

theorem client_selection_fails_loudly:
  "app_client package env c = Inr client \<longleftrightarrow>
     (cg_allow_mainnet c \<longrightarrow> sublist ''sepolia'' (cg_network c))
     \<and> (if cg_execution_mode c = ''TESTNET''
        then \<exists>factory b. package = Some factory \<and> factory env = Inr b \<and> client = Client_base_sepolia b
        else client = Client_mock \<lparr> mc_result_status = None, mc_transaction_hash = None, mc_actual = None, mc_verified = Some True \<rparr>)"
  by (auto simp: app_client_def resolve_execution_client_def container_client_def and_then_Inr_iff split: option.splits)


definition sample_testnet_config :: core_config where
  "sample_testnet_config = \<lparr> cg_environment = ENV_testnet, cg_port = 8090, cg_log_level = ''info'', cg_service_name = ''core'',
     cg_version = ''0'', cg_database_url = Some ''db'', cg_redis_url = Some ''redis'', cg_ai_service_url = None,
     cg_execution_service_url = None, cg_internal_service_token = None, cg_network = ''base-sepolia'',
     cg_execution_mode = ''TESTNET'', cg_allow_mainnet = False, cg_otel_enabled = False,
     cg_otel_exporter_endpoint = None, cg_otel_exporter_headers = None \<rparr>"


text \<open>
  Under the container's mock a verification reports success, and may commit money, exactly for the
  transfer the mock always claims to have seen: five USDC to one fixed recipient on Base Sepolia.
\<close>

theorem mock_verifies_one_transfer:
  assumes "find_request company i db = Some request"
    and "verify_and_finalize D (\<lambda>x. Inr (mock_verify \<lparr> mc_result_status = None, mc_transaction_hash = None,
       mc_actual = None, mc_verified = Some True \<rparr> ts x)) now nid company i authorized db = (Inr (row, committed), db')"
  shows "xv_verified row \<longleftrightarrow> rs_recipient authorized = ''0xrecipient'' \<and> rs_asset authorized = ''USDC''
     \<and> rs_network authorized = ''base-sepolia''
     \<and> (\<exists>a. amount_of D (rs_amount authorized) INTERNAL_ERROR = Inr a \<and> amount_of D ''5.00'' INTERNAL_ERROR = Inr a)"
proof -
  obtain ds where ds: "discrepancies D authorized mock_receipt True = Inr ds"
    using assms by (auto simp: verify_and_finalize_def mock_verify_def Let_def split: sum.splits)
  have "xv_verified row \<longleftrightarrow> ds = []"
    using assms ds
    by (auto simp: verify_and_finalize_def mock_verify_def Let_def split: if_splits option.splits sum.splits prod.splits)
  also have "\<dots> \<longleftrightarrow> discrepancies D authorized mock_receipt True = Inr []" using ds by simp
  finally show ?thesis by (auto simp: discrepancies_none mock_receipt_def)
qed

theorem mock_verifies_one_transfer_witness:
  "\<exists>row db'. verify_and_finalize plain_decimal (\<lambda>x. Inr (mock_verify \<lparr> mc_result_status = None, mc_transaction_hash = None,
       mc_actual = None, mc_verified = Some True \<rparr> ''t'' x)) 9 ''v'' ''co'' ''x1'' (mock_receipt\<lparr>rs_recipient := ''0xbob''\<rparr>) execution1
     = (Inr (row, False), db') \<and> \<not> xv_verified row"
proof -
  let ?m = "\<lparr> mc_result_status = None, mc_transaction_hash = None, mc_actual = None, mc_verified = Some True \<rparr>"
  have f: "find_request ''co'' ''x1'' execution1 = Some (sample_request_row XR_AUTHORIZED)"
    by (simp add: execution_eval)
  obtain a where "amount_of plain_decimal ''5.00'' INTERNAL_ERROR = Inr a"
    by (simp add: plain_decimal_def amount_of_def money_amount_def money_value_def split_point_def unsigned_part_def
        all_digits_def is_digit_def digits_value_def digit_value_def)
  then have "discrepancies plain_decimal (mock_receipt\<lparr>rs_recipient := ''0xbob''\<rparr>) mock_receipt True = Inr [''recipient'']"
    by (simp add: discrepancies_def mock_receipt_def amount_of_def plain_decimal_def split: if_splits)
  then obtain row db' where v: "verify_and_finalize plain_decimal (\<lambda>x. Inr (mock_verify ?m ''t'' x)) 9 ''v'' ''co'' ''x1''
      (mock_receipt\<lparr>rs_recipient := ''0xbob''\<rparr>) execution1 = (Inr (row, False), db')"
    by (simp add: verify_and_finalize_def f mock_verify_def Let_def)
  from mock_verifies_one_transfer [OF f v] v show ?thesis by (auto simp: mock_receipt_def)
qed

end
