(* ===== verification/Js_Regex.thy ===== *)
theory Js_Regex
  imports Orvex_Prelude
begin

text \<open>
  The part of JavaScript's regular expressions the sources use: sequences of greedy items, matched
  with the engine's priorities, and \<open>replace\<close> with a global expression.
\<close>

section \<open>Matching\<close>

datatype pattern_item =
    One "char \<Rightarrow> bool" | Many "char \<Rightarrow> bool" | Plus "char \<Rightarrow> bool" | Opt "char \<Rightarrow> bool" | Words "string list"

text \<open>The prefixes an item can take, in the order in which the engine tries them.\<close>

fun item_splits :: "pattern_item \<Rightarrow> string \<Rightarrow> string list" where
  "item_splits (One p) s = (case s of [] \<Rightarrow> [] | c # _ \<Rightarrow> if p c then [[c]] else [])"
| "item_splits (Many p) s = map (\<lambda>k. take k s) (rev [0..<Suc (length (takeWhile p s))])"
| "item_splits (Plus p) s = map (\<lambda>k. take k s) (rev [1..<Suc (length (takeWhile p s))])"
| "item_splits (Opt p) s = (case s of [] \<Rightarrow> [[]] | c # _ \<Rightarrow> if p c then [[c], []] else [[]])"
| "item_splits (Words ws) s =
     map (\<lambda>w. take (length w) s) (filter (\<lambda>w. to_lower (take (length w) s) = w) ws)"

fun first_some :: "('a \<Rightarrow> 'b option) \<Rightarrow> 'a list \<Rightarrow> 'b option" where
  "first_some f [] = None"
| "first_some f (x # xs) = (case f x of None \<Rightarrow> first_some f xs | Some y \<Rightarrow> Some y)"

text \<open>The text each item takes in the first match, \<open>None\<close> when there is none at this place.\<close>

fun match_items :: "pattern_item list \<Rightarrow> string \<Rightarrow> string list option" where
  "match_items [] s = Some []"
| "match_items (i # rest) s =
     first_some (\<lambda>p. map_option ((#) p) (match_items rest (drop (length p) s))) (item_splits i s)"

text \<open>
  \<open>replace\<close> with a global expression: a matcher gets the text before the place, reversed, and
  the text from it, and answers what it consumes and what replaces it.
\<close>

type_synonym matcher = "string \<Rightarrow> string \<Rightarrow> (string \<times> string) option"

function replace_all :: "matcher \<Rightarrow> string \<Rightarrow> string \<Rightarrow> string" where
  "replace_all m before [] = []"
| "replace_all m before (c # t) =
     (case m before (c # t) of
        Some (consumed, replacement) \<Rightarrow>
          if consumed \<noteq> [] then replacement @ replace_all m (rev consumed @ before) (drop (length consumed) (c # t))
          else c # replace_all m (c # before) t
      | None \<Rightarrow> c # replace_all m (c # before) t)"
  by pat_completeness auto
termination
  by (relation "measure (length \<circ> snd \<circ> snd)") auto

declare replace_all.simps(2) [simp del]

section \<open>Lemmas\<close>

lemma first_some_Some: "first_some f xs = Some y \<Longrightarrow> \<exists>x \<in> set xs. f x = Some y"
  by (induction xs) (auto split: option.splits)

text \<open>A match needs a character for every single-character item of its pattern.\<close>

lemma match_items_needs:
  "match_items is s = Some ps \<Longrightarrow> One p \<in> set is \<Longrightarrow> \<exists>c \<in> set s. p c"
proof (induction "is" s arbitrary: ps rule: match_items.induct)
  case (2 i rest s)
  then obtain q qs where q: "q \<in> set (item_splits i s)" "match_items rest (drop (length q) s) = Some qs"
    by (auto dest!: first_some_Some)
  show ?case
  proof (cases "i = One p")
    case True
    then show ?thesis using q(1) by (auto split: list.splits if_splits)
  next
    case False
    then have "One p \<in> set rest" using 2(3) by simp
    then show ?thesis using 2(1) [OF q(2)] by (auto dest: in_set_dropD)
  qed
qed simp

lemma replace_all_None: "m before (c # t) = None \<Longrightarrow> replace_all m before (c # t) = c # replace_all m (c # before) t"
  by (simp add: replace_all.simps(2))

lemma replace_all_Some:
  "m before s = Some (consumed, r) \<Longrightarrow> consumed \<noteq> [] \<Longrightarrow> s \<noteq> [] \<Longrightarrow>
     replace_all m before s = r @ replace_all m (rev consumed @ before) (drop (length consumed) s)"
  by (cases s) (simp_all add: replace_all.simps(2))

lemma replace_all_id:
  "(\<And>b s'. set s' \<subseteq> set s \<Longrightarrow> m b s' = None) \<Longrightarrow> replace_all m before s = s"
proof (induction s arbitrary: before)
  case (Cons c t)
  have "m before (c # t) = None" using Cons.prems by blast
  moreover have "replace_all m (c # before) t = t"
    using Cons.prems by (intro Cons.IH) auto
  ultimately show ?case by (simp add: replace_all_None)
qed simp

lemma plus_match:
  assumes "takeWhile p s \<noteq> []"
  shows "match_items [Plus p] s = Some [takeWhile p s]"
proof -
  let ?n = "length (takeWhile p s)"
  have "rev [1..<Suc ?n] = ?n # rev [1..<?n]" using assms by (cases ?n) simp_all
  then have "match_items [Plus p] s = Some [take ?n s]" by simp
  moreover have "take ?n s = takeWhile p s" by (metis takeWhile_eq_take)
  ultimately show ?thesis by simp
qed

end
