(* ===== verification/Core_Logging.thy ===== *)
theory Core_Logging
  imports Js_Regex Canonical_Json "HOL-Library.Sublist"
begin

text \<open>
  Redaction and the structured logger of Core (Backend/src/shared/logging). The values a caller logs may
  share and cycle, so they live in a heap of cells, and the guard against cycles is the set of
  addresses seen so far, threaded through the traversal.
\<close>

section \<open>Redaction of texts\<close>

definition REDACTED_MARK :: string where "REDACTED_MARK = ''***REDACTED***''"

definition SENSITIVE_KEY_HINTS :: "string list" where
  "SENSITIVE_KEY_HINTS = [''password'', ''passwd'', ''secret'', ''token'', ''apikey'', ''api_key'', ''api-key'',
     ''authorization'', ''auth'', ''cookie'', ''session'', ''private_key'', ''privatekey'', ''seed'', ''seed_phrase'',
     ''mnemonic'', ''signing'', ''signer'', ''bearer'', ''credential'', ''database_url'', ''databaseurl'', ''redis_url'',
     ''redisurl'']"

definition is_letter :: "char \<Rightarrow> bool" where
  "is_letter c \<longleftrightarrow> (let n = of_char (to_lower_char c) :: nat in 97 \<le> n \<and> n \<le> 122)"

definition token_char :: "char \<Rightarrow> bool" where
  "token_char c \<longleftrightarrow> is_letter c \<or> is_digit c \<or> c \<in> {CHR ''.'', CHR ''_'', CHR ''-''}"

definition word_char :: "char \<Rightarrow> bool" where
  "word_char c \<longleftrightarrow> is_letter c \<or> is_digit c \<or> c = CHR ''_''"

definition quote_char :: "char \<Rightarrow> bool" where
  "quote_char c \<longleftrightarrow> c = CHR 0x22 \<or> c = CHR 0x27"

definition bearer_before :: "string \<Rightarrow> bool" where
  "bearer_before before \<longleftrightarrow> (case before of [] \<Rightarrow> False
     | c # b \<Rightarrow> is_space c \<and> to_lower (rev (take 6 b)) = ''bearer'')"

definition bearer_pattern :: matcher where
  "bearer_pattern before s =
     (if bearer_before before then
        map_option (\<lambda>ps. (concat ps, REDACTED_MARK)) (match_items [Plus token_char] s)
      else None)"

definition kv_secret_pattern :: matcher where
  "kv_secret_pattern before s =
     map_option (\<lambda>ps. (concat ps, concat (butlast ps) @ REDACTED_MARK))
       (match_items [Opt quote_char, Words SENSITIVE_KEY_HINTS, Opt quote_char, Many is_space,
          One (\<lambda>c. c = CHR '':'' \<or> c = CHR ''=''), Many is_space, Opt quote_char,
          Plus (\<lambda>c. \<not> is_space c \<and> c \<notin> {CHR '','', CHR 0x22, CHR 0x27, CHR ''}''})] s)"

definition url_credential_pattern :: matcher where
  "url_credential_pattern before s =
     map_option (\<lambda>ps. (concat ps, concat (take 6 ps) @ REDACTED_MARK @ last ps))
       (match_items [Plus word_char, One (\<lambda>c. c = CHR '':''), One (\<lambda>c. c = CHR ''/''), One (\<lambda>c. c = CHR ''/''),
          Plus (\<lambda>c. c \<noteq> CHR '':'' \<and> c \<noteq> CHR ''/'' \<and> \<not> is_space c), One (\<lambda>c. c = CHR '':''),
          Plus (\<lambda>c. c \<noteq> CHR ''@'' \<and> \<not> is_space c), One (\<lambda>c. c = CHR ''@'')] s)"

definition redact_string :: "string \<Rightarrow> string" where
  "redact_string s =
     replace_all kv_secret_pattern [] (replace_all bearer_pattern [] (replace_all url_credential_pattern [] s))"

definition is_sensitive_key :: "string \<Rightarrow> bool" where
  "is_sensitive_key key \<longleftrightarrow> list_ex (\<lambda>hint. sublist hint (to_lower key)) SENSITIVE_KEY_HINTS"

section \<open>Redaction of values\<close>

type_synonym addr = nat

text \<open>\<open>LV_other\<close> is a function, a symbol or a bigint, with what \<open>String(value)\<close> makes of it.\<close>

datatype log_value =
    LV_null | LV_undefined | LV_text string | LV_number int | LV_boolean bool | LV_other string | LV_ref addr

datatype log_cell =
    Cell_array "log_value list" | Cell_error string string | Cell_object "(string \<times> log_value) list"

type_synonym log_heap = "addr \<Rightarrow> log_cell"

datatype log_tree =
    LT_null | LT_undefined | LT_text string | LT_number int | LT_boolean bool
  | LT_array "log_tree list" | LT_object "(string \<times> log_tree) list"

fun thread :: "('a \<Rightarrow> 's \<Rightarrow> 'b \<times> 's) \<Rightarrow> 'a list \<Rightarrow> 's \<Rightarrow> 'b list \<times> 's" where
  "thread f [] s = ([], s)"
| "thread f (x # xs) s = (case f x s of (y, s') \<Rightarrow> (case thread f xs s' of (ys, t) \<Rightarrow> (y # ys, t)))"

definition redact_member ::
    "(log_value \<Rightarrow> addr set \<Rightarrow> log_tree \<times> addr set) \<Rightarrow> string \<times> log_value \<Rightarrow> addr set \<Rightarrow>
     (string \<times> log_tree) \<times> addr set" where
  "redact_member go kv seen =
     (if is_sensitive_key (fst kv) then ((fst kv, LT_text REDACTED_MARK), seen)
      else (case go (snd kv) seen of (t, seen') \<Rightarrow> ((fst kv, t), seen')))"

definition redact_ref ::
    "(log_value \<Rightarrow> addr set \<Rightarrow> log_tree \<times> addr set) \<Rightarrow> log_heap \<Rightarrow> addr \<Rightarrow> addr set \<Rightarrow> log_tree \<times> addr set" where
  "redact_ref go H a seen =
     (case H a of
        Cell_array xs \<Rightarrow> map_prod LT_array id (thread go xs seen)
      | Cell_error name message \<Rightarrow>
          (LT_object [(''name'', LT_text name), (''message'', LT_text (redact_string message))], seen)
      | Cell_object kvs \<Rightarrow>
          if a \<in> seen then (LT_text ''[CIRCULAR]'', seen)
          else map_prod LT_object id (thread (redact_member go) kvs (insert a seen)))"

definition redact_scalar :: "log_value \<Rightarrow> log_tree option" where
  "redact_scalar v =
     (case v of
        LV_null \<Rightarrow> Some LT_null
      | LV_undefined \<Rightarrow> Some LT_undefined
      | LV_text s \<Rightarrow> Some (LT_text (redact_string s))
      | LV_number n \<Rightarrow> Some (LT_number n)
      | LV_boolean b \<Rightarrow> Some (LT_boolean b)
      | _ \<Rightarrow> None)"

text \<open>The first argument counts the levels left: \<open>depth > 8\<close> is zero levels.\<close>

primrec redact_at :: "nat \<Rightarrow> log_heap \<Rightarrow> log_value \<Rightarrow> addr set \<Rightarrow> log_tree \<times> addr set" where
  "redact_at 0 = (\<lambda>H v seen.
     (case redact_scalar v of Some t \<Rightarrow> (t, seen) | None \<Rightarrow> (LT_text ''[TRUNCATED]'', seen)))"
| "redact_at (Suc levels) = (\<lambda>H v seen.
     (case redact_scalar v of
        Some t \<Rightarrow> (t, seen)
      | None \<Rightarrow>
         (case v of
            LV_ref a \<Rightarrow> redact_ref (redact_at levels H) H a seen
          | LV_other s \<Rightarrow> (LT_text s, seen)
          | _ \<Rightarrow> (LT_undefined, seen))))"

definition redact_value :: "log_heap \<Rightarrow> log_value \<Rightarrow> log_tree" where
  "redact_value H v = fst (redact_at 9 H v {})"

text \<open>What \<open>JSON.stringify\<close> sees: undefined members are left out, undefined elements are null.\<close>

primrec tree_json :: "log_tree \<Rightarrow> json option" where
  "tree_json LT_null = Some JNull"
| "tree_json LT_undefined = None"
| "tree_json (LT_text s) = Some (JStr s)"
| "tree_json (LT_number n) = Some (JNum n)"
| "tree_json (LT_boolean b) = Some (JBool b)"
| "tree_json (LT_array ts) = Some (JArr (map (\<lambda>j. nullish j JNull) (map tree_json ts)))"
| "tree_json (LT_object kvs) =
     Some (JObj (List.map_filter (\<lambda>(k, j). map_option (Pair k) j) (map (map_prod id tree_json) kvs)))"

section \<open>Logger\<close>

datatype log_level = LEVEL_debug | LEVEL_info | LEVEL_warn | LEVEL_error

fun LOG_LEVEL_ORDER :: "log_level \<Rightarrow> nat" where
  "LOG_LEVEL_ORDER LEVEL_debug = 10"
| "LOG_LEVEL_ORDER LEVEL_info = 20"
| "LOG_LEVEL_ORDER LEVEL_warn = 30"
| "LOG_LEVEL_ORDER LEVEL_error = 40"

fun level_name :: "log_level \<Rightarrow> string" where
  "level_name LEVEL_debug = ''debug''"
| "level_name LEVEL_info = ''info''"
| "level_name LEVEL_warn = ''warn''"
| "level_name LEVEL_error = ''error''"

type_synonym log_context = "(string \<times> log_value) list"

record logger =
  ln_service :: string
  ln_level :: log_level
  ln_bound :: log_context

record logger_options =
  lo_service :: "string option"
  lo_level :: "log_level option"

definition new_logger :: "logger_options \<Rightarrow> log_context \<Rightarrow> logger" where
  "new_logger opts bound =
     \<lparr> ln_service = nullish (lo_service opts) ''sentinel-core'', ln_level = nullish (lo_level opts) LEVEL_info,
       ln_bound = bound \<rparr>"

text \<open>Object spread: a later key replaces the value and keeps the place of an earlier one.\<close>

fun set_member :: "string \<Rightarrow> log_value \<Rightarrow> log_context \<Rightarrow> log_context" where
  "set_member k v [] = [(k, v)]"
| "set_member k v ((k', v') # kvs) = (if k' = k then (k, v) # kvs else (k', v') # set_member k v kvs)"

definition spread_context :: "log_context \<Rightarrow> log_context \<Rightarrow> log_context" where
  "spread_context base extra = foldl (\<lambda>kvs kv. set_member (fst kv) (snd kv) kvs) base extra"

definition child :: "log_context \<Rightarrow> logger \<Rightarrow> logger" where
  "child context L = L\<lparr>ln_bound := spread_context (spread_context [] (ln_bound L)) context\<rparr>"

definition should_log :: "logger \<Rightarrow> log_level \<Rightarrow> bool" where
  "should_log L level \<longleftrightarrow> LOG_LEVEL_ORDER (ln_level L) \<le> LOG_LEVEL_ORDER level"

definition log_record :: "logger \<Rightarrow> log_level \<Rightarrow> string \<Rightarrow> log_context \<Rightarrow> string \<Rightarrow> log_context" where
  "log_record L level event data now =
     spread_context (spread_context [(''timestamp'', LV_text now), (''level'', LV_text (level_name level)),
       (''service'', LV_text (ln_service L)), (''event'', LV_text event)] (ln_bound L)) data"

text \<open>The line handed to the sink, if any; \<open>root\<close> is the address of the fresh record.\<close>

definition write_line ::
    "log_heap \<Rightarrow> addr \<Rightarrow> logger \<Rightarrow> log_level \<Rightarrow> string \<Rightarrow> log_context \<Rightarrow> string \<Rightarrow> string option" where
  "write_line H root L level event data now =
     (if \<not> should_log L level then None
      else Some (stringify (nullish (tree_json
        (redact_value (H(root := Cell_object (log_record L level event data now))) (LV_ref root))) JNull)))"

definition get_logger :: "logger option \<Rightarrow> logger \<times> logger option" where
  "get_logger root =
     (case root of
        None \<Rightarrow> (let L = new_logger \<lparr> lo_service = None, lo_level = None \<rparr> [] in (L, Some L))
      | Some L \<Rightarrow> (L, Some L))"

definition configure_logger :: "logger_options \<Rightarrow> logger \<times> logger option" where
  "configure_logger opts = (let L = new_logger opts [] in (L, Some L))"

section \<open>Lemmas on texts\<close>

lemma url_needs_at: "CHR ''@'' \<notin> set s \<Longrightarrow> replace_all url_credential_pattern before s = s"
proof (rule replace_all_id)
  fix b s' assume "CHR ''@'' \<notin> set s" "set s' \<subseteq> set s"
  then show "url_credential_pattern b s' = None"
    unfolding url_credential_pattern_def map_option_is_None
    by (intro not_Some_eq [THEN iffD1] allI notI) (drule match_items_needs [where p = "\<lambda>c. c = CHR ''@''"]; auto)
qed

lemma kv_needs_sign:
  assumes "CHR '':'' \<notin> set s" and "CHR ''='' \<notin> set s"
  shows "replace_all kv_secret_pattern before s = s"
proof (rule replace_all_id)
  fix b s' assume s': "set s' \<subseteq> set s"
  show "kv_secret_pattern b s' = None"
    unfolding kv_secret_pattern_def map_option_is_None
    by (intro not_Some_eq [THEN iffD1] allI notI)
      (drule match_items_needs [where p = "\<lambda>c. c = CHR '':'' \<or> c = CHR ''=''"]; use assms s' in auto)
qed

lemma token_not_space: "token_char c \<Longrightarrow> \<not> is_space c"
  by (auto simp: token_char_def is_letter_def is_digit_def is_space_def to_lower_char_def Let_def)

lemma bearer_no_space:
  "(\<forall>c \<in> set s. \<not> is_space c) \<Longrightarrow> \<not> bearer_before before \<Longrightarrow> replace_all bearer_pattern before s = s"
proof (induction s arbitrary: before)
  case (Cons c t)
  then have "bearer_pattern before (c # t) = None" "\<not> bearer_before (c # before)"
    by (simp_all add: bearer_pattern_def bearer_before_def)
  with Cons show ?case by (simp add: replace_all_None)
qed simp

lemma bearer_step:
  assumes "list_all token_char t" and "t \<noteq> []" and "u = [] \<or> \<not> token_char (hd u)" and "bearer_before before"
  shows "replace_all bearer_pattern before (t @ u) = REDACTED_MARK @ replace_all bearer_pattern (rev t @ before) u"
proof -
  have "takeWhile token_char (t @ u) = t"
    using assms(1,3) by (cases u) (auto simp: list_all_iff takeWhile_append2)
  then have "bearer_pattern before (t @ u) = Some (t, REDACTED_MARK)"
    using plus_match [of token_char "t @ u"] assms(2,4) by (simp add: bearer_pattern_def)
  from replace_all_Some [of bearer_pattern, OF this] assms(2) show ?thesis by simp
qed

lemma bearer_text:
  "replace_all bearer_pattern [] (''Bearer '' @ s) = ''Bearer '' @ replace_all bearer_pattern (rev ''Bearer '') s"
  by (simp add: replace_all_None bearer_pattern_def bearer_before_def is_space_def)

lemma bearer_before_text: "bearer_before (rev ''Bearer '')"
  by (simp add: bearer_before_def is_space_def to_lower_def to_lower_char_def char_of_def bit_Suc_0_iff)

lemma REDACTED_MARK_plain: "c \<in> set REDACTED_MARK \<Longrightarrow> c \<noteq> CHR '':'' \<and> c \<noteq> CHR ''='' \<and> c \<noteq> CHR ''@''"
  by (auto simp: REDACTED_MARK_def)

text \<open>
  A text of the form \<open>Bearer t u\<close> where \<open>u\<close> starts outside the token alphabet: the token is
  replaced, the rest stays.
\<close>

lemma redact_bearer:
  assumes "list_all token_char t" and "t \<noteq> []" and "u = [] \<or> \<not> token_char (hd u)"
    and "\<forall>c \<in> set u. \<not> is_space c \<and> c \<noteq> CHR '':'' \<and> c \<noteq> CHR ''='' \<and> c \<noteq> CHR ''@''"
  shows "redact_string (''Bearer '' @ t @ u) = ''Bearer '' @ REDACTED_MARK @ u"
proof -
  have "\<not> token_char (CHR '':'')" "\<not> token_char (CHR ''='')" "\<not> token_char (CHR ''@'')"
    by (simp_all add: token_char_def is_letter_def is_digit_def to_lower_char_def)
  then have tok: "token_char c \<Longrightarrow> c \<noteq> CHR '':'' \<and> c \<noteq> CHR ''='' \<and> c \<noteq> CHR ''@''" for c by metis
  have url: "replace_all url_credential_pattern [] (''Bearer '' @ t @ u) = ''Bearer '' @ t @ u"
  proof (rule url_needs_at)
    have "\<forall>c \<in> set t. token_char c" using assms(1) by (simp add: list_all_iff)
    then have "CHR ''@'' \<notin> set t" using tok by blast
    moreover have "CHR ''@'' \<notin> set u" using assms(4) by blast
    ultimately show "CHR ''@'' \<notin> set (''Bearer '' @ t @ u)" by simp
  qed
  have "\<not> bearer_before (rev t @ rev ''Bearer '')"
    using assms(1,2) token_not_space by (cases t rule: rev_cases) (auto simp: bearer_before_def)
  then have b: "replace_all bearer_pattern (rev t @ rev ''Bearer '') u = u"
    using assms(4) by (intro bearer_no_space) auto
  have "replace_all bearer_pattern [] (''Bearer '' @ t @ u) = ''Bearer '' @ REDACTED_MARK @ u"
    unfolding bearer_text bearer_step [OF assms(1-3) bearer_before_text] b ..
  moreover have "replace_all kv_secret_pattern [] (''Bearer '' @ REDACTED_MARK @ u) = ''Bearer '' @ REDACTED_MARK @ u"
  proof (intro kv_needs_sign)
    have "x \<notin> set u \<and> x \<notin> set REDACTED_MARK" if "x = CHR '':'' \<or> x = CHR ''=''" for x
      using that assms(4) REDACTED_MARK_plain by blast
    then show "CHR '':'' \<notin> set (''Bearer '' @ REDACTED_MARK @ u)" "CHR ''='' \<notin> set (''Bearer '' @ REDACTED_MARK @ u)"
      by simp_all
  qed
  ultimately show ?thesis using url by (simp add: redact_string_def)
qed

section \<open>Lemmas on values\<close>

definition same_member :: "string \<times> log_value \<Rightarrow> string \<times> log_value \<Rightarrow> bool" where
  "same_member m n \<longleftrightarrow> fst m = fst n \<and> (is_sensitive_key (fst m) \<or> snd m = snd n)"

text \<open>Two heaps that differ in the values of sensitive members only.\<close>

definition same_cell :: "log_cell \<Rightarrow> log_cell \<Rightarrow> bool" where
  "same_cell c d =
     (case (c, d) of
        (Cell_object kvs, Cell_object kvs') \<Rightarrow> list_all2 same_member kvs kvs'
      | _ \<Rightarrow> c = d)"

lemma same_member_refl [simp]: "same_member m m" "list_all2 same_member ms ms"
  by (simp_all add: same_member_def list_all2_refl)

lemma same_cell_refl [simp]: "same_cell c c"
  by (cases c) (simp_all add: same_cell_def)

lemma thread_same:
  "list_all2 R xs ys \<Longrightarrow> (\<And>x y s. R x y \<Longrightarrow> f x s = g y s) \<Longrightarrow> thread f xs s = thread g ys s"
  by (induction xs ys arbitrary: s rule: list_all2_induct) simp_all

lemma redact_ref_same: "same_cell (H a) (H' a) \<Longrightarrow> redact_ref go H a seen = redact_ref go H' a seen"
proof (cases "H a")
  case (Cell_object kvs)
  moreover assume "same_cell (H a) (H' a)"
  ultimately obtain kvs' where k: "H' a = Cell_object kvs'" "list_all2 same_member kvs kvs'"
    by (cases "H' a") (simp_all add: same_cell_def)
  have "thread (redact_member go) kvs seen = thread (redact_member go) kvs' seen" for seen
    using k(2) by (rule thread_same) (auto simp: same_member_def redact_member_def)
  with Cell_object k show ?thesis by (simp add: redact_ref_def)
qed (auto simp: redact_ref_def same_cell_def split: log_cell.splits)

text \<open>Redaction does not depend on the values of sensitive members, at any depth.\<close>

lemma redact_at_same: "(\<And>a. same_cell (H a) (H' a)) \<Longrightarrow> redact_at n H = redact_at n H'"
proof (induction n)
  case 0
  show ?case by simp
next
  case (Suc n)
  have "redact_ref (redact_at n H) H a seen = redact_ref (redact_at n H') H' a seen" for a seen
    using redact_ref_same [of H a H' "redact_at n H" seen] Suc.prems [of a] Suc.IH [OF Suc.prems] by simp
  then show ?case by (simp add: fun_eq_iff split: option.splits log_value.splits)
qed

lemma set_member_same:
  "list_all2 same_member kvs kvs' \<Longrightarrow> same_member (k, v) (k, v') \<Longrightarrow>
     list_all2 same_member (set_member k v kvs) (set_member k v' kvs')"
proof (induction kvs kvs' rule: list_all2_induct)
  case (Cons x xs y ys)
  moreover from this have "fst x = fst y" by (simp add: same_member_def)
  ultimately show ?case by (cases x; cases y) (simp add: same_member_def [of "(k, v)"])
qed simp

lemma spread_same:
  assumes "list_all2 same_member xs ys" and "list_all2 same_member kvs kvs'"
  shows "list_all2 same_member (spread_context kvs xs) (spread_context kvs' ys)"
  using assms
proof (induction xs ys arbitrary: kvs kvs' rule: list_all2_induct)
  case (Cons x xs y ys)
  have "list_all2 same_member (set_member (fst x) (snd x) kvs) (set_member (fst y) (snd y) kvs')"
    using set_member_same [OF Cons.prems, of "fst x" "snd x" "snd y"] Cons.hyps(1) by (auto simp: same_member_def)
  from Cons.IH [OF this] show ?case by (simp add: spread_context_def)
qed (simp add: spread_context_def)

lemma write_line_same:
  assumes "\<And>a. same_cell (H a) (H' a)" and "list_all2 same_member data data'"
    and "list_all2 same_member bound bound'"
  shows "write_line H root (L\<lparr>ln_bound := bound\<rparr>) level event data now
    = write_line H' root (L\<lparr>ln_bound := bound'\<rparr>) level event data' now"
proof -
  have "same_cell (Cell_object (log_record (L\<lparr>ln_bound := bound\<rparr>) level event data now))
      (Cell_object (log_record (L\<lparr>ln_bound := bound'\<rparr>) level event data' now))"
    using assms(2,3) by (simp add: same_cell_def log_record_def spread_same)
  with assms(1) have "redact_at 9 (H(root := Cell_object (log_record (L\<lparr>ln_bound := bound\<rparr>) level event data now)))
      = redact_at 9 (H'(root := Cell_object (log_record (L\<lparr>ln_bound := bound'\<rparr>) level event data' now)))"
    by (intro redact_at_same) simp
  then show ?thesis by (simp add: write_line_def redact_value_def should_log_def)
qed

fun members_redacted :: "log_tree \<Rightarrow> bool" where
  "members_redacted (LT_array ts) = (\<forall>t \<in> set ts. members_redacted t)"
| "members_redacted (LT_object kvs) = (\<forall>kv \<in> set kvs.
     (is_sensitive_key (fst kv) \<longrightarrow> snd kv = LT_text REDACTED_MARK) \<and> members_redacted (snd kv))"
| "members_redacted _ = True"

lemma thread_all:
  "(\<And>x s. x \<in> set xs \<Longrightarrow> P (fst (f x s))) \<Longrightarrow> \<forall>y \<in> set (fst (thread f xs s)). P y"
proof (induction xs arbitrary: s)
  case (Cons x xs)
  have "P (fst (f x s))" "\<forall>y \<in> set (fst (thread f xs (snd (f x s)))). P y"
    using Cons by simp_all
  then show ?case by (cases "f x s") (auto split: prod.splits)
qed simp

lemma error_keys_plain: "\<not> is_sensitive_key ''name''" "\<not> is_sensitive_key ''message''"
  by (simp_all add: is_sensitive_key_def SENSITIVE_KEY_HINTS_def to_lower_def to_lower_char_def
      sublist_Cons_right prefix_Cons)

lemma redact_scalar_members: "redact_scalar v = Some t \<Longrightarrow> members_redacted t"
  by (auto simp: redact_scalar_def split: log_value.splits)

lemma redact_at_members: "members_redacted (fst (redact_at n H v seen))"
proof (induction n arbitrary: v seen)
  case 0
  show ?case using redact_scalar_members by (auto split: option.splits)
next
  case (Suc n)
  have go: "members_redacted (snd (fst (redact_member (redact_at n H) kv s)))
      \<and> (is_sensitive_key (fst (fst (redact_member (redact_at n H) kv s)))
          \<longrightarrow> snd (fst (redact_member (redact_at n H) kv s)) = LT_text REDACTED_MARK)" for kv s
    using Suc [of "snd kv" s] by (auto simp: redact_member_def split: prod.splits)
  have "members_redacted (fst (redact_ref (redact_at n H) H a seen))" for a
  proof (cases "H a")
    case (Cell_array xs)
    then show ?thesis using thread_all [of xs members_redacted "redact_at n H" seen] Suc by (simp add: redact_ref_def)
  next
    case (Cell_error n m)
    then show ?thesis using error_keys_plain by (simp add: redact_ref_def)
  next
    case (Cell_object kvs)
    then show ?thesis
      using thread_all [of kvs "\<lambda>kv. members_redacted (snd kv) \<and> (is_sensitive_key (fst kv) \<longrightarrow> snd kv = LT_text REDACTED_MARK)"
        "redact_member (redact_at n H)" "insert a seen"] go
      by (simp add: redact_ref_def)
  qed
  then show ?case using redact_scalar_members by (auto split: option.splits log_value.splits)
qed

section \<open>Properties\<close>

text \<open>
  C21: Nothing a caller logs under a sensitive key reaches the sink: the line does not depend on the
  values of such members, wherever in the logged data, the bound context or the objects they
  refer to they occur, at any depth and through shared or cyclic references.
\<close>

theorem log_line_noninterference:
  assumes "\<And>a. same_cell (H a) (H' a)" and "list_all2 same_member data data'"
    and "list_all2 same_member bound bound'"
  shows "write_line H root (L\<lparr>ln_bound := bound\<rparr>) level event data now
    = write_line H' root (L\<lparr>ln_bound := bound'\<rparr>) level event data' now"
  by (rule write_line_same [OF assms])

theorem log_line_noninterference_witness:
  "write_line (\<lambda>a. Cell_array []) 1 \<lparr> ln_service = ''core'', ln_level = LEVEL_info, ln_bound = [] \<rparr> LEVEL_warn ''e''
       [(''token'', LV_text ''abc'')] ''now''
   = write_line (\<lambda>a. Cell_array []) 1 \<lparr> ln_service = ''core'', ln_level = LEVEL_info, ln_bound = [] \<rparr> LEVEL_warn ''e''
       [(''token'', LV_text ''xyz'')] ''now''"
proof -
  have "is_sensitive_key ''token''"
    by (simp add: is_sensitive_key_def SENSITIVE_KEY_HINTS_def to_lower_def to_lower_char_def)
  then have "list_all2 same_member [(''token'', LV_text ''abc'')] [(''token'', LV_text ''xyz'')]"
    by (simp add: same_member_def)
  from log_line_noninterference [of "\<lambda>a. Cell_array []" "\<lambda>a. Cell_array []", OF _ this, of "[]" "[]" 1
      "\<lparr> ln_service = ''core'', ln_level = LEVEL_info, ln_bound = [] \<rparr>"]
  show ?thesis by simp
qed

text \<open>In a redacted value every member under a sensitive key is the mark, and a scalar text is scrubbed.\<close>

theorem redacted_members_marked:
  "members_redacted (redact_value H v) \<and> redact_value H (LV_text s) = LT_text (redact_string s)"
  using redact_at_members [of 9 H v "{}"] by (simp add: redact_value_def numeral_eq_Suc redact_scalar_def)

text \<open>
  A bearer token of the expected alphabet is replaced; but a character outside that alphabet, as
  the \<open>/\<close> and \<open>+\<close> of base64, ends the match, and the rest of the token stays in the text.
\<close>

theorem bearer_token_tail_leaks:
  assumes "list_all token_char t" and "t \<noteq> []" and "list_all token_char u" and "c \<in> {CHR ''/'', CHR ''+'', CHR ''~''}"
  shows "redact_string (''Bearer '' @ t) = ''Bearer '' @ REDACTED_MARK
    \<and> redact_string (''Bearer '' @ t @ c # u) = ''Bearer '' @ REDACTED_MARK @ c # u"
proof -
  have "\<not> token_char (CHR '':'')" "\<not> token_char (CHR ''='')" "\<not> token_char (CHR ''@'')"
    by (simp_all add: token_char_def is_letter_def is_digit_def to_lower_char_def)
  then have tok: "token_char x \<Longrightarrow> \<not> is_space x \<and> x \<noteq> CHR '':'' \<and> x \<noteq> CHR ''='' \<and> x \<noteq> CHR ''@''" for x
    using token_not_space by metis
  have c: "\<not> token_char c" "\<not> is_space c \<and> c \<noteq> CHR '':'' \<and> c \<noteq> CHR ''='' \<and> c \<noteq> CHR ''@''"
    using assms(4) by (auto simp: token_char_def is_letter_def is_digit_def to_lower_char_def is_space_def)
  have "\<forall>x \<in> set (c # u). \<not> is_space x \<and> x \<noteq> CHR '':'' \<and> x \<noteq> CHR ''='' \<and> x \<noteq> CHR ''@''"
    using c(2) assms(3) tok unfolding list_all_iff by (metis set_ConsD)
  with c(1) redact_bearer [OF assms(1,2), of "c # u"] redact_bearer [OF assms(1,2), of "[]"] show ?thesis by simp
qed

theorem bearer_token_tail_leaks_witness:
  "redact_string (''Bearer '' @ ''ab'' @ CHR ''/'' # ''cd'') = ''Bearer '' @ REDACTED_MARK @ CHR ''/'' # ''cd''"
proof -
  have "list_all token_char ''ab''" "list_all token_char ''cd''"
    by (simp_all add: token_char_def is_letter_def to_lower_char_def)
  then show ?thesis using bearer_token_tail_leaks [of "''ab''" "''cd''" "CHR ''/''"] by simp
qed

end
