(* ===== verification/Core_Runtime.thy ===== *)
theory Core_Runtime
  imports Core_Logging Http_Boundary Financial_State
begin

text \<open>
  The operational edge of Core: correlation of requests, the response envelopes and the error
  payload (Backend/src/api/middleware, api/http/envelope.ts, shared/errors), health and readiness
  (api/health, api/routes/system.ts), spans (shared/telemetry) and the configuration singleton.
  Probes, generated ids and the tracer's package are parameters.
\<close>

section \<open>Correlation\<close>

record request_context =
  rq_request_id :: string
  rq_correlation_id :: string
  rq_company_id :: "string option"
  rq_actor_id :: "string option"
  rq_agent_id :: "string option"
  rq_trace_id :: "string option"

definition generated_id :: "string \<Rightarrow> string \<Rightarrow> string" where
  "generated_id tag uuid = tag @ take 16 (filter (\<lambda>c. c \<noteq> CHR ''-'') uuid)"

definition request_context_of :: "headers \<Rightarrow> string \<Rightarrow> string \<Rightarrow> request_context" where
  "request_context_of h uuid uuid' =
     \<lparr> rq_request_id = nullish (header h ''x-request-id'') (generated_id ''req_'' uuid),
       rq_correlation_id = nullish (header h ''x-correlation-id'') (generated_id ''corr_'' uuid'),
       rq_company_id = header h ''x-company-id'', rq_actor_id = header h ''x-actor-id'',
       rq_agent_id = header h ''x-agent-id'', rq_trace_id = header h ''x-trace-id'' \<rparr>"

definition request_log_context :: "request_context \<Rightarrow> log_context" where
  "request_log_context c =
     [(''request_id'', LV_text (rq_request_id c)), (''correlation_id'', LV_text (rq_correlation_id c))]
     @ (if truthy (rq_company_id c) then [(''company_id'', LV_text (the (rq_company_id c)))] else [])
     @ (if truthy (rq_agent_id c) then [(''agent_id'', LV_text (the (rq_agent_id c)))] else [])"

text \<open>The hook: the request's context, its logger, the headers set on the reply, and the logger singleton.\<close>

definition on_request ::
    "headers \<Rightarrow> string \<Rightarrow> string \<Rightarrow> logger option \<Rightarrow>
     request_context \<times> logger \<times> (string \<times> string) list \<times> logger option" where
  "on_request h uuid uuid' singleton =
     (let c = request_context_of h uuid uuid'; (L, singleton') = get_logger singleton
      in (c, child (request_log_context c) L,
          [(''x-request-id'', rq_request_id c), (''x-correlation-id'', rq_correlation_id c)], singleton'))"

section \<open>Envelopes\<close>

record error_payload =
  pl_code :: error_code
  pl_message :: string
  pl_retryable :: bool
  pl_details :: log_tree

definition to_payload :: "core_error \<Rightarrow> string \<Rightarrow> log_heap \<Rightarrow> addr \<Rightarrow> error_payload" where
  "to_payload e message H details =
     \<lparr> pl_code = err_code e, pl_message = message, pl_retryable = err_retryable e,
       pl_details = redact_value H (LV_ref details) \<rparr>"

record ('d, 'm) api_envelope =
  ev_request_id :: string
  ev_data :: "'d option"
  ev_error :: "error_payload option"
  ev_meta :: 'm

record 'm envelope_meta =
  em_request_id :: "string option"
  em_correlation_id :: string
  em_extra :: 'm

definition request_id_of :: "request_context option \<Rightarrow> string" where
  "request_id_of ctx = nullish (map_option rq_request_id ctx) ''req_unknown''"

definition base_meta :: "request_context option \<Rightarrow> 'm \<Rightarrow> 'm envelope_meta" where
  "base_meta ctx extra =
     \<lparr> em_request_id = None, em_correlation_id = nullish (map_option rq_correlation_id ctx) ''corr_unknown'',
       em_extra = extra \<rparr>"

definition ok_envelope :: "request_context option \<Rightarrow> 'd option \<Rightarrow> 'm \<Rightarrow> ('d, 'm envelope_meta) api_envelope" where
  "ok_envelope ctx data meta =
     \<lparr> ev_request_id = request_id_of ctx, ev_data = data, ev_error = None, ev_meta = base_meta ctx meta \<rparr>"

definition fail_envelope :: "request_context option \<Rightarrow> error_payload \<Rightarrow> ('d, unit envelope_meta) api_envelope" where
  "fail_envelope ctx e =
     \<lparr> ev_request_id = request_id_of ctx, ev_data = None, ev_error = Some e, ev_meta = base_meta ctx () \<rparr>"

definition meta_of :: "request_context option \<Rightarrow> 'm \<Rightarrow> 'm envelope_meta" where
  "meta_of ctx extra =
     \<lparr> em_request_id = Some (request_id_of ctx),
       em_correlation_id = nullish (map_option rq_correlation_id ctx) ''corr_unknown'', em_extra = extra \<rparr>"

definition success_envelope :: "request_context option \<Rightarrow> 'd \<Rightarrow> 'm \<Rightarrow> 'd \<times> 'm envelope_meta" where
  "success_envelope ctx data extra = (data, meta_of ctx extra)"

definition error_envelope :: "request_context option \<Rightarrow> error_payload \<Rightarrow> ('d, unit envelope_meta) api_envelope" where
  "error_envelope ctx e =
     \<lparr> ev_request_id = request_id_of ctx, ev_data = None, ev_error = Some e, ev_meta = meta_of ctx () \<rparr>"

text \<open>
  The error handler: the status, the envelope, and the event it logs. The message and the
  details are those of the error it was given, or of the one \<open>toCoreError\<close> made.
\<close>

definition handle_error ::
    "request_context option \<Rightarrow> thrown \<Rightarrow> string \<Rightarrow> log_heap \<Rightarrow> addr \<Rightarrow>
     nat \<times> (unit, unit envelope_meta) api_envelope \<times> log_level \<times> string" where
  "handle_error ctx t message H details =
     (let e = to_core_error t
      in (err_http_status e, error_envelope ctx (to_payload e message H details),
          (if err_code e = INTERNAL_ERROR then (LEVEL_error, ''unhandled_error'') else (LEVEL_warn, ''handled_error''))))"

definition handle_not_found ::
    "request_context option \<Rightarrow> log_heap \<Rightarrow> addr \<Rightarrow> nat \<times> (unit, unit envelope_meta) api_envelope" where
  "handle_not_found ctx H details =
     (let e = core_error_of NOT_FOUND (default_options\<lparr>opt_severity := Some SEV_LOW\<rparr>)
      in (err_http_status e, error_envelope ctx (to_payload e ''Resource not found.'' H details)))"

section \<open>Health\<close>

datatype dependency_state = DEP_ok | DEP_not_configured | DEP_unavailable | DEP_skipped

record dependency_status =
  ds_status :: dependency_state
  ds_detail :: "string option"

record readiness_report =
  rd_ready :: bool
  rd_dependencies :: "(string \<times> dependency_status) list"

text \<open>A probe may be absent; one that runs answers or throws.\<close>

datatype probe = Probe_answers bool | Probe_throws

record readiness_probes =
  pb_postgres :: "probe option"
  pb_redis :: "probe option"

definition liveness :: "core_config \<Rightarrow> string \<times> string" where
  "liveness c = (cg_service_name c, cg_version c)"

definition check_dependency :: "string option \<Rightarrow> probe option \<Rightarrow> bool \<Rightarrow> dependency_status" where
  "check_dependency url probe required_for_mode =
     (if \<not> truthy url then
        (if required_for_mode
         then \<lparr> ds_status = DEP_unavailable, ds_detail = Some ''not configured (required for mode)'' \<rparr>
         else \<lparr> ds_status = DEP_not_configured, ds_detail = None \<rparr>)
      else
       (case probe of
          None \<Rightarrow> \<lparr> ds_status = DEP_skipped, ds_detail = Some ''configured; live probe added in a later phase'' \<rparr>
        | Some (Probe_answers b) \<Rightarrow> \<lparr> ds_status = (if b then DEP_ok else DEP_unavailable), ds_detail = None \<rparr>
        | Some Probe_throws \<Rightarrow> \<lparr> ds_status = DEP_unavailable, ds_detail = None \<rparr>))"

definition dependency_ready :: "dependency_status \<Rightarrow> bool" where
  "dependency_ready d \<longleftrightarrow> ds_status d = DEP_ok \<or> ds_status d = DEP_not_configured \<or> ds_status d = DEP_skipped"

definition readiness :: "core_config \<Rightarrow> readiness_probes \<Rightarrow> readiness_report" where
  "readiness c probes =
     (let strict = is_strict (cg_environment c);
          dependencies =
            [(''postgres'', check_dependency (cg_database_url c) (pb_postgres probes) strict),
             (''redis'', check_dependency (cg_redis_url c) (pb_redis probes) strict),
             (''configuration'',
               (if strict \<and> (\<not> truthy (cg_database_url c) \<or> \<not> truthy (cg_redis_url c))
                then \<lparr> ds_status = DEP_unavailable,
                       ds_detail = Some ''required datastore configuration missing for this mode'' \<rparr>
                else \<lparr> ds_status = DEP_ok, ds_detail = None \<rparr>))]
      in \<lparr> rd_ready = list_all (\<lambda>d. dependency_ready (snd d)) dependencies, rd_dependencies = dependencies \<rparr>)"

definition ready_route :: "core_config \<Rightarrow> readiness_probes \<Rightarrow> nat \<times> string \<times> (string \<times> dependency_status) list" where
  "ready_route c probes =
     (let r = readiness c probes
      in (if rd_ready r then 200 else 503, if rd_ready r then ''ready'' else ''not_ready'', rd_dependencies r))"

record version_info =
  vi_service :: string
  vi_version :: string
  vi_api_version :: string
  vi_environment :: core_environment
  vi_network :: string
  vi_execution_mode :: string

definition version_route :: "core_config \<Rightarrow> version_info" where
  "version_route c =
     \<lparr> vi_service = cg_service_name c, vi_version = cg_version c, vi_api_version = ''v1'',
       vi_environment = cg_environment c, vi_network = cg_network c, vi_execution_mode = cg_execution_mode c \<rparr>"

section \<open>Configuration singleton\<close>

definition get_config ::
    "(string \<Rightarrow> bool) \<Rightarrow> env \<Rightarrow> core_config option \<Rightarrow> (configuration_error + core_config) \<times> core_config option" where
  "get_config is_url env cached =
     (case cached of
        Some c \<Rightarrow> (Inr c, cached)
      | None \<Rightarrow> (case load_config is_url env of Inl e \<Rightarrow> (Inl e, None) | Inr c \<Rightarrow> (Inr c, Some c)))"

definition set_config_for_tests :: "core_config option \<Rightarrow> core_config option" where
  "set_config_for_tests c = c"

section \<open>Telemetry\<close>

record telemetry =
  tm_enabled :: bool
  tm_tracer :: "string option"

record telemetry_options =
  tp_enabled :: bool
  tp_service_name :: "string option"

definition configure_telemetry :: "bool \<Rightarrow> telemetry_options \<Rightarrow> telemetry" where
  "configure_telemetry package_loads opts =
     (if \<not> tp_enabled opts then \<lparr> tm_enabled = False, tm_tracer = None \<rparr>
      else if package_loads
      then \<lparr> tm_enabled = True, tm_tracer = Some (nullish (tp_service_name opts) ''sentinel-core'') \<rparr>
      else \<lparr> tm_enabled = False, tm_tracer = None \<rparr>)"

text \<open>Attributes are scalars; the cleaned object keeps those members that are scalars.\<close>

definition safe_attributes :: "log_heap \<Rightarrow> addr \<Rightarrow> (string \<times> log_tree) list" where
  "safe_attributes H attrs =
     (case redact_value H (LV_ref attrs) of
        LT_object kvs \<Rightarrow> filter (\<lambda>(k, t). case t of LT_text _ \<Rightarrow> True | LT_number _ \<Rightarrow> True | LT_boolean _ \<Rightarrow> True | _ \<Rightarrow> False) kvs
      | _ \<Rightarrow> [])"

datatype span_event =
    Span_start string | Span_attribute string log_tree | Span_exception | Span_error_status | Span_end

definition with_span ::
    "telemetry \<Rightarrow> log_heap \<Rightarrow> string \<Rightarrow> addr \<Rightarrow> ('s, 'e, 'a) op \<Rightarrow> 's \<Rightarrow> (('e + 'a) \<times> 's) \<times> span_event list" where
  "with_span tm H name attrs f s =
     (if \<not> tm_enabled tm \<or> tm_tracer tm = None then (f s, [])
      else
       (f s, [Span_start name] @ map (\<lambda>(k, t). Span_attribute k t) (safe_attributes H attrs)
          @ (case fst (f s) of Inl _ \<Rightarrow> [Span_exception, Span_error_status] | Inr _ \<Rightarrow> []) @ [Span_end]))"

section \<open>Lemmas\<close>

lemma check_dependency_ready:
  "dependency_ready (check_dependency url probe required) \<longleftrightarrow>
     (if truthy url then probe \<noteq> Some Probe_throws \<and> probe \<noteq> Some (Probe_answers False) else \<not> required)"
  by (auto simp: check_dependency_def dependency_ready_def split: option.splits probe.splits)

text \<open>A configuration that was loaded is never the reason why Core is not ready: only a failing probe is.\<close>

lemma readiness_loaded:
  assumes "load_config is_url env = Inr c"
  shows "rd_ready (readiness c probes) \<longleftrightarrow>
     (\<forall>(url, probe) \<in> {(cg_database_url c, pb_postgres probes), (cg_redis_url c, pb_redis probes)}.
        truthy url \<longrightarrow> probe \<noteq> Some Probe_throws \<and> probe \<noteq> Some (Probe_answers False))"
proof -
  have strict: "is_strict (cg_environment c) \<Longrightarrow> truthy (cg_database_url c) \<and> truthy (cg_redis_url c)"
    using load_config_strict [OF assms] by blast
  have "rd_ready (readiness c probes) \<longleftrightarrow>
      dependency_ready (check_dependency (cg_database_url c) (pb_postgres probes) (is_strict (cg_environment c)))
    \<and> dependency_ready (check_dependency (cg_redis_url c) (pb_redis probes) (is_strict (cg_environment c)))"
    using strict by (auto simp: readiness_def Let_def dependency_ready_def)
  then show ?thesis using strict by (auto simp: check_dependency_ready)
qed

text \<open>A second call never reads the environment again.\<close>

lemma get_config_cached:
  "get_config is_url env cached = (Inr c, cached') \<Longrightarrow>
     cached' = Some c \<and> get_config is_url' env' cached' = (Inr c, Some c)"
  by (auto simp: get_config_def split: option.splits sum.splits)

text \<open>The payload an error answer carries does not depend on sensitive members of its details.\<close>

lemma to_payload_same: "(\<And>a. same_cell (H a) (H' a)) \<Longrightarrow> to_payload e m H d = to_payload e m H' d"
  using redact_at_same [of H H'] by (simp add: to_payload_def redact_value_def)

section \<open>Properties\<close>

text \<open>
  Readiness of a Core that started: it is ready exactly when no configured datastore's probe
  failed; the required configuration was already enforced by the loader.
\<close>

theorem ready_iff_probes_pass:
  assumes "load_config is_url env = Inr c"
  shows "fst (ready_route c probes) = 200 \<longleftrightarrow>
     (\<forall>(url, probe) \<in> {(cg_database_url c, pb_postgres probes), (cg_redis_url c, pb_redis probes)}.
        truthy url \<longrightarrow> probe \<noteq> Some Probe_throws \<and> probe \<noteq> Some (Probe_answers False))"
  unfolding readiness_loaded [OF assms, symmetric] by (simp add: ready_route_def Let_def)

theorem ready_iff_probes_pass_witness:
  "\<exists>c. load_config (\<lambda>s. False) Map.empty = Inr c
     \<and> fst (ready_route c \<lparr> pb_postgres = Some Probe_throws, pb_redis = None \<rparr>) = 200"
proof -
  have "\<exists>c. load_config (\<lambda>s. False) Map.empty = Inr c \<and> cg_database_url c = None \<and> cg_redis_url c = None"
    by (simp add: load_config_def parse_config_def environment_field_def port_field_def enum_field_def LOG_LEVELS_def
        EXECUTION_MODES_def non_empty_field_def url_field_def validate_required_for_mode_def is_strict_def)
  then obtain c where c: "load_config (\<lambda>s. False) Map.empty = Inr c" "cg_database_url c = None" "cg_redis_url c = None"
    by blast
  with ready_iff_probes_pass [OF c(1), of "\<lparr> pb_postgres = Some Probe_throws, pb_redis = None \<rparr>"] show ?thesis by auto
qed

text \<open>
  Tracing is transparent: an operation inside a span has the outcome and the effect it has
  without one, whatever the telemetry's state, and a span that starts ends, exactly once and last.
\<close>

theorem span_transparent:
  "fst (with_span tm H name attrs f s) = f s
     \<and> (snd (with_span tm H name attrs f s) = []
        \<or> (\<exists>es. snd (with_span tm H name attrs f s) = Span_start name # es @ [Span_end]
             \<and> Span_end \<notin> set es \<and> (Span_exception \<in> set es \<longleftrightarrow> (\<exists>e. fst (f s) = Inl e))))"
proof (cases "\<not> tm_enabled tm \<or> tm_tracer tm = None")
  case True
  then show ?thesis by (auto simp: with_span_def)
next
  case False
  let ?es = "map (\<lambda>(k, t). Span_attribute k t) (safe_attributes H attrs)
      @ (case fst (f s) of Inl _ \<Rightarrow> [Span_exception, Span_error_status] | Inr _ \<Rightarrow> [])"
  have "snd (with_span tm H name attrs f s) = Span_start name # ?es @ [Span_end]"
    using False by (simp add: with_span_def)
  moreover have "Span_end \<notin> set ?es" "Span_exception \<in> set ?es \<longleftrightarrow> (\<exists>e. fst (f s) = Inl e)"
    by (cases "fst (f s)"; auto)+
  ultimately show ?thesis using False by (auto simp: with_span_def)
qed

end
