(* ===== verification/Core_Startup.thy ===== *)
theory Core_Startup
  imports Client_Selection Core_Runtime
begin

text \<open>
  The start of Core: the entry point (Backend/src/server.ts) and the bootstrap of the application
  (Backend/src/api/app.ts). The module-level variables of configuration, logger and telemetry are the
  state of the process; the routes themselves are in Api_Router.
\<close>

section \<open>The process\<close>

record core_process =
  cp_config :: "core_config option"
  cp_logger :: "logger option"
  cp_telemetry :: telemetry
  cp_client :: "execution_client option"

definition new_process :: core_process where
  "new_process = \<lparr> cp_config = None, cp_logger = None, cp_telemetry = \<lparr> tm_enabled = False, tm_tracer = None \<rparr>, cp_client = None \<rparr>"

datatype startup_error = Startup_config configuration_error | Startup_client execution_error

text \<open>The levels of the configuration are those of the logger.\<close>

definition log_level_of :: "string \<Rightarrow> log_level" where
  "log_level_of s =
     (if s = ''debug'' then LEVEL_debug else if s = ''warn'' then LEVEL_warn else if s = ''error'' then LEVEL_error else LEVEL_info)"

definition bootstrap_app ::
    "(string \<Rightarrow> bool) \<Rightarrow> bool \<Rightarrow> blockchain_package \<Rightarrow> env \<Rightarrow> core_config option \<Rightarrow> core_process \<Rightarrow>
     (startup_error + core_config) \<times> core_process" where
  "bootstrap_app is_url otel_loads package env given p =
     (case (case given of Some c \<Rightarrow> (Inr c, set_config_for_tests (Some c)) | None \<Rightarrow> get_config is_url env (cp_config p)) of
        (Inl e, cached) \<Rightarrow> (Inl (Startup_config e), p\<lparr>cp_config := cached\<rparr>)
      | (Inr resolved, cached) \<Rightarrow>
         (let p1 = p\<lparr>cp_config := cached,
                cp_logger := snd (configure_logger \<lparr> lo_service = Some (cg_service_name resolved),
                  lo_level = Some (log_level_of (cg_log_level resolved)) \<rparr>),
                cp_telemetry := configure_telemetry otel_loads \<lparr> tp_enabled = cg_otel_enabled resolved,
                  tp_service_name = Some (cg_service_name resolved) \<rparr>\<rparr> in
          case get_config is_url env (cp_config p1) of
            (Inl e, cached1) \<Rightarrow> (Inl (Startup_config e), p1\<lparr>cp_config := cached1\<rparr>)
          | (Inr config, cached1) \<Rightarrow>
             (case app_client package env config of
                Inl e \<Rightarrow> (Inl (Startup_client e), p1\<lparr>cp_config := cached1\<rparr>)
              | Inr client \<Rightarrow> (Inr resolved, p1\<lparr>cp_config := cached1, cp_client := Some client\<rparr>))))"

datatype server_outcome = Server_exit nat | Server_listening int

definition server_main ::
    "(string \<Rightarrow> bool) \<Rightarrow> bool \<Rightarrow> blockchain_package \<Rightarrow> (int \<Rightarrow> bool) \<Rightarrow> env \<Rightarrow> core_process \<Rightarrow> server_outcome \<times> core_process" where
  "server_main is_url otel_loads package port_free env p =
     (case get_config is_url env (cp_config p) of
        (Inl e, cached) \<Rightarrow> (Server_exit 1, p\<lparr>cp_config := cached\<rparr>)
      | (Inr config, cached) \<Rightarrow>
         (case bootstrap_app is_url otel_loads package env (Some config) (p\<lparr>cp_config := cached\<rparr>) of
            (Inl e, p1) \<Rightarrow> (Server_exit 1, p1)
          | (Inr _, p1) \<Rightarrow> if port_free (cg_port config) then (Server_listening (cg_port config), p1) else (Server_exit 1, p1)))"

section \<open>Lemmas\<close>

lemma bootstrap_given:
  "bootstrap_app is_url otel_loads package env (Some c) p = (r, p') \<Longrightarrow>
     cp_config p' = Some c \<and> ln_service (the (cp_logger p')) = cg_service_name c
   \<and> ln_level (the (cp_logger p')) = log_level_of (cg_log_level c)
   \<and> r = (case app_client package env c of Inl e \<Rightarrow> Inl (Startup_client e) | Inr client \<Rightarrow> Inr c)
   \<and> (\<forall>client. app_client package env c = Inr client \<longrightarrow> cp_client p' = Some client)"
  by (auto simp: bootstrap_app_def set_config_for_tests_def get_config_def configure_logger_def new_logger_def Let_def
      split: sum.splits)

lemma server_main_fresh:
  "server_main is_url otel_loads package port_free env new_process =
     (case load_config is_url env of
        Inl e \<Rightarrow> (Server_exit 1, new_process)
      | Inr c \<Rightarrow>
         (case bootstrap_app is_url otel_loads package env (Some c) (new_process\<lparr>cp_config := Some c\<rparr>) of
            (Inl e, p1) \<Rightarrow> (Server_exit 1, p1)
          | (Inr _, p1) \<Rightarrow> if port_free (cg_port c) then (Server_listening (cg_port c), p1) else (Server_exit 1, p1)))"
  by (auto simp: server_main_def get_config_def new_process_def split: sum.splits)

section \<open>Properties\<close>

text \<open>
  Core fails closed at its start: a fresh process listens exactly when its environment is a valid
  configuration, the execution client that the configuration asks for could be built and the port is
  free; it then holds that very configuration and that client, and every other start ends with exit
  code 1.
\<close>

theorem core_starts_iff:
  "(case server_main is_url otel_loads package port_free env new_process of
      (Server_listening port, p) \<Rightarrow>
        \<exists>c client. load_config is_url env = Inr c \<and> app_client package env c = Inr client \<and> port_free port
          \<and> port = cg_port c \<and> cp_config p = Some c \<and> cp_client p = Some client
    | (Server_exit n, p) \<Rightarrow>
        n = 1 \<and> \<not> (\<exists>c client. load_config is_url env = Inr c \<and> app_client package env c = Inr client \<and> port_free (cg_port c)))"
proof (cases "load_config is_url env")
  case (Inl e)
  then show ?thesis by (simp add: server_main_fresh)
next
  case (Inr c)
  obtain r p1 where b: "bootstrap_app is_url otel_loads package env (Some c) (new_process\<lparr>cp_config := Some c\<rparr>) = (r, p1)"
    by (cases "bootstrap_app is_url otel_loads package env (Some c) (new_process\<lparr>cp_config := Some c\<rparr>)")
  show ?thesis
    using Inr b bootstrap_given [OF b] by (cases "app_client package env c") (simp_all add: server_main_fresh)
qed

end
