(* ===== verification/Ai_Client.thy ===== *)
theory Ai_Client
  imports Core_Errors Canonical_Json
begin

text \<open>
  The HTTP client of the AI service (Backend/src/application/clients/ai/ai.client.ts). \<open>fetch\<close>
  and the contract schemas are parameters: a schema maps a value (\<open>None\<close> is undefined) to the
  parsed contract, or rejects it.
\<close>

section \<open>Requests\<close>

record ai_client =
  ac_base_url :: string
  ac_service_token :: "string option"
  ac_timeout_ms :: int

record ai_client_options =
  ao_base_url :: string
  ao_service_token :: "string option"
  ao_timeout_ms :: "int option"

definition new_ai_client :: "ai_client_options \<Rightarrow> ai_client" where
  "new_ai_client opts =
     \<lparr> ac_base_url = rev (dropWhile (\<lambda>c. c = CHR ''/'') (rev (ao_base_url opts))),
       ac_service_token = ao_service_token opts, ac_timeout_ms = nullish (ao_timeout_ms opts) 15000 \<rparr>"

record http_request =
  hq_url :: string
  hq_headers :: "(string \<times> string) list"
  hq_body :: string
  hq_timeout_ms :: int

text \<open>A rejected or aborted fetch, or a response with its status and, when it is JSON, its body.\<close>

datatype fetch_outcome = Fetch_failed | Fetched int "json option"

datatype ai_failure = AI_core core_error | AI_uncaught

definition post_request :: "ai_client \<Rightarrow> string \<Rightarrow> json \<Rightarrow> http_request" where
  "post_request C path body =
     \<lparr> hq_url = ac_base_url C @ path,
       hq_headers = (''content-type'', ''application/json'') #
         (if truthy (ac_service_token C) then [(''authorization'', ''Bearer '' @ the (ac_service_token C))] else []),
       hq_body = stringify body, hq_timeout_ms = ac_timeout_ms C \<rparr>"

definition ai_error :: "error_code \<Rightarrow> bool option \<Rightarrow> ai_failure" where
  "ai_error c retryable = AI_core (core_error_of c (default_options\<lparr>opt_retryable := retryable\<rparr>))"

definition post :: "ai_client \<Rightarrow> (http_request \<Rightarrow> fetch_outcome) \<Rightarrow> string \<Rightarrow> json \<Rightarrow> ai_failure + json" where
  "post C fetch path body =
     (case fetch (post_request C path body) of
        Fetch_failed \<Rightarrow> Inl (ai_error PROVIDER_ERROR (Some True))
      | Fetched status content \<Rightarrow>
          if status = 401 \<or> status = 403 then Inl (ai_error AUTHENTICATION_ERROR None)
          else if \<not> (200 \<le> status \<and> status \<le> 299) then Inl (ai_error PROVIDER_ERROR (Some (500 \<le> status)))
          else (case content of None \<Rightarrow> Inl (ai_error PROVIDER_ERROR None) | Some j \<Rightarrow> Inr j))"

section \<open>Answers\<close>

text \<open>A property of a JSON value: \<open>None\<close> is undefined; reading one of null throws.\<close>

definition property_of :: "json \<Rightarrow> string \<Rightarrow> json option" where
  "property_of j k = (case j of JObj kvs \<Rightarrow> map_of kvs k | _ \<Rightarrow> None)"

record 'a ai_result =
  ar_status :: "json option"
  ar_data :: 'a
  ar_request_id :: "json option"

definition read_envelope :: "(json option \<Rightarrow> 'a option) \<Rightarrow> json \<Rightarrow> ai_failure + 'a ai_result" where
  "read_envelope schema envelope =
     (if envelope = JNull then Inl AI_uncaught
      else if property_of envelope ''data'' = Some JNull \<or> property_of envelope ''status'' = Some (JStr ''ERROR'')
      then Inl (ai_error PROVIDER_ERROR None)
      else (case schema (property_of envelope ''data'') of
              None \<Rightarrow> Inl (ai_error SCHEMA_ERROR None)
            | Some v \<Rightarrow> Inr \<lparr> ar_status = property_of envelope ''status'', ar_data = v,
                              ar_request_id = property_of envelope ''request_id'' \<rparr>))"

record create_intent_request =
  iq_execution_id :: string
  iq_agent_id :: string
  iq_user_goal :: string
  iq_user_id :: "string option"
  iq_validity_hours :: "int option"

text \<open>An undefined member is not sent.\<close>

definition intent_body :: "create_intent_request \<Rightarrow> json" where
  "intent_body q =
     JObj ([(''execution_id'', JStr (iq_execution_id q)), (''agent_id'', JStr (iq_agent_id q)),
       (''user_goal'', JStr (iq_user_goal q))]
       @ (case iq_user_id q of None \<Rightarrow> [] | Some u \<Rightarrow> [(''user_id'', JStr u)])
       @ [(''validity_hours'', JNum (nullish (iq_validity_hours q) 24))])"

definition ai_create_intent ::
    "ai_client \<Rightarrow> (http_request \<Rightarrow> fetch_outcome) \<Rightarrow> (json option \<Rightarrow> 'i option) \<Rightarrow> create_intent_request \<Rightarrow>
     ai_failure + 'i ai_result" where
  "ai_create_intent C fetch intent_schema q =
     and_then (post C fetch ''/intent/parse'' (intent_body q)) (read_envelope intent_schema)"

record analyze_proposal_request =
  pq_execution_id :: "string option"
  pq_agent_id :: "string option"
  pq_intent :: json
  pq_proposal :: json
  pq_trajectory :: "json list option"
  pq_evidence :: "json list option"
  pq_recipient_context :: "json option"
  pq_historical_behavior :: "json option"

definition proposal_body :: "analyze_proposal_request \<Rightarrow> json" where
  "proposal_body q =
     JObj ((case pq_execution_id q of None \<Rightarrow> [] | Some e \<Rightarrow> [(''execution_id'', JStr e)])
       @ (case pq_agent_id q of None \<Rightarrow> [] | Some a \<Rightarrow> [(''agent_id'', JStr a)])
       @ [(''intent'', pq_intent q), (''proposal'', pq_proposal q),
          (''trajectory'', JArr (nullish (pq_trajectory q) [])), (''evidence'', JArr (nullish (pq_evidence q) [])),
          (''recipient_context'', nullish (pq_recipient_context q) JNull),
          (''historical_behavior'', nullish (pq_historical_behavior q) JNull)])"

definition ai_analyze_proposal ::
    "ai_client \<Rightarrow> (http_request \<Rightarrow> fetch_outcome) \<Rightarrow> (json option \<Rightarrow> 's option) \<Rightarrow> analyze_proposal_request \<Rightarrow>
     ai_failure + 's ai_result" where
  "ai_analyze_proposal C fetch assessment_schema q =
     and_then (post C fetch ''/proposal/analyze'' (proposal_body q)) (read_envelope assessment_schema)"

section \<open>Lemmas\<close>

lemma post_Inr:
  "post C fetch path body = Inr j \<longleftrightarrow>
     (\<exists>status. fetch (post_request C path body) = Fetched status (Some j) \<and> 200 \<le> status \<and> status \<le> 299)"
  by (auto simp: post_def split: fetch_outcome.splits option.splits)

lemma read_envelope_Inr:
  "read_envelope schema j = Inr r \<longleftrightarrow> j \<noteq> JNull \<and> property_of j ''data'' \<noteq> Some JNull
     \<and> property_of j ''status'' \<noteq> Some (JStr ''ERROR'') \<and> schema (property_of j ''data'') = Some (ar_data r)
     \<and> ar_status r = property_of j ''status'' \<and> ar_request_id r = property_of j ''request_id''"
  by (cases r) (auto simp: read_envelope_def split: option.splits)

lemma analyze_Inr:
  "ai_analyze_proposal C fetch schema q = Inr r \<longleftrightarrow>
     (\<exists>status j. fetch (post_request C ''/proposal/analyze'' (proposal_body q)) = Fetched status (Some j)
        \<and> 200 \<le> status \<and> status \<le> 299 \<and> read_envelope schema j = Inr r)"
  by (auto simp: ai_analyze_proposal_def and_then_Inr_iff post_Inr)

section \<open>Properties\<close>

text \<open>
  An assessment the client returns was answered with a success status, is not an error envelope,
  and is what the contract schema made of its data; and an assessment is returned whenever that is
  so. Nothing else the AI service can answer yields a result.
\<close>

theorem ai_result_validated:
  "(\<exists>r. ai_analyze_proposal C fetch schema q = Inr r \<and> ar_data r = v) \<longleftrightarrow>
     (\<exists>status j. fetch (post_request C ''/proposal/analyze'' (proposal_body q)) = Fetched status (Some j)
        \<and> status div 100 = 2 \<and> j \<noteq> JNull \<and> property_of j ''data'' \<noteq> Some JNull
        \<and> property_of j ''status'' \<noteq> Some (JStr ''ERROR'') \<and> schema (property_of j ''data'') = Some v)"
proof -
  have range: "(200 \<le> n \<and> n \<le> 299) \<longleftrightarrow> n div 100 = 2" for n :: int by presburger
  have env: "(\<exists>r. read_envelope schema j = Inr r \<and> ar_data r = v) \<longleftrightarrow> j \<noteq> JNull \<and> property_of j ''data'' \<noteq> Some JNull
      \<and> property_of j ''status'' \<noteq> Some (JStr ''ERROR'') \<and> schema (property_of j ''data'') = Some v" for j
    unfolding read_envelope_Inr
    by (auto intro!: exI [of _ "\<lparr> ar_status = property_of j ''status'', ar_data = v, ar_request_id = property_of j ''request_id'' \<rparr>"])
  have "(\<exists>r. ai_analyze_proposal C fetch schema q = Inr r \<and> ar_data r = v) \<longleftrightarrow>
      (\<exists>status j. fetch (post_request C ''/proposal/analyze'' (proposal_body q)) = Fetched status (Some j)
        \<and> (200 \<le> status \<and> status \<le> 299) \<and> (\<exists>r. read_envelope schema j = Inr r \<and> ar_data r = v))"
    unfolding analyze_Inr by blast
  then show ?thesis unfolding range env .
qed

text \<open>
  How failures are classified: no answer and a server error are retryable provider errors, rejected
  credentials are an authentication error that is not, data outside the contract is a schema error;
  only a body that is the JSON value null escapes the classification.
\<close>

theorem ai_failures_classified:
  "case ai_analyze_proposal C fetch schema q of
     Inl (AI_core e) \<Rightarrow> err_code e \<in> {PROVIDER_ERROR, AUTHENTICATION_ERROR, SCHEMA_ERROR}
       \<and> (fetch (post_request C ''/proposal/analyze'' (proposal_body q)) = Fetch_failed \<longrightarrow>
            err_code e = PROVIDER_ERROR \<and> err_retryable e)
       \<and> (\<forall>n body. fetch (post_request C ''/proposal/analyze'' (proposal_body q)) = Fetched n body \<longrightarrow>
            (err_code e = AUTHENTICATION_ERROR \<longleftrightarrow> n = 401 \<or> n = 403)
            \<and> (err_code e = AUTHENTICATION_ERROR \<longrightarrow> \<not> err_retryable e)
            \<and> (500 \<le> n \<longrightarrow> err_code e = PROVIDER_ERROR \<and> err_retryable e))
   | Inl AI_uncaught \<Rightarrow>
       \<exists>n. fetch (post_request C ''/proposal/analyze'' (proposal_body q)) = Fetched n (Some JNull)
   | Inr r \<Rightarrow> True"
  by (cases "fetch (post_request C ''/proposal/analyze'' (proposal_body q))")
    (auto simp: ai_analyze_proposal_def post_def ai_error_def core_error_of_def default_options_def error_retryable_def
      read_envelope_def and_then_def split: sum.splits option.splits ai_failure.splits if_splits)

theorem ai_failures_classified_witness:
  "\<exists>e. ai_analyze_proposal \<lparr> ac_base_url = [], ac_service_token = None, ac_timeout_ms = 0 \<rparr> (\<lambda>q. Fetched 503 None)
       (\<lambda>j. j) \<lparr> pq_execution_id = None, pq_agent_id = None, pq_intent = JNull, pq_proposal = JNull, pq_trajectory = None,
         pq_evidence = None, pq_recipient_context = None, pq_historical_behavior = None \<rparr> = Inl (AI_core e)
     \<and> err_code e = PROVIDER_ERROR \<and> err_retryable e"
proof -
  let ?C = "\<lparr> ac_base_url = [], ac_service_token = None, ac_timeout_ms = 0 \<rparr>"
  let ?q = "\<lparr> pq_execution_id = None, pq_agent_id = None, pq_intent = JNull, pq_proposal = JNull, pq_trajectory = None,
         pq_evidence = None, pq_recipient_context = None, pq_historical_behavior = None \<rparr>"
  obtain e where e: "ai_analyze_proposal ?C (\<lambda>q. Fetched 503 None) (\<lambda>j. j) ?q = Inl (AI_core e)"
    by (simp add: ai_analyze_proposal_def post_def ai_error_def)
  from ai_failures_classified [where C = ?C and fetch = "\<lambda>q. Fetched 503 None" and schema = "\<lambda>j. j" and q = ?q] e show ?thesis by simp
qed

end
