(* ===== verification/Wire_Contracts.thy ===== *)
theory Wire_Contracts
  imports Canonical_Json Money
begin

text \<open>
  The execution contracts on the wire, as Core declares them (Backend/src/shared/contracts) and as
  the execution package mirrors them (Blockchain/src/contracts/execution-contracts.ts). A schema is
  data: the combinators the sources apply, member by member. What the validation library accepts
  is a parameter, \<open>zod_laws\<close> its documented behaviour.
\<close>

section \<open>Schemas\<close>

datatype schema =
    S_string | S_string_min nat | S_decimal | S_boolean | S_int | S_literal string | S_enum "string list"
  | S_nullish schema | S_nullable schema | S_default schema | S_array schema | S_record
  | S_strict "(string \<times> schema) list"

text \<open>The value of a member, \<open>None\<close> when it is absent.\<close>

definition member_of :: "(string \<times> json) list \<Rightarrow> string \<Rightarrow> json option" where
  "member_of kvs k = map_of kvs k"

fun conforms :: "schema \<Rightarrow> json option \<Rightarrow> bool" where
  "conforms S_string v \<longleftrightarrow> (\<exists>s. v = Some (JStr s))"
| "conforms (S_string_min n) v \<longleftrightarrow> (case v of Some (JStr s) \<Rightarrow> n \<le> length s | _ \<Rightarrow> False)"
| "conforms S_decimal v \<longleftrightarrow> (case v of Some (JStr s) \<Rightarrow> money_amount s | _ \<Rightarrow> False)"
| "conforms S_boolean v \<longleftrightarrow> (\<exists>b. v = Some (JBool b))"
| "conforms S_int v \<longleftrightarrow> (case v of Some (JNum i) \<Rightarrow> \<bar>i\<bar> \<le> 2 ^ 53 - 1 | _ \<Rightarrow> False)"
| "conforms (S_literal s) v \<longleftrightarrow> v = Some (JStr s)"
| "conforms (S_enum ss) v \<longleftrightarrow> (case v of Some (JStr s) \<Rightarrow> s \<in> set ss | _ \<Rightarrow> False)"
| "conforms (S_nullish s) v \<longleftrightarrow> v = None \<or> v = Some JNull \<or> conforms s v"
| "conforms (S_nullable s) v \<longleftrightarrow> v = Some JNull \<or> conforms s v"
| "conforms (S_default s) v \<longleftrightarrow> v = None \<or> conforms s v"
| "conforms (S_array s) v \<longleftrightarrow> (case v of Some (JArr xs) \<Rightarrow> \<forall>x \<in> set xs. conforms s (Some x) | _ \<Rightarrow> False)"
| "conforms S_record v \<longleftrightarrow> (\<exists>kvs. v = Some (JObj kvs))"
| "conforms (S_strict fs) v \<longleftrightarrow>
     (case v of
        Some (JObj kvs) \<Rightarrow> fst ` set kvs \<subseteq> fst ` set fs \<and> (\<forall>f \<in> set fs. conforms (snd f) (member_of kvs (fst f)))
      | _ \<Rightarrow> False)"

definition zod_laws :: "(schema \<Rightarrow> json option \<Rightarrow> bool) \<Rightarrow> bool" where
  "zod_laws Z \<longleftrightarrow>
     (\<forall>v. (Z S_string v \<longleftrightarrow> (\<exists>s. v = Some (JStr s)))
        \<and> (\<forall>n. Z (S_string_min n) v \<longleftrightarrow> (case v of Some (JStr s) \<Rightarrow> n \<le> length s | _ \<Rightarrow> False))
        \<and> (Z S_decimal v \<longleftrightarrow> (case v of Some (JStr s) \<Rightarrow> money_amount s | _ \<Rightarrow> False))
        \<and> (Z S_boolean v \<longleftrightarrow> (\<exists>b. v = Some (JBool b)))
        \<and> (Z S_int v \<longleftrightarrow> (case v of Some (JNum i) \<Rightarrow> \<bar>i\<bar> \<le> 2 ^ 53 - 1 | _ \<Rightarrow> False))
        \<and> (\<forall>s. Z (S_literal s) v \<longleftrightarrow> v = Some (JStr s))
        \<and> (\<forall>ss. Z (S_enum ss) v \<longleftrightarrow> (case v of Some (JStr s) \<Rightarrow> s \<in> set ss | _ \<Rightarrow> False))
        \<and> (Z S_record v \<longleftrightarrow> (\<exists>kvs. v = Some (JObj kvs))))
   \<and> (\<forall>s v. (Z (S_nullish s) v \<longleftrightarrow> v = None \<or> v = Some JNull \<or> Z s v)
        \<and> (Z (S_nullable s) v \<longleftrightarrow> v = Some JNull \<or> Z s v)
        \<and> (Z (S_default s) v \<longleftrightarrow> v = None \<or> Z s v)
        \<and> (Z (S_array s) v \<longleftrightarrow> (case v of Some (JArr xs) \<Rightarrow> \<forall>x \<in> set xs. Z s (Some x) | _ \<Rightarrow> False)))
   \<and> (\<forall>fs v. Z (S_strict fs) v \<longleftrightarrow>
        (case v of
           Some (JObj kvs) \<Rightarrow> fst ` set kvs \<subseteq> fst ` set fs \<and> (\<forall>f \<in> set fs. Z (snd f) (member_of kvs (fst f)))
         | _ \<Rightarrow> False))"

section \<open>Core's contracts\<close>

definition id_string :: schema where "id_string = S_string_min 1"
definition iso_timestamp :: schema where "iso_timestamp = S_string_min 1"
definition money_amount_schema :: schema where "money_amount_schema = S_decimal"

definition versioned :: "string \<Rightarrow> (string \<times> schema) list \<Rightarrow> schema" where
  "versioned v fs = S_strict ((''schema_version'', S_default (S_literal v)) # fs)"

definition core_asset_ref :: schema where
  "core_asset_ref = S_strict [(''symbol'', S_string), (''address'', S_nullish S_string), (''type'', S_nullish S_string)]"

definition core_transaction_recipient :: schema where
  "core_transaction_recipient = S_strict [(''address'', S_string), (''type'', S_nullish S_string)]"

definition core_transaction_intent :: schema where
  "core_transaction_intent = versioned ''transaction_intent.v1''
     [(''transaction_id'', id_string), (''proposal_id'', id_string), (''action_type'', S_string), (''network'', S_string),
      (''asset'', core_asset_ref), (''amount'', money_amount_schema), (''recipient'', core_transaction_recipient),
      (''payment_method'', S_nullish S_string), (''constraints'', S_default S_record)]"

definition core_chain_ref :: schema where
  "core_chain_ref = S_strict [(''id'', S_int), (''name'', S_string)]"

definition core_transaction_request :: schema where
  "core_transaction_request = versioned ''transaction_request.v1''
     [(''transaction_id'', id_string), (''chain'', core_chain_ref), (''from'', S_string), (''to'', S_string),
      (''value'', money_amount_schema), (''data'', S_string), (''asset'', core_asset_ref), (''amount'', money_amount_schema),
      (''proposal_id'', id_string), (''intent_id'', id_string), (''created_at'', iso_timestamp)]"

definition core_analysis_status :: schema where
  "core_analysis_status = S_enum [''VALID'', ''SUSPICIOUS'', ''INVALID'']"

definition core_contract_ref :: schema where
  "core_contract_ref = S_strict [(''address'', S_string), (''verified'', S_boolean)]"

definition core_function_ref :: schema where
  "core_function_ref = S_strict [(''name'', S_string), (''selector'', S_string)]"

definition core_transaction_analysis :: schema where
  "core_transaction_analysis = versioned ''transaction_analysis.v1''
     [(''transaction_id'', id_string), (''contract'', core_contract_ref), (''function'', core_function_ref),
      (''decoded_arguments'', S_default S_record), (''state_changes_expected'', S_default (S_array S_record)),
      (''recipient'', S_string), (''amount'', money_amount_schema), (''asset'', S_string),
      (''risk_flags'', S_default (S_array S_string)), (''status'', core_analysis_status)]"

definition core_simulation_status :: schema where
  "core_simulation_status = S_enum [''PASS'', ''REVERT'', ''UNEXPECTED_STATE_CHANGE'', ''INSUFFICIENT_FUNDS'', ''UNSUPPORTED'', ''ERROR'']"

definition core_gas_estimate :: schema where
  "core_gas_estimate = S_strict [(''gas'', S_string)]"

definition core_state_change :: schema where
  "core_state_change = S_strict [(''type'', S_string), (''asset'', S_nullish S_string), (''from'', S_nullish S_string),
     (''to'', S_nullish S_string), (''amount'', S_nullish money_amount_schema)]"

definition core_simulator_ref :: schema where
  "core_simulator_ref = S_strict [(''provider'', S_string), (''version'', S_string)]"

definition core_simulation_result :: schema where
  "core_simulation_result = versioned ''simulation_result.v1''
     [(''transaction_id'', id_string), (''status'', core_simulation_status), (''would_revert'', S_boolean),
      (''gas_estimate'', S_nullish core_gas_estimate), (''expected_state_changes'', S_default (S_array core_state_change)),
      (''unexpected_state_changes'', S_default (S_array core_state_change)),
      (''revert_reason'', S_default (S_nullable S_string)), (''simulator'', core_simulator_ref),
      (''simulated_at'', iso_timestamp)]"

definition core_executor :: schema where
  "core_executor = S_strict [(''type'', S_string), (''account'', S_string)]"

definition core_execution_request :: schema where
  "core_execution_request = versioned ''execution_request.v1''
     [(''execution_id'', id_string), (''decision_id'', id_string), (''transaction_id'', id_string),
      (''executor'', core_executor), (''payment_method'', S_string), (''network'', S_string),
      (''idempotency_key'', S_string), (''authorization_context_hash'', S_string), (''created_at'', iso_timestamp)]"

definition core_execution_status :: schema where
  "core_execution_status = S_enum [''CONFIRMED'', ''PENDING'', ''FAILED'', ''UNKNOWN'']"

definition core_execution_result :: schema where
  "core_execution_result = versioned ''execution_result.v1''
     [(''execution_id'', id_string), (''status'', core_execution_status), (''transaction_hash'', S_nullish S_string),
      (''chain'', S_string), (''submitted_at'', S_nullish iso_timestamp), (''confirmed_at'', S_nullish iso_timestamp),
      (''receipt_reference'', S_nullish id_string), (''idempotency_key'', S_string)]"

definition core_receipt_snapshot :: schema where
  "core_receipt_snapshot = S_strict [(''recipient'', S_string), (''asset'', S_string), (''amount'', money_amount_schema),
     (''network'', S_string)]"

definition core_receipt_verification :: schema where
  "core_receipt_verification = versioned ''receipt_verification.v1''
     [(''execution_id'', id_string), (''verified'', S_boolean), (''transaction_hash'', S_string),
      (''expected'', core_receipt_snapshot), (''actual'', core_receipt_snapshot),
      (''discrepancies'', S_default (S_array S_string)), (''verified_at'', iso_timestamp)]"

section \<open>The mirror\<close>

definition mirror_money_amount :: schema where "mirror_money_amount = S_string_min 1"
definition mirror_id_string :: schema where "mirror_id_string = S_string_min 1"
definition mirror_iso_timestamp :: schema where "mirror_iso_timestamp = S_string_min 1"

definition mirror_asset_ref :: schema where
  "mirror_asset_ref = S_strict [(''symbol'', S_string), (''address'', S_nullish S_string), (''type'', S_nullish S_string)]"

definition mirror_transaction_recipient :: schema where
  "mirror_transaction_recipient = S_strict [(''address'', S_string), (''type'', S_nullish S_string)]"

definition mirror_transaction_intent :: schema where
  "mirror_transaction_intent = versioned ''transaction_intent.v1''
     [(''transaction_id'', mirror_id_string), (''proposal_id'', mirror_id_string), (''action_type'', S_string), (''network'', S_string),
      (''asset'', mirror_asset_ref), (''amount'', mirror_money_amount), (''recipient'', mirror_transaction_recipient),
      (''payment_method'', S_nullish S_string), (''constraints'', S_default S_record)]"

definition mirror_chain_ref :: schema where
  "mirror_chain_ref = S_strict [(''id'', S_int), (''name'', S_string)]"

definition mirror_transaction_request :: schema where
  "mirror_transaction_request = versioned ''transaction_request.v1''
     [(''transaction_id'', mirror_id_string), (''chain'', mirror_chain_ref), (''from'', S_string), (''to'', S_string),
      (''value'', mirror_money_amount), (''data'', S_string), (''asset'', mirror_asset_ref), (''amount'', mirror_money_amount),
      (''proposal_id'', mirror_id_string), (''intent_id'', mirror_id_string), (''created_at'', mirror_iso_timestamp)]"

definition mirror_analysis_status :: schema where
  "mirror_analysis_status = S_enum [''VALID'', ''SUSPICIOUS'', ''INVALID'']"

definition mirror_contract_ref :: schema where
  "mirror_contract_ref = S_strict [(''address'', S_string), (''verified'', S_boolean)]"

definition mirror_function_ref :: schema where
  "mirror_function_ref = S_strict [(''name'', S_string), (''selector'', S_string)]"

definition mirror_transaction_analysis :: schema where
  "mirror_transaction_analysis = versioned ''transaction_analysis.v1''
     [(''transaction_id'', mirror_id_string), (''contract'', mirror_contract_ref), (''function'', mirror_function_ref),
      (''decoded_arguments'', S_default S_record), (''state_changes_expected'', S_default (S_array S_record)),
      (''recipient'', S_string), (''amount'', mirror_money_amount), (''asset'', S_string),
      (''risk_flags'', S_default (S_array S_string)), (''status'', mirror_analysis_status)]"

definition mirror_simulation_status :: schema where
  "mirror_simulation_status = S_enum [''PASS'', ''REVERT'', ''UNEXPECTED_STATE_CHANGE'', ''INSUFFICIENT_FUNDS'', ''UNSUPPORTED'', ''ERROR'']"

definition mirror_gas_estimate :: schema where
  "mirror_gas_estimate = S_strict [(''gas'', S_string)]"

definition mirror_state_change :: schema where
  "mirror_state_change = S_strict [(''type'', S_string), (''asset'', S_nullish S_string), (''from'', S_nullish S_string),
     (''to'', S_nullish S_string), (''amount'', S_nullish mirror_money_amount)]"

definition mirror_simulator_ref :: schema where
  "mirror_simulator_ref = S_strict [(''provider'', S_string), (''version'', S_string)]"

definition mirror_simulation_result :: schema where
  "mirror_simulation_result = versioned ''simulation_result.v1''
     [(''transaction_id'', mirror_id_string), (''status'', mirror_simulation_status), (''would_revert'', S_boolean),
      (''gas_estimate'', S_nullish mirror_gas_estimate), (''expected_state_changes'', S_default (S_array mirror_state_change)),
      (''unexpected_state_changes'', S_default (S_array mirror_state_change)),
      (''revert_reason'', S_default (S_nullable S_string)), (''simulator'', mirror_simulator_ref),
      (''simulated_at'', mirror_iso_timestamp)]"

definition mirror_executor :: schema where
  "mirror_executor = S_strict [(''type'', S_string), (''account'', S_string)]"

definition mirror_execution_request :: schema where
  "mirror_execution_request = versioned ''execution_request.v1''
     [(''execution_id'', mirror_id_string), (''decision_id'', mirror_id_string), (''transaction_id'', mirror_id_string),
      (''executor'', mirror_executor), (''payment_method'', S_string), (''network'', S_string),
      (''idempotency_key'', S_string), (''authorization_context_hash'', S_string), (''created_at'', mirror_iso_timestamp)]"

definition mirror_execution_status :: schema where
  "mirror_execution_status = S_enum [''CONFIRMED'', ''PENDING'', ''FAILED'', ''UNKNOWN'']"

definition mirror_execution_result :: schema where
  "mirror_execution_result = versioned ''execution_result.v1''
     [(''execution_id'', mirror_id_string), (''status'', mirror_execution_status), (''transaction_hash'', S_nullish S_string),
      (''chain'', S_string), (''submitted_at'', S_nullish mirror_iso_timestamp), (''confirmed_at'', S_nullish mirror_iso_timestamp),
      (''receipt_reference'', S_nullish mirror_id_string), (''idempotency_key'', S_string)]"

definition mirror_receipt_snapshot :: schema where
  "mirror_receipt_snapshot = S_strict [(''recipient'', S_string), (''asset'', S_string), (''amount'', mirror_money_amount),
     (''network'', S_string)]"

definition mirror_receipt_verification :: schema where
  "mirror_receipt_verification = versioned ''receipt_verification.v1''
     [(''execution_id'', mirror_id_string), (''verified'', S_boolean), (''transaction_hash'', S_string),
      (''expected'', mirror_receipt_snapshot), (''actual'', mirror_receipt_snapshot),
      (''discrepancies'', S_default (S_array S_string)), (''verified_at'', mirror_iso_timestamp)]"


section \<open>Lemmas\<close>

text \<open>The laws determine what is accepted.\<close>

lemma zod_conforms:
  assumes "zod_laws Z"
  shows "Z s v \<longleftrightarrow> conforms s v"
proof (induction s v rule: conforms.induct)
  case (11 s v)
  have "Z (S_array s) v \<longleftrightarrow> (case v of Some (JArr xs) \<Rightarrow> \<forall>x \<in> set xs. Z s (Some x) | _ \<Rightarrow> False)"
    using assms by (simp add: zod_laws_def)
  then show ?case using 11 by (auto split: option.splits json.splits)
next
  case (13 fs v)
  have "Z (S_strict fs) v \<longleftrightarrow> (case v of
      Some (JObj kvs) \<Rightarrow> fst ` set kvs \<subseteq> fst ` set fs \<and> (\<forall>f \<in> set fs. Z (snd f) (member_of kvs (fst f))) | _ \<Rightarrow> False)"
    using assms by (simp add: zod_laws_def)
  then show ?case using 13 by (auto split: option.splits json.splits)
qed (use assms in \<open>simp add: zod_laws_def; fail\<close>)+

lemma conforms_laws: "zod_laws conforms"
  by (simp add: zod_laws_def)

text \<open>The amounts of a value: the texts at the places where a schema wants a decimal.\<close>

fun relax :: "schema \<Rightarrow> schema" where
  "relax S_decimal = S_string_min 1"
| "relax (S_nullish s) = S_nullish (relax s)"
| "relax (S_nullable s) = S_nullable (relax s)"
| "relax (S_default s) = S_default (relax s)"
| "relax (S_array s) = S_array (relax s)"
| "relax (S_strict fs) = S_strict (map (\<lambda>f. (fst f, relax (snd f))) fs)"
| "relax s = s"

fun amounts_at :: "schema \<Rightarrow> json option \<Rightarrow> string set" where
  "amounts_at S_decimal v = (case v of Some (JStr s) \<Rightarrow> {s} | _ \<Rightarrow> {})"
| "amounts_at (S_nullish s) v = amounts_at s v"
| "amounts_at (S_nullable s) v = amounts_at s v"
| "amounts_at (S_default s) v = amounts_at s v"
| "amounts_at (S_array s) v = (case v of Some (JArr xs) \<Rightarrow> \<Union>x \<in> set xs. amounts_at s (Some x) | _ \<Rightarrow> {})"
| "amounts_at (S_strict fs) v =
     (case v of Some (JObj kvs) \<Rightarrow> \<Union>f \<in> set fs. amounts_at (snd f) (member_of kvs (fst f)) | _ \<Rightarrow> {})"
| "amounts_at s v = {}"

lemma amounts_absent [simp]: "amounts_at s None = {}" "amounts_at s (Some JNull) = {}"
  by (induction s) simp_all

lemma money_amount_nonempty: "money_amount s \<Longrightarrow> s \<noteq> []"
  by (auto simp: money_amount_def split_point_def unsigned_part_def all_digits_def)

text \<open>A schema accepts what its relaxed form accepts when, besides, every amount is a decimal.\<close>

lemma conforms_relax: "conforms s v \<longleftrightarrow> conforms (relax s) v \<and> (\<forall>a \<in> amounts_at s v. money_amount a)"
proof (induction s v rule: conforms.induct)
  case (3 v)
  show ?case using money_amount_nonempty by (auto simp: Suc_le_eq split: option.splits json.splits)
next
  case (11 s v)
  then show ?case by (auto split: option.splits json.splits)
next
  case (13 fs v)
  show ?case
  proof (cases "\<exists>kvs. v = Some (JObj kvs)")
    case False
    then show ?thesis by (auto split: option.splits json.splits)
  next
    case True
    then obtain kvs where v: "v = Some (JObj kvs)" by blast
    have "conforms (snd f) (member_of kvs (fst f)) \<longleftrightarrow> conforms (relax (snd f)) (member_of kvs (fst f))
        \<and> (\<forall>a \<in> amounts_at (snd f) (member_of kvs (fst f)). money_amount a)" if "f \<in> set fs" for f
      using 13 v that by blast
    then have "(\<forall>f \<in> set fs. conforms (snd f) (member_of kvs (fst f))) \<longleftrightarrow>
        (\<forall>f \<in> set fs. conforms (relax (snd f)) (member_of kvs (fst f)))
        \<and> (\<forall>f \<in> set fs. \<forall>a \<in> amounts_at (snd f) (member_of kvs (fst f)). money_amount a)" by blast
    moreover have "fst ` set (map (\<lambda>f. (fst f, relax (snd f))) fs) = fst ` set fs" by force
    ultimately show ?thesis unfolding v by (simp only: conforms.simps relax.simps amounts_at.simps option.case json.case) auto
  qed
qed auto

definition CORE_CONTRACTS :: "schema list" where
  "CORE_CONTRACTS = [core_transaction_intent, core_transaction_request, core_transaction_analysis,
     core_simulation_result, core_execution_request, core_execution_result, core_receipt_verification]"

definition MIRROR_CONTRACTS :: "schema list" where
  "MIRROR_CONTRACTS = [mirror_transaction_intent, mirror_transaction_request, mirror_transaction_analysis,
     mirror_simulation_result, mirror_execution_request, mirror_execution_result, mirror_receipt_verification]"

lemmas primitive_schemas = id_string_def iso_timestamp_def money_amount_schema_def mirror_money_amount_def
  mirror_id_string_def mirror_iso_timestamp_def versioned_def

lemma mirror_relaxes: "MIRROR_CONTRACTS = map relax CORE_CONTRACTS"
  by (simp add: MIRROR_CONTRACTS_def CORE_CONTRACTS_def primitive_schemas
    core_transaction_intent_def core_transaction_request_def core_transaction_analysis_def core_simulation_result_def
    core_execution_request_def core_execution_result_def core_receipt_verification_def core_asset_ref_def
    core_transaction_recipient_def core_chain_ref_def core_analysis_status_def core_contract_ref_def core_function_ref_def
    core_simulation_status_def core_gas_estimate_def core_state_change_def core_simulator_ref_def core_executor_def
    core_execution_status_def core_receipt_snapshot_def
    mirror_transaction_intent_def mirror_transaction_request_def mirror_transaction_analysis_def mirror_simulation_result_def
    mirror_execution_request_def mirror_execution_result_def mirror_receipt_verification_def mirror_asset_ref_def
    mirror_transaction_recipient_def mirror_chain_ref_def mirror_analysis_status_def mirror_contract_ref_def mirror_function_ref_def
    mirror_simulation_status_def mirror_gas_estimate_def mirror_state_change_def mirror_simulator_ref_def mirror_executor_def
    mirror_execution_status_def mirror_receipt_snapshot_def)

section \<open>Properties\<close>

text \<open>
  The mirror and Core agree on every contract but for the format of amounts: Core accepts exactly
  what the mirror accepts with every amount a decimal, so whatever Core sends is accepted, while an
  object with an amount that is no number passes the mirror and fails at Core.
\<close>

theorem mirror_diverges_on_amounts:
  assumes "zod_laws Z" and "(c, m) \<in> set (zip CORE_CONTRACTS MIRROR_CONTRACTS)"
  shows "Z c v \<longleftrightarrow> Z m v \<and> (\<forall>a \<in> amounts_at c v. money_amount a)"
proof -
  have "m = relax c" using assms(2) by (auto simp: mirror_relaxes zip_map2 zip_same_conv_map in_set_zip)
  then show ?thesis using conforms_relax [of c v] by (simp add: zod_conforms [OF assms(1)])
qed

definition free_snapshot :: "(string \<times> json) list" where
  "free_snapshot = [(''recipient'', JStr ''0xbob''), (''asset'', JStr ''USDC''), (''amount'', JStr ''free''), (''network'', JStr ''base'')]"

theorem mirror_diverges_on_amounts_witness:
  "\<exists>v. conforms mirror_receipt_verification v \<and> \<not> conforms core_receipt_verification v"
proof -
  let ?v = "Some (JObj [(''execution_id'', JStr ''e''), (''verified'', JBool True), (''transaction_hash'', JStr ''h''),
    (''expected'', JObj free_snapshot), (''actual'', JObj free_snapshot), (''verified_at'', JStr ''t'')])"
  have m: "conforms mirror_receipt_verification ?v"
    by (simp add: mirror_receipt_verification_def mirror_receipt_snapshot_def free_snapshot_def primitive_schemas member_of_def) blast
  have "''free'' \<in> amounts_at core_receipt_verification ?v"
    by (simp add: core_receipt_verification_def core_receipt_snapshot_def free_snapshot_def primitive_schemas member_of_def)
  moreover have "\<not> money_amount ''free''"
    by (simp add: money_amount_def split_point_def unsigned_part_def all_digits_def is_digit_def)
  moreover have "(core_receipt_verification, mirror_receipt_verification) \<in> set (zip CORE_CONTRACTS MIRROR_CONTRACTS)"
    by (simp add: CORE_CONTRACTS_def MIRROR_CONTRACTS_def)
  ultimately have "\<not> conforms core_receipt_verification ?v"
    using mirror_diverges_on_amounts [OF conforms_laws] by blast
  with m show ?thesis by blast
qed

end
