(* ===== verification/Contract_Parsing.thy ===== *)
theory Contract_Parsing
  imports Money Orvex_Prelude
begin

text \<open>
  The contracts of Core (Backend/src/shared/contracts) as parsers: what a document becomes, with its
  defaults filled in and its unknown members refused, dropped or kept. A contract is data, the
  combinators the sources apply member by member; what the validation library makes of them is a
  parameter, \<open>zod_parse_laws\<close> its documented behaviour. The execution contracts are in Wire_Contracts.
\<close>

section \<open>Documents and contracts\<close>

datatype wire =
    W_null | W_bool bool | W_num rat | W_str string | W_arr "wire list" | W_obj "(string \<times> wire) list"

text \<open>What an object schema does with a member it does not declare.\<close>

datatype unknown_keys = UK_strict | UK_strip | UK_passthrough

datatype contract =
    C_string | C_string_min nat | C_decimal | C_boolean | C_number | C_unit | C_int | C_unknown
  | C_literal string | C_enum "string list"
  | C_nullish contract | C_default contract wire | C_union contract contract
  | C_array contract | C_map contract | C_object unknown_keys "(string \<times> contract) list"

text \<open>A safe integer, and the members that are there.\<close>

definition safe_integer :: "rat \<Rightarrow> bool" where
  "safe_integer q \<longleftrightarrow> snd (quotient_of q) = 1 \<and> \<bar>q\<bar> \<le> 2 ^ 53 - 1"

definition present :: "(string \<times> wire option) list \<Rightarrow> (string \<times> wire) list" where
  "present ms = List.map_filter (\<lambda>m. map_option (Pair (fst m)) (snd m)) ms"

definition undeclared :: "(string \<times> contract) list \<Rightarrow> (string \<times> wire) list \<Rightarrow> (string \<times> wire) list" where
  "undeclared fs kvs = filter (\<lambda>kv. fst kv \<notin> fst ` set fs) kvs"

text \<open>
  One combinator over a parser of the schemas below it: \<open>None\<close> refuses, \<open>Some None\<close> is an absent
  value, \<open>Some (Some w)\<close> the parsed one.
\<close>

definition on_text :: "(string \<Rightarrow> bool) \<Rightarrow> wire option \<Rightarrow> wire option option" where
  "on_text P v = (case v of Some (W_str s) \<Rightarrow> if P s then Some v else None | _ \<Rightarrow> None)"

definition on_number :: "(rat \<Rightarrow> bool) \<Rightarrow> wire option \<Rightarrow> wire option option" where
  "on_number P v = (case v of Some (W_num q) \<Rightarrow> if P q then Some v else None | _ \<Rightarrow> None)"

definition on_boolean :: "wire option \<Rightarrow> wire option option" where
  "on_boolean v = (case v of Some (W_bool b) \<Rightarrow> Some v | _ \<Rightarrow> None)"

definition object_result ::
    "unknown_keys \<Rightarrow> (string \<times> contract) list \<Rightarrow> (string \<times> wire) list \<Rightarrow> wire option option list \<Rightarrow> wire option option" where
  "object_result u fs kvs rs =
     (if u = UK_strict \<and> undeclared fs kvs \<noteq> [] then None
      else map_option (\<lambda>ms. Some (W_obj (present (zip (map fst fs) ms)
             @ (if u = UK_passthrough then undeclared fs kvs else [])))) (those rs))"

fun parse :: "contract \<Rightarrow> wire option \<Rightarrow> wire option option" where
  "parse C_string v = on_text (\<lambda>s. True) v"
| "parse (C_string_min n) v = on_text (\<lambda>s. n \<le> length s) v"
| "parse C_decimal v = on_text money_amount v"
| "parse C_boolean v = on_boolean v"
| "parse C_number v = on_number (\<lambda>q. True) v"
| "parse C_unit v = on_number (\<lambda>q. 0 \<le> q \<and> q \<le> 1) v"
| "parse C_int v = on_number safe_integer v"
| "parse C_unknown v = Some v"
| "parse (C_literal t) v = on_text (\<lambda>s. s = t) v"
| "parse (C_enum ts) v = on_text (\<lambda>s. s \<in> set ts) v"
| "parse (C_nullish c) v = (if v = None \<or> v = Some W_null then Some v else parse c v)"
| "parse (C_default c w) v = (if v = None then Some (Some w) else parse c v)"
| "parse (C_union c d) v = (case parse c v of None \<Rightarrow> parse d v | Some r \<Rightarrow> Some r)"
| "parse (C_array c) v =
     (case v of
        Some (W_arr xs) \<Rightarrow> map_option (\<lambda>ys. Some (W_arr ys)) (those (map (\<lambda>x. Option.bind (parse c (Some x)) id) xs))
      | _ \<Rightarrow> None)"
| "parse (C_map c) v =
     (case v of
        Some (W_obj kvs) \<Rightarrow>
          map_option (\<lambda>ys. Some (W_obj (zip (map fst kvs) ys)))
            (those (map (\<lambda>kv. Option.bind (parse c (Some (snd kv))) id) kvs))
      | _ \<Rightarrow> None)"
| "parse (C_object u fs) v =
     (case v of
        Some (W_obj kvs) \<Rightarrow> object_result u fs kvs (map (\<lambda>f. parse (snd f) (map_of kvs (fst f))) fs)
      | _ \<Rightarrow> None)"

definition zod_parse_laws :: "(contract \<Rightarrow> wire option \<Rightarrow> wire option option) \<Rightarrow> bool" where
  "zod_parse_laws Z \<longleftrightarrow>
     (\<forall>v. Z C_string v = on_text (\<lambda>s. True) v
        \<and> (\<forall>n. Z (C_string_min n) v = on_text (\<lambda>s. n \<le> length s) v)
        \<and> Z C_decimal v = on_text money_amount v
        \<and> Z C_boolean v = on_boolean v
        \<and> Z C_number v = on_number (\<lambda>q. True) v
        \<and> Z C_unit v = on_number (\<lambda>q. 0 \<le> q \<and> q \<le> 1) v
        \<and> Z C_int v = on_number safe_integer v
        \<and> Z C_unknown v = Some v
        \<and> (\<forall>t. Z (C_literal t) v = on_text (\<lambda>s. s = t) v)
        \<and> (\<forall>ts. Z (C_enum ts) v = on_text (\<lambda>s. s \<in> set ts) v))
   \<and> (\<forall>c v. Z (C_nullish c) v = (if v = None \<or> v = Some W_null then Some v else Z c v)
        \<and> (\<forall>w. Z (C_default c w) v = (if v = None then Some (Some w) else Z c v))
        \<and> (\<forall>d. Z (C_union c d) v = (case Z c v of None \<Rightarrow> Z d v | Some r \<Rightarrow> Some r))
        \<and> Z (C_array c) v =
            (case v of
               Some (W_arr xs) \<Rightarrow> map_option (\<lambda>ys. Some (W_arr ys)) (those (map (\<lambda>x. Option.bind (Z c (Some x)) id) xs))
             | _ \<Rightarrow> None)
        \<and> Z (C_map c) v =
            (case v of
               Some (W_obj kvs) \<Rightarrow>
                 map_option (\<lambda>ys. Some (W_obj (zip (map fst kvs) ys)))
                   (those (map (\<lambda>kv. Option.bind (Z c (Some (snd kv))) id) kvs))
             | _ \<Rightarrow> None))
   \<and> (\<forall>u fs v. Z (C_object u fs) v =
        (case v of
           Some (W_obj kvs) \<Rightarrow> object_result u fs kvs (map (\<lambda>f. Z (snd f) (map_of kvs (fst f))) fs)
         | _ \<Rightarrow> None))"

section \<open>Contracts of the AI side\<close>

definition id_contract :: contract where "id_contract = C_string_min 1"

definition timestamp_contract :: contract where "timestamp_contract = C_string_min 1"

text \<open>\<open>z.record(z.string(), z.unknown())\<close>: any object.\<close>

definition open_record :: contract where "open_record = C_map C_unknown"

definition numbers_record :: contract where "numbers_record = C_map C_number"

definition confidence_contract :: contract where "confidence_contract = C_default C_unit (W_num 0)"

definition money_contract :: contract where
  "money_contract = C_object UK_strict
     [(''value'', C_decimal), (''currency'', C_string_min 1)]"

definition model_metadata_contract :: contract where
  "model_metadata_contract = C_object UK_passthrough
     [(''provider'', C_string), (''model'', C_string), (''model_version'', C_string),
      (''configuration_version'', C_string), (''prompt_version'', C_string),
      (''temperature'', C_default C_number (W_num 0)), (''timestamp'', timestamp_contract),
      (''system_prompt_hash'', C_nullish C_string), (''toolset_version'', C_nullish C_string),
      (''retrieval_version'', C_nullish C_string), (''classifier_version'', C_nullish C_string),
      (''embedding_model_version'', C_nullish C_string)]"

definition intent_verification_contract :: contract where
  "intent_verification_contract = C_object UK_strip
     [(''schema_version'', C_default (C_literal ''intent_verification.v1'') (W_str ''intent_verification.v1'')),
      (''status'', C_enum [''PASS'', ''FAIL'', ''UNCERTAIN'', ''INSUFFICIENT_EVIDENCE'']),
      (''intent_match'', C_boolean), (''score'', C_number), (''dimensions'', C_default numbers_record (W_obj [])),
      (''violations'', C_default (C_array C_string) (W_arr [])),
      (''reasons'', C_default (C_array C_string) (W_arr [])),
      (''evidence_ids'', C_default (C_array C_string) (W_arr [])), (''confidence'', confidence_contract)]"

definition threat_contract :: contract where
  "threat_contract = C_object UK_strip
     [(''schema_version'', C_default (C_literal ''threat_assessment.v1'') (W_str ''threat_assessment.v1'')),
      (''detected'', C_boolean), (''severity'', C_nullish (C_enum [''LOW'', ''MEDIUM'', ''HIGH'', ''CRITICAL''])),
      (''categories'', C_default (C_array C_string) (W_arr [])), (''confidence'', confidence_contract),
      (''evidence_ids'', C_default (C_array C_string) (W_arr [])),
      (''trajectory_event_ids'', C_default (C_array C_string) (W_arr [])),
      (''explanation'', C_default C_string (W_str [])),
      (''recommended_handling'', C_default (C_enum [''MONITOR'', ''REVIEW'', ''DENY_RECOMMENDED'']) (W_str ''MONITOR''))]"

definition reputation_contract :: contract where
  "reputation_contract = C_object UK_strip
     [(''schema_version'', C_default (C_literal ''reputation_assessment.v1'') (W_str ''reputation_assessment.v1'')),
      (''entity'', C_default open_record (W_obj [])), (''score'', C_nullish C_number),
      (''level'', C_enum [''LOW'', ''MEDIUM'', ''HIGH'', ''NEW'', ''INSUFFICIENT_HISTORY'']),
      (''signals'', C_default (C_array open_record) (W_arr [])),
      (''data_quality'', C_default (C_enum [''GOOD'', ''PARTIAL'', ''POOR'', ''UNAVAILABLE'']) (W_str ''UNAVAILABLE'')),
      (''evidence_ids'', C_default (C_array C_string) (W_arr [])), (''confidence'', confidence_contract)]"

definition anomaly_contract :: contract where
  "anomaly_contract = C_object UK_strip
     [(''schema_version'', C_default (C_literal ''anomaly_assessment.v1'') (W_str ''anomaly_assessment.v1'')),
      (''score'', C_nullish C_number),
      (''level'', C_enum [''LOW'', ''MEDIUM'', ''HIGH'', ''INSUFFICIENT_EVIDENCE'']),
      (''signals'', C_default (C_array open_record) (W_arr [])), (''baseline_reference'', C_nullish open_record),
      (''confidence'', confidence_contract), (''evidence_ids'', C_default (C_array C_string) (W_arr []))]"

definition risk_contract :: contract where
  "risk_contract = C_object UK_strip
     [(''schema_version'', C_default (C_literal ''risk_assessment.v1'') (W_str ''risk_assessment.v1'')),
      (''score'', C_nullish C_number),
      (''level'', C_enum [''LOW'', ''MEDIUM'', ''HIGH'', ''CRITICAL'', ''INSUFFICIENT_EVIDENCE'']),
      (''dimensions'', C_default numbers_record (W_obj [])), (''drivers'', C_default (C_array C_string) (W_arr [])),
      (''confidence'', confidence_contract), (''evidence_ids'', C_default (C_array C_string) (W_arr []))]"

definition overall_contract :: contract where
  "overall_contract = C_object UK_strip
     [(''status'', C_enum [''LOW_RISK'', ''MEDIUM_RISK'', ''HIGH_RISK'', ''INSUFFICIENT_EVIDENCE'']),
      (''confidence'', C_unit), (''summary'', C_string),
      (''recommended_handling'', C_enum [''PROCEED_CANDIDATE'', ''MONITOR'', ''REVIEW'', ''DENY_RECOMMENDED''])]"

definition security_assessment_contract :: contract where
  "security_assessment_contract = C_object UK_strip
     [(''schema_version'', C_default (C_literal ''security_assessment.v1'') (W_str ''security_assessment.v1'')),
      (''assessment_id'', id_contract), (''proposal_id'', id_contract),
      (''intent_verification'', intent_verification_contract), (''threat_assessment'', threat_contract),
      (''reputation_assessment'', reputation_contract), (''anomaly_assessment'', anomaly_contract),
      (''risk_assessment'', risk_contract), (''overall_assessment'', overall_contract),
      (''explanation'', C_default C_string (W_str [])),
      (''model_metadata'', C_nullish (C_union model_metadata_contract open_record)),
      (''created_at'', timestamp_contract)]"

definition FORBIDDEN_AUTHORITY_FIELDS :: "string list" where
  "FORBIDDEN_AUTHORITY_FIELDS = [''authorized'', ''execute'', ''sign'', ''allow'', ''authorization'', ''signature'', ''private_key'']"

definition money_limit_contract :: contract where
  "money_limit_contract = C_object UK_passthrough
     [(''maximum'', C_decimal), (''currency'', C_string_min 1),
      (''period'', C_nullish (C_enum [''daily'', ''weekly'', ''monthly'', ''once'']))]"

definition ambiguity_contract :: contract where
  "ambiguity_contract = C_object UK_passthrough
     [(''field'', C_string), (''reason'', C_string)]"

definition intent_contract :: contract where
  "intent_contract = C_object UK_passthrough
     [(''schema_version'', C_default (C_literal ''intent.v1'') (W_str ''intent.v1'')), (''intent_id'', id_contract),
      (''user_id'', C_nullish id_contract), (''agent_id'', id_contract), (''user_goal'', C_string),
      (''purpose'', C_string), (''desired_outcome'', C_string),
      (''constraints'', C_default (C_array C_string) (W_arr [])), (''budget'', C_nullish money_limit_contract),
      (''authorized_actions'', C_default (C_array C_string) (W_arr [])),
      (''forbidden_actions'', C_default (C_array C_string) (W_arr [])),
      (''autonomy_level'', C_default (C_enum [''MANUAL'', ''CONDITIONAL'', ''AUTOMATIC'']) (W_str ''MANUAL'')),
      (''approval_conditions'', C_default (C_array C_string) (W_arr [])), (''valid_from'', timestamp_contract),
      (''valid_until'', timestamp_contract),
      (''status'', C_default (C_enum [''VALID'', ''NEEDS_CLARIFICATION'', ''EXPIRED'', ''INVALID'']) (W_str ''VALID'')),
      (''confidence'', C_nullish C_unit), (''ambiguities'', C_default (C_array ambiguity_contract) (W_arr [])),
      (''created_at'', timestamp_contract)]"

definition recipient_ref_contract :: contract where
  "recipient_ref_contract = C_object UK_passthrough
     [(''type'', C_default (C_enum [''SERVICE'', ''WALLET'', ''CONTRACT'', ''MERCHANT'', ''UNKNOWN'']) (W_str ''UNKNOWN'')),
      (''identifier'', C_nullish C_string), (''address'', C_nullish C_string), (''network'', C_nullish C_string)]"

definition action_proposal_contract :: contract where
  "action_proposal_contract = C_object UK_passthrough
     [(''schema_version'', C_default (C_literal ''action_proposal.v1'') (W_str ''action_proposal.v1'')),
      (''proposal_id'', id_contract), (''intent_id'', id_contract), (''agent_id'', id_contract),
      (''action_type'', C_enum [''PAY'', ''TRANSFER'', ''PURCHASE'', ''CALL_API'', ''SWAP'', ''OTHER'']),
      (''purpose'', C_string), (''recipient'', C_nullish recipient_ref_contract),
      (''amount'', C_nullish money_contract), (''payment_method'', C_nullish C_string),
      (''network'', C_nullish C_string), (''reason'', C_default C_string (W_str [])),
      (''evidence_ids'', C_default (C_array C_string) (W_arr [])),
      (''trajectory_event_ids'', C_default (C_array C_string) (W_arr [])), (''created_at'', timestamp_contract)]"

definition trust_level_contract :: contract where
  "trust_level_contract = C_enum [''TRUSTED'', ''INTERNAL'', ''EXTERNAL'', ''UNTRUSTED'', ''UNKNOWN'']"

definition event_type_contract :: contract where
  "event_type_contract = C_enum [''USER_REQUEST'', ''INTENT_CREATED'', ''INTENT_UPDATED'', ''PLAN_CREATED'', ''TOOL_CALL'', ''TOOL_RESULT'',
      ''WEB_ACCESS'', ''API_CALL'', ''MEMORY_READ'', ''MEMORY_WRITE'', ''EXTERNAL_INPUT'', ''OBSERVATION'',
      ''PLAN_CHANGE'', ''RECIPIENT_CHANGE'', ''AMOUNT_CHANGE'', ''ASSET_CHANGE'', ''PROPOSAL_CREATED'',
      ''SECURITY_ANALYSIS'', ''POLICY_CHECK'', ''SIMULATION'', ''APPROVAL_REQUEST'', ''APPROVAL_RESULT'',
      ''EXECUTION_REQUEST'', ''EXECUTION_RESULT'', ''TOOL_ERROR'']"

definition trust_context_contract :: contract where
  "trust_context_contract = C_object UK_passthrough
     [(''source_type'', C_string), (''trust_level'', trust_level_contract)]"

definition trajectory_event_contract :: contract where
  "trajectory_event_contract = C_object UK_passthrough
     [(''schema_version'', C_default (C_literal ''trajectory_event.v1'') (W_str ''trajectory_event.v1'')),
      (''event_id'', id_contract), (''trace_id'', id_contract), (''sequence'', C_int),
      (''timestamp'', timestamp_contract), (''agent_id'', id_contract), (''event_type'', event_type_contract),
      (''action'', C_default open_record (W_obj [])), (''input_ref'', C_nullish id_contract),
      (''output_ref'', C_nullish id_contract), (''trust_context'', C_nullish trust_context_contract),
      (''previous_event_hash'', C_string), (''event_hash'', C_string)]"

definition evidence_source_contract :: contract where
  "evidence_source_contract = C_object UK_passthrough
     [(''source_id'', id_contract), (''source_type'', C_string), (''trust_level'', trust_level_contract)]"

definition evidence_contract :: contract where
  "evidence_contract = C_object UK_passthrough
     [(''schema_version'', C_default (C_literal ''evidence.v1'') (W_str ''evidence.v1'')),
      (''evidence_id'', id_contract), (''source'', evidence_source_contract),
      (''content_type'', C_default (C_enum [''TEXT'', ''JSON'', ''IMAGE'', ''DOCUMENT'', ''CHAIN_DATA'', ''STRUCTURED'']) (W_str ''TEXT'')),
      (''content_hash'', C_string), (''claim'', C_nullish C_string), (''raw_reference'', C_nullish C_string),
      (''timestamp'', timestamp_contract), (''derived_from'', C_default (C_array C_string) (W_arr [])),
      (''trajectory_event_ids'', C_default (C_array C_string) (W_arr []))]"

section \<open>Contracts of Core\<close>

definition rule_type_contract :: contract where
  "rule_type_contract = C_enum [''AMOUNT_LIMIT'', ''CUMULATIVE_LIMIT'', ''RECIPIENT_ALLOWLIST'', ''RECIPIENT_BLOCKLIST'', ''CATEGORY_ALLOW'',
      ''CATEGORY_BLOCK'', ''ASSET_ALLOW'', ''NETWORK_ALLOW'', ''TIME_WINDOW'', ''NEW_RECIPIENT_APPROVAL'',
      ''REQUIRED_PREDECESSOR'', ''HUMAN_APPROVAL'', ''NO_STRUCTURING'', ''CAPABILITY_EXPIRY'']"

definition required_action_contract :: contract where
  "required_action_contract = C_enum [''ALLOW'', ''REVIEW'', ''DENY'', ''REQUIRE_APPROVAL'']"

definition rule_constraint_contract :: contract where
  "rule_constraint_contract = C_object UK_strict
     [(''operator'', C_nullish C_string), (''field'', C_nullish C_string),
      (''value'', C_nullish (C_union C_string (C_array C_string))), (''currency'', C_nullish C_string)]"

definition policy_rule_contract :: contract where
  "policy_rule_contract = C_object UK_strict
     [(''rule_id'', id_contract), (''type'', rule_type_contract), (''condition'', C_default open_record (W_obj [])),
      (''constraint'', C_default rule_constraint_contract (W_obj [])),
      (''required_action'', C_default required_action_contract (W_str ''ALLOW'')),
      (''priority'', C_default C_int (W_num 100)), (''enabled'', C_default C_boolean (W_bool True))]"

definition policy_contract :: contract where
  "policy_contract = C_object UK_strict
     [(''schema_version'', C_default (C_literal ''policy.v1'') (W_str ''policy.v1'')), (''policy_id'', id_contract),
      (''company_id'', id_contract), (''agent_id'', C_nullish id_contract), (''version'', C_int),
      (''status'', C_enum [''DRAFT'', ''ACTIVE'', ''SUPERSEDED'', ''DISABLED'']),
      (''rules'', C_default (C_array policy_rule_contract) (W_arr [])), (''created_at'', timestamp_contract)]"

definition policy_violation_contract :: contract where
  "policy_violation_contract = C_object UK_strict
     [(''schema_version'', C_default (C_literal ''policy_violation.v1'') (W_str ''policy_violation.v1'')),
      (''violation_id'', id_contract), (''rule_id'', id_contract), (''rule_type'', rule_type_contract),
      (''trajectory_event_id'', C_nullish id_contract), (''field'', C_string), (''actual_value'', C_string),
      (''expected'', C_string), (''severity'', C_enum [''LOW'', ''MEDIUM'', ''HIGH'', ''CRITICAL'']),
      (''message'', C_string)]"

definition rule_check_contract :: contract where
  "rule_check_contract = C_object UK_strict
     [(''rule_id'', id_contract), (''result'', C_enum [''PASS'', ''FAIL'', ''REVIEW'', ''SKIPPED''])]"

definition trajectory_context_contract :: contract where
  "trajectory_context_contract = C_object UK_strict
     [(''trace_id'', id_contract), (''events_considered'', C_int)]"

definition policy_evaluation_contract :: contract where
  "policy_evaluation_contract = C_object UK_strict
     [(''schema_version'', C_default (C_literal ''policy_evaluation.v1'') (W_str ''policy_evaluation.v1'')),
      (''policy_id'', id_contract), (''policy_version'', C_int),
      (''status'', C_enum [''PASS'', ''FAIL'', ''REVIEW'']),
      (''rules_checked'', C_default (C_array rule_check_contract) (W_arr [])),
      (''violations'', C_default (C_array policy_violation_contract) (W_arr [])),
      (''trajectory_context'', C_nullish trajectory_context_contract), (''evaluated_at'', timestamp_contract)]"

definition approval_summary_contract :: contract where
  "approval_summary_contract = C_object UK_strict
     [(''purpose'', C_string), (''amount'', C_decimal), (''currency'', C_string), (''recipient'', C_string)]"

definition approval_security_contract :: contract where
  "approval_security_contract = C_object UK_strict
     [(''risk_level'', C_enum [''LOW'', ''MEDIUM'', ''HIGH'', ''CRITICAL'']),
      (''threats'', C_default (C_array C_string) (W_arr [])), (''simulation'', C_string)]"

definition approval_request_contract :: contract where
  "approval_request_contract = C_object UK_strict
     [(''schema_version'', C_default (C_literal ''approval_request.v1'') (W_str ''approval_request.v1'')),
      (''approval_id'', id_contract), (''proposal_id'', id_contract), (''transaction_id'', C_nullish id_contract),
      (''reason'', C_string), (''summary'', approval_summary_contract),
      (''security_summary'', approval_security_contract), (''expires_at'', timestamp_contract),
      (''required_role'', C_string), (''created_at'', timestamp_contract)]"

definition approval_result_contract :: contract where
  "approval_result_contract = C_object UK_strict
     [(''schema_version'', C_default (C_literal ''approval_result.v1'') (W_str ''approval_result.v1'')),
      (''approval_id'', id_contract), (''status'', C_enum [''APPROVED'', ''DENIED'', ''EXPIRED'', ''PENDING'']),
      (''approved_by'', C_nullish id_contract), (''approved_at'', C_nullish timestamp_contract),
      (''authorization_reference'', C_nullish C_string), (''decision_context_hash'', C_string)]"

definition constitution_contract :: contract where
  "constitution_contract = C_object UK_strict
     [(''schema_version'', C_default (C_literal ''constitution.v1'') (W_str ''constitution.v1'')),
      (''constitution_id'', id_contract), (''company_id'', id_contract), (''agent_id'', id_contract),
      (''purpose'', C_string), (''allowed_actions'', C_default (C_array C_string) (W_arr [])),
      (''blocked_actions'', C_default (C_array C_string) (W_arr [])),
      (''allowed_assets'', C_default (C_array C_string) (W_arr [])),
      (''allowed_networks'', C_default (C_array C_string) (W_arr [])),
      (''allowed_categories'', C_default (C_array C_string) (W_arr [])),
      (''blocked_categories'', C_default (C_array C_string) (W_arr [])),
      (''spending_limits'', C_default (C_map C_decimal) (W_obj [])),
      (''approval_rules'', C_default (C_array open_record) (W_arr [])),
      (''recipient_rules'', C_default open_record (W_obj [])), (''time_rules'', C_default open_record (W_obj [])),
      (''version'', C_int), (''status'', C_enum [''ACTIVE'', ''SUSPENDED'', ''REVOKED'']),
      (''created_at'', timestamp_contract)]"

definition decision_approval_contract :: contract where
  "decision_approval_contract = C_object UK_strict
     [(''required'', C_boolean), (''status'', C_string)]"

definition decision_contract :: contract where
  "decision_contract = C_object UK_strict
     [(''schema_version'', C_default (C_literal ''decision.v1'') (W_str ''decision.v1'')),
      (''decision_id'', id_contract), (''proposal_id'', id_contract), (''transaction_id'', C_nullish id_contract),
      (''result'', C_enum [''ALLOW'', ''REVIEW'', ''DENY'']), (''reasons'', C_default (C_array C_string) (W_arr [])),
      (''policy_evaluation'', C_default open_record (W_obj [])),
      (''security_assessment'', C_default open_record (W_obj [])),
      (''transaction_analysis'', C_default open_record (W_obj [])),
      (''simulation_result'', C_default open_record (W_obj [])), (''approval'', decision_approval_contract),
      (''decision_version'', C_int), (''created_at'', timestamp_contract)]"

definition audit_event_contract :: contract where
  "audit_event_contract = C_object UK_strict
     [(''schema_version'', C_default (C_literal ''audit_event.v1'') (W_str ''audit_event.v1'')),
      (''audit_id'', id_contract), (''event_type'', C_string), (''entity_type'', C_string),
      (''entity_id'', id_contract), (''actor_type'', C_string), (''actor_id'', id_contract),
      (''timestamp'', timestamp_contract), (''result'', C_nullish C_string),
      (''references'', C_default open_record (W_obj [])), (''previous_event_hash'', C_string),
      (''event_hash'', C_string)]"

definition attestation_record_contract :: contract where
  "attestation_record_contract = C_object UK_strict
     [(''schema_version'', C_default (C_literal ''attestation.v1'') (W_str ''attestation.v1'')),
      (''attestation_id'', id_contract), (''agent_id'', id_contract), (''transaction_id'', id_contract),
      (''trace_merkle_root'', C_string), (''policy_hash'', C_string),
      (''decision'', C_enum [''ALLOW'', ''REVIEW'', ''DENY'']), (''transaction_hash'', C_nullish C_string),
      (''timestamp'', timestamp_contract), (''registry_tx_hash'', C_nullish C_string)]"

definition ERROR_CODES :: "string list" where
  "ERROR_CODES = [''INVALID_INPUT'', ''SCHEMA_ERROR'', ''AUTHENTICATION_ERROR'', ''AUTHORIZATION_ERROR'', ''TENANT_ERROR'',
      ''AGENT_NOT_FOUND'', ''AGENT_INACTIVE'', ''INTENT_INVALID'', ''INTENT_EXPIRED'', ''PROPOSAL_INVALID'',
      ''CAPABILITY_INVALID'', ''CAPABILITY_EXPIRED'', ''POLICY_INVALID'', ''POLICY_CONFLICT'',
      ''POLICY_VIOLATION'', ''SECURITY_ASSESSMENT_INVALID'', ''SECURITY_ASSESSMENT_STALE'',
      ''INSUFFICIENT_EVIDENCE'', ''TRANSACTION_INVALID'', ''TRANSACTION_MISMATCH'', ''SIMULATION_FAILED'',
      ''SIMULATION_STALE'', ''APPROVAL_REQUIRED'', ''APPROVAL_NOT_FOUND'', ''APPROVAL_EXPIRED'',
      ''APPROVAL_MISMATCH'', ''APPROVAL_DENIED'', ''DECISION_STALE'', ''EXECUTION_BLOCKED'', ''EXECUTION_FAILED'',
      ''EXECUTION_UNKNOWN'', ''RECEIPT_MISMATCH'', ''CONCURRENCY_CONFLICT'', ''IDEMPOTENCY_CONFLICT'',
      ''PROVIDER_ERROR'', ''TIMEOUT'', ''NOT_FOUND'', ''CONFLICT'', ''RATE_LIMITED'', ''CONFIGURATION_ERROR'',
      ''INTERNAL_ERROR'']"

definition error_contract :: contract where
  "error_contract = C_object UK_passthrough
     [(''schema_version'', C_default (C_literal ''error.v1'') (W_str ''error.v1'')), (''code'', C_enum ERROR_CODES),
      (''message'', C_string),
      (''severity'', C_default (C_enum [''LOW'', ''MEDIUM'', ''HIGH'', ''CRITICAL'']) (W_str ''MEDIUM'')),
      (''retryable'', C_default C_boolean (W_bool False)), (''details'', C_default open_record (W_obj [])),
      (''correlation_id'', C_nullish C_string)]"

definition PARSED_CONTRACTS :: "contract list" where
  "PARSED_CONTRACTS = [intent_contract, action_proposal_contract, security_assessment_contract, trajectory_event_contract,
     evidence_contract, policy_contract, policy_evaluation_contract, approval_request_contract,
     approval_result_contract, constitution_contract, decision_contract, audit_event_contract,
     attestation_record_contract, error_contract]"

section \<open>Lemmas\<close>

text \<open>The laws determine the parser.\<close>

lemma map_bind_cong: "(\<And>x. x \<in> set xs \<Longrightarrow> f x = g x) \<Longrightarrow> map (\<lambda>x. Option.bind (f x) id) xs = map (\<lambda>x. Option.bind (g x) id) xs"
  by simp

lemma zod_parses:
  assumes "zod_parse_laws Z"
  shows "Z c v = parse c v"
proof (induction c v rule: parse.induct)
  case (14 c v)
  have "Z (C_array c) v =
      (case v of
         Some (W_arr xs) \<Rightarrow> map_option (\<lambda>ys. Some (W_arr ys)) (those (map (\<lambda>x. Option.bind (Z c (Some x)) id) xs))
       | _ \<Rightarrow> None)"
    using assms unfolding zod_parse_laws_def by blast
  then show ?case using 14 by (auto split: option.splits wire.splits cong: map_cong)
next
  case (15 c v)
  have "Z (C_map c) v =
      (case v of
         Some (W_obj kvs) \<Rightarrow>
           map_option (\<lambda>ys. Some (W_obj (zip (map fst kvs) ys)))
             (those (map (\<lambda>kv. Option.bind (Z c (Some (snd kv))) id) kvs))
       | _ \<Rightarrow> None)"
    using assms unfolding zod_parse_laws_def by blast
  then show ?case using 15 by (auto split: option.splits wire.splits cong: map_cong)
next
  case (16 u fs v)
  have "Z (C_object u fs) v =
      (case v of
         Some (W_obj kvs) \<Rightarrow> object_result u fs kvs (map (\<lambda>f. Z (snd f) (map_of kvs (fst f))) fs)
       | _ \<Rightarrow> None)"
    using assms unfolding zod_parse_laws_def by blast
  then show ?case using 16 by (auto split: option.splits wire.splits cong: map_cong)
next
  case (13 c d v)
  have "Z (C_union c d) v = (case Z c v of None \<Rightarrow> Z d v | Some r \<Rightarrow> Some r)"
    using assms unfolding zod_parse_laws_def by blast
  then show ?case using 13 by (auto split: option.splits)
qed (use assms in \<open>simp add: zod_parse_laws_def; fail\<close>)+

lemma parse_laws: "zod_parse_laws parse"
  by (simp add: zod_parse_laws_def)

text \<open>A list of results.\<close>

lemma those_Some_iff: "those rs = Some ms \<longleftrightarrow> rs = map Some ms"
proof (induction rs arbitrary: ms)
  case (Cons r rs)
  then show ?case by (cases r) (auto simp: Cons_eq_map_conv)
qed auto

lemma on_text_Some: "on_text P v = Some r \<longleftrightarrow> r = v \<and> (\<exists>s. v = Some (W_str s) \<and> P s)"
  by (auto simp: on_text_def split: option.splits wire.splits)

lemma on_number_Some: "on_number P v = Some r \<longleftrightarrow> r = v \<and> (\<exists>q. v = Some (W_num q) \<and> P q)"
  by (auto simp: on_number_def split: option.splits wire.splits)

lemma on_boolean_Some: "on_boolean v = Some r \<longleftrightarrow> r = v \<and> (\<exists>b. v = Some (W_bool b))"
  by (auto simp: on_boolean_def split: option.splits wire.splits)

lemmas scalar_results = on_text_Some on_number_Some on_boolean_Some

text \<open>An object that is accepted: what becomes of each member.\<close>

lemma present_Nil [simp]: "present [] = []"
  by (simp add: present_def)

lemma present_Cons: "present ((k, m) # ms) = (case m of None \<Rightarrow> present ms | Some w \<Rightarrow> (k, w) # present ms)"
  by (simp add: present_def split: option.splits)

lemma present_keys: "fst ` set (present ms) \<subseteq> fst ` set ms"
proof (induction ms)
  case (Cons m ms)
  obtain k r where "m = (k, r)" by force
  with Cons show ?case by (cases r) (simp_all add: present_Cons subset_insertI2)
qed simp

lemma map_of_present: "distinct (map fst ms) \<Longrightarrow> map_of (present ms) k = (case map_of ms k of None \<Rightarrow> None | Some m \<Rightarrow> m)"
proof (induction ms)
  case (Cons m ms)
  obtain k' r where m: "m = (k', r)" by force
  have "k \<notin> fst ` set ms \<Longrightarrow> map_of (present ms) k = None" using present_keys [of ms] by (auto simp: map_of_eq_None_iff)
  with Cons m show ?case by (auto simp: present_Cons split: option.splits)
qed simp

lemma present_declared: "fst ` set (present (zip (map fst fs) ms)) \<subseteq> fst ` set fs"
proof -
  have "fst ` set (zip (map fst fs) ms) \<subseteq> set (map fst fs)" by (auto dest: set_zip_leftD)
  then show ?thesis using present_keys [of "zip (map fst fs) ms"] by simp
qed

lemma map_of_undeclared: "map_of (undeclared fs kvs) k = (if k \<in> fst ` set fs then None else map_of kvs k)"
  by (induction kvs) (force simp: undeclared_def)+

lemma parse_object:
  assumes "parse (C_object u fs) v = Some r"
  obtains kvs ms where "v = Some (W_obj kvs)" and "map (\<lambda>f. parse (snd f) (map_of kvs (fst f))) fs = map Some ms"
    and "r = Some (W_obj (present (zip (map fst fs) ms) @ (if u = UK_passthrough then undeclared fs kvs else [])))"
    and "u = UK_strict \<Longrightarrow> undeclared fs kvs = []"
  using assms by (auto simp: object_result_def those_Some_iff split: option.splits wire.splits if_splits)

lemma parse_member:
  assumes "parse (C_object u fs) (Some (W_obj kvs)) = Some (Some (W_obj out))" and "distinct (map fst fs)" and "(k, c) \<in> set fs"
  shows "parse c (map_of kvs k) = Some (map_of out k)"
proof -
  from assms(1) obtain ms where ms: "map (\<lambda>f. parse (snd f) (map_of kvs (fst f))) fs = map Some ms"
    and out: "out = present (zip (map fst fs) ms) @ (if u = UK_passthrough then undeclared fs kvs else [])"
    by (rule parse_object) auto
  from assms(3) obtain i where i: "i < length fs" "fs ! i = (k, c)" by (auto simp: in_set_conv_nth)
  have l: "length ms = length fs" using arg_cong [OF ms, of length] by simp
  have "parse c (map_of kvs k) = Some (ms ! i)" using arg_cong [OF ms, of "\<lambda>xs. xs ! i"] i l by simp
  moreover have "map_of (zip (map fst fs) ms) k = Some (ms ! i)"
    using i l assms(2) by (intro map_of_is_SomeI) (auto simp: set_zip l intro!: exI [of _ i])
  then have "map_of (present (zip (map fst fs) ms)) k = ms ! i"
    using assms(2) l by (subst map_of_present) simp_all
  then have "map_of out k = ms ! i"
    using assms(3) unfolding out by (auto simp: map_add_def map_of_undeclared image_iff split: option.splits)
  ultimately show ?thesis by simp
qed

lemma parse_undeclared:
  assumes "parse (C_object u fs) (Some (W_obj kvs)) = Some (Some (W_obj out))" and "k \<notin> fst ` set fs"
  shows "map_of out k = (if u = UK_passthrough then map_of kvs k else None)"
proof -
  from assms(1) obtain ms where
    out: "out = present (zip (map fst fs) ms) @ (if u = UK_passthrough then undeclared fs kvs else [])"
    by (rule parse_object) auto
  have "k \<notin> fst ` set (present (zip (map fst fs) ms))" using present_declared [of fs ms] assms(2) by blast
  then have "map_of (present (zip (map fst fs) ms)) k = None" by (simp add: map_of_eq_None_iff)
  then show ?thesis unfolding out using assms(2) by (simp add: map_add_def map_of_undeclared)
qed

text \<open>Contracts that change nothing, and contracts whose defaults and unions are harmless.\<close>

fun keeps_value :: "contract \<Rightarrow> bool" where
  "keeps_value (C_nullish c) \<longleftrightarrow> keeps_value c"
| "keeps_value (C_default c w) \<longleftrightarrow> False"
| "keeps_value (C_union c d) \<longleftrightarrow> keeps_value c \<and> keeps_value d"
| "keeps_value (C_array c) \<longleftrightarrow> keeps_value c"
| "keeps_value (C_map c) \<longleftrightarrow> keeps_value c"
| "keeps_value (C_object u fs) \<longleftrightarrow> False"
| "keeps_value c \<longleftrightarrow> True"

fun sound_contract :: "contract \<Rightarrow> bool" where
  "sound_contract (C_nullish c) \<longleftrightarrow> sound_contract c"
| "sound_contract (C_default c w) \<longleftrightarrow> sound_contract c \<and> parse c (Some w) = Some (Some w)"
| "sound_contract (C_union c d) \<longleftrightarrow> sound_contract c \<and> keeps_value d"
| "sound_contract (C_array c) \<longleftrightarrow> sound_contract c"
| "sound_contract (C_map c) \<longleftrightarrow> sound_contract c"
| "sound_contract (C_object u fs) \<longleftrightarrow> distinct (map fst fs) \<and> (\<forall>f \<in> set fs. sound_contract (snd f))"
| "sound_contract c \<longleftrightarrow> True"

lemma parse_present: "parse c (Some x) = Some r \<Longrightarrow> r \<noteq> None"
proof (induction c "Some x" arbitrary: r x rule: parse.induct)
  case (13 c d x)
  then show ?case by (auto split: option.splits)
next
  case (16 u fs x)
  then show ?case by (auto elim!: parse_object simp del: parse.simps)
qed (auto simp: scalar_results split: if_splits wire.splits)

lemma those_kept:
  assumes "those (map g xs) = Some ys" and "\<And>x y. x \<in> set xs \<Longrightarrow> g x = Some y \<Longrightarrow> h y = Some y"
  shows "those (map h ys) = Some ys"
proof -
  have "map g xs = map Some ys" using assms(1) by (simp add: those_Some_iff)
  then have "\<forall>y \<in> set ys. h y = Some y"
  proof (intro ballI)
    fix y assume "map g xs = map Some ys" "y \<in> set ys"
    then have "Some y \<in> set (map g xs)" by simp
    then obtain x where "x \<in> set xs" "g x = Some y" by auto
    then show "h y = Some y" by (rule assms(2))
  qed
  then show ?thesis by (simp add: those_Some_iff)
qed

lemma map_over_zip: "length ks = length ys \<Longrightarrow> map (\<lambda>kv. g (snd kv)) (zip ks ys) = map g ys"
  by (induction rule: list_induct2) simp_all

lemma map_Some_image:
  "map g xs = map Some ys \<Longrightarrow> (\<And>x y. x \<in> set xs \<Longrightarrow> g x = Some y \<Longrightarrow> y = h x) \<Longrightarrow> ys = map h xs"
proof (induction xs arbitrary: ys)
  case (Cons x xs)
  then obtain y zs where "ys = y # zs" "g x = Some y" "map g xs = map Some zs" by (cases ys) auto
  with Cons.IH [of zs] Cons.prems(2) show ?case by simp
qed simp

lemma keeps_value_parse: "keeps_value c \<Longrightarrow> parse c v = Some r \<Longrightarrow> r = v"
proof (induction c v arbitrary: r rule: parse.induct)
  case (13 c d v)
  then show ?case by (auto split: option.splits)
next
  case (14 c v)
  then obtain xs ys where v: "v = Some (W_arr xs)" and r: "r = Some (W_arr ys)"
    and ys: "map (\<lambda>x. Option.bind (parse c (Some x)) id) xs = map Some ys"
    by (auto simp: those_Some_iff split: option.splits wire.splits)
  have "ys = map id xs"
    by (rule map_Some_image [OF ys]) (use 14 v in \<open>auto simp: bind_eq_Some_conv\<close>)
  then show ?case using v r by simp
next
  case (15 c v)
  then obtain xs ys where v: "v = Some (W_obj xs)" and r: "r = Some (W_obj (zip (map fst xs) ys))"
    and ys: "map (\<lambda>kv. Option.bind (parse c (Some (snd kv))) id) xs = map Some ys"
    by (auto simp: those_Some_iff split: option.splits wire.splits)
  have ih: "parse c (Some (snd kv)) = Some q \<Longrightarrow> q = Some (snd kv)" if "kv \<in> set xs" for kv q
    using "15.IH" "15.prems"(1) v that by simp
  have "ys = map snd xs"
    by (rule map_Some_image [OF ys]) (auto simp: bind_eq_Some_conv dest!: ih)
  then show ?case using v r by (simp add: zip_map_fst_snd)
qed (auto simp: scalar_results split: if_splits)

lemma reparse: "sound_contract c \<Longrightarrow> parse c v = Some r \<Longrightarrow> parse c r = Some r"
proof (induction c v arbitrary: r rule: parse.induct)
  case (11 c v)
  then show ?case by (auto split: if_splits)
next
  case (12 c w v)
  then show ?case by (auto split: if_splits dest: parse_present)
next
  case (13 c d v)
  show ?case
  proof (cases "parse c v")
    case None
    then have "parse d v = Some r" using 13 by simp
    moreover then have "r = v" using 13 keeps_value_parse by auto
    ultimately show ?thesis using None by simp
  next
    case (Some q)
    then show ?thesis using 13 by simp
  qed
next
  case (14 c v)
  then obtain xs ys where v: "v = Some (W_arr xs)" and r: "r = Some (W_arr ys)"
    and ys: "those (map (\<lambda>x. Option.bind (parse c (Some x)) id) xs) = Some ys"
    by (auto split: option.splits wire.splits)
  have "those (map (\<lambda>x. Option.bind (parse c (Some x)) id) ys) = Some ys"
    by (rule those_kept [OF ys]) (use 14 v in \<open>auto simp: bind_eq_Some_conv\<close>)
  then show ?case unfolding r by simp
next
  case (15 c v)
  then obtain xs ys where v: "v = Some (W_obj xs)" and r: "r = Some (W_obj (zip (map fst xs) ys))"
    and ys: "those (map (\<lambda>kv. Option.bind (parse c (Some (snd kv))) id) xs) = Some ys"
    by (auto split: option.splits wire.splits)
  have l: "length ys = length xs" using ys by (auto simp: those_Some_iff dest: arg_cong [of _ _ length])
  have "those (map (\<lambda>y. Option.bind (parse c (Some y)) id) ys) = Some ys"
    by (rule those_kept [OF ys]) (use 15 v in \<open>auto simp: bind_eq_Some_conv\<close>)
  moreover have "map (\<lambda>kv. Option.bind (parse c (Some (snd kv))) id) (zip (map fst xs) ys) = map (\<lambda>y. Option.bind (parse c (Some y)) id) ys"
    using l by (intro map_over_zip) simp
  ultimately show ?case unfolding r using l by simp
next
  case (16 u fs v)
  have d: "distinct (map fst fs)" and sc: "\<forall>f \<in> set fs. sound_contract (snd f)" using 16 by auto
  obtain kvs ms where v: "v = Some (W_obj kvs)" and ms: "map (\<lambda>f. parse (snd f) (map_of kvs (fst f))) fs = map Some ms"
    and r: "r = Some (W_obj (present (zip (map fst fs) ms) @ (if u = UK_passthrough then undeclared fs kvs else [])))"
    and st: "u = UK_strict \<Longrightarrow> undeclared fs kvs = []"
    by (rule parse_object [OF "16.prems"(2)]) blast
  define out where "out = present (zip (map fst fs) ms) @ (if u = UK_passthrough then undeclared fs kvs else [])"
  have "undeclared fs out = (if u = UK_passthrough then undeclared fs kvs else [])"
    using present_declared [of fs ms] by (auto simp: out_def undeclared_def filter_empty_conv)
  moreover have "map (\<lambda>f. parse (snd f) (map_of out (fst f))) fs = map Some ms"
  proof -
    have "parse (snd f) (map_of out (fst f)) = parse (snd f) (map_of kvs (fst f))" if "f \<in> set fs" for f
    proof -
      have "parse (C_object u fs) (Some (W_obj kvs)) = Some (Some (W_obj out))" using "16.prems"(2) v r by (simp add: out_def)
      then have m: "parse (snd f) (map_of kvs (fst f)) = Some (map_of out (fst f))"
        using parse_member d that by (metis prod.collapse)
      then have "parse (snd f) (map_of out (fst f)) = Some (map_of out (fst f))" using 16 v that sc by blast
      then show ?thesis using m by simp
    qed
    then show ?thesis using ms by (metis (no_types, lifting) map_cong)
  qed
  ultimately show ?case using st unfolding r out_def [symmetric]
    by (auto simp: object_result_def those_Some_iff out_def)
qed (auto simp: scalar_results)

lemmas contract_defs = id_contract_def timestamp_contract_def open_record_def numbers_record_def confidence_contract_def
  money_contract_def model_metadata_contract_def intent_verification_contract_def threat_contract_def reputation_contract_def
  anomaly_contract_def risk_contract_def overall_contract_def security_assessment_contract_def money_limit_contract_def
  ambiguity_contract_def intent_contract_def recipient_ref_contract_def action_proposal_contract_def trust_level_contract_def
  event_type_contract_def trust_context_contract_def trajectory_event_contract_def evidence_source_contract_def evidence_contract_def
  rule_type_contract_def required_action_contract_def rule_constraint_contract_def policy_rule_contract_def policy_contract_def
  policy_violation_contract_def rule_check_contract_def trajectory_context_contract_def policy_evaluation_contract_def approval_summary_contract_def
  approval_security_contract_def approval_request_contract_def approval_result_contract_def constitution_contract_def decision_approval_contract_def
  decision_contract_def audit_event_contract_def attestation_record_contract_def error_contract_def

lemma contracts_sound: "\<forall>c \<in> set PARSED_CONTRACTS. sound_contract c"
  by (simp add: PARSED_CONTRACTS_def contract_defs scalar_results on_text_def on_number_def on_boolean_def
    object_result_def undeclared_def ERROR_CODES_def safe_integer_def present_Cons)

fun declared :: "contract \<Rightarrow> (string \<times> contract) list" where
  "declared (C_object u fs) = fs"
| "declared c = []"

definition ASSESSMENT_PARTS :: "(string \<times> contract) list" where
  "ASSESSMENT_PARTS = [(''intent_verification'', intent_verification_contract), (''threat_assessment'', threat_contract),
     (''reputation_assessment'', reputation_contract), (''anomaly_assessment'', anomaly_contract),
     (''risk_assessment'', risk_contract), (''overall_assessment'', overall_contract)]"

text \<open>The contracts of the parts strip, and declare no authority field.\<close>

lemma part_strips:
  assumes "(s, c) \<in> set ASSESSMENT_PARTS"
  obtains fs where "c = C_object UK_strip fs" and "distinct (map fst fs)" and "set FORBIDDEN_AUTHORITY_FIELDS \<inter> fst ` set fs = {}"
  using assms by (auto simp: ASSESSMENT_PARTS_def contract_defs FORBIDDEN_AUTHORITY_FIELDS_def)

lemma assessment_strips:
  "security_assessment_contract = C_object UK_strip (declared security_assessment_contract)"
  "distinct (map fst (declared security_assessment_contract))"
  "set FORBIDDEN_AUTHORITY_FIELDS \<inter> fst ` set (declared security_assessment_contract) = {}"
  "set ASSESSMENT_PARTS \<subseteq> set (declared security_assessment_contract)"
  "(''model_metadata'', C_nullish (C_union model_metadata_contract open_record)) \<in> set (declared security_assessment_contract)"
  by (simp_all add: security_assessment_contract_def FORBIDDEN_AUTHORITY_FIELDS_def ASSESSMENT_PARTS_def)

lemma metadata_passes:
  "model_metadata_contract = C_object UK_passthrough (declared model_metadata_contract)"
  "set FORBIDDEN_AUTHORITY_FIELDS \<inter> fst ` set (declared model_metadata_contract) = {}"
  by (simp_all add: model_metadata_contract_def FORBIDDEN_AUTHORITY_FIELDS_def)

lemma proposal_passes:
  "action_proposal_contract = C_object UK_passthrough (declared action_proposal_contract)"
  "set FORBIDDEN_AUTHORITY_FIELDS \<inter> fst ` set (declared action_proposal_contract) = {}"
  by (simp_all add: action_proposal_contract_def FORBIDDEN_AUTHORITY_FIELDS_def)

lemma stripped_field:
  assumes "parse (C_object UK_strip fs) v = Some (Some w)" and "k \<notin> fst ` set fs"
  obtains out where "w = W_obj out" and "map_of out k = None"
proof -
  from assms(1) obtain kvs out where "v = Some (W_obj kvs)" "w = W_obj out" by (rule parse_object) simp
  with that parse_undeclared [OF _ assms(2), of UK_strip kvs out] assms(1) show ?thesis by simp
qed

lemma object_parsed: "parse (C_object u fs) v = Some r \<Longrightarrow> \<exists>kvs out. v = Some (W_obj kvs) \<and> r = Some (W_obj out)"
  by (erule parse_object) simp

lemma open_record_keeps: "parse open_record v = Some r \<Longrightarrow> r = v"
  using keeps_value_parse [of open_record v r] by (simp add: open_record_def del: parse.simps)

lemma metadata_keeps:
  assumes "parse (C_union model_metadata_contract open_record) (Some (W_obj md)) = Some r" and "k \<in> set FORBIDDEN_AUTHORITY_FIELDS"
  shows "\<exists>md'. r = Some (W_obj md') \<and> map_of md' k = map_of md k"
proof (cases "parse model_metadata_contract (Some (W_obj md))")
  case None
  then show ?thesis using assms(1) open_record_keeps by auto
next
  case (Some q)
  then have q: "parse model_metadata_contract (Some (W_obj md)) = Some r" using assms(1) by simp
  obtain fs where fs: "model_metadata_contract = C_object UK_passthrough fs" and k: "k \<notin> fst ` set fs"
    using metadata_passes assms(2) by blast
  obtain md' where "r = Some (W_obj md')" using object_parsed q unfolding fs by blast
  with parse_undeclared [OF _ k, of UK_passthrough md md'] q fs show ?thesis by simp
qed

text \<open>A member that is not declared does not matter for what is accepted, unless the contract is strict.\<close>

lemma undeclared_accepted:
  assumes "parse (C_object u fs) (Some (W_obj kvs)) = Some r" and "k \<notin> fst ` set fs" and "u \<noteq> UK_strict"
  shows "parse (C_object u fs) (Some (W_obj (kvs @ [(k, x)]))) \<noteq> None"
proof -
  have "map (\<lambda>f. parse (snd f) (map_of (kvs @ [(k, x)]) (fst f))) fs = map (\<lambda>f. parse (snd f) (map_of kvs (fst f))) fs"
    using assms(2) by (force simp: map_add_def split: option.splits)
  then have "parse (C_object u fs) (Some (W_obj (kvs @ [(k, x)])))
      = object_result u fs (kvs @ [(k, x)]) (map (\<lambda>f. parse (snd f) (map_of kvs (fst f))) fs)"
    by (simp only: parse.simps option.case wire.case)
  with assms show ?thesis by (auto simp: object_result_def)
qed

lemma undeclared_kept:
  assumes "parse (C_object UK_passthrough fs) (Some (W_obj kvs)) \<noteq> None" and "k \<notin> fst ` set fs" and "map_of kvs k = None"
  shows "\<exists>out. parse (C_object UK_passthrough fs) (Some (W_obj (kvs @ [(k, x)]))) = Some (Some (W_obj out)) \<and> map_of out k = Some x"
proof -
  from undeclared_accepted [OF _ assms(2)] assms(1) obtain r where
    r: "parse (C_object UK_passthrough fs) (Some (W_obj (kvs @ [(k, x)]))) = Some r" by fastforce
  then obtain out where "r = Some (W_obj out)" using object_parsed by blast
  with r parse_undeclared [OF _ assms(2), of UK_passthrough "kvs @ [(k, x)]" out] assms(3) show ?thesis
    by (simp add: map_add_def)
qed

text \<open>A complete assessment that claims to authorize, in itself and in its model metadata, and a proposal.\<close>

definition sample_assessment_doc :: "(string \<times> wire) list" where
  "sample_assessment_doc =
     [(''authorized'', W_bool True), (''assessment_id'', W_str ''a''), (''proposal_id'', W_str ''p''),
      (''intent_verification'', W_obj [(''status'', W_str ''PASS''), (''intent_match'', W_bool True), (''score'', W_num 1)]),
      (''threat_assessment'', W_obj [(''detected'', W_bool False)]),
      (''reputation_assessment'', W_obj [(''level'', W_str ''HIGH'')]),
      (''anomaly_assessment'', W_obj [(''level'', W_str ''LOW'')]),
      (''risk_assessment'', W_obj [(''level'', W_str ''LOW'')]),
      (''overall_assessment'', W_obj [(''status'', W_str ''LOW_RISK''), (''confidence'', W_num 1), (''summary'', W_str []),
         (''recommended_handling'', W_str ''MONITOR'')]),
      (''model_metadata'', W_obj [(''authorized'', W_bool True)]), (''created_at'', W_str ''t'')]"

definition sample_proposal_doc :: "(string \<times> wire) list" where
  "sample_proposal_doc =
     [(''proposal_id'', W_str ''p''), (''intent_id'', W_str ''i''), (''agent_id'', W_str ''g''), (''action_type'', W_str ''PAY''),
      (''purpose'', W_str ''pay''), (''created_at'', W_str ''t'')]"

lemmas parse_results = scalar_results on_text_def on_number_def on_boolean_def object_result_def undeclared_def present_Cons

lemma sample_assessment_accepted: "parse security_assessment_contract (Some (W_obj sample_assessment_doc)) \<noteq> None"
  by (simp add: sample_assessment_doc_def contract_defs parse_results)

lemma sample_proposal_accepted: "parse action_proposal_contract (Some (W_obj sample_proposal_doc)) \<noteq> None"
  by (simp add: sample_proposal_doc_def contract_defs parse_results)

section \<open>Properties\<close>

text \<open>
  Parsing is stable: what a contract makes of a document is accepted again by the same contract
  and stays as it is, so that a stored document can be parsed when it is read.
\<close>

theorem parsed_documents_are_stable:
  assumes "zod_parse_laws Z" and "c \<in> set PARSED_CONTRACTS" and "Z c v = Some r"
  shows "Z c r = Some r"
  using assms reparse contracts_sound zod_parses [OF assms(1)] by simp

lemma parsed_documents_are_stable_witness:
  "\<exists>r. parse error_contract (Some (W_obj [(''code'', W_str ''INVALID_INPUT''), (''message'', W_str ''m'')])) = Some r
     \<and> parse error_contract r = Some r"
proof -
  have "parse error_contract (Some (W_obj [(''code'', W_str ''INVALID_INPUT''), (''message'', W_str ''m'')])) \<noteq> None"
    by (simp add: error_contract_def open_record_def ERROR_CODES_def parse_results)
  then obtain r where r: "parse error_contract (Some (W_obj [(''code'', W_str ''INVALID_INPUT''), (''message'', W_str ''m'')])) = Some r"
    by blast
  then have "parse error_contract r = Some r"
    by (intro parsed_documents_are_stable [OF parse_laws]) (simp_all add: PARSED_CONTRACTS_def)
  with r show ?thesis by blast
qed



text \<open>
  The boundary ends at the open records. The model metadata of an assessment keeps an authority
  field as it is, although the comment says that a parsed assessment can never carry one.
\<close>

theorem metadata_smuggles_authority:
  assumes "zod_parse_laws Z" and "Z security_assessment_contract (Some (W_obj kvs)) = Some r"
    and "map_of kvs ''model_metadata'' = Some (W_obj md)" and "k \<in> set FORBIDDEN_AUTHORITY_FIELDS"
  shows "\<exists>out md'. r = Some (W_obj out) \<and> map_of out ''model_metadata'' = Some (W_obj md') \<and> map_of md' k = map_of md k"
proof -
  have p: "parse security_assessment_contract (Some (W_obj kvs)) = Some r" using assms(1,2) zod_parses by simp
  obtain fs where fs: "security_assessment_contract = C_object UK_strip fs" "distinct (map fst fs)"
    "(''model_metadata'', C_nullish (C_union model_metadata_contract open_record)) \<in> set fs"
    using assessment_strips by blast
  obtain out where r: "r = Some (W_obj out)" using p object_parsed unfolding fs by blast
  have "parse (C_nullish (C_union model_metadata_contract open_record)) (Some (W_obj md)) = Some (map_of out ''model_metadata'')"
    using parse_member [OF _ fs(2,3), of UK_strip kvs out] p assms(3) unfolding fs(1) r by simp
  then have "parse (C_union model_metadata_contract open_record) (Some (W_obj md)) = Some (map_of out ''model_metadata'')"
    by (simp only: parse.simps option.distinct option.inject wire.distinct simp_thms if_False)
  from metadata_keeps [OF this assms(4)] r show ?thesis by blast
qed

lemma metadata_smuggles_authority_witness:
  "\<exists>out md. parse security_assessment_contract (Some (W_obj sample_assessment_doc)) = Some (Some (W_obj out))
     \<and> map_of out ''model_metadata'' = Some (W_obj md) \<and> map_of md ''authorized'' = Some (W_bool True)"
proof -
  obtain r where r: "parse security_assessment_contract (Some (W_obj sample_assessment_doc)) = Some r"
    using sample_assessment_accepted by blast
  have m: "map_of sample_assessment_doc ''model_metadata'' = Some (W_obj [(''authorized'', W_bool True)])"
    by (simp add: sample_assessment_doc_def)
  have "''authorized'' \<in> set FORBIDDEN_AUTHORITY_FIELDS" by (simp add: FORBIDDEN_AUTHORITY_FIELDS_def)
  from metadata_smuggles_authority [OF parse_laws r m this] obtain out md where
    "r = Some (W_obj out)" "map_of out ''model_metadata'' = Some (W_obj md)"
    "map_of md ''authorized'' = map_of [(''authorized'', W_bool True)] ''authorized''" by blast
  with r show ?thesis by (simp del: parse.simps)
qed

text \<open>
  The contract of a proposal says that it must never contain a private key, and that this is
  enforced structurally. It passes unknown members through: to any accepted proposal a private key
  can be added, and Core's parsed proposal has it.
\<close>

theorem proposal_keeps_private_key:
  assumes "zod_parse_laws Z" and "Z action_proposal_contract (Some (W_obj kvs)) \<noteq> None" and "map_of kvs ''private_key'' = None"
  shows "\<exists>out. Z action_proposal_contract (Some (W_obj (kvs @ [(''private_key'', x)]))) = Some (Some (W_obj out))
    \<and> map_of out ''private_key'' = Some x"
proof -
  obtain fs where fs: "action_proposal_contract = C_object UK_passthrough fs" "''private_key'' \<notin> fst ` set fs"
    using proposal_passes by (auto simp: FORBIDDEN_AUTHORITY_FIELDS_def)
  show ?thesis
    using undeclared_kept [of fs kvs "''private_key''" x] assms(2,3) fs unfolding zod_parses [OF assms(1)] by simp
qed

lemma proposal_keeps_private_key_witness:
  "\<exists>out. parse action_proposal_contract (Some (W_obj (sample_proposal_doc @ [(''private_key'', W_str ''0x1'')]))) = Some (Some (W_obj out))
     \<and> map_of out ''private_key'' = Some (W_str ''0x1'')"
  by (rule proposal_keeps_private_key [OF parse_laws sample_proposal_accepted]) (simp add: sample_proposal_doc_def)

end
