(* ===== verification/Frontend_Firewall.thy ===== *)
theory Frontend_Firewall
  imports Core_Logging Secret_Redaction Core_Config
begin

text \<open>
  The server side of the demo (Frontend/lib, Frontend/app/api): the client of the ML gateway, how an
  assessment is shown, and the routes that score the merchants and start the payment. The gateway,
  the merchants' pages and the payment process are parameters; texts outside ASCII are in UTF-8.
\<close>

section \<open>Configuration\<close>

record orvex_config =
  ov_ml_base_url :: string
  ov_payout_recipient :: string
  ov_network :: string
  ov_chain_id :: int
  ov_asset :: string

definition ORVEX :: "env \<Rightarrow> orvex_config" where
  "ORVEX env =
     \<lparr> ov_ml_base_url = nullish (env ''ML_BASE_URL'') ''http://127.0.0.1:8077'',
       ov_payout_recipient = nullish (env ''LIVE_RECIPIENT'') ''0x3bE3f44cCFF04b0DBe03ADe00710f35eBc387151'',
       ov_network = ''base-sepolia'', ov_chain_id = 84532, ov_asset = ''USDC'' \<rparr>"

datatype merchant_kind = KIND_genuine | KIND_fraud

record merchant =
  me_id :: string
  me_kind :: merchant_kind
  me_name :: string
  me_url :: string
  me_price_usdc :: string
  me_recipient :: string
  me_blurb :: string

text \<open>The product lines and the blurbs are display texts; a blurb also stands in for a page that cannot be read.\<close>

definition MERCHANTS :: "env \<Rightarrow> string \<Rightarrow> string \<Rightarrow> merchant list" where
  "MERCHANTS env genuine_blurb fraud_blurb =
     [\<lparr> me_id = ''aetheris-dynamics'', me_kind = KIND_genuine, me_name = ''Aetheris Dynamics'',
        me_url = ''https://commerce2-silk.vercel.app/'', me_price_usdc = ''1.00'',
        me_recipient = ov_payout_recipient (ORVEX env), me_blurb = genuine_blurb \<rparr>,
      \<lparr> me_id = ''aetheris-direct-outlet'', me_kind = KIND_fraud, me_name = ''Aetheris Direct Outlet'',
        me_url = ''https://demo-commerce1.vercel.app/'', me_price_usdc = ''1.00'',
        me_recipient = ''0x000000000000000000000000000000000000dEaD'', me_blurb = fraud_blurb \<rparr>]"

section \<open>Client of the ML gateway\<close>

record 'd ml_envelope =
  ml_status :: string
  ml_data :: 'd

text \<open>A fetch that fails or is aborted, or a response with its body when that is JSON.\<close>

datatype 'd ml_fetch = Ml_failed | Ml_response int "'d ml_envelope option"

record ml_request =
  mq_url :: string
  mq_body :: json

definition ml_post :: "env \<Rightarrow> (ml_request \<Rightarrow> 'd ml_fetch) \<Rightarrow> string \<Rightarrow> json \<Rightarrow> 'd ml_envelope option" where
  "ml_post env fetch path body =
     (case fetch \<lparr> mq_url = ov_ml_base_url (ORVEX env) @ path, mq_body = body \<rparr> of
        Ml_failed \<Rightarrow> None
      | Ml_response n envelope \<Rightarrow> if 200 \<le> n \<and> n \<le> 299 then envelope else None)"

definition parse_intent ::
    "env \<Rightarrow> (ml_request \<Rightarrow> json ml_fetch) \<Rightarrow> int \<Rightarrow> string \<Rightarrow> (string \<times> json) option" where
  "parse_intent env fetch now user_goal =
     map_option (\<lambda>e. (ml_status e, ml_data e))
       (ml_post env fetch ''/intent/parse''
         (JObj [(''execution_id'', JStr (''demo_'' @ show_int now)), (''agent_id'', JStr ''orvex-demo-agent''),
           (''user_goal'', JStr user_goal), (''validity_hours'', JNum 24)]))"

record analyze_params =
  ym_intent :: json
  ym_proposal :: json
  ym_evidence :: "json list"
  ym_trajectory :: "json list"
  ym_recipient_context :: json

definition analyze_proposal ::
    "env \<Rightarrow> (ml_request \<Rightarrow> 'a ml_fetch) \<Rightarrow> int \<Rightarrow> analyze_params \<Rightarrow> 'a option" where
  "analyze_proposal env fetch now p =
     map_option ml_data
       (ml_post env fetch ''/security/analyze''
         (JObj [(''execution_id'', JStr (''demo_'' @ show_int now)), (''agent_id'', JStr ''orvex-demo-agent''),
           (''intent'', ym_intent p), (''proposal'', ym_proposal p), (''trajectory'', JArr (ym_trajectory p)),
           (''evidence'', JArr (ym_evidence p)), (''recipient_context'', ym_recipient_context p),
           (''historical_behavior'', JNull)]))"

section \<open>Showing an assessment\<close>

text \<open>The fields of an assessment that are read; an absent part has absent fields.\<close>

record shown_assessment =
  sa_intent_status :: "string option"
  sa_intent_score :: "rat option"
  sa_threat_detected :: bool
  sa_threat_severity :: "string option"
  sa_reputation_level :: "string option"
  sa_anomaly_level :: "string option"
  sa_risk_level :: "string option"
  sa_risk_score :: "rat option"
  sa_recommended_handling :: "string option"
  sa_summary :: "string option"

datatype verdict = VERDICT_pass | VERDICT_warn | VERDICT_fail | VERDICT_muted

datatype shown_decision = SHOW_allow | SHOW_review | SHOW_block

record check_row =
  cr_label :: string
  cr_value :: string
  cr_verdict :: verdict

definition EM_DASH :: string where "EM_DASH = [CHR 0xE2, CHR 0x80, CHR 0x94]"
definition MIDDLE_DOT :: string where "MIDDLE_DOT = [CHR '' '', CHR 0xC2, CHR 0xB7, CHR '' '']"

definition pct :: "rat option \<Rightarrow> int" where
  "pct n = (case n of None \<Rightarrow> 0 | Some q \<Rightarrow>
     (let r = \<lfloor>q * 100 + 1 / 2\<rfloor> in if r < 0 then 0 else if r > 100 then 100 else r))"

definition level_verdict :: "string option \<Rightarrow> verdict" where
  "level_verdict level =
     (let l = to_lower (nullish level [])
      in if l = ''low'' \<or> l = ''high'' then VERDICT_pass
         else if l \<in> {''medium'', ''insufficient_history'', ''insufficient_evidence'', ''unavailable''} then VERDICT_warn
         else if l = ''critical'' then VERDICT_fail
         else VERDICT_muted)"

definition severe :: "string option \<Rightarrow> bool" where
  "severe s \<longleftrightarrow> s = Some ''HIGH'' \<or> s = Some ''CRITICAL''"

definition to_checks :: "shown_assessment \<Rightarrow> check_row list" where
  "to_checks a =
     [\<lparr> cr_label = ''Intent alignment'',
        cr_value = nullish (sa_intent_status a) EM_DASH @ MIDDLE_DOT @ show_int (pct (sa_intent_score a)) @ ''%'',
        cr_verdict = (if sa_intent_status a = Some ''PASS'' then VERDICT_pass
          else if sa_intent_status a = Some ''FAIL'' then VERDICT_fail else VERDICT_warn) \<rparr>,
      \<lparr> cr_label = ''Threat signals'',
        cr_value = (if sa_threat_detected a then ''DETECTED'' @ MIDDLE_DOT @ nullish (sa_threat_severity a) ''?'' else ''NONE''),
        cr_verdict = (if sa_threat_detected a then if severe (sa_threat_severity a) then VERDICT_fail else VERDICT_warn
          else VERDICT_pass) \<rparr>,
      \<lparr> cr_label = ''Recipient reputation'', cr_value = nullish (sa_reputation_level a) EM_DASH,
        cr_verdict = level_verdict (sa_reputation_level a) \<rparr>,
      \<lparr> cr_label = ''Anomaly'', cr_value = nullish (sa_anomaly_level a) EM_DASH,
        cr_verdict = level_verdict (sa_anomaly_level a) \<rparr>,
      \<lparr> cr_label = ''Risk score'',
        cr_value = nullish (sa_risk_level a) EM_DASH @ MIDDLE_DOT @ show_int (pct (sa_risk_score a)) @ ''%'',
        cr_verdict = level_verdict (sa_risk_level a) \<rparr>]"

text \<open>The handling is compared in upper case, the severity as it is.\<close>

definition to_decision :: "shown_assessment \<Rightarrow> shown_decision \<times> string" where
  "to_decision a =
     (let handling = to_lower (nullish (sa_recommended_handling a) [])
      in if handling = ''deny_recommended'' \<or> severe (sa_threat_severity a)
         then (SHOW_block, nullish (sa_summary a) ''Unsafe at the trust boundary.'')
         else if handling = ''proceed_candidate''
         then (SHOW_allow, nullish (sa_summary a) ''Within authority and safety constraints.'')
         else (SHOW_review, nullish (sa_summary a) ''Human decision required before execution.''))"

definition risk_percent :: "shown_assessment \<Rightarrow> int" where
  "risk_percent a = pct (sa_risk_score a)"

section \<open>POST /api/firewall\<close>

text \<open>The first occurrence of a text, ignoring case, and a block \<open><tag ... </tag>\<close> from its start.\<close>

fun index_of :: "string \<Rightarrow> string \<Rightarrow> nat option" where
  "index_of w [] = (if w = [] then Some 0 else None)"
| "index_of w (c # t) = (if to_lower (take (length w) (c # t)) = w then Some 0 else map_option Suc (index_of w t))"

definition block_pattern :: "string \<Rightarrow> string \<Rightarrow> matcher" where
  "block_pattern opening closing before s =
     (if to_lower (take (length opening) s) = opening then
        map_option (\<lambda>i. (take (length opening + i + length closing) s, '' ''))
          (index_of closing (drop (length opening) s))
      else None)"

definition tag_pattern :: matcher where
  "tag_pattern before s = map_option (\<lambda>ps. (concat ps, '' ''))
     (match_items [One (\<lambda>c. c = CHR ''<''), Plus (\<lambda>c. c \<noteq> CHR ''>''), One (\<lambda>c. c = CHR ''>'')] s)"

definition spaces_pattern :: matcher where
  "spaces_pattern before s = map_option (\<lambda>ps. (concat ps, '' '')) (match_items [Plus is_space] s)"

definition page_text :: "string \<Rightarrow> string" where
  "page_text html =
     take 4000 (trim (replace_all spaces_pattern [] (replace_all tag_pattern []
       (replace_all (block_pattern ''<style'' ''</style>'') []
         (replace_all (block_pattern ''<script'' ''</script>'') [] html)))))"

definition untrusted_evidence :: "string \<Rightarrow> merchant \<Rightarrow> string \<Rightarrow> json" where
  "untrusted_evidence evidence_id m claim =
     JObj [(''evidence_id'', JStr evidence_id),
       (''source'', JObj [(''source_id'', JStr (me_url m)), (''source_type'', JStr ''WEBPAGE''), (''trust_level'', JStr ''UNTRUSTED'')]),
       (''claim'', JStr claim), (''derived_from'', JArr [])]"

definition fetch_merchant_evidence :: "(string \<Rightarrow> string option) \<Rightarrow> merchant \<Rightarrow> json list" where
  "fetch_merchant_evidence page m =
     [untrusted_evidence (''merchant_'' @ me_id m) m
       (case page (me_url m) of Some html \<Rightarrow> page_text html | None \<Rightarrow> me_name m @ '': '' @ me_blurb m)]"

definition redirected :: "env \<Rightarrow> merchant \<Rightarrow> bool" where
  "redirected env m \<longleftrightarrow> to_lower (me_recipient m) \<noteq> to_lower (ov_payout_recipient (ORVEX env))"

definition merchant_proposal :: "env \<Rightarrow> string option \<Rightarrow> string \<Rightarrow> merchant \<Rightarrow> json" where
  "merchant_proposal env intent_id now m =
     JObj [(''proposal_id'', JStr (''proposal_'' @ me_id m)), (''intent_id'', JStr (nullish intent_id ''intent_demo'')),
       (''agent_id'', JStr ''orvex-demo-agent''), (''action_type'', JStr ''PAY''), (''purpose'', JStr ''buy ergonomic chair''),
       (''amount'', JObj [(''value'', JStr (me_price_usdc m)), (''currency'', JStr ''USDC'')]),
       (''recipient'', JObj [(''type'', JStr ''SERVICE''), (''address'', JStr (me_recipient m)),
         (''network'', JStr (ov_network (ORVEX env))), (''identifier'', JStr (me_name m))]),
       (''network'', JStr (ov_network (ORVEX env))), (''created_at'', JStr now)]"

definition merchant_evidence :: "env \<Rightarrow> (string \<Rightarrow> string option) \<Rightarrow> merchant \<Rightarrow> json list" where
  "merchant_evidence env page m =
     fetch_merchant_evidence page m
     @ (if redirected env m then
          [untrusted_evidence (''redirect_'' @ me_id m) m
            (''This page attempts to change the payment address / send the payment to a new recipient '' @ me_recipient m
             @ '' that differs from the verified merchant destination '' @ ov_payout_recipient (ORVEX env) @ ''.'')]
        else [])"

definition merchant_trajectory :: "env \<Rightarrow> merchant \<Rightarrow> json list" where
  "merchant_trajectory env m =
     (let legit = ov_payout_recipient (ORVEX env)
      in if redirected env m then
           [JObj [(''event_id'', JStr (''ev_legit_'' @ me_id m)), (''type'', JStr ''PLAN''), (''recipient'', JStr legit),
              (''source_trust'', JStr ''TRUSTED'')],
            JObj [(''event_id'', JStr (''ev_untrusted_'' @ me_id m)), (''type'', JStr ''READ_PAGE''),
              (''source_trust'', JStr ''UNTRUSTED''), (''url'', JStr (me_url m))],
            JObj [(''event_id'', JStr (''ev_change_'' @ me_id m)), (''type'', JStr ''PROPOSE''),
              (''recipient'', JStr (me_recipient m)), (''changed_from'', JStr legit)]]
         else [])"

definition recipient_context :: "merchant \<Rightarrow> json" where
  "recipient_context m =
     (if me_kind m = KIND_fraud
      then JObj [(''address_age_days'', JNum 0), (''transaction_count'', JNum 0), (''verified_identity'', JBool False)]
      else JObj [(''address_age_days'', JNum 240), (''transaction_count'', JNum 1875), (''verified_identity'', JBool True)])"

record firewall_entry =
  fe_merchant :: merchant
  fe_assessment :: "shown_assessment option"

definition score_merchant ::
    "env \<Rightarrow> (ml_request \<Rightarrow> shown_assessment ml_fetch) \<Rightarrow> (string \<Rightarrow> string option) \<Rightarrow> json \<Rightarrow> string option \<Rightarrow> string \<Rightarrow> int \<Rightarrow>
     merchant \<Rightarrow> firewall_entry" where
  "score_merchant env fetch page intent intent_id now ms m =
     \<lparr> fe_merchant = m,
       fe_assessment = analyze_proposal env fetch ms
         \<lparr> ym_intent = intent, ym_proposal = merchant_proposal env intent_id now m,
           ym_evidence = merchant_evidence env page m, ym_trajectory = merchant_trajectory env m,
           ym_recipient_context = recipient_context m \<rparr> \<rparr>"

definition default_intent :: json where
  "default_intent = JObj [(''intent_id'', JStr ''intent_demo''),
     (''user_goal'', JStr ''Buy an ergonomic chair within 1 USDC.''), (''purpose'', JStr ''office'')]"

definition intent_id_of :: "json \<Rightarrow> string option" where
  "intent_id_of intent = (case intent of JObj kvs \<Rightarrow> (case map_of kvs ''intent_id'' of Some (JStr s) \<Rightarrow> Some s | _ \<Rightarrow> None) | _ \<Rightarrow> None)"

text \<open>The body is None when it is not a JSON object; its intent may be absent.\<close>

definition firewall_route ::
    "env \<Rightarrow> (ml_request \<Rightarrow> shown_assessment ml_fetch) \<Rightarrow> (string \<Rightarrow> string option) \<Rightarrow> merchant list \<Rightarrow> json option option \<Rightarrow> string \<Rightarrow> int \<Rightarrow>
     nat \<times> firewall_entry list option" where
  "firewall_route env fetch page merchants body now ms =
     (case body of
        None \<Rightarrow> (502, None)
      | Some body_intent \<Rightarrow>
          (let intent = nullish body_intent default_intent
           in (200, Some (map (score_merchant env fetch page intent (intent_id_of intent) now ms) merchants))))"

section \<open>POST /api/intent\<close>

datatype intent_answer = Intent_missing_goal | Intent_failed | Intent_parsed string json string

definition intent_route ::
    "env \<Rightarrow> (ml_request \<Rightarrow> json ml_fetch) \<Rightarrow> int \<Rightarrow> (string option \<times> string option) option \<Rightarrow> nat \<times> intent_answer" where
  "intent_route env fetch now body =
     (case body of
        None \<Rightarrow> (502, Intent_failed)
      | Some (goal, budget) \<Rightarrow>
          (let g = trim (nullish goal [])
           in if g = [] then (400, Intent_missing_goal)
              else (case parse_intent env fetch now g of
                      None \<Rightarrow> (502, Intent_failed)
                    | Some (status, data) \<Rightarrow> (200, Intent_parsed status data (nullish budget ''1.00'')))))"

section \<open>POST /api/pay\<close>

record pay_result =
  py_ok :: bool
  py_status :: "string option"
  py_tx_hash :: "string option"
  py_explorer :: "string option"
  py_raw :: "string option"
  py_error :: "string option"

text \<open>The first match anywhere in a text.\<close>

fun find_match :: "pattern_item list \<Rightarrow> string \<Rightarrow> string list option" where
  "find_match items [] = match_items items []"
| "find_match items (c # t) = (case match_items items (c # t) of None \<Rightarrow> find_match items t | Some ps \<Rightarrow> Some ps)"

definition literal :: "string \<Rightarrow> pattern_item list" where
  "literal w = map (\<lambda>c. One (\<lambda>x. x = c)) w"

definition ok_line :: "string \<Rightarrow> string option" where
  "ok_line out = map_option (\<lambda>ps. concat (drop 15 ps))
     (find_match (literal ''LIVE_E2E_OK tx='' @ literal ''0x'' @ replicate 64 (One is_hex_digit)) out)"

definition explorer_line :: "string \<Rightarrow> string option" where
  "explorer_line out = map_option last (find_match (literal ''LIVE_E2E_EXPLORER '' @ [Plus (\<lambda>c. \<not> is_space c)]) out)"

definition status_line :: "string \<Rightarrow> string option" where
  "status_line out = map_option last (find_match (literal ''execution result:'' @ [Many is_space, Plus word_char]) out)"

definition db_timeout :: "string \<Rightarrow> bool" where
  "db_timeout s \<longleftrightarrow> sublist ''ETIMEDOUT'' s \<or> sublist ''timeout expired'' s
     \<or> find_match (literal ''ENOTFOUND '' @ [Many (\<lambda>c. c \<noteq> CHR 0x0A \<and> c \<noteq> CHR 0x0D)] @ literal ''supabase'') s \<noteq> None"

fun split_lines :: "string \<Rightarrow> string list" where
  "split_lines [] = [[]]"
| "split_lines (c # t) = (if c = CHR 0x0A then [] # split_lines t
     else (case split_lines t of [] \<Rightarrow> [[c]] | l # ls \<Rightarrow> (c # l) # ls))"

fun join_lines :: "string list \<Rightarrow> string" where
  "join_lines [] = []"
| "join_lines [l] = l"
| "join_lines (l # ls) = l @ CHR 0x0A # join_lines ls"

definition slice_last :: "nat \<Rightarrow> 'a list \<Rightarrow> 'a list" where
  "slice_last n xs = drop (length xs - n) xs"

definition names_secret :: "string \<Rightarrow> bool" where
  "names_secret l \<longleftrightarrow> sublist ''private_key'' (to_lower l) \<or> sublist ''database_url'' (to_lower l)"

definition sanitized_tail :: "string \<Rightarrow> string" where
  "sanitized_tail out = join_lines (slice_last 14 (filter (\<lambda>l. \<not> names_secret l) (split_lines out)))"

text \<open>How the payment process ends, with what it wrote to its two streams.\<close>

datatype child_outcome = Child_timed_out string string | Child_closed string string

definition DB_UNREACHABLE_TEXT :: string where
  "DB_UNREACHABLE_TEXT = ''Core database (Supabase pooler) is unreachable from this network right now '' @ EM_DASH
     @ '' the authorization step could not run. The on-chain path is unaffected; retry when connectivity is restored.''"

definition run_live_e2e :: "child_outcome \<Rightarrow> pay_result" where
  "run_live_e2e c =
     (case c of
        Child_timed_out out err \<Rightarrow>
          \<lparr> py_ok = False, py_status = None, py_tx_hash = None, py_explorer = None, py_raw = Some (slice_last 1500 (out @ err)),
            py_error = Some ''payment orchestration timed out'' \<rparr>
      | Child_closed out err \<Rightarrow>
         (case ok_line out of
            Some h \<Rightarrow>
              \<lparr> py_ok = True, py_status = Some ''CONFIRMED'', py_tx_hash = Some h,
                py_explorer = Some (nullish (explorer_line out) (''https://sepolia.basescan.org/tx/'' @ h)),
                py_raw = Some (sanitized_tail out), py_error = None \<rparr>
          | None \<Rightarrow>
              \<lparr> py_ok = False,
                py_status = Some (if db_timeout (out @ err) then ''DB_UNREACHABLE'' else nullish (status_line out) ''UNKNOWN''),
                py_tx_hash = None, py_explorer = None,
                py_raw = Some (slice_last 1500 (sanitized_tail out @ CHR 0x0A # err)),
                py_error = Some (if db_timeout (out @ err) then DB_UNREACHABLE_TEXT else ''payment did not confirm'') \<rparr>))"

record pay_body =
  pb_amount_usdc :: "string option"
  pb_recipient :: "string option"

definition pay_env :: "env \<Rightarrow> pay_body \<Rightarrow> env" where
  "pay_env env b = env(''CORE_ENV'' \<mapsto> ''test'', ''EXECUTION_MODE'' \<mapsto> ''TESTNET'',
     ''ORVEX_DB'' \<mapsto> nullish (env ''ORVEX_DB'') ''embedded'', ''CORE_NETWORK'' \<mapsto> ov_network (ORVEX env),
     ''BASE_SEPOLIA_USDC_ADDRESS'' \<mapsto> nullish (env ''BASE_SEPOLIA_USDC_ADDRESS'') ''0x036CbD53842c5426634e7929541eC2318f3dCF7e'',
     ''LIVE_RECIPIENT'' \<mapsto> nullish (pb_recipient b) (ov_payout_recipient (ORVEX env)),
     ''LIVE_AMOUNT'' \<mapsto> nullish (pb_amount_usdc b) ''1.00'')"

datatype pay_answer = Pay_not_configured "string list" | Pay_finished pay_result | Pay_failed

definition missing_settings :: "env \<Rightarrow> string list" where
  "missing_settings env = filter (\<lambda>k. \<not> truthy (env k)) [''BASE_SEPOLIA_RPC_URL'', ''EXECUTION_SIGNER_PRIVATE_KEY'']"

definition pay_route :: "env \<Rightarrow> (env \<Rightarrow> child_outcome) \<Rightarrow> pay_body option \<Rightarrow> nat \<times> pay_answer" where
  "pay_route env spawn body =
     (case body of
        None \<Rightarrow> (500, Pay_failed)
      | Some b \<Rightarrow>
          if missing_settings env \<noteq> [] then (503, Pay_not_configured (missing_settings env))
          else (let r = run_live_e2e (spawn (pay_env env b)) in (if py_ok r then 200 else 502, Pay_finished r)))"

section \<open>Lemmas\<close>

lemma match_ones:
  "match_items (map One ps) s =
     (if length ps \<le> length s \<and> list_all2 (\<lambda>p c. p c) ps (take (length ps) s)
      then Some (map (\<lambda>c. [c]) (take (length ps) s)) else None)"
proof (induction ps arbitrary: s)
  case (Cons p ps)
  then show ?case by (cases s) auto
qed simp

lemma find_match_Some:
  "find_match items s = Some ps \<Longrightarrow> \<exists>i. match_items items (drop i s) = Some ps"
proof (induction s)
  case (Cons c t)
  show ?case
  proof (cases "match_items items (c # t)")
    case None
    with Cons obtain i where "match_items items (drop i t) = Some ps" by auto
    then show ?thesis by (intro exI [of _ "Suc i"]) simp
  next
    case (Some qs)
    with Cons.prems show ?thesis by (intro exI [of _ 0]) simp
  qed
qed (auto intro: exI [of _ 0])

lemma find_match_None: "find_match items s = None \<Longrightarrow> match_items items (drop i s) = None"
proof (induction s arbitrary: i)
  case (Cons c t)
  then show ?case by (cases i) (auto split: option.splits)
qed simp

lemma concat_singletons [simp]: "concat (map (\<lambda>c. [c]) s) = s"
  by (induction s) simp_all

definition ok_predicates :: "(char \<Rightarrow> bool) list" where
  "ok_predicates = map (\<lambda>c x. x = c) ''LIVE_E2E_OK tx=0x'' @ replicate 64 is_hex_digit"

lemma ok_items:
  "literal ''LIVE_E2E_OK tx='' @ literal ''0x'' @ replicate 64 (One is_hex_digit) = map One ok_predicates"
  by (simp add: literal_def ok_predicates_def)

lemma list_all2_literal: "list_all2 (\<lambda>p c. p c) (map (\<lambda>c x. x = c) w) s \<longleftrightarrow> s = w"
proof (induction w arbitrary: s)
  case (Cons a w)
  then show ?case by (cases s) auto
qed simp

lemma list_all2_replicate: "list_all2 (\<lambda>p c. p c) (replicate n p) s \<longleftrightarrow> length s = n \<and> list_all p s"
proof (induction n arbitrary: s)
  case (Suc n)
  then show ?case by (cases s) auto
qed auto

lemma list_all2_word_then:
  "list_all2 (\<lambda>p c. p c) (map (\<lambda>c x. x = c) w @ replicate n p) s
   \<longleftrightarrow> (\<exists>t. s = w @ t \<and> length t = n \<and> list_all p t)"
  by (auto simp: list_all2_append1 list_all2_literal list_all2_replicate)

lemma bytes32_hex_split: "bytes32_hex h \<longleftrightarrow> (\<exists>t. h = ''0x'' @ t \<and> length t = 64 \<and> list_all is_hex_digit t)"
proof
  assume "bytes32_hex h"
  then have h: "take 2 h = ''0x''" "length h = 66" "list_all is_hex_digit (take 64 (drop 2 h))"
    by (auto simp: bytes32_hex_def raw_key_at_def)
  have "h = take 2 h @ drop 2 h" by simp
  then have "h = ''0x'' @ drop 2 h" using h(1) by simp
  moreover have "length (drop 2 h) = 64" "list_all is_hex_digit (drop 2 h)" using h(2,3) by simp_all
  ultimately show "\<exists>t. h = ''0x'' @ t \<and> length t = 64 \<and> list_all is_hex_digit t" by blast
next
  assume "\<exists>t. h = ''0x'' @ t \<and> length t = 64 \<and> list_all is_hex_digit t"
  then show "bytes32_hex h" by (auto simp: bytes32_hex_def raw_key_at_def)
qed

lemma ok_predicates_match:
  "list_all2 (\<lambda>p c. p c) ok_predicates s \<longleftrightarrow> (\<exists>h. s = ''LIVE_E2E_OK tx='' @ h \<and> bytes32_hex h)"
  unfolding ok_predicates_def list_all2_word_then bytes32_hex_split by auto

lemma ok_line_at:
  "match_items (map One ok_predicates) t = Some ps \<longleftrightarrow>
     (\<exists>h r. t = ''LIVE_E2E_OK tx='' @ h @ r \<and> bytes32_hex h \<and> ps = map (\<lambda>c. [c]) (''LIVE_E2E_OK tx='' @ h))"
proof -
  have len: "length ok_predicates = length ''LIVE_E2E_OK tx='' + 66" by (simp add: ok_predicates_def)
  have h66: "length h = 66" if "bytes32_hex h" for h using that by (simp add: bytes32_hex_def)
  show ?thesis
  proof
    assume m: "match_items (map One ok_predicates) t = Some ps"
    then have a: "list_all2 (\<lambda>p c. p c) ok_predicates (take (length ok_predicates) t)"
      and p: "ps = map (\<lambda>c. [c]) (take (length ok_predicates) t)"
      by (auto simp: match_ones split: if_splits)
    from a obtain h where h: "take (length ok_predicates) t = ''LIVE_E2E_OK tx='' @ h" "bytes32_hex h"
      unfolding ok_predicates_match by blast
    have "t = (''LIVE_E2E_OK tx='' @ h) @ drop (length ok_predicates) t"
      unfolding h(1) [symmetric] by simp
    then show "\<exists>h r. t = ''LIVE_E2E_OK tx='' @ h @ r \<and> bytes32_hex h \<and> ps = map (\<lambda>c. [c]) (''LIVE_E2E_OK tx='' @ h)"
      using h p by (metis append.assoc)
  next
    assume "\<exists>h r. t = ''LIVE_E2E_OK tx='' @ h @ r \<and> bytes32_hex h \<and> ps = map (\<lambda>c. [c]) (''LIVE_E2E_OK tx='' @ h)"
    then obtain h r where t: "t = (''LIVE_E2E_OK tx='' @ h) @ r" and h: "bytes32_hex h"
      and p: "ps = map (\<lambda>c. [c]) (''LIVE_E2E_OK tx='' @ h)" by (metis append.assoc)
    have l: "length ok_predicates = length (''LIVE_E2E_OK tx='' @ h)" using len h66 [OF h] by simp
    have "take (length ok_predicates) t = ''LIVE_E2E_OK tx='' @ h" unfolding t l by (rule append_eq_conv_conj [THEN iffD1, THEN conjunct1, symmetric, OF refl])
    moreover have "length ok_predicates \<le> length t" unfolding t l by simp
    moreover have "list_all2 (\<lambda>p c. p c) ok_predicates (''LIVE_E2E_OK tx='' @ h)"
      unfolding ok_predicates_match using h by blast
    ultimately show "match_items (map One ok_predicates) t = Some ps"
      using p by (simp only: match_ones) simp
  qed
qed

lemma ok_line_alt:
  "ok_line out = map_option (\<lambda>ps. concat (drop 15 ps)) (find_match (map One ok_predicates) out)"
  by (simp only: ok_line_def ok_items)

lemma ok_line_sound: "ok_line out = Some h \<Longrightarrow> bytes32_hex h \<and> sublist (''LIVE_E2E_OK tx='' @ h) out"
proof -
  assume "ok_line out = Some h"
  then obtain ps where f: "find_match (map One ok_predicates) out = Some ps" and h: "h = concat (drop 15 ps)"
    unfolding ok_line_alt by auto
  from find_match_Some [OF f] obtain i where m: "match_items (map One ok_predicates) (drop i out) = Some ps" by auto
  then obtain k r where k: "drop i out = ''LIVE_E2E_OK tx='' @ k @ r" "bytes32_hex k"
      "ps = map (\<lambda>c. [c]) (''LIVE_E2E_OK tx='' @ k)"
    unfolding ok_line_at by blast
  have "drop 15 ps = map (\<lambda>c. [c]) k" unfolding k(3) by simp
  then have "h = k" using h by simp
  moreover have "out = take i out @ (''LIVE_E2E_OK tx='' @ k) @ r" using k(1) by (metis append.assoc append_take_drop_id)
  ultimately show ?thesis using k(2) unfolding sublist_def by blast
qed

lemma ok_line_complete:
  assumes "sublist (''LIVE_E2E_OK tx='' @ h) out" and "bytes32_hex h" shows "ok_line out \<noteq> None"
proof
  assume n: "ok_line out = None"
  from assms(1) obtain ps ss where o: "out = ps @ (''LIVE_E2E_OK tx='' @ h) @ ss" unfolding sublist_def by blast
  have "find_match (map One ok_predicates) out = None" using n unfolding ok_line_alt by simp
  then have "match_items (map One ok_predicates) (drop (length ps) out) = None" by (rule find_match_None)
  moreover have "drop (length ps) out = ''LIVE_E2E_OK tx='' @ h @ ss" unfolding o by simp
  ultimately have "match_items (map One ok_predicates) (''LIVE_E2E_OK tx='' @ h @ ss) = None" by (simp only:)
  moreover have "match_items (map One ok_predicates) (''LIVE_E2E_OK tx='' @ h @ ss)
      = Some (map (\<lambda>c. [c]) (''LIVE_E2E_OK tx='' @ h))"
    unfolding ok_line_at using assms(2) by blast
  ultimately show False by (simp only: option.distinct)
qed

lemma pay_route_cases:
  "pay_route env spawn (Some b) =
     (if missing_settings env \<noteq> [] then (503, Pay_not_configured (missing_settings env))
      else (if py_ok (run_live_e2e (spawn (pay_env env b))) then 200 else 502,
            Pay_finished (run_live_e2e (spawn (pay_env env b)))))"
  by (simp add: pay_route_def Let_def)

lemma run_live_e2e_ok:
  "py_ok (run_live_e2e c) \<longleftrightarrow> (\<exists>out err h. c = Child_closed out err \<and> ok_line out = Some h)"
  by (cases c) (auto simp: run_live_e2e_def split: option.splits)

lemma ok_line_iff: "ok_line out \<noteq> None \<longleftrightarrow> (\<exists>h. bytes32_hex h \<and> sublist (''LIVE_E2E_OK tx='' @ h) out)"
  using ok_line_sound ok_line_complete by blast

lemma slice_last_keeps: "length e \<le> n \<Longrightarrow> \<exists>pre. slice_last n (s @ c # e) = pre @ e"
  by (cases "length e = n") (auto simp: slice_last_def drop_Cons' intro: exI [of _ "drop (Suc (length s + length e) - n) s @ [c]"])

section \<open>Properties\<close>

text \<open>
  The payment route answers 200 exactly when both chain settings are present, the payment process
  ended by itself and its output holds a line LIVE_E2E_OK with a 32-byte hash; a timeout, an output
  without that line, or a missing setting is never reported as a payment.
\<close>

theorem pay_route_reports_only_proved_payments:
  "fst (pay_route env spawn (Some b)) = 200 \<longleftrightarrow>
     truthy (env ''BASE_SEPOLIA_RPC_URL'') \<and> truthy (env ''EXECUTION_SIGNER_PRIVATE_KEY'')
   \<and> (\<exists>out err h. spawn (pay_env env b) = Child_closed out err \<and> bytes32_hex h \<and> sublist (''LIVE_E2E_OK tx='' @ h) out)"
proof -
  have m: "missing_settings env = [] \<longleftrightarrow> truthy (env ''BASE_SEPOLIA_RPC_URL'') \<and> truthy (env ''EXECUTION_SIGNER_PRIVATE_KEY'')"
    by (simp add: missing_settings_def)
  have "py_ok (run_live_e2e (spawn (pay_env env b))) \<longleftrightarrow>
      (\<exists>out err h. spawn (pay_env env b) = Child_closed out err \<and> bytes32_hex h \<and> sublist (''LIVE_E2E_OK tx='' @ h) out)"
    unfolding run_live_e2e_ok using ok_line_iff by (metis option.exhaust option.distinct(1))
  moreover have "fst (pay_route env spawn (Some b)) = 200 \<longleftrightarrow>
      missing_settings env = [] \<and> py_ok (run_live_e2e (spawn (pay_env env b)))"
    by (simp add: pay_route_cases)
  ultimately show ?thesis unfolding m by (simp only: conj_assoc)
qed

text \<open>
  The comment of the route says that only the sanitized tail of stdout is forwarded. When the
  payment fails, everything the process wrote to stderr (its last 1500 characters) is in the answer
  as it is.
\<close>

theorem pay_failure_returns_stderr:
  assumes "ok_line out = None" and "length err \<le> 1500"
  shows "\<exists>pre. py_raw (run_live_e2e (Child_closed out err)) = Some (pre @ err)"
  using assms slice_last_keeps [of err 1500 "sanitized_tail out"] by (simp add: run_live_e2e_def)

lemma pay_failure_returns_stderr_witness:
  "\<exists>pre. py_raw (run_live_e2e (Child_closed [] ''DATABASE_URL=x'')) = Some (pre @ ''DATABASE_URL=x'')"
proof (rule pay_failure_returns_stderr)
  show "ok_line [] = None" unfolding ok_line_alt by (simp add: ok_predicates_def)
qed simp

end
