(* ===== verification/Frontend_Demo.thy ===== *)
theory Frontend_Demo
  imports Frontend_Firewall
begin

text \<open>
  The demo page (Frontend/components/demo/demo-workflow.tsx) as a state machine. A step is a click
  that the page enables or the answer of the request in flight; the payment requests sent are
  recorded, so that what the page can make happen can be stated.
\<close>

section \<open>State\<close>

datatype stage = STAGE_input | STAGE_intent | STAGE_brain | STAGE_firewall | STAGE_decision | STAGE_done

datatype in_flight = Await_intent | Await_firewall | Await_payment

record demo =
  dm_stage :: stage
  dm_goal :: string
  dm_budget :: string
  dm_busy :: bool
  dm_error :: "string option"
  dm_intent :: "json option"
  dm_firewall :: "firewall_entry list"
  dm_chosen :: "firewall_entry option"
  dm_pay_busy :: bool
  dm_pay_result :: "pay_result option"
  dm_in_flight :: "in_flight option"
  dm_payments :: "(string \<times> string) list"

definition new_demo :: demo where
  "new_demo = \<lparr> dm_stage = STAGE_input, dm_goal = ''Buy an ergonomic office chair. Budget 1 USDC. Ask me before paying.'',
     dm_budget = ''1.00'', dm_busy = False, dm_error = None, dm_intent = None, dm_firewall = [], dm_chosen = None,
     dm_pay_busy = False, dm_pay_result = None, dm_in_flight = None, dm_payments = [] \<rparr>"

section \<open>Choice of the candidate\<close>

definition rank :: "firewall_entry \<Rightarrow> rat" where
  "rank e =
     (case fe_assessment e of
        None \<Rightarrow> 9
      | Some a \<Rightarrow>
          (case fst (to_decision a) of SHOW_allow \<Rightarrow> 0 | SHOW_review \<Rightarrow> 1 | SHOW_block \<Rightarrow> 2)
          + (if me_kind (fe_merchant e) = KIND_genuine then 0 else 1 / 2))"

definition best_candidate :: "firewall_entry list \<Rightarrow> firewall_entry option" where
  "best_candidate entries = (case sort_key rank entries of [] \<Rightarrow> None | e # _ \<Rightarrow> Some e)"

section \<open>Steps\<close>

definition send_enabled :: "demo \<Rightarrow> bool" where
  "send_enabled d \<longleftrightarrow> \<not> dm_busy d \<and> dm_stage d = STAGE_input \<and> trim (dm_goal d) \<noteq> []"

definition pay_enabled :: "demo \<Rightarrow> bool" where
  "pay_enabled d \<longleftrightarrow> (dm_stage d = STAGE_decision \<or> dm_stage d = STAGE_done)
     \<and> (\<exists>e. dm_chosen d = Some e \<and> fe_assessment e \<noteq> None) \<and> dm_pay_result d = None \<and> \<not> dm_pay_busy d"

definition run_intent :: "demo \<Rightarrow> demo" where
  "run_intent d = d\<lparr>dm_error := None, dm_busy := True, dm_stage := STAGE_intent, dm_in_flight := Some Await_intent\<rparr>"

definition intent_answered :: "string + json \<Rightarrow> demo \<Rightarrow> demo" where
  "intent_answered r d =
     (case r of
        Inl msg \<Rightarrow> d\<lparr>dm_error := Some msg, dm_stage := STAGE_input, dm_busy := False, dm_in_flight := None\<rparr>
      | Inr intent \<Rightarrow> d\<lparr>dm_intent := Some intent, dm_busy := True, dm_stage := STAGE_firewall, dm_in_flight := Some Await_firewall\<rparr>)"

definition firewall_answered :: "string + firewall_entry list \<Rightarrow> demo \<Rightarrow> demo" where
  "firewall_answered r d =
     (case r of
        Inl msg \<Rightarrow> d\<lparr>dm_error := Some msg, dm_busy := False, dm_in_flight := None\<rparr>
      | Inr entries \<Rightarrow> d\<lparr>dm_firewall := entries, dm_chosen := best_candidate entries, dm_stage := STAGE_decision,
          dm_busy := False, dm_in_flight := None\<rparr>)"

definition confirm_pay :: "demo \<Rightarrow> demo" where
  "confirm_pay d =
     (case dm_chosen d of
        None \<Rightarrow> d
      | Some e \<Rightarrow> d\<lparr>dm_pay_busy := True, dm_pay_result := None, dm_in_flight := Some Await_payment,
          dm_payments := dm_payments d @ [(me_price_usdc (fe_merchant e), me_recipient (fe_merchant e))]\<rparr>)"

definition pay_answered :: "pay_result \<Rightarrow> demo \<Rightarrow> demo" where
  "pay_answered r d = d\<lparr>dm_pay_result := Some r, dm_stage := STAGE_done, dm_pay_busy := False, dm_in_flight := None\<rparr>"

definition cancel_payment :: "demo \<Rightarrow> demo" where
  "cancel_payment d = d\<lparr>dm_stage := STAGE_done\<rparr>"

inductive demo_step :: "demo \<Rightarrow> demo \<Rightarrow> bool" where
  dstep_edit: "dm_stage d = STAGE_input \<Longrightarrow> demo_step d (d\<lparr>dm_goal := goal, dm_budget := budget\<rparr>)"
| dstep_send: "send_enabled d \<Longrightarrow> demo_step d (run_intent d)"
| dstep_intent: "dm_in_flight d = Some Await_intent \<Longrightarrow> demo_step d (intent_answered r d)"
| dstep_firewall: "dm_in_flight d = Some Await_firewall \<Longrightarrow> demo_step d (firewall_answered s d)"
| dstep_yes: "pay_enabled d \<Longrightarrow> demo_step d (confirm_pay d)"
| dstep_no: "pay_enabled d \<Longrightarrow> demo_step d (cancel_payment d)"
| dstep_paid: "dm_in_flight d = Some Await_payment \<Longrightarrow> demo_step d (pay_answered p d)"

inductive_cases demo_stepE: "demo_step d d'"

section \<open>Lemmas\<close>

lemma best_candidate_least:
  "best_candidate entries = Some e \<Longrightarrow> e \<in> set entries \<and> (\<forall>f \<in> set entries. rank e \<le> rank f)"
proof -
  assume "best_candidate entries = Some e"
  then obtain es where es: "sort_key rank entries = e # es" by (auto simp: best_candidate_def split: list.splits)
  then have "set entries = set (e # es)" by (metis set_sort)
  moreover have "\<forall>f \<in> set es. rank e \<le> rank f"
    using sorted_sort_key [of rank entries] es by simp
  ultimately show ?thesis by auto
qed

text \<open>
  What holds of every state of the page: one request in flight at most, a payment is answered or in
  flight, at most one was ever sent, and it is for the chosen candidate, which was scored and is
  ranked first.
\<close>

definition demo_ok :: "demo \<Rightarrow> bool" where
  "demo_ok d \<longleftrightarrow>
     length (dm_payments d) \<le> 1
   \<and> (dm_pay_busy d \<longleftrightarrow> dm_in_flight d = Some Await_payment)
   \<and> (dm_payments d \<noteq> [] \<longleftrightarrow> dm_pay_busy d \<or> dm_pay_result d \<noteq> None)
   \<and> (dm_in_flight d = Some Await_intent \<longrightarrow> dm_stage d = STAGE_intent)
   \<and> (dm_in_flight d = Some Await_firewall \<longrightarrow> dm_stage d = STAGE_firewall)
   \<and> (dm_stage d = STAGE_input \<or> dm_stage d = STAGE_intent \<or> dm_stage d = STAGE_firewall \<longrightarrow>
        dm_chosen d = None \<and> dm_payments d = [])
   \<and> (dm_stage d = STAGE_decision \<or> dm_stage d = STAGE_done \<longrightarrow> dm_chosen d = best_candidate (dm_firewall d))
   \<and> (\<forall>p \<in> set (dm_payments d). \<exists>e. dm_chosen d = Some e \<and> fe_assessment e \<noteq> None
        \<and> p = (me_price_usdc (fe_merchant e), me_recipient (fe_merchant e)))
   \<and> dm_stage d \<noteq> STAGE_brain"

lemma demo_ok_new: "demo_ok new_demo"
  by (simp add: demo_ok_def new_demo_def)

lemma demo_ok_step: "demo_step d d' \<Longrightarrow> demo_ok d \<Longrightarrow> demo_ok d'"
proof (induction rule: demo_step.induct)
  case (dstep_edit d goal budget)
  then show ?case by (auto simp: demo_ok_def)
next
  case (dstep_send d)
  then show ?case by (auto simp: demo_ok_def send_enabled_def run_intent_def)
next
  case (dstep_intent d r)
  then show ?case by (cases r) (auto simp: demo_ok_def intent_answered_def)
next
  case (dstep_firewall d s)
  then show ?case by (cases s) (auto simp: demo_ok_def firewall_answered_def)
next
  case (dstep_yes d)
  then obtain e where e: "dm_chosen d = Some e" "fe_assessment e \<noteq> None"
    by (auto simp: pay_enabled_def)
  then have c: "confirm_pay d = d\<lparr>dm_pay_busy := True, dm_pay_result := None, dm_in_flight := Some Await_payment,
      dm_payments := dm_payments d @ [(me_price_usdc (fe_merchant e), me_recipient (fe_merchant e))]\<rparr>"
    by (simp add: confirm_pay_def)
  have "dm_payments d = []" "dm_stage d = STAGE_decision \<or> dm_stage d = STAGE_done"
    using dstep_yes by (auto simp: demo_ok_def pay_enabled_def)
  with e dstep_yes show ?case unfolding c demo_ok_def by fastforce
next
  case (dstep_no d)
  then show ?case by (auto simp: demo_ok_def pay_enabled_def cancel_payment_def)
next
  case (dstep_paid d p)
  then have "dm_stage d = STAGE_decision \<or> dm_stage d = STAGE_done"
    by (cases "dm_stage d") (auto simp: demo_ok_def)
  with dstep_paid show ?case by (simp add: demo_ok_def pay_answered_def) fastforce
qed

interpretation demo: invariant_system "\<lambda>d. d = new_demo" demo_step demo_ok
proof unfold_locales
  show "demo_ok s" if "s = new_demo" for s using that demo_ok_new by simp
qed (auto intro: demo_ok_step)

abbreviation demo_reachable :: "demo \<Rightarrow> bool" where
  "demo_reachable \<equiv> reachable (\<lambda>d. d = new_demo) demo_step"

lemmas demo_reach = reachable_step [of "\<lambda>d. d = new_demo" demo_step]

text \<open>A run of the page up to the decision, for any answers of the two routes.\<close>

lemma reaches_intent: "demo_reachable (intent_answered (Inr intent) (run_intent new_demo))"
proof (rule demo_reach [OF demo_reach [OF reachable_init]])
  show "demo_step new_demo (run_intent new_demo)"
    by (rule dstep_send) (simp add: send_enabled_def new_demo_def trim_def is_space_def)
  show "demo_step (run_intent new_demo) (intent_answered (Inr intent) (run_intent new_demo))"
    by (rule dstep_intent) (simp add: run_intent_def)
qed simp

lemma reaches_decision:
  "demo_reachable (firewall_answered (Inr entries) (intent_answered (Inr intent) (run_intent new_demo)))"
  by (rule demo_reach [OF reaches_intent], rule dstep_firewall) (simp add: intent_answered_def)

lemma decision_enabled:
  assumes "best_candidate entries = Some e" and "fe_assessment e \<noteq> None"
  shows "pay_enabled (firewall_answered (Inr entries) (intent_answered (Inr intent) (run_intent new_demo)))"
  using assms by (simp add: pay_enabled_def firewall_answered_def intent_answered_def run_intent_def new_demo_def)

lemma stuck_after_firewall_failure:
  assumes "demo_ok d" and "dm_in_flight d = Some Await_firewall"
  shows "\<not> demo_step (firewall_answered (Inl msg) d) d'"
proof
  assume "demo_step (firewall_answered (Inl msg) d) d'"
  moreover have "dm_stage (firewall_answered (Inl msg) d) = STAGE_firewall"
    "dm_in_flight (firewall_answered (Inl msg) d) = None"
    using assms by (simp_all add: demo_ok_def firewall_answered_def)
  ultimately show False by (cases rule: demo_step.cases) (simp_all add: send_enabled_def pay_enabled_def)
qed

lemma reaches_payment:
  assumes "best_candidate entries = Some e" and "fe_assessment e \<noteq> None"
  shows "demo_reachable (confirm_pay (firewall_answered (Inr entries) (intent_answered (Inr intent) (run_intent new_demo))))"
  by (rule demo_reach [OF reaches_decision], rule dstep_yes, rule decision_enabled [OF assms])

lemma payment_sent:
  assumes "best_candidate entries = Some e"
  shows "dm_firewall (confirm_pay (firewall_answered (Inr entries) (intent_answered (Inr intent) (run_intent new_demo)))) = entries"
    and "dm_payments (confirm_pay (firewall_answered (Inr entries) (intent_answered (Inr intent) (run_intent new_demo))))
      = [(me_price_usdc (fe_merchant e), me_recipient (fe_merchant e))]"
  using assms by (simp_all add: confirm_pay_def firewall_answered_def intent_answered_def run_intent_def new_demo_def)

lemma cancel_keeps_enabled: "pay_enabled d \<Longrightarrow> pay_enabled (cancel_payment d)"
  by (simp add: pay_enabled_def cancel_payment_def)

lemma confirm_sends: "pay_enabled d \<Longrightarrow> dm_payments (confirm_pay d) \<noteq> []"
  by (auto simp: pay_enabled_def confirm_pay_def)

text \<open>The fraudulent merchant, which the firewall answers to block.\<close>

definition blocked_entry :: "env \<Rightarrow> firewall_entry" where
  "blocked_entry env =
     \<lparr> fe_merchant = MERCHANTS env [] [] ! 1,
       fe_assessment = Some \<lparr> sa_intent_status = Some ''FAIL'', sa_intent_score = Some 0, sa_threat_detected = True,
         sa_threat_severity = Some ''CRITICAL'', sa_reputation_level = None, sa_anomaly_level = None,
         sa_risk_level = Some ''CRITICAL'', sa_risk_score = Some 1, sa_recommended_handling = Some ''DENY_RECOMMENDED'',
         sa_summary = None \<rparr> \<rparr>"

lemma blocked_entry_simps [simp]:
  "me_recipient (fe_merchant (blocked_entry env)) = ''0x000000000000000000000000000000000000dEaD''"
  "me_price_usdc (fe_merchant (blocked_entry env)) = ''1.00''"
  "fe_assessment (blocked_entry env) \<noteq> None"
  "map_option (fst \<circ> to_decision) (fe_assessment (blocked_entry env)) = Some SHOW_block"
  by (simp_all add: blocked_entry_def MERCHANTS_def to_decision_def severe_def Let_def)

lemma best_candidate_single [simp]: "best_candidate [e] = Some e"
  by (simp add: best_candidate_def)

section \<open>Properties\<close>

text \<open>
  C17: In every state of the page at most one payment was sent, and it is for the chosen candidate: one
  that the firewall route returned and scored, at its price and to its recipient, and no candidate is
  ranked before it.
\<close>

theorem demo_pays_once_for_best:
  assumes "demo_reachable d"
  shows "length (dm_payments d) \<le> 1
    \<and> (\<forall>p \<in> set (dm_payments d). \<exists>e. e \<in> set (dm_firewall d) \<and> fe_assessment e \<noteq> None
        \<and> p = (me_price_usdc (fe_merchant e), me_recipient (fe_merchant e))
        \<and> (\<forall>f \<in> set (dm_firewall d). rank e \<le> rank f))"
proof -
  have ok: "demo_ok d" using assms by (rule demo.reachable_inv)
  have "\<exists>e. best_candidate (dm_firewall d) = Some e \<and> fe_assessment e \<noteq> None
      \<and> p = (me_price_usdc (fe_merchant e), me_recipient (fe_merchant e))" if "p \<in> set (dm_payments d)" for p
  proof -
    from that have "dm_payments d \<noteq> []" by auto
    then have "dm_stage d = STAGE_decision \<or> dm_stage d = STAGE_done"
      using ok by (cases "dm_stage d") (simp_all add: demo_ok_def)
    then have "dm_chosen d = best_candidate (dm_firewall d)" using ok by (simp add: demo_ok_def)
    then show ?thesis using ok that by (fastforce simp: demo_ok_def)
  qed
  then show ?thesis using ok best_candidate_least by (fastforce simp: demo_ok_def)
qed

lemma demo_pays_once_for_best_witness:
  "\<exists>d :: demo. dm_payments d \<noteq> [] \<and> length (dm_payments d) \<le> 1"
proof -
  let ?d = "confirm_pay (firewall_answered (Inr [blocked_entry Map.empty]) (intent_answered (Inr JNull) (run_intent new_demo)))"
  have "demo_reachable ?d" by (rule reaches_payment [OF best_candidate_single blocked_entry_simps(3)])
  then have len: "length (dm_payments ?d) \<le> 1" by (rule demo_pays_once_for_best [THEN conjunct1])
  have "dm_payments ?d \<noteq> []" unfolding payment_sent(2) [OF best_candidate_single] by simp
  from conjI [OF this len] show ?thesis by (rule exI)
qed

text \<open>
  The configuration says of the fraudulent merchant that it is never paid because the firewall
  blocks it. The decision does not stop the page: whatever it is, the best ranked candidate that was
  scored can be paid.
\<close>

theorem demo_pays_whatever_the_decision:
  assumes "best_candidate entries = Some e" and "fe_assessment e = Some a"
  shows "\<exists>d. demo_reachable d \<and> dm_firewall d = entries
    \<and> dm_payments d = [(me_price_usdc (fe_merchant e), me_recipient (fe_merchant e))]"
  using reaches_payment [OF assms(1)] payment_sent [OF assms(1)] assms(2) by blast

lemma demo_pays_whatever_the_decision_witness:
  "map_option (fst \<circ> to_decision) (fe_assessment (blocked_entry Map.empty)) = Some SHOW_block
   \<and> (\<exists>d. demo_reachable d \<and> dm_firewall d = [blocked_entry Map.empty]
        \<and> dm_payments d = [(''1.00'', ''0x000000000000000000000000000000000000dEaD'')])"
proof -
  obtain a where "fe_assessment (blocked_entry Map.empty) = Some a" using blocked_entry_simps(3) by blast
  from demo_pays_whatever_the_decision [OF best_candidate_single this]
  show ?thesis by (simp only: blocked_entry_simps simp_thms)
qed

text \<open>
  The answer No does not end the run: the page still offers Yes, and pays.
\<close>

theorem cancel_can_be_undone:
  assumes "demo_reachable d" and "pay_enabled d"
  shows "demo_step d (cancel_payment d) \<and> demo_step (cancel_payment d) (confirm_pay (cancel_payment d)) \<and> dm_payments (confirm_pay (cancel_payment d)) \<noteq> []"
  using dstep_no [OF assms(2)] dstep_yes [OF cancel_keeps_enabled [OF assms(2)]]
    confirm_sends [OF cancel_keeps_enabled [OF assms(2)]] by blast

lemma cancel_can_be_undone_witness:
  "\<exists>d. demo_step d (cancel_payment d) \<and> demo_step (cancel_payment d) (confirm_pay (cancel_payment d)) \<and> dm_payments (confirm_pay (cancel_payment d)) \<noteq> []"
proof -
  let ?d = "firewall_answered (Inr [blocked_entry Map.empty]) (intent_answered (Inr JNull) (run_intent new_demo))"
  have "pay_enabled ?d" by (rule decision_enabled [OF best_candidate_single blocked_entry_simps(3)])
  from cancel_can_be_undone [OF reaches_decision this] show ?thesis by (intro exI [of _ ?d])
qed

text \<open>
  When the firewall route fails, the page shows the error and no action is enabled any more: unlike
  a failed intent, it cannot be tried again.
\<close>

theorem firewall_failure_ends_demo:
  assumes "demo_reachable d" and "dm_in_flight d = Some Await_firewall"
  shows "\<not> demo_step (firewall_answered (Inl msg) d) d'"
  using stuck_after_firewall_failure demo.reachable_inv [OF assms(1)] assms(2) by blast

lemma firewall_failure_ends_demo_witness:
  "\<not> demo_step (firewall_answered (Inl ''offline'') (intent_answered (Inr JNull) (run_intent new_demo))) new_demo"
proof (rule firewall_failure_ends_demo)
  show "demo_reachable (intent_answered (Inr JNull) (run_intent new_demo))"
    by (rule reaches_intent)
qed (simp add: intent_answered_def)

end
