(* ===== verification/Demo_View.thy ===== *)
theory Demo_View
  imports Frontend_Demo Policy_Rules
begin

text \<open>
  What the demo page shows (the markup of Frontend/components/demo/demo-workflow.tsx): the sections
  and the controls of a state, with the conditions under which they appear and are enabled. Styling
  and fixed texts are left out; texts outside ASCII are in UTF-8.
\<close>

section \<open>Elements\<close>

datatype control = Edit_goal | Edit_budget | Attach_rulebook | Send_goal | Confirm_payment | Cancel_payment

datatype tone = TONE_allow | TONE_review | TONE_block

datatype ui =
    Ui_text string
  | Ui_strong string
  | Ui_json json
  | Ui_error string
  | Ui_working
  | Ui_link "string option" string
  | Ui_step bool string
  | Ui_badge shown_decision
  | Ui_meter int tone
  | Ui_check check_row
  | Ui_control control bool bool
  | Ui_field string "ui list"
  | Ui_card string string "ui list"

text \<open>The controls inside an element, with whether they are enabled.\<close>

primrec controls :: "ui \<Rightarrow> (control \<times> bool) list" where
  "controls (Ui_text _) = []"
| "controls (Ui_strong _) = []"
| "controls (Ui_json _) = []"
| "controls (Ui_error _) = []"
| "controls Ui_working = []"
| "controls (Ui_link _ _) = []"
| "controls (Ui_step _ _) = []"
| "controls (Ui_badge _) = []"
| "controls (Ui_meter _ _) = []"
| "controls (Ui_check _) = []"
| "controls (Ui_control c enabled spinning) = [(c, enabled)]"
| "controls (Ui_field _ us) = concat (map controls us)"
| "controls (Ui_card _ _ us) = concat (map controls us)"

section \<open>Sections of the page\<close>

definition PLAN_STEPS :: "string list" where
  "PLAN_STEPS = [''Normalize the goal into a bounded purchase objective'', ''Discover candidate merchants for the item'',
     ''Extract price, recipient and checkout for each candidate'', ''Hand each concrete transaction to the Sentinel firewall'']"

definition composer_view :: "string option \<Rightarrow> demo \<Rightarrow> ui list" where
  "composer_view rule_file d =
     [Ui_control Edit_goal (\<not> dm_stage d \<noteq> STAGE_input) False,
      Ui_control Edit_budget (\<not> dm_stage d \<noteq> STAGE_input) False,
      Ui_text (if truthy rule_file then the rule_file else ''Attach rulebook (PDF)''),
      Ui_control Attach_rulebook (\<not> dm_stage d \<noteq> STAGE_input) False,
      Ui_control Send_goal (\<not> (dm_busy d \<or> dm_stage d \<noteq> STAGE_input \<or> trim (dm_goal d) = []))
        (dm_busy d \<and> dm_stage d = STAGE_input)]
     @ (if truthy (dm_error d) then [Ui_error (''Error: '' @ the (dm_error d))] else [])"

definition json_member_or :: "string \<Rightarrow> json \<Rightarrow> string \<Rightarrow> json" where
  "json_member_or k j fallback =
     (case j of
        JObj kvs \<Rightarrow> (case map_of kvs k of None \<Rightarrow> JStr fallback | Some JNull \<Rightarrow> JStr fallback | Some v \<Rightarrow> v)
      | _ \<Rightarrow> JStr fallback)"

definition intent_view :: "demo \<Rightarrow> ui list" where
  "intent_view d =
     (case dm_intent d of
        None \<Rightarrow> []
      | Some j \<Rightarrow>
          if \<not> js_truthy (Some j) then []
          else [Ui_card ''Intent'' ''structured''
                 [Ui_field ''Goal'' [Ui_json (json_member_or ''user_goal'' j (dm_goal d))],
                  Ui_field ''Purpose'' [Ui_json (json_member_or ''purpose'' j ''purchase'')],
                  Ui_field ''Budget'' [Ui_text (dm_budget d @ '' USDC'')],
                  Ui_field ''Network'' [Ui_text ''Base Sepolia (84532)'']]])"

definition brain_view :: "demo \<Rightarrow> ui list" where
  "brain_view d =
     (if dm_stage d = STAGE_brain \<or> dm_stage d = STAGE_firewall \<or> dm_stage d = STAGE_decision \<or> dm_stage d = STAGE_done
      then [Ui_card ''Agent'' ''reasoning'' (map (Ui_step (dm_stage d \<noteq> STAGE_brain)) PLAN_STEPS)] else [])"

text \<open>The name and the verdict of a merchant, and the class its card gets.\<close>

definition merchant_head :: "firewall_entry \<Rightarrow> ui list" where
  "merchant_head e =
     [Ui_text (me_name (fe_merchant e))]
     @ (case fe_assessment e of None \<Rightarrow> [] | Some a \<Rightarrow> [Ui_badge (fst (to_decision a))])"

definition pick_class :: "firewall_entry \<Rightarrow> string" where
  "pick_class e =
     (case fe_assessment e of
        None \<Rightarrow> []
      | Some a \<Rightarrow> if fst (to_decision a) = SHOW_allow then ''pick-genuine'' else ''pick-fraud'')"

definition risk_tone :: "int \<Rightarrow> tone" where
  "risk_tone risk = (if risk < 34 then TONE_allow else if risk < 67 then TONE_review else TONE_block)"

text \<open>The scores; \<open>failure\<close> is the error of the entry.\<close>

definition merchant_scores :: "(firewall_entry \<Rightarrow> string option) \<Rightarrow> firewall_entry \<Rightarrow> ui list" where
  "merchant_scores failure e =
     (if truthy (failure e) then [Ui_error (''Assessment error: '' @ the (failure e))]
      else case fe_assessment e of
        Some a \<Rightarrow>
          [Ui_text (''Risk '' @ show_int (risk_percent a) @ ''%''), Ui_meter (risk_percent a) (risk_tone (risk_percent a))]
          @ map Ui_check (to_checks a)
      | None \<Rightarrow> [Ui_working])"

definition merchant_card :: "(firewall_entry \<Rightarrow> string option) \<Rightarrow> firewall_entry \<Rightarrow> ui" where
  "merchant_card failure e =
     Ui_card (me_name (fe_merchant e)) (pick_class e)
       (merchant_head e @ merchant_scores failure e @ [Ui_link (Some (me_url (fe_merchant e))) ''Open site preview''])"

definition firewall_section :: "(firewall_entry \<Rightarrow> string option) \<Rightarrow> demo \<Rightarrow> ui list" where
  "firewall_section failure d =
     (if dm_stage d = STAGE_firewall \<or> dm_stage d = STAGE_decision \<or> dm_stage d = STAGE_done
      then [Ui_card ''Sentinel'' ''firewall / real ML''
              (if dm_busy d \<and> dm_stage d = STAGE_firewall then [Ui_working]
               else if dm_firewall d = [] then [Ui_working]
               else map (merchant_card failure) (dm_firewall d))]
      else [])"

definition ELLIPSIS :: string where "ELLIPSIS = [CHR 0xE2, CHR 0x80, CHR 0xA6]"
definition RIGHT_ARROW :: string where "RIGHT_ARROW = [CHR 0xE2, CHR 0x86, CHR 0x92]"

definition short_address :: "string \<Rightarrow> string" where
  "short_address a = (if length a > 14 then take 8 a @ ELLIPSIS @ drop (length a - 4) a else a)"

definition chosen_view :: "demo \<Rightarrow> merchant \<Rightarrow> shown_assessment \<Rightarrow> ui list" where
  "chosen_view d m a =
     [Ui_field ''Recommended'' [Ui_badge (fst (to_decision a))],
      Ui_field ''Merchant'' [Ui_text (me_name m)],
      Ui_field ''Pay'' [Ui_text (me_price_usdc m @ '' USDC '' @ RIGHT_ARROW @ '' '' @ short_address (me_recipient m))],
      Ui_field ''Reason'' [Ui_text (snd (to_decision a))]]
     @ (if dm_pay_result d = None
        then [Ui_control Confirm_payment (\<not> dm_pay_busy d) (dm_pay_busy d), Ui_control Cancel_payment (\<not> dm_pay_busy d) False]
        else [])"

definition CONFIRMED_TEXT :: string where "CONFIRMED_TEXT = ''Payment CONFIRMED & VERIFIED on Base Sepolia.''"

definition pay_result_view :: "pay_result \<Rightarrow> ui list" where
  "pay_result_view r =
     (if py_ok r then [Ui_strong CONFIRMED_TEXT, Ui_link (py_explorer r) (nullish (py_tx_hash r) [])]
      else [Ui_strong (''Payment not completed'' @ (if truthy (py_status r) then '' ('' @ the (py_status r) @ '')'' else []) @ ''.''),
            Ui_text (nullish (py_error r) ''See server logs.'')])"

definition decision_section :: "demo \<Rightarrow> ui list" where
  "decision_section d =
     (case dm_chosen d of
        None \<Rightarrow> []
      | Some e \<Rightarrow>
          if dm_stage d = STAGE_decision \<or> dm_stage d = STAGE_done then
            [Ui_card ''Summary'' ''authorize execution?''
              ((case fe_assessment e of
                  Some a \<Rightarrow> chosen_view d (fe_merchant e) a
                | None \<Rightarrow> [Ui_error ''No assessment available for the selected merchant.''])
               @ (case dm_pay_result d of None \<Rightarrow> [] | Some r \<Rightarrow> pay_result_view r))]
          else [])"

definition demo_view :: "string option \<Rightarrow> (firewall_entry \<Rightarrow> string option) \<Rightarrow> demo \<Rightarrow> ui list" where
  "demo_view rule_file failure d =
     composer_view rule_file d @ intent_view d @ brain_view d @ firewall_section failure d @ decision_section d"

definition view_controls :: "string option \<Rightarrow> (firewall_entry \<Rightarrow> string option) \<Rightarrow> demo \<Rightarrow> (control \<times> bool) list" where
  "view_controls rule_file failure d = concat (map controls (demo_view rule_file failure d))"

section \<open>Lemmas\<close>

lemma controls_scores: "concat (map controls (merchant_scores failure e)) = []"
  by (simp add: merchant_scores_def to_checks_def Let_def split: option.splits)

lemma controls_merchant_card: "controls (merchant_card failure e) = []"
  using controls_scores [of failure e] by (cases "fe_assessment e") (simp_all add: merchant_card_def merchant_head_def)

lemma controls_firewall: "concat (map controls (firewall_section failure d)) = []"
  by (simp add: firewall_section_def controls_merchant_card)

lemma controls_quiet: "concat (map controls (intent_view d)) = []" "concat (map controls (brain_view d)) = []"
  "concat (map controls (pay_result_view r)) = []"
  by (auto simp: intent_view_def brain_view_def pay_result_view_def PLAN_STEPS_def split: option.splits)

lemma controls_composer:
  "concat (map controls (composer_view rule_file d)) =
     [(Edit_goal, dm_stage d = STAGE_input), (Edit_budget, dm_stage d = STAGE_input), (Attach_rulebook, dm_stage d = STAGE_input),
      (Send_goal, send_enabled d)]"
  by (auto simp: composer_view_def send_enabled_def)

lemma controls_decision:
  "concat (map controls (decision_section d)) =
     (if (dm_stage d = STAGE_decision \<or> dm_stage d = STAGE_done) \<and> (\<exists>e. dm_chosen d = Some e \<and> fe_assessment e \<noteq> None)
         \<and> dm_pay_result d = None
      then [(Confirm_payment, pay_enabled d), (Cancel_payment, pay_enabled d)] else [])"
  using controls_quiet(3) by (auto simp: decision_section_def chosen_view_def pay_enabled_def split: option.splits)

lemma view_controls_value:
  "view_controls rule_file failure d =
     [(Edit_goal, dm_stage d = STAGE_input), (Edit_budget, dm_stage d = STAGE_input), (Attach_rulebook, dm_stage d = STAGE_input),
      (Send_goal, send_enabled d)]
     @ (if (dm_stage d = STAGE_decision \<or> dm_stage d = STAGE_done) \<and> (\<exists>e. dm_chosen d = Some e \<and> fe_assessment e \<noteq> None)
           \<and> dm_pay_result d = None
        then [(Confirm_payment, pay_enabled d), (Cancel_payment, pay_enabled d)] else [])"
  by (simp only: view_controls_def demo_view_def map_append concat_append controls_composer controls_quiet controls_firewall
      controls_decision append_Nil)

section \<open>Properties\<close>

text \<open>
  What a control does when it is clicked; editing is the change of the two fields.
\<close>

inductive clicked :: "control \<Rightarrow> demo \<Rightarrow> demo \<Rightarrow> bool" where
  click_goal: "clicked Edit_goal d (d\<lparr>dm_goal := goal, dm_budget := dm_budget d\<rparr>)"
| click_budget: "clicked Edit_budget d (d\<lparr>dm_goal := dm_goal d, dm_budget := budget\<rparr>)"
| click_rulebook: "clicked Attach_rulebook d d"
| click_send: "clicked Send_goal d (run_intent d)"
| click_confirm: "clicked Confirm_payment d (confirm_pay d)"
| click_cancel: "clicked Cancel_payment d (cancel_payment d)"

text \<open>The page's controls and the state machine agree: every click on an enabled control is a step.\<close>

theorem enabled_clicks_are_steps:
  assumes "(c, True) \<in> set (view_controls rule_file failure d)" and "clicked c d d'"
  shows "demo_step d d' \<or> d' = d"
  using assms(2,1)
proof cases
  case (click_goal goal)
  then show ?thesis using assms(1) dstep_edit [where d = d and goal = goal and budget = "dm_budget d"] by (simp add: view_controls_value split: if_splits)
next
  case (click_budget budget)
  then show ?thesis using assms(1) dstep_edit [where d = d and goal = "dm_goal d" and budget = budget] by (simp add: view_controls_value split: if_splits)
qed (auto simp: view_controls_value intro: demo_step.intros split: if_splits)

theorem enabled_clicks_are_steps_witness:
  "demo_step new_demo (run_intent new_demo) \<or> run_intent new_demo = new_demo"
proof -
  have "send_enabled new_demo" by (simp add: send_enabled_def new_demo_def trim_def is_space_def)
  then show ?thesis
    by (intro enabled_clicks_are_steps [of Send_goal None "\<lambda>_. None"]) (simp_all add: view_controls_value click_send)
qed

text \<open>
  The page and its money: the confirmation is on the page only after exactly one payment was sent and
  answered as successful, and then no control of the page can send another.
\<close>

theorem confirmed_page_is_final:
  assumes "demo_reachable d" and "\<exists>us. Ui_card ''Summary'' ''authorize execution?'' us \<in> set (demo_view rule_file failure d)
      \<and> Ui_strong CONFIRMED_TEXT \<in> set us"
  shows "(\<exists>r. dm_pay_result d = Some r \<and> py_ok r) \<and> length (dm_payments d) = 1
    \<and> (Confirm_payment, True) \<notin> set (view_controls rule_file failure d)"
proof -
  have ok: "demo_ok d" using assms(1) by (rule demo.reachable_inv)
  obtain us where us: "Ui_card ''Summary'' ''authorize execution?'' us \<in> set (demo_view rule_file failure d)" "Ui_strong CONFIRMED_TEXT \<in> set us"
    using assms(2) by blast
  have "Ui_card ''Summary'' ''authorize execution?'' us \<in> set (decision_section d)"
    using us(1) by (auto simp: demo_view_def composer_view_def intent_view_def brain_view_def firewall_section_def
        split: option.splits if_splits)
  then obtain r where r: "dm_pay_result d = Some r" "py_ok r"
    using us(2) by (auto simp: decision_section_def chosen_view_def pay_result_view_def CONFIRMED_TEXT_def
        split: option.splits if_splits)
  then have "length (dm_payments d) = 1"
    using ok by (cases "dm_payments d") (auto simp: demo_ok_def)
  with r show ?thesis by (auto simp: view_controls_value)
qed

text \<open>A merchant on whom a human has to decide is marked like a fraudulent one.\<close>

lemma review_marked_as_fraud:
  "fe_assessment e = Some a \<Longrightarrow> fst (to_decision a) = SHOW_review \<Longrightarrow> pick_class e = ''pick-fraud''"
  by (simp add: pick_class_def)

end
