(* ===== verification/Live_Payment.thy ===== *)
theory Live_Payment
  imports Chain_Config Settlement Transaction_Gate Frontend_Firewall
begin

text \<open>
  The live payment (Backend/scripts/live-e2e.mjs), which the payment route starts: Core decides and
  prepares, the script hands the authorized context to the execution client, executes, verifies and
  reports. What Core's API answers is a parameter, since its routes are modelled in Api_Router and the
  seeding in the theory Seeding; the node and the signer are the \<open>world\<close> of the pipeline.
\<close>

section \<open>Settings\<close>

definition live_recipient :: "env \<Rightarrow> string" where
  "live_recipient env = nullish (env ''LIVE_RECIPIENT'') ''0x3bE3f44cCFF04b0DBe03ADe00710f35eBc387151''"

definition live_amount :: "env \<Rightarrow> string" where
  "live_amount env = nullish (env ''LIVE_AMOUNT'') ''1.00''"

definition live_usdc :: "env \<Rightarrow> string" where
  "live_usdc env = nullish (env ''BASE_SEPOLIA_USDC_ADDRESS'') ''0x036CbD53842c5426634e7929541eC2318f3dCF7e''"

datatype live_database = Database_remote | Database_embedded

definition create_test_db :: "env \<Rightarrow> bool \<Rightarrow> live_database" where
  "create_test_db env remote_reachable =
     (if to_lower (nullish (env ''ORVEX_DB'') []) \<noteq> ''embedded'' \<and> truthy (env ''DATABASE_URL'') \<and> remote_reachable
      then Database_remote else Database_embedded)"

section \<open>What the script sends\<close>

definition live_proposal :: "env \<Rightarrow> string \<Rightarrow> json" where
  "live_proposal env agent_id =
     JObj [(''proposal_id'', JStr ''proposal_live''), (''intent_id'', JStr ''intent_live''), (''agent_id'', JStr agent_id),
       (''action_type'', JStr ''PAY''), (''purpose'', JStr ''renew''),
       (''amount'', JObj [(''value'', JStr (live_amount env)), (''currency'', JStr ''USDC'')]),
       (''recipient'', JObj [(''type'', JStr ''SERVICE''), (''address'', JStr (live_recipient env)), (''network'', JStr ''base-sepolia'')]),
       (''network'', JStr ''base-sepolia''), (''created_at'', JStr ''2026-09-11T12:00:00Z'')]"

definition live_assessment :: json where
  "live_assessment =
     JObj [(''assessment_id'', JStr ''assess_live''), (''proposal_id'', JStr ''proposal_live''),
       (''intent_verification'', JObj [(''status'', JStr ''PASS''), (''intent_match'', JBool True), (''score'', JNum 1), (''confidence'', JNum 1)]),
       (''threat_assessment'', JObj [(''detected'', JBool False), (''confidence'', JNum 1), (''recommended_handling'', JStr ''MONITOR'')]),
       (''reputation_assessment'', JObj [(''level'', JStr ''HIGH''), (''confidence'', JNum 1)]),
       (''anomaly_assessment'', JObj [(''level'', JStr ''LOW''), (''confidence'', JNum 1)]),
       (''risk_assessment'', JObj [(''level'', JStr ''LOW''), (''confidence'', JNum 1)]),
       (''overall_assessment'', JObj [(''status'', JStr ''LOW_RISK''), (''confidence'', JNum 1), (''summary'', JStr ''ok''),
          (''recommended_handling'', JStr ''PROCEED_CANDIDATE'')]),
       (''created_at'', JStr ''2026-09-11T12:00:00Z'')]"

definition live_analysis :: "env \<Rightarrow> transaction_analysis" where
  "live_analysis env =
     \<lparr> ta_transaction_id = ''txn_live'', ta_contract = \<lparr> cr_address = live_usdc env, cr_verified = True \<rparr>,
       ta_function = \<lparr> fr_name = ''transfer'', fr_selector = ''0xa9059cbb'' \<rparr>, ta_decoded_arguments = [],
       ta_state_changes_expected = [], ta_recipient = live_recipient env, ta_amount = live_amount env, ta_asset = ''USDC'',
       ta_risk_flags = [], ta_status = AN_VALID \<rparr>"

definition live_payload_hash :: "(string \<Rightarrow> string) \<Rightarrow> env \<Rightarrow> string" where
  "live_payload_hash sha env = transaction_payload_hash sha
     \<lparr> pi_transaction_id = ''txn_live'', pi_network = ''base-sepolia'', pi_recipient = live_recipient env,
       pi_amount = live_amount env, pi_asset = ''USDC'', pi_contract_address = Some (live_usdc env),
       pi_function_selector = Some ''0xa9059cbb'' \<rparr>"

text \<open>The authorized context handed to the execution client.\<close>

definition live_context :: "env \<Rightarrow> authorized_context" where
  "live_context env =
     \<lparr> cx_intent = \<lparr> ti_transaction_id = ''txn_live'', ti_proposal_id = ''proposal_live'', ti_action_type = ''payment'',
         ti_network = ''base-sepolia'',
         ti_asset = \<lparr> as_symbol = ''USDC'', as_address = Some (live_usdc env), as_type = Some ''erc20'' \<rparr>,
         ti_amount = live_amount env, ti_recipient = \<lparr> tr_address = live_recipient env, tr_type = None \<rparr>,
         ti_payment_method = Some ''usdc'', ti_constraints = [] \<rparr>,
       cx_expectation = \<lparr> ae_network = ''base-sepolia'', ae_chain_id = 84532, ae_recipient = live_recipient env,
         ae_asset = ''USDC'', ae_amount = live_amount env, ae_allowed_function = ''transfer'' \<rparr> \<rparr>"

text \<open>
  The answers of Core that the script reads: whether the steps before the decision answered, the
  decision, the status of the preparation with the execution request, and whether the last two calls
  answered.
\<close>

record core_answers =
  lv_seeded :: bool
  lv_decision_result :: string
  lv_decision_id :: string
  lv_prepare_status :: nat
  lv_execution_id :: string
  lv_executor_type :: "string option"
  lv_idempotency_key :: "string option"
  lv_authorization_context_hash :: "string option"
  lv_finalized :: bool

definition live_execution_request :: "core_answers \<Rightarrow> string \<Rightarrow> execution_request" where
  "live_execution_request c now =
     \<lparr> er_execution_id = lv_execution_id c, er_decision_id = lv_decision_id c, er_transaction_id = ''txn_live'',
       er_executor_type = ''eoa'', er_executor_account = nullish (lv_executor_type c) ''eoa'', er_payment_method = ''usdc'',
       er_network = ''base-sepolia'', er_idempotency_key = nullish (lv_idempotency_key c) (lv_execution_id c),
       er_authorization_context_hash = nullish (lv_authorization_context_hash c) ''0xauth'', er_created_at = now \<rparr>"

section \<open>The run\<close>

text \<open>
  The last line the script prints: LIVE_E2E_ERROR with exit code 1 for any exception, LIVE_E2E_OK or
  LIVE_E2E_INCOMPLETE. \<open>None\<close> is a wait for the receipt that never ends.
\<close>

datatype live_outcome = Live_error | Live_ok string | Live_incomplete execution_status bool

definition live_pay ::
    "pipeline_deps \<Rightarrow> context_registry \<Rightarrow> core_answers \<Rightarrow> world \<Rightarrow> receipt_lookup \<Rightarrow> string \<Rightarrow> pipeline \<Rightarrow> live_outcome option" where
  "live_pay D X c W found now pp =
     (case client_execute D X W (live_execution_request c now) pp of
        None \<Rightarrow> None
      | Some (Inl e, _) \<Rightarrow> Some Live_error
      | Some (Inr result, pp1) \<Rightarrow>
         (case verify D found now (lv_execution_id c) pp1 of
            (Inl e, _) \<Rightarrow> Some Live_error
          | (Inr verification, _) \<Rightarrow>
              if \<not> lv_finalized c then Some Live_error
              else if ex_status result = EX_CONFIRMED \<and> rv_verified verification
              then Some (Live_ok (nullish (ex_transaction_hash result) ''null''))
              else Some (Live_incomplete (ex_status result) (rv_verified verification))))"

definition live_e2e ::
    "(string \<Rightarrow> string) \<Rightarrow> evm_lib \<Rightarrow> account_of \<Rightarrow> env \<Rightarrow> core_answers \<Rightarrow> world \<Rightarrow> receipt_lookup \<Rightarrow> string \<Rightarrow> live_outcome option" where
  "live_e2e sha E account_of env c W found now =
     (case build_base_sepolia_execution_client sha E account_of env of
        Inl e \<Rightarrow> Some Live_error
      | Inr b \<Rightarrow>
          if \<not> lv_seeded c \<or> lv_decision_result c \<noteq> ''ALLOW'' \<or> lv_prepare_status c \<noteq> 201 then Some Live_error
          else live_pay (bu_deps b)
                 (register_context ''txn_live'' (Some (lv_execution_id c)) (live_context env) (bu_registry b))
                 c W found now (bu_pipeline b))"

section \<open>Lemmas\<close>

text \<open>Every record of a store was authorized with one expectation.\<close>

definition store_authorizes :: "authorized_expectation \<Rightarrow> execution_store \<Rightarrow> bool" where
  "store_authorizes A S \<longleftrightarrow> (\<forall>i r. by_execution_id S i = Some r \<longrightarrow> xe_authorized r = Some A)"

lemma store_authorizes_empty: "store_authorizes A empty_store"
  by (simp add: store_authorizes_def by_execution_id_def empty_store_def)

lemma store_authorizes_put: "store_authorizes (cx_expectation ctx) S \<Longrightarrow> store_authorizes (cx_expectation ctx) (put (recorded_as request ctx v) S)"
  by (auto simp: store_authorizes_def by_execution_id_def put_def recorded_as_def)

lemma store_authorizes_update:
  "store_authorizes A S \<Longrightarrow> store_authorizes A (update_record_with i (\<lambda>x. x\<lparr>xe_result := r\<rparr>) S)"
  by (auto simp: store_authorizes_def by_execution_id_def update_record_with_def split: option.splits if_splits)

lemma store_authorizes_settle:
  assumes "store_authorizes A S" and "settle_receipt D W request h outcome S = (r, S')"
  shows "store_authorizes A S'"
  using assms store_authorizes_update by (auto simp: settle_receipt_def Let_def split: sum.splits option.splits)

lemma store_authorizes_broadcast:
  assumes "store_authorizes (cx_expectation ctx) (pp_store pp)" and "broadcast D W request ctx tx pp = Some (r, pp')"
  shows "store_authorizes (cx_expectation ctx) (pp_store pp')"
proof -
  obtain outcome out where s: "submit (pd_evm D) (pd_signer D) tx = (outcome, out)"
    by (cases "submit (pd_evm D) (pd_signer D) tx")
  note put = store_authorizes_put [OF assms(1)]
  show ?thesis
  proof (cases outcome)
    case (Inl cause)
    then show ?thesis using assms(2) s put store_authorizes_update
      by (auto simp: broadcast_def Let_def split: if_splits)
  next
    case (Inr h)
    let ?S = "put (recorded_as request ctx (mk_result request (wd_now W) EX_PENDING (Some h))) (pp_store pp)"
    obtain o1 where o1: "wait_for_receipt (pd_evm D) (wd_fast_receipt W) (wd_clock W) (wd_lookups W)
        (wd_submitted_at W) (pd_timeout_ms D) = Some o1"
      using assms(2) Inr s by (auto simp: broadcast_def Let_def)
    obtain r1 S' where st: "settle_receipt D W request h o1 ?S = (r1, S')" by (cases "settle_receipt D W request h o1 ?S")
    then have "pp_store pp' = S'" using assms(2) Inr s o1 by (auto simp: broadcast_def Let_def)
    with store_authorizes_settle [OF put st] show ?thesis by simp
  qed
qed

lemma store_authorizes_execute:
  assumes "pp_store pp = empty_store" and "execute D W request ctx pp = Some (r, pp')"
  shows "store_authorizes (cx_expectation ctx) (pp_store pp')"
proof -
  have "by_key (pp_store pp) k = None" for k using assms(1) by (simp add: by_key_def empty_store_def)
  then have e: "execute_new D W request ctx pp = Some (r, pp')" using assms(2) by (simp add: execute_def)
  obtain o1 P where p: "prepare D W request ctx (pp_provider pp) = (o1, P)" by (cases "prepare D W request ctx (pp_provider pp)")
  show ?thesis
  proof (cases o1)
    case (Inl e)
    then show ?thesis using \<open>execute_new D W request ctx pp = Some (r, pp')\<close> p assms(1) store_authorizes_empty
      by (auto simp: execute_new_def)
  next
    case (Inr tx)
    then have "broadcast D W request ctx tx (pp\<lparr>pp_provider := P\<rparr>) = Some (r, pp')" using e p by (simp add: execute_new_def)
    moreover have "store_authorizes (cx_expectation ctx) (pp_store (pp\<lparr>pp_provider := P\<rparr>))"
      using assms(1) store_authorizes_empty by simp
    ultimately show ?thesis by (rule store_authorizes_broadcast [rotated])
  qed
qed

text \<open>The client resolves what the script registered.\<close>

lemma live_context_resolved:
  assumes "require_context D (register_context ''txn_live'' i (live_context env) X) j ''txn_live'' = Inr ctx"
  shows "ctx = live_context env"
  using require_context_Inr [OF assms]
  by (auto simp: resolve_context_def register_context_def Let_def split: if_splits)

lemma live_client_execute:
  assumes "client_execute D (register_context ''txn_live'' i (live_context env) X) W (live_execution_request c now) pp = Some (Inr v, pp')"
  shows "execute D W (live_execution_request c now) (live_context env) pp = Some (Inr v, pp')"
proof -
  have "er_transaction_id (live_execution_request c now) = ''txn_live''" by (simp add: live_execution_request_def)
  then obtain ctx where "require_context D (register_context ''txn_live'' i (live_context env) X)
      (Some (er_execution_id (live_execution_request c now))) ''txn_live'' = Inr ctx"
    "execute D W (live_execution_request c now) ctx pp = Some (Inr v, pp')"
    using assms by (auto simp: client_execute_def split: sum.splits if_splits)
  with live_context_resolved show ?thesis by blast
qed

lemma built_deps:
  assumes "build_base_sepolia_execution_client sha E account_of env = Inr b"
  shows "pd_evm (bu_deps b) = E \<and> pp_store (bu_pipeline b) = empty_store"
  using assms build_client_Inr [OF assms]
  by (auto simp: build_base_sepolia_execution_client_def and_then_Inr_iff Let_def split: if_splits option.splits
      dest!: arg_cong [of _ b "\<lambda>x. pd_evm (bu_deps x)"])

text \<open>An execution of a fresh pipeline whose verification then holds moved what its context authorizes.\<close>

lemma executed_and_verified_moved:
  assumes "evm_laws (pd_evm D)" and "pp_store pp = empty_store" and "execute D W request ctx pp = Some (r, pp1)"
    and "verify D found now i pp1 = (Inr receipt, pp2)" and "rv_verified receipt"
  obtains raw token units to where "get_receipt (pd_evm D) found = Inr (Some raw)"
    "usdc (pd_registry D) (ae_network (cx_expectation ctx)) = Inr token"
    "el_get_address (pd_evm D) (ae_recipient (cx_expectation ctx)) = Some to"
    "to_base_units (ae_amount (cx_expectation ctx)) (ad_decimals token) = Inr units"
    "moved_on_chain (pd_evm D) raw (nullish (ad_address token) []) to units"
proof -
  have st: "store_authorizes (cx_expectation ctx) (pp_store pp1)" by (rule store_authorizes_execute [OF assms(2,3)])
  obtain x A raw token where v: "by_execution_id (pp_store pp1) i = Some x" "xe_authorized x = Some A"
    "get_receipt (pd_evm D) found = Inr (Some raw)" "usdc (pd_registry D) (ae_network A) = Inr token"
    "verify_receipt (pd_evm D) i (authorized_receipt_of A token) (parse_receipt (pd_evm D) raw)
       (ex_chain (xe_result x)) now = Inr receipt"
    by (rule verify_Inr [OF assms(4)]) (blast intro: that)
  have A: "A = cx_expectation ctx" using st v(1,2) by (auto simp: store_authorizes_def)
  obtain units where "to_base_units (ae_amount A) (ad_decimals token) = Inr units"
    "moved_on_chain (pd_evm D) raw (nullish (ad_address token) []) (rs_recipient (rv_actual receipt)) units"
    "el_get_address (pd_evm D) (ae_recipient A) = Some (rs_recipient (rv_actual receipt))"
    by (rule verified_receipt_moved [OF assms(1) v(5) assms(5)]) (simp add: authorized_receipt_of_def that)
  with v(3,4) A that show ?thesis by simp
qed

lemma live_pay_ok:
  assumes "evm_laws (pd_evm D)" and "pp_store pp = empty_store"
    and "live_pay D (register_context ''txn_live'' i (live_context env) X) c W found now pp = Some (Live_ok h)"
  obtains raw token units to where "get_receipt (pd_evm D) found = Inr (Some raw)"
    "usdc (pd_registry D) ''base-sepolia'' = Inr token"
    "el_get_address (pd_evm D) (live_recipient env) = Some to"
    "to_base_units (live_amount env) (ad_decimals token) = Inr units"
    "moved_on_chain (pd_evm D) raw (nullish (ad_address token) []) to units"
proof -
  obtain result pp1 receipt pp2 where r: "client_execute D (register_context ''txn_live'' i (live_context env) X) W
      (live_execution_request c now) pp = Some (Inr result, pp1)"
    "verify D found now (lv_execution_id c) pp1 = (Inr receipt, pp2)" "rv_verified receipt"
    using assms(3) by (auto simp: live_pay_def split: option.splits sum.splits prod.splits if_splits)
  show ?thesis
    by (rule executed_and_verified_moved [OF assms(1,2) live_client_execute [OF r(1)] r(2,3)])
      (simp add: live_context_def that)
qed

section \<open>Properties\<close>

text \<open>
  C13: The live payment reports success only for money that moved: when it prints LIVE_E2E_OK, Core
  decided ALLOW and prepared the execution, and the receipt of a successful transaction holds a
  transfer of the network's token to the recipient of the settings, of exactly the base units of the
  amount of the settings.
\<close>

theorem live_ok_moved_the_amount:
  assumes "evm_laws E" and "live_e2e sha E account_of env c W found now = Some (Live_ok h)"
  shows "lv_decision_result c = ''ALLOW'' \<and> lv_prepare_status c = 201
    \<and> (\<exists>b raw token units to. build_base_sepolia_execution_client sha E account_of env = Inr b
         \<and> get_receipt E found = Inr (Some raw) \<and> usdc (pd_registry (bu_deps b)) ''base-sepolia'' = Inr token
         \<and> el_get_address E (live_recipient env) = Some to
         \<and> to_base_units (live_amount env) (ad_decimals token) = Inr units
         \<and> moved_on_chain E raw (nullish (ad_address token) []) to units)"
proof -
  obtain b where b: "build_base_sepolia_execution_client sha E account_of env = Inr b"
    using assms(2) by (auto simp: live_e2e_def split: sum.splits)
  have c: "lv_decision_result c = ''ALLOW''" "lv_prepare_status c = 201"
    and p: "live_pay (bu_deps b) (register_context ''txn_live'' (Some (lv_execution_id c)) (live_context env) (bu_registry b))
      c W found now (bu_pipeline b) = Some (Live_ok h)"
    using assms(2) b by (auto simp: live_e2e_def split: if_splits)
  have d: "pd_evm (bu_deps b) = E" "pp_store (bu_pipeline b) = empty_store" using built_deps [OF b] by auto
  obtain raw token units to where "get_receipt E found = Inr (Some raw)" "usdc (pd_registry (bu_deps b)) ''base-sepolia'' = Inr token"
    "el_get_address E (live_recipient env) = Some to" "to_base_units (live_amount env) (ad_decimals token) = Inr units"
    "moved_on_chain E raw (nullish (ad_address token) []) to units"
    by (rule live_pay_ok [OF _ d(2) p]) (use assms(1) d(1) in simp_all)
  with b c show ?thesis by blast
qed

text \<open>
  From the request to the chain: a payment that the route starts and the script reports as
  successful is a transfer of the requested amount to the recipient in the body of the request, or to
  the payout recipient when the body names none. The body decides; no answer of the firewall is asked
  for.
\<close>

theorem paid_what_the_request_says:
  assumes "evm_laws E" and "live_e2e sha E account_of (pay_env env body) c W found now = Some (Live_ok h)"
  shows "\<exists>b raw token units to. build_base_sepolia_execution_client sha E account_of (pay_env env body) = Inr b
    \<and> get_receipt E found = Inr (Some raw) \<and> usdc (pd_registry (bu_deps b)) ''base-sepolia'' = Inr token
    \<and> el_get_address E (nullish (pb_recipient body) (ov_payout_recipient (ORVEX env))) = Some to
    \<and> to_base_units (nullish (pb_amount_usdc body) ''1.00'') (ad_decimals token) = Inr units
    \<and> moved_on_chain E raw (nullish (ad_address token) []) to units"
proof -
  have s: "live_recipient (pay_env env body) = nullish (pb_recipient body) (ov_payout_recipient (ORVEX env))"
    "live_amount (pay_env env body) = nullish (pb_amount_usdc body) ''1.00''"
    by (simp_all add: live_recipient_def live_amount_def pay_env_def)
  obtain b where b: "build_base_sepolia_execution_client sha E account_of (pay_env env body) = Inr b"
    using assms(2) by (auto simp: live_e2e_def split: sum.splits)
  have p: "live_pay (bu_deps b) (register_context ''txn_live'' (Some (lv_execution_id c)) (live_context (pay_env env body)) (bu_registry b))
      c W found now (bu_pipeline b) = Some (Live_ok h)"
    using assms(2) b by (auto simp: live_e2e_def split: if_splits)
  have d: "pd_evm (bu_deps b) = E" "pp_store (bu_pipeline b) = empty_store" using built_deps [OF b] by auto
  obtain raw token units to where "get_receipt E found = Inr (Some raw)" "usdc (pd_registry (bu_deps b)) ''base-sepolia'' = Inr token"
    "el_get_address E (live_recipient (pay_env env body)) = Some to"
    "to_base_units (live_amount (pay_env env body)) (ad_decimals token) = Inr units"
    "moved_on_chain E raw (nullish (ad_address token) []) to units"
    by (rule live_pay_ok [OF _ d(2) p]) (use assms(1) d(1) in simp_all)
  with b show ?thesis unfolding s by blast
qed

text \<open>
  The payment route's comments prefer the remote database; the process it starts uses the
  embedded one unless the server itself sets ORVEX_DB.
\<close>

theorem pay_route_uses_embedded_database:
  assumes "env ''ORVEX_DB'' = None"
  shows "create_test_db (pay_env env b) remote_reachable = Database_embedded"
  using assms by (simp add: create_test_db_def pay_env_def to_lower_def to_lower_char_def char_of_def bit_Suc_0_iff)

section \<open>A sample run\<close>

definition sample_pay_body :: pay_body where
  "sample_pay_body = \<lparr> pb_amount_usdc = Some ''5.25'', pb_recipient = Some ''0xbob'' \<rparr>"

definition live_env :: env where
  "live_env = pay_env (sample_env(''BASE_SEPOLIA_USDC_ADDRESS'' \<mapsto> ''0xusdc'')) sample_pay_body"

definition live_chain :: chain_definition where
  "live_chain = with_usdc_address (Some ''0xusdc'') BASE_SEPOLIA"

definition live_deps :: pipeline_deps where
  "live_deps = \<lparr> pd_sha = id, pd_evm = sample_evm, pd_registry = sample_registry,
     pd_signer = \<lparr> sg_address = ''0xme'', sg_chain = live_chain, sg_send = (\<lambda>tx. Some ''0xh'') \<rparr>, pd_timeout_ms = 60000 \<rparr>"

definition live_answers :: core_answers where
  "live_answers = \<lparr> lv_seeded = True, lv_decision_result = ''ALLOW'', lv_decision_id = ''d1'', lv_prepare_status = 201,
     lv_execution_id = ''x1'', lv_executor_type = None, lv_idempotency_key = None, lv_authorization_context_hash = None,
     lv_finalized = True \<rparr>"

definition live_tx :: transaction_request where
  "live_tx = sample_tx_request\<lparr>tq_transaction_id := ''txn_live'', tq_proposal_id := ''proposal_live'', tq_intent_id := ''txn_live''\<rparr>"

lemma live_settings: "live_recipient live_env = ''0xbob''" "live_amount live_env = ''5.25''" "live_usdc live_env = ''0xusdc''"
  by (simp_all add: live_recipient_def live_amount_def live_usdc_def live_env_def pay_env_def sample_pay_body_def)

lemma live_chain_found: "get_by_network sample_registry ''base-sepolia'' = Inr live_chain" "cf_chain_id live_chain = 84532"
    "cf_is_mainnet live_chain = False"
  by (simp_all add: chain_eval live_chain_def)

lemma live_config: "\<exists>c. load_blockchain_config live_env = Inr c \<and> bc_execution_timeout_ms c = 60000"
  by (simp add: load_blockchain_config_def live_env_def pay_env_def sample_pay_body_def sample_env_def mode_field_def positive_int_field_def from_option_def)

lemma live_built:
  "\<exists>b. build_base_sepolia_execution_client id sample_evm (\<lambda>k. Some (''0xme'', \<lambda>tx. Some ''0xh'')) live_env = Inr b
     \<and> bu_deps b = live_deps \<and> pp_store (bu_pipeline b) = empty_store
     \<and> pp_provider (bu_pipeline b) = \<lparr> rp_chain = live_chain, rp_verified_chain_id = None \<rparr>"
proof -
  obtain c where c: "load_blockchain_config live_env = Inr c" "bc_execution_timeout_ms c = 60000" using live_config by blast
  have "take 2 sample_raw_key = ''0x''" "sample_raw_key \<noteq> []" by (simp_all add: sample_raw_key_def)
  then have k: "get_signer_key live_env = Inr (Some sample_raw_key)"
    by (simp add: get_signer_key_def live_env_def pay_env_def sample_pay_body_def sample_env_def sample_key_bytes32)
  have u: "bc_base_sepolia_usdc_address c = Some ''0xusdc''" "truthy (bc_base_sepolia_rpc_url c)"
    using load_blockchain_config_Inr [OF c(1)] by (simp_all add: live_env_def pay_env_def sample_pay_body_def sample_env_def)
  show ?thesis
    using c k u live_chain_found
    by (simp add: build_base_sepolia_execution_client_def sample_registry_def [symmetric] new_provider_def create_key_signer_def
        live_deps_def)
qed

lemmas live_eval = live_tx_def sample_tx_request_def sample_evm_def sample_lower TRANSFER_SELECTOR_def

lemma live_tx_built:
  "build sample_evm sample_registry (cx_intent (live_context live_env))
     \<lparr> bx_from = ''0xme'', bx_transaction_id = Some ''txn_live'' \<rparr> ''now'' = Inr live_tx"
proof -
  have "show_int 5250000 = ''5250000''" by (simp add: show_int_def show_nat.simps digit_char_def char_of_def bit_Suc_0_iff)
  then show ?thesis
    by (simp add: build_def live_context_def live_settings chain_eval require_address_def sample_units live_eval)
qed

lemma live_checked:
  "checked_transaction live_deps sample_world (live_execution_request live_answers ''now'') (live_context live_env) = Inr live_tx"
proof -
  have "cx_expectation (live_context live_env) = sample_expectation ''5.25''"
    by (simp add: live_context_def live_settings sample_expectation_def)
  moreover have "\<exists>c. check sample_evm sample_registry live_tx (sample_expectation ''5.25'') = Inr c \<and> vl_ok c"
    by (simp add: check_eval live_tx_def)
  ultimately have v: "assert_valid sample_evm sample_registry live_tx (cx_expectation (live_context live_env)) = Inr ()"
    by (auto simp: assert_valid_def)
  obtain a where "analyze sample_evm sample_registry live_tx = Inr a" "ta_status a = AN_VALID"
    using analyze_built [OF sample_evm_laws live_tx_built] sample_usdc by (auto simp: live_context_def)
  with live_tx_built v show ?thesis
    by (simp add: checked_transaction_def live_deps_def sample_world_def live_execution_request_def)
qed

lemma live_chain_asserted:
  "assert_chain_for_request (Some 84532) 84532 \<lparr> rp_chain = live_chain, rp_verified_chain_id = None \<rparr>
     = (Inr (), \<lparr> rp_chain = live_chain, rp_verified_chain_id = Some 84532 \<rparr>)"
  "assert_chain_for_request (Some 84532) 84532 \<lparr> rp_chain = live_chain, rp_verified_chain_id = Some 84532 \<rparr>
     = (Inr (), \<lparr> rp_chain = live_chain, rp_verified_chain_id = Some 84532 \<rparr>)"
  by (simp_all add: assert_chain_for_request_def assert_configured_chain_def live_chain_found)

lemma live_simulated:
  "\<exists>sim. simulate id sample_evm sample_registry sample_node live_tx ''now'' \<lparr> rp_chain = live_chain, rp_verified_chain_id = Some 84532 \<rparr>
       = (Inr sim, \<lparr> rp_chain = live_chain, rp_verified_chain_id = Some 84532 \<rparr>)
     \<and> assert_fresh id sim live_tx = Inr ()"
proof -
  obtain d where d: "decode sample_evm live_tx = Inr d" "dt_known d" "dt_function_name d = Some ''transfer''"
    "dt_target d = Some ''0xbob''" "dt_amount_units d = Some 5250000"
    by (simp add: check_eval live_tx_def)
  obtain amount where "from_base_units 5250000 6 = Inr amount" using from_base_units_inverse [of 5250000 6] by auto
  then obtain r where "simulate_decoded sample_evm sample_registry sample_node live_tx ''now'' d = Inr r" "sr_status r = SIM_PASS"
    using d(2-5) sample_usdc
    by (fastforce simp: simulate_decoded_def simulate_transfer_def sample_node_def live_eval from_option_def simulation_def)
  moreover have "ch_id (tq_chain live_tx) = 84532" by (simp add: live_eval)
  ultimately show ?thesis using live_chain_asserted(2) d(1)
    by (simp add: simulate_def sample_node_def) (simp add: assert_fresh_def)
qed

lemma live_prepared:
  "prepare live_deps sample_world (live_execution_request live_answers ''now'') (live_context live_env)
     \<lparr> rp_chain = live_chain, rp_verified_chain_id = None \<rparr> = (Inr live_tx, \<lparr> rp_chain = live_chain, rp_verified_chain_id = Some 84532 \<rparr>)"
proof -
  have w: "wd_node sample_world = sample_node" "wd_now sample_world = ''now''" "nd_chain_id sample_node = Some 84532"
    by (simp_all add: sample_world_def sample_node_def)
  have d: "pd_registry live_deps = sample_registry" "pd_evm live_deps = sample_evm" "pd_sha live_deps = id" by (simp_all add: live_deps_def)
  have n: "er_network (live_execution_request live_answers ''now'') = ''base-sepolia''" by (simp add: live_execution_request_def)
  obtain sim where "simulate id sample_evm sample_registry sample_node live_tx ''now'' \<lparr> rp_chain = live_chain, rp_verified_chain_id = Some 84532 \<rparr>
       = (Inr sim, \<lparr> rp_chain = live_chain, rp_verified_chain_id = Some 84532 \<rparr>)" "assert_fresh id sim live_tx = Inr ()"
    using live_simulated by blast
  then show ?thesis
    using live_checked live_chain_asserted(1) live_chain_found by (simp add: prepare_def w d n)
qed

lemma live_waits:
  "wait_for_receipt sample_evm (wd_fast_receipt sample_world) (wd_clock sample_world) (wd_lookups sample_world) (wd_submitted_at sample_world) 60000
     = Some (Inr (Some (sample_raw_receipt ''0xbob'' ''5250000'')))"
  by (simp add: wait_for_receipt_def normalize_receipt_def sample_world_def sample_raw_receipt_def sample_evm_def sample_lower
      from_option_def normalize_log_def)

definition live_recorded :: execution_record where
  "live_recorded = recorded_as (live_execution_request live_answers ''now'') (live_context live_env)
     (mk_result (live_execution_request live_answers ''now'') ''now'' EX_CONFIRMED (Some ''0xh''))"

lemma live_executed:
  assumes "pp_store pp = empty_store" and "pp_provider pp = \<lparr> rp_chain = live_chain, rp_verified_chain_id = None \<rparr>"
  shows "\<exists>v pp'. execute live_deps sample_world (live_execution_request live_answers ''now'') (live_context live_env) pp = Some (Inr v, pp')
     \<and> ex_status v = EX_CONFIRMED \<and> by_execution_id (pp_store pp') ''x1'' = Some live_recorded"
proof -
  have s: "submit sample_evm (pd_signer live_deps) live_tx = (Inr ''0xh'', [live_tx])"
    by (simp add: submit_def send_transaction_def sample_value live_deps_def live_eval live_chain_found from_option_def)
  have k: "by_key (pp_store pp) k = None" for k using assms(1) by (simp add: by_key_def empty_store_def)
  have d: "pd_evm live_deps = sample_evm" "pd_timeout_ms live_deps = 60000" by (simp_all add: live_deps_def)
  have x: "er_execution_id (live_execution_request live_answers ''now'') = ''x1''" by (simp add: live_execution_request_def live_answers_def)
  show ?thesis
    using assms(2) k s live_prepared live_waits sample_parsed
    by (simp add: execute_def execute_new_def broadcast_def d settle_receipt_def Let_def)
      (simp add: by_execution_id_def update_record_with_def put_def recorded_as_def x live_recorded_def mk_result_def sample_world_def)
qed

lemma live_verified:
  assumes "by_execution_id (pp_store pp) ''x1'' = Some live_recorded"
  shows "\<exists>receipt pp'. verify live_deps (Receipt_found (sample_raw_receipt ''0xbob'' ''5250000'')) ''now'' ''x1'' pp = (Inr receipt, pp')
     \<and> rv_verified receipt"
proof -
  obtain v where v: "verify_receipt sample_evm ''x1'' sample_authorized (parse_receipt sample_evm (sample_raw_receipt ''0xbob'' ''5250000''))
      ''base-sepolia'' ''now'' = Inr v"
    using sample_verified by blast
  have ok: "rv_verified v"
    unfolding verify_receipt_verified [OF v] sample_parsed
    by (simp add: sample_authorized_def sample_evm_def sample_lower from_option_def sample_units)
  have e: "xe_authorized live_recorded = Some (sample_expectation ''5.25'')" "ex_chain (xe_result live_recorded) = ''base-sepolia''"
    "ex_transaction_hash (xe_result live_recorded) = Some ''0xh''"
    by (simp_all add: live_recorded_def recorded_as_def live_context_def live_settings sample_expectation_def mk_result_def
        live_execution_request_def)
  show ?thesis
    using v ok sample_usdc settled_receipt settled_expectation assms e by (simp add: verify_def live_deps_def)
qed

definition live_account :: account_of where
  "live_account = (\<lambda>k. Some (''0xme'', \<lambda>tx. Some ''0xh''))"

lemma live_run:
  "\<exists>b h. build_base_sepolia_execution_client id sample_evm live_account live_env = Inr b \<and> bu_deps b = live_deps
     \<and> live_e2e id sample_evm live_account live_env live_answers sample_world
         (Receipt_found (sample_raw_receipt ''0xbob'' ''5250000'')) ''now'' = Some (Live_ok h)"
proof -
  obtain b where b: "build_base_sepolia_execution_client id sample_evm live_account live_env = Inr b"
    "bu_deps b = live_deps" "pp_store (bu_pipeline b) = empty_store"
    "pp_provider (bu_pipeline b) = \<lparr> rp_chain = live_chain, rp_verified_chain_id = None \<rparr>"
    using live_built unfolding live_account_def by blast
  obtain v pp' where x: "execute live_deps sample_world (live_execution_request live_answers ''now'') (live_context live_env) (bu_pipeline b) = Some (Inr v, pp')"
    "ex_status v = EX_CONFIRMED" "by_execution_id (pp_store pp') ''x1'' = Some live_recorded"
    using live_executed [OF b(3,4)] by blast
  have "client_execute live_deps (register_context ''txn_live'' (Some ''x1'') (live_context live_env) (bu_registry b)) sample_world
      (live_execution_request live_answers ''now'') (bu_pipeline b) = Some (Inr v, pp')"
    using x(1) by (simp add: client_execute_def require_context_def resolve_context_def register_context_def Let_def from_option_def
        live_execution_request_def live_answers_def live_deps_def sample_evm_def live_context_def)
  moreover obtain receipt pp2 where "verify live_deps (Receipt_found (sample_raw_receipt ''0xbob'' ''5250000'')) ''now'' ''x1'' pp' = (Inr receipt, pp2)"
    "rv_verified receipt"
    using live_verified [OF x(3)] by blast
  ultimately show ?thesis using b x(2) by (simp add: live_e2e_def live_pay_def live_answers_def)
qed

theorem live_ok_moved_the_amount_witness:
  "\<exists>units. moved_on_chain sample_evm (sample_raw_receipt ''0xbob'' ''5250000'') ''0xusdc'' ''0xbob'' units"
proof -
  obtain b h where b: "build_base_sepolia_execution_client id sample_evm live_account live_env = Inr b" "bu_deps b = live_deps"
    "live_e2e id sample_evm live_account live_env live_answers sample_world
       (Receipt_found (sample_raw_receipt ''0xbob'' ''5250000'')) ''now'' = Some (Live_ok h)"
    using live_run by blast
  from live_ok_moved_the_amount [OF sample_evm_laws b(3)] obtain raw token units to where m:
    "get_receipt sample_evm (Receipt_found (sample_raw_receipt ''0xbob'' ''5250000'')) = Inr (Some raw)"
    "usdc (pd_registry (bu_deps b)) ''base-sepolia'' = Inr token" "el_get_address sample_evm (live_recipient live_env) = Some to"
    "moved_on_chain sample_evm raw (nullish (ad_address token) []) to units"
    using b(1) by auto
  have "raw = sample_raw_receipt ''0xbob'' ''5250000''" using m(1) settled_receipt by simp
  moreover have "to = ''0xbob''" using m(3) by (simp add: live_settings sample_evm_def sample_lower)
  moreover have "ad_address token = Some ''0xusdc''" using m(2) b(2) sample_usdc by (simp add: live_deps_def) auto
  ultimately show ?thesis using m(4) by auto
qed

theorem paid_what_the_request_says_witness:
  "\<exists>token :: string. \<exists>units. moved_on_chain sample_evm (sample_raw_receipt ''0xbob'' ''5250000'') token ''0xbob'' units"
proof -
  obtain h where "live_e2e id sample_evm live_account (pay_env (sample_env(''BASE_SEPOLIA_USDC_ADDRESS'' \<mapsto> ''0xusdc'')) sample_pay_body)
      live_answers sample_world (Receipt_found (sample_raw_receipt ''0xbob'' ''5250000'')) ''now'' = Some (Live_ok h)"
    using live_run unfolding live_env_def by blast
  from paid_what_the_request_says [OF sample_evm_laws this] obtain raw to units and token :: asset_definition where m:
    "get_receipt sample_evm (Receipt_found (sample_raw_receipt ''0xbob'' ''5250000'')) = Inr (Some raw)"
    "el_get_address sample_evm ''0xbob'' = Some to" "moved_on_chain sample_evm raw (nullish (ad_address token) []) to units"
    by (auto simp: sample_pay_body_def)
  have "raw = sample_raw_receipt ''0xbob'' ''5250000''" using m(1) settled_receipt by simp
  moreover have "to = ''0xbob''" using m(2) by (simp add: sample_evm_def sample_lower)
  ultimately show ?thesis using m(3) by blast
qed

lemma pay_route_uses_embedded_database_witness:
  "create_test_db (pay_env sample_env sample_pay_body) True = Database_embedded"
  by (rule pay_route_uses_embedded_database) (simp add: sample_env_def)

end
