(* ===== verification/Smoke_Run.thy ===== *)
theory Smoke_Run
  imports Live_Payment
begin

text \<open>
  The smoke runner of the execution boundary (Blockchain/scripts/sepolia-smoke.mjs): one transfer on
  Base Sepolia through the pipeline, without Core. The clock's reading in its ids is the text \<open>stamp\<close>.
\<close>

section \<open>Settings\<close>

definition smoke_recipient :: "env \<Rightarrow> signer \<Rightarrow> string" where
  "smoke_recipient env signer = nullish (env ''SEPOLIA_SMOKE_RECIPIENT'') (sg_address signer)"

definition smoke_amount :: "env \<Rightarrow> string" where
  "smoke_amount env = nullish (env ''SEPOLIA_SMOKE_AMOUNT'') ''0.01''"

definition smoke_registry :: "env \<Rightarrow> chain_registry" where
  "smoke_registry env = new_chain_registry
     \<lparr> go_base_sepolia_usdc_address = env ''BASE_SEPOLIA_USDC_ADDRESS'', go_anvil_usdc_address = None \<rparr>"

section \<open>What the runner sends\<close>

definition smoke_request :: "signer \<Rightarrow> string \<Rightarrow> string \<Rightarrow> execution_request" where
  "smoke_request signer stamp now =
     \<lparr> er_execution_id = ''sepolia_'' @ stamp, er_decision_id = ''d_smoke'', er_transaction_id = ''t_smoke'',
       er_executor_type = ''eoa'', er_executor_account = sg_address signer, er_payment_method = ''usdc'',
       er_network = ''base-sepolia'', er_idempotency_key = ''smoke_'' @ stamp,
       er_authorization_context_hash = ''0xsmoke'', er_created_at = now \<rparr>"

definition smoke_asset_address :: "env \<Rightarrow> chain_definition \<Rightarrow> string option" where
  "smoke_asset_address env chain =
     (case env ''BASE_SEPOLIA_USDC_ADDRESS'' of
        Some a \<Rightarrow> Some a
      | None \<Rightarrow> Option.bind (map_of (cf_assets chain) ''USDC'') ad_address)"

definition smoke_context :: "env \<Rightarrow> chain_definition \<Rightarrow> signer \<Rightarrow> authorized_context" where
  "smoke_context env chain signer =
     \<lparr> cx_intent = \<lparr> ti_transaction_id = ''t_smoke'', ti_proposal_id = ''p_smoke'', ti_action_type = ''payment'',
         ti_network = ''base-sepolia'',
         ti_asset = \<lparr> as_symbol = ''USDC'', as_address = smoke_asset_address env chain, as_type = Some ''erc20'' \<rparr>,
         ti_amount = smoke_amount env, ti_recipient = \<lparr> tr_address = smoke_recipient env signer, tr_type = None \<rparr>,
         ti_payment_method = Some ''usdc'', ti_constraints = [] \<rparr>,
       cx_expectation = \<lparr> ae_network = ''base-sepolia'', ae_chain_id = 84532, ae_recipient = smoke_recipient env signer,
         ae_asset = ''USDC'', ae_amount = smoke_amount env, ae_allowed_function = ''transfer'' \<rparr> \<rparr>"

section \<open>The run\<close>

text \<open>
  How the runner ends: it was skipped (exit code 2), an exception (exit code 1), a confirmed
  transfer with what the verification said of it, or another status of the result.
\<close>

datatype smoke_outcome =
    Smoke_skipped | Smoke_error | Smoke_ok "string option" bool | Smoke_unconfirmed execution_status

definition smoke_pay ::
    "pipeline_deps \<Rightarrow> env \<Rightarrow> chain_definition \<Rightarrow> world \<Rightarrow> receipt_lookup \<Rightarrow> string \<Rightarrow> string \<Rightarrow> pipeline \<Rightarrow>
     (smoke_outcome \<times> pipeline) option" where
  "smoke_pay D env chain W found stamp now pp =
     (case execute D W (smoke_request (pd_signer D) stamp now) (smoke_context env chain (pd_signer D)) pp of
        None \<Rightarrow> None
      | Some (Inl e, pp1) \<Rightarrow> Some (Smoke_error, pp1)
      | Some (Inr result, pp1) \<Rightarrow>
          if ex_status result \<noteq> EX_CONFIRMED then Some (Smoke_unconfirmed (ex_status result), pp1)
          else
           (case verify D found now (ex_execution_id result) pp1 of
              (Inl e, pp2) \<Rightarrow> Some (Smoke_error, pp2)
            | (Inr v, pp2) \<Rightarrow> Some (Smoke_ok (ex_transaction_hash result) (rv_verified v), pp2)))"

text \<open>What the runner wires before it pays.\<close>

definition smoke_wiring ::
    "(string \<Rightarrow> string) \<Rightarrow> evm_lib \<Rightarrow> account_of \<Rightarrow> env \<Rightarrow> int option \<Rightarrow> string \<Rightarrow>
     execution_error + chain_definition \<times> pipeline_deps \<times> pipeline" where
  "smoke_wiring sha E account_of env reported key =
     and_then (get_by_network (smoke_registry env) ''base-sepolia'') (\<lambda>chain.
     and_then (new_provider chain (env ''BASE_SEPOLIA_RPC_URL'') False False) (\<lambda>rpc.
       (case assert_configured_chain reported rpc of
          (Inl e, _) \<Rightarrow> Inl e
        | (Inr _, rpc1) \<Rightarrow>
            and_then (create_key_signer account_of key chain) (\<lambda>signer.
              Inr (chain,
                \<lparr> pd_sha = sha, pd_evm = E, pd_registry = smoke_registry env, pd_signer = signer, pd_timeout_ms = 90000 \<rparr>,
                \<lparr> pp_provider = rpc1, pp_store = empty_store, pp_broadcasts = [] \<rparr>)))))"

definition smoke_main ::
    "(string \<Rightarrow> string) \<Rightarrow> evm_lib \<Rightarrow> account_of \<Rightarrow> env \<Rightarrow> world \<Rightarrow> receipt_lookup \<Rightarrow> string \<Rightarrow> string \<Rightarrow>
     (smoke_outcome \<times> (string \<times> transaction_request) list) option" where
  "smoke_main sha E account_of env W found stamp now =
     (case get_signer_key env of
        Inl e \<Rightarrow> Some (Smoke_error, [])
      | Inr key \<Rightarrow>
          if \<not> truthy (env ''BASE_SEPOLIA_RPC_URL'') \<or> key = None then Some (Smoke_skipped, [])
          else
           (case smoke_wiring sha E account_of env (nd_chain_id (wd_node W)) (the key) of
              Inl e \<Rightarrow> Some (Smoke_error, [])
            | Inr (chain, D, pp) \<Rightarrow> map_option (map_prod id pp_broadcasts) (smoke_pay D env chain W found stamp now pp)))"

section \<open>Lemmas\<close>

lemma smoke_wiring_Inr:
  assumes "smoke_wiring sha E account_of env reported key = Inr (chain, D, pp)"
  shows "pd_evm D = E" "pd_registry D = smoke_registry env" "sg_chain (pd_signer D) = chain"
    "get_by_network (smoke_registry env) ''base-sepolia'' = Inr chain" "reported = Some (cf_chain_id chain)"
    "pp_store pp = empty_store" "pp_broadcasts pp = []"
  using assms
  by (auto simp: smoke_wiring_def and_then_Inr_iff new_provider_def create_key_signer_def assert_configured_chain_def
      split: sum.splits option.splits if_splits)

lemma base_sepolia_of_registry:
  "get_by_network (smoke_registry env) ''base-sepolia'' = Inr chain \<Longrightarrow> cf_chain_id chain = 84532"
  by (auto simp: smoke_registry_def new_chain_registry_def get_by_network_def with_usdc_address_def ANVIL_def
      BASE_SEPOLIA_def from_option_def)

lemma smoke_expectation:
  "ae_network (cx_expectation (smoke_context env chain signer)) = ''base-sepolia''"
  "ae_recipient (cx_expectation (smoke_context env chain signer)) = smoke_recipient env signer"
  "ae_amount (cx_expectation (smoke_context env chain signer)) = smoke_amount env"
  by (simp_all add: smoke_context_def)

text \<open>A call of a fresh pipeline broadcasts one transaction at most, on the chain of the signer.\<close>

lemma fresh_execute_broadcasts:
  assumes "pp_store pp = empty_store" and "pp_broadcasts pp = []" and "execute D W request ctx pp = Some (r, pp')"
  shows "pp_broadcasts pp' = [] \<or>
     (\<exists>tx. pp_broadcasts pp' = [(er_idempotency_key request, tx)] \<and> ch_id (tq_chain tx) = cf_chain_id (sg_chain (pd_signer D)))"
proof -
  have "by_key (pp_store pp) k = None" for k using assms(1) by (simp add: by_key_def empty_store_def)
  then have e: "execute_new D W request ctx pp = Some (r, pp')" using assms(3) by (simp add: execute_def)
  show ?thesis
  proof (cases "prepare D W request ctx (pp_provider pp)")
    case (Pair o1 P)
    show ?thesis
    proof (cases o1)
      case (Inl x)
      then show ?thesis using e Pair assms(2) by (auto simp: execute_new_def)
    next
      case (Inr tx)
      obtain outcome out where s: "submit (pd_evm D) (pd_signer D) tx = (outcome, out)"
        by (cases "submit (pd_evm D) (pd_signer D) tx")
      have b: "broadcast D W request ctx tx (pp\<lparr>pp_provider := P\<rparr>) = Some (r, pp')"
        using e Pair Inr by (simp add: execute_new_def)
      have "pp_broadcasts pp' = map (\<lambda>t. (er_idempotency_key request, t)) out"
        using b s assms(2)
        by (cases outcome)
          (auto simp: broadcast_def Let_def case_prod_beta split: if_splits option.splits)
      with submit_out [OF s] show ?thesis by auto
    qed
  qed
qed

lemma verify_broadcasts: "pp_broadcasts (snd (verify D found now i pp)) = pp_broadcasts pp"
  by (auto simp: verify_def Let_def split: option.splits sum.splits)

lemma smoke_pay_cases:
  assumes "smoke_pay D env chain W found stamp now pp = Some (outcome, pp')"
  obtains r pp1 where
    "execute D W (smoke_request (pd_signer D) stamp now) (smoke_context env chain (pd_signer D)) pp = Some (r, pp1)"
    "pp_broadcasts pp' = pp_broadcasts pp1"
    "\<And>h. outcome = Smoke_ok h True \<Longrightarrow>
       \<exists>i receipt pp2. verify D found now i pp1 = (Inr receipt, pp2) \<and> rv_verified receipt"
proof -
  obtain r pp1 where
    e: "execute D W (smoke_request (pd_signer D) stamp now) (smoke_context env chain (pd_signer D)) pp = Some (r, pp1)"
    using assms by (auto simp: smoke_pay_def split: option.splits)
  show ?thesis
  proof (cases r)
    case (Inl x)
    then show ?thesis using assms e by (intro that [OF e]) (auto simp: smoke_pay_def)
  next
    case (Inr result)
    have "pp_broadcasts pp' = pp_broadcasts pp1"
      using assms e Inr verify_broadcasts [of D found now "ex_execution_id result" pp1]
      by (auto simp: smoke_pay_def split: if_splits prod.splits sum.splits)
    with assms e Inr show ?thesis
      by (intro that [OF e]) (auto simp: smoke_pay_def split: if_splits prod.splits sum.splits)
  qed
qed

section \<open>Properties\<close>

text \<open>
  The smoke runner moves money once at most and only on the testnet: it broadcasts one transaction at
  most, for chain 84532, which the node has reported; and a run it reports as verified moved exactly
  the configured amount to the configured recipient.
\<close>

theorem smoke_run_safe:
  assumes "evm_laws E" and "smoke_main sha E account_of env W found stamp now = Some (outcome, out)"
  shows "(out = [] \<or> (\<exists>tx. out = [(''smoke_'' @ stamp, tx)] \<and> ch_id (tq_chain tx) = 84532 \<and> nd_chain_id (wd_node W) = Some 84532))
    \<and> (\<forall>h. outcome = Smoke_ok h True \<longrightarrow>
         (\<exists>signer raw token units to. get_receipt E found = Inr (Some raw)
            \<and> usdc (smoke_registry env) ''base-sepolia'' = Inr token
            \<and> el_get_address E (smoke_recipient env signer) = Some to
            \<and> to_base_units (smoke_amount env) (ad_decimals token) = Inr units
            \<and> moved_on_chain E raw (nullish (ad_address token) []) to units))"
proof (cases "\<exists>chain D pp pp'. smoke_pay D env chain W found stamp now pp = Some (outcome, pp') \<and> out = pp_broadcasts pp'
    \<and> (\<exists>key. smoke_wiring sha E account_of env (nd_chain_id (wd_node W)) key = Inr (chain, D, pp))")
  case False
  then have "out = []" "outcome = Smoke_error \<or> outcome = Smoke_skipped"
    using assms(2) by (auto simp: smoke_main_def split: sum.splits if_splits)
  then show ?thesis by auto
next
  case True
  then obtain chain D pp pp' key where p: "smoke_pay D env chain W found stamp now pp = Some (outcome, pp')"
    "out = pp_broadcasts pp'" "smoke_wiring sha E account_of env (nd_chain_id (wd_node W)) key = Inr (chain, D, pp)"
    by blast
  note w = smoke_wiring_Inr [OF p(3)]
  have id: "cf_chain_id chain = 84532" by (rule base_sepolia_of_registry [OF w(4)])
  obtain r pp1 where r:
    "execute D W (smoke_request (pd_signer D) stamp now) (smoke_context env chain (pd_signer D)) pp = Some (r, pp1)"
    "pp_broadcasts pp' = pp_broadcasts pp1"
    "\<And>h. outcome = Smoke_ok h True \<Longrightarrow> \<exists>i receipt pp2. verify D found now i pp1 = (Inr receipt, pp2) \<and> rv_verified receipt"
    by (rule smoke_pay_cases [OF p(1)]) (rule that)
  have "out = [] \<or> (\<exists>tx. out = [(''smoke_'' @ stamp, tx)] \<and> ch_id (tq_chain tx) = 84532 \<and> nd_chain_id (wd_node W) = Some 84532)"
    using fresh_execute_broadcasts [OF w(6,7) r(1)] p(2) r(2) w(3,5) id by (simp add: smoke_request_def)
  moreover have "\<exists>signer raw token units to. get_receipt E found = Inr (Some raw)
      \<and> usdc (smoke_registry env) ''base-sepolia'' = Inr token
      \<and> el_get_address E (smoke_recipient env signer) = Some to
      \<and> to_base_units (smoke_amount env) (ad_decimals token) = Inr units
      \<and> moved_on_chain E raw (nullish (ad_address token) []) to units" if "outcome = Smoke_ok h True" for h
  proof -
    note verified = r(3) [OF that]
    obtain i receipt pp2 where v: "verify D found now i pp1 = (Inr receipt, pp2)" "rv_verified receipt"
      using verified by blast
    have laws: "evm_laws (pd_evm D)" using assms(1) w(1) by simp
    obtain raw token units to where m: "get_receipt (pd_evm D) found = Inr (Some raw)"
      "usdc (pd_registry D) (ae_network (cx_expectation (smoke_context env chain (pd_signer D)))) = Inr token"
      "el_get_address (pd_evm D) (ae_recipient (cx_expectation (smoke_context env chain (pd_signer D)))) = Some to"
      "to_base_units (ae_amount (cx_expectation (smoke_context env chain (pd_signer D)))) (ad_decimals token) = Inr units"
      "moved_on_chain (pd_evm D) raw (nullish (ad_address token) []) to units"
      by (rule executed_and_verified_moved [OF laws w(6) r(1) v])
    show ?thesis using m unfolding smoke_expectation w(1,2) by blast
  qed
  ultimately show ?thesis by blast
qed

theorem smoke_run_safe_witness:
  "smoke_main id sample_evm live_account Map.empty sample_world Receipt_not_found ''1'' ''now'' = Some (Smoke_skipped, [])
   \<and> ([] = [] \<or> (\<exists>tx. [] = [(''smoke_1'', tx :: transaction_request)] \<and> ch_id (tq_chain tx) = 84532))"
proof -
  have "smoke_main id sample_evm live_account Map.empty sample_world Receipt_not_found ''1'' ''now'' = Some (Smoke_skipped, [])"
    by (simp add: smoke_main_def get_signer_key_def truthy_def)
  with smoke_run_safe [OF sample_evm_laws this] show ?thesis by simp
qed

end
