(* ===== verification/Seeding.thy ===== *)
theory Seeding
  imports Tenant_Isolation Orchestrator Live_Payment Core_Startup "HOL-Library.List_Lexorder" "HOL-Library.Char_ord"
begin

text \<open>
  How the scripts prepare a tenant: the test server (Backend/scripts/serve-test-core.mjs) through the
  services, the live payment (Backend/scripts/live-e2e.mjs) through the routes. New identifiers are
  arguments; Prisma's direct writes are operations on the rows.
\<close>

section \<open>What both seed\<close>

record seed_ids =
  sd_company :: string
  sd_agent :: string
  sd_constitution :: string
  sd_policy :: string
  sd_version :: string
  sd_capability :: string
  sd_account :: string

definition seed_constitution :: "string \<Rightarrow> constitution_config" where
  "seed_constitution purpose =
     \<lparr> cc_purpose = Some purpose, cc_allowed_actions = [''PAY''], cc_blocked_actions = None,
       cc_allowed_assets = Some [''USDC''], cc_allowed_networks = Some [''base-sepolia''],
       cc_allowed_categories = Some [''API''],
       cc_spending_limits = Some [(''single_transaction'', ''20.00''), (''daily'', ''100.00'')], cc_other = [] \<rparr>"

definition seed_rule :: "string \<Rightarrow> string \<Rightarrow> (string \<times> json) list \<Rightarrow> compiled_rule" where
  "seed_rule i type config =
     \<lparr> pr_rule_id = i, pr_type = type, pr_priority = None, pr_enabled = None, pr_config = config \<rparr>"

definition seed_rules :: "compiled_rule list" where
  "seed_rules =
     [seed_rule ''amt'' ''AMOUNT_LIMIT'' [(''maximum'', JStr ''20.00'')],
      seed_rule ''net'' ''NETWORK_ALLOW'' [(''networks'', JArr [JStr ''base-sepolia''])]]"

definition live_rules :: "compiled_rule list" where
  "live_rules = seed_rules @ [seed_rule ''block'' ''RECIPIENT_BLOCKLIST'' [(''recipients'', JArr [JStr ''0xATTACKER''])]]"

text \<open>The window of the capability: 11 September to 31 December 2026.\<close>

definition SEED_FROM :: int where "SEED_FROM = 1789084800000"
definition SEED_UNTIL :: int where "SEED_UNTIL = 1798675200000"

definition seed_capability :: "string \<Rightarrow> string \<Rightarrow> create_capability_input" where
  "seed_capability company agent =
     \<lparr> cp_company_id = company, cp_agent_id = agent, cp_action = ''PAY'', cp_asset = Some ''USDC'',
       cp_network = Some ''base-sepolia'', cp_category_scope = None, cp_recipient_scope = None,
       cp_single_transaction_limit = Some ''20.00'', cp_daily_limit = None, cp_weekly_limit = None,
       cp_monthly_limit = None, cp_valid_from = Some SEED_FROM, cp_expires_at = Some SEED_UNTIL,
       cp_parent_id = None, cp_created_by = None \<rparr>"

definition on_core_ledger :: "'a ledger_op \<Rightarrow> 'a handler" where
  "on_core_ledger = run_on (\<lambda>db. xd_ledger (execution_of db))
     (\<lambda>L db. db\<lparr>kd_gate := (kd_gate db)\<lparr>gd_execution := (execution_of db)\<lparr>xd_ledger := L\<rparr>\<rparr>\<rparr>)"

text \<open>\<open>prisma.financialAccount.create\<close>: the insert, with the exceptions of the insert.\<close>

definition insert_account :: "decimal_lib \<Rightarrow> string \<Rightarrow> account_key \<Rightarrow> string option \<Rightarrow> financial_account ledger_op" where
  "insert_account D nid k limit L =
     (case create_account D nid k limit L of None \<Rightarrow> (Inl INTERNAL_ERROR, L) | Some (a, L') \<Rightarrow> (Inr a, L'))"

definition seed_account :: "decimal_lib \<Rightarrow> seed_ids \<Rightarrow> string \<Rightarrow> string \<Rightarrow> financial_account handler" where
  "seed_account D ids company agent =
     on_core_ledger (insert_account D (sd_account ids)
       \<lparr> ak_company_id = company, ak_agent_id = Some agent, ak_scope = SCOPE_AGENT, ak_scope_key = agent,
         ak_asset = ''USDC'', ak_network = Some ''base-sepolia'' \<rparr> (Some ''100.00''))"

section \<open>The test server\<close>

text \<open>\<open>prisma.agent.update\<close> of the active policy; a missing row throws.\<close>

definition set_active_policy :: "string \<Rightarrow> string \<Rightarrow> unit authority_op" where
  "set_active_policy agent policy A =
     (if agent \<in> ag_id ` set (ah_agents A)
      then (Inr (), A\<lparr>ah_agents := update_where (\<lambda>g. ag_id g = agent) (\<lambda>g. g\<lparr>ag_active_policy_id := Some policy\<rparr>) (ah_agents A)\<rparr>)
      else (Inl INTERNAL_ERROR, A))"

definition seed_draft ::
    "(string \<Rightarrow> string) \<Rightarrow> seed_ids \<Rightarrow> string \<Rightarrow> string \<Rightarrow> (policy \<times> policy_version) handler" where
  "seed_draft sha ids company agent db =
     on_policies (create_draft sha (authority_of db) (sd_policy ids) (sd_version ids)
       \<lparr> cd_company_id = company, cd_agent_id = Some agent, cd_name = Some ''live-vendor-policy'', cd_description = None,
         cd_rules = seed_rules, cd_source_type = None, cd_source_reference = None, cd_created_by = None \<rparr>) db"

definition seed_company_agent ::
    "decimal_lib \<Rightarrow> (string \<Rightarrow> string) \<Rightarrow> int \<Rightarrow> seed_ids \<Rightarrow> (string \<times> string) handler" where
  "seed_company_agent D sha now ids =
     then_op (on_authority (create_company (sd_company ids) (Some ''Live Roundtrip Co''))) (\<lambda>company.
     then_op (on_authority (create_agent (sd_agent ids)
        \<lparr> ci_company_id = co_id company, ci_name = Some ''live-payer'', ci_purpose = None, ci_execution_mode = None \<rparr>)) (\<lambda>agent.
     then_op (on_authority (activate_agent (co_id company) (ag_id agent))) (\<lambda>_.
     then_op (on_authority (create_constitution sha (sd_constitution ids) (co_id company) (ag_id agent)
        (seed_constitution ''vendor payments'') None)) (\<lambda>constitution.
     then_op (on_authority (activate_constitution now (co_id company) (cn_id constitution))) (\<lambda>_.
     then_op (seed_draft sha ids (co_id company) (ag_id agent)) (\<lambda>(policy, version).
     then_op (on_policies (validate_version (co_id company) (vn_id version))) (\<lambda>_.
     then_op (on_policies (simulate_version (co_id company) (vn_id version))) (\<lambda>_.
     then_op (on_policies (approve_version None (co_id company) (vn_id version))) (\<lambda>_.
     then_op (on_policies (activate_version now (co_id company) (vn_id version))) (\<lambda>_.
     then_op (on_authority (set_active_policy (ag_id agent) (pc_id policy))) (\<lambda>_.
     then_op (on_authority (create_capability D (sd_capability ids) now (seed_capability (co_id company) (ag_id agent)))) (\<lambda>_.
     then_op (seed_account D ids (co_id company) (ag_id agent)) (\<lambda>_.
       return_op (co_id company, ag_id agent))))))))))))))"

text \<open>\<open>loadMigrations\<close>: a directory entry has a name, is a directory or not, and may hold the file.\<close>

definition PUBLIC_SCHEMA :: string where
  "PUBLIC_SCHEMA = ''CREATE SCHEMA IF NOT EXISTS '' @ [CHR 0x22] @ ''public'' @ [CHR 0x22]"

fun join_blank :: "string list \<Rightarrow> string" where
  "join_blank [] = []"
| "join_blank [p] = p"
| "join_blank (p # ps) = p @ [CHR 0x0A, CHR 0x0A] @ join_blank ps"

definition load_migrations :: "(string \<times> bool \<times> string option) list \<Rightarrow> string" where
  "load_migrations entries =
     (let dirs = sort_key fst (filter (\<lambda>(name, is_dir, sql). is_dir) entries);
          parts = List.map_filter (\<lambda>(name, is_dir, sql). sql) dirs
      in join_lines (filter (\<lambda>l. \<not> sublist PUBLIC_SCHEMA l) (split_lines (join_blank parts))))"

datatype test_core_outcome = Core_failed | Core_ready js_number string string string

text \<open>
  The server: the schema is created and migrated in the base database, the process is pointed at it,
  the application is built, the tenant seeded, and only then the port is opened. \<open>migrate\<close> says
  whether the statements of the administration connection succeed, \<open>with_schema\<close> is the URL class.
\<close>

definition serve_test_core ::
    "(string \<Rightarrow> bool) \<Rightarrow> blockchain_package \<Rightarrow> (string \<Rightarrow> string \<Rightarrow> string \<Rightarrow> bool) \<Rightarrow> (string \<Rightarrow> string \<Rightarrow> string option) \<Rightarrow>
     (js_number \<Rightarrow> bool) \<Rightarrow> decimal_lib \<Rightarrow> (string \<Rightarrow> string) \<Rightarrow> int \<Rightarrow> seed_ids \<Rightarrow>
     (string \<times> bool \<times> string option) list \<Rightarrow> env \<Rightarrow> string option \<Rightarrow> string option \<Rightarrow> string \<Rightarrow> core_db \<Rightarrow>
     test_core_outcome \<times> core_db" where
  "serve_test_core is_url package migrate with_schema listens D sha now ids entries env arg_port arg_schema uuid db =
     (let port = (case arg_port of None \<Rightarrow> Js_finite 8098 | Some s \<Rightarrow> to_number s);
          schema = nullish arg_schema (''live_'' @ filter (\<lambda>c. c \<noteq> CHR ''-'') uuid);
          base_url = (case env ''TEST_DATABASE_URL'' of Some u \<Rightarrow> Some u | None \<Rightarrow> env ''DATABASE_URL'') in
      if \<not> truthy base_url \<or> \<not> migrate (the base_url) schema (load_migrations entries) then (Core_failed, db)
      else
       (case with_schema (the base_url) schema of
          None \<Rightarrow> (Core_failed, db)
        | Some url \<Rightarrow>
           (let env' = env(''DATABASE_URL'' \<mapsto> url, ''CORE_ENV'' \<mapsto> ''test'') in
            case load_config is_url env' of
              Inl e \<Rightarrow> (Core_failed, db)
            | Inr c \<Rightarrow>
               (case app_client package env' c of
                  Inl e \<Rightarrow> (Core_failed, db)
                | Inr client \<Rightarrow>
                   (case seed_company_agent D sha now ids db of
                      (Inl e, db') \<Rightarrow> (Core_failed, db')
                    | (Inr (company, agent), db') \<Rightarrow>
                        if listens port then (Core_ready port schema company agent, db') else (Core_failed, db'))))))"

section \<open>The live payment\<close>

text \<open>An answer that the script does not look at: an error of the route is no error of the script.\<close>

definition ignoring :: "'a handler \<Rightarrow> unit handler" where
  "ignoring m db = (Inr (), snd (m db))"

definition live_headers :: "string \<Rightarrow> string \<Rightarrow> headers" where
  "live_headers company role = [''x-company-id'' \<mapsto> Header_one company, ''x-actor-id'' \<mapsto> Header_one ''ai-service'',
     ''x-actor-role'' \<mapsto> Header_one role, ''x-correlation-id'' \<mapsto> Header_one ''corr_live_1'']"

definition insert_company :: "string \<Rightarrow> string \<Rightarrow> company authority_op" where
  "insert_company nid name A =
     (let c = \<lparr> co_id = nid, co_name = name, co_status = COMPANY_ACTIVE \<rparr> in (Inr c, A\<lparr>ah_companies := ah_companies A @ [c]\<rparr>))"

definition live_services :: "core_services \<Rightarrow> core_services" where
  "live_services S = S\<lparr>gs_config := (gs_config S)\<lparr>cg_environment := ENV_test\<rparr>\<rparr>"

definition seed_live_agent :: "core_services \<Rightarrow> int \<Rightarrow> seed_ids \<Rightarrow> (string \<times> string) handler" where
  "seed_live_agent S0 now ids =
     (let S = live_services S0; R = gs_runtime S in
     then_op (on_authority (insert_company (sd_company ids) ''LIVE E2E'')) (\<lambda>company.
      (let operator = live_headers (co_id company) ''AUTHORIZED_OPERATOR''; admin = live_headers (co_id company) ''ADMIN'' in
     then_op (handle S operator (\<lambda>a. create_agent_route (sd_agent ids) a (Some ''live_agent'') None None)) (\<lambda>(_, agent).
     then_op (ignoring (handle S admin (\<lambda>a. patch_agent_route a (ag_id agent) (Some ''ACTIVE'')))) (\<lambda>_.
     then_op (handle S admin (\<lambda>a. create_constitution_route S (sd_constitution ids) a (ag_id agent) (seed_constitution ''pay''))) (\<lambda>(_, constitution).
     then_op (ignoring (handle S admin (\<lambda>a. activate_constitution_route now a (cn_id constitution)))) (\<lambda>_.
     then_op (handle S admin (\<lambda>a. compile_policy_route S (sd_policy ids) (sd_version ids) a (Some ''p'') (Some (ag_id agent)) (Some live_rules))) (\<lambda>(_, policy, version).
     then_op (ignoring (handle S admin (\<lambda>a. validate_policy_route a (vn_id version)))) (\<lambda>_.
     then_op (ignoring (handle S admin (\<lambda>a. activate_policy_route now a (pc_id policy) (vn_id version)))) (\<lambda>_.
     then_op (on_authority (insert_capability (rt_decimal R) (sd_capability ids) now (seed_capability (co_id company) (ag_id agent)))) (\<lambda>_.
     then_op (seed_account (rt_decimal R) ids (co_id company) (ag_id agent)) (\<lambda>_.
       return_op (co_id company, ag_id agent)))))))))))))"

section \<open>What a seeded tenant may do\<close>

definition no_tenant :: "core_db \<Rightarrow> bool" where
  "no_tenant db \<longleftrightarrow> authority_of db = empty_authority \<and> policies_of db = empty_policies \<and> lg_accounts (xd_ledger (execution_of db)) = []"

text \<open>
  The authority of the agent resolves, inside the window of its capability and nowhere else, to a
  policy version with the given rules.
\<close>

definition seeded_with :: "compiled_rule list \<Rightarrow> string \<Rightarrow> string \<Rightarrow> core_db \<Rightarrow> bool" where
  "seeded_with rules company agent db \<longleftrightarrow>
     (\<forall>i now. oi_company_id i = company \<longrightarrow> oi_agent_id i = agent \<longrightarrow> nt_agent_id (oi_intent i) = agent \<longrightarrow>
        validate_proposal_intake (oi_proposal i) \<lparr> pb_intent_id = nt_intent_id (oi_intent i), pb_agent_id = agent \<rparr> = Inr () \<longrightarrow>
        (if SEED_FROM \<le> now \<and> now < SEED_UNTIL
         then \<exists>g cap p v. resolve_authority (core_view_of db) i now = Inr (g, cap, p, v) \<and> vn_rules v = rules
                \<and> load_rules company (vn_id v) (policies_of db) = Inr rules
         else resolve_authority (core_view_of db) i now = Inl CAPABILITY_EXPIRED))"

definition decimals_read :: "decimal_lib \<Rightarrow> bool" where
  "decimals_read D \<longleftrightarrow> dl_parse D ''20.00'' = Some 20 \<and> dl_parse D ''100.00'' = Some 100"

lemma trims: "trim ''Live Roundtrip Co'' = ''Live Roundtrip Co''" "trim ''live-payer'' = ''live-payer''"
  "trim ''live-vendor-policy'' = ''live-vendor-policy''" "trim ''live_agent'' = ''live_agent''" "trim ''p'' = ''p''"
  by (simp_all add: trim_def is_space_def)

lemma seed_rules_valid: "validate_compiled_rules seed_rules = Inr ()" "validate_compiled_rules live_rules = Inr ()"
  by (simp_all add: validate_compiled_rules_def seed_rules_def live_rules_def seed_rule_def RULE_TYPES_def)

lemma seed_constitution_valid: "validate_constitution (seed_constitution p) = Inr (seed_constitution p)"
  by (simp add: validate_constitution_def seed_constitution_def limit_format_def split_point_def all_digits_def is_digit_def)

lemma seed_capability_limits:
  "decimals_read D \<Longrightarrow> limits_of D (seed_capability c a) = Inr [Some 20, None, None, None]"
  by (simp add: limits_of_def seed_capability_def opt_decimal_def amount_of_def decimals_read_def)

lemma seed_capability_fields:
  "cp_company_id (seed_capability c a) = c" "cp_agent_id (seed_capability c a) = a" "cp_parent_id (seed_capability c a) = None"
  "cp_valid_from (seed_capability c a) = Some SEED_FROM" "cp_expires_at (seed_capability c a) = Some SEED_UNTIL"
  by (simp_all add: seed_capability_def)

lemma seed_within_constitution:
  "decimals_read D \<Longrightarrow> assert_within_constitution D (seed_capability c a) (seed_constitution p) = Inr ()"
  by (simp add: assert_within_constitution_def seed_capability_def seed_constitution_def outside_list_def unscoped_def
      truthy_def amount_of_def decimals_read_def)

text \<open>The tables after a seeding: one row each.\<close>

definition seeded_tables :: "compiled_rule list \<Rightarrow> seed_ids \<Rightarrow> core_db \<Rightarrow> bool" where
  "seeded_tables rules ids db \<longleftrightarrow>
     (\<exists>g cn cap p v.
        ah_agents (authority_of db) = [g] \<and> ag_id g = sd_agent ids \<and> ag_company_id g = sd_company ids
      \<and> ag_status g = AG_ACTIVE \<and> ag_active_policy_id g = Some (sd_policy ids)
      \<and> ah_constitutions (authority_of db) = [cn] \<and> cn_company_id cn = sd_company ids \<and> cn_agent_id cn = sd_agent ids
      \<and> cn_status cn = CN_ACTIVE
      \<and> ah_capabilities (authority_of db) = [cap] \<and> cap_company_id cap = sd_company ids \<and> cap_agent_id cap = sd_agent ids
      \<and> cap_status cap = CAP_ACTIVE \<and> cap_valid_from cap = SEED_FROM \<and> cap_expires_at cap = Some SEED_UNTIL
      \<and> pl_policies (policies_of db) = [p] \<and> pc_id p = sd_policy ids \<and> pc_company_id p = sd_company ids
      \<and> pl_versions (policies_of db) = [v] \<and> vn_policy_id v = sd_policy ids \<and> vn_status v = VS_ACTIVE \<and> vn_rules v = rules)"

lemma seeded_tables_seeded:
  assumes "seeded_tables rules ids db" and "sd_policy ids \<noteq> []"
  shows "seeded_with rules (sd_company ids) (sd_agent ids) db"
  using assms
  by (auto simp: core_view_of_def seeded_tables_def seeded_with_def resolve_authority_def require_agent_def get_agent_def from_option_def
      get_active_constitution_def get_active_capabilities_def get_active_version_def policy_in_company_def get_policy_def
      load_rules_def get_version_def truthy_def validate_proposal_intake_def)

lemmas seed_eval = then_op_def return_op_def on_authority_def on_policies_def on_core_ledger_def run_on_def
  create_company_def create_agent_def get_company_def activate_agent_def transition_agent_def require_agent_def
  get_agent_def create_constitution_def activate_constitution_def get_constitution_def transaction_def
  create_draft_def draft_policy_def validate_version_def simulate_version_def approve_version_def activate_version_def
  transition_version_def get_version_def policy_in_company_def get_policy_def assert_transition_def update_version_def
  set_active_policy_def create_capability_def get_active_constitution_def insert_capability_def insert_account_def
  create_account_def empty_authority_def empty_policies_def from_option_def seed_draft_def seed_account_def

lemma seed_company_agent_value:
  assumes "decimals_read D" and "no_tenant db"
  shows "\<exists>db'. seed_company_agent D sha now ids db = (Inr (sd_company ids, sd_agent ids), db') \<and> seeded_tables seed_rules ids db'"
  using assms
  by (simp add: seed_company_agent_def seed_eval no_tenant_def trims seed_rules_valid seed_constitution_valid
      seed_within_constitution seed_capability_limits seed_capability_fields seeded_tables_def decimals_read_def Let_def)

lemma live_headers_authenticated:
  "c \<noteq> [] \<Longrightarrow> authenticate (gs_config (live_services S)) (live_headers c role)
     = Inr \<lparr> at_company_id = c, at_actor_id = ''ai-service'', at_actor_role = role \<rparr>"
  by (simp add: authenticate_def bearer_relaxed_def live_services_def live_headers_def header_def truthy_def)

lemma live_roles:
  "require_role \<lparr> at_company_id = c, at_actor_id = x, at_actor_role = ''ADMIN'' \<rparr> OPERATORS = Inr ()"
  "require_role \<lparr> at_company_id = c, at_actor_id = x, at_actor_role = ''ADMIN'' \<rparr> ACTIVATORS = Inr ()"
  "require_role \<lparr> at_company_id = c, at_actor_id = x, at_actor_role = ''AUTHORIZED_OPERATOR'' \<rparr> OPERATORS = Inr ()"
  by (simp_all add: require_role_def OPERATORS_def ACTIVATORS_def arr_includes_def)

lemma handle_live:
  "c \<noteq> [] \<Longrightarrow> handle (live_services S) (live_headers c role) route
     = route \<lparr> at_company_id = c, at_actor_id = ''ai-service'', at_actor_role = role \<rparr>"
  by (simp add: handle_def then_op_def reading_def live_headers_authenticated fun_eq_iff)

lemma with_role_permitted: "require_role a roles = Inr () \<Longrightarrow> with_role a roles m = m"
  by (simp add: with_role_def then_op_def reading_def fun_eq_iff)

lemmas live_route_eval = handle_live ignoring_def insert_company_def create_agent_route_def patch_agent_route_def
  create_constitution_route_def activate_constitution_route_def compile_policy_route_def draft_route_def
  validate_policy_route_def activate_policy_route_def answer_def call_transition_def agent_transition_def
  point_agent_def reading_def live_roles with_role_permitted

lemma seed_live_agent_value:
  assumes "decimals_read (rt_decimal (gs_runtime S))" and "no_tenant db"
    and "sd_company ids \<noteq> []" and "sd_agent ids \<noteq> []"
  shows "\<exists>db'. seed_live_agent S now ids db = (Inr (sd_company ids, sd_agent ids), db') \<and> seeded_tables live_rules ids db'"
proof -
  have r: "gs_runtime (live_services S) = gs_runtime S" by (simp add: live_services_def)
  show ?thesis
    using assms
    by (simp add: seed_live_agent_def live_route_eval seed_eval r no_tenant_def trims seed_rules_valid
        seed_constitution_valid seed_capability_limits seed_capability_fields seeded_tables_def decimals_read_def
        truthy_def Let_def)
qed

section \<open>Properties\<close>

text \<open>
  C20: The two ways of seeding agree: on an empty database both succeed, and the agent they leave is
  authorized exactly inside the window of its capability, under the rules of the script.
\<close>

theorem seeded_agents_authorized:
  assumes "decimals_read (rt_decimal (gs_runtime S))" and "no_tenant db"
    and "sd_company ids \<noteq> []" and "sd_agent ids \<noteq> []" and "sd_policy ids \<noteq> []"
  shows "(\<exists>db'. seed_company_agent (rt_decimal (gs_runtime S)) sha now ids db = (Inr (sd_company ids, sd_agent ids), db')
            \<and> seeded_with seed_rules (sd_company ids) (sd_agent ids) db')
    \<and> (\<exists>db'. seed_live_agent S now ids db = (Inr (sd_company ids, sd_agent ids), db')
            \<and> seeded_with live_rules (sd_company ids) (sd_agent ids) db')"
  using seed_company_agent_value [OF assms(1,2), of sha now ids] seed_live_agent_value [OF assms(1-4), of now]
    seeded_tables_seeded [OF _ assms(5)] by blast

definition sample_seed_ids :: seed_ids where
  "sample_seed_ids = \<lparr> sd_company = ''c'', sd_agent = ''a'', sd_constitution = ''n'', sd_policy = ''p'', sd_version = ''v'',
     sd_capability = ''k'', sd_account = ''f'' \<rparr>"

definition fresh_core :: core_db where
  "fresh_core = \<lparr>
     kd_gate = \<lparr> gd_authority = empty_authority, gd_policies = empty_policies, gd_approvals = empty_approvals, gd_idempotency = [],
       gd_execution = \<lparr> xd_ledger = \<lparr> lg_accounts = [], lg_reservations = [] \<rparr>, xd_requests = [], xd_results = [], xd_verifications = [] \<rparr> \<rparr>,
     kd_intake = no_intake, kd_trajectory = empty_trajectory, kd_audit = [], kd_attestations = [] \<rparr>"

lemma plain_decimals_read: "decimals_read plain_decimal"
  by (simp add: decimals_read_def money_amount_def money_value_def split_point_def unsigned_part_def all_digits_def
      is_digit_def digits_value_def digit_value_def)

theorem seeded_agents_authorized_witness:
  "\<exists>db'. seed_live_agent sample_services 1 sample_seed_ids fresh_core = (Inr (''c'', ''a''), db')
     \<and> seeded_with live_rules ''c'' ''a'' db'"
proof -
  have "decimals_read (rt_decimal (gs_runtime sample_services))" "no_tenant fresh_core"
    using plain_decimals_read by (simp_all add: sample_services_def sample_runtime_def no_tenant_def fresh_core_def)
  from seeded_agents_authorized [OF this, of sample_seed_ids id 1] show ?thesis by (simp add: sample_seed_ids_def)
qed

text \<open>
  The rules of the seeded policies permit exactly the payments of at most twenty on Base Sepolia,
  those of the live payment except to the one blocked recipient.
\<close>

theorem seeded_rules_permit:
  assumes "decimals_read (rt_decimal R)"
  shows "((\<forall>r \<in> set seed_rules. rule_permits R c r) \<longleftrightarrow>
            (\<exists>a q. ec_amount c = Some a \<and> dl_parse (rt_decimal R) a = Some q \<and> q \<le> 20) \<and> ec_network c = Some ''base-sepolia'')
    \<and> ((\<forall>r \<in> set live_rules. rule_permits R c r) \<longleftrightarrow>
            (\<forall>r \<in> set seed_rules. rule_permits R c r) \<and> ec_recipient c \<noteq> Some ''0xATTACKER'')"
  using assms
  by (auto simp: live_rules_def seed_rules_def seed_rule_def rule_permits_def RULE_TYPES_def amount_within_def
      decimal_of_json_def cfg_def listed_def names_def decimals_read_def)

text \<open>
  The test server opens its port only over a seeded tenant: when it prints that it is ready, the
  database was migrated, the configuration is the test one over the isolated schema, and the agent
  it names is authorized in its window.
\<close>

theorem ready_core_is_seeded:
  assumes "decimals_read D" and "no_tenant db" and "sd_policy ids \<noteq> []"
    and "serve_test_core is_url package migrate with_schema listens D sha now ids entries env arg_port arg_schema uuid db
      = (Core_ready port schema company agent, db')"
  shows "seeded_with seed_rules company agent db' \<and> listens port
    \<and> (\<exists>base url c. migrate base schema (load_migrations entries) \<and> with_schema base schema = Some url
         \<and> load_config is_url (env(''DATABASE_URL'' \<mapsto> url, ''CORE_ENV'' \<mapsto> ''test'')) = Inr c)"
proof -
  obtain db1 where s: "seed_company_agent D sha now ids db = (Inr (sd_company ids, sd_agent ids), db1)"
    "seeded_tables seed_rules ids db1"
    using seed_company_agent_value [OF assms(1,2)] by blast
  have "company = sd_company ids" "agent = sd_agent ids" "db' = db1" "listens port"
    "\<exists>base url c. migrate base schema (load_migrations entries) \<and> with_schema base schema = Some url
         \<and> load_config is_url (env(''DATABASE_URL'' \<mapsto> url, ''CORE_ENV'' \<mapsto> ''test'')) = Inr c"
    using assms(4) s(1) by (auto simp: serve_test_core_def Let_def split: if_splits option.splits sum.splits)
  with seeded_tables_seeded [OF s(2) assms(3)] show ?thesis by simp
qed

end
