(* ===== verification/Domain_Events.thy ===== *)
theory Domain_Events
  imports Core_Runtime
begin

text \<open>
  The domain events of Core (Backend/src/api/http/events.ts) as the routes of v1.ts emit them, and
  the process-wide database client (Backend/src/repositories/prisma.ts). An event is a line of the
  structured logger; a route's event is a constructor with the values the route passes, one for every
  call of emitEvent in v1.ts, in the order of the file.
\<close>

section \<open>Events\<close>

datatype domain_event_type =
    Event_agent_created | Event_agent_updated | Event_intent_created | Event_proposal_created
  | Event_policy_created | Event_policy_compiled | Event_policy_validated | Event_policy_activated
  | Event_constitution_created | Event_constitution_activated | Event_security_assessed
  | Event_decision_created | Event_approval_requested | Event_approval_completed
  | Event_execution_requested | Event_execution_submitted | Event_execution_result
  | Event_execution_reconciled | Event_verification_completed | Event_audit_created
  | Event_attestation_created

fun event_type_name :: "domain_event_type \<Rightarrow> string" where
  "event_type_name Event_agent_created = ''agent.created''"
| "event_type_name Event_agent_updated = ''agent.updated''"
| "event_type_name Event_intent_created = ''intent.created''"
| "event_type_name Event_proposal_created = ''proposal.created''"
| "event_type_name Event_policy_created = ''policy.created''"
| "event_type_name Event_policy_compiled = ''policy.compiled''"
| "event_type_name Event_policy_validated = ''policy.validated''"
| "event_type_name Event_policy_activated = ''policy.activated''"
| "event_type_name Event_constitution_created = ''constitution.created''"
| "event_type_name Event_constitution_activated = ''constitution.activated''"
| "event_type_name Event_security_assessed = ''security.assessed''"
| "event_type_name Event_decision_created = ''decision.created''"
| "event_type_name Event_approval_requested = ''approval.requested''"
| "event_type_name Event_approval_completed = ''approval.completed''"
| "event_type_name Event_execution_requested = ''execution.requested''"
| "event_type_name Event_execution_submitted = ''execution.submitted''"
| "event_type_name Event_execution_result = ''execution.result''"
| "event_type_name Event_execution_reconciled = ''execution.reconciled''"
| "event_type_name Event_verification_completed = ''verification.completed''"
| "event_type_name Event_audit_created = ''audit.created''"
| "event_type_name Event_attestation_created = ''attestation.created''"

text \<open>A member whose value is undefined stays in the object.\<close>

definition optional_text :: "string option \<Rightarrow> log_value" where
  "optional_text v = (case v of None \<Rightarrow> LV_undefined | Some s \<Rightarrow> LV_text s)"

definition event_members ::
    "auth_context option \<Rightarrow> request_context option \<Rightarrow> domain_event_type \<Rightarrow> log_context \<Rightarrow> log_context" where
  "event_members auth ctx type data =
     spread_context [(''event_type'', LV_text (event_type_name type)),
        (''company_id'', optional_text (case auth of Some a \<Rightarrow> Some (at_company_id a)
           | None \<Rightarrow> (case ctx of None \<Rightarrow> None | Some c \<Rightarrow> rq_company_id c)))] data"

text \<open>The line, if any, and the logger singleton afterwards.\<close>

definition emit_event ::
    "log_heap \<Rightarrow> addr \<Rightarrow> logger option \<Rightarrow> auth_context option \<Rightarrow> request_context option \<Rightarrow>
     domain_event_type \<Rightarrow> log_context \<Rightarrow> string \<Rightarrow> logger option \<Rightarrow> string option \<times> logger option" where
  "emit_event H fresh log_ctx auth ctx type data now singleton =
     (let (L, singleton') = (case log_ctx of Some L \<Rightarrow> (L, singleton) | None \<Rightarrow> get_logger singleton)
      in (write_line H fresh L LEVEL_info ''domain_event'' (event_members auth ctx type data) now, singleton'))"

section \<open>The events of the routes\<close>

datatype route_event =
    Agent_created string
  | Agent_updated string string
  | Intent_created string string
  | Proposal_created string string
  | Security_assessed string string
  | Policy_created string int
  | Policy_compiled string int
  | Policy_validated string string
  | Policy_activated string string
  | Constitution_created string
  | Constitution_activated string
  | Decision_created string string
  | Approval_requested string string
  | Approval_approved string
  | Approval_denied string
  | Execution_requested "string option" string
  | Execution_reconciled string string
  | Execution_result_ingested string string
  | Verification_completed string string

fun route_event_type :: "route_event \<Rightarrow> domain_event_type" where
  "route_event_type (Agent_created _) = Event_agent_created"
| "route_event_type (Agent_updated _ _) = Event_agent_updated"
| "route_event_type (Intent_created _ _) = Event_intent_created"
| "route_event_type (Proposal_created _ _) = Event_proposal_created"
| "route_event_type (Security_assessed _ _) = Event_security_assessed"
| "route_event_type (Policy_created _ _) = Event_policy_created"
| "route_event_type (Policy_compiled _ _) = Event_policy_compiled"
| "route_event_type (Policy_validated _ _) = Event_policy_validated"
| "route_event_type (Policy_activated _ _) = Event_policy_activated"
| "route_event_type (Constitution_created _) = Event_constitution_created"
| "route_event_type (Constitution_activated _) = Event_constitution_activated"
| "route_event_type (Decision_created _ _) = Event_decision_created"
| "route_event_type (Approval_requested _ _) = Event_approval_requested"
| "route_event_type (Approval_approved _) = Event_approval_completed"
| "route_event_type (Approval_denied _) = Event_approval_completed"
| "route_event_type (Execution_requested _ _) = Event_execution_requested"
| "route_event_type (Execution_reconciled _ _) = Event_execution_reconciled"
| "route_event_type (Execution_result_ingested _ _) = Event_execution_result"
| "route_event_type (Verification_completed _ _) = Event_verification_completed"

fun route_event_data :: "route_event \<Rightarrow> log_context" where
  "route_event_data (Agent_created a) = [(''agent_id'', LV_text a)]"
| "route_event_data (Agent_updated a status) = [(''agent_id'', LV_text a), (''status'', LV_text status)]"
| "route_event_data (Intent_created i a) = [(''intent_id'', LV_text i), (''agent_id'', LV_text a)]"
| "route_event_data (Proposal_created p i) = [(''proposal_id'', LV_text p), (''intent_id'', LV_text i)]"
| "route_event_data (Security_assessed p a) = [(''proposal_id'', LV_text p), (''assessment_id'', LV_text a)]"
| "route_event_data (Policy_created p v) = [(''policy_id'', LV_text p), (''version'', LV_number v)]"
| "route_event_data (Policy_compiled p v) = [(''policy_id'', LV_text p), (''version'', LV_number v)]"
| "route_event_data (Policy_validated p v) = [(''policy_id'', LV_text p), (''policy_version_id'', LV_text v)]"
| "route_event_data (Policy_activated p v) = [(''policy_id'', LV_text p), (''policy_version_id'', LV_text v)]"
| "route_event_data (Constitution_created c) = [(''constitution_id'', LV_text c)]"
| "route_event_data (Constitution_activated c) = [(''constitution_id'', LV_text c)]"
| "route_event_data (Decision_created d r) = [(''decision_id'', LV_text d), (''result'', LV_text r)]"
| "route_event_data (Approval_requested a d) = [(''approval_id'', LV_text a), (''decision_id'', LV_text d)]"
| "route_event_data (Approval_approved a) = [(''approval_id'', LV_text a), (''result'', LV_text ''APPROVED'')]"
| "route_event_data (Approval_denied a) = [(''approval_id'', LV_text a), (''result'', LV_text ''DENIED'')]"
| "route_event_data (Execution_requested e d) = [(''execution_id'', optional_text e), (''decision_id'', LV_text d)]"
| "route_event_data (Execution_reconciled e s) = [(''execution_id'', LV_text e), (''outcome'', LV_text s)]"
| "route_event_data (Execution_result_ingested e s) = [(''execution_id'', LV_text e), (''status'', LV_text s)]"
| "route_event_data (Verification_completed e s) = [(''execution_id'', LV_text e), (''status'', LV_text s)]"

text \<open>A route has its principal: \<open>requireAuth\<close> comes first. The hook has set context and logger.\<close>

definition emit_route_event ::
    "log_heap \<Rightarrow> addr \<Rightarrow> logger \<Rightarrow> auth_context \<Rightarrow> request_context \<Rightarrow> route_event \<Rightarrow> string \<Rightarrow> string option" where
  "emit_route_event H fresh L auth ctx ev now =
     fst (emit_event H fresh (Some L) (Some auth) (Some ctx) (route_event_type ev) (route_event_data ev) now None)"

section \<open>The database client\<close>

text \<open>The variable holds the client, here the number of its construction; the counter is the constructor's.\<close>

record client_cell =
  cc_client :: "nat option"
  cc_built :: nat
  cc_open :: "nat set"

definition get_prisma :: "client_cell \<Rightarrow> nat \<times> client_cell" where
  "get_prisma s =
     (case cc_client s of
        Some c \<Rightarrow> (c, s)
      | None \<Rightarrow> (cc_built s, s\<lparr>cc_client := Some (cc_built s), cc_built := Suc (cc_built s),
                  cc_open := insert (cc_built s) (cc_open s)\<rparr>))"

text \<open>\<open>closes\<close> says whether \<open>$disconnect\<close> resolves; when it rejects, the variable keeps the client.\<close>

definition disconnect_prisma :: "bool \<Rightarrow> client_cell \<Rightarrow> bool \<times> client_cell" where
  "disconnect_prisma closes s =
     (case cc_client s of
        None \<Rightarrow> (True, s)
      | Some c \<Rightarrow> if closes then (True, s\<lparr>cc_client := None, cc_open := cc_open s - {c}\<rparr>) else (False, s))"

inductive client_step :: "client_cell \<Rightarrow> client_cell \<Rightarrow> bool" where
  step_get: "client_step s (snd (get_prisma s))"
| step_disconnect: "client_step s (snd (disconnect_prisma closes s))"

inductive_cases client_stepE: "client_step s s'"

definition no_client :: client_cell where
  "no_client = \<lparr> cc_client = None, cc_built = 0, cc_open = {} \<rparr>"

text \<open>The open connection pools are exactly the client the variable holds.\<close>

definition one_client :: "client_cell \<Rightarrow> bool" where
  "one_client s \<longleftrightarrow> cc_open s = set_option (cc_client s) \<and> (\<forall>c \<in> set_option (cc_client s). c < cc_built s)"

lemma one_client_start: "one_client no_client"
  by (simp add: one_client_def no_client_def)

lemma one_client_step: "client_step s s' \<Longrightarrow> one_client s \<Longrightarrow> one_client s'"
  by (erule client_stepE) (auto simp: one_client_def get_prisma_def disconnect_prisma_def split: option.splits)

interpretation prisma: invariant_system "\<lambda>s. s = no_client" client_step one_client
  by unfold_locales (auto intro: one_client_start one_client_step)

section \<open>Lemmas\<close>

lemma map_of_set_member: "map_of (set_member k v kvs) = (map_of kvs)(k \<mapsto> v)"
  by (induction kvs rule: set_member.induct) (auto simp: fun_eq_iff)

lemma map_of_spread_context: "map_of (spread_context base extra) = map_of base ++ map_of (rev extra)"
proof (induction extra arbitrary: base)
  case (Cons kv extra)
  then show ?case by (cases kv) (simp add: spread_context_def map_of_set_member map_add_upd_left fun_eq_iff map_add_def split: option.splits)
qed (simp add: spread_context_def)

lemma redact_at_scalar: "redact_scalar v = Some t \<Longrightarrow> redact_at n H v seen = (t, seen)"
  by (cases n) simp_all

lemma thread_Cons: "fst (thread f (x # xs) s) = fst (f x s) # fst (thread f xs (snd (f x s)))"
  by (simp split: prod.splits)

lemma fst_redact_member: "fst (fst (redact_member go kv seen)) = fst kv"
  by (simp add: redact_member_def split: prod.splits)

lemma map_of_redacted:
  assumes "map_of kvs k = Some v" and "\<not> is_sensitive_key k" and "redact_scalar v = Some t"
  shows "map_of (fst (thread (redact_member (redact_at n H)) kvs seen)) k = Some t"
  using assms(1)
proof (induction kvs arbitrary: seen)
  case (Cons kv kvs)
  show ?case
  proof (cases "fst kv = k")
    case True
    with Cons.prems assms(2,3) have "fst (redact_member (redact_at n H) kv seen) = (k, t)"
      by (cases kv) (simp add: redact_member_def redact_at_scalar)
    then show ?thesis by (simp add: thread_Cons del: thread.simps)
  next
    case False
    with Cons.prems have "map_of kvs k = Some v" by (cases kv) (simp split: if_splits)
    from Cons.IH [OF this] False show ?thesis by (simp add: thread_Cons fst_redact_member map_of_Cons_code del: thread.simps)
  qed
qed simp

lemma map_of_json:
  "map_of kvs k = Some t \<Longrightarrow> tree_json t = Some j \<Longrightarrow>
     map_of (List.map_filter (\<lambda>(k, j). map_option (Pair k) j) (map (map_prod id tree_json) kvs)) k = Some j"
  by (induction kvs) (auto simp: List.map_filter_simps split: if_splits option.splits)

text \<open>A member of the record that is not sensitive reaches the line, its text scrubbed.\<close>

lemma write_line_members:
  assumes "should_log L level"
  shows "\<exists>ms. write_line H fresh L level event data now = Some (stringify (JObj ms))
    \<and> (\<forall>k v t j. map_of (log_record L level event data now) k = Some v \<longrightarrow> \<not> is_sensitive_key k \<longrightarrow>
          redact_scalar v = Some t \<longrightarrow> tree_json t = Some j \<longrightarrow> map_of ms k = Some j)"
proof -
  let ?kvs = "log_record L level event data now"
  let ?H = "H(fresh := Cell_object ?kvs)"
  let ?ts = "fst (thread (redact_member (redact_at 8 ?H)) ?kvs {fresh})"
  let ?ms = "List.map_filter (\<lambda>(k, j). map_option (Pair k) j) (map (map_prod id tree_json) ?ts)"
  have "redact_value ?H (LV_ref fresh) = LT_object ?ts"
    by (simp add: redact_value_def eval_nat_numeral redact_scalar_def redact_ref_def)
  then have "write_line H fresh L level event data now = Some (stringify (JObj ?ms))"
    using assms by (simp add: write_line_def)
  then show ?thesis using map_of_json [OF map_of_redacted] by blast
qed

lemma plain_keys:
  "list_all (\<lambda>k. \<not> is_sensitive_key k) [''event'', ''event_type'', ''company_id'', ''agent_id'', ''status'',
     ''intent_id'', ''proposal_id'', ''assessment_id'', ''policy_id'', ''version'', ''policy_version_id'',
     ''constitution_id'', ''decision_id'', ''result'', ''approval_id'', ''execution_id'', ''outcome'']"
  by code_simp

lemma route_keys_plain: "(k, v) \<in> set (route_event_data ev) \<Longrightarrow> \<not> is_sensitive_key k"
  using plain_keys by (cases ev) auto

lemma event_type_name_plain: "redact_string (event_type_name t) = event_type_name t"
proof -
  have "\<forall>c \<in> set (event_type_name t). c \<notin> {CHR '':'', CHR ''='', CHR ''@''} \<and> \<not> is_space c"
    by (cases t) (simp_all add: is_space_def)
  then have "replace_all url_credential_pattern [] (event_type_name t) = event_type_name t"
    "replace_all bearer_pattern [] (event_type_name t) = event_type_name t"
    "replace_all kv_secret_pattern [] (event_type_name t) = event_type_name t"
    by (intro url_needs_at kv_needs_sign bearer_no_space; auto simp: bearer_before_def)+
  then show ?thesis by (simp add: redact_string_def)
qed

text \<open>What the record of a route's event says of a key, whatever the logger has bound.\<close>

lemma route_record:
  "map_of (log_record L LEVEL_info ''domain_event''
      (event_members (Some auth) ctx (route_event_type ev) (route_event_data ev)) now) k
   = (map_of [(''timestamp'', LV_text now), (''level'', LV_text ''info''), (''service'', LV_text (ln_service L)),
        (''event'', LV_text ''domain_event'')] ++ map_of (rev (ln_bound L))
      ++ [''event_type'' \<mapsto> LV_text (event_type_name (route_event_type ev)),
          ''company_id'' \<mapsto> LV_text (at_company_id auth)] ++ map_of (route_event_data ev)) k"
proof -
  let ?ms = "event_members (Some auth) ctx (route_event_type ev) (route_event_data ev)"
  have "map_of (rev ?ms) = [''event_type'' \<mapsto> LV_text (event_type_name (route_event_type ev)),
          ''company_id'' \<mapsto> LV_text (at_company_id auth)] ++ map_of (route_event_data ev)"
    by (cases ev) (simp_all add: event_members_def spread_context_def optional_text_def fun_eq_iff)
  then show ?thesis by (simp add: log_record_def map_of_spread_context)
qed

section \<open>Properties\<close>

text \<open>
  An event of a route, at a level that is logged, is one line that names the event, the company of
  the authenticated principal, whatever company a header of the request claims, and every value the
  route gave, none of them lost to redaction by key.
\<close>

theorem route_event_line:
  assumes "should_log L LEVEL_info" and "''event'' \<notin> fst ` set (ln_bound L)"
  shows "\<exists>ms. emit_route_event H fresh L auth ctx ev now = Some (stringify (JObj ms))
    \<and> map_of ms ''event'' = Some (JStr (redact_string ''domain_event''))
    \<and> map_of ms ''event_type'' = Some (JStr (event_type_name (route_event_type ev)))
    \<and> map_of ms ''company_id'' = Some (JStr (redact_string (at_company_id auth)))
    \<and> (\<forall>(k, v) \<in> set (route_event_data ev). \<forall>t j. redact_scalar v = Some t \<and> tree_json t = Some j \<longrightarrow> map_of ms k = Some j)"
proof -
  let ?r = "log_record L LEVEL_info ''domain_event''
      (event_members (Some auth) (Some ctx) (route_event_type ev) (route_event_data ev)) now"
  obtain ms where ms: "emit_route_event H fresh L auth ctx ev now = Some (stringify (JObj ms))"
    and kept: "\<And>k v t j. map_of ?r k = Some v \<Longrightarrow> \<not> is_sensitive_key k \<Longrightarrow> redact_scalar v = Some t \<Longrightarrow>
        tree_json t = Some j \<Longrightarrow> map_of ms k = Some j"
    using write_line_members [OF assms(1), of H fresh "''domain_event''"
        "event_members (Some auth) (Some ctx) (route_event_type ev) (route_event_data ev)" now]
    unfolding emit_route_event_def emit_event_def Let_def by auto
  have shown: "map_of ?r k = Some (LV_text x) \<Longrightarrow> \<not> is_sensitive_key k \<Longrightarrow> map_of ms k = Some (JStr (redact_string x))" for k x
    using kept [of k "LV_text x"] by (simp add: redact_scalar_def)
  have unbound: "map_of (rev (ln_bound L)) ''event'' = None" using assms(2) by (simp add: map_of_eq_None_iff)
  have keys: "k \<notin> fst ` set (route_event_data ev)" if "k \<in> {''event'', ''event_type'', ''company_id''}" for k
    using that by (cases ev) auto
  have "map_of ?r ''event'' = Some (LV_text ''domain_event'')"
    "map_of ?r ''event_type'' = Some (LV_text (event_type_name (route_event_type ev)))"
    "map_of ?r ''company_id'' = Some (LV_text (at_company_id auth))"
    using unbound keys by (simp_all add: route_record map_add_def map_of_eq_None_iff [THEN iffD2])
  then have heads: "map_of ms ''event'' = Some (JStr (redact_string ''domain_event''))"
    "map_of ms ''event_type'' = Some (JStr (event_type_name (route_event_type ev)))"
    "map_of ms ''company_id'' = Some (JStr (redact_string (at_company_id auth)))"
    using shown plain_keys by (auto simp: event_type_name_plain)
  have "map_of ms k = Some j" if "(k, v) \<in> set (route_event_data ev)" "redact_scalar v = Some t" "tree_json t = Some j" for k v t j
  proof (rule kept)
    have "map_of (route_event_data ev) k = Some v" using that(1) by (cases ev) auto
    then show "map_of ?r k = Some v" by (simp add: route_record)
  qed (use that route_keys_plain in auto)
  with ms heads show ?thesis by blast
qed

definition sample_log_context :: request_context where
  "sample_log_context = request_context_of (\<lambda>k. if k = ''x-company-id'' then Some (Header_one ''other'') else None) ''u1'' ''u2''"

theorem route_event_line_witness:
  "\<exists>ms. emit_route_event (\<lambda>a. Cell_array []) 0
        (child (request_log_context sample_log_context) (new_logger \<lparr> lo_service = None, lo_level = None \<rparr> []))
        \<lparr> at_company_id = ''co'', at_actor_id = ''a'', at_actor_role = ''ADMIN'' \<rparr> sample_log_context (Agent_created ''ag'') ''now''
      = Some (stringify (JObj ms))
    \<and> map_of ms ''company_id'' = Some (JStr (redact_string ''co''))"
proof -
  let ?L = "child (request_log_context sample_log_context) (new_logger \<lparr> lo_service = None, lo_level = None \<rparr> [])"
  have "should_log ?L LEVEL_info" "''event'' \<notin> fst ` set (ln_bound ?L)"
    by (simp_all add: child_def new_logger_def should_log_def spread_context_def request_log_context_def
        sample_log_context_def request_context_of_def header_def truthy_def)
  from route_event_line [OF this, of "\<lambda>a. Cell_array []" 0 "\<lparr> at_company_id = ''co'', at_actor_id = ''a'', at_actor_role = ''ADMIN'' \<rparr>"
      sample_log_context "Agent_created ''ag''" "''now''"]
  show ?thesis by auto
qed

text \<open>However often the client is asked for and closed, at most one pool of connections is open.\<close>

theorem at_most_one_pool: "client_step\<^sup>*\<^sup>* no_client s \<Longrightarrow> card (cc_open s) \<le> 1"
  using prisma.steps_inv [OF _ one_client_start, of s]
  by (cases "cc_client s") (simp_all add: one_client_def)

theorem at_most_one_pool_witness: "card (cc_open (snd (get_prisma no_client))) \<le> 1"
  by (rule at_most_one_pool) (blast intro: step_get)

end
