(* ===== verification/Test_Usdc.thy ===== *)
theory Test_Usdc
  imports Orvex_Prelude "HOL-Library.Word"
begin

text \<open>
  The token contract of the integration tests (Blockchain/contracts/src/TestUSDC.sol). An address is
  160 bits, an amount 256 bits, and arithmetic is that of Solidity 0.8: an overflow reverts. A call
  that reverts leaves the state, its logs included, as it was.
\<close>

section \<open>State\<close>

type_synonym eth_address = "160 word"
type_synonym uint256 = "256 word"

datatype usdc_event =
    Transfer_event eth_address eth_address uint256
  | Approval_event eth_address eth_address uint256

datatype usdc_error = Insufficient_balance | Token_paused | Not_owner | Allowance_exceeded | Arithmetic_panic

record usdc_token =
  us_total_supply :: uint256
  us_balance_of :: "eth_address \<Rightarrow> uint256"
  us_allowance :: "eth_address \<Rightarrow> eth_address \<Rightarrow> uint256"
  us_paused :: bool
  us_owner :: eth_address
  us_logs :: "usdc_event list"

type_synonym 'a usdc_call = "(usdc_token, usdc_error, 'a) op"

definition deploy_usdc :: "eth_address \<Rightarrow> usdc_token" where
  "deploy_usdc sender = \<lparr> us_total_supply = 0, us_balance_of = (\<lambda>_. 0), us_allowance = (\<lambda>_ _. 0), us_paused = False,
     us_owner = sender, us_logs = [] \<rparr>"

section \<open>Calls\<close>

definition checked_add :: "uint256 \<Rightarrow> uint256 \<Rightarrow> usdc_error + uint256" where
  "checked_add a b = (if unat a + unat b < 2 ^ 256 then Inr (a + b) else Inl Arithmetic_panic)"

definition checked_sub :: "uint256 \<Rightarrow> uint256 \<Rightarrow> usdc_error + uint256" where
  "checked_sub a b = (if b \<le> a then Inr (a - b) else Inl Arithmetic_panic)"

definition set_paused :: "eth_address \<Rightarrow> bool \<Rightarrow> unit usdc_call" where
  "set_paused sender p s = (if sender \<noteq> us_owner s then (Inl Not_owner, s) else (Inr (), s\<lparr>us_paused := p\<rparr>))"

definition mint :: "eth_address \<Rightarrow> uint256 \<Rightarrow> unit usdc_call" where
  "mint to amount s =
     (case checked_add (us_total_supply s) amount of
        Inl e \<Rightarrow> (Inl e, s)
      | Inr minted \<Rightarrow>
         (case checked_add (us_balance_of s to) amount of
            Inl e \<Rightarrow> (Inl e, s)
          | Inr balance \<Rightarrow>
              (Inr (), s\<lparr>us_total_supply := minted, us_balance_of := (us_balance_of s)(to := balance),
                 us_logs := us_logs s @ [Transfer_event 0 to amount]\<rparr>)))"

text \<open>
  The two updates of a transfer; the second reads what the first wrote, so a transfer to oneself is
  covered.
\<close>

definition move_tokens :: "eth_address \<Rightarrow> eth_address \<Rightarrow> uint256 \<Rightarrow> usdc_token \<Rightarrow> usdc_error + usdc_token" where
  "move_tokens sender to amount s =
     and_then (checked_sub (us_balance_of s sender) amount) (\<lambda>left.
       (let b = (us_balance_of s)(sender := left) in
        and_then (checked_add (b to) amount) (\<lambda>right.
          Inr (s\<lparr>us_balance_of := b(to := right), us_logs := us_logs s @ [Transfer_event sender to amount]\<rparr>))))"

definition transfer :: "eth_address \<Rightarrow> eth_address \<Rightarrow> uint256 \<Rightarrow> bool usdc_call" where
  "transfer sender to amount s =
     (if us_paused s then (Inl Token_paused, s)
      else if us_balance_of s sender < amount then (Inl Insufficient_balance, s)
      else (case move_tokens sender to amount s of Inl e \<Rightarrow> (Inl e, s) | Inr s' \<Rightarrow> (Inr True, s')))"

definition approve_spender :: "eth_address \<Rightarrow> eth_address \<Rightarrow> uint256 \<Rightarrow> bool usdc_call" where
  "approve_spender sender spender amount s =
     (Inr True, s\<lparr>us_allowance := (us_allowance s)(sender := (us_allowance s sender)(spender := amount)),
        us_logs := us_logs s @ [Approval_event sender spender amount]\<rparr>)"

definition transfer_from :: "eth_address \<Rightarrow> eth_address \<Rightarrow> eth_address \<Rightarrow> uint256 \<Rightarrow> bool usdc_call" where
  "transfer_from sender from_address to amount s =
     (if us_paused s then (Inl Token_paused, s)
      else
       (let allowed = us_allowance s from_address sender in
        if \<not> amount \<le> allowed then (Inl Allowance_exceeded, s)
        else if us_balance_of s from_address < amount then (Inl Insufficient_balance, s)
        else
         (let s1 = (if allowed \<noteq> - 1
                    then s\<lparr>us_allowance := (us_allowance s)(from_address := (us_allowance s from_address)(sender := allowed - amount))\<rparr>
                    else s)
          in (case move_tokens from_address to amount s1 of Inl e \<Rightarrow> (Inl e, s) | Inr s' \<Rightarrow> (Inr True, s')))))"

inductive usdc_step :: "usdc_token \<Rightarrow> usdc_token \<Rightarrow> bool" where
  ustep_pause: "usdc_step s (snd (set_paused sender p s))"
| ustep_mint: "usdc_step s (snd (mint to amount s))"
| ustep_transfer: "usdc_step s (snd (transfer sender to amount s))"
| ustep_approve: "usdc_step s (snd (approve_spender sender spender amount s))"
| ustep_transfer_from: "usdc_step s (snd (transfer_from sender from_address to amount s))"

inductive_cases usdc_stepE: "usdc_step s s'"

section \<open>What the log says\<close>

text \<open>
  The balance of an account by the log alone: what it received less what it sent. Minting is a
  transfer from the zero address, which does not pay for it.
\<close>

fun logged_in :: "eth_address \<Rightarrow> usdc_event list \<Rightarrow> nat" where
  "logged_in a [] = 0"
| "logged_in a (Transfer_event x y n # es) = (if y = a then unat n else 0) + logged_in a es"
| "logged_in a (Approval_event x y n # es) = logged_in a es"

fun logged_out :: "eth_address \<Rightarrow> usdc_event list \<Rightarrow> nat" where
  "logged_out a [] = 0"
| "logged_out a (Transfer_event x y n # es) = (if x = a then unat n else 0) + logged_out a es"
| "logged_out a (Approval_event x y n # es) = logged_out a es"

lemma logged_append [simp]:
  "logged_in a (es @ fs) = logged_in a es + logged_in a fs"
  "logged_out a (es @ fs) = logged_out a es + logged_out a fs"
  by (induction es rule: logged_in.induct) simp_all

section \<open>Lemmas\<close>

lemma checked_add_Inr: "checked_add a b = Inr c \<longleftrightarrow> unat a + unat b < 2 ^ 256 \<and> c = a + b"
  by (auto simp: checked_add_def)

lemma checked_sub_Inr: "checked_sub a b = Inr c \<longleftrightarrow> b \<le> a \<and> c = a - b"
  by (auto simp: checked_sub_def)

lemma unat_checked_add: "checked_add a b = Inr c \<Longrightarrow> unat c = unat a + unat b"
  by (auto simp: checked_add_Inr unat_word_ariths)

lemma unat_checked_sub: "checked_sub a b = Inr c \<Longrightarrow> unat c + unat b = unat a"
  by (auto simp: checked_sub_Inr unat_sub_if_size word_le_nat_alt)

definition balance_sum :: "usdc_token \<Rightarrow> nat" where
  "balance_sum s = (\<Sum>a\<in>UNIV. unat (us_balance_of s a))"

lemma sum_fun_upd:
  "(\<Sum>a\<in>UNIV. unat ((f(x := v)) a)) + unat (f x) = (\<Sum>a\<in>UNIV. unat (f a)) + unat v"
  for f :: "'a::finite \<Rightarrow> 'b::len word"
proof -
  have "(\<Sum>a\<in>UNIV. unat ((f(x := v)) a)) = unat v + (\<Sum>a\<in>UNIV - {x}. unat (f a))"
    by (subst sum.remove [of _ x]) (auto intro!: sum.cong)
  moreover have "(\<Sum>a\<in>UNIV. unat (f a)) = unat (f x) + (\<Sum>a\<in>UNIV - {x}. unat (f a))"
    by (subst sum.remove [of _ x]) auto
  ultimately show ?thesis by simp
qed

lemma balance_le_sum: "unat (us_balance_of s a) \<le> balance_sum s"
  unfolding balance_sum_def by (rule member_le_sum) simp_all

text \<open>A covered transfer of a token whose balances add up cannot overflow, and it moves exactly the amount.\<close>

lemma move_tokens_covered:
  assumes "balance_sum s < 2 ^ 256" and "amount \<le> us_balance_of s sender"
  obtains s' where "move_tokens sender to amount s = Inr s'" "balance_sum s' = balance_sum s"
    "us_total_supply s' = us_total_supply s" "us_logs s' = us_logs s @ [Transfer_event sender to amount]"
    "\<And>a. unat (us_balance_of s' a) + (if a = sender then unat amount else 0)
        = unat (us_balance_of s a) + (if a = to then unat amount else 0)"
proof -
  define left where "left = us_balance_of s sender - amount"
  define b where "b = (us_balance_of s)(sender := left)"
  have sub: "checked_sub (us_balance_of s sender) amount = Inr left"
    using assms(2) by (simp add: checked_sub_Inr left_def)
  then have left: "unat left + unat amount = unat (us_balance_of s sender)" by (rule unat_checked_sub)
  have sum_b: "(\<Sum>a\<in>UNIV. unat (b a)) + unat amount = balance_sum s"
    using sum_fun_upd [of "us_balance_of s" sender left] left unfolding b_def balance_sum_def by simp
  moreover have "unat (b to) \<le> (\<Sum>a\<in>UNIV. unat (b a))" by (rule member_le_sum) simp_all
  ultimately have "unat (b to) + unat amount < 2 ^ 256" using assms(1) by linarith
  then have add: "checked_add (b to) amount = Inr (b to + amount)" by (simp add: checked_add_Inr)
  then have right: "unat (b to + amount) = unat (b to) + unat amount" by (rule unat_checked_add)
  let ?s = "s\<lparr>us_balance_of := b(to := b to + amount), us_logs := us_logs s @ [Transfer_event sender to amount]\<rparr>"
  have "move_tokens sender to amount s = Inr ?s"
    using sub add by (simp add: move_tokens_def and_then_def b_def)
  moreover have "balance_sum ?s = balance_sum s"
    using sum_fun_upd [of b to "b to + amount"] right sum_b by (simp add: balance_sum_def)
  moreover have "unat (us_balance_of ?s a) + (if a = sender then unat amount else 0)
      = unat (us_balance_of s a) + (if a = to then unat amount else 0)" for a
    using right left by (auto simp: b_def)
  ultimately show thesis using that by simp
qed

text \<open>The balances add up to the supply, and the log accounts for each of them.\<close>

definition usdc_ok :: "usdc_token \<Rightarrow> bool" where
  "usdc_ok s \<longleftrightarrow> balance_sum s = unat (us_total_supply s)
     \<and> (\<forall>a. a \<noteq> 0 \<longrightarrow> unat (us_balance_of s a) + logged_out a (us_logs s) = logged_in a (us_logs s))"

lemma usdc_ok_bound: "usdc_ok s \<Longrightarrow> balance_sum s < 2 ^ 256"
  using unsigned_less [of "us_total_supply s"] by (auto simp: usdc_ok_def)

lemma usdc_ok_moved:
  assumes "usdc_ok s" and "amount \<le> us_balance_of s sender" and "move_tokens sender to amount s = Inr s'"
  shows "usdc_ok s'"
proof -
  obtain t where t: "move_tokens sender to amount s = Inr t" "balance_sum t = balance_sum s"
    "us_total_supply t = us_total_supply s" "us_logs t = us_logs s @ [Transfer_event sender to amount]"
    "\<And>a. unat (us_balance_of t a) + (if a = sender then unat amount else 0)
        = unat (us_balance_of s a) + (if a = to then unat amount else 0)"
    using move_tokens_covered [OF usdc_ok_bound [OF assms(1)] assms(2)] by blast
  have "unat (us_balance_of t a) + logged_out a (us_logs t) = logged_in a (us_logs t)" if "a \<noteq> 0" for a
  proof -
    have "unat (us_balance_of s a) + logged_out a (us_logs s) = logged_in a (us_logs s)"
      using assms(1) that by (simp add: usdc_ok_def)
    then show ?thesis using t(5) [of a] by (auto simp: t(4) split: if_splits)
  qed
  moreover have "s' = t" using assms(3) t(1) by simp
  ultimately show ?thesis using assms(1) t(2,3) by (simp add: usdc_ok_def)
qed

lemma usdc_ok_mint: "usdc_ok s \<Longrightarrow> usdc_ok (snd (mint to amount s))"
proof -
  assume ok: "usdc_ok s"
  show ?thesis
  proof (cases "checked_add (us_total_supply s) amount")
    case (Inr minted)
    show ?thesis
    proof (cases "checked_add (us_balance_of s to) amount")
      case (Inr balance)
      note m = \<open>checked_add (us_total_supply s) amount = Inr minted\<close> Inr
      let ?s = "snd (mint to amount s)"
      have "balance_sum ?s + unat (us_balance_of s to) = balance_sum s + unat balance"
        using sum_fun_upd [of "us_balance_of s" to balance] by (simp add: mint_def m balance_sum_def)
      then have "balance_sum ?s = unat (us_total_supply ?s)"
        using ok unat_checked_add [OF m(1)] unat_checked_add [OF m(2)] by (simp add: mint_def m usdc_ok_def)
      then show ?thesis using ok unat_checked_add [OF m(2)] by (auto simp: mint_def m usdc_ok_def)
    qed (use ok Inr in \<open>simp add: mint_def\<close>)
  qed (use ok in \<open>simp add: mint_def\<close>)
qed

lemma usdc_ok_frame:
  "us_balance_of s' = us_balance_of s \<Longrightarrow> us_total_supply s' = us_total_supply s \<Longrightarrow>
   (\<And>a. logged_in a (us_logs s') = logged_in a (us_logs s) \<and> logged_out a (us_logs s') = logged_out a (us_logs s)) \<Longrightarrow>
   usdc_ok s \<Longrightarrow> usdc_ok s'"
  by (simp add: usdc_ok_def balance_sum_def)

lemma usdc_ok_step:
  assumes "usdc_ok s" and "usdc_step s s'"
  shows "usdc_ok s'"
  using assms(2)
proof (cases rule: usdc_step.cases)
  case (ustep_transfer sender to amount)
  show ?thesis
    using assms(1) usdc_ok_moved [OF assms(1), of amount sender to]
    by (auto simp: ustep_transfer transfer_def not_less split: sum.splits)
next
  case (ustep_transfer_from sender from_address to amount)
  have frame: "usdc_ok (s\<lparr>us_allowance := al\<rparr>)" for al by (rule usdc_ok_frame [OF _ _ _ assms(1)]) simp_all
  show ?thesis
    using assms(1) usdc_ok_moved [OF frame, of amount _ from_address to] usdc_ok_moved [OF assms(1), of amount from_address to]
    by (auto simp: ustep_transfer_from transfer_from_def Let_def not_less split: sum.splits if_splits)
qed (auto simp: set_paused_def approve_spender_def intro: usdc_ok_mint usdc_ok_frame [OF _ _ _ assms(1)] assms(1))

lemma usdc_ok_deploy: "usdc_ok (deploy_usdc sender)"
  by (simp add: usdc_ok_def deploy_usdc_def balance_sum_def)

interpretation token: invariant_system "\<lambda>s. \<exists>sender. s = deploy_usdc sender" usdc_step usdc_ok
  by unfold_locales (auto intro: usdc_ok_deploy usdc_ok_step)

lemma transfer_outcome:
  assumes "usdc_ok s"
  shows "case transfer sender to amount s of
      (Inl e, s') \<Rightarrow> s' = s \<and> (e = Token_paused \<and> us_paused s
          \<or> e = Insufficient_balance \<and> \<not> us_paused s \<and> unat (us_balance_of s sender) < unat amount)
    | (Inr ok, s') \<Rightarrow> ok \<and> \<not> us_paused s \<and> unat amount \<le> unat (us_balance_of s sender)
        \<and> us_logs s' = us_logs s @ [Transfer_event sender to amount]
        \<and> (\<forall>a. unat (us_balance_of s' a) + (if a = sender then unat amount else 0)
             = unat (us_balance_of s a) + (if a = to then unat amount else 0))"
proof (cases "us_paused s \<or> us_balance_of s sender < amount")
  case True
  then show ?thesis by (auto simp: transfer_def word_less_nat_alt)
next
  case False
  then have c: "amount \<le> us_balance_of s sender" by (simp add: not_less)
  obtain s' where "move_tokens sender to amount s = Inr s'"
    "us_logs s' = us_logs s @ [Transfer_event sender to amount]"
    "\<And>a. unat (us_balance_of s' a) + (if a = sender then unat amount else 0)
        = unat (us_balance_of s a) + (if a = to then unat amount else 0)"
    using move_tokens_covered [OF usdc_ok_bound [OF assms] c] by metis
  then show ?thesis using False c by (simp add: transfer_def word_le_nat_alt)
qed

section \<open>Properties\<close>

text \<open>
  C23: After any calls of anybody the balances of the token add up to its supply, and the balance of
  every account but the zero address is what the Transfer events of the log give: what it received
  less what it sent. A receipt's log is therefore the whole truth about the money.
\<close>

theorem token_accounts_balance:
  assumes "reachable (\<lambda>s. \<exists>sender. s = deploy_usdc sender) usdc_step s"
  shows "(\<Sum>a\<in>UNIV. unat (us_balance_of s a)) = unat (us_total_supply s)
    \<and> (\<forall>a. a \<noteq> 0 \<longrightarrow> unat (us_balance_of s a) + logged_out a (us_logs s) = logged_in a (us_logs s))"
  using token.reachable_inv [OF assms] by (simp add: usdc_ok_def balance_sum_def)

text \<open>
  A transfer has three outcomes and arithmetic is none of them: it is refused while the token is
  paused, refused without the balance, and otherwise moves exactly the amount from the sender to the
  recipient, who may be the same, and nothing else.
\<close>

theorem transfer_never_overflows:
  assumes "reachable (\<lambda>s. \<exists>sender. s = deploy_usdc sender) usdc_step s"
  shows "case transfer sender to amount s of
      (Inl e, s') \<Rightarrow> s' = s \<and> (e = Token_paused \<and> us_paused s
          \<or> e = Insufficient_balance \<and> \<not> us_paused s \<and> unat (us_balance_of s sender) < unat amount)
    | (Inr ok, s') \<Rightarrow> ok \<and> \<not> us_paused s \<and> unat amount \<le> unat (us_balance_of s sender)
        \<and> us_logs s' = us_logs s @ [Transfer_event sender to amount]
        \<and> (\<forall>a. unat (us_balance_of s' a) + (if a = sender then unat amount else 0)
             = unat (us_balance_of s a) + (if a = to then unat amount else 0))"
  by (rule transfer_outcome [OF token.reachable_inv [OF assms]])

text \<open>Account 1 gets 6 USDC and sends 5.25 to account 2.\<close>

definition funded_token :: usdc_token where
  "funded_token = snd (mint 1 6000000 (deploy_usdc 9))"

lemma funded_token_values: "us_balance_of funded_token = (\<lambda>_. 0)(1 := 6000000)" "\<not> us_paused funded_token"
  "us_total_supply funded_token = 6000000"
  by (simp_all add: funded_token_def mint_def checked_add_def deploy_usdc_def)

lemma funded_token_reachable: "reachable (\<lambda>s. \<exists>sender. s = deploy_usdc sender) usdc_step funded_token"
  unfolding funded_token_def using reachable_step [OF reachable_init, of "\<lambda>s. \<exists>sender. s = deploy_usdc sender" "deploy_usdc 9" usdc_step, OF _ ustep_mint]
  by blast

lemma sent_token_reachable:
  "reachable (\<lambda>s. \<exists>sender. s = deploy_usdc sender) usdc_step (snd (transfer 1 2 5250000 funded_token))"
  by (rule reachable_step [OF funded_token_reachable ustep_transfer])

theorem token_accounts_balance_witness:
  "(\<Sum>a\<in>UNIV. unat (us_balance_of (snd (transfer 1 2 5250000 funded_token)) a)) = 6000000"
  using token_accounts_balance [OF sent_token_reachable]
  by (simp add: transfer_def move_tokens_def and_then_def checked_sub_def checked_add_def funded_token_values word_less_nat_alt
      word_le_nat_alt)

theorem transfer_never_overflows_witness:
  "unat (us_balance_of (snd (transfer 1 2 5250000 funded_token)) 2) = 5250000"
  using transfer_never_overflows [OF funded_token_reachable, where sender = 1 and to = 2 and amount = 5250000]
  by (auto simp: funded_token_values split: prod.splits sum.splits dest!: spec [of _ 2])

end
