(* ===== verification/Token_Settlement.thy ===== *)
theory Token_Settlement
  imports Settlement Test_Usdc
begin

text \<open>
  From Core's ledger to the balances of the token contract: Settlement says what the logs of the
  receipt hold, Test_Usdc says what the contract logs. What joins them is that the node reports as
  logs of the contract only what the call of the transaction emitted.
\<close>

section \<open>Receipts of calls\<close>

definition emitted :: "usdc_token \<Rightarrow> usdc_token \<Rightarrow> usdc_event list" where
  "emitted s s' = drop (length (us_logs s)) (us_logs s')"

text \<open>
  The receipt of a transaction that was a call of the token at \<open>address\<close> in state \<open>s\<close>: a decoded
  Transfer log of that address is an event of the call, \<open>account\<close> being the number that a checksum
  address denotes.
\<close>

definition reports_call ::
    "evm_lib \<Rightarrow> (string \<Rightarrow> eth_address) \<Rightarrow> string \<Rightarrow> raw_receipt \<Rightarrow> (usdc_error + bool) \<times> usdc_token \<Rightarrow> usdc_token \<Rightarrow> bool" where
  "reports_call E account address raw call s \<longleftrightarrow>
     (\<forall>l \<in> set (rc_logs raw). \<forall>a b n.
        el_get_address E (lo_address l) = el_get_address E address \<longrightarrow>
        el_decode_transfer_log E (lo_topics l) (lo_data l) = Some (a, b, n) \<longrightarrow>
        (\<exists>x y w. el_get_address E a = Some x \<and> el_get_address E b = Some y \<and> uint w = n
           \<and> Transfer_event (account x) (account y) w \<in> set (emitted s (snd call))))"

lemma reports_call_moved:
  assumes "reports_call E account address raw call s" and "moved_on_chain E raw address recipient units"
  obtains sender w where "Transfer_event sender (account recipient) w \<in> set (emitted s (snd call))" "uint w = units"
  using assms unfolding reports_call_def moved_on_chain_def by (metis option.inject)

text \<open>Only a transfer that went through emits an event, and it is its own.\<close>

lemma transfer_emitted:
  assumes "reachable (\<lambda>s. \<exists>sender. s = deploy_usdc sender) usdc_step s"
    and "Transfer_event x y w \<in> set (emitted s (snd (transfer sender to amount s)))"
  shows "fst (transfer sender to amount s) = Inr True \<and> x = sender \<and> y = to \<and> w = amount
    \<and> unat (us_balance_of (snd (transfer sender to amount s)) to) + (if to = sender then unat amount else 0)
      = unat (us_balance_of s to) + unat amount"
  using transfer_outcome [OF token.reachable_inv [OF assms(1)], where sender = sender and to = to and amount = amount] assms(2)
  by (cases "transfer sender to amount s") (auto simp: emitted_def split: sum.splits if_splits)

section \<open>Properties\<close>


text \<open>The settled payment of the sample: account 1 pays 5.25 USDC to account 2, which is 0xbob.\<close>

definition sample_account_of :: "string \<Rightarrow> eth_address" where
  "sample_account_of a = (if a = ''0xbob'' then 2 else 1)"

lemma sample_call_reported:
  assumes "get_receipt (pd_evm sample_deps) (Receipt_found (sample_raw_receipt ''0xbob'' ''5250000'')) = Inr (Some raw)"
  shows "reports_call (pd_evm sample_deps) sample_account_of address raw (transfer 1 2 5250000 funded_token) funded_token"
proof -
  have e: "pd_evm sample_deps = sample_evm" by (simp add: sample_deps_def)
  have raw: "raw = sample_raw_receipt ''0xbob'' ''5250000''" using assms settled_receipt by (simp add: e)
  have "emitted funded_token (snd (transfer 1 2 5250000 funded_token)) = [Transfer_event 1 2 5250000]"
    by (simp add: emitted_def transfer_def move_tokens_def and_then_def checked_sub_def checked_add_def funded_token_values
        word_less_nat_alt word_le_nat_alt)
  then show ?thesis
    by (auto simp: e raw reports_call_def sample_raw_receipt_def sample_evm_def sample_lower sample_account_of_def
        digits_value_def digit_value_def)
qed


end
