(* ===== verification/Attestation_Registry.thy ===== *)
theory Attestation_Registry
  imports Chain_Attestation Smart_Account Test_Usdc
begin

text \<open>
  The registry contract (Blockchain/contracts/src/AttestationRegistry.sol) with 256-bit words and a
  64-bit timestamp, and the adapter of Chain_Attestation in front of it: what the chain keeps about
  an execution. A call that reverts leaves the state and its logs as they were.
\<close>

section \<open>State\<close>

type_synonym bytes32 = "256 word"

record attestation_entry =
  en_agent_id :: bytes32
  en_policy_hash :: bytes32
  en_intent_ref :: bytes32
  en_trajectory_root :: bytes32
  en_assessment_hash :: bytes32
  en_decision :: bytes32
  en_transaction_hash :: bytes32
  en_timestamp :: "64 word"
  en_attester :: eth_address
  en_exists :: bool

text \<open>What an untouched slot of the mapping reads as.\<close>

definition zero_entry :: attestation_entry where
  "zero_entry = \<lparr> en_agent_id = 0, en_policy_hash = 0, en_intent_ref = 0, en_trajectory_root = 0,
     en_assessment_hash = 0, en_decision = 0, en_transaction_hash = 0, en_timestamp = 0, en_attester = 0,
     en_exists = False \<rparr>"

datatype registry_event =
    Attested_event bytes32 bytes32 bytes32 bytes32 "64 word"
  | Attester_set eth_address bool

datatype registry_error = Not_owner_error | Not_attester | Already_attested

record registry_state =
  gy_owner :: eth_address
  gy_is_attester :: "eth_address \<Rightarrow> bool"
  gy_attestations :: "bytes32 \<Rightarrow> attestation_entry"
  gy_logs :: "registry_event list"

type_synonym registry_call = "(registry_state, registry_error, unit) op"

definition deploy_registry :: "eth_address \<Rightarrow> registry_state" where
  "deploy_registry sender = \<lparr> gy_owner = sender, gy_is_attester = (\<lambda>_. False)(sender := True),
     gy_attestations = (\<lambda>_. zero_entry), gy_logs = [] \<rparr>"

section \<open>Calls\<close>

definition set_attester :: "eth_address \<Rightarrow> eth_address \<Rightarrow> bool \<Rightarrow> registry_call" where
  "set_attester sender attester allowed s =
     (if sender \<noteq> gy_owner s then (Inl Not_owner_error, s)
      else (Inr (), s\<lparr>gy_is_attester := (gy_is_attester s)(attester := allowed),
              gy_logs := gy_logs s @ [Attester_set attester allowed]\<rparr>))"

text \<open>The seven values next to the execution id, in the order of the arguments.\<close>

record attest_args =
  aa_agent_id :: bytes32
  aa_policy_hash :: bytes32
  aa_intent_ref :: bytes32
  aa_trajectory_root :: bytes32
  aa_assessment_hash :: bytes32
  aa_decision :: bytes32
  aa_transaction_hash :: bytes32

definition entry_of :: "eth_address \<Rightarrow> uint256 \<Rightarrow> attest_args \<Rightarrow> attestation_entry" where
  "entry_of sender block_timestamp v =
     \<lparr> en_agent_id = aa_agent_id v, en_policy_hash = aa_policy_hash v, en_intent_ref = aa_intent_ref v,
       en_trajectory_root = aa_trajectory_root v, en_assessment_hash = aa_assessment_hash v,
       en_decision = aa_decision v, en_transaction_hash = aa_transaction_hash v,
       en_timestamp = ucast block_timestamp, en_attester = sender, en_exists = True \<rparr>"

definition attest_execution :: "eth_address \<Rightarrow> uint256 \<Rightarrow> bytes32 \<Rightarrow> attest_args \<Rightarrow> registry_call" where
  "attest_execution sender block_timestamp execution_id v s =
     (if \<not> gy_is_attester s sender then (Inl Not_attester, s)
      else if en_exists (gy_attestations s execution_id) then (Inl Already_attested, s)
      else (Inr (), s\<lparr>gy_attestations := (gy_attestations s)(execution_id := entry_of sender block_timestamp v),
              gy_logs := gy_logs s @ [Attested_event execution_id (aa_agent_id v) (aa_decision v)
                (aa_transaction_hash v) (ucast block_timestamp)]\<rparr>))"

definition read_attestation :: "bytes32 \<Rightarrow> registry_state \<Rightarrow> attestation_entry" where
  "read_attestation execution_id s = gy_attestations s execution_id"

definition is_attested :: "bytes32 \<Rightarrow> registry_state \<Rightarrow> bool" where
  "is_attested execution_id s = en_exists (gy_attestations s execution_id)"

inductive registry_step :: "registry_state \<Rightarrow> registry_state \<Rightarrow> bool" where
  rstep_set: "registry_step s (snd (set_attester sender attester allowed s))"
| rstep_attest: "registry_step s (snd (attest_execution sender time i v s))"

inductive_cases registry_stepE: "registry_step s s'"

section \<open>Lemmas\<close>

text \<open>The execution ids that the log names, in order.\<close>

definition attested_ids :: "registry_event list \<Rightarrow> bytes32 list" where
  "attested_ids es = List.map_filter (\<lambda>e. case e of Attested_event i _ _ _ _ \<Rightarrow> Some i | Attester_set _ _ \<Rightarrow> None) es"

lemma attested_ids_append [simp]: "attested_ids (es @ fs) = attested_ids es @ attested_ids fs"
  by (simp add: attested_ids_def map_filter_def)

lemma attested_ids_simps [simp]:
  "attested_ids [] = []" "attested_ids [Attester_set a b] = []" "attested_ids [Attested_event i g d t w] = [i]"
  by (simp_all add: attested_ids_def map_filter_def)

text \<open>The log and the mapping say the same: each id once, and the event repeats the entry.\<close>

definition registry_ok :: "registry_state \<Rightarrow> bool" where
  "registry_ok s \<longleftrightarrow> distinct (attested_ids (gy_logs s))
     \<and> (\<forall>i. is_attested i s \<longleftrightarrow> i \<in> set (attested_ids (gy_logs s)))
     \<and> (\<forall>i. \<not> is_attested i s \<longrightarrow> gy_attestations s i = zero_entry)
     \<and> (\<forall>i g d t w. Attested_event i g d t w \<in> set (gy_logs s) \<longrightarrow>
          g = en_agent_id (gy_attestations s i) \<and> d = en_decision (gy_attestations s i)
        \<and> t = en_transaction_hash (gy_attestations s i) \<and> w = en_timestamp (gy_attestations s i))"

lemma attested_event_id: "Attested_event i g d t w \<in> set es \<Longrightarrow> i \<in> set (attested_ids es)"
  by (force simp: attested_ids_def map_filter_def image_iff)

lemma registry_ok_step:
  assumes "registry_ok s" and "registry_step s s'"
  shows "registry_ok s'"
  using assms(2)
proof (cases rule: registry_step.cases)
  case (rstep_set sender attester allowed)
  then show ?thesis using assms(1) by (auto simp: set_attester_def registry_ok_def is_attested_def)
next
  case (rstep_attest sender time i v)
  show ?thesis
  proof (cases "gy_is_attester s sender \<and> \<not> is_attested i s")
    case True
    then have new: "i \<notin> set (attested_ids (gy_logs s))" using assms(1) by (simp add: registry_ok_def)
    then have "Attested_event i g d t w \<notin> set (gy_logs s)" for g d t w using attested_event_id by blast
    then show ?thesis
      using True new assms(1) rstep_attest
      by (auto simp: attest_execution_def registry_ok_def is_attested_def entry_of_def)
  qed (use assms(1) rstep_attest in \<open>auto simp: attest_execution_def is_attested_def\<close>)
qed

lemma registry_ok_event:
  "registry_ok s \<Longrightarrow> Attested_event i g d t w \<in> set (gy_logs s) \<Longrightarrow>
     d = en_decision (gy_attestations s i) \<and> t = en_transaction_hash (gy_attestations s i)"
  unfolding registry_ok_def by blast

lemma registry_ok_deploy: "registry_ok (deploy_registry sender)"
  by (simp add: deploy_registry_def registry_ok_def is_attested_def zero_entry_def)

interpretation registry: invariant_system "\<lambda>s. \<exists>sender. s = deploy_registry sender" registry_step registry_ok
  by unfold_locales (auto intro: registry_ok_deploy registry_ok_step)

text \<open>An entry is written once: no step changes one that exists.\<close>

lemma attested_stays_step:
  "registry_step s s' \<Longrightarrow> is_attested i s \<Longrightarrow> gy_attestations s' i = gy_attestations s i"
  by (auto elim!: registry_stepE simp: set_attester_def attest_execution_def is_attested_def)

lemma attested_stays:
  "registry_step\<^sup>*\<^sup>* s s' \<Longrightarrow> is_attested i s \<Longrightarrow> gy_attestations s' i = gy_attestations s i \<and> is_attested i s'"
proof (induction rule: rtranclp_induct)
  case (step t u)
  then show ?case using attested_stays_step [of t u i] by (simp add: is_attested_def)
qed simp

lemma distinct_count_list: "distinct xs \<Longrightarrow> x \<in> set xs \<Longrightarrow> count_list xs x = 1"
  by (induction xs) (auto simp: count_list_0_iff)

section \<open>The adapter in front of the registry\<close>

text \<open>The ABI reads the eight texts of a commitment as numbers of 256 bits.\<close>

definition word_of_hex :: "string \<Rightarrow> bytes32" where
  "word_of_hex s = of_nat (radix_value 16 (drop 2 s))"

definition args_of :: "commitment \<Rightarrow> attest_args" where
  "args_of c = \<lparr> aa_agent_id = word_of_hex (cm_agent_id c), aa_policy_hash = word_of_hex (cm_policy_hash c),
     aa_intent_ref = word_of_hex (cm_intent_ref c), aa_trajectory_root = word_of_hex (cm_trajectory_root c),
     aa_assessment_hash = word_of_hex (cm_assessment_hash c), aa_decision = word_of_hex (cm_decision c),
     aa_transaction_hash = word_of_hex (cm_transaction_hash c) \<rparr>"

definition execution_key :: "(string \<Rightarrow> string) \<Rightarrow> attestation_input \<Rightarrow> bytes32" where
  "execution_key keccak i = word_of_hex (cm_execution_id (build_commitment keccak i))"

definition attest_input :: "(string \<Rightarrow> string) \<Rightarrow> eth_address \<Rightarrow> uint256 \<Rightarrow> attestation_input \<Rightarrow> registry_call" where
  "attest_input keccak sender time i =
     attest_execution sender time (execution_key keccak i) (args_of (build_commitment keccak i))"

lemma attest_input_step: "registry_step s (snd (attest_input keccak sender time i s))"
  unfolding attest_input_def by (rule rstep_attest)

lemma attest_input_Inr:
  "attest_input keccak sender time i s = (Inr (), s') \<Longrightarrow>
     gy_attestations s' (execution_key keccak i) = entry_of sender time (args_of (build_commitment keccak i))
   \<and> is_attested (execution_key keccak i) s' \<and> gy_is_attester s sender"
  by (auto simp: attest_input_def attest_execution_def is_attested_def entry_of_def split: if_splits)

section \<open>Properties\<close>



end
