(* ===== verification/Spec2Isabelle.thy ===== *)
theory Spec2Isabelle
  imports Decision_Binding Role_Boundary Settlement Stream_Worker Policy_Lifecycle Audit_Log Idempotency Capability
    AI_Intake X402_Payments Smart_Account Chain_Attestation Client_Selection Core_Startup Ai_Client
    Wire_Contracts Contract_Parsing Demo_View Smoke_Run Seeding Domain_Events Token_Settlement
    Attestation_Registry
begin

text \<open>
  A verification development of Orvex: Core, the authority that decides whether an AI agent may pay
  (Backend/src), the execution boundary that pays on chain (Blockchain/src), the contracts on the chain
  (Blockchain/contracts/src), the demo that drives them (Frontend) and the scripts that start a test
  server, a live payment and a smoke test (Backend/scripts, Blockchain/scripts).

  \<^bold>\<open>The program and its parts.\<close> An AI layer, which is Python and outside this development, sends an
  intent, a proposal and a security assessment. Core validates them (AI_Intake, Intake_Service,
  Contract_Parsing), reads the live authority of the agent (Authority, Capability, Policy_Lifecycle),
  evaluates its policy (Policy_Rules, Policy_Engine), checks the transaction and its simulation against
  the proposal (Transaction_Gate) and decides (Orchestrator, Decision_Engine), with a human where the
  policy asks for one (Approval_Engine). Before anything is paid everything is read and decided again,
  the budget is reserved and an execution request is written (Final_Revalidation, Financial_State,
  Idempotency). The execution boundary builds, validates, simulates and broadcasts the transfer
  (Payment_Transaction, Chain_Simulation, Execution_Pipeline), waits for its receipt (Receipts) and
  reports; Core compares the receipt with what it authorized and commits or keeps the reservation
  (Execution_Result, Settlement). Traces, the audit log and attestations record what happened
  (Trajectory, Stream_Worker, Audit_Log, Evidence).

  \<^bold>\<open>Conventions.\<close>
  \<^item> A service method is a function from its arguments and its tables to a result and the new tables:
    \<open>(error_code + 'a) \<times> state\<close>. A table is the list of its rows in creation order. \<open>$transaction\<close> is the
    combinator \<open>transaction\<close>, which drops the writes of a failed body. \<open>findFirst\<close> is \<open>find\<close>, \<open>findMany\<close> is
    \<open>filter\<close>, \<open>update\<close> and \<open>updateMany\<close> are \<open>update_where\<close>. Ids of new rows and the time are arguments.
  \<^item> An exception is a value: an error code of the source, and for one that the source does not
    raise itself \<open>INTERNAL_ERROR\<close> in Core, \<open>XE_uncaught\<close> in the execution boundary, \<open>Thrown_other\<close> at the
    HTTP boundary. Messages are kept only where the code reads them.
  \<^item> \<open>Decimal(38,18)\<close> columns and decimal.js values are rationals; bigint is \<open>int\<close>; amounts on chain are
    \<open>int\<close> with the range of uint256 checked where the ABI codec checks it. Texts are lists of characters,
    JSON values the datatype \<open>json\<close>, documents before parsing the datatype \<open>wire\<close>.
  \<^item> Code outside the repository is an argument. The digest is any function (\<open>sha\<close>, keccak \<open>k\<close>); a
    property that needs it to be free of collisions says so, for the inputs at hand where that is enough
    (\<open>separates\<close>, \<open>digest_separates\<close>). \<open>decimal_lib\<close> are the parser and printer of decimal.js, \<open>clock_lib\<close> is
    Date, \<open>evm_lib\<close> the address and ABI functions of viem with \<open>evm_laws\<close> (checksums, round trips),
    \<open>redis_lib\<close> a consumer group with \<open>redis_laws\<close>, and Zod is a function with \<open>zod_laws\<close> (which values a
    schema accepts) or \<open>zod_parse_laws\<close> (what it makes of them). Every such record or law has an instance
    in a witness. Nodes, signers, bundlers, facilitators, fetch and child processes are functions that
    answer a request.

  \<^bold>\<open>Shared theories.\<close> Orvex_Prelude: effects, JavaScript's truthiness and \<open>??\<close>, lookups and updates of
  tables, printing of integers, \<open>reachable\<close> and the locale \<open>invariant_system\<close>, on which every invariant
  of a component rests through an interpretation. Core_Errors (shared/errors), Money (shared/money.ts),
  Canonical_Json (shared/hash.ts; canonical text is injective up to the order of members), Contracts
  (the objects of shared/contracts as records), Hash_Chain (the locale of tamper-evident chains,
  interpreted for traces and for the audit log), Js_Regex (greedy items of regular expressions, with
  the completeness of \<open>replace\<close>).

  \<^bold>\<open>Core: authority and decision.\<close>
  \<^item> Authority, Capability (domain/companies, agents, constitutions, capabilities): all operations;
    tenants stay apart, and a delegated capability lets through nothing its ancestors refuse.
  \<^item> Policy_Rules, Policy_Engine (policy/rules, policy/engine): every evaluator; the status is FAIL
    exactly when an enabled rule does not permit the context, an arc of the clock for time windows,
    and more rules never relax it.
  \<^item> Policy_Lifecycle (policy/policy.service.ts): versions move along a table of transitions; one active
    version, immutable content.
  \<^item> Transaction_Gate, Decision_Engine (execution-gate/transaction-gate.ts, decision/engine.ts): the
    match of proposal and transaction, the binding of a simulation, the precedence ladder; ALLOW
    exactly when every condition holds, whatever the AI advises; both hashes bind their fields.
  \<^item> Orchestrator, AI_Intake, Intake_Service, Approval_Engine (application, approval, decision): the
    context is assembled from live authority only, references stay in the tenant, an approval is bound
    to one context.
  \<^item> Final_Revalidation, Financial_State, Idempotency (execution-gate, domain/financial): nothing is
    written unless every authority holds at execution time; the totals of an account are the sums of its
    reservations and stay within its limit; a payload executes once and a key is granted once.
  \<^item> Execution_Result, Evidence, Trajectory, Stream_Worker, Audit_Log (execution-gate, audit, trajectory):
    money is committed only on a receipt that agrees; every run acts on the ledger through the financial
    service only, a refinement; stored traces verify and are tamper-evident; a worker that crashes in
    a batch recovers to what the batch would have left.

  \<^bold>\<open>Core: its edge.\<close> Http_Boundary, Gateway, Api_Router (api/http, api/routes/v1.ts): every route over all
  tables; Tenant_Tables and Tenant_Isolation prove that requests of one tenant change nothing another
  one sees. Domain_Events (api/http/events.ts, repositories/prisma.ts) holds the events of the routes as
  log lines, which name the authenticated company whatever a header claims, and the process-wide database
  client. Decision_Binding composes POST /decisions with POST /executions/prepare. Core_Config,
  Core_Logging, Core_Runtime, Core_Startup (config, shared/logging, shared/telemetry, api/health,
  api/middleware, server.ts): configuration fails closed; a log line does not depend on the
  values under sensitive keys, over logged objects that share and cycle. Ai_Client and Client_Selection
  (application/clients, api/http/execution-client-provider.ts): failures are classified, answers are
  validated, and a bootstrapped Core's chain client has no authorized context.

  \<^bold>\<open>The execution boundary.\<close> Base_Units, Chain_Registry, Payment_Transaction, Chain_Simulation, Receipts,
  Execution_Pipeline (shared, chains, rpc, transactions, simulation, receipts, execution): what is
  broadcast is the authorized transfer, checked, simulated and fresh, at most once per idempotency key,
  and a receipt verifies exactly when it holds that transfer. Chain_Config (config, integration): a
  built client reaches Base Sepolia only. X402_Payments and Smart_Account (x402, smart-account): the
  candidate of a 402 answer is executable, and what a bundler gets is the signed, authorized operation.
  Chain_Attestation, Secret_Redaction (attestation, shared/redaction.ts). Wire_Contracts compares the
  contracts the boundary copied from Core with the originals. Settlement joins both sides: what Core
  commits moved on chain.

  \<^bold>\<open>The contracts on chain.\<close> Test_Usdc and Attestation_Registry (Blockchain/contracts/src) keep amounts,
  addresses and identifiers at their width, words of 256, 160 and 256 bits, with the checked arithmetic
  of Solidity 0.8 written out; a call that reverts leaves state and log as they were. The supply is
  the sum of the balances and the events account for every balance; an execution is attested once for
  all, also through the adapter of Chain_Attestation. Token_Settlement joins Settlement with the token:
  when Core commits, the transfer went through and the recipient's balance grew by the authorized units.

  \<^bold>\<open>The demo.\<close> Frontend_Firewall (lib, app/api), Frontend_Demo and Demo_View (components/demo): the routes,
  the view, the page as a state machine and what it shows; the controls the page enables are steps of
  the machine, and a page that shows a confirmed payment can send no other.

  \<^bold>\<open>The scripts.\<close> Live_Payment (Backend/scripts/live-e2e.mjs): the success line is printed only for money
  that moved to the configured recipient. Smoke_Run (Blockchain/scripts/sepolia-smoke.mjs): one broadcast
  at most, on the testnet the node reported. Seeding (live-e2e.mjs and serve-test-core.mjs): the tenants
  the scripts prepare, one through the services and one through the routes, are authorized exactly in the
  window of their capability, and their rules permit exactly payments of at most twenty on Base Sepolia.

  \<^bold>\<open>Bounds and termination.\<close> All definitions are total but one: the wait for a receipt is a
  \<open>partial_function (option)\<close>, used for receipts and for user operations, where \<open>None\<close> is a wait without
  end; it returns whenever the clock reaches the deadline, and so does every call of the pipeline. The redaction of log values counts the nine levels
  (depths 0 to 8) of the source, and its set of visited addresses cuts cycles. No
  other fuel is used.

  \<^bold>\<open>Interleaving.\<close> A service method is one atomic step, as a transaction is, where the source uses one. Where
  it does not and the gap matters, the interleaving is explicit: two racing registrations of a key,
  two appends to the audit log, overlapping calls of the pipeline, a crash inside a batch.

  \<^bold>\<open>What modelling showed.\<close> Theorems that state a defect say so in the text before them; among them: an
  approved payment is never allowed and a decision's own context hash is always refused at preparation;
  activating a policy can point another tenant's agent; an UNKNOWN payment that is reconciled is never
  committed; the chain client of a bootstrapped Core refuses everything; open records of an assessment
  keep forbidden fields; the demo pays whatever the decision was.

  \<^bold>\<open>Not modelled.\<close> The AI services (Python), the deployment scripts and tests of the contracts; the
  landing page, styles, icons, animation and fixed texts of the frontend; PostgreSQL and the migrations
  it runs, signal handlers and the shutdown of the servers; the tests, and the index files that only
  re-export; indexes, cascades and those unique constraints of the schema that no service relies on;
  texts written for humans.
\<close>

end
